(* ===== verification/Prelude.thy ===== *)
theory Prelude
  imports Main
begin

text \<open>
  Shared vocabulary of the development: how Python's exceptions, early returns, strings,
  dictionaries, dates and timestamps are represented, and the generic lemmas about them.

  \<^item> A function that may raise returns a value of \<open>error + 'a\<close>; a guard (a function called
    only to raise) returns the \<open>error option\<close> it raises, \<open>None\<close> when it passes.
  \<^item> Strings are lists of ASCII characters; \<open>py_upper\<close> and \<open>py_strip\<close> are \<open>str.upper\<close> and
    \<open>str.strip\<close> on them.
  \<^item> A timezone-aware \<open>datetime\<close> is the number of microseconds since the UTC epoch, a \<open>date\<close>
    its proleptic Gregorian ordinal (\<open>date.toordinal\<close>).
  \<^item> A JSON-like \<open>Dict[str, Any]\<close> that the code only stores is an association list of
    \<open>json\<close> values.
\<close>

named_theorems guard_simps \<open>unfolding of guards into their conditions\<close>
named_theorems frame_simps \<open>what an operation leaves unchanged\<close>

type_synonym timestamp = int
type_synonym date = int

datatype json =
    JNull
  | JBool bool
  | JInt int
  | JStr string
  | JList "json list"
  | JDict "(string \<times> json) list"

type_synonym json_dict = "(string \<times> json) list"

subsection \<open>Early returns\<close>

text \<open>
  A Python guard \<open>if c1: raise E1; if c2: raise E2; \<dots>\<close> is the list of its conditions with
  what each raises; the first condition that holds wins.
\<close>

fun first_error :: "(bool \<times> 'e) list \<Rightarrow> 'e option" where
  "first_error [] = None"
| "first_error ((c, e) # rest) = (if c then Some e else first_error rest)"

lemma first_error_None_iff [guard_simps]:
  "first_error gs = None \<longleftrightarrow> (\<forall>g \<in> set gs. \<not> fst g)"
  by (induction gs rule: first_error.induct) auto

lemma first_error_append:
  "first_error (xs @ ys) = (case first_error xs of None \<Rightarrow> first_error ys | Some e \<Rightarrow> Some e)"
  by (induction xs rule: first_error.induct) auto

lemma first_error_Some_mem: "first_error gs = Some e \<Longrightarrow> (True, e) \<in> set gs"
  by (induction gs rule: first_error.induct) (auto split: if_splits)

text \<open>Sequencing of guards: the second is only evaluated when the first passes.\<close>

definition and_then :: "'e option \<Rightarrow> 'e option \<Rightarrow> 'e option" where
  "and_then g h = (case g of None \<Rightarrow> h | Some e \<Rightarrow> Some e)"

lemma and_then_None [simp, guard_simps]: "and_then g h = None \<longleftrightarrow> g = None \<and> h = None"
  by (cases g) (auto simp: and_then_def)

lemma and_then_simps [simp]: "and_then None h = h" "and_then (Some e) h = Some e"
  by (simp_all add: and_then_def)

text \<open>A guard in front of a computation, and sequencing of computations that may raise.\<close>

definition guarded :: "'e option \<Rightarrow> 'e + 'a \<Rightarrow> 'e + 'a" where
  "guarded g r = (case g of None \<Rightarrow> r | Some e \<Rightarrow> Inl e)"

definition bind_result :: "'e + 'a \<Rightarrow> ('a \<Rightarrow> 'e + 'b) \<Rightarrow> 'e + 'b" where
  "bind_result r f = (case r of Inl e \<Rightarrow> Inl e | Inr x \<Rightarrow> f x)"

lemma guarded_simps [simp]: "guarded None r = r" "guarded (Some e) r = Inl e"
  by (simp_all add: guarded_def)

lemma guarded_Inr_iff [guard_simps]: "guarded g r = Inr x \<longleftrightarrow> g = None \<and> r = Inr x"
  by (cases g) simp_all

lemma bind_result_simps [simp]: "bind_result (Inl e) f = Inl e" "bind_result (Inr x) f = f x"
  by (simp_all add: bind_result_def)

lemma bind_result_Inr_iff [guard_simps]:
  "bind_result r f = Inr y \<longleftrightarrow> (\<exists>x. r = Inr x \<and> f x = Inr y)"
  by (cases r) simp_all

subsection \<open>Strings\<close>

definition py_upper_char :: "char \<Rightarrow> char" where
  "py_upper_char c =
     (let n = (of_char c :: nat) in if 97 \<le> n \<and> n \<le> 122 then char_of (n - 32) else c)"

definition py_lower_char :: "char \<Rightarrow> char" where
  "py_lower_char c =
     (let n = (of_char c :: nat) in if 65 \<le> n \<and> n \<le> 90 then char_of (n + 32) else c)"

definition py_upper :: "string \<Rightarrow> string" where
  "py_upper s = map py_upper_char s"

definition py_space :: "char \<Rightarrow> bool" where
  "py_space c \<longleftrightarrow> (of_char c :: nat) \<in> {9, 10, 11, 12, 13, 28, 29, 30, 31, 32}"

definition py_strip :: "string \<Rightarrow> string" where
  "py_strip s = rev (dropWhile py_space (rev (dropWhile py_space s)))"

lemma py_upper_char_idem [simp]: "py_upper_char (py_upper_char c) = py_upper_char c"
proof (cases "97 \<le> (of_char c :: nat) \<and> (of_char c :: nat) \<le> 122")
  case True
  then have "(of_char c - 32 :: nat) < 256" by arith
  then have "(of_char (char_of (of_char c - 32 :: nat)) :: nat) = of_char c - 32"
    by simp
  with True show ?thesis by (auto simp: py_upper_char_def Let_def)
next
  case False
  then have "py_upper_char c = c" by (auto simp: py_upper_char_def Let_def)
  then show ?thesis by simp
qed

lemma py_upper_idem [simp]: "py_upper (py_upper s) = py_upper s"
  by (simp add: py_upper_def)

lemma py_upper_Nil [simp]: "py_upper [] = []" "py_upper s = [] \<longleftrightarrow> s = []"
  by (simp_all add: py_upper_def)

lemma py_strip_Nil [simp]: "py_strip [] = []"
  by (simp add: py_strip_def)

lemma dropWhile_dropWhile_rev:
  "dropWhile P (rev (dropWhile P (rev (dropWhile P s)))) = rev (dropWhile P (rev (dropWhile P s)))"
proof (cases "dropWhile P s")
  case (Cons x xs)
  then have "\<not> P x" by (metis dropWhile_eq_Cons_conv)
  then have "dropWhile P (rev (x # xs)) = dropWhile P (rev xs) @ [x]"
    by (induction xs rule: rev_induct) auto
  with Cons \<open>\<not> P x\<close> show ?thesis by simp
next
  case Nil
  show ?thesis unfolding Nil by simp
qed

lemma py_strip_idem [simp]: "py_strip (py_strip s) = py_strip s"
  by (simp add: py_strip_def dropWhile_dropWhile_rev)

lemma py_space_upper [simp]: "py_space (py_upper_char c) = py_space c"
proof (cases "97 \<le> (of_char c :: nat) \<and> (of_char c :: nat) \<le> 122")
  case True
  then have "(of_char c - 32 :: nat) < 256" by arith
  then have "(of_char (py_upper_char c) :: nat) = of_char c - 32"
    using True by (simp add: py_upper_char_def Let_def)
  with True show ?thesis unfolding py_space_def by auto
next
  case False
  then have "py_upper_char c = c" by (auto simp: py_upper_char_def Let_def)
  then show ?thesis by simp
qed

lemma py_strip_upper: "py_strip (py_upper s) = py_upper (py_strip s)"
proof -
  have d: "dropWhile py_space (map py_upper_char t) = map py_upper_char (dropWhile py_space t)" for t
    by (simp add: dropWhile_map comp_def)
  show ?thesis unfolding py_strip_def py_upper_def d rev_map [symmetric] by (simp only: d rev_map)
qed

subsection \<open>Options as Python's optional values\<close>

text \<open>Truthiness of a string or an integer and of their optional forms.\<close>

definition some_text :: "string option \<Rightarrow> bool" where
  "some_text v \<longleftrightarrow> (case v of None \<Rightarrow> False | Some s \<Rightarrow> s \<noteq> [])"

lemma some_text_simps [simp]: "\<not> some_text None" "some_text (Some s) \<longleftrightarrow> s \<noteq> []"
  by (simp_all add: some_text_def)

text \<open>The first element of a list with a property, as \<open>next((x for x in xs if p x), None)\<close>.\<close>

lemma find_Some_mem: "List.find p xs = Some x \<Longrightarrow> x \<in> set xs \<and> p x"
  by (auto simp: find_Some_iff)

text \<open>Order-preserving removal of duplicates: \<open>list(dict.fromkeys(xs))\<close>.\<close>

fun dedup :: "'a list \<Rightarrow> 'a list" where
  "dedup [] = []"
| "dedup (x # xs) = x # dedup (removeAll x xs)"

lemma set_dedup_subset: "set (dedup xs) \<subseteq> set xs"
proof (induction "length xs" arbitrary: xs rule: less_induct)
  case less
  show ?case
  proof (cases xs)
    case (Cons y ys)
    then have "length (removeAll y ys) < length xs"
      by (simp add: le_imp_less_Suc length_removeAll_less_eq)
    with less have "set (dedup (removeAll y ys)) \<subseteq> set (removeAll y ys)" by blast
    with Cons show ?thesis by auto
  qed simp
qed

subsection \<open>Insertion-ordered dictionaries\<close>

text \<open>Setting a key of a Python dictionary keeps its position; a new key goes last.\<close>

fun dict_set :: "'k \<Rightarrow> 'v \<Rightarrow> ('k \<times> 'v) list \<Rightarrow> ('k \<times> 'v) list" where
  "dict_set k v [] = [(k, v)]"
| "dict_set k v ((j, w) # d) = (if j = k then (k, v) # d else (j, w) # dict_set k v d)"

text \<open>The dictionary comprehension \<open>{k: v for \<dots>}\<close>.\<close>

definition py_dict :: "('k \<times> 'v) list \<Rightarrow> ('k \<times> 'v) list" where
  "py_dict kvs = foldl (\<lambda>d (k, v). dict_set k v d) [] kvs"

lemma map_of_dict_set: "map_of (dict_set k v d) = (map_of d)(k \<mapsto> v)"
  by (induction d rule: dict_set.induct) auto

lemma keys_dict_set: "fst ` set (dict_set k v d) = insert k (fst ` set d)"
  by (induction k v d rule: dict_set.induct) auto

lemma distinct_dict_set: "distinct (map fst d) \<Longrightarrow> distinct (map fst (dict_set k v d))"
  using keys_dict_set [of k v] by (induction k v d rule: dict_set.induct) fastforce+

lemma py_dict_snoc: "py_dict (kvs @ [(k, v)]) = dict_set k v (py_dict kvs)"
  by (simp add: py_dict_def)

lemma distinct_py_dict: "distinct (map fst (py_dict kvs))"
  by (induction kvs rule: rev_induct) (auto simp: py_dict_snoc distinct_dict_set, simp add: py_dict_def)

lemma map_of_py_dict: "map_of (py_dict kvs) = map_of (rev kvs)"
proof (induction kvs rule: rev_induct)
  case (snoc kv kvs)
  then show ?case by (cases kv) (simp add: py_dict_snoc map_of_dict_set)
qed (simp add: py_dict_def)

end
