(* ===== verification/Market_Calendar.thy ===== *)
theory Market_Calendar
  imports Prelude
begin

text \<open>
  \<open>src/utils/market_calendar.py\<close>: New York trading days, the session a card is activated for,
  and the next open. A date is its proleptic ordinal (1 is Monday, 1 January of year 1); the
  calendar arithmetic of \<open>datetime.date\<close> the code uses is written out here. A moment in
  exchange time is a date and the microseconds since local midnight; the time zone
  conversion is the zone database's and happens before a moment reaches this model. Years
  outside 1 to 9999, where \<open>datetime\<close> raises, are not special here.
\<close>

subsection \<open>Dates\<close>

definition leap :: "int \<Rightarrow> bool" where
  "leap y \<longleftrightarrow> y mod 4 = 0 \<and> (y mod 100 \<noteq> 0 \<or> y mod 400 = 0)"

definition days_before_year :: "int \<Rightarrow> int" where
  "days_before_year y = (y - 1) * 365 + (y - 1) div 4 - (y - 1) div 100 + (y - 1) div 400"

definition days_before_month :: "int \<Rightarrow> int \<Rightarrow> int" where
  "days_before_month y m =
     (if m = 1 then 0 else if m = 2 then 31 else if m = 3 then 59 else if m = 4 then 90
      else if m = 5 then 120 else if m = 6 then 151 else if m = 7 then 181 else if m = 8 then 212
      else if m = 9 then 243 else if m = 10 then 273 else if m = 11 then 304 else 334)
     + (if 2 < m \<and> leap y then 1 else 0)"

definition date_of :: "int \<Rightarrow> int \<Rightarrow> int \<Rightarrow> date" where
  "date_of y m d = days_before_year y + days_before_month y m + d"

definition weekday :: "date \<Rightarrow> int" where
  "weekday d = (d + 6) mod 7"

text \<open>\<open>date.year\<close>, by the 400, 100, 4 and 1 year cycles.\<close>

definition year_of :: "date \<Rightarrow> int" where
  "year_of d =
     (let n = d - 1; n400 = n div 146097; r400 = n mod 146097;
          n100 = r400 div 36524; r100 = r400 mod 36524;
          n4 = r100 div 1461; r4 = r100 mod 1461; n1 = r4 div 365;
          y = n400 * 400 + n100 * 100 + n4 * 4 + n1 + 1
      in if n1 = 4 \<or> n100 = 4 then y - 1 else y)"

subsection \<open>The holiday rules\<close>

definition nearest_weekday :: "date \<Rightarrow> date" where
  "nearest_weekday d =
     (if weekday d = 5 then d - 1 else if weekday d = 6 then d + 1 else d)"

definition easter_sunday :: "int \<Rightarrow> date" where
  "easter_sunday year =
     (let a = year mod 19; b = year div 100; c = year mod 100;
          d = b div 4; e = b mod 4; f = (b + 8) div 25; g = (b - f + 1) div 3;
          h = (19 * a + b - d - g + 15) mod 30; i = c div 4; k = c mod 4;
          correction = (32 + 2 * e + 2 * i - h - k) mod 7;
          m = (a + 11 * h + 22 * correction) div 451;
          month = (114 + h + correction - 7 * m) div 31;
          day = (114 + h + correction - 7 * m) mod 31
      in date_of year month (day + 1))"

definition nth_weekday :: "int \<Rightarrow> int \<Rightarrow> int \<Rightarrow> int \<Rightarrow> date" where
  "nth_weekday year month wd n =
     (let first = date_of year month 1; delta = (wd - weekday first) mod 7
      in first + (delta + 7 * (n - 1)))"

definition last_weekday :: "int \<Rightarrow> int \<Rightarrow> int \<Rightarrow> date" where
  "last_weekday year month wd =
     (let next_month = (if month = 12 then date_of (year + 1) 1 1 else date_of year (month + 1) 1);
          lst = next_month - 1
      in lst - (weekday lst - wd) mod 7)"

definition nyse_holidays :: "int \<Rightarrow> date list" where
  "nyse_holidays year =
     (let fixed =
        [nearest_weekday (date_of year 1 1), nth_weekday year 1 0 3, nth_weekday year 2 0 3,
         easter_sunday year - 2, last_weekday year 5 0, nearest_weekday (date_of year 6 19),
         nearest_weekday (date_of year 7 4), nth_weekday year 9 0 1, nth_weekday year 11 3 4,
         nearest_weekday (date_of year 12 25)];
          next_new_year = nearest_weekday (date_of (year + 1) 1 1);
          holidays = (if year_of next_new_year = year then fixed @ [next_new_year] else fixed)
      in filter (\<lambda>d. year_of d = year) holidays)"

definition is_nyse_trading_day :: "date \<Rightarrow> bool" where
  "is_nyse_trading_day d \<longleftrightarrow> weekday d < 5 \<and> d \<notin> set (nyse_holidays (year_of d))"

subsection \<open>The calendar year\<close>

lemma div_eqI: "q * k \<le> m \<Longrightarrow> m < q * k + k \<Longrightarrow> m div k = (q::int)"
proof -
  assume a: "q * k \<le> m" "m < q * k + k"
  then have k: "0 < k" by linarith
  have "m div k * k \<le> m" "m < m div k * k + k"
    using k pos_mod_bound [of k m] pos_mod_sign [of k m] div_mult_mod_eq [of m k] by linarith+
  with a have "m div k * k < (q + 1) * k" "q * k < (m div k + 1) * k"
    by (simp_all add: algebra_simps)
  with k show ?thesis by (simp add: mult_less_cancel_right)
qed

lemma div_pred:
  assumes "0 < (k::int)"
  shows "y div k = (y - 1) div k + (if y mod k = 0 then 1 else 0)"
proof (cases "y mod k = 0")
  case True
  then have "y = y div k * k" using div_mult_mod_eq [of y k] by simp
  then have "(y - 1) div k = y div k - 1"
    using assms by (intro div_eqI) (simp_all add: algebra_simps)
  with True show ?thesis by simp
next
  case False
  then have "1 \<le> y mod k" using assms pos_mod_sign [of k y] by linarith
  then have "(y - 1) div k = y div k"
    using assms div_mult_mod_eq [of y k] pos_mod_bound [of k y] by (intro div_eqI) linarith+
  with False show ?thesis by simp
qed

lemma leap_step:
  fixes y :: int
  assumes "q4 = p4 + (if m4 = 0 then 1 else 0)" "q100 = p100 + (if m100 = 0 then 1 else 0)"
    "q400 = p400 + (if m400 = 0 then 1 else 0)" "m400 = 0 \<Longrightarrow> m100 = 0" "m100 = 0 \<Longrightarrow> m4 = 0"
  shows "y * 365 + q4 - q100 + q400 = (y - 1) * 365 + p4 - p100 + p400
    + (if m4 = 0 \<and> (m100 \<noteq> 0 \<or> m400 = 0) then 366 else 365)"
  using assms(4,5) unfolding assms(1-3)
  by (cases "m4 = 0"; cases "m100 = 0"; cases "m400 = 0") simp_all

lemma days_before_year_Suc:
  "days_before_year (y + 1) = days_before_year y + (if leap y then 366 else 365)"
proof -
  have "y mod 400 = 0 \<Longrightarrow> y mod 100 = 0" "y mod 100 = 0 \<Longrightarrow> y mod 4 = 0"
    using dvd_trans [of 100 400 y] dvd_trans [of 4 100 y] by (simp_all add: mod_eq_0_iff_dvd)
  then show ?thesis
    unfolding days_before_year_def leap_def add_diff_cancel_right'
    by (intro leap_step div_pred) simp_all
qed

lemma days_before_year_mono: "y \<le> z \<Longrightarrow> days_before_year y + 365 * (z - y) \<le> days_before_year z"
proof (induction z rule: int_ge_induct)
  case (step i)
  then show ?case using days_before_year_Suc [of i] by (auto split: if_splits)
qed simp

lemma days_before_cycle:
  assumes "0 \<le> b" "b \<le> 3" "0 \<le> c" "c \<le> 24" "0 \<le> e" "e \<le> 3"
  shows "days_before_year (400 * a + 100 * b + 4 * c + e + 1)
      = 146097 * a + 36524 * b + 1461 * c + 365 * e"
proof -
  let ?m = "400 * a + 100 * b + 4 * c + e"
  have "?m div 4 = 100 * a + 25 * b + c" using assms by (intro div_eqI) simp_all
  moreover have "?m div 100 = 4 * a + b" using assms by (intro div_eqI) simp_all
  moreover have "?m div 400 = a" using assms by (intro div_eqI) simp_all
  ultimately show ?thesis by (simp add: days_before_year_def)
qed

lemma leap_end_of_cycle: "leap (400 * a + 400)"
  by (simp add: leap_def)

lemma leap_end_of_four:
  assumes "0 \<le> b" "b \<le> 3" "0 \<le> c" "c < 24"
  shows "leap (400 * a + 100 * b + 4 * c + 4)"
proof -
  have "400 * a + 100 * b + 4 * c + 4 = 4 * (100 * a + 25 * b + c + 1)" by simp
  then have "(400 * a + 100 * b + 4 * c + 4) mod 4 = 0" by presburger
  moreover have "400 * a + 100 * b + 4 * c + 4 = (4 * c + 4) + 100 * (4 * a + b)" by simp
  then have "(400 * a + 100 * b + 4 * c + 4) mod 100 = (4 * c + 4) mod 100"
    by (metis mod_mult_self2)
  with assms have "(400 * a + 100 * b + 4 * c + 4) mod 100 = 4 * c + 4" by simp
  ultimately show ?thesis using assms by (simp add: leap_def)
qed

lemma year_of_bounds:
  "days_before_year (year_of d) < d \<and> d \<le> days_before_year (year_of d + 1)"
proof -
  define n where "n = d - 1"
  define a where "a = n div 146097"
  define r where "r = n mod 146097"
  define b where "b = r div 36524"
  define s where "s = r mod 36524"
  define c where "c = s div 1461"
  define t where "t = s mod 1461"
  define e where "e = t div 365"
  define u where "u = t mod 365"
  note defs = a_def r_def b_def s_def c_def t_def e_def u_def
  have n: "n = 146097 * a + r" "r = 36524 * b + s" "s = 1461 * c + t" "t = 365 * e + u"
    by (simp_all add: defs)
  have bd: "0 \<le> r" "r < 146097" "0 \<le> s" "s < 36524" "0 \<le> t" "t < 1461" "0 \<le> u" "u < 365"
    by (simp_all add: defs)
  have ranges: "0 \<le> b" "b \<le> 4" "0 \<le> c" "c \<le> 24" "0 \<le> e" "e \<le> 4"
    using bd n by linarith+
  have year: "year_of d = (if e = 4 \<or> b = 4 then 400 * a + 100 * b + 4 * c + e
      else 400 * a + 100 * b + 4 * c + e + 1)"
    by (simp add: year_of_def Let_def n_def [symmetric] a_def [symmetric] r_def [symmetric]
        b_def [symmetric] s_def [symmetric] c_def [symmetric] t_def [symmetric] e_def [symmetric])
  consider "b = 4" | "b \<le> 3" "e = 4" | "b \<le> 3" "e \<le> 3" using ranges by linarith
  then show ?thesis
  proof cases
    case 1
    with bd n have "s = 0" by linarith
    then have z: "c = 0" "t = 0" "e = 0" "u = 0" by (simp_all add: defs)
    have y: "year_of d = 400 * a + 100 * 3 + 4 * 24 + 3 + 1" using year 1 z by simp
    have "leap (year_of d)" using leap_end_of_cycle [of a] by (simp add: y add.commute)
    with days_before_cycle [of 3 24 3 a] y z 1 n \<open>s = 0\<close> days_before_year_Suc [of "year_of d"]
    show ?thesis by (simp add: n_def)
  next
    case 2
    with bd n have u: "u = 0" by linarith
    with 2 bd n have c: "c < 24" by linarith
    have y: "year_of d = 400 * a + 100 * b + 4 * c + 3 + 1" using year 2 by simp
    have "leap (year_of d)" using leap_end_of_four [of b c a] ranges 2 c by (simp add: y ac_simps)
    with days_before_cycle [of b c 3 a] y u n ranges 2 days_before_year_Suc [of "year_of d"]
    show ?thesis by (simp add: n_def)
  next
    case 3
    with ranges days_before_cycle [of b c e a] year n
    have "days_before_year (year_of d) = n - u" by simp
    with bd days_before_year_Suc [of "year_of d"] show ?thesis
      by (auto simp: n_def split: if_splits)
  qed
qed

lemma days_before_year_le: "y \<le> z \<Longrightarrow> days_before_year y \<le> days_before_year z"
  using days_before_year_mono [of y z] by simp

lemma year_of_unique:
  assumes "days_before_year y < d" "d \<le> days_before_year (y + 1)"
  shows "year_of d = y"
proof (cases "year_of d" y rule: linorder_cases)
  case less
  then have "days_before_year (year_of d + 1) \<le> days_before_year y"
    by (intro days_before_year_le) simp
  with assms year_of_bounds [of d] show ?thesis by simp
next
  case greater
  then have "days_before_year (y + 1) \<le> days_before_year (year_of d)"
    by (intro days_before_year_le) simp
  with assms year_of_bounds [of d] show ?thesis by simp
qed

lemma year_of_near:
  assumes "d \<le> d'" "d' \<le> d + 365"
  shows "year_of d' = year_of d \<or> year_of d' = year_of d + 1"
proof -
  have "d' \<le> days_before_year (year_of d + 1 + 1)"
    using assms year_of_bounds [of d] days_before_year_Suc [of "year_of d + 1"]
    by (auto split: if_splits)
  then show ?thesis
    using assms year_of_bounds [of d] year_of_unique [of "year_of d" d']
      year_of_unique [of "year_of d + 1" d'] by fastforce
qed

subsection \<open>A trading day is never far away\<close>

lemma holidays_of_year_card: "card (set (nyse_holidays y)) \<le> 11"
proof -
  have "length (nyse_holidays y) \<le> 11"
    unfolding nyse_holidays_def Let_def by (rule order_trans [OF length_filter_le]) simp
  with card_length [of "nyse_holidays y"] show ?thesis by linarith
qed

text \<open>The \<open>k\<close>-th weekday counted from a Monday.\<close>

definition kth_weekday :: "date \<Rightarrow> nat \<Rightarrow> date" where
  "kth_weekday monday k = monday + (7 * int (k div 5) + int (k mod 5))"

lemma kth_weekday_inj: "inj (kth_weekday monday)"
proof (rule injI)
  fix i j
  assume "kth_weekday monday i = kth_weekday monday j"
  then have e: "7 * (i div 5) + i mod 5 = 7 * (j div 5) + j mod 5"
    unfolding kth_weekday_def by linarith
  moreover have "i mod 5 < 5" "j mod 5 < 5" by simp_all
  ultimately have "i div 5 = j div 5" by linarith
  moreover from this e have "i mod 5 = j mod 5" by simp
  ultimately show "i = j" by (metis div_mult_mod_eq)
qed

lemma weekday_kth: "weekday monday = 0 \<Longrightarrow> weekday (kth_weekday monday k) < 5"
proof -
  assume m: "weekday monday = 0"
  have "weekday (kth_weekday monday k) = ((monday + 6) + int (k mod 5) + 7 * int (k div 5)) mod 7"
    unfolding weekday_def kth_weekday_def by (simp add: algebra_simps)
  also have "\<dots> = ((monday + 6) + int (k mod 5)) mod 7" by (rule mod_mult_self2)
  also have "\<dots> = ((monday + 6) mod 7 + int (k mod 5)) mod 7" by (simp add: mod_add_left_eq)
  also have "\<dots> = int (k mod 5) mod 7" using m unfolding weekday_def by simp
  finally show ?thesis by (simp add: zmod_int)
qed

lemma trading_day_after_monday:
  assumes "weekday monday = 0"
  shows "\<exists>k < 23. is_nyse_trading_day (kth_weekday monday k)"
proof (rule ccontr)
  assume no: "\<not> ?thesis"
  let ?y = "year_of monday" and ?days = "kth_weekday monday ` {..<23::nat}"
  have "?days \<subseteq> set (nyse_holidays ?y) \<union> set (nyse_holidays (?y + 1))"
  proof
    fix d assume "d \<in> ?days"
    then obtain k where k: "d = kth_weekday monday k" "k < 23" by auto
    then have "k div 5 \<le> 4" "k mod 5 < 5" by simp_all
    then have "monday \<le> d" "d \<le> monday + 365" unfolding k kth_weekday_def by simp_all
    with year_of_near have "year_of d = ?y \<or> year_of d = ?y + 1" by simp
    moreover have "d \<in> set (nyse_holidays (year_of d))"
      using no k weekday_kth [OF assms] unfolding is_nyse_trading_day_def by auto
    ultimately show "d \<in> set (nyse_holidays ?y) \<union> set (nyse_holidays (?y + 1))" by auto
  qed
  then have "card ?days \<le> card (set (nyse_holidays ?y) \<union> set (nyse_holidays (?y + 1)))"
    by (intro card_mono) auto
  also have "\<dots> \<le> 22"
    using card_Un_le [of "set (nyse_holidays ?y)" "set (nyse_holidays (?y + 1))"]
      holidays_of_year_card [of ?y] holidays_of_year_card [of "?y + 1"] by linarith
  finally show False
    using card_image [OF inj_on_subset [OF kth_weekday_inj [of monday]], of "{..<23}"] by simp
qed

lemma kth_weekday_range: "k < 23 \<Longrightarrow> monday \<le> kth_weekday monday k \<and> kth_weekday monday k \<le> monday + 32"
proof -
  assume "k < 23"
  then have "k div 5 \<le> 4" "k mod 5 < 5" by simp_all
  then show ?thesis unfolding kth_weekday_def by simp
qed

lemma weekday_of_next_monday: "weekday (d + (6 - weekday d) + 1) = 0"
proof -
  have "d + (6 - weekday d) + 1 + 6 = (d + 6 - (d + 6) mod 7) + 7" by (simp add: weekday_def)
  also have "\<dots> mod 7 = 0" by (simp add: minus_mod_eq_mult_div)
  finally show ?thesis unfolding weekday_def [of "_ + _"] by simp
qed

lemma weekday_range: "0 \<le> weekday d" "weekday d \<le> 6"
  using pos_mod_bound [of 7 "d + 6"] by (simp_all add: weekday_def)

lemma trading_day_ahead: "\<exists>k \<le> 39. is_nyse_trading_day (d + int k)"
proof -
  let ?monday = "d + (6 - weekday d) + 1"
  obtain k where k: "k < 23" "is_nyse_trading_day (kth_weekday ?monday k)"
    using trading_day_after_monday [OF weekday_of_next_monday] by blast
  define j where "j = nat (kth_weekday ?monday k - d)"
  have "d + int j = kth_weekday ?monday k" "j \<le> 39"
    using kth_weekday_range [OF k(1), of ?monday] weekday_range [of d] by (auto simp: j_def)
  with k(2) show ?thesis by (intro exI [of _ j]) simp
qed

lemma trading_day_behind: "\<exists>k \<le> 40. is_nyse_trading_day (d - int k)"
proof -
  obtain k where k: "k \<le> 39" "is_nyse_trading_day ((d - 40) + int k)"
    using trading_day_ahead [of "d - 40"] by auto
  then have "is_nyse_trading_day (d - int (40 - k))" by (simp add: of_nat_diff algebra_simps)
  then show ?thesis by (intro exI [of _ "40 - k"]) simp
qed

subsection \<open>Rolling to a trading day\<close>

function next_nyse_trading_day :: "date \<Rightarrow> date" where
  "next_nyse_trading_day d = (if is_nyse_trading_day d then d else next_nyse_trading_day (d + 1))"
  by auto
termination
proof (relation "measure (\<lambda>d. LEAST k. is_nyse_trading_day (d + int k))", goal_cases)
  case (2 d)
  obtain k where "is_nyse_trading_day (d + int k)" using trading_day_ahead by blast
  from Least_Suc [of "\<lambda>k. is_nyse_trading_day (d + int k)", OF this] 2 show ?case
    by (simp add: add.assoc)
qed simp

function previous_nyse_trading_day :: "date \<Rightarrow> date" where
  "previous_nyse_trading_day d =
     (if is_nyse_trading_day d then d else previous_nyse_trading_day (d - 1))"
  by auto
termination
proof (relation "measure (\<lambda>d. LEAST k. is_nyse_trading_day (d - int k))", goal_cases)
  case (2 d)
  obtain k where "is_nyse_trading_day (d - int k)" using trading_day_behind by blast
  from Least_Suc [of "\<lambda>k. is_nyse_trading_day (d - int k)", OF this] 2 show ?case
    by (simp add: diff_diff_eq)
qed simp

declare next_nyse_trading_day.simps [simp del] previous_nyse_trading_day.simps [simp del]

lemma next_nyse_trading_day_least:
  "is_nyse_trading_day (next_nyse_trading_day d) \<and> d \<le> next_nyse_trading_day d
   \<and> (\<forall>e. d \<le> e \<and> e < next_nyse_trading_day d \<longrightarrow> \<not> is_nyse_trading_day e)"
proof (induction d rule: next_nyse_trading_day.induct)
  case (1 d)
  show ?case
  proof (cases "is_nyse_trading_day d")
    case True
    then show ?thesis by (auto simp: next_nyse_trading_day.simps [of d])
  next
    case False
    then have "next_nyse_trading_day d = next_nyse_trading_day (d + 1)"
      by (simp add: next_nyse_trading_day.simps [of d])
    with 1 [OF False] False show ?thesis
      by (metis add1_zle_eq order_le_less zle_add1_eq_le zless_add1_eq)
  qed
qed

lemma previous_nyse_trading_day_greatest:
  "is_nyse_trading_day (previous_nyse_trading_day d) \<and> previous_nyse_trading_day d \<le> d
   \<and> (\<forall>e. previous_nyse_trading_day d < e \<and> e \<le> d \<longrightarrow> \<not> is_nyse_trading_day e)"
proof (induction d rule: previous_nyse_trading_day.induct)
  case (1 d)
  show ?case
  proof (cases "is_nyse_trading_day d")
    case True
    then show ?thesis by (auto simp: previous_nyse_trading_day.simps [of d])
  next
    case False
    then have e: "previous_nyse_trading_day d = previous_nyse_trading_day (d - 1)"
      by (simp add: previous_nyse_trading_day.simps [of d])
    have "\<not> is_nyse_trading_day x" if "previous_nyse_trading_day d < x" "x \<le> d" for x
      using 1 [OF False] False that unfolding e by (cases "x = d") auto
    with 1 [OF False] show ?thesis unfolding e by auto
  qed
qed

lemma next_nyse_trading_day_near: "next_nyse_trading_day d \<le> d + 39"
proof -
  obtain k where "k \<le> 39" "is_nyse_trading_day (d + int k)" using trading_day_ahead by blast
  with next_nyse_trading_day_least [of d] show ?thesis by (cases "d + int k < next_nyse_trading_day d") auto
qed

subsection \<open>Sessions\<close>

text \<open>A moment of exchange time: the date, and the microseconds since midnight.\<close>

type_synonym moment = "date \<times> int"

definition clock :: "int \<Rightarrow> int \<Rightarrow> int" where
  "clock hours minutes = (hours * 60 + minutes) * 60 * 1000000"

definition US_MARKET_OPEN_TIME :: int where "US_MARKET_OPEN_TIME = clock 9 30"
definition US_MARKET_CLOSE_TIME :: int where "US_MARKET_CLOSE_TIME = clock 16 0"
definition US_MARKET_EARLY_CLOSE_TIME :: int where "US_MARKET_EARLY_CLOSE_TIME = clock 13 0"
definition MARKET_DATA_READY_TIME_KST :: int where "MARKET_DATA_READY_TIME_KST = clock 7 0"

definition nyse_regular_session_close_time :: "date \<Rightarrow> int" where
  "nyse_regular_session_close_time day =
     (let year = year_of day;
          early = day = nth_weekday year 11 3 4 + 1
            \<or> (day = date_of year 12 24 \<and> weekday day < 5)
            \<or> (day = date_of year 7 3 \<and> weekday day < 5 \<and> day \<notin> set (nyse_holidays year))
      in if early then US_MARKET_EARLY_CLOSE_TIME else US_MARKET_CLOSE_TIME)"

definition is_regular_session_open :: "moment \<Rightarrow> bool" where
  "is_regular_session_open now \<longleftrightarrow> is_nyse_trading_day (fst now)
     \<and> US_MARKET_OPEN_TIME \<le> snd now \<and> snd now < nyse_regular_session_close_time (fst now)"

definition current_or_next_nyse_session_date :: "moment \<Rightarrow> date" where
  "current_or_next_nyse_session_date now =
     (if is_nyse_trading_day (fst now) \<and> snd now < nyse_regular_session_close_time (fst now)
      then fst now else next_nyse_trading_day (fst now + 1))"

definition moment_less :: "moment \<Rightarrow> moment \<Rightarrow> bool" where
  "moment_less a b \<longleftrightarrow> fst a < fst b \<or> (fst a = fst b \<and> snd a < snd b)"

text \<open>The loop of at most 370 candidate days; \<open>None\<close> is its \<open>RuntimeError\<close>.\<close>

fun session_open_scan :: "nat \<Rightarrow> moment \<Rightarrow> date \<Rightarrow> moment option" where
  "session_open_scan 0 now candidate = None"
| "session_open_scan (Suc n) now candidate =
     (if is_nyse_trading_day candidate \<and> moment_less now (candidate, US_MARKET_OPEN_TIME)
      then Some (candidate, US_MARKET_OPEN_TIME)
      else session_open_scan n now (candidate + 1))"

definition next_nyse_regular_session_open :: "moment \<Rightarrow> moment option" where
  "next_nyse_regular_session_open now = session_open_scan 370 now (fst now)"

definition microseconds_between :: "moment \<Rightarrow> moment \<Rightarrow> int" where
  "microseconds_between a b = (fst b - fst a) * clock 24 0 + (snd b - snd a)"

definition until_nyse_regular_session_open :: "moment \<Rightarrow> int option" where
  "until_nyse_regular_session_open now =
     map_option (\<lambda>opens. max 0 (microseconds_between now opens)) (next_nyse_regular_session_open now)"

definition until_regular_session_close :: "moment \<Rightarrow> int" where
  "until_regular_session_close now =
     microseconds_between now (fst now, nyse_regular_session_close_time (fst now))"

text \<open>The argument is the moment in Korean time.\<close>

definition expected_latest_market_data_date :: "moment \<Rightarrow> date" where
  "expected_latest_market_data_date kst_now =
     (let candidate = fst kst_now - 1
      in previous_nyse_trading_day
           (if snd kst_now < MARKET_DATA_READY_TIME_KST then candidate - 1 else candidate))"

lemmas clock_simps = clock_def US_MARKET_OPEN_TIME_def US_MARKET_CLOSE_TIME_def
  US_MARKET_EARLY_CLOSE_TIME_def MARKET_DATA_READY_TIME_KST_def

lemma session_open_scan_finds:
  assumes "is_nyse_trading_day (c + int k) \<and> moment_less now (c + int k, US_MARKET_OPEN_TIME)"
    "{j. j < k \<and> is_nyse_trading_day (c + int j) \<and> moment_less now (c + int j, US_MARKET_OPEN_TIME)} = {}"
    "k < n"
  shows "session_open_scan n now c = Some (c + int k, US_MARKET_OPEN_TIME)"
  using assms
proof (induction k arbitrary: n c)
  case 0
  then show ?case by (cases n) simp_all
next
  case (Suc k)
  then obtain m where n: "n = Suc m" by (cases n) auto
  have "\<not> (is_nyse_trading_day c \<and> moment_less now (c, US_MARKET_OPEN_TIME))"
    using Suc.prems(2) by (auto dest: spec [of _ 0])
  moreover have "{j. j < k \<and> is_nyse_trading_day (c + 1 + int j)
      \<and> moment_less now (c + 1 + int j, US_MARKET_OPEN_TIME)} = {}" (is "?later = {}")
  proof -
    have "Suc ` ?later \<subseteq> {j. j < Suc k \<and> is_nyse_trading_day (c + int j)
        \<and> moment_less now (c + int j, US_MARKET_OPEN_TIME)}"
      by (auto simp: add.assoc)
    with Suc.prems(2) show ?thesis by auto
  qed
  ultimately show ?case
    using Suc.IH [of "c + 1" m] Suc.prems(1,3) by (simp add: n algebra_simps)
qed

lemma holiday_years: "e \<in> set (nyse_holidays y) \<Longrightarrow> year_of e = y"
  unfolding nyse_holidays_def Let_def by simp

lemma session_not_over_iff:
  "is_regular_session_open now \<Longrightarrow> current_or_next_nyse_session_date now = fst now"
  unfolding is_regular_session_open_def current_or_next_nyse_session_date_def by simp

text \<open>A newly activated card always gets a session to trade in. The session date is an
  NYSE trading day, not before today, and its regular session is not already over; no earlier
  trading day from today on qualifies; and it is at most 40 calendar days away.\<close>

theorem session_date_is_first_open_session:
  "is_nyse_trading_day (current_or_next_nyse_session_date now)
   \<and> fst now \<le> current_or_next_nyse_session_date now
   \<and> current_or_next_nyse_session_date now \<le> fst now + 40
   \<and> moment_less now (current_or_next_nyse_session_date now,
        nyse_regular_session_close_time (current_or_next_nyse_session_date now))
   \<and> {e. fst now \<le> e \<and> e < current_or_next_nyse_session_date now \<and> is_nyse_trading_day e
        \<and> moment_less now (e, nyse_regular_session_close_time e)} = {}"
proof (cases "is_nyse_trading_day (fst now) \<and> snd now < nyse_regular_session_close_time (fst now)")
  case True
  then show ?thesis by (auto simp: current_or_next_nyse_session_date_def moment_less_def)
next
  case False
  let ?d = "next_nyse_trading_day (fst now + 1)"
  have d: "current_or_next_nyse_session_date now = ?d"
    using False by (auto simp: current_or_next_nyse_session_date_def)
  note l = next_nyse_trading_day_least [of "fst now + 1"]
  have "\<not> (is_nyse_trading_day e \<and> moment_less now (e, nyse_regular_session_close_time e))"
    if "fst now \<le> e" "e < ?d" for e
    using False l that by (cases "e = fst now") (auto simp: moment_less_def)
  then show ?thesis
    unfolding d using l next_nyse_trading_day_near [of "fst now + 1"] by (auto simp: moment_less_def)
qed

text \<open>(C36) The bounded search for the next open always succeeds: the \<open>RuntimeError\<close> after 370
  days cannot happen. What it finds is the 09:30 open of a trading day strictly in the future,
  and no earlier trading day opens after the moment asked about.\<close>

theorem next_open_always_found:
  "\<exists>d. next_nyse_regular_session_open now = Some (d, US_MARKET_OPEN_TIME)
     \<and> is_nyse_trading_day d \<and> moment_less now (d, US_MARKET_OPEN_TIME) \<and> d \<le> fst now + 40
     \<and> {e. e < d \<and> is_nyse_trading_day e \<and> moment_less now (e, US_MARKET_OPEN_TIME)} = {}"
proof -
  let ?P = "\<lambda>k. is_nyse_trading_day (fst now + int k)
    \<and> moment_less now (fst now + int k, US_MARKET_OPEN_TIME)"
  obtain j where "j \<le> 39" "is_nyse_trading_day (fst now + 1 + int j)"
    using trading_day_ahead by blast
  then have j: "?P (Suc j)" "Suc j \<le> 40" by (simp_all add: moment_less_def add.assoc)
  define k where "k = (LEAST k. ?P k)"
  have k: "?P k" "k \<le> 40" "{i. i < k \<and> ?P i} = {}"
    using LeastI [of ?P, OF j(1)] Least_le [of ?P, OF j(1)] j(2) not_less_Least [of _ ?P]
    unfolding k_def by auto
  have "next_nyse_regular_session_open now = Some (fst now + int k, US_MARKET_OPEN_TIME)"
    unfolding next_nyse_regular_session_open_def
    using session_open_scan_finds [of "fst now" k now 370] k by simp
  moreover have "\<not> (is_nyse_trading_day e \<and> moment_less now (e, US_MARKET_OPEN_TIME))"
    if "e < fst now + int k" for e
  proof
    assume e: "is_nyse_trading_day e \<and> moment_less now (e, US_MARKET_OPEN_TIME)"
    then have "fst now \<le> e" by (auto simp: moment_less_def)
    with e that have "nat (e - fst now) \<in> {i. i < k \<and> ?P i}" by auto
    with k(3) show False by blast
  qed
  ultimately show ?thesis using k by (intro exI [of _ "fst now + int k"]) auto
qed

text \<open>The expected latest cached session is a completed one. It is a trading day strictly
  before today's Korean date, before yesterday's when asked before 07:00, and the last such
  trading day.\<close>

theorem expected_data_date_is_last_completed:
  "is_nyse_trading_day (expected_latest_market_data_date kst_now)
   \<and> expected_latest_market_data_date kst_now < fst kst_now
   \<and> {e. expected_latest_market_data_date kst_now < e \<and> is_nyse_trading_day e
        \<and> (e < fst kst_now - 1 \<or> (e = fst kst_now - 1 \<and> MARKET_DATA_READY_TIME_KST \<le> snd kst_now))} = {}"
  using previous_nyse_trading_day_greatest [of "fst kst_now - 1"]
    previous_nyse_trading_day_greatest [of "fst kst_now - 1 - 1"]
  by (auto simp: expected_latest_market_data_date_def Let_def)

text \<open>The calendar at known dates of 2026: New Year, Good Friday, the Independence Day closure
  observed on Friday, an early close, and a rolled session date.\<close>

lemma calendar_2026:
  "\<not> is_nyse_trading_day (date_of 2026 1 1) \<and> \<not> is_nyse_trading_day (date_of 2026 4 3)
   \<and> \<not> is_nyse_trading_day (date_of 2026 7 3) \<and> is_nyse_trading_day (date_of 2026 7 2)
   \<and> nyse_regular_session_close_time (date_of 2026 11 27) = clock 13 0
   \<and> nyse_regular_session_close_time (date_of 2026 7 2) = clock 16 0"
  by code_simp

end
