(* ===== verification/Py_Float.thy ===== *)
theory Py_Float
  imports Complex_Main Prelude
begin

text \<open>
  Python's \<open>float\<close>: IEEE 754 binary64 with round-to-nearest, ties-to-even. A finite value is
  the rational number it denotes; the two infinities and NaN are values of their own. The
  two zeros are one value, which no comparison and no operation the program uses can tell
  apart. \<open>rnd64\<close> rounds a rational to the nearest double by computation (the exponent by
  integer logarithm, the significand by rounding half to even), so every arithmetic
  operation of the model is the exact operation followed by \<open>rnd64\<close>, as IEEE demands. The
  laws the components rely on are those of the locale \<open>rounding\<close>.
\<close>

subsection \<open>The rounding interface\<close>

locale rounding =
  fixes rnd :: "'a::linordered_field \<Rightarrow> 'a"
  assumes mono: "x \<le> y \<Longrightarrow> rnd x \<le> rnd y"
    and zero: "rnd 0 = 0"
    and idem: "rnd (rnd x) = rnd x"
begin

lemma nonneg: "0 \<le> x \<Longrightarrow> 0 \<le> rnd x"
  using mono [of 0 x] by (simp add: zero)

lemma nonpos: "x \<le> 0 \<Longrightarrow> rnd x \<le> 0"
  using mono [of x 0] by (simp add: zero)

lemma le_fixed: "rnd z = z \<Longrightarrow> x \<le> z \<Longrightarrow> rnd x \<le> z"
  using mono [of x z] by simp

lemma ge_fixed: "rnd z = z \<Longrightarrow> z \<le> x \<Longrightarrow> z \<le> rnd x"
  using mono [of z x] by simp

lemma add_ge: "rnd x = x \<Longrightarrow> 0 \<le> y \<Longrightarrow> x \<le> rnd (x + y)"
  by (rule ge_fixed) simp_all

lemma diff_le: "rnd x = x \<Longrightarrow> 0 \<le> y \<Longrightarrow> rnd (x - y) \<le> x"
  by (rule le_fixed) simp_all

lemma diff_nonneg_iff:
  "rnd x = x \<Longrightarrow> rnd y = y \<Longrightarrow> x \<ge> y \<Longrightarrow> 0 \<le> rnd (x - y)"
  by (rule nonneg) simp

lemma scale_le: "rnd x = x \<Longrightarrow> 0 \<le> x \<Longrightarrow> f \<le> 1 \<Longrightarrow> rnd (x * f) \<le> x"
  by (rule le_fixed) (auto intro: mult_left_le)

end

subsection \<open>Integer logarithms and rounding half to even\<close>

fun nlog2 :: "nat \<Rightarrow> nat" where
  "nlog2 n = (if n < 2 then 0 else Suc (nlog2 (n div 2)))"

declare nlog2.simps [simp del]

lemma nlog2_bounds: "0 < n \<Longrightarrow> 2 ^ nlog2 n \<le> n \<and> n < 2 ^ Suc (nlog2 n)"
proof (induction n rule: nlog2.induct)
  case (1 n)
  show ?case
  proof (cases "n < 2")
    case True
    with "1.prems" show ?thesis by (subst (1 2) nlog2.simps) simp
  next
    case False
    with "1.IH" have "2 ^ nlog2 (n div 2) \<le> n div 2" "n div 2 < 2 ^ Suc (nlog2 (n div 2))"
      by auto
    with False show ?thesis by (subst (1 2) nlog2.simps) (simp, linarith)
  qed
qed

definition clog2 :: "nat \<Rightarrow> nat" where
  "clog2 n = (if n \<le> 1 then 0 else Suc (nlog2 (n - 1)))"

lemma clog2_upper: "n \<le> 2 ^ clog2 n"
  using nlog2_bounds [of "n - 1"] by (auto simp: clog2_def)

lemma clog2_lower: "1 < n \<Longrightarrow> 2 ^ clog2 n < 2 * n"
  using nlog2_bounds [of "n - 1"] by (auto simp: clog2_def)

definition two_pow :: "int \<Rightarrow> rat" where
  "two_pow e = (if 0 \<le> e then 2 ^ nat e else 1 / 2 ^ nat (- e))"

lemma two_pow_pos [simp]: "0 < two_pow e"
  by (simp add: two_pow_def)

lemma two_pow_nonzero [simp]: "two_pow e \<noteq> 0"
  using two_pow_pos [of e] by linarith

lemma two_pow_powi: "two_pow e = 2 powi e"
  by (auto simp: two_pow_def power_int_def field_simps)

lemma two_pow_add: "two_pow (a + b) = two_pow a * two_pow b"
  by (simp add: two_pow_powi power_int_add)

lemma two_pow_mono: "a \<le> b \<Longrightarrow> two_pow a \<le> two_pow b"
  by (simp add: two_pow_powi power_int_increasing)

lemma two_pow_nat: "two_pow (int n) = of_int (2 ^ n)"
  by (simp add: two_pow_def)

definition ilog2 :: "rat \<Rightarrow> int" where
  "ilog2 x = (if 1 \<le> x then int (nlog2 (nat \<lfloor>x\<rfloor>)) else - int (clog2 (nat \<lceil>1 / x\<rceil>)))"

lemma ilog2_bounds:
  assumes "0 < x"
  shows "two_pow (ilog2 x) \<le> x" "x < two_pow (ilog2 x + 1)"
proof -
  have "two_pow (ilog2 x) \<le> x \<and> x < two_pow (ilog2 x + 1)"
  proof (cases "1 \<le> x")
    case True
    define n where "n = nat \<lfloor>x\<rfloor>"
    have n: "0 < n" "of_int (int n) \<le> x" "x < of_int (int n) + 1"
      using True by (auto simp: n_def le_floor_iff) linarith
    have b: "2 ^ nlog2 n \<le> n" "n + 1 \<le> 2 ^ Suc (nlog2 n)"
      using nlog2_bounds [OF n(1)] by auto
    have lo: "(2::rat) ^ nlog2 n \<le> of_nat n" using b(1) by (metis of_nat_le_iff of_nat_numeral of_nat_power)
    have hi: "(of_nat n :: rat) + 1 \<le> 2 ^ Suc (nlog2 n)"
      using b(2) by (metis Suc_eq_plus1 add.commute of_nat_Suc of_nat_le_iff of_nat_numeral of_nat_power)
    have "of_nat n \<le> x" "x < of_nat n + 1" using n by simp_all
    then have "2 ^ nlog2 n \<le> x \<and> x < 2 ^ Suc (nlog2 n)"
      using order_trans [OF lo] less_le_trans [OF _ hi] by blast
    then show ?thesis
      using True by (simp add: ilog2_def two_pow_def nat_add_distrib flip: n_def)
  next
    case False
    define n where "n = nat \<lceil>1 / x\<rceil>"
    have gt: "1 < 1 / x" using False assms by simp
    then have "1 < \<lceil>1 / x\<rceil>" by (simp add: less_ceiling_iff)
    then have n: "1 < n" "1 / x \<le> of_nat n" "of_nat n < 1 / x + 1"
      by (auto simp: n_def) linarith
    have u: "(of_nat n :: rat) \<le> 2 ^ clog2 n"
      using clog2_upper [of n] by (metis of_nat_le_iff of_nat_numeral of_nat_power)
    obtain k where k: "clog2 n = Suc k" using n(1) by (simp add: clog2_def)
    have "2 ^ k + 1 \<le> n" using clog2_lower [OF n(1)] k by simp
    then have "(of_nat (2 ^ k + 1) :: rat) \<le> of_nat n" by (simp only: of_nat_le_iff)
    then have "(2::rat) ^ k + 1 \<le> of_nat n" by simp
    then have l: "(2::rat) ^ k < 1 / x" using n(3) by linarith
    have "1 / x \<le> 2 ^ clog2 n" using n(2) u by linarith
    then have "1 / 2 ^ clog2 n \<le> x" using assms by (simp add: field_simps)
    moreover have "x < 1 / 2 ^ k" using l assms by (simp add: field_simps)
    moreover have "ilog2 x = - int (Suc k)" using False k by (simp add: ilog2_def flip: n_def)
    moreover have "two_pow (- int (Suc k)) = 1 / 2 ^ Suc k" "two_pow (- int (Suc k) + 1) = 1 / 2 ^ k"
      by (auto simp: two_pow_def nat_add_distrib)
    ultimately show ?thesis using k by simp
  qed
  then show "two_pow (ilog2 x) \<le> x" "x < two_pow (ilog2 x + 1)" by auto
qed

lemma two_pow_less_iff: "two_pow a < two_pow b \<longleftrightarrow> a < b"
proof
  assume "two_pow a < two_pow b"
  then show "a < b" using two_pow_mono [of b a] by (meson leI not_le)
next
  assume "a < b"
  then show "two_pow a < two_pow b"
    by (simp add: two_pow_powi power_int_strict_increasing)
qed

lemma ilog2_mono: "0 < x \<Longrightarrow> x \<le> y \<Longrightarrow> ilog2 x \<le> ilog2 y"
  using ilog2_bounds(1) [of x] ilog2_bounds(2) [of y] two_pow_less_iff [of "ilog2 x" "ilog2 y + 1"]
  by linarith

lemma ilog2_unique: "two_pow e \<le> x \<Longrightarrow> x < two_pow (e + 1) \<Longrightarrow> ilog2 x = e"
  using ilog2_bounds [of x] two_pow_pos [of e] two_pow_less_iff [of "ilog2 x" "e + 1"]
    two_pow_less_iff [of e "ilog2 x + 1"]
  by linarith

definition round_half_even :: "rat \<Rightarrow> int" where
  "round_half_even x =
     (let f = \<lfloor>x\<rfloor>; d = x - of_int f
      in if d < 1 / 2 then f else if 1 / 2 < d then f + 1 else if even f then f else f + 1)"

lemma round_half_even_of_int [simp]: "round_half_even (of_int n) = n"
  by (simp add: round_half_even_def)

lemma round_half_even_near: "\<bar>of_int (round_half_even x) - x\<bar> \<le> 1 / 2"
proof -
  have "of_int \<lfloor>x\<rfloor> \<le> x" "x < of_int \<lfloor>x\<rfloor> + 1" by linarith+
  then show ?thesis by (auto simp: round_half_even_def Let_def abs_le_iff)
qed

lemma round_half_even_mono:
  assumes "x \<le> y" shows "round_half_even x \<le> round_half_even y"
proof (cases "\<lfloor>x\<rfloor> = \<lfloor>y\<rfloor>")
  case True
  with assms show ?thesis by (auto simp: round_half_even_def Let_def)
next
  case False
  with assms have "\<lfloor>x\<rfloor> + 1 \<le> \<lfloor>y\<rfloor>" using floor_mono [OF assms] by linarith
  moreover have "round_half_even x \<le> \<lfloor>x\<rfloor> + 1" "\<lfloor>y\<rfloor> \<le> round_half_even y"
    by (auto simp: round_half_even_def Let_def)
  ultimately show ?thesis by linarith
qed


subsection \<open>Rounding to binary64\<close>

text \<open>
  The unit in the last place of a double near \<open>x\<close>: 53 significant bits, and never below the
  subnormal quantum \<open>2 ^ -1074\<close>.
\<close>

definition quantum :: "rat \<Rightarrow> int" where
  "quantum x = max (ilog2 \<bar>x\<bar> - 52) (- 1074)"

definition grid_round :: "int \<Rightarrow> rat \<Rightarrow> rat" where
  "grid_round e x = of_int (round_half_even (x / two_pow e)) * two_pow e"

definition rnd64 :: "rat \<Rightarrow> rat" where
  "rnd64 x = (if x = 0 then 0 else if 0 < x then grid_round (quantum x) x
     else - grid_round (quantum x) (- x))"

lemma grid_round_mono: "x \<le> y \<Longrightarrow> grid_round e x \<le> grid_round e y"
  by (simp add: grid_round_def round_half_even_mono divide_right_mono less_imp_le)

lemma grid_round_multiple: "grid_round e (of_int n * two_pow e) = of_int n * two_pow e"
  by (simp add: grid_round_def)

lemma two_pow_multiple: "e \<le> k \<Longrightarrow> two_pow k = of_int (2 ^ nat (k - e)) * two_pow e"
  using two_pow_add [of "k - e" e] by (simp add: two_pow_def)

lemma grid_round_two_pow: "e \<le> k \<Longrightarrow> grid_round e (two_pow k) = two_pow k"
  by (metis two_pow_multiple grid_round_multiple)

lemma grid_round_nonneg: "0 \<le> x \<Longrightarrow> 0 \<le> grid_round e x"
  using grid_round_mono [of 0 x e] by (simp add: grid_round_def round_half_even_def)

lemma rnd64_pos_mono:
  assumes "0 < x" "x \<le> y"
  shows "grid_round (quantum x) x \<le> grid_round (quantum y) y"
proof (cases "quantum x = quantum y")
  case True
  with assms show ?thesis by (simp add: grid_round_mono)
next
  case False
  have y: "0 < y" using assms by simp
  have le: "ilog2 x \<le> ilog2 y" using assms by (rule ilog2_mono)
  with False assms y have lt: "ilog2 x < ilog2 y" "quantum x < quantum y" "quantum y = ilog2 y - 52"
    by (auto simp: quantum_def)
  let ?m = "two_pow (ilog2 y)"
  have "x \<le> ?m"
    using ilog2_bounds(2) [OF assms(1)] two_pow_mono [of "ilog2 x + 1" "ilog2 y"] lt(1) by simp
  then have "grid_round (quantum x) x \<le> ?m"
    using grid_round_mono [of x ?m "quantum x"] lt grid_round_two_pow [of "quantum x" "ilog2 y"] by simp
  moreover have "?m \<le> grid_round (quantum y) y"
    using grid_round_mono [of ?m y "quantum y"] ilog2_bounds(1) [OF y] lt
      grid_round_two_pow [of "quantum y" "ilog2 y"] by simp
  ultimately show ?thesis by simp
qed

lemma quantum_minus [simp]: "quantum (- x) = quantum x"
  by (simp add: quantum_def)

lemma rnd64_zero [simp]: "rnd64 0 = 0"
  by (simp add: rnd64_def)

lemma rnd64_minus [simp]: "rnd64 (- x) = - rnd64 x"
  by (auto simp: rnd64_def)

lemma rnd64_pos: "0 < x \<Longrightarrow> rnd64 x = grid_round (quantum x) x"
  by (simp add: rnd64_def)

lemma rnd64_mono: "x \<le> y \<Longrightarrow> rnd64 x \<le> rnd64 y"
proof -
  assume le: "x \<le> y"
  have nn: "0 \<le> z \<Longrightarrow> 0 \<le> rnd64 z" for z
    by (auto simp: rnd64_def grid_round_nonneg)
  consider "0 < x" | "x \<le> 0" "0 \<le> y" | "y < 0" by linarith
  then show "rnd64 x \<le> rnd64 y"
  proof cases
    case 1
    with le show ?thesis by (simp add: rnd64_pos rnd64_pos_mono)
  next
    case 2
    with nn [of y] nn [of "- x"] show ?thesis by simp
  next
    case 3
    with le have "rnd64 (- y) \<le> rnd64 (- x)" 
      using rnd64_pos_mono [of "- y" "- x"] by (simp add: rnd64_pos del: rnd64_minus)
    then show ?thesis by simp
  qed
qed


text \<open>
  The representable finite values (ignoring the overflow threshold, which \<open>to_float\<close> below
  handles): an integer significand of at most 53 bits times a power of two not below the
  subnormal quantum.
\<close>

definition representable :: "rat \<Rightarrow> bool" where
  "representable x \<longleftrightarrow> (\<exists>m e. x = of_int m * two_pow e \<and> \<bar>m\<bar> \<le> 2 ^ 53 \<and> - 1074 \<le> e)"

lemma representable_minus: "representable x \<Longrightarrow> representable (- x)"
  unfolding representable_def by (metis abs_minus_cancel mult_minus_left of_int_minus)

lemma representable_int: "\<bar>n\<bar> \<le> 2 ^ 53 \<Longrightarrow> representable (of_int n)"
  unfolding representable_def by (rule exI [of _ n], rule exI [of _ 0]) (simp add: two_pow_def)

lemma grid_round_representable:
  assumes "0 < x" shows "representable (grid_round (quantum x) x)"
proof -
  let ?q = "quantum x" and ?m = "round_half_even (x / two_pow (quantum x))"
  have "ilog2 x + 1 \<le> 53 + ?q" using assms by (simp add: quantum_def)
  then have "x < two_pow (53 + ?q)"
    using less_le_trans [OF ilog2_bounds(2) [OF assms] two_pow_mono] by blast
  then have "x / two_pow ?q \<le> of_int (2 ^ 53)"
    using two_pow_add [of 53 ?q] by (simp add: divide_le_eq two_pow_def)
  then have "?m \<le> round_half_even (of_int (2 ^ 53))" by (rule round_half_even_mono)
  then have "?m \<le> 2 ^ 53" by (simp only: round_half_even_of_int)
  moreover have "0 \<le> ?m"
    using round_half_even_mono [of 0 "x / two_pow ?q"] assms
    by (simp add: round_half_even_def less_imp_le)
  moreover have "- 1074 \<le> ?q" by (simp add: quantum_def)
  ultimately show ?thesis unfolding representable_def grid_round_def by (metis abs_of_nonneg)
qed

lemma representable_rnd64: "representable (rnd64 x)"
  using grid_round_representable [of x] grid_round_representable [of "- x"]
    representable_int [of 0] representable_minus
  by (auto simp: rnd64_def)

lemma rnd64_representable_pos:
  assumes "representable x" "0 < x" shows "rnd64 x = x"
proof -
  obtain m e where x: "x = of_int m * two_pow e" and m: "\<bar>m\<bar> \<le> 2 ^ 53" and e: "- 1074 \<le> e"
    using assms(1) by (auto simp: representable_def)
  have m0: "0 < m"
    using x assms(2) by (metis two_pow_pos of_int_0_less_iff zero_less_mult_pos2)
  have lo: "two_pow (ilog2 x) \<le> x" by (rule ilog2_bounds(1) [OF assms(2)])
  have "\<exists>n. x = of_int n * two_pow (quantum x)"
  proof (cases "quantum x \<le> e")
    case True
    define q where "q = quantum x"
    have "two_pow e = of_int (2 ^ nat (e - q)) * two_pow q"
      unfolding q_def by (rule two_pow_multiple [OF True])
    then have "x = of_int (m * 2 ^ nat (e - q)) * two_pow q"
      unfolding x by (simp only: of_int_mult mult.assoc)
    then show ?thesis unfolding q_def by blast
  next
    case False
    with e assms have q: "quantum x = ilog2 x - 52" "e < ilog2 x - 52" by (auto simp: quantum_def)
    have "of_int m * two_pow e \<le> of_int (2 ^ 53) * two_pow e"
      using m m0 by (intro mult_right_mono) (simp_all only: of_int_le_iff two_pow_pos less_imp_le)
    also have "\<dots> = two_pow (53 + e)" by (simp add: two_pow_add) (simp add: two_pow_def)
    also have "\<dots> \<le> two_pow (ilog2 x)" using q(2) by (intro two_pow_mono) simp
    finally have "x \<le> two_pow (ilog2 x)" by (simp only: x [symmetric])
    then have "x = two_pow (ilog2 x)" using lo by (rule order_antisym)
    moreover have "quantum x \<le> ilog2 x" using q by simp
    ultimately show ?thesis using two_pow_multiple by metis
  qed
  then show ?thesis using assms(2) grid_round_multiple by (metis rnd64_pos)
qed

lemma rnd64_representable: "representable x \<Longrightarrow> rnd64 x = x"
  using rnd64_representable_pos [of x] rnd64_representable_pos [of "- x"]
    representable_minus [of x]
  by (cases x "0::rat" rule: linorder_cases) auto

lemma rnd64_of_int: "\<bar>n\<bar> \<le> 2 ^ 53 \<Longrightarrow> rnd64 (of_int n) = of_int n"
  by (simp add: rnd64_representable representable_int)

interpretation r64: rounding rnd64
  by unfold_locales (auto simp: rnd64_mono rnd64_representable representable_rnd64)


subsection \<open>The values and operations of \<open>float\<close>\<close>

datatype pyfloat = Fin rat | PosInf | NegInf | NaN

definition max_exclusive :: rat where
  "max_exclusive = 2 ^ 1024"

text \<open>Conversion of an exact result: rounding, then overflow to an infinity.\<close>

definition to_float :: "rat \<Rightarrow> pyfloat" where
  "to_float x =
     (let r = rnd64 x
      in if max_exclusive \<le> r then PosInf else if r \<le> - max_exclusive then NegInf else Fin r)"

text \<open>A well-formed float: a finite value is a double.\<close>

definition wf_float :: "pyfloat \<Rightarrow> bool" where
  "wf_float a \<longleftrightarrow> (case a of Fin x \<Rightarrow> representable x \<and> \<bar>x\<bar> < max_exclusive | _ \<Rightarrow> True)"

text \<open>\<open>math.isfinite\<close>, truthiness, and the comparisons (false whenever a NaN is involved).\<close>

definition isfinite :: "pyfloat \<Rightarrow> bool" where
  "isfinite a \<longleftrightarrow> (case a of Fin _ \<Rightarrow> True | _ \<Rightarrow> False)"

definition truthy :: "pyfloat \<Rightarrow> bool" where
  "truthy a \<longleftrightarrow> a \<noteq> Fin 0"

fun flt :: "pyfloat \<Rightarrow> pyfloat \<Rightarrow> bool" where
  "flt NaN _ = False"
| "flt _ NaN = False"
| "flt (Fin x) (Fin y) = (x < y)"
| "flt (Fin _) PosInf = True"
| "flt NegInf PosInf = True"
| "flt NegInf (Fin _) = True"
| "flt _ _ = False"

definition feq :: "pyfloat \<Rightarrow> pyfloat \<Rightarrow> bool" where
  "feq a b \<longleftrightarrow> a = b \<and> a \<noteq> NaN"

definition fle :: "pyfloat \<Rightarrow> pyfloat \<Rightarrow> bool" where
  "fle a b \<longleftrightarrow> flt a b \<or> feq a b"

text \<open>\<open>max(a, b)\<close> and \<open>min(a, b)\<close> return the first argument unless the second is strictly better.\<close>

definition fmax :: "pyfloat \<Rightarrow> pyfloat \<Rightarrow> pyfloat" where
  "fmax a b = (if flt a b then b else a)"

definition fmin :: "pyfloat \<Rightarrow> pyfloat \<Rightarrow> pyfloat" where
  "fmin a b = (if flt b a then b else a)"

text \<open>Arithmetic. Division by a zero raises \<open>ZeroDivisionError\<close>: the result is then \<open>None\<close>.\<close>

definition fneg :: "pyfloat \<Rightarrow> pyfloat" where
  "fneg a = (case a of Fin x \<Rightarrow> Fin (- x) | PosInf \<Rightarrow> NegInf | NegInf \<Rightarrow> PosInf | NaN \<Rightarrow> NaN)"

definition fabs :: "pyfloat \<Rightarrow> pyfloat" where
  "fabs a = (case a of Fin x \<Rightarrow> Fin \<bar>x\<bar> | PosInf \<Rightarrow> PosInf | NegInf \<Rightarrow> PosInf | NaN \<Rightarrow> NaN)"

fun fadd :: "pyfloat \<Rightarrow> pyfloat \<Rightarrow> pyfloat" where
  "fadd NaN _ = NaN"
| "fadd _ NaN = NaN"
| "fadd (Fin x) (Fin y) = to_float (x + y)"
| "fadd PosInf NegInf = NaN"
| "fadd NegInf PosInf = NaN"
| "fadd PosInf _ = PosInf"
| "fadd _ PosInf = PosInf"
| "fadd NegInf _ = NegInf"
| "fadd _ NegInf = NegInf"

definition fsub :: "pyfloat \<Rightarrow> pyfloat \<Rightarrow> pyfloat" where
  "fsub a b = fadd a (fneg b)"

definition signed_inf :: "rat \<Rightarrow> pyfloat" where
  "signed_inf x = (if 0 < x then PosInf else if x < 0 then NegInf else NaN)"

fun fmul :: "pyfloat \<Rightarrow> pyfloat \<Rightarrow> pyfloat" where
  "fmul NaN _ = NaN"
| "fmul _ NaN = NaN"
| "fmul (Fin x) (Fin y) = to_float (x * y)"
| "fmul (Fin x) PosInf = signed_inf x"
| "fmul (Fin x) NegInf = signed_inf (- x)"
| "fmul PosInf (Fin y) = signed_inf y"
| "fmul NegInf (Fin y) = signed_inf (- y)"
| "fmul PosInf PosInf = PosInf"
| "fmul NegInf NegInf = PosInf"
| "fmul _ _ = NegInf"

fun fdiv :: "pyfloat \<Rightarrow> pyfloat \<Rightarrow> pyfloat option" where
  "fdiv a (Fin y) =
     (if y = 0 then None
      else Some (case a of NaN \<Rightarrow> NaN | Fin x \<Rightarrow> to_float (x / y)
        | PosInf \<Rightarrow> signed_inf y | NegInf \<Rightarrow> signed_inf (- y)))"
| "fdiv a NaN = Some NaN"
| "fdiv a b = Some (case a of Fin _ \<Rightarrow> Fin 0 | _ \<Rightarrow> NaN)"

text \<open>\<open>float(n)\<close> of an integer (\<open>OverflowError\<close> is not modelled: the result is then infinite).\<close>

definition float_of_int :: "int \<Rightarrow> pyfloat" where
  "float_of_int n = to_float (of_int n)"

text \<open>\<open>float(v or 0.0)\<close> for an optional float.\<close>

definition or_zero :: "pyfloat option \<Rightarrow> pyfloat" where
  "or_zero v = (case v of None \<Rightarrow> Fin 0 | Some a \<Rightarrow> a)"

definition fpos :: "pyfloat \<Rightarrow> bool" where
  "fpos a \<longleftrightarrow> flt (Fin 0) a"

lemma or_zero_simps [simp]: "or_zero None = Fin 0" "or_zero (Some a) = a"
  by (simp_all add: or_zero_def)

lemma isfinite_simps [simp]:
  "isfinite (Fin x)" "\<not> isfinite PosInf" "\<not> isfinite NegInf" "\<not> isfinite NaN"
  by (simp_all add: isfinite_def)

lemma isfinite_cases: "isfinite a \<Longrightarrow> (\<And>x. a = Fin x \<Longrightarrow> P) \<Longrightarrow> P"
  by (cases a) auto

lemma fpos_simps [simp]:
  "fpos (Fin x) \<longleftrightarrow> 0 < x" "fpos PosInf" "\<not> fpos NegInf" "\<not> fpos NaN"
  by (simp_all add: fpos_def)

lemma fle_simps [simp]:
  "fle (Fin x) (Fin y) \<longleftrightarrow> x \<le> y" "\<not> fle NaN b" "\<not> fle a NaN" "fle (Fin x) PosInf"
  "fle NegInf (Fin x)" "\<not> fle PosInf (Fin x)" "\<not> fle (Fin x) NegInf"
  "fle PosInf PosInf" "fle NegInf NegInf" "fle NegInf PosInf" "\<not> fle PosInf NegInf"
  by (cases a; cases b; auto simp: fle_def feq_def)+

lemma fle_refl: "a \<noteq> NaN \<Longrightarrow> fle a a"
  by (simp add: fle_def feq_def)

lemma fle_trans: "fle a b \<Longrightarrow> fle b c \<Longrightarrow> fle a c"
  by (cases a; cases b; cases c) auto

lemma flt_not_fle: "flt a b \<Longrightarrow> \<not> fle b a"
  by (cases a; cases b) auto

lemma not_flt_fle: "a \<noteq> NaN \<Longrightarrow> b \<noteq> NaN \<Longrightarrow> \<not> flt a b \<longleftrightarrow> fle b a"
  by (cases a; cases b) auto

lemma fmax_ge1: "a \<noteq> NaN \<Longrightarrow> fle a (fmax a b)"
  by (cases a; cases b) (auto simp: fmax_def)

lemma fmax_ge2: "b \<noteq> NaN \<Longrightarrow> a \<noteq> NaN \<Longrightarrow> fle b (fmax a b)"
  by (cases a; cases b) (auto simp: fmax_def)

lemma wf_to_float: "wf_float (to_float x)"
  by (auto simp: wf_float_def to_float_def Let_def representable_rnd64)

lemma to_float_representable:
  "representable x \<Longrightarrow> \<bar>x\<bar> < max_exclusive \<Longrightarrow> to_float x = Fin x"
  by (auto simp: to_float_def rnd64_representable Let_def)

lemma max_exclusive_gt_int: "(2::rat) ^ 53 < max_exclusive"
  unfolding max_exclusive_def by (rule power_strict_increasing) simp_all

lemma float_of_int_exact: "\<bar>n\<bar> \<le> 2 ^ 53 \<Longrightarrow> float_of_int n = Fin (of_int n)"
proof -
  assume n: "\<bar>n\<bar> \<le> 2 ^ 53"
  then have "\<bar>of_int n :: rat\<bar> \<le> 2 ^ 53"
    by (metis of_int_abs of_int_le_iff of_int_numeral of_int_power)
  with n max_exclusive_gt_int show ?thesis
    by (simp add: float_of_int_def to_float_representable representable_int)
qed

lemma to_float_mono: "x \<le> y \<Longrightarrow> fle (to_float x) (to_float y)"
  using rnd64_mono [of x y] by (auto simp: to_float_def Let_def max_exclusive_def)

lemma to_float_zero [simp]: "to_float 0 = Fin 0"
  by (simp add: to_float_def max_exclusive_def)

lemma to_float_not_NaN [simp]: "to_float x \<noteq> NaN"
  by (simp add: to_float_def Let_def)

lemma wf_float_simps [simp]: "wf_float PosInf" "wf_float NegInf" "wf_float NaN" "wf_float (Fin 0)"
  using representable_int [of 0] by (simp_all add: wf_float_def max_exclusive_def)

lemma to_float_wf: "wf_float (Fin x) \<Longrightarrow> to_float x = Fin x"
  by (simp add: wf_float_def to_float_representable)

lemma to_float_one [simp]: "to_float 1 = Fin 1"
  using float_of_int_exact [of 1] by (simp add: float_of_int_def)

lemma to_float_unit:
  assumes "0 \<le> x" "x \<le> 1"
  shows "fle (Fin 0) (to_float x)" "fle (to_float x) (Fin 1)" "isfinite (to_float x)"
proof -
  show a: "fle (Fin 0) (to_float x)" "fle (to_float x) (Fin 1)"
    using to_float_mono [OF assms(1)] to_float_mono [OF assms(2)] by simp_all
  then show "isfinite (to_float x)" by (cases "to_float x") auto
qed

subsection \<open>Rounding error\<close>

lemma grid_round_error: "\<bar>grid_round e x - x\<bar> \<le> two_pow e / 2"
proof -
  have "\<bar>of_int (round_half_even (x / two_pow e)) - x / two_pow e\<bar> * two_pow e \<le> 1 / 2 * two_pow e"
    using round_half_even_near two_pow_pos [THEN less_imp_le] by (rule mult_right_mono)
  moreover have "\<bar>of_int (round_half_even (x / two_pow e)) - x / two_pow e\<bar> * two_pow e
      = \<bar>(of_int (round_half_even (x / two_pow e)) - x / two_pow e) * two_pow e\<bar>"
    by (simp add: abs_mult less_imp_le)
  moreover have "(of_int (round_half_even (x / two_pow e)) - x / two_pow e) * two_pow e
      = grid_round e x - x"
    by (simp add: grid_round_def left_diff_distrib)
  ultimately show ?thesis by simp
qed

text \<open>Relative error of one rounding of a normal number: at most \<open>2 ^ -52\<close> (half of that, in
  fact).\<close>

lemma rnd64_error:
  assumes "two_pow (- 1000) \<le> x"
  shows "\<bar>rnd64 x - x\<bar> \<le> x / 2 ^ 52"
proof -
  have pos: "0 < x" using assms two_pow_pos less_le_trans by blast
  have "two_pow (- 1000) < two_pow (ilog2 x + 1)"
    using assms ilog2_bounds(2) [OF pos] by (rule le_less_trans)
  then have "- 1000 < ilog2 x + 1" by (simp only: two_pow_less_iff)
  then have q: "quantum x = ilog2 x - 52" using pos by (simp add: quantum_def)
  have "two_pow (quantum x) = two_pow (ilog2 x) / 2 ^ 52"
    using two_pow_add [of "ilog2 x - 52" 52] by (simp add: q two_pow_def field_simps)
  also have "\<dots> \<le> x / 2 ^ 52" using ilog2_bounds(1) [OF pos] by (simp add: divide_right_mono)
  finally show ?thesis
    using grid_round_error [of "quantum x" x] pos two_pow_pos [of "quantum x"]
    unfolding rnd64_pos [OF pos] by linarith
qed

lemma two_pow_m1000: "two_pow (- 1000) \<le> 1 / 10 ^ 20"
proof -
  have "two_pow (- 1000) \<le> two_pow (- 80)" by (rule two_pow_mono) simp
  also have "two_pow (- 80) \<le> 1 / 10 ^ 20" by (simp add: two_pow_def)
  finally show ?thesis .
qed

text \<open>The same as a pair of bounds, for arguments of everyday size.\<close>

lemma rnd64_between:
  assumes "1 / 10 ^ 20 \<le> x"
  shows "x * (1 - 1 / 2 ^ 52) \<le> rnd64 x" "rnd64 x \<le> x * (1 + 1 / 2 ^ 52)"
proof -
  have "\<bar>rnd64 x - x\<bar> \<le> x / 2 ^ 52"
    using rnd64_error [OF order_trans [OF two_pow_m1000 assms]] .
  then have "x - x / 2 ^ 52 \<le> rnd64 x" "rnd64 x \<le> x + x / 2 ^ 52" by linarith+
  then show "x * (1 - 1 / 2 ^ 52) \<le> rnd64 x" "rnd64 x \<le> x * (1 + 1 / 2 ^ 52)"
    by (simp_all add: right_diff_distrib distrib_left)
qed

lemma to_float_small: "\<bar>rnd64 x\<bar> < max_exclusive \<Longrightarrow> to_float x = Fin (rnd64 x)"
  by (auto simp: to_float_def Let_def)

lemma to_float_everyday:
  assumes "1 / 10 ^ 20 \<le> x" "x \<le> 10 ^ 15"
  shows "to_float x = Fin (rnd64 x)"
proof (rule to_float_small)
  have "0 \<le> rnd64 x" using assms rnd64_mono [of 0 x] by simp
  moreover have "rnd64 x \<le> 10 ^ 15 * (1 + 1 / 2 ^ 52)"
    using rnd64_between(2) [OF assms(1)] assms(2) by simp
  moreover have "(10 :: rat) ^ 15 * (1 + 1 / 2 ^ 52) < max_exclusive"
    using max_exclusive_gt_int by simp
  ultimately show "\<bar>rnd64 x\<bar> < max_exclusive" by simp
qed

subsection \<open>Decimal rounding and conversion to integers\<close>

text \<open>\<open>round(a, n)\<close> for a float and a number of decimals: the correctly rounded decimal of the
  exact value, ties to even, converted back. \<open>math.ceil\<close> and \<open>int\<close> raise on NaN and infinity.\<close>

definition py_round :: "pyfloat \<Rightarrow> nat \<Rightarrow> pyfloat" where
  "py_round a n = (case a of
     Fin x \<Rightarrow> to_float (of_int (round_half_even (x * 10 ^ n)) / 10 ^ n) | _ \<Rightarrow> a)"

definition py_ceil :: "pyfloat \<Rightarrow> int option" where
  "py_ceil a = (case a of Fin x \<Rightarrow> Some \<lceil>x\<rceil> | _ \<Rightarrow> None)"

definition py_int :: "pyfloat \<Rightarrow> int option" where
  "py_int a = (case a of Fin x \<Rightarrow> Some (if 0 \<le> x then \<lfloor>x\<rfloor> else \<lceil>x\<rceil>) | _ \<Rightarrow> None)"

lemma round_half_even_unique: "\<bar>x - of_int n\<bar> < 1 / 2 \<Longrightarrow> round_half_even x = n"
proof -
  assume "\<bar>x - of_int n\<bar> < 1 / 2"
  with round_half_even_near [of x] have "\<bar>of_int (round_half_even x) - of_int n :: rat\<bar> < 1"
    by linarith
  then have "of_int \<bar>round_half_even x - n\<bar> < (1 :: rat)" by simp
  then have "\<bar>round_half_even x - n\<bar> < 1" by (simp only: of_int_less_1_iff)
  then show ?thesis by linarith
qed

end
