(* ===== verification/Trade_Card.thy ===== *)
theory Trade_Card
  imports Py_Float
begin

text \<open>
  \<open>src/core/trade_card_state.py\<close>: the aggregate of one (environment, account, symbol) card,
  with the fields in the order of the dataclass. Enumerations have the code's values behind a
  prefix per enumeration. The constructor's parsing of values that already have the field's
  type is the identity and is not repeated; what remains of \<open>__post_init__\<close> is its
  normalisation of strings, floats and defaults and its three rejections.
\<close>

subsection \<open>Vocabulary\<close>

datatype board_status =
    BS_WATCHLIST
  | BS_BUYLIST
  | BS_BUY_TODAY
  | BS_ENTRY_PENDING
  | BS_OPEN_POSITION
  | BS_PARTIAL_SELL
  | BS_SELL_ALL
  | BS_CLOSED

datatype entry_runtime_status =
    ERS_ORB_FORMING
  | ERS_WAITING_BREAKOUT
  | ERS_ARMED
  | ERS_EXECUTE_READY
  | ERS_RISK_INVALID
  | ERS_WAITING_FOR_CAPITAL
  | ERS_RETRY_COOLDOWN
  | ERS_ORDER_PENDING
  | ERS_REPLACE_PENDING
  | ERS_CANCEL_PENDING
  | ERS_DATA_UNAVAILABLE
  | ERS_SESSION_COMPLETE

datatype position_runtime_status =
    PRS_NONE
  | PRS_OPEN
  | PRS_ENTRY_COMPLETING
  | PRS_PARTIAL_EXIT_PENDING
  | PRS_EXIT_ALL_REQUIRED
  | PRS_LIQUIDATING
  | PRS_QUEUED_FOR_OPEN
  | PRS_CLOSED
  | PRS_RECONCILING

datatype stop_type =
    STOP_ORB_LOW
  | STOP_BREAKEVEN
  | STOP_MANUAL_PRICE

definition PRODUCTION_ENVIRONMENT :: string where
  "PRODUCTION_ENVIRONMENT = ''PROD''"

definition SYMBOL_EXECUTION_ACTIVE_STATUSES :: "board_status set" where
  "SYMBOL_EXECUTION_ACTIVE_STATUSES =
     {BS_BUY_TODAY, BS_ENTRY_PENDING, BS_OPEN_POSITION, BS_PARTIAL_SELL, BS_SELL_ALL}"

datatype card_error =
    CardNotProduction
  | CardNeedsSymbol
  | CardRiskOutOfRange

subsection \<open>The card\<close>

record trade_card =
  tc_environment :: string
  tc_account_no :: string
  tc_symbol :: string
  tc_name :: string
  tc_version :: int
  tc_kanban_priority :: int
  tc_board_status :: board_status
  tc_previous_board_status :: "board_status option"
  tc_board_status_updated_at :: timestamp
  tc_session_date :: "date option"
  tc_watchlist_member :: bool
  tc_watchlist_session_date :: "date option"
  tc_buylist_member :: bool
  tc_return_to_buylist_after_close :: bool
  tc_buy_today_note :: string
  tc_last_buy_today_session_date :: "date option"
  tc_rejected_orb_snapshot :: json_dict
  tc_kis_ws_symbol_key :: string
  tc_breakout_price :: "pyfloat option"
  tc_selected_orb_window :: "string option"
  tc_buffer_pct :: pyfloat
  tc_risk_percent :: pyfloat
  tc_position_percent :: pyfloat
  tc_planned_quantity :: int
  tc_target_position_quantity :: int
  tc_entry_orb_window :: "string option"
  tc_entry_orb_high :: "pyfloat option"
  tc_entry_orb_low :: "pyfloat option"
  tc_entry_trigger :: "pyfloat option"
  tc_entry_execution_price :: "pyfloat option"
  tc_entry_execution_price_manual :: bool
  tc_entry_floor_price :: "pyfloat option"
  tc_entry_breakout_trigger :: "pyfloat option"
  tc_entry_orb_score :: "pyfloat option"
  tc_entry_score_version :: string
  tc_entry_range_closed_at :: "timestamp option"
  tc_entry_breakout_confirmed_at :: "timestamp option"
  tc_entry_candidate_created_at :: "timestamp option"
  tc_entry_order_generation :: int
  tc_entry_parent_intent_id :: string
  tc_orb_candidate_states :: json_dict
  tc_pending_entry_replacement :: json_dict
  tc_entry_replacement_history :: "json_dict list"
  tc_stop_adr :: "pyfloat option"
  tc_entry_runtime_status :: "entry_runtime_status option"
  tc_entry_block_reason :: string
  tc_next_retry_at :: "timestamp option"
  tc_entry_attempt_group_id :: string
  tc_entry_attempt_count :: int
  tc_entry_client_order_id :: string
  tc_entry_pending_attempt_number :: int
  tc_entry_submission_unresolved :: bool
  tc_entry_cancel_in_flight :: bool
  tc_entry_cancel_reason :: string
  tc_entry_cancel_command_id :: string
  tc_position_runtime_status :: position_runtime_status
  tc_broker_quantity :: int
  tc_orderable_quantity :: int
  tc_average_entry_price :: pyfloat
  tc_entry_remaining_target_quantity :: int
  tc_stop_type :: "stop_type option"
  tc_active_stop_price :: "pyfloat option"
  tc_stop_quantity :: int
  tc_pending_stop_type :: "stop_type option"
  tc_pending_stop_price :: "pyfloat option"
  tc_pending_stop_quantity :: int
  tc_pending_stop_command_id :: string
  tc_pending_stop_requested_at :: "timestamp option"
  tc_exit_all_required :: bool
  tc_sell_all_at_market_open :: bool
  tc_pending_partial_sell_quantity :: int
  tc_reserved_sell_quantity :: int
  tc_next_exit_retry_at :: "timestamp option"
  tc_exit_attempt_count :: int
  tc_exit_attempt_group_id :: string
  tc_exit_client_order_id :: string
  tc_exit_pending_attempt_number :: int
  tc_exit_submission_unresolved :: bool
  tc_last_exit_error :: string
  tc_exit_cancel_in_flight :: bool
  tc_exit_cancel_requested_at :: "timestamp option"
  tc_exit_cancel_command_id :: string
  tc_capital_reservation_id :: string
  tc_market_data_last_trusted_price :: "pyfloat option"
  tc_market_data_last_trusted_at :: "timestamp option"
  tc_market_data_outage_started_at :: "timestamp option"
  tc_market_data_outage_risk_tier :: string
  tc_created_at :: timestamp
  tc_updated_at :: timestamp
  tc_warnings :: "string list"

text \<open>\<open>TradeCardState(environment, account_no, symbol)\<close> with every other field at its default,
  before \<open>__post_init__\<close>; \<open>now\<close> is the clock of the \<open>_utc_now\<close> factories.\<close>

definition blank_card :: "timestamp \<Rightarrow> string \<Rightarrow> string \<Rightarrow> string \<Rightarrow> trade_card" where
  "blank_card now environment account_no ticker =
    \<lparr>tc_environment = environment,
     tc_account_no = account_no,
     tc_symbol = ticker,
     tc_name = [],
     tc_version = 1,
     tc_kanban_priority = 0,
     tc_board_status = BS_WATCHLIST,
     tc_previous_board_status = None,
     tc_board_status_updated_at = now,
     tc_session_date = None,
     tc_watchlist_member = False,
     tc_watchlist_session_date = None,
     tc_buylist_member = False,
     tc_return_to_buylist_after_close = False,
     tc_buy_today_note = [],
     tc_last_buy_today_session_date = None,
     tc_rejected_orb_snapshot = [],
     tc_kis_ws_symbol_key = [],
     tc_breakout_price = None,
     tc_selected_orb_window = None,
     tc_buffer_pct = to_float (1 / 1000),
     tc_risk_percent = to_float (1 / 100),
     tc_position_percent = Fin 0,
     tc_planned_quantity = 0,
     tc_target_position_quantity = 0,
     tc_entry_orb_window = None,
     tc_entry_orb_high = None,
     tc_entry_orb_low = None,
     tc_entry_trigger = None,
     tc_entry_execution_price = None,
     tc_entry_execution_price_manual = False,
     tc_entry_floor_price = None,
     tc_entry_breakout_trigger = None,
     tc_entry_orb_score = None,
     tc_entry_score_version = [],
     tc_entry_range_closed_at = None,
     tc_entry_breakout_confirmed_at = None,
     tc_entry_candidate_created_at = None,
     tc_entry_order_generation = 0,
     tc_entry_parent_intent_id = [],
     tc_orb_candidate_states = [],
     tc_pending_entry_replacement = [],
     tc_entry_replacement_history = [],
     tc_stop_adr = None,
     tc_entry_runtime_status = None,
     tc_entry_block_reason = [],
     tc_next_retry_at = None,
     tc_entry_attempt_group_id = [],
     tc_entry_attempt_count = 0,
     tc_entry_client_order_id = [],
     tc_entry_pending_attempt_number = 0,
     tc_entry_submission_unresolved = False,
     tc_entry_cancel_in_flight = False,
     tc_entry_cancel_reason = [],
     tc_entry_cancel_command_id = [],
     tc_position_runtime_status = PRS_NONE,
     tc_broker_quantity = 0,
     tc_orderable_quantity = 0,
     tc_average_entry_price = Fin 0,
     tc_entry_remaining_target_quantity = 0,
     tc_stop_type = None,
     tc_active_stop_price = None,
     tc_stop_quantity = 0,
     tc_pending_stop_type = None,
     tc_pending_stop_price = None,
     tc_pending_stop_quantity = 0,
     tc_pending_stop_command_id = [],
     tc_pending_stop_requested_at = None,
     tc_exit_all_required = False,
     tc_sell_all_at_market_open = False,
     tc_pending_partial_sell_quantity = 0,
     tc_reserved_sell_quantity = 0,
     tc_next_exit_retry_at = None,
     tc_exit_attempt_count = 0,
     tc_exit_attempt_group_id = [],
     tc_exit_client_order_id = [],
     tc_exit_pending_attempt_number = 0,
     tc_exit_submission_unresolved = False,
     tc_last_exit_error = [],
     tc_exit_cancel_in_flight = False,
     tc_exit_cancel_requested_at = None,
     tc_exit_cancel_command_id = [],
     tc_capital_reservation_id = [],
     tc_market_data_last_trusted_price = None,
     tc_market_data_last_trusted_at = None,
     tc_market_data_outage_started_at = None,
     tc_market_data_outage_risk_tier = [],
     tc_created_at = now,
     tc_updated_at = now,
     tc_warnings = []\<rparr>"

definition finite_float :: "pyfloat option \<Rightarrow> pyfloat option \<Rightarrow> pyfloat option" where
  "finite_float v fallback =
     (case v of None \<Rightarrow> fallback | Some x \<Rightarrow> if isfinite x then Some x else fallback)"

definition strip_window :: "string option \<Rightarrow> string option" where
  "strip_window w = (if some_text w then map_option py_strip w else None)"

definition float_or :: "pyfloat option \<Rightarrow> pyfloat option \<Rightarrow> pyfloat option" where
  "float_or a b = (case a of Some x \<Rightarrow> if truthy x then a else b | None \<Rightarrow> b)"

definition require_production_environment :: "string \<Rightarrow> card_error + string" where
  "require_production_environment environment =
     (let key = py_upper (py_strip (if environment = [] then PRODUCTION_ENVIRONMENT else environment))
      in if key \<noteq> PRODUCTION_ENVIRONMENT then Inl CardNotProduction else Inr key)"

text \<open>The field-by-field normalisation, and the constructor with its rejections in order.\<close>

definition normalise_card :: "string \<Rightarrow> trade_card \<Rightarrow> trade_card" where
  "normalise_card key c =
     (let trigger = finite_float (tc_entry_trigger c) None;
          high = finite_float (tc_entry_orb_high c) None
      in c\<lparr>tc_environment := key,
           tc_account_no := py_strip (tc_account_no c),
           tc_symbol := py_upper (py_strip (tc_symbol c)),
           tc_version := (if tc_version c = 0 then 1 else tc_version c),
           tc_kis_ws_symbol_key := py_strip (tc_kis_ws_symbol_key c),
           tc_breakout_price := finite_float (tc_breakout_price c) None,
           tc_selected_orb_window := strip_window (tc_selected_orb_window c),
           tc_buffer_pct := (if isfinite (tc_buffer_pct c) then tc_buffer_pct c
                             else to_float (1 / 1000)),
           tc_risk_percent := (if isfinite (tc_risk_percent c) then tc_risk_percent c
                               else to_float (1 / 100)),
           tc_position_percent := fmax (Fin 0) (if isfinite (tc_position_percent c)
                                                then tc_position_percent c else Fin 0),
           tc_entry_orb_window := strip_window (tc_entry_orb_window c),
           tc_entry_orb_high := high,
           tc_entry_orb_low := finite_float (tc_entry_orb_low c) None,
           tc_entry_trigger := trigger,
           tc_entry_execution_price :=
             finite_float (tc_entry_execution_price c) (float_or trigger high),
           tc_entry_floor_price := finite_float (tc_entry_floor_price c) None,
           tc_entry_breakout_trigger := finite_float (tc_entry_breakout_trigger c) None,
           tc_entry_orb_score := finite_float (tc_entry_orb_score c) None,
           tc_entry_order_generation := max 0 (tc_entry_order_generation c),
           tc_stop_adr := finite_float (tc_stop_adr c) None,
           tc_average_entry_price := (if isfinite (tc_average_entry_price c)
                                      then tc_average_entry_price c else Fin 0),
           tc_active_stop_price := finite_float (tc_active_stop_price c) None,
           tc_pending_stop_price := finite_float (tc_pending_stop_price c) None,
           tc_market_data_last_trusted_price :=
             finite_float (tc_market_data_last_trusted_price c) None,
           tc_market_data_outage_risk_tier := py_upper (tc_market_data_outage_risk_tier c)\<rparr>)"

definition card_post_init :: "trade_card \<Rightarrow> card_error + trade_card" where
  "card_post_init c =
     bind_result (require_production_environment (tc_environment c)) (\<lambda>key.
       let c' = normalise_card key c
       in guarded (first_error
            [(tc_symbol c' = [], CardNeedsSymbol),
             (\<not> (fle (Fin 0) (tc_risk_percent c') \<and> fle (tc_risk_percent c') (Fin 1)),
              CardRiskOutOfRange)])
            (Inr c'))"

subsection \<open>Persisted risk values\<close>

text \<open>\<open>_persisted_risk_fraction\<close> on the values the stored dictionary holds: the raw risk, the unit
  marker, the selected window and the three prices of the opening-range geometry.\<close>

definition MAX_CANONICAL_ORB_RISK_FRACTION :: pyfloat where
  "MAX_CANONICAL_ORB_RISK_FRACTION = to_float (2 / 100)"

definition persisted_risk_fraction ::
    "pyfloat option \<Rightarrow> string \<Rightarrow> string \<Rightarrow> pyfloat option \<Rightarrow> pyfloat option \<Rightarrow> pyfloat option \<Rightarrow> pyfloat" where
  "persisted_risk_fraction raw unit window high low trigger =
     (let risk = (case finite_float raw (Some (to_float (1 / 100))) of
                    Some r \<Rightarrow> r | None \<Rightarrow> to_float (1 / 100));
          has_orb_geometry = py_strip window \<noteq> []
            \<and> (finite_float high None \<noteq> None \<or> finite_float low None \<noteq> None
               \<or> finite_float trigger None \<noteq> None)
      in if py_strip unit = [] \<and> flt MAX_CANONICAL_ORB_RISK_FRACTION risk
            \<and> (flt (Fin 1) risk \<or> \<not> has_orb_geometry)
         then (case fdiv risk (Fin 100) of Some r \<Rightarrow> r | None \<Rightarrow> risk) else risk)"

subsection \<open>Operations\<close>

definition card_key :: "trade_card \<Rightarrow> string" where
  "card_key c = tc_environment c @ '':'' @ tc_account_no c @ '':'' @ tc_symbol c"

definition acknowledge_pending_stop_change :: "trade_card \<Rightarrow> bool \<times> trade_card" where
  "acknowledge_pending_stop_change c =
     (if tc_pending_stop_command_id c = [] \<or> tc_pending_stop_price c = None then (False, c)
      else (True, c\<lparr>tc_stop_type := tc_pending_stop_type c,
                    tc_active_stop_price := tc_pending_stop_price c,
                    tc_stop_quantity := tc_pending_stop_quantity c,
                    tc_pending_stop_type := None,
                    tc_pending_stop_price := None,
                    tc_pending_stop_quantity := 0,
                    tc_pending_stop_command_id := [],
                    tc_pending_stop_requested_at := None\<rparr>))"

definition clear_orb_generation_metadata :: "trade_card \<Rightarrow> trade_card" where
  "clear_orb_generation_metadata c =
     c\<lparr>tc_entry_execution_price := None, tc_entry_execution_price_manual := False,
       tc_entry_floor_price := None, tc_entry_breakout_trigger := None,
       tc_entry_orb_score := None, tc_entry_score_version := [],
       tc_entry_range_closed_at := None, tc_entry_breakout_confirmed_at := None,
       tc_entry_candidate_created_at := None, tc_entry_order_generation := 0,
       tc_entry_parent_intent_id := [], tc_orb_candidate_states := [],
       tc_pending_entry_replacement := []\<rparr>"

definition has_durable_execution_evidence :: "trade_card \<Rightarrow> bool" where
  "has_durable_execution_evidence c \<longleftrightarrow>
     tc_next_retry_at c \<noteq> None
     \<or> tc_entry_attempt_group_id c \<noteq> []
     \<or> tc_entry_attempt_count c \<noteq> 0
     \<or> tc_entry_client_order_id c \<noteq> []
     \<or> tc_entry_pending_attempt_number c \<noteq> 0
     \<or> tc_entry_submission_unresolved c
     \<or> tc_entry_cancel_in_flight c
     \<or> tc_entry_cancel_reason c \<noteq> []
     \<or> tc_entry_cancel_command_id c \<noteq> []
     \<or> tc_pending_entry_replacement c \<noteq> []
     \<or> tc_position_runtime_status c \<noteq> PRS_NONE
     \<or> tc_broker_quantity c \<noteq> 0
     \<or> tc_orderable_quantity c \<noteq> 0
     \<or> truthy (tc_average_entry_price c)
     \<or> tc_entry_remaining_target_quantity c \<noteq> 0
     \<or> tc_stop_type c \<noteq> None
     \<or> tc_active_stop_price c \<noteq> None
     \<or> tc_stop_quantity c \<noteq> 0
     \<or> tc_pending_stop_type c \<noteq> None
     \<or> tc_pending_stop_price c \<noteq> None
     \<or> tc_pending_stop_quantity c \<noteq> 0
     \<or> tc_pending_stop_command_id c \<noteq> []
     \<or> tc_pending_stop_requested_at c \<noteq> None
     \<or> tc_exit_all_required c
     \<or> tc_sell_all_at_market_open c
     \<or> tc_pending_partial_sell_quantity c \<noteq> 0
     \<or> tc_reserved_sell_quantity c \<noteq> 0
     \<or> tc_next_exit_retry_at c \<noteq> None
     \<or> tc_exit_attempt_count c \<noteq> 0
     \<or> tc_exit_attempt_group_id c \<noteq> []
     \<or> tc_exit_client_order_id c \<noteq> []
     \<or> tc_exit_pending_attempt_number c \<noteq> 0
     \<or> tc_exit_submission_unresolved c
     \<or> tc_last_exit_error c \<noteq> []
     \<or> tc_exit_cancel_in_flight c
     \<or> tc_exit_cancel_requested_at c \<noteq> None
     \<or> tc_exit_cancel_command_id c \<noteq> []
     \<or> tc_capital_reservation_id c \<noteq> []
     \<or> tc_return_to_buylist_after_close c"

definition has_legacy_planning_stop :: "trade_card \<Rightarrow> bool" where
  "has_legacy_planning_stop c \<longleftrightarrow>
     (let positive_stop = (case tc_active_stop_price c of
            None \<Rightarrow> False | Some p \<Rightarrow> isfinite p \<and> fpos p)
      in tc_version c = 1 \<and> ''migrated_from_buylist'' \<in> set (tc_warnings c)
         \<and> tc_board_status c \<in> {BS_WATCHLIST, BS_BUYLIST}
         \<and> tc_stop_type c = Some STOP_MANUAL_PRICE \<and> positive_stop \<and> tc_stop_quantity c = 0
         \<and> \<not> has_durable_execution_evidence
               (c\<lparr>tc_stop_type := None, tc_active_stop_price := None\<rparr>))"

definition is_passive_planning_card :: "trade_card \<Rightarrow> bool" where
  "is_passive_planning_card c \<longleftrightarrow>
     tc_board_status c \<in> {BS_WATCHLIST, BS_BUYLIST} \<and> \<not> has_durable_execution_evidence c"

subsection \<open>The constructor's normal form\<close>

lemma finite_float_idem [simp]: "finite_float (finite_float v d) d = finite_float v d"
  by (auto simp: finite_float_def split: option.splits)

lemma finite_float_None_self: "finite_float v None = Some x \<Longrightarrow> isfinite x"
  by (auto simp: finite_float_def split: option.splits if_splits)

lemma fmax_zero_idem [simp]: "fmax (Fin 0) (fmax (Fin 0) x) = fmax (Fin 0) x"
  by (auto simp: fmax_def)

lemma fmax_zero_finite: "isfinite x \<Longrightarrow> isfinite (fmax (Fin 0) x) \<and> fle (Fin 0) (fmax (Fin 0) x)"
  by (cases x) (auto simp: fmax_def)

lemma default_buffer_finite [simp]: "isfinite (to_float (1 / 1000))"
  by (rule to_float_unit) simp_all

text \<open>What the constructor guarantees of every card it returns.\<close>

definition card_normal :: "trade_card \<Rightarrow> bool" where
  "card_normal c \<longleftrightarrow>
     tc_environment c = PRODUCTION_ENVIRONMENT \<and> tc_symbol c \<noteq> []
     \<and> py_upper (py_strip (tc_symbol c)) = tc_symbol c
     \<and> py_strip (tc_account_no c) = tc_account_no c
     \<and> fle (Fin 0) (tc_risk_percent c) \<and> fle (tc_risk_percent c) (Fin 1)
     \<and> fle (Fin 0) (tc_position_percent c) \<and> isfinite (tc_buffer_pct c)
     \<and> isfinite (tc_average_entry_price c) \<and> 0 \<le> tc_entry_order_generation c
     \<and> tc_version c \<noteq> 0
     \<and> pred_option isfinite (tc_breakout_price c) \<and> pred_option isfinite (tc_active_stop_price c)
     \<and> pred_option isfinite (tc_pending_stop_price c)
     \<and> pred_option isfinite (tc_entry_trigger c) \<and> pred_option isfinite (tc_entry_orb_high c)
     \<and> pred_option isfinite (tc_entry_orb_low c)"

lemma finite_float_pred [simp]: "pred_option isfinite (finite_float v None)"
  by (auto simp: finite_float_def pred_option_def split: option.splits if_splits)

lemma environment_key: "require_production_environment e = Inr key \<Longrightarrow> key = PRODUCTION_ENVIRONMENT"
  by (auto simp: require_production_environment_def Let_def split: if_splits)

lemma production_accepted: "require_production_environment PRODUCTION_ENVIRONMENT = Inr PRODUCTION_ENVIRONMENT"
  by (simp add: require_production_environment_def PRODUCTION_ENVIRONMENT_def) code_simp

lemma card_post_init_normal:
  assumes "card_post_init c = Inr c'"
  shows "card_normal c'"
proof -
  from assms obtain key where k: "require_production_environment (tc_environment c) = Inr key"
    and c': "c' = normalise_card key c" and sy: "tc_symbol c' \<noteq> []"
    and risk: "fle (Fin 0) (tc_risk_percent c')" "fle (tc_risk_percent c') (Fin 1)"
    unfolding card_post_init_def Let_def guard_simps by (auto simp del: first_error.simps)
  have "fle (Fin 0) (tc_position_percent c')"
    unfolding c' normalise_card_def Let_def using fmax_zero_finite [of "tc_position_percent c"]
    by (auto simp: fmax_def)
  with sy risk environment_key [OF k] show ?thesis
    unfolding card_normal_def c'
    by (auto simp: normalise_card_def Let_def py_strip_upper)
qed

lemma normalised_fields [simp]:
  "tc_symbol (normalise_card key c) = py_upper (py_strip (tc_symbol c))"
  "tc_risk_percent (normalise_card key c) =
     (if isfinite (tc_risk_percent c) then tc_risk_percent c else to_float (1 / 100))"
  by (simp_all add: normalise_card_def Let_def)

lemma default_risk_legal: "fle (Fin 0) (to_float (1 / 100)) \<and> fle (to_float (1 / 100)) (Fin 1)"
  by (intro conjI to_float_unit) simp_all

lemma normalised_risk_refused:
  assumes "\<not> (fle (Fin 0) (tc_risk_percent (normalise_card key c))
      \<and> fle (tc_risk_percent (normalise_card key c)) (Fin 1))"
  shows "isfinite (tc_risk_percent c)
      \<and> (flt (tc_risk_percent c) (Fin 0) \<or> flt (Fin 1) (tc_risk_percent c))"
proof -
  have f: "isfinite (tc_risk_percent c)" using assms default_risk_legal by (auto split: if_splits)
  then obtain x where x: "tc_risk_percent c = Fin x" by (rule isfinite_cases)
  with assms show ?thesis by auto
qed

text \<open>What the card constructor lets through. A card it returns is in production, has a
  non-empty upper-case symbol, a risk fraction in the range 0 to 1, a non-negative allocation,
  and no infinite or NaN price; a card it refuses fails for one of the three documented
  reasons, and a symbol with a production environment and a legal risk is never refused.\<close>

theorem card_constructor_normalises:
  "case card_post_init c of
     Inr c' \<Rightarrow> card_normal c'
   | Inl CardNotProduction \<Rightarrow> py_upper (py_strip (tc_environment c)) \<noteq> PRODUCTION_ENVIRONMENT
   | Inl CardNeedsSymbol \<Rightarrow> py_strip (tc_symbol c) = []
   | Inl CardRiskOutOfRange \<Rightarrow> isfinite (tc_risk_percent c)
       \<and> (flt (tc_risk_percent c) (Fin 0) \<or> flt (Fin 1) (tc_risk_percent c))"
proof (cases "card_post_init c")
  case (Inr c')
  with card_post_init_normal show ?thesis by simp
next
  case (Inl e)
  show ?thesis
  proof (cases "require_production_environment (tc_environment c)")
    case (Inl e')
    with \<open>card_post_init c = Inl e\<close> have "e = e'" by (simp add: card_post_init_def)
    with Inl show ?thesis
      unfolding \<open>card_post_init c = Inl e\<close>
      using production_accepted
      by (auto simp: require_production_environment_def Let_def split: if_splits)
  next
    case (Inr key)
    let ?risk = "tc_risk_percent (normalise_card key c)"
    have "e = CardNeedsSymbol \<and> py_strip (tc_symbol c) = []
        \<or> e = CardRiskOutOfRange \<and> \<not> (fle (Fin 0) ?risk \<and> fle ?risk (Fin 1))"
      using Inl Inr by (simp add: card_post_init_def Let_def split: if_splits)
    then consider "e = CardNeedsSymbol" "py_strip (tc_symbol c) = []"
      | "e = CardRiskOutOfRange" "\<not> (fle (Fin 0) ?risk \<and> fle ?risk (Fin 1))" by blast
    then show ?thesis
    proof cases
      case 1 then show ?thesis unfolding \<open>card_post_init c = Inl e\<close> by simp
    next
      case 2
      with normalised_risk_refused [OF 2(2)] show ?thesis
        unfolding \<open>card_post_init c = Inl e\<close> by simp
    qed
  qed
qed

subsection \<open>Stop changes and planning cards\<close>

text \<open>Acknowledging a pending stop change installs exactly the requested protection, once:
  a card with a complete request gets its type, price and quantity and loses the request, a
  card without one is untouched, and acknowledging again changes nothing.\<close>

theorem stop_acknowledged_once:
  "case acknowledge_pending_stop_change c of (done, c') \<Rightarrow>
     (if tc_pending_stop_command_id c \<noteq> [] \<and> tc_pending_stop_price c \<noteq> None
      then done \<and> tc_stop_type c' = tc_pending_stop_type c
        \<and> tc_active_stop_price c' = tc_pending_stop_price c
        \<and> tc_stop_quantity c' = tc_pending_stop_quantity c
        \<and> tc_pending_stop_price c' = None \<and> tc_pending_stop_command_id c' = []
        \<and> tc_broker_quantity c' = tc_broker_quantity c \<and> tc_board_status c' = tc_board_status c
      else \<not> done \<and> c' = c)
     \<and> acknowledge_pending_stop_change c' = (False, c')"
  by (auto simp: acknowledge_pending_stop_change_def)

lemma passive_card_facts:
  assumes "is_passive_planning_card c"
  shows "tc_broker_quantity c = 0" "tc_orderable_quantity c = 0" "tc_stop_type c = None"
    "tc_active_stop_price c = None" "\<not> tc_exit_all_required c" "\<not> tc_entry_submission_unresolved c"
    "\<not> tc_exit_submission_unresolved c" "tc_capital_reservation_id c = []"
    "tc_position_runtime_status c = PRS_NONE" "tc_entry_client_order_id c = []"
    "tc_exit_client_order_id c = []" "tc_next_retry_at c = None"
  using assms unfolding is_passive_planning_card_def has_durable_execution_evidence_def by auto

lemma legacy_stop_not_passive:
  "has_legacy_planning_stop c \<Longrightarrow> \<not> is_passive_planning_card c"
  unfolding has_legacy_planning_stop_def is_passive_planning_card_def
    has_durable_execution_evidence_def Let_def by auto

text \<open>Clearing the opening-range generation keeps the plan and every live-execution field but the
  pending replacement.\<close>

lemma clear_generation_evidence:
  "has_durable_execution_evidence (clear_orb_generation_metadata c) \<Longrightarrow>
     has_durable_execution_evidence c"
  unfolding has_durable_execution_evidence_def clear_orb_generation_metadata_def by auto

end
