(* ===== verification/Transition_Graph.thy ===== *)
theory Transition_Graph
  imports Prelude
begin

text \<open>
  The interface every status machine of the program offers to its clients: a table of
  allowed moves and a set of statuses with no way out. The code encodes each machine as a
  dictionary of sets and a \<open>validate_\<dots>_transition\<close> function; the locale names what the
  rest of the code takes for granted about them, and proves it for whole histories rather
  than for single moves.
\<close>

locale transition_graph =
  fixes allowed :: "'s \<Rightarrow> 's set"
    and terminal :: "'s \<Rightarrow> bool"
  assumes terminal_stuck: "terminal s \<Longrightarrow> allowed s = {}"
    and live_moves: "\<not> terminal s \<Longrightarrow> allowed s \<noteq> {}"
begin

text \<open>A history: consecutive statuses, each reached from the one before by an allowed move.\<close>

fun history :: "'s \<Rightarrow> 's list \<Rightarrow> bool" where
  "history s [] = True"
| "history s (t # ts) = (t \<in> allowed s \<and> history t ts)"

lemma history_append: "history s (xs @ ys) \<longleftrightarrow> history s xs \<and> history (last (s # xs)) ys"
  by (induction xs arbitrary: s) auto

lemma terminal_history: "terminal s \<Longrightarrow> history s ts \<Longrightarrow> ts = []"
  by (cases ts) (auto simp: terminal_stuck)

text \<open>Only the last status of a history can be terminal.\<close>

lemma terminal_last:
  assumes "history s (xs @ t # ys)" "terminal t"
  shows "ys = []"
proof -
  have "history t ys" using assms(1) by (simp add: history_append)
  with assms(2) show ?thesis by (rule terminal_history)
qed

lemma stuck_iff_terminal: "allowed s = {} \<longleftrightarrow> terminal s"
  using terminal_stuck live_moves by blast

text \<open>
  A property of a status that every move into a set of statuses needs, and that no move
  loses, holds wherever a history enters that set.
\<close>

lemma history_invariant:
  assumes "\<And>s t. I s \<Longrightarrow> t \<in> allowed s \<Longrightarrow> I t"
  shows "I s \<Longrightarrow> history s ts \<Longrightarrow> \<forall>t \<in> set ts. I t"
proof (induction ts arbitrary: s)
  case (Cons t ts)
  have "I t" using assms [of s t] Cons.prems by simp
  with Cons.IH [of t] Cons.prems show ?case by simp
qed simp

text \<open>
  A cut: if every allowed move that enters \<open>inside\<close> from outside lands on a gate, then a
  history that starts outside and ends inside passes through a gate.
\<close>

lemma history_gate:
  assumes entry: "\<And>s t. s \<notin> inside \<Longrightarrow> t \<in> allowed s \<Longrightarrow> t \<in> inside \<Longrightarrow> t \<in> gates"
  shows "s \<notin> inside \<Longrightarrow> history s ts \<Longrightarrow> ts \<noteq> [] \<Longrightarrow> last ts \<in> inside \<Longrightarrow> \<exists>t \<in> set ts. t \<in> gates"
proof (induction ts arbitrary: s)
  case (Cons t ts)
  show ?case
  proof (cases "t \<in> inside")
    case True
    with Cons.prems entry have "t \<in> gates" by auto
    then show ?thesis by simp
  next
    case False
    with Cons.prems have "ts \<noteq> []" by auto
    with Cons False show ?thesis by auto
  qed
qed simp

end

end
