(* ===== verification/Kanban.thy ===== *)
theory Kanban
  imports Trade_Card Transition_Graph
begin

text \<open>
  \<open>src/core/kanban_transitions.py\<close>: the graph of board moves a user command may make, the
  membership restore of a closed card, the one-card-per-symbol check and the mapping of legacy
  statuses onto columns. A violation message is represented by what it reports: the card key
  and the two statuses.
\<close>

subsection \<open>The board graph\<close>

fun ALLOWED_BOARD_TRANSITIONS :: "board_status \<Rightarrow> board_status set" where
  "ALLOWED_BOARD_TRANSITIONS BS_WATCHLIST = {BS_BUYLIST}"
| "ALLOWED_BOARD_TRANSITIONS BS_BUYLIST = {BS_WATCHLIST, BS_BUY_TODAY}"
| "ALLOWED_BOARD_TRANSITIONS BS_BUY_TODAY = {BS_BUYLIST, BS_ENTRY_PENDING}"
| "ALLOWED_BOARD_TRANSITIONS BS_ENTRY_PENDING = {BS_OPEN_POSITION}"
| "ALLOWED_BOARD_TRANSITIONS BS_OPEN_POSITION = {BS_PARTIAL_SELL, BS_SELL_ALL}"
| "ALLOWED_BOARD_TRANSITIONS BS_PARTIAL_SELL = {BS_OPEN_POSITION, BS_SELL_ALL}"
| "ALLOWED_BOARD_TRANSITIONS BS_SELL_ALL = {BS_PARTIAL_SELL, BS_CLOSED, BS_OPEN_POSITION}"
| "ALLOWED_BOARD_TRANSITIONS BS_CLOSED = {}"

datatype board_transition_error = InvalidBoardTransition board_status board_status

definition validate_board_transition ::
    "board_status \<Rightarrow> board_status \<Rightarrow> board_transition_error option" where
  "validate_board_transition current target =
     (if current = target then None
      else if target \<notin> ALLOWED_BOARD_TRANSITIONS current
      then Some (InvalidBoardTransition current target) else None)"

definition restore_closed_card_membership :: "trade_card \<Rightarrow> board_status" where
  "restore_closed_card_membership c =
     (if tc_board_status c = BS_CLOSED \<and> tc_return_to_buylist_after_close c then BS_BUYLIST
      else tc_board_status c)"

interpretation board_graph: transition_graph ALLOWED_BOARD_TRANSITIONS "\<lambda>s. s = BS_CLOSED"
proof
  fix s :: board_status
  show "s = BS_CLOSED \<Longrightarrow> ALLOWED_BOARD_TRANSITIONS s = {}" by simp
  show "s \<noteq> BS_CLOSED \<Longrightarrow> ALLOWED_BOARD_TRANSITIONS s \<noteq> {}" by (cases s) simp_all
qed

text \<open>A sequence of board moves, each accepted by the validator (re-confirming moves included).\<close>

fun board_walk :: "board_status \<Rightarrow> board_status list \<Rightarrow> bool" where
  "board_walk s [] = True"
| "board_walk s (t # ts) = (validate_board_transition s t = None \<and> board_walk t ts)"

text \<open>Dropping the re-confirming moves leaves a history of the graph with the same columns.\<close>

fun proper_moves :: "board_status \<Rightarrow> board_status list \<Rightarrow> board_status list" where
  "proper_moves s [] = []"
| "proper_moves s (t # ts) = (if s = t then proper_moves s ts else t # proper_moves t ts)"

lemma board_walk_history: "board_walk s ts \<Longrightarrow> board_graph.history s (proper_moves s ts)"
  by (induction s ts rule: proper_moves.induct)
    (auto simp: validate_board_transition_def split: if_splits)

lemma proper_moves_subset: "set (proper_moves s ts) \<subseteq> set ts"
  by (induction s ts rule: proper_moves.induct) auto

lemma proper_moves_last: "last (s # proper_moves s ts) = last (s # ts)"
  by (induction s ts rule: proper_moves.induct) auto

lemma board_walk_gate:
  assumes "board_walk s ts" "s \<notin> inside" "last (s # ts) \<in> inside"
    and "\<And>u v. u \<notin> inside \<Longrightarrow> v \<in> ALLOWED_BOARD_TRANSITIONS u \<Longrightarrow> v \<in> inside \<Longrightarrow> v = gate"
  shows "gate \<in> set ts"
proof -
  let ?ms = "proper_moves s ts"
  have l: "last (s # ?ms) \<in> inside" using assms(3) by (simp only: proper_moves_last)
  with assms(2) have ne: "?ms \<noteq> []" by auto
  with l have "last ?ms \<in> inside" by simp
  then have "\<exists>t \<in> set ?ms. t \<in> {gate}"
    using board_graph.history_gate [of inside "{gate}" s ?ms] board_walk_history [OF assms(1)]
      assms(2,4) ne by blast
  with proper_moves_subset show ?thesis by auto
qed

definition held_columns :: "board_status set" where
  "held_columns = {BS_OPEN_POSITION, BS_PARTIAL_SELL, BS_SELL_ALL, BS_CLOSED}"

lemma entry_gates:
  "u \<notin> {BS_BUY_TODAY, BS_ENTRY_PENDING} \<union> held_columns \<Longrightarrow> v \<in> ALLOWED_BOARD_TRANSITIONS u \<Longrightarrow>
     v \<in> {BS_BUY_TODAY, BS_ENTRY_PENDING} \<union> held_columns \<Longrightarrow> v = BS_BUY_TODAY"
  "u \<notin> {BS_ENTRY_PENDING} \<union> held_columns \<Longrightarrow> v \<in> ALLOWED_BOARD_TRANSITIONS u \<Longrightarrow>
     v \<in> {BS_ENTRY_PENDING} \<union> held_columns \<Longrightarrow> v = BS_ENTRY_PENDING"
  "u \<notin> {BS_SELL_ALL, BS_CLOSED} \<Longrightarrow> v \<in> ALLOWED_BOARD_TRANSITIONS u \<Longrightarrow>
     v \<in> {BS_SELL_ALL, BS_CLOSED} \<Longrightarrow> v = BS_SELL_ALL"
  by (cases u; auto simp: held_columns_def)+

text \<open>No short cut to a position or out of one. Whatever sequence of accepted board moves
  takes a planning card to CLOSED, the card went through BUY_TODAY, ENTRY_PENDING and SELL_ALL
  on the way; and once it is closed no accepted move other than re-confirming CLOSED exists.\<close>

theorem board_walk_to_closed:
  assumes "board_walk s ts" "s \<in> {BS_WATCHLIST, BS_BUYLIST}" "last (s # ts) = BS_CLOSED"
  shows "{BS_BUY_TODAY, BS_ENTRY_PENDING, BS_SELL_ALL} \<subseteq> set ts
    \<and> {t. t \<noteq> BS_CLOSED \<and> board_walk s (ts @ [t])} = {}"
proof -
  have start: "s \<notin> {BS_BUY_TODAY, BS_ENTRY_PENDING} \<union> held_columns" "s \<notin> {BS_ENTRY_PENDING} \<union> held_columns"
    "s \<notin> {BS_SELL_ALL, BS_CLOSED}"
    using assms(2) by (auto simp: held_columns_def)
  have goal: "last (s # ts) \<in> {BS_BUY_TODAY, BS_ENTRY_PENDING} \<union> held_columns"
    "last (s # ts) \<in> {BS_ENTRY_PENDING} \<union> held_columns" "last (s # ts) \<in> {BS_SELL_ALL, BS_CLOSED}"
    unfolding assms(3) by (simp_all add: held_columns_def)
  have "BS_BUY_TODAY \<in> set ts"
    by (rule board_walk_gate [OF assms(1) start(1) goal(1) entry_gates(1)])
  moreover have "BS_ENTRY_PENDING \<in> set ts"
    by (rule board_walk_gate [OF assms(1) start(2) goal(2) entry_gates(2)])
  moreover have "BS_SELL_ALL \<in> set ts"
    by (rule board_walk_gate [OF assms(1) start(3) goal(3) entry_gates(3)])
  moreover have "t = BS_CLOSED" if "board_walk s (ts @ [t])" for t
  proof -
    have append: "board_walk s (xs @ [t]) \<Longrightarrow> validate_board_transition (last (s # xs)) t = None"
      for s t xs by (induction xs arbitrary: s) auto
    from append [OF that] assms(3) show ?thesis
      by (auto simp: validate_board_transition_def split: if_splits)
  qed
  ultimately show ?thesis by blast
qed

theorem board_walk_to_closed_witness:
  "let ts = [BS_BUY_TODAY, BS_BUY_TODAY, BS_ENTRY_PENDING, BS_OPEN_POSITION, BS_PARTIAL_SELL,
       BS_SELL_ALL, BS_CLOSED]
   in board_walk BS_BUYLIST ts \<and> {BS_BUY_TODAY, BS_ENTRY_PENDING, BS_SELL_ALL} \<subseteq> set ts
    \<and> {t. t \<noteq> BS_CLOSED \<and> board_walk BS_BUYLIST (ts @ [t])} = {}"
proof -
  let ?ts = "[BS_BUY_TODAY, BS_BUY_TODAY, BS_ENTRY_PENDING, BS_OPEN_POSITION, BS_PARTIAL_SELL,
       BS_SELL_ALL, BS_CLOSED]"
  have w: "board_walk BS_BUYLIST ?ts" by (simp add: validate_board_transition_def)
  from board_walk_to_closed [OF w] show ?thesis using w unfolding Let_def by simp
qed

subsection \<open>One card per symbol\<close>

fun single_card_scan :: "(string \<rightharpoonup> trade_card) \<Rightarrow> trade_card list
    \<Rightarrow> (string \<times> board_status \<times> board_status) list" where
  "single_card_scan seen [] = []"
| "single_card_scan seen (c # cards) =
     (case seen (card_key c) of
        Some first \<Rightarrow>
          (card_key c, tc_board_status first, tc_board_status c) # single_card_scan seen cards
      | None \<Rightarrow> single_card_scan (seen(card_key c \<mapsto> c)) cards)"

definition validate_single_card_per_symbol ::
    "trade_card list \<Rightarrow> (string \<times> board_status \<times> board_status) list" where
  "validate_single_card_per_symbol cards = single_card_scan Map.empty cards"

datatype duplicate_error = DuplicateCard "(string \<times> board_status \<times> board_status) list"

definition require_single_card_per_symbol :: "trade_card list \<Rightarrow> duplicate_error option" where
  "require_single_card_per_symbol cards =
     (let violations = validate_single_card_per_symbol cards
      in if violations \<noteq> [] then Some (DuplicateCard violations) else None)"

lemma single_card_scan_length:
  "length (single_card_scan seen cards) + card (set (map card_key cards) - dom seen) = length cards"
proof (induction seen cards rule: single_card_scan.induct)
  case (2 seen c cards)
  show ?case
  proof (cases "seen (card_key c)")
    case None
    then have k: "card_key c \<notin> dom seen" by auto
    have "set (map card_key (c # cards)) - dom seen
        = insert (card_key c) (set (map card_key cards) - dom (seen(card_key c \<mapsto> c)))"
      using k by auto
    then have "card (set (map card_key (c # cards)) - dom seen)
        = Suc (card (set (map card_key cards) - dom (seen(card_key c \<mapsto> c))))"
      by (simp add: card_insert_if)
    with None "2.IH"(1) [OF None] show ?thesis by (simp del: fun_upd_apply)
  next
    case (Some d)
    then have "set (map card_key (c # cards)) - dom seen = set (map card_key cards) - dom seen"
      by auto
    with Some "2.IH"(2) [OF Some] show ?thesis by simp
  qed
qed simp

lemma single_card_check_length:
  "length (validate_single_card_per_symbol cards) + card (set (map card_key cards)) = length cards"
  using single_card_scan_length [of Map.empty cards]
  by (simp add: validate_single_card_per_symbol_def)

lemma require_distinct: "require_single_card_per_symbol cards = None \<longleftrightarrow> distinct (map card_key cards)"
proof -
  have "require_single_card_per_symbol cards = None \<longleftrightarrow> validate_single_card_per_symbol cards = []"
    by (simp add: require_single_card_per_symbol_def Let_def)
  also have "\<dots> \<longleftrightarrow> card (set (map card_key cards)) = length (map card_key cards)"
    using single_card_check_length [of cards]
    by (metis add.commute add_cancel_right_left length_0_conv length_map add_left_cancel)
  also have "\<dots> \<longleftrightarrow> distinct (map card_key cards)"
    using card_distinct distinct_card by metis
  finally show ?thesis .
qed

text \<open>The one-card check is exact: it reports one violation per surplus card, so it raises
  on a collection of cards exactly when two of them share environment, account and symbol.\<close>

theorem single_card_check_exact:
  "length (validate_single_card_per_symbol cards) + card (set (map card_key cards)) = length cards
   \<and> (require_single_card_per_symbol cards = None \<longleftrightarrow> distinct (map card_key cards))"
  using single_card_check_length require_distinct by blast

subsection \<open>Legacy statuses\<close>

definition DIRECT_STATUS_MAP :: "(string \<times> board_status) list" where
  "DIRECT_STATUS_MAP =
     [(''WATCHING'', BS_BUYLIST), (''ORDER_PENDING'', BS_ENTRY_PENDING),
      (''ORDER_SUBMITTED'', BS_ENTRY_PENDING), (''BUY_SUBMITTED'', BS_ENTRY_PENDING),
      (''UNKNOWN_SUBMISSION_STATE'', BS_ENTRY_PENDING), (''BOUGHT'', BS_OPEN_POSITION),
      (''PARTIAL_EXIT_SUBMITTED'', BS_PARTIAL_SELL), (''PARTIAL_EXIT_RESERVED'', BS_PARTIAL_SELL),
      (''SELL_SUBMITTED'', BS_SELL_ALL), (''SELL_RESERVED'', BS_SELL_ALL), (''SOLD'', BS_CLOSED)]"

definition migrate_legacy_status_to_board_status :: "string \<Rightarrow> bool \<Rightarrow> int \<Rightarrow> board_status" where
  "migrate_legacy_status_to_board_status monitoring_status orb_monitor_enabled shares_held =
     (let status = py_upper (py_strip monitoring_status); mapped = map_of DIRECT_STATUS_MAP status
      in if status = ''BUY_PARTIAL''
         then (if 0 < shares_held then BS_OPEN_POSITION else BS_BUYLIST)
         else if 0 < shares_held \<and> mapped = None then BS_OPEN_POSITION
         else if status \<in> {''WATCHING'', ''ACTIVE''} \<and> (orb_monitor_enabled \<or> status = ''ACTIVE'')
         then BS_BUY_TODAY
         else (case mapped of Some column \<Rightarrow> column | None \<Rightarrow> BS_BUYLIST))"

text \<open>The migration arms a card only where the user had armed it: the result is BUY_TODAY
  exactly for ACTIVE rows without a position and for WATCHING rows with monitoring enabled; a
  row with an unmapped status that holds shares is always shown as an open position.\<close>

theorem migration_arms_only_authorised:
  "(migrate_legacy_status_to_board_status ms monitor shares = BS_BUY_TODAY \<longleftrightarrow>
      (py_upper (py_strip ms) = ''ACTIVE'' \<and> shares \<le> 0)
      \<or> (py_upper (py_strip ms) = ''WATCHING'' \<and> monitor))
   \<and> (if map_of DIRECT_STATUS_MAP (py_upper (py_strip ms)) = None \<and> 0 < shares
      then migrate_legacy_status_to_board_status ms monitor shares = BS_OPEN_POSITION else True)"
  unfolding migrate_legacy_status_to_board_status_def Let_def
  by (auto simp: DIRECT_STATUS_MAP_def split: if_splits option.splits)

text \<open>The documented rule that a held position outranks monitoring does not hold for a
  WATCHING row: with monitoring enabled it is migrated to BUY_TODAY whatever it holds.\<close>

theorem watching_position_migrates_to_buy_today:
  "migrate_legacy_status_to_board_status ''WATCHING'' True shares = BS_BUY_TODAY"
  unfolding migrate_legacy_status_to_board_status_def Let_def
  by (simp add: DIRECT_STATUS_MAP_def py_upper_def py_strip_def py_space_def) code_simp

end
