(* ===== verification/Versioned_Store.thy ===== *)
theory Versioned_Store
  imports Prelude
begin

text \<open>
  The contract of a table whose rows carry an optimistic-concurrency version. Every table
  promises the fence: a write is accepted only when the stored version is the one the writer
  read. What its clients need from it (no lost update, a version that only grows, no effect on
  other rows) is proved here once. The card and ownership tables promise more: the stored
  version is the only thing a write depends on.

  \<open>stored s k\<close> is the version of the row \<open>k\<close> (\<open>None\<close> without a row), \<open>put k n v s\<close> the
  conditional write of \<open>v\<close> by a writer that read version \<open>n\<close>; \<open>None\<close> when it is refused.
  \<open>content k v m\<close> is what the row then holds at version \<open>m\<close>.
\<close>

locale fenced_store =
  fixes stored :: "'st \<Rightarrow> 'k \<Rightarrow> int option"
    and row :: "'st \<Rightarrow> 'k \<Rightarrow> 'w option"
    and put :: "'k \<Rightarrow> int \<Rightarrow> 'v \<Rightarrow> 'st \<Rightarrow> 'st option"
    and content :: "'k \<Rightarrow> 'v \<Rightarrow> int \<Rightarrow> 'w"
  assumes put_fenced: "put k n v s = Some s' \<Longrightarrow> stored s k = Some n"
    and put_version: "put k n v s = Some s' \<Longrightarrow> stored s' k = Some (n + 1)"
    and put_row: "put k n v s = Some s' \<Longrightarrow> row s' k = Some (content k v (n + 1))"
    and put_other: "put k n v s = Some s' \<Longrightarrow> j \<noteq> k \<Longrightarrow> stored s' j = stored s j \<and> row s' j = row s j"
begin

text \<open>Lost update: of two writers that read the same version, the later one is refused.\<close>

lemma no_lost_update:
  assumes "put k n v s = Some s'" shows "put k n w s' = None"
proof (cases "put k n w s'")
  case (Some s'')
  with put_version [OF assms] put_fenced [OF Some] show ?thesis by simp
qed

text \<open>A sequence of writes, each by some client with the version it read.\<close>

fun writes :: "('k \<times> int \<times> 'v) list \<Rightarrow> 'st \<Rightarrow> 'st" where
  "writes [] s = s"
| "writes ((k, n, v) # ws) s = writes ws (case put k n v s of None \<Rightarrow> s | Some s' \<Rightarrow> s')"

lemma put_monotone:
  assumes "put k n v s = Some s'" "stored s j = Some m"
  shows "\<exists>m'. stored s' j = Some m' \<and> m \<le> m'"
proof (cases "j = k")
  case True
  with assms put_fenced [OF assms(1)] put_version [OF assms(1)] show ?thesis by simp
next
  case False
  with assms put_other [OF assms(1) False] show ?thesis by simp
qed

lemma writes_monotone: "stored s j = Some m \<Longrightarrow> \<exists>m'. stored (writes ws s) j = Some m' \<and> m \<le> m'"
proof (induction ws arbitrary: s m)
  case (Cons w ws)
  obtain k n v where w: "w = (k, n, v)" by (cases w)
  show ?case
  proof (cases "put k n v s")
    case None
    with Cons w show ?thesis by simp
  next
    case (Some s')
    with Cons.prems obtain m1 where "stored s' j = Some m1" "m \<le> m1"
      using put_monotone by blast
    with Cons.IH [of s' m1] Some w show ?thesis by fastforce
  qed
qed simp

text \<open>
  Fencing: once a write based on version \<open>n\<close> was accepted, no later write based on \<open>n\<close> (or
  on anything older) is accepted, whatever happens in between.
\<close>

lemma newer_after_writes:
  assumes "put k n v s = Some s'"
  shows "\<exists>m'. stored (writes ws s') k = Some m' \<and> n + 1 \<le> m'"
  by (rule writes_monotone [OF put_version [OF assms]])

lemma stale_write_refused:
  assumes "put k n v s = Some s'" "m \<le> n"
  shows "put k m w (writes ws s') = None"
proof (cases "put k m w (writes ws s')")
  case (Some s'')
  with put_fenced [OF Some] newer_after_writes [OF assms(1), of ws] assms(2) show ?thesis by auto
qed

end

locale versioned_store = fenced_store +
  assumes put_total: "stored s k = Some n \<Longrightarrow> put k n v s \<noteq> None"
begin

lemma put_accepts: "put k n v s \<noteq> None \<longleftrightarrow> stored s k = Some n"
  using put_fenced put_total by blast

text \<open>A writer that reads the version first always gets through.\<close>

lemma read_then_put:
  assumes "stored s k = Some n"
  shows "\<exists>s'. put k n v s = Some s' \<and> row s' k = Some (content k v (n + 1))"
proof -
  obtain s' where "put k n v s = Some s'" using put_total [OF assms] by blast
  with put_row show ?thesis by blast
qed

end

end
