(* ===== verification/Card_Store.thy ===== *)
theory Card_Store
  imports Kanban Versioned_Store
begin

text \<open>
  \<open>src/services/trade_card_repository.py\<close>: the table of trade cards with its unique key and
  per-row version, the operations on it inside a caller's transaction and on their own, the
  compact change token, the local recovery snapshot and the migration of legacy rows.

  A stored row is the card it decodes to; its version column is the card's version (the code
  overwrites the payload's version with the column on every write and every read). The table
  keeps the row ids' order, because a query without an order returns rows in that order. The
  database server's clock and the process's clock are arguments. Connection failures, which
  the read operations turn into an empty result, and the JSON text of a payload are not modelled.
\<close>

subsection \<open>The table\<close>

type_synonym card_id = "string \<times> string \<times> string"

definition card_id_of :: "trade_card \<Rightarrow> card_id" where
  "card_id_of c = (tc_environment c, tc_account_no c, tc_symbol c)"

record card_table =
  ct_ids :: "card_id list"
  ct_rows :: "card_id \<rightharpoonup> trade_card"
  ct_row_updated_at :: "card_id \<rightharpoonup> timestamp"
  ct_generation :: int

datatype card_store_error =
    TradeCardVersionConflict
  | TradeCardNotFound

definition empty_table :: card_table where
  "empty_table = \<lparr>ct_ids = [], ct_rows = Map.empty, ct_row_updated_at = Map.empty, ct_generation = 0\<rparr>"

definition mark_local_trade_card_changed :: "card_table \<Rightarrow> card_table" where
  "mark_local_trade_card_changed t = t\<lparr>ct_generation := ct_generation t + 1\<rparr>"

definition get_trade_card :: "card_table \<Rightarrow> string \<Rightarrow> string \<Rightarrow> string \<Rightarrow> trade_card option" where
  "get_trade_card t environment account_no ticker =
     ct_rows t (py_upper environment, account_no, py_upper ticker)"

definition table_cards :: "card_table \<Rightarrow> trade_card list" where
  "table_cards t = List.map_filter (ct_rows t) (ct_ids t)"

definition list_trade_cards_for_symbol :: "card_table \<Rightarrow> string \<Rightarrow> string \<Rightarrow> trade_card list" where
  "list_trade_cards_for_symbol t environment ticker =
     filter (\<lambda>c. tc_environment c = py_upper environment \<and> tc_symbol c = py_upper (py_strip ticker))
       (table_cards t)"

definition in_scope :: "string option \<Rightarrow> string option \<Rightarrow> trade_card \<Rightarrow> bool" where
  "in_scope environment account_no c \<longleftrightarrow>
     (\<not> some_text environment \<or> Some (tc_environment c) = map_option py_upper environment)
     \<and> (\<not> some_text account_no \<or> Some (tc_account_no c) = account_no)"

definition list_trade_cards :: "card_table \<Rightarrow> string option \<Rightarrow> string option \<Rightarrow> trade_card list" where
  "list_trade_cards t environment account_no = filter (in_scope environment account_no) (table_cards t)"

text \<open>The change token: row count, sum of versions, latest row timestamp.\<close>

record collection_revision =
  cr_row_count :: int
  cr_version_sum :: int
  cr_updated_at :: "timestamp option"

definition get_trade_card_collection_revision ::
    "card_table \<Rightarrow> string option \<Rightarrow> string option \<Rightarrow> collection_revision" where
  "get_trade_card_collection_revision t environment account_no =
     (let cards = list_trade_cards t environment account_no;
          stamps = List.map_filter (\<lambda>c. ct_row_updated_at t (card_id_of c)) cards
      in \<lparr>cr_row_count = int (length cards), cr_version_sum = sum_list (map tc_version cards),
          cr_updated_at = (if stamps = [] then None else Some (foldr max stamps (hd stamps)))\<rparr>)"

subsection \<open>Writes inside a transaction\<close>

definition insert_trade_card ::
    "timestamp \<Rightarrow> trade_card \<Rightarrow> card_table \<Rightarrow> card_store_error + (trade_card \<times> card_table)" where
  "insert_trade_card server_now c t =
     (let k = card_id_of c; c' = c\<lparr>tc_version := 1\<rparr>
      in if ct_rows t k \<noteq> None then Inl TradeCardVersionConflict
         else Inr (c', mark_local_trade_card_changed
                (t\<lparr>ct_ids := ct_ids t @ [k], ct_rows := (ct_rows t)(k \<mapsto> c'),
                   ct_row_updated_at := (ct_row_updated_at t)(k \<mapsto> server_now)\<rparr>)))"

definition update_trade_card_in_transaction ::
    "timestamp \<Rightarrow> timestamp \<Rightarrow> trade_card \<Rightarrow> int \<Rightarrow> card_table
       \<Rightarrow> card_store_error + (trade_card \<times> card_table)" where
  "update_trade_card_in_transaction now server_now c expected_version t =
     (let next_version = expected_version + 1; k = card_id_of c;
          c' = c\<lparr>tc_updated_at := now, tc_version := next_version\<rparr>
      in case ct_rows t k of
           None \<Rightarrow> Inl TradeCardNotFound
         | Some stored \<Rightarrow>
             if tc_version stored \<noteq> expected_version then Inl TradeCardVersionConflict
             else Inr (c', mark_local_trade_card_changed
                    (t\<lparr>ct_rows := (ct_rows t)(k \<mapsto> c'),
                       ct_row_updated_at := (ct_row_updated_at t)(k \<mapsto> server_now)\<rparr>)))"

subsection \<open>Stand-alone writes and the local snapshot\<close>

text \<open>The repository: the table and the cards of the local snapshot file.\<close>

record card_repository =
  rp_table :: card_table
  rp_snapshot :: "trade_card list"

definition upsert_local_snapshot_card :: "trade_card \<Rightarrow> trade_card list \<Rightarrow> trade_card list" where
  "upsert_local_snapshot_card c cards =
     filter (\<lambda>existing. card_key existing \<noteq> card_key c) cards @ [c]"

definition create_trade_card ::
    "timestamp \<Rightarrow> trade_card \<Rightarrow> card_repository \<Rightarrow> card_store_error + (trade_card \<times> card_repository)" where
  "create_trade_card server_now c r =
     bind_result (insert_trade_card server_now c (rp_table r)) (\<lambda>(c', t').
       Inr (c', r\<lparr>rp_table := t', rp_snapshot := upsert_local_snapshot_card c' (rp_snapshot r)\<rparr>))"

definition update_trade_card ::
    "timestamp \<Rightarrow> timestamp \<Rightarrow> trade_card \<Rightarrow> int \<Rightarrow> card_repository
       \<Rightarrow> card_store_error + (trade_card \<times> card_repository)" where
  "update_trade_card now server_now c expected_version r =
     bind_result (update_trade_card_in_transaction now server_now c expected_version (rp_table r))
       (\<lambda>(c', t').
         Inr (c', r\<lparr>rp_table := t', rp_snapshot := upsert_local_snapshot_card c' (rp_snapshot r)\<rparr>))"

definition upsert_trade_card_unconditionally ::
    "timestamp \<Rightarrow> timestamp \<Rightarrow> trade_card \<Rightarrow> card_repository
       \<Rightarrow> card_store_error + (trade_card \<times> card_repository)" where
  "upsert_trade_card_unconditionally now server_now c r =
     (case get_trade_card (rp_table r) (tc_environment c) (tc_account_no c) (tc_symbol c) of
        None \<Rightarrow> create_trade_card server_now c r
      | Some existing \<Rightarrow> update_trade_card now server_now c (tc_version existing) r)"

definition sync_local_snapshot_from_database :: "card_repository \<Rightarrow> trade_card list \<times> card_repository" where
  "sync_local_snapshot_from_database r =
     (let cards = list_trade_cards (rp_table r) None None
      in (cards, if cards \<noteq> [] then r\<lparr>rp_snapshot := cards\<rparr> else r))"

lemmas card_write_defs = insert_trade_card_def update_trade_card_in_transaction_def
  mark_local_trade_card_changed_def Let_def

subsection \<open>The table keeps its unique key\<close>

definition table_wf :: "card_table \<Rightarrow> bool" where
  "table_wf t \<longleftrightarrow> distinct (ct_ids t) \<and> set (ct_ids t) = dom (ct_rows t)
     \<and> dom (ct_row_updated_at t) = dom (ct_rows t)
     \<and> (\<forall>k \<in> dom (ct_rows t). card_id_of (the (ct_rows t k)) = k)"

lemma table_wf_empty: "table_wf empty_table"
  by (simp add: table_wf_def empty_table_def)

lemma card_id_of_update [simp]:
  "card_id_of (c\<lparr>tc_version := v\<rparr>) = card_id_of c"
  "card_id_of (c\<lparr>tc_updated_at := now\<rparr>) = card_id_of c"
  by (simp_all add: card_id_of_def)

lemma insert_Inr_iff:
  "insert_trade_card snow c t = Inr (c', t') \<longleftrightarrow>
     ct_rows t (card_id_of c) = None \<and> c' = c\<lparr>tc_version := 1\<rparr>
     \<and> t' = t\<lparr>ct_ids := ct_ids t @ [card_id_of c], ct_rows := (ct_rows t)(card_id_of c \<mapsto> c'),
              ct_row_updated_at := (ct_row_updated_at t)(card_id_of c \<mapsto> snow),
              ct_generation := ct_generation t + 1\<rparr>"
  by (auto simp: card_write_defs)

lemma update_Inr_iff:
  "update_trade_card_in_transaction now snow c n t = Inr (c', t') \<longleftrightarrow>
     map_option tc_version (ct_rows t (card_id_of c)) = Some n
     \<and> c' = c\<lparr>tc_updated_at := now, tc_version := n + 1\<rparr>
     \<and> t' = t\<lparr>ct_rows := (ct_rows t)(card_id_of c \<mapsto> c'),
              ct_row_updated_at := (ct_row_updated_at t)(card_id_of c \<mapsto> snow),
              ct_generation := ct_generation t + 1\<rparr>"
  by (auto simp: card_write_defs split: option.splits)

lemma table_wf_insert:
  "table_wf t \<Longrightarrow> insert_trade_card snow c t = Inr (c', t') \<Longrightarrow> table_wf t'"
  by (auto simp: insert_Inr_iff table_wf_def)

lemma table_wf_update:
  "table_wf t \<Longrightarrow> update_trade_card_in_transaction now snow c n t = Inr (c', t') \<Longrightarrow> table_wf t'"
  by (auto simp: update_Inr_iff table_wf_def insert_absorb)

lemma table_cards_map:
  "table_wf t \<Longrightarrow> table_cards t = map (the \<circ> ct_rows t) (ct_ids t)"
proof -
  assume "table_wf t"
  then have "\<forall>k \<in> set (ct_ids t). ct_rows t k \<noteq> None" by (auto simp: table_wf_def)
  then have "List.map_filter (ct_rows t) (ct_ids t) = map (the \<circ> ct_rows t) (ct_ids t)"
    by (induction "ct_ids t" arbitrary: t) (simp_all add: map_filter_def)
  then show ?thesis by (simp add: table_cards_def)
qed

lemma table_cards_ids: "table_wf t \<Longrightarrow> map card_id_of (table_cards t) = ct_ids t"
  by (simp only: table_cards_map map_map, rule map_idI) (auto simp: table_wf_def)

lemma table_cards_mem: "table_wf t \<Longrightarrow> c \<in> set (table_cards t) \<longleftrightarrow> ct_rows t (card_id_of c) = Some c"
  by (simp only: table_cards_map) (force simp: table_wf_def)

subsection \<open>The card table as a versioned store\<close>

definition put_card :: "card_id \<Rightarrow> int \<Rightarrow> timestamp \<times> timestamp \<times> trade_card \<Rightarrow> card_table \<Rightarrow> card_table option" where
  "put_card k n w t =
     (case (k, w) of ((environment, account_no, ticker), (now, snow, c)) \<Rightarrow>
        case update_trade_card_in_transaction now snow
               (c\<lparr>tc_environment := environment, tc_account_no := account_no, tc_symbol := ticker\<rparr>) n t of
          Inl e \<Rightarrow> None | Inr (c', t') \<Rightarrow> Some t')"

definition put_content :: "card_id \<Rightarrow> timestamp \<times> timestamp \<times> trade_card \<Rightarrow> int \<Rightarrow> trade_card" where
  "put_content k w m =
     (case (k, w) of ((environment, account_no, ticker), (now, snow, c)) \<Rightarrow>
        c\<lparr>tc_environment := environment, tc_account_no := account_no, tc_symbol := ticker,
          tc_updated_at := now, tc_version := m\<rparr>)"

definition stored_version :: "card_table \<Rightarrow> card_id \<Rightarrow> int option" where
  "stored_version t k = map_option tc_version (ct_rows t k)"

lemma put_card_Some_iff:
  "put_card k n w t = Some t' \<longleftrightarrow> stored_version t k = Some n
     \<and> t' = t\<lparr>ct_rows := (ct_rows t)(k \<mapsto> put_content k w (n + 1)),
              ct_row_updated_at := (ct_row_updated_at t)(k \<mapsto> fst (snd w)),
              ct_generation := ct_generation t + 1\<rparr>"
proof -
  obtain environment account_no ticker where k: "k = (environment, account_no, ticker)" by (cases k)
  obtain now snow c where w: "w = (now, snow, c)" by (cases w)
  show ?thesis
    by (auto simp: k w put_card_def put_content_def stored_version_def card_write_defs card_id_of_def
        split: option.splits)
qed

lemma put_card_accepts: "put_card k n w t \<noteq> None \<longleftrightarrow> stored_version t k = Some n"
  using put_card_Some_iff [of k n w t] by (cases "put_card k n w t") auto

lemma put_content_version [simp]: "tc_version (put_content k w m) = m"
  by (simp add: put_content_def split: prod.splits)

interpretation cards: versioned_store stored_version ct_rows put_card put_content
proof
  show "put_card k n v s = Some s' \<Longrightarrow> stored_version s k = Some n" for k n v s s'
    by (simp add: put_card_Some_iff)
  show "stored_version s k = Some n \<Longrightarrow> put_card k n v s \<noteq> None" for k n v s
    by (simp only: put_card_accepts)
qed (auto simp: put_card_Some_iff stored_version_def)

lemma update_as_put:
  "update_trade_card_in_transaction now snow c n t = Inr (c', t') \<Longrightarrow>
     put_card (card_id_of c) n (now, snow, c) t = Some t'"
  by (auto simp: put_card_Some_iff update_Inr_iff stored_version_def put_content_def card_id_of_def)

subsection \<open>Tables the program can reach\<close>

inductive card_table_step :: "card_table \<Rightarrow> card_table \<Rightarrow> bool" where
  step_insert: "insert_trade_card snow c t = Inr (c', t') \<Longrightarrow> card_table_step t t'"
| step_update: "update_trade_card_in_transaction now snow c n t = Inr (c', t') \<Longrightarrow> card_table_step t t'"

inductive_cases card_table_stepE: "card_table_step t t'"

lemma card_table_step_wf: "card_table_step t t' \<Longrightarrow> table_wf t \<Longrightarrow> table_wf t'"
  by (erule card_table_stepE) (rule table_wf_insert table_wf_update, assumption+)+

lemma reachable_wf: "card_table_step\<^sup>*\<^sup>* empty_table t \<Longrightarrow> table_wf t"
  by (induction rule: rtranclp_induct) (auto intro: card_table_step_wf table_wf_empty)

lemma distinct_filter_map: "distinct (map f xs) \<Longrightarrow> distinct (map f (filter P xs))"
  by (rule distinct_map_filter)

text \<open>One card per key, for good. However the table was written to, listing its cards
  gives at most one card per environment, account and symbol, every listed card is the one a
  lookup of its key returns, and inserting a card under a taken key is refused.\<close>

theorem one_card_per_key:
  assumes "card_table_step\<^sup>*\<^sup>* empty_table t"
  shows "distinct (map card_id_of (list_trade_cards t environment account))
    \<and> (\<forall>c \<in> set (list_trade_cards t environment account).
         ct_rows t (card_id_of c) = Some c
         \<and> insert_trade_card snow (c\<lparr>tc_name := other\<rparr>) t = Inl TradeCardVersionConflict)"
proof -
  have wf: "table_wf t" using reachable_wf [OF assms] .
  have "distinct (map card_id_of (table_cards t))"
    using wf by (simp add: table_cards_ids table_wf_def)
  then have "distinct (map card_id_of (list_trade_cards t environment account))"
    unfolding list_trade_cards_def by (rule distinct_filter_map)
  moreover have "ct_rows t (card_id_of c) = Some c"
    if "c \<in> set (list_trade_cards t environment account)" for c
    using that by (simp add: list_trade_cards_def table_cards_mem [OF wf])
  moreover have "card_id_of (c\<lparr>tc_name := other\<rparr>) = card_id_of c" for c
    by (simp add: card_id_of_def)
  ultimately show ?thesis by (auto simp: insert_trade_card_def Let_def)
qed

definition sample_card :: trade_card where
  "sample_card = blank_card 0 ''PROD'' ''1'' ''AAPL''"

lemma sample_insert:
  "insert_trade_card 0 sample_card empty_table =
     Inr (sample_card, \<lparr>ct_ids = [(''PROD'', ''1'', ''AAPL'')],
       ct_rows = [(''PROD'', ''1'', ''AAPL'') \<mapsto> sample_card],
       ct_row_updated_at = [(''PROD'', ''1'', ''AAPL'') \<mapsto> 0], ct_generation = 1\<rparr>)"
  by (simp add: insert_Inr_iff empty_table_def sample_card_def blank_card_def card_id_of_def)

theorem one_card_per_key_witness:
  "\<exists>t. card_table_step\<^sup>*\<^sup>* empty_table t \<and> list_trade_cards t None None = [sample_card]
     \<and> insert_trade_card 0 (sample_card\<lparr>tc_name := ''x''\<rparr>) t = Inl TradeCardVersionConflict"
proof -
  let ?t = "\<lparr>ct_ids = [(''PROD'', ''1'', ''AAPL'')],
       ct_rows = [(''PROD'', ''1'', ''AAPL'') \<mapsto> sample_card],
       ct_row_updated_at = [(''PROD'', ''1'', ''AAPL'') \<mapsto> 0], ct_generation = 1\<rparr>"
  have r: "card_table_step\<^sup>*\<^sup>* empty_table ?t"
    using step_insert [OF sample_insert] by (rule r_into_rtranclp)
  have l: "list_trade_cards ?t None None = [sample_card]"
    by (simp add: list_trade_cards_def in_scope_def table_cards_def map_filter_def)
  from one_card_per_key [OF r, of None None 0 "''x''"] l r show ?thesis by auto
qed

text \<open>No lost update on a card. After a write based on version \<open>n\<close> was accepted, every
  write to the same card based on \<open>n\<close> or anything older is refused with the version conflict,
  whatever other writes happen in between.\<close>

theorem stale_card_write_refused:
  assumes "update_trade_card_in_transaction now snow c n t = Inr (c1, t1)"
    "card_id_of d = card_id_of c" "m \<le> n"
  shows "update_trade_card_in_transaction now' snow' d m (cards.writes ws t1)
    = Inl TradeCardVersionConflict"
proof -
  let ?t = "cards.writes ws t1"
  note p = update_as_put [OF assms(1)]
  have "put_card (card_id_of c) m (now', snow', d) ?t = None"
    by (rule cards.stale_write_refused [OF p assms(3)])
  then have ne: "stored_version ?t (card_id_of d) \<noteq> Some m"
    using put_card_accepts [of "card_id_of c" m "(now', snow', d)" ?t] assms(2) by simp
  obtain v where "stored_version ?t (card_id_of d) = Some v"
    using cards.writes_monotone [OF cards.put_version [OF p], of ws] assms(2) by auto
  with ne show ?thesis
    by (auto simp: update_trade_card_in_transaction_def stored_version_def Let_def)
qed

theorem stale_card_write_refused_witness:
  "\<exists>t1. update_trade_card_in_transaction 5 5 sample_card 1
      (\<lparr>ct_ids = [(''PROD'', ''1'', ''AAPL'')], ct_rows = [(''PROD'', ''1'', ''AAPL'') \<mapsto> sample_card],
        ct_row_updated_at = Map.empty, ct_generation = 1\<rparr>)
      = Inr (sample_card\<lparr>tc_updated_at := 5, tc_version := 2\<rparr>, t1)
    \<and> update_trade_card_in_transaction 6 6 (sample_card\<lparr>tc_name := ''x''\<rparr>) 1
        (cards.writes [((''PROD'', ''1'', ''AAPL''), 2, (7, 7, sample_card))] t1)
      = Inl TradeCardVersionConflict"
proof -
  let ?t = "\<lparr>ct_ids = [(''PROD'', ''1'', ''AAPL'')], ct_rows = [(''PROD'', ''1'', ''AAPL'') \<mapsto> sample_card],
        ct_row_updated_at = Map.empty, ct_generation = 1\<rparr>"
  have i: "card_id_of sample_card = (''PROD'', ''1'', ''AAPL'')"
    by (simp add: card_id_of_def sample_card_def blank_card_def)
  have v: "tc_version sample_card = 1" by (simp add: sample_card_def blank_card_def)
  obtain t1 where u: "update_trade_card_in_transaction 5 5 sample_card 1 ?t
      = Inr (sample_card\<lparr>tc_updated_at := 5, tc_version := 2\<rparr>, t1)"
    by (simp add: update_Inr_iff i v)
  have "card_id_of (sample_card\<lparr>tc_name := ''x''\<rparr>) = card_id_of sample_card"
    by (simp add: card_id_of_def)
  from stale_card_write_refused [OF u this order_refl] u show ?thesis by blast
qed

subsection \<open>The change token\<close>

lemma filtered_sum_split:
  assumes "distinct ids" "k \<in> set ids"
  shows "\<exists>xs ys. ids = xs @ k # ys \<and> k \<notin> set xs \<and> k \<notin> set ys"
proof -
  obtain xs ys where "ids = xs @ k # ys" using assms(2) by (auto dest: split_list)
  with assms(1) show ?thesis by (intro exI [of _ xs] exI [of _ ys]) simp
qed

lemma in_scope_id: "card_id_of c = card_id_of d \<Longrightarrow> in_scope e a c = in_scope e a d"
  by (simp add: in_scope_def card_id_of_def)

lemma version_sum_update:
  assumes wf: "table_wf t" and u: "update_trade_card_in_transaction now snow c n t = Inr (c', t')"
    and scope: "in_scope environment account c"
  shows "cr_version_sum (get_trade_card_collection_revision t' environment account)
    = cr_version_sum (get_trade_card_collection_revision t environment account) + 1"
proof -
  let ?k = "card_id_of c" and ?P = "in_scope environment account"
  obtain s where s: "ct_rows t ?k = Some s" "tc_version s = n" using u by (auto simp: update_Inr_iff)
  have c': "c' = c\<lparr>tc_updated_at := now, tc_version := n + 1\<rparr>"
    and rows: "ct_rows t' = (ct_rows t)(?k \<mapsto> c')" "ct_ids t' = ct_ids t"
    using u by (auto simp: update_Inr_iff)
  have ks: "card_id_of s = ?k" using wf s(1) by (force simp: table_wf_def)
  have kc: "card_id_of c' = ?k" unfolding c' by (simp add: card_id_of_def)
  have in_scope: "?P s" "?P c'"
    using scope unfolding in_scope_id [OF ks] in_scope_id [OF kc] by assumption+
  have d: "distinct (ct_ids t)" "?k \<in> set (ct_ids t)" using wf s(1) by (auto simp: table_wf_def)
  obtain xs ys where ids: "ct_ids t = xs @ ?k # ys" "?k \<notin> set xs" "?k \<notin> set ys"
    using filtered_sum_split [OF d] by (elim exE conjE) (rule that)
  have other: "List.map_filter (ct_rows t') zs = List.map_filter (ct_rows t) zs" if "?k \<notin> set zs" for zs
    using that by (induction zs) (auto simp: map_filter_def rows)
  have version': "tc_version c' = n + 1" by (simp add: c')
  show ?thesis
    using in_scope s other [OF ids(2)] other [OF ids(3)] version'
    by (simp add: get_trade_card_collection_revision_def Let_def list_trade_cards_def table_cards_def
        rows(2) ids(1) rows(1) map_filter_def)
qed

lemma version_sum_insert:
  assumes wf: "table_wf t" and i: "insert_trade_card snow c t = Inr (c', t')"
    and scope: "in_scope environment account c"
  shows "cr_version_sum (get_trade_card_collection_revision t' environment account)
    = cr_version_sum (get_trade_card_collection_revision t environment account) + 1"
proof -
  let ?k = "card_id_of c"
  have n: "?k \<notin> set (ct_ids t)" using i wf by (auto simp: insert_Inr_iff table_wf_def)
  have c': "c' = c\<lparr>tc_version := 1\<rparr>"
    and rows: "ct_rows t' = (ct_rows t)(?k \<mapsto> c')" "ct_ids t' = ct_ids t @ [?k]"
    using i by (auto simp: insert_Inr_iff)
  have other: "List.map_filter (ct_rows t') zs = List.map_filter (ct_rows t) zs" if "?k \<notin> set zs" for zs
    using that by (induction zs) (auto simp: map_filter_def rows)
  have kc: "card_id_of c' = ?k" unfolding c' by (simp add: card_id_of_def)
  have "in_scope environment account c'" using scope unfolding in_scope_id [OF kc] .
  moreover have version': "tc_version c' = 1" by (simp add: c')
  ultimately show ?thesis
    using other [OF n] version'
    by (simp add: get_trade_card_collection_revision_def Let_def list_trade_cards_def table_cards_def
        rows(2) rows(1) map_filter_def)
qed

text \<open>The runtime's cache key never misses a write: an accepted write to a card in the
  requested scope raises the version sum of the collection revision by one, so the token
  differs from every token taken before it.\<close>

theorem revision_changes_on_write:
  assumes "card_table_step\<^sup>*\<^sup>* empty_table t" "in_scope environment account c"
    "insert_trade_card snow c t = Inr (c', t')
     \<or> update_trade_card_in_transaction now snow c n t = Inr (c', t')"
  shows "cr_version_sum (get_trade_card_collection_revision t' environment account)
      = cr_version_sum (get_trade_card_collection_revision t environment account) + 1
    \<and> get_trade_card_collection_revision t' environment account
      \<noteq> get_trade_card_collection_revision t environment account"
proof -
  have "cr_version_sum (get_trade_card_collection_revision t' environment account)
      = cr_version_sum (get_trade_card_collection_revision t environment account) + 1"
    using version_sum_insert [OF reachable_wf [OF assms(1)] _ assms(2)]
      version_sum_update [OF reachable_wf [OF assms(1)] _ assms(2)] assms(3) by blast
  then show ?thesis by auto
qed

theorem revision_changes_on_write_witness:
  "\<exists>t'. insert_trade_card 0 sample_card empty_table = Inr (sample_card, t')
     \<and> cr_version_sum (get_trade_card_collection_revision t' None (Some ''1'')) = 1
     \<and> get_trade_card_collection_revision t' None (Some ''1'')
        \<noteq> get_trade_card_collection_revision empty_table None (Some ''1'')"
proof -
  have r: "card_table_step\<^sup>*\<^sup>* empty_table empty_table" by simp
  have s: "in_scope None (Some ''1'') sample_card"
    by (simp add: in_scope_def sample_card_def blank_card_def)
  have z: "cr_version_sum (get_trade_card_collection_revision empty_table None (Some ''1'')) = 0"
    by (simp add: get_trade_card_collection_revision_def list_trade_cards_def table_cards_def
        empty_table_def map_filter_def Let_def)
  from revision_changes_on_write [OF r s, of 0 sample_card _ 0 1] sample_insert z
  show ?thesis by auto
qed

subsection \<open>The importer's overwrite\<close>

lemma snapshot_upsert:
  "filter (\<lambda>x. card_key x = card_key c) (upsert_local_snapshot_card c cards) = [c]"
proof -
  have "filter (\<lambda>x. card_key x = card_key c) (filter (\<lambda>x. card_key x \<noteq> card_key c) cards) = []"
    by (simp add: filter_empty_conv)
  then show ?thesis by (simp add: upsert_local_snapshot_card_def del: filter_filter)
qed

text \<open>The unconditional overwrite of the importer always succeeds for a card whose key is in
  the stored form, bumps the version by one or starts it at 1, and leaves exactly one copy of
  the card, the new one, in the recovery snapshot.\<close>

theorem unconditional_upsert_succeeds:
  assumes "py_upper (tc_environment c) = tc_environment c" "py_upper (tc_symbol c) = tc_symbol c"
  shows "\<exists>c' r'. upsert_trade_card_unconditionally now snow c r = Inr (c', r')
    \<and> ct_rows (rp_table r') (card_id_of c) = Some c'
    \<and> tc_version c' = (case ct_rows (rp_table r) (card_id_of c) of
         None \<Rightarrow> 1 | Some old \<Rightarrow> tc_version old + 1)
    \<and> filter (\<lambda>x. card_key x = card_key c') (rp_snapshot r') = [c']"
proof (cases "ct_rows (rp_table r) (card_id_of c)")
  case None
  with assms show ?thesis
    by (auto simp: upsert_trade_card_unconditionally_def get_trade_card_def create_trade_card_def
        insert_trade_card_def Let_def mark_local_trade_card_changed_def card_id_of_def snapshot_upsert)
next
  case (Some old)
  with assms show ?thesis
    by (auto simp: upsert_trade_card_unconditionally_def get_trade_card_def update_trade_card_def
        update_trade_card_in_transaction_def Let_def mark_local_trade_card_changed_def
        card_id_of_def snapshot_upsert)
qed

theorem unconditional_upsert_succeeds_witness:
  "\<exists>c' r'. upsert_trade_card_unconditionally 3 3 sample_card
      \<lparr>rp_table = empty_table, rp_snapshot = []\<rparr> = Inr (c', r')
    \<and> tc_version c' = 1 \<and> filter (\<lambda>x. card_key x = card_key c') (rp_snapshot r') = [c']"
proof -
  have a: "py_upper (tc_environment sample_card) = tc_environment sample_card"
    "py_upper (tc_symbol sample_card) = tc_symbol sample_card"
    unfolding sample_card_def blank_card_def by (simp_all, code_simp+)
  from unconditional_upsert_succeeds [OF a, of 3 3 "\<lparr>rp_table = empty_table, rp_snapshot = []\<rparr>"]
  show ?thesis by (fastforce simp: empty_table_def)
qed

end
