(* ===== verification/Card_Migration.thy ===== *)
theory Card_Migration
  imports Card_Store
begin

text \<open>
  The importer of \<open>src/services/trade_card_repository.py\<close>: legacy buylist rows become trade
  cards, first as a report that touches nothing, then, on request, in the repository. A legacy
  row is a record of the attributes the importer reads; an absent attribute has the default the
  importer's \<open>getattr\<close> gives it.
\<close>

record legacy_item =
  li_environment :: string
  li_kis_account_no :: string
  li_symbol :: string
  li_name :: string
  li_monitoring_status :: string
  li_orb_monitor_enabled :: bool
  li_shares_held :: int
  li_stop_loss :: pyfloat
  li_breakout_price :: "pyfloat option"
  li_buffer_pct :: "pyfloat option"
  li_risk_percent :: "pyfloat option"
  li_position_percent :: pyfloat
  li_entry_price :: "pyfloat option"
  li_avg_cost :: pyfloat
  li_plan_window :: "string option"
  li_plan_shares :: int
  li_plan_entry_trigger :: "pyfloat option"
  li_plan_floor_price :: "pyfloat option"
  li_plan_entry_floor :: "pyfloat option"
  li_plan_execution_price :: "pyfloat option"
  li_plan_stop_adr :: "pyfloat option"

datatype migration_action = MIGRATE_CREATE | MIGRATE_UPDATE | MIGRATE_UNCHANGED

record migration_row =
  mr_key :: string
  mr_action :: migration_action
  mr_card :: trade_card
  mr_previous_board_status :: "board_status option"

datatype migration_error =
    MigrationCardError card_error
  | MigrationDuplicate duplicate_error
  | MigrationStoreError card_store_error

definition legacy_buylist_risk_fraction :: "legacy_item \<Rightarrow> pyfloat" where
  "legacy_buylist_risk_fraction item =
     (let points = (case li_risk_percent item of
            None \<Rightarrow> Fin 1 | Some x \<Rightarrow> if truthy x then x else Fin 1);
          points = (if \<not> isfinite points \<or> fle points (Fin 0) then Fin 1 else points)
      in fmin (case fdiv points (Fin 100) of Some r \<Rightarrow> r | None \<Rightarrow> points) (Fin 1))"

text \<open>The card of one legacy row; \<open>members\<close> are the watchlist's symbols and \<open>session\<close> its date.\<close>

definition legacy_card ::
    "timestamp \<Rightarrow> string set \<Rightarrow> date option \<Rightarrow> legacy_item \<Rightarrow> card_error + trade_card" where
  "legacy_card now members session item =
     (let shares = li_shares_held item; held = 0 < shares;
          stop = held \<and> fpos (li_stop_loss item); member = py_upper (li_symbol item) \<in> members
      in card_post_init ((blank_card now (li_environment item) (li_kis_account_no item) (li_symbol item))
          \<lparr>tc_name := li_name item,
           tc_board_status := migrate_legacy_status_to_board_status (li_monitoring_status item)
             (li_orb_monitor_enabled item) shares,
           tc_watchlist_member := member,
           tc_watchlist_session_date := (if member then session else None),
           tc_buylist_member := True,
           tc_breakout_price := li_breakout_price item,
           tc_selected_orb_window := li_plan_window item,
           tc_buffer_pct := (case li_buffer_pct item of None \<Rightarrow> to_float (1 / 1000) | Some b \<Rightarrow> b),
           tc_risk_percent := legacy_buylist_risk_fraction item,
           tc_position_percent := li_position_percent item,
           tc_planned_quantity := li_plan_shares item,
           tc_target_position_quantity := (if shares \<noteq> 0 then shares else li_plan_shares item),
           tc_entry_orb_window := li_plan_window item,
           tc_entry_trigger := li_plan_entry_trigger item,
           tc_entry_floor_price := (if li_plan_floor_price item \<noteq> None then li_plan_floor_price item
             else li_plan_entry_floor item),
           tc_entry_execution_price := (if li_plan_execution_price item \<noteq> None
             then li_plan_execution_price item else li_entry_price item),
           tc_stop_adr := li_plan_stop_adr item,
           tc_position_runtime_status := (if held then PRS_OPEN else PRS_NONE),
           tc_broker_quantity := shares,
           tc_orderable_quantity := shares,
           tc_average_entry_price := li_avg_cost item,
           tc_stop_type := (if stop then Some STOP_MANUAL_PRICE else None),
           tc_active_stop_price := (if stop then Some (li_stop_loss item) else None),
           tc_stop_quantity := (if stop then shares else 0),
           tc_warnings := [''migrated_from_buylist'']\<rparr>))"

definition migration_row_for :: "(string \<rightharpoonup> trade_card) \<Rightarrow> trade_card \<Rightarrow> migration_row" where
  "migration_row_for existing_by_key c =
     (case existing_by_key (card_key c) of
        None \<Rightarrow> \<lparr>mr_key = card_key c, mr_action = MIGRATE_CREATE, mr_card = c,
                 mr_previous_board_status = None\<rparr>
      | Some existing \<Rightarrow>
          if tc_board_status existing \<noteq> tc_board_status c
          then \<lparr>mr_key = card_key c, mr_action = MIGRATE_UPDATE,
                mr_card = c\<lparr>tc_version := tc_version existing\<rparr>,
                mr_previous_board_status = Some (tc_board_status existing)\<rparr>
          else \<lparr>mr_key = card_key c, mr_action = MIGRATE_UNCHANGED, mr_card = existing,
                mr_previous_board_status = None\<rparr>)"

fun migration_rows :: "timestamp \<Rightarrow> string set \<Rightarrow> date option \<Rightarrow> (string \<rightharpoonup> trade_card)
    \<Rightarrow> legacy_item list \<Rightarrow> migration_error + migration_row list" where
  "migration_rows now members session existing [] = Inr []"
| "migration_rows now members session existing (item # items) =
     (case legacy_card now members session item of
        Inl e \<Rightarrow> Inl (MigrationCardError e)
      | Inr c \<Rightarrow> bind_result (migration_rows now members session existing items)
          (\<lambda>rows. Inr (migration_row_for existing c # rows)))"

definition cards_by_key :: "trade_card list \<Rightarrow> (string \<rightharpoonup> trade_card)" where
  "cards_by_key cards = map_of (rev (map (\<lambda>c. (card_key c, c)) cards))"

definition build_trade_card_migration :: "timestamp \<Rightarrow> legacy_item list \<Rightarrow> string set \<Rightarrow> date option
    \<Rightarrow> trade_card list \<Rightarrow> migration_error + migration_row list" where
  "build_trade_card_migration now items members session existing =
     bind_result (migration_rows now members session (cards_by_key existing) items) (\<lambda>rows.
       case require_single_card_per_symbol (map mr_card rows) of
         None \<Rightarrow> Inr rows | Some e \<Rightarrow> Inl (MigrationDuplicate e))"

text \<open>Applying the report row by row. A store error stops the import where it is.\<close>

fun apply_migration :: "timestamp \<Rightarrow> timestamp \<Rightarrow> migration_row list \<Rightarrow> card_repository
    \<Rightarrow> migration_error option \<times> card_repository" where
  "apply_migration now snow [] r = (None, snd (sync_local_snapshot_from_database r))"
| "apply_migration now snow (row # rows) r =
     (case (case mr_action row of
              MIGRATE_CREATE \<Rightarrow> create_trade_card snow (mr_card row) r
            | MIGRATE_UPDATE \<Rightarrow> update_trade_card now snow (mr_card row) (tc_version (mr_card row)) r
            | MIGRATE_UNCHANGED \<Rightarrow> Inr (mr_card row, r)) of
        Inl e \<Rightarrow> (Some (MigrationStoreError e), r)
      | Inr (c, r') \<Rightarrow> apply_migration now snow rows r')"

definition migrate_buylist_to_trade_cards :: "timestamp \<Rightarrow> timestamp \<Rightarrow> bool \<Rightarrow> legacy_item list
    \<Rightarrow> string set \<Rightarrow> date option \<Rightarrow> card_repository
    \<Rightarrow> (migration_error + migration_row list) \<times> migration_error option \<times> card_repository" where
  "migrate_buylist_to_trade_cards now snow apply_it items members session r =
     (case build_trade_card_migration now items members session
             (list_trade_cards (rp_table r) None None) of
        Inl e \<Rightarrow> (Inl e, None, r)
      | Inr rows \<Rightarrow> (Inr rows, if apply_it then apply_migration now snow rows r else (None, r)))"

subsection \<open>What the importer guarantees\<close>

lemma normalise_keeps [simp]:
  "tc_version (normalise_card key c) = (if tc_version c = 0 then 1 else tc_version c)"
  "tc_broker_quantity (normalise_card key c) = tc_broker_quantity c"
  "tc_board_status (normalise_card key c) = tc_board_status c"
  "tc_stop_type (normalise_card key c) = tc_stop_type c"
  "tc_stop_quantity (normalise_card key c) = tc_stop_quantity c"
  "tc_warnings (normalise_card key c) = tc_warnings c"
  "tc_active_stop_price (normalise_card key c) = finite_float (tc_active_stop_price c) None"
  "tc_position_runtime_status (normalise_card key c) = tc_position_runtime_status c"
  by (simp_all add: normalise_card_def Let_def)

lemma card_post_init_Inr: "card_post_init c = Inr c' \<Longrightarrow> \<exists>key. c' = normalise_card key c"
  by (auto simp: card_post_init_def Let_def guard_simps)

lemma legacy_risk_legal:
  "fle (Fin 0) (legacy_buylist_risk_fraction item) \<and> fle (legacy_buylist_risk_fraction item) (Fin 1)
   \<and> isfinite (legacy_buylist_risk_fraction item)"
proof -
  have clip: "fle (Fin 0) (fmin r (Fin 1)) \<and> fle (fmin r (Fin 1)) (Fin 1) \<and> isfinite (fmin r (Fin 1))"
    if "fle (Fin 0) r" for r
    using that by (cases r) (auto simp: fmin_def)
  have scaled: "fle (Fin 0) (case fdiv p (Fin 100) of Some r \<Rightarrow> r | None \<Rightarrow> p)"
    if "isfinite p" "\<not> fle p (Fin 0)" for p
  proof -
    from that obtain x where "p = Fin x" "0 < x" by (cases p) auto
    then show ?thesis using to_float_mono [of 0 "x / 100"] by simp
  qed
  show ?thesis
    unfolding legacy_buylist_risk_fraction_def Let_def
    by (intro clip scaled) (auto simp: truthy_def split: option.splits)
qed

lemma migration_rows_length:
  "migration_rows now ms s ex items = Inr rows \<Longrightarrow> length rows = length items"
  by (induction items arbitrary: rows) (auto simp: guard_simps split: sum.splits)

lemma migration_rows_nth:
  "migration_rows now ms s ex items = Inr rows \<Longrightarrow> row \<in> set rows \<Longrightarrow>
     \<exists>item \<in> set items. \<exists>c. legacy_card now ms s item = Inr c \<and> row = migration_row_for ex c"
  by (induction items arbitrary: rows) (auto simp: guard_simps split: sum.splits)

lemma legacy_card_facts:
  assumes "legacy_card now ms s item = Inr c"
  shows "card_normal c" "tc_broker_quantity c = li_shares_held item" "tc_version c = 1"
    "tc_stop_type c \<noteq> None \<longleftrightarrow> 0 < li_shares_held item \<and> fpos (li_stop_loss item)"
    "tc_stop_quantity c = (if tc_stop_type c \<noteq> None then li_shares_held item else 0)"
    "tc_warnings c = [''migrated_from_buylist'']"
proof -
  show "card_normal c" using assms unfolding legacy_card_def Let_def by (rule card_post_init_normal)
  show "tc_broker_quantity c = li_shares_held item" "tc_version c = 1"
    "tc_stop_type c \<noteq> None \<longleftrightarrow> 0 < li_shares_held item \<and> fpos (li_stop_loss item)"
    "tc_stop_quantity c = (if tc_stop_type c \<noteq> None then li_shares_held item else 0)"
    "tc_warnings c = [''migrated_from_buylist'']"
    using card_post_init_Inr [OF assms [unfolded legacy_card_def Let_def]]
    by (auto simp: blank_card_def split: if_splits)
qed

text \<open>The importer invents no protection and no position. In a report it returns there is one
  row per legacy item, no two rows share a key, and every created or updated card is in the
  constructor's normal form, carries the item's shares, and has a stop exactly when the item
  held shares and had a positive stop price, for exactly those shares.\<close>

theorem migration_report_sound:
  assumes "build_trade_card_migration now items members session existing = Inr rows"
  shows "length rows = length items \<and> distinct (map (card_key \<circ> mr_card) rows)
    \<and> (\<forall>row \<in> set rows. mr_action row \<noteq> MIGRATE_UNCHANGED \<longrightarrow>
         tc_symbol (mr_card row) \<noteq> [] \<and> tc_environment (mr_card row) = PRODUCTION_ENVIRONMENT
         \<and> (\<exists>item \<in> set items. tc_broker_quantity (mr_card row) = li_shares_held item
              \<and> (tc_stop_type (mr_card row) \<noteq> None
                  \<longleftrightarrow> 0 < li_shares_held item \<and> fpos (li_stop_loss item))
              \<and> tc_stop_quantity (mr_card row)
                  = (if tc_stop_type (mr_card row) \<noteq> None then li_shares_held item else 0)))"
proof -
  from assms have rows: "migration_rows now members session (cards_by_key existing) items = Inr rows"
    and single: "require_single_card_per_symbol (map mr_card rows) = None"
    by (auto simp: build_trade_card_migration_def guard_simps split: option.splits)
  have "distinct (map (card_key \<circ> mr_card) rows)"
    using single require_distinct [of "map mr_card rows"] by simp
  moreover have "tc_symbol (mr_card row) \<noteq> [] \<and> tc_environment (mr_card row) = PRODUCTION_ENVIRONMENT
         \<and> (\<exists>item \<in> set items. tc_broker_quantity (mr_card row) = li_shares_held item
              \<and> (tc_stop_type (mr_card row) \<noteq> None
                  \<longleftrightarrow> 0 < li_shares_held item \<and> fpos (li_stop_loss item))
              \<and> tc_stop_quantity (mr_card row)
                  = (if tc_stop_type (mr_card row) \<noteq> None then li_shares_held item else 0))"
    if row: "row \<in> set rows" "mr_action row \<noteq> MIGRATE_UNCHANGED" for row
  proof -
    obtain item c where i: "item \<in> set items" "legacy_card now members session item = Inr c"
      and r: "row = migration_row_for (cards_by_key existing) c"
      using migration_rows_nth [OF rows row(1)] by auto
    have fields: "tc_symbol (mr_card row) = tc_symbol c" "tc_environment (mr_card row) = tc_environment c"
      "tc_broker_quantity (mr_card row) = tc_broker_quantity c"
      "tc_stop_type (mr_card row) = tc_stop_type c" "tc_stop_quantity (mr_card row) = tc_stop_quantity c"
      using row(2) unfolding r by (auto simp: migration_row_for_def split: option.splits if_splits)
    show ?thesis
      unfolding fields using legacy_card_facts [OF i(2)] i(1) by (auto simp: card_normal_def)
  qed
  ultimately show ?thesis using migration_rows_length [OF rows] by blast
qed

definition sample_item :: legacy_item where
  "sample_item = \<lparr>li_environment = ''PROD'', li_kis_account_no = ''1'', li_symbol = ''AAPL'',
     li_name = [], li_monitoring_status = ''BOUGHT'', li_orb_monitor_enabled = False,
     li_shares_held = 10, li_stop_loss = Fin 90, li_breakout_price = Some (Fin 100),
     li_buffer_pct = None, li_risk_percent = Some (Fin 2), li_position_percent = Fin 0,
     li_entry_price = None, li_avg_cost = Fin 101, li_plan_window = None, li_plan_shares = 0,
     li_plan_entry_trigger = None, li_plan_floor_price = None, li_plan_entry_floor = None,
     li_plan_execution_price = None, li_plan_stop_adr = None\<rparr>"

lemma sample_item_card: "\<exists>c. legacy_card 0 {} None sample_item = Inr c"
proof -
  let ?risk = "legacy_buylist_risk_fraction sample_item"
  have e: "require_production_environment ''PROD'' = Inr PRODUCTION_ENVIRONMENT"
    using production_accepted unfolding PRODUCTION_ENVIRONMENT_def .
  have sy: "py_upper (py_strip ''AAPL'') \<noteq> []" by code_simp
  show ?thesis
    using e sy legacy_risk_legal [of sample_item]
    unfolding legacy_card_def card_post_init_def Let_def
    by (simp add: blank_card_def) (simp add: sample_item_def)
qed

theorem migration_report_sound_witness:
  "\<exists>rows. build_trade_card_migration 0 [sample_item] {} None [] = Inr rows \<and> length rows = 1
     \<and> (\<exists>row. rows = [row] \<and> tc_broker_quantity (mr_card row) = 10
          \<and> tc_stop_type (mr_card row) \<noteq> None \<and> tc_stop_quantity (mr_card row) = 10)"
proof -
  obtain c where c: "legacy_card 0 {} None sample_item = Inr c" using sample_item_card by blast
  have r: "migration_row_for (cards_by_key []) c = \<lparr>mr_key = card_key c, mr_action = MIGRATE_CREATE,
      mr_card = c, mr_previous_board_status = None\<rparr>"
    by (simp add: migration_row_for_def cards_by_key_def)
  have b: "build_trade_card_migration 0 [sample_item] {} None []
      = Inr [migration_row_for (cards_by_key []) c]"
    using c require_distinct [of "[c]"] by (simp add: build_trade_card_migration_def r)
  let ?row = "migration_row_for (cards_by_key []) c"
  have item: "li_shares_held sample_item = 10" "fpos (li_stop_loss sample_item)"
    by (simp_all add: sample_item_def)
  have m: "mr_action ?row \<noteq> MIGRATE_UNCHANGED" by (simp add: r)
  have "?row \<in> set [?row]" by simp
  from migration_report_sound [OF b, THEN conjunct2, THEN conjunct2, THEN bspec, OF this, THEN mp, OF m]
  have "tc_broker_quantity (mr_card ?row) = 10 \<and> tc_stop_type (mr_card ?row) \<noteq> None
      \<and> tc_stop_quantity (mr_card ?row) = 10"
    using item by auto
  with b show ?thesis by simp
qed

end
