(* ===== verification/Ownership.thy ===== *)
theory Ownership
  imports Versioned_Store
begin

text \<open>
  \<open>src/core/execution_ownership.py\<close> and \<open>src/services/execution_ownership_repository.py\<close>: which
  system may trade a symbol of an account. A key without a row is owned by LEGACY at version 0;
  every assignment raises the version by one, and a caller that rendered a concrete revision
  passes it as the expected version.
\<close>

datatype execution_owner = LEGACY | KANBAN | MANUAL

record ownership =
  ow_environment :: string
  ow_account_no :: string
  ow_symbol :: string
  ow_owner :: execution_owner
  ow_strategy_instance_id :: string
  ow_assigned_by :: string
  ow_assigned_at :: "timestamp option"
  ow_version :: int

datatype ownership_error =
    KanbanNeedsStrategyInstance
  | NegativeOwnershipVersion
  | OwnershipVersionConflict int int

definition ownership_post_init :: "ownership \<Rightarrow> ownership_error + ownership" where
  "ownership_post_init w =
     guarded (first_error
       [(ow_owner w = KANBAN \<and> py_strip (ow_strategy_instance_id w) = [], KanbanNeedsStrategyInstance),
        (ow_version w < 0, NegativeOwnershipVersion)])
     (Inr (w\<lparr>ow_environment := py_upper (ow_environment w), ow_symbol := py_upper (ow_symbol w)\<rparr>))"

text \<open>The key under which the default assignment is returned, and the default itself.\<close>

type_synonym owner_id = "string \<times> string \<times> string"

definition owner_id_of :: "ownership \<Rightarrow> owner_id" where
  "owner_id_of w = (ow_environment w, ow_account_no w, ow_symbol w)"

definition legacy_default :: "owner_id \<Rightarrow> ownership" where
  "legacy_default k =
     (case k of (environment, account_no, ticker) \<Rightarrow>
        \<lparr>ow_environment = environment, ow_account_no = account_no, ow_symbol = ticker,
         ow_owner = LEGACY, ow_strategy_instance_id = [], ow_assigned_by = [],
         ow_assigned_at = None, ow_version = 0\<rparr>)"

definition owner_for_source :: "string \<Rightarrow> execution_owner option" where
  "owner_for_source source_value =
     map_of [(''LEGACY_BUY_DASHBOARD'', LEGACY), (''KANBAN_BOARD'', KANBAN)] (py_upper source_value)"

subsection \<open>The ownership table\<close>

record ownership_table =
  ot_ids :: "owner_id list"
  ot_rows :: "owner_id \<rightharpoonup> ownership"

definition get_ownership :: "ownership_table \<Rightarrow> string \<Rightarrow> string \<Rightarrow> string \<Rightarrow> ownership" where
  "get_ownership t environment account_no ticker =
     (let k = (py_upper environment, account_no, py_upper ticker)
      in case ot_rows t k of None \<Rightarrow> legacy_default k | Some w \<Rightarrow> w)"

definition list_execution_ownership :: "ownership_table \<Rightarrow> string option \<Rightarrow> ownership list" where
  "list_execution_ownership t environment =
     filter (\<lambda>w. \<not> some_text environment \<or> Some (ow_environment w) = map_option py_upper environment)
       (List.map_filter (ot_rows t) (ot_ids t))"

definition assign_ownership_in_transaction ::
    "timestamp \<Rightarrow> ownership \<Rightarrow> int option \<Rightarrow> ownership_table
       \<Rightarrow> ownership_error + (ownership \<times> ownership_table)" where
  "assign_ownership_in_transaction server_now w expected_version t =
     (let k = owner_id_of w;
          current_version = (case ot_rows t k of None \<Rightarrow> 0 | Some row \<Rightarrow> ow_version row);
          next_version = current_version + 1;
          row = w\<lparr>ow_assigned_at := Some server_now, ow_version := next_version\<rparr>
      in case expected_version of
           Some n \<Rightarrow>
             if n \<noteq> current_version then Inl (OwnershipVersionConflict n current_version)
             else Inr (w\<lparr>ow_assigned_at := None, ow_version := next_version\<rparr>,
                       t\<lparr>ot_ids := (if ot_rows t k = None then ot_ids t @ [k] else ot_ids t),
                         ot_rows := (ot_rows t)(k \<mapsto> row)\<rparr>)
         | None \<Rightarrow>
             Inr (w\<lparr>ow_assigned_at := None, ow_version := next_version\<rparr>,
                  t\<lparr>ot_ids := (if ot_rows t k = None then ot_ids t @ [k] else ot_ids t),
                    ot_rows := (ot_rows t)(k \<mapsto> row)\<rparr>))"

definition assign_ownership ::
    "timestamp \<Rightarrow> ownership \<Rightarrow> ownership_table \<Rightarrow> ownership_error + (ownership \<times> ownership_table)" where
  "assign_ownership server_now w t = assign_ownership_in_transaction server_now w None t"

subsection \<open>The ownership table as a versioned store\<close>

definition owner_version :: "ownership_table \<Rightarrow> owner_id \<Rightarrow> int option" where
  "owner_version t k = Some (case ot_rows t k of None \<Rightarrow> 0 | Some w \<Rightarrow> ow_version w)"

definition rekey_ownership :: "owner_id \<Rightarrow> ownership \<Rightarrow> ownership" where
  "rekey_ownership k w =
     (case k of (environment, account_no, ticker) \<Rightarrow>
        w\<lparr>ow_environment := environment, ow_account_no := account_no, ow_symbol := ticker\<rparr>)"

definition put_owner :: "owner_id \<Rightarrow> int \<Rightarrow> timestamp \<times> ownership \<Rightarrow> ownership_table \<Rightarrow> ownership_table option" where
  "put_owner k n w t =
     (case assign_ownership_in_transaction (fst w) (rekey_ownership k (snd w)) (Some n) t of
        Inl e \<Rightarrow> None | Inr (w', t') \<Rightarrow> Some t')"

definition put_owner_content :: "owner_id \<Rightarrow> timestamp \<times> ownership \<Rightarrow> int \<Rightarrow> ownership" where
  "put_owner_content k w m =
     (rekey_ownership k (snd w))\<lparr>ow_assigned_at := Some (fst w), ow_version := m\<rparr>"

lemma owner_id_rekey [simp]: "owner_id_of (rekey_ownership k w) = k"
  by (cases k) (simp add: owner_id_of_def rekey_ownership_def)

lemma assign_Inr_iff:
  "assign_ownership_in_transaction now w (Some n) t = Inr (w', t') \<longleftrightarrow>
     owner_version t (owner_id_of w) = Some n
     \<and> w' = w\<lparr>ow_assigned_at := None, ow_version := n + 1\<rparr>
     \<and> t' = t\<lparr>ot_ids := (if ot_rows t (owner_id_of w) = None then ot_ids t @ [owner_id_of w] else ot_ids t),
              ot_rows := (ot_rows t)(owner_id_of w \<mapsto> w\<lparr>ow_assigned_at := Some now, ow_version := n + 1\<rparr>)\<rparr>"
  by (auto simp: assign_ownership_in_transaction_def owner_version_def Let_def)

lemma put_owner_Some_iff:
  "put_owner k n w t = Some t' \<longleftrightarrow> owner_version t k = Some n
     \<and> t' = t\<lparr>ot_ids := (if ot_rows t k = None then ot_ids t @ [k] else ot_ids t),
              ot_rows := (ot_rows t)(k \<mapsto> put_owner_content k w (n + 1))\<rparr>"
  by (auto simp: put_owner_def put_owner_content_def assign_Inr_iff split: sum.splits)
    (auto simp: assign_ownership_in_transaction_def owner_version_def Let_def)

lemma put_owner_accepts: "put_owner k n w t \<noteq> None \<longleftrightarrow> owner_version t k = Some n"
  using put_owner_Some_iff [of k n w t] by (cases "put_owner k n w t") auto

interpretation owners: versioned_store owner_version ot_rows put_owner put_owner_content
proof
  show "put_owner k n v s = Some s' \<Longrightarrow> owner_version s k = Some n" for k n v s s'
    by (simp add: put_owner_Some_iff)
  show "owner_version s k = Some n \<Longrightarrow> put_owner k n v s \<noteq> None" for k n v s
    by (simp only: put_owner_accepts)
qed (auto simp: put_owner_Some_iff owner_version_def put_owner_content_def)

lemma assign_as_put:
  "assign_ownership_in_transaction now w (Some n) t = Inr (w', t') \<Longrightarrow>
     put_owner (owner_id_of w) n (now, w) t = Some t'"
  by (cases "owner_id_of w") (auto simp: put_owner_Some_iff assign_Inr_iff put_owner_content_def
      rekey_ownership_def owner_id_of_def)

text \<open>A stale ownership transfer cannot win. Once a transfer based on a rendered revision
  was accepted, a transfer of the same key rendered from that revision or an older one is
  refused whatever was written in between, and the revision the key then shows is newer.\<close>

theorem stale_transfer_refused:
  assumes "assign_ownership_in_transaction now w (Some n) t = Inr (w', t')"
    "owner_id_of v = owner_id_of w" "m \<le> n"
  shows "\<exists>newer > n. assign_ownership_in_transaction now' v (Some m) (owners.writes ws t')
    = Inl (OwnershipVersionConflict m newer)"
proof -
  let ?t = "owners.writes ws t'"
  obtain newer where v: "owner_version ?t (owner_id_of w) = Some newer" "n + 1 \<le> newer"
    using owners.writes_monotone [OF owners.put_version [OF assign_as_put [OF assms(1)]]] by blast
  with assms(2,3) show ?thesis
    by (intro exI [of _ newer])
      (auto simp: assign_ownership_in_transaction_def owner_version_def Let_def)
qed

definition sample_ownership :: ownership where
  "sample_ownership = (legacy_default (''PROD'', ''1'', ''AAPL''))
     \<lparr>ow_owner := KANBAN, ow_strategy_instance_id := ''s''\<rparr>"

theorem stale_transfer_refused_witness:
  "\<exists>w' t'. assign_ownership_in_transaction 1 sample_ownership (Some 0)
        \<lparr>ot_ids = [], ot_rows = Map.empty\<rparr> = Inr (w', t')
     \<and> (\<exists>newer > 0. assign_ownership_in_transaction 2 (sample_ownership\<lparr>ow_owner := MANUAL\<rparr>) (Some 0)
          (owners.writes [] t') = Inl (OwnershipVersionConflict 0 newer))"
proof -
  have "\<exists>w' t'. assign_ownership_in_transaction 1 sample_ownership (Some 0)
      \<lparr>ot_ids = [], ot_rows = Map.empty\<rparr> = Inr (w', t')"
    by (simp add: assign_Inr_iff owner_version_def)
  then obtain w' t' where a: "assign_ownership_in_transaction 1 sample_ownership (Some 0)
      \<lparr>ot_ids = [], ot_rows = Map.empty\<rparr> = Inr (w', t')" by blast
  have i: "owner_id_of (sample_ownership\<lparr>ow_owner := MANUAL\<rparr>) = owner_id_of sample_ownership"
    by (simp add: owner_id_of_def)
  from stale_transfer_refused [OF a i order_refl, of 2 "[]"] a show ?thesis by blast
qed

lemma kanban_ownership_identified:
  "ownership_post_init w = Inr w' \<Longrightarrow> ow_owner w' = KANBAN \<Longrightarrow> py_strip (ow_strategy_instance_id w') \<noteq> []"
  by (auto simp: ownership_post_init_def guard_simps)

end
