(* ===== verification/Order_Recovery.thy ===== *)
theory Order_Recovery
  imports Transition_Graph
begin

text \<open>
  \<open>src/core/order_recovery_state.py\<close>: how far the application trusts its own view of an
  order. The table of allowed moves, the uniform escalation to manual intervention, the
  raising validator and the derived presentation warning.
\<close>

datatype order_recovery_state =
    ORS_NONE
  | DISCOVERING
  | BROKER_IDENTITY_UNCERTAIN
  | CANCEL_REQUIRED
  | ORS_CANCEL_REQUESTED
  | AWAITING_CANCEL_CONFIRMATION
  | TERMINAL_RECONCILED
  | MANUAL_INTERVENTION_REQUIRED

definition TERMINAL_RECOVERY_STATES :: "order_recovery_state set" where
  "TERMINAL_RECOVERY_STATES = {MANUAL_INTERVENTION_REQUIRED}"

fun specific_recovery_transitions :: "order_recovery_state \<Rightarrow> order_recovery_state set" where
  "specific_recovery_transitions ORS_NONE = {DISCOVERING}"
| "specific_recovery_transitions DISCOVERING = {ORS_NONE, BROKER_IDENTITY_UNCERTAIN}"
| "specific_recovery_transitions BROKER_IDENTITY_UNCERTAIN = {CANCEL_REQUIRED}"
| "specific_recovery_transitions CANCEL_REQUIRED = {ORS_CANCEL_REQUESTED}"
| "specific_recovery_transitions ORS_CANCEL_REQUESTED = {AWAITING_CANCEL_CONFIRMATION}"
| "specific_recovery_transitions AWAITING_CANCEL_CONFIRMATION = {TERMINAL_RECONCILED}"
| "specific_recovery_transitions _ = {}"

definition allowed_recovery_transitions :: "order_recovery_state \<Rightarrow> order_recovery_state set" where
  "allowed_recovery_transitions current =
     (if current \<notin> TERMINAL_RECOVERY_STATES
      then insert MANUAL_INTERVENTION_REQUIRED (specific_recovery_transitions current)
      else specific_recovery_transitions current)"

datatype recovery_error = InvalidOrderRecoveryTransition order_recovery_state order_recovery_state

definition validate_recovery_transition ::
    "order_recovery_state \<Rightarrow> order_recovery_state \<Rightarrow> recovery_error option" where
  "validate_recovery_transition current target =
     (if target \<notin> allowed_recovery_transitions current
      then Some (InvalidOrderRecoveryTransition current target) else None)"

definition is_unreconciled_broker_order :: "order_recovery_state \<Rightarrow> bool" where
  "is_unreconciled_broker_order s \<longleftrightarrow> s \<notin> {ORS_NONE, TERMINAL_RECONCILED}"

lemma allowed_recovery_simps [simp]:
  "allowed_recovery_transitions ORS_NONE = {MANUAL_INTERVENTION_REQUIRED, DISCOVERING}"
  "allowed_recovery_transitions DISCOVERING =
     {MANUAL_INTERVENTION_REQUIRED, ORS_NONE, BROKER_IDENTITY_UNCERTAIN}"
  "allowed_recovery_transitions BROKER_IDENTITY_UNCERTAIN =
     {MANUAL_INTERVENTION_REQUIRED, CANCEL_REQUIRED}"
  "allowed_recovery_transitions CANCEL_REQUIRED =
     {MANUAL_INTERVENTION_REQUIRED, ORS_CANCEL_REQUESTED}"
  "allowed_recovery_transitions ORS_CANCEL_REQUESTED =
     {MANUAL_INTERVENTION_REQUIRED, AWAITING_CANCEL_CONFIRMATION}"
  "allowed_recovery_transitions AWAITING_CANCEL_CONFIRMATION =
     {MANUAL_INTERVENTION_REQUIRED, TERMINAL_RECONCILED}"
  "allowed_recovery_transitions TERMINAL_RECONCILED = {MANUAL_INTERVENTION_REQUIRED}"
  "allowed_recovery_transitions MANUAL_INTERVENTION_REQUIRED = {}"
  by (auto simp: allowed_recovery_transitions_def TERMINAL_RECOVERY_STATES_def)

interpretation recovery: transition_graph allowed_recovery_transitions
    "\<lambda>s. s \<in> TERMINAL_RECOVERY_STATES"
proof
  fix s :: order_recovery_state
  show "s \<in> TERMINAL_RECOVERY_STATES \<Longrightarrow> allowed_recovery_transitions s = {}"
    by (simp add: TERMINAL_RECOVERY_STATES_def)
  show "s \<notin> TERMINAL_RECOVERY_STATES \<Longrightarrow> allowed_recovery_transitions s \<noteq> {}"
    by (cases s) (simp_all add: TERMINAL_RECOVERY_STATES_def)
qed

text \<open>A walk through the recovery table, as the sequence of states a stored record shows.\<close>

fun recovery_walk :: "order_recovery_state \<Rightarrow> order_recovery_state list \<Rightarrow> bool" where
  "recovery_walk s [] = True"
| "recovery_walk s (t # ts) = (validate_recovery_transition s t = None \<and> recovery_walk t ts)"

lemma recovery_walk_history: "recovery_walk s ts \<longleftrightarrow> recovery.history s ts"
  by (induction ts arbitrary: s) (auto simp: validate_recovery_transition_def)

lemma recovery_escalation:
  "s \<noteq> MANUAL_INTERVENTION_REQUIRED \<Longrightarrow>
     validate_recovery_transition s MANUAL_INTERVENTION_REQUIRED = None"
  by (cases s) (simp_all add: validate_recovery_transition_def)

lemma recovery_walk_into: "recovery_walk s (xs @ t # ys) \<Longrightarrow> t \<in> allowed_recovery_transitions (last (s # xs))"
  using recovery.history_append [of s xs "t # ys"] by (simp add: recovery_walk_history)

lemma recovery_predecessors:
  "TERMINAL_RECONCILED \<in> allowed_recovery_transitions s \<longleftrightarrow> s = AWAITING_CANCEL_CONFIRMATION"
  "AWAITING_CANCEL_CONFIRMATION \<in> allowed_recovery_transitions s \<longleftrightarrow> s = ORS_CANCEL_REQUESTED"
  "ORS_CANCEL_REQUESTED \<in> allowed_recovery_transitions s \<longleftrightarrow> s = CANCEL_REQUIRED"
  by (cases s; simp)+

text \<open>The step into \<open>t\<close> was preceded by a step into its only predecessor \<open>p\<close>.\<close>

lemma recovery_walk_predecessor:
  assumes "recovery_walk s (xs @ t # ys)" "\<And>u. t \<in> allowed_recovery_transitions u \<longleftrightarrow> u = p" "s \<noteq> p"
  shows "\<exists>xs'. xs = xs' @ [p]"
proof -
  have "last (s # xs) = p" using recovery_walk_into [OF assms(1)] assms(2) by simp
  with assms(3) have "xs \<noteq> []" "last xs = p" by auto
  then show ?thesis by (intro exI [of _ "butlast xs"]) (metis append_butlast_last_id)
qed

text \<open>A broker order of uncertain identity is never declared reconciled by decree: in
  every walk of the recovery state that starts before a cancel was requested, the state
  TERMINAL_RECONCILED is reached only through CANCEL_REQUIRED, CANCEL_REQUESTED and
  AWAITING_CANCEL_CONFIRMATION, immediately one after the other.\<close>

theorem reconciled_only_after_confirmed_cancel:
  assumes "recovery_walk s ts" "TERMINAL_RECONCILED \<in> set ts"
    "s \<in> {ORS_NONE, DISCOVERING, BROKER_IDENTITY_UNCERTAIN}"
  shows "\<exists>xs ys. ts = xs @ [CANCEL_REQUIRED, ORS_CANCEL_REQUESTED, AWAITING_CANCEL_CONFIRMATION,
      TERMINAL_RECONCILED] @ ys"
proof -
  obtain xs ys where ts: "ts = xs @ TERMINAL_RECONCILED # ys" using assms(2) by (auto dest: split_list)
  obtain xs1 where x1: "xs = xs1 @ [AWAITING_CANCEL_CONFIRMATION]"
    using recovery_walk_predecessor [of s xs, OF _ recovery_predecessors(1)] assms(1,3) ts by auto
  obtain xs2 where x2: "xs1 = xs2 @ [ORS_CANCEL_REQUESTED]"
    using recovery_walk_predecessor [of s xs1 AWAITING_CANCEL_CONFIRMATION, OF _ recovery_predecessors(2)]
      assms(1,3) ts x1 by auto
  obtain xs3 where "xs2 = xs3 @ [CANCEL_REQUIRED]"
    using recovery_walk_predecessor [of s xs2 ORS_CANCEL_REQUESTED, OF _ recovery_predecessors(3)]
      assms(1,3) ts x1 x2 by auto
  with ts x1 x2 show ?thesis by auto
qed

theorem reconciled_only_after_confirmed_cancel_witness:
  "let ts = [DISCOVERING, BROKER_IDENTITY_UNCERTAIN, CANCEL_REQUIRED, ORS_CANCEL_REQUESTED,
       AWAITING_CANCEL_CONFIRMATION, TERMINAL_RECONCILED]
   in recovery_walk ORS_NONE ts \<and> (\<exists>xs ys. ts = xs @ [CANCEL_REQUIRED, ORS_CANCEL_REQUESTED,
        AWAITING_CANCEL_CONFIRMATION, TERMINAL_RECONCILED] @ ys)"
proof -
  let ?ts = "[DISCOVERING, BROKER_IDENTITY_UNCERTAIN, CANCEL_REQUIRED, ORS_CANCEL_REQUESTED,
       AWAITING_CANCEL_CONFIRMATION, TERMINAL_RECONCILED]"
  have w: "recovery_walk ORS_NONE ?ts" by (simp add: validate_recovery_transition_def)
  have m: "TERMINAL_RECONCILED \<in> set ?ts" by simp
  show ?thesis using w reconciled_only_after_confirmed_cancel [OF w m] by simp
qed

end
