(* ===== verification/Order_Types.thy ===== *)
theory Order_Types
  imports Py_Float
begin

text \<open>
  \<open>src/core/order_state.py\<close>: the enumerations of an order (side, intent, status), which
  statuses are open and which closed, the coercion of enumeration values, and the local
  ledger record \<open>BrokerOrder\<close>. Constructors carry a prefix where two enumerations of the
  code share a member name.
\<close>

datatype order_side = BUY | SELL

datatype order_intent =
    ENTRY | STOP_LOSS | PARTIAL_EXIT | MOMENTUM_EXIT | PARTIAL_TAKE_PROFIT | MANUAL_EXIT
  | INTENT_UNKNOWN

datatype order_status =
    OS_CREATED
  | OS_SUBMITTING
  | OS_ACCEPTED
  | OS_REJECTED
  | OS_WORKING
  | OS_UNKNOWN_SUBMISSION_STATE
  | OS_PARTIALLY_FILLED
  | OS_FILLED
  | OS_CANCEL_REQUESTED
  | OS_CANCELLED
  | OS_EXPIRED
  | OS_UNKNOWN

definition OPEN_ORDER_STATUSES :: "order_status set" where
  "OPEN_ORDER_STATUSES =
     {OS_CREATED, OS_SUBMITTING, OS_ACCEPTED, OS_WORKING, OS_UNKNOWN_SUBMISSION_STATE,
      OS_PARTIALLY_FILLED, OS_CANCEL_REQUESTED, OS_UNKNOWN}"

definition CLOSED_ORDER_STATUSES :: "order_status set" where
  "CLOSED_ORDER_STATUSES = {OS_FILLED, OS_CANCELLED, OS_REJECTED, OS_EXPIRED}"

definition is_open_status :: "order_status \<Rightarrow> bool" where
  "is_open_status s \<longleftrightarrow> s \<in> OPEN_ORDER_STATUSES"

definition is_closed_status :: "order_status \<Rightarrow> bool" where
  "is_closed_status s \<longleftrightarrow> s \<in> CLOSED_ORDER_STATUSES"

definition REGULAR_LIMIT_EXECUTION :: string where
  "REGULAR_LIMIT_EXECUTION = ''REGULAR_LIMIT''"

lemma open_closed_partition: "is_closed_status s \<longleftrightarrow> \<not> is_open_status s"
  by (cases s)
    (simp_all add: is_open_status_def is_closed_status_def OPEN_ORDER_STATUSES_def
      CLOSED_ORDER_STATUSES_def)

text \<open>The ledger record: identity, status, fills, and the attempt and reservation correlation.\<close>

record broker_order =
  bo_client_order_id :: string
  bo_environment :: string
  bo_account_no :: string
  bo_symbol :: string
  bo_side :: order_side
  bo_intent :: order_intent
  bo_quantity_requested :: int
  bo_limit_price :: pyfloat
  bo_exchange :: string
  bo_status :: order_status
  bo_execution_policy :: string
  bo_broker_order_id :: string
  bo_submitted_at :: string
  bo_updated_at :: string
  bo_filled_quantity :: int
  bo_applied_filled_quantity :: int
  bo_remaining_quantity :: int
  bo_avg_fill_price :: pyfloat
  bo_raw_submit_response :: "json_dict option"
  bo_raw_status_response :: "json_dict option"
  bo_error_message :: string
  bo_buylist_key :: string
  bo_buylist_symbol_key :: string
  bo_attempt_group_id :: string
  bo_attempt_number :: int
  bo_attempt_deadline_at :: "string option"
  bo_retry_eligible :: bool
  bo_replaces_client_order_id :: string
  bo_capital_reservation_id :: string
  bo_cancel_requested_at :: "string option"
  bo_terminal_reason :: string

definition broker_order_is_open :: "broker_order \<Rightarrow> bool" where
  "broker_order_is_open b \<longleftrightarrow> bo_status b \<in> OPEN_ORDER_STATUSES"

text \<open>
  \<open>BrokerOrder.__post_init__\<close> on a record whose fields already have their declared types:
  normalisation of the text fields, the default of \<open>remaining_quantity\<close> and of the two
  planning keys.
\<close>

definition text_or :: "string \<Rightarrow> string \<Rightarrow> string" where
  "text_or s d = (if s = [] then d else s)"

definition opt_text :: "string option \<Rightarrow> string option" where
  "opt_text v = (if some_text v then v else None)"

definition broker_order_post_init :: "broker_order \<Rightarrow> broker_order" where
  "broker_order_post_init b =
     (let env = py_upper (bo_environment b);
          sym = py_upper (bo_symbol b);
          key = text_or (text_or (bo_buylist_key b) (bo_buylist_symbol_key b))
                  (env @ '':'' @ bo_account_no b @ '':'' @ sym)
      in b\<lparr>bo_environment := env,
           bo_symbol := sym,
           bo_execution_policy :=
             py_upper (py_strip (text_or (bo_execution_policy b) REGULAR_LIMIT_EXECUTION)),
           bo_exchange := py_upper (bo_exchange b),
           bo_remaining_quantity :=
             (if bo_remaining_quantity b = 0 \<and> bo_filled_quantity b = 0
              then bo_quantity_requested b else bo_remaining_quantity b),
           bo_buylist_key := key,
           bo_buylist_symbol_key := text_or (text_or (bo_buylist_symbol_key b) key) sym,
           bo_attempt_number := (if bo_attempt_number b = 0 then 1 else bo_attempt_number b),
           bo_attempt_deadline_at := opt_text (bo_attempt_deadline_at b),
           bo_cancel_requested_at := opt_text (bo_cancel_requested_at b)\<rparr>)"

lemma text_or_simps [simp]: "text_or [] d = d" "s \<noteq> [] \<Longrightarrow> text_or s d = s"
  "text_or (text_or s d) d = text_or s d"
  by (auto simp: text_or_def)

lemma opt_text_idem [simp]: "opt_text (opt_text v) = opt_text v"
  by (simp add: opt_text_def)

end
