(* ===== verification/Execution_Order.thy ===== *)
theory Execution_Order
  imports Order_Recovery Order_Types
begin

text \<open>
  \<open>src/core/execution_order_record.py\<close>: the durable identity of every order the application
  submits. The status table, the broker-identity dimension beside it, the aggregate
  consistency check, and the transition routine, which updates the record in place and may
  raise: it returns the exception together with the record as it then is.
\<close>

subsection \<open>The status table\<close>

datatype execution_order_status =
    PREPARED
  | SUBMITTING
  | ACKNOWLEDGED
  | UNKNOWN_SUBMISSION_STATE
  | NOT_ACCEPTED_CONFIRMED
  | REJECTED
  | WORKING
  | PARTIALLY_FILLED
  | FILLED
  | CANCEL_PENDING
  | CANCELLED
  | EXPIRED
  | CANCELLED_LOCALLY

definition TERMINAL_EXECUTION_ORDER_STATUSES :: "execution_order_status set" where
  "TERMINAL_EXECUTION_ORDER_STATUSES =
     {FILLED, CANCELLED, REJECTED, EXPIRED, CANCELLED_LOCALLY, NOT_ACCEPTED_CONFIRMED}"

fun allowed_status_transitions :: "execution_order_status \<Rightarrow> execution_order_status set" where
  "allowed_status_transitions PREPARED = {SUBMITTING, CANCELLED_LOCALLY}"
| "allowed_status_transitions SUBMITTING =
     {ACKNOWLEDGED, REJECTED, UNKNOWN_SUBMISSION_STATE, CANCELLED_LOCALLY}"
| "allowed_status_transitions UNKNOWN_SUBMISSION_STATE =
     {ACKNOWLEDGED, REJECTED, NOT_ACCEPTED_CONFIRMED}"
| "allowed_status_transitions ACKNOWLEDGED =
     {WORKING, PARTIALLY_FILLED, FILLED, REJECTED, CANCEL_PENDING}"
| "allowed_status_transitions WORKING =
     {PARTIALLY_FILLED, FILLED, REJECTED, EXPIRED, CANCEL_PENDING}"
| "allowed_status_transitions PARTIALLY_FILLED = {FILLED, EXPIRED, CANCEL_PENDING}"
| "allowed_status_transitions CANCEL_PENDING =
     {CANCELLED, FILLED, PARTIALLY_FILLED, WORKING, EXPIRED, ACKNOWLEDGED}"
| "allowed_status_transitions _ = {}"

datatype broker_identity_status =
    NOT_ASSIGNED | AMBIGUOUS | EXACT | NO_BROKER_ORDER_CONFIRMED

datatype order_origin = APPLICATION | ORIGIN_USER_ADOPTED

datatype adopted_order_permission = LINK_TO_CARD | CANCEL | REPLACE

datatype inconsistency =
    IdentityIllegalForStatus
  | NegativeConfirmationCarriesId
  | ApplicationCarriesPermissions
  | AdoptionWithoutSource
  | NegativeQuantity
  | FilledExceedsSubmitted
  | FilledPlusRemainingExceedsSubmitted
  | AttemptBelowOne
  | NegativeLeaseEpoch

datatype order_error =
    InvalidExecutionOrderTransition execution_order_status execution_order_status
  | InvalidExecutionOrderConsistency inconsistency
  | MissingBrokerOrderId
  | ContradictoryBrokerOrderId
  | UnconfirmedBrokerOrderId
  | MissingClientOrderId
  | ExactWithoutBrokerOrderId
  | InvalidEnumValue

definition validate_status_transition ::
    "execution_order_status \<Rightarrow> execution_order_status \<Rightarrow> order_error option" where
  "validate_status_transition current target =
     (if target \<notin> allowed_status_transitions current
      then Some (InvalidExecutionOrderTransition current target) else None)"

text \<open>The key behind the uniqueness constraint on broker orders.\<close>

definition compute_broker_identity_key :: "string \<Rightarrow> string \<Rightarrow> string \<Rightarrow> string" where
  "compute_broker_identity_key env account bid =
     py_upper env @ '':'' @ account @ '':'' @ py_strip bid"

definition STATUSES_IMPLYING_AMBIGUOUS_IDENTITY :: "execution_order_status set" where
  "STATUSES_IMPLYING_AMBIGUOUS_IDENTITY = {SUBMITTING, UNKNOWN_SUBMISSION_STATE}"

definition STATUSES_REQUIRING_EXACT_IDENTITY :: "execution_order_status set" where
  "STATUSES_REQUIRING_EXACT_IDENTITY = {ACKNOWLEDGED}"

definition STATUSES_IMPLYING_NO_BROKER_ORDER_CONFIRMED :: "execution_order_status set" where
  "STATUSES_IMPLYING_NO_BROKER_ORDER_CONFIRMED = {REJECTED, NOT_ACCEPTED_CONFIRMED}"

fun legal_identity_statuses :: "execution_order_status \<Rightarrow> broker_identity_status set" where
  "legal_identity_statuses PREPARED = {NOT_ASSIGNED}"
| "legal_identity_statuses CANCELLED_LOCALLY = {NOT_ASSIGNED}"
| "legal_identity_statuses SUBMITTING = {AMBIGUOUS}"
| "legal_identity_statuses UNKNOWN_SUBMISSION_STATE = {AMBIGUOUS}"
| "legal_identity_statuses NOT_ACCEPTED_CONFIRMED = {NO_BROKER_ORDER_CONFIRMED}"
| "legal_identity_statuses REJECTED = {NO_BROKER_ORDER_CONFIRMED, EXACT}"
| "legal_identity_statuses _ = {EXACT}"

subsection \<open>The record\<close>

record execution_order =
  eo_environment :: string
  eo_account_no :: string
  eo_symbol :: string
  eo_side :: order_side
  eo_intent :: order_intent
  eo_client_order_id :: string
  eo_broker_order_id :: string
  eo_attempt_group_id :: string
  eo_attempt_number :: int
  eo_attempt_deadline_at :: "string option"
  eo_submitted_quantity :: int
  eo_submitted_limit_price :: pyfloat
  eo_exchange :: string
  eo_execution_policy :: string
  eo_prepared_at :: "timestamp option" \<comment> \<open>\<open>None\<close>: the text is not an ISO timestamp\<close>
  eo_submission_started_at :: "timestamp option"
  eo_acknowledged_at :: "timestamp option"
  eo_market_session_date :: "string option"
  eo_owner_device_id :: string
  eo_lease_token :: string
  eo_lease_epoch :: int
  eo_status :: execution_order_status
  eo_filled_quantity :: int
  eo_remaining_quantity :: int
  eo_average_fill_price :: pyfloat
  eo_cancel_requested_at :: "string option"
  eo_last_broker_seen_at :: "string option"
  eo_last_reconciled_at :: "string option"
  eo_absence_count :: int
  eo_last_absence_snapshot_id :: string
  eo_last_absence_observed_at :: "string option"
  eo_last_absence_session_date :: "string option"
  eo_last_absence_broker_order_id :: string
  eo_last_absence_holding_quantity :: "int option"
  eo_origin :: order_origin
  eo_broker_identity_status :: broker_identity_status
  eo_recovery_state :: order_recovery_state
  eo_recovery_candidate_broker_order_ids :: "string list"
  eo_adoption_permissions :: "adopted_order_permission set"
  eo_replaces_execution_order_id :: string
  eo_adopted_from_external_order_id :: string
  eo_capital_reservation_id :: string
  eo_raw_submission_hash :: string
  eo_version :: int

definition validate_consistency :: "execution_order \<Rightarrow> order_error option" where
  "validate_consistency r = map_option InvalidExecutionOrderConsistency (first_error
     [(eo_broker_identity_status r \<notin> legal_identity_statuses (eo_status r),
         IdentityIllegalForStatus),
      (eo_broker_identity_status r = NO_BROKER_ORDER_CONFIRMED \<and> eo_broker_order_id r \<noteq> [],
         NegativeConfirmationCarriesId),
      (eo_origin r = APPLICATION \<and> eo_adoption_permissions r \<noteq> {},
         ApplicationCarriesPermissions),
      (eo_origin r = ORIGIN_USER_ADOPTED \<and> eo_adopted_from_external_order_id r = [],
         AdoptionWithoutSource),
      (eo_submitted_quantity r < 0 \<or> eo_filled_quantity r < 0 \<or> eo_remaining_quantity r < 0,
         NegativeQuantity),
      (eo_filled_quantity r > eo_submitted_quantity r, FilledExceedsSubmitted),
      (eo_filled_quantity r + eo_remaining_quantity r > eo_submitted_quantity r,
         FilledPlusRemainingExceedsSubmitted),
      (eo_attempt_number r < 1, AttemptBelowOne),
      (eo_lease_epoch r < 0, NegativeLeaseEpoch)])"

text \<open>
  \<open>__post_init__\<close> on fields of their declared types; \<open>_strict_enum\<close> on a raw value is
  \<open>strict_enum\<close>, over the table of the enumeration's values.
\<close>

fun strict_enum :: "(string \<times> 'e) list \<Rightarrow> string \<Rightarrow> order_error + 'e" where
  "strict_enum values v =
     (case map_of values (py_upper v) of None \<Rightarrow> Inl InvalidEnumValue | Some e \<Rightarrow> Inr e)"

definition execution_order_post_init :: "execution_order \<Rightarrow> order_error + execution_order" where
  "execution_order_post_init r =
     (let r1 = r\<lparr>eo_environment := py_upper (eo_environment r),
                 eo_symbol := py_upper (eo_symbol r),
                 eo_client_order_id := py_strip (eo_client_order_id r),
                 eo_attempt_number := (if eo_attempt_number r = 0 then 1 else eo_attempt_number r),
                 eo_attempt_deadline_at := opt_text (eo_attempt_deadline_at r),
                 eo_exchange := py_upper (eo_exchange r),
                 eo_execution_policy :=
                   py_upper (py_strip (text_or (eo_execution_policy r) REGULAR_LIMIT_EXECUTION)),
                 eo_absence_count := max 0 (eo_absence_count r),
                 eo_last_absence_observed_at := opt_text (eo_last_absence_observed_at r),
                 eo_last_absence_session_date := opt_text (eo_last_absence_session_date r),
                 eo_last_absence_holding_quantity :=
                   map_option (max 0) (eo_last_absence_holding_quantity r),
                 eo_recovery_candidate_broker_order_ids :=
                   dedup (filter (\<lambda>s. s \<noteq> [])
                     (map py_strip (eo_recovery_candidate_broker_order_ids r))),
                 eo_version := (if eo_version r = 0 then 1 else eo_version r)\<rparr>
      in guarded (first_error
           [(eo_client_order_id r1 = [], MissingClientOrderId),
            (eo_broker_identity_status r1 = EXACT \<and> eo_broker_order_id r1 = [],
               ExactWithoutBrokerOrderId)])
         (guarded (validate_consistency r1) (Inr r1)))"

subsection \<open>Transitions\<close>

definition mark_broker_identity_exact ::
    "string \<Rightarrow> execution_order \<Rightarrow> order_error option \<times> execution_order" where
  "mark_broker_identity_exact bid r =
     (let b = py_strip bid
      in if b = [] then (Some MissingBrokerOrderId, r)
         else if eo_broker_identity_status r = EXACT \<and> eo_broker_order_id r \<noteq> []
           \<and> eo_broker_order_id r \<noteq> b then (Some ContradictoryBrokerOrderId, r)
         else (None, r\<lparr>eo_broker_order_id := b, eo_broker_identity_status := EXACT\<rparr>))"

text \<open>
  The effects of a transition once identity is settled: the implied identity status, the
  retirement of a submission that never reached the broker, the timestamps, the status.
\<close>

definition settle_identity :: "execution_order_status \<Rightarrow> execution_order \<Rightarrow> execution_order" where
  "settle_identity target r =
     (if target \<in> STATUSES_IMPLYING_AMBIGUOUS_IDENTITY \<and> eo_broker_identity_status r = NOT_ASSIGNED
      then r\<lparr>eo_broker_identity_status := AMBIGUOUS\<rparr>
      else if target \<in> STATUSES_IMPLYING_NO_BROKER_ORDER_CONFIRMED
        \<and> eo_broker_identity_status r = AMBIGUOUS
      then r\<lparr>eo_broker_identity_status := NO_BROKER_ORDER_CONFIRMED\<rparr>
      else r)"

definition retire_unsent :: "execution_order_status \<Rightarrow> execution_order \<Rightarrow> execution_order" where
  "retire_unsent target r =
     (if target = CANCELLED_LOCALLY \<and> eo_status r = SUBMITTING
      then r\<lparr>eo_broker_order_id := [], eo_broker_identity_status := NOT_ASSIGNED,
             eo_submission_started_at := None\<rparr>
      else r)"

definition stamp_transition ::
    "timestamp \<Rightarrow> execution_order_status \<Rightarrow> execution_order \<Rightarrow> execution_order" where
  "stamp_transition now target r =
     (if target = SUBMITTING then r\<lparr>eo_submission_started_at := Some now\<rparr>
      else if target = ACKNOWLEDGED then r\<lparr>eo_acknowledged_at := Some now\<rparr> else r)"

definition apply_status_transition ::
    "timestamp \<Rightarrow> execution_order_status \<Rightarrow> string option \<Rightarrow> execution_order
       \<Rightarrow> order_error option \<times> execution_order" where
  "apply_status_transition now target bid r =
     (case validate_status_transition (eo_status r) target of
        Some e \<Rightarrow> (Some e, r)
      | None \<Rightarrow>
          (case (case bid of None \<Rightarrow> (None, r) | Some b \<Rightarrow> mark_broker_identity_exact b r) of
             (Some e, r1) \<Rightarrow> (Some e, r1)
           | (None, r1) \<Rightarrow>
               if target \<in> STATUSES_REQUIRING_EXACT_IDENTITY
                 \<and> eo_broker_identity_status r1 \<noteq> EXACT
               then (Some UnconfirmedBrokerOrderId, r1)
               else
                 (let r2 = (stamp_transition now target
                        (retire_unsent target (settle_identity target r1)))
                           \<lparr>eo_status := target\<rparr>
                  in (validate_consistency r2, r2))))"

definition CANCELLABLE_STATUSES :: "execution_order_status set" where
  "CANCELLABLE_STATUSES = {s. CANCEL_PENDING \<in> allowed_status_transitions s}"

definition CANCEL_ELIGIBLE_RECOVERY_STATES :: "order_recovery_state set" where
  "CANCEL_ELIGIBLE_RECOVERY_STATES = {ORS_NONE, CANCEL_REQUIRED}"

definition is_cancellable :: "execution_order \<Rightarrow> bool" where
  "is_cancellable r \<longleftrightarrow>
     (if eo_origin r \<notin> {APPLICATION, ORIGIN_USER_ADOPTED} then False
      else if eo_origin r = ORIGIN_USER_ADOPTED \<and> CANCEL \<notin> eo_adoption_permissions r then False
      else eo_broker_identity_status r = EXACT \<and> eo_broker_order_id r \<noteq> []
        \<and> eo_recovery_state r \<in> CANCEL_ELIGIBLE_RECOVERY_STATES
        \<and> eo_status r \<in> CANCELLABLE_STATUSES)"

subsection \<open>Consistency of a record\<close>

lemma validate_consistency_iff [guard_simps]:
  "validate_consistency r = None \<longleftrightarrow>
     eo_broker_identity_status r \<in> legal_identity_statuses (eo_status r)
     \<and> (eo_broker_identity_status r = NO_BROKER_ORDER_CONFIRMED \<longrightarrow> eo_broker_order_id r = [])
     \<and> (eo_origin r = APPLICATION \<longrightarrow> eo_adoption_permissions r = {})
     \<and> (eo_origin r = ORIGIN_USER_ADOPTED \<longrightarrow> eo_adopted_from_external_order_id r \<noteq> [])
     \<and> 0 \<le> eo_submitted_quantity r \<and> 0 \<le> eo_filled_quantity r \<and> 0 \<le> eo_remaining_quantity r
     \<and> eo_filled_quantity r + eo_remaining_quantity r \<le> eo_submitted_quantity r
     \<and> 1 \<le> eo_attempt_number r \<and> 0 \<le> eo_lease_epoch r"
  by (auto simp: validate_consistency_def first_error_None_iff)

text \<open>
  The well-formed records: consistent, and carrying a broker order id exactly when the
  broker identity is exact. Every freshly prepared record without an id is one.
\<close>

definition order_wf :: "execution_order \<Rightarrow> bool" where
  "order_wf r \<longleftrightarrow> validate_consistency r = None
     \<and> (eo_broker_identity_status r = EXACT \<longleftrightarrow> eo_broker_order_id r \<noteq> [])"

lemma legal_identity_cases:
  "i \<in> legal_identity_statuses s \<Longrightarrow> s \<in> {PREPARED, CANCELLED_LOCALLY} \<longleftrightarrow> i = NOT_ASSIGNED"
  "i \<in> legal_identity_statuses s \<Longrightarrow> s \<in> {SUBMITTING, UNKNOWN_SUBMISSION_STATE} \<longleftrightarrow> i = AMBIGUOUS"
  by (cases s; cases i; simp)+

lemmas transition_sets =
  STATUSES_IMPLYING_AMBIGUOUS_IDENTITY_def STATUSES_REQUIRING_EXACT_IDENTITY_def
  STATUSES_IMPLYING_NO_BROKER_ORDER_CONFIRMED_def

lemmas transition_defs =
  apply_status_transition_def validate_status_transition_def settle_identity_def
  retire_unsent_def stamp_transition_def transition_sets Let_def

lemma apply_transition_invalid:
  "t \<notin> allowed_status_transitions (eo_status r) \<Longrightarrow>
     apply_status_transition now t bid r
       = (Some (InvalidExecutionOrderTransition (eo_status r) t), r)"
  by (simp add: apply_status_transition_def validate_status_transition_def)

text \<open>Without a supplied id: a well-formed record either moves, and stays well-formed, \<dots>\<close>

lemma apply_transition_moves:
  assumes wf: "order_wf r" and t: "t \<in> allowed_status_transitions (eo_status r)"
    and ack: "t = ACKNOWLEDGED \<Longrightarrow> eo_broker_identity_status r = EXACT"
  shows "\<exists>r'. apply_status_transition now t None r = (None, r') \<and> order_wf r'
    \<and> eo_status r' = t"
  using assms
  by (cases "eo_status r")
    (auto simp: order_wf_def transition_defs validate_consistency_iff split: if_splits)

text \<open>\<dots> or is refused before anything is written.\<close>

lemma apply_transition_refused:
  "t \<in> allowed_status_transitions (eo_status r) \<Longrightarrow> t = ACKNOWLEDGED \<Longrightarrow>
     eo_broker_identity_status r \<noteq> EXACT \<Longrightarrow>
     apply_status_transition now t None r = (Some UnconfirmedBrokerOrderId, r)"
  by (simp add: transition_defs)

lemma mark_exact_fresh:
  "py_strip b \<noteq> [] \<Longrightarrow> eo_broker_identity_status r \<noteq> EXACT \<Longrightarrow>
     mark_broker_identity_exact b r =
       (None, r\<lparr>eo_broker_order_id := py_strip b, eo_broker_identity_status := EXACT\<rparr>)"
  by (simp add: mark_broker_identity_exact_def Let_def)

lemma apply_acknowledge:
  assumes wf: "order_wf r" and s: "eo_status r \<in> {SUBMITTING, UNKNOWN_SUBMISSION_STATE}"
    and b: "py_strip b \<noteq> []"
  shows "\<exists>r'. apply_status_transition now ACKNOWLEDGED (Some b) r = (None, r') \<and> order_wf r'
    \<and> eo_status r' = ACKNOWLEDGED \<and> eo_broker_order_id r' = py_strip b"
proof -
  have "eo_broker_identity_status r = AMBIGUOUS"
    using wf s by (auto simp: order_wf_def validate_consistency_iff)
  with wf s b show ?thesis
    by (auto simp: order_wf_def transition_defs validate_consistency_iff mark_exact_fresh)
qed

subsection \<open>The status graph\<close>

interpretation order_graph: transition_graph allowed_status_transitions
    "\<lambda>s. s \<in> TERMINAL_EXECUTION_ORDER_STATUSES"
proof
  fix s :: execution_order_status
  show "s \<in> TERMINAL_EXECUTION_ORDER_STATUSES \<Longrightarrow> allowed_status_transitions s = {}"
    by (auto simp: TERMINAL_EXECUTION_ORDER_STATUSES_def)
  show "s \<notin> TERMINAL_EXECUTION_ORDER_STATUSES \<Longrightarrow> allowed_status_transitions s \<noteq> {}"
    by (cases s) (simp_all add: TERMINAL_EXECUTION_ORDER_STATUSES_def)
qed

text \<open>The life of one record: the statuses it takes through successful transitions.\<close>

fun order_life :: "execution_order \<Rightarrow> (timestamp \<times> execution_order_status \<times> string option) list
    \<Rightarrow> execution_order option" where
  "order_life r [] = Some r"
| "order_life r ((now, t, bid) # steps) =
     (case apply_status_transition now t bid r of
        (None, r') \<Rightarrow> order_life r' steps
      | (Some e, r') \<Rightarrow> None)"

lemma apply_transition_status:
  "apply_status_transition now t bid r = (None, r') \<Longrightarrow>
     eo_status r' = t \<and> t \<in> allowed_status_transitions (eo_status r)
     \<and> validate_consistency r' = None"
  by (auto simp: apply_status_transition_def validate_status_transition_def Let_def
      split: if_splits option.splits prod.splits)

lemma order_life_history:
  "order_life r steps = Some r' \<Longrightarrow> order_graph.history (eo_status r) (map (\<lambda>(_, t, _). t) steps)"
proof (induction r steps rule: order_life.induct)
  case (2 r now t bid steps)
  then obtain r1 where a: "apply_status_transition now t bid r = (None, r1)"
    and l: "order_life r1 steps = Some r'"
    by (auto split: option.splits prod.splits)
  with "2.IH" [OF a [symmetric]] apply_transition_status [OF a] show ?case by simp
qed simp

lemma order_life_status:
  "order_life r steps = Some r' \<Longrightarrow> eo_status r' = last (eo_status r # map (\<lambda>(_, t, _). t) steps)"
proof (induction r steps rule: order_life.induct)
  case (2 r now t bid steps)
  then obtain r1 where a: "apply_status_transition now t bid r = (None, r1)"
    and l: "order_life r1 steps = Some r'"
    by (auto split: option.splits prod.splits)
  with "2.IH" [OF a [symmetric]] apply_transition_status [OF a] show ?case by simp
qed simp

text \<open>The statuses in which the order exists, or existed, at the broker.\<close>

definition broker_statuses :: "execution_order_status set" where
  "broker_statuses =
     {ACKNOWLEDGED, WORKING, PARTIALLY_FILLED, FILLED, CANCEL_PENDING, CANCELLED, EXPIRED}"

text \<open>
  (C26) ACKNOWLEDGED is the sole gateway to the broker: whatever transitions a prepared
  record goes through, if it ends in a status in which the order exists at the broker then
  one of them was the transition to ACKNOWLEDGED, the one that requires an exact id.
\<close>

theorem acknowledged_gateway:
  assumes "eo_status r = PREPARED" "order_life r steps = Some r'" "eo_status r' \<in> broker_statuses"
  shows "\<exists>now bid. (now, ACKNOWLEDGED, bid) \<in> set steps"
proof -
  let ?ts = "map (\<lambda>(_, t, _). t) steps"
  have h: "order_graph.history PREPARED ?ts" using order_life_history [OF assms(2)] assms(1) by simp
  have l: "eo_status r' = last (PREPARED # ?ts)" using order_life_status [OF assms(2)] assms(1) by simp
  have entry: "t \<in> {ACKNOWLEDGED}"
    if "s \<notin> broker_statuses" "t \<in> allowed_status_transitions s" "t \<in> broker_statuses" for s t
    using that by (cases s) (auto simp: broker_statuses_def)
  have ne: "?ts \<noteq> []" using l assms(3) by (auto simp: broker_statuses_def)
  with l assms(3) have "last ?ts \<in> broker_statuses" by (simp split: if_splits)
  moreover have "PREPARED \<notin> broker_statuses" by (simp add: broker_statuses_def)
  moreover note h ne
  ultimately have "\<exists>t \<in> set ?ts. t \<in> {ACKNOWLEDGED}"
    using order_graph.history_gate [where inside = broker_statuses and gates = "{ACKNOWLEDGED}"
        and s = PREPARED and ts = ?ts] entry by presburger
  then show ?thesis by auto
qed

definition sample_order :: execution_order where
  "sample_order = \<lparr>eo_environment = ''PROD'', eo_account_no = ''1'', eo_symbol = ''AAPL'',
     eo_side = BUY, eo_intent = ENTRY, eo_client_order_id = ''c1'', eo_broker_order_id = [],
     eo_attempt_group_id = [], eo_attempt_number = 1, eo_attempt_deadline_at = None,
     eo_submitted_quantity = 10, eo_submitted_limit_price = Fin 100, eo_exchange = ''NASD'',
     eo_execution_policy = REGULAR_LIMIT_EXECUTION, eo_prepared_at = Some 0,
     eo_submission_started_at = None, eo_acknowledged_at = None, eo_market_session_date = None,
     eo_owner_device_id = [], eo_lease_token = [], eo_lease_epoch = 0, eo_status = PREPARED,
     eo_filled_quantity = 0, eo_remaining_quantity = 10, eo_average_fill_price = Fin 0,
     eo_cancel_requested_at = None, eo_last_broker_seen_at = None, eo_last_reconciled_at = None,
     eo_absence_count = 0, eo_last_absence_snapshot_id = [], eo_last_absence_observed_at = None,
     eo_last_absence_session_date = None, eo_last_absence_broker_order_id = [],
     eo_last_absence_holding_quantity = None, eo_origin = APPLICATION,
     eo_broker_identity_status = NOT_ASSIGNED, eo_recovery_state = ORS_NONE,
     eo_recovery_candidate_broker_order_ids = [], eo_adoption_permissions = {},
     eo_replaces_execution_order_id = [], eo_adopted_from_external_order_id = [],
     eo_capital_reservation_id = [], eo_raw_submission_hash = [], eo_version = 1\<rparr>"

lemmas order_eval = transition_defs mark_broker_identity_exact_def validate_consistency_def
  sample_order_def

lemma py_strip_B1: "py_strip ''B1'' = ''B1''"
  by (simp add: py_strip_def py_space_def)

theorem acknowledged_gateway_witness:
  "\<exists>r'. order_life sample_order [(5, SUBMITTING, None), (6, ACKNOWLEDGED, Some ''B1''),
      (7, WORKING, None)] = Some r' \<and> eo_status r' \<in> broker_statuses
    \<and> (\<exists>now bid. (now, ACKNOWLEDGED, bid) \<in> set [(5, SUBMITTING, None),
         (6::timestamp, ACKNOWLEDGED, Some ''B1''), (7, WORKING, None)])"
proof -
  let ?steps = "[(5, SUBMITTING, None), (6::timestamp, ACKNOWLEDGED, Some ''B1''), (7, WORKING, None)]"
  have p: "eo_status sample_order = PREPARED" by (simp add: sample_order_def)
  obtain r' where l: "order_life sample_order ?steps = Some r'" and w: "eo_status r' = WORKING"
    by (simp add: order_eval py_strip_B1)
  then have "eo_status r' \<in> broker_statuses" by (simp add: broker_statuses_def)
  with l acknowledged_gateway [OF p l] show ?thesis by blast
qed

text \<open>
  A transition requested without a broker id is atomic on a well-formed record: it
  either succeeds, reaching the requested status in a record that is again well-formed, or
  raises and leaves the record exactly as it was.
\<close>

theorem transition_atomic:
  assumes "order_wf r" "apply_status_transition now t None r = (e, r')"
  shows "if e = None then order_wf r' \<and> eo_status r' = t
      \<and> t \<in> allowed_status_transitions (eo_status r)
    else r' = r"
proof (cases "t \<in> allowed_status_transitions (eo_status r)")
  case False
  with assms apply_transition_invalid show ?thesis by auto
next
  case True
  show ?thesis
  proof (cases "t = ACKNOWLEDGED \<and> eo_broker_identity_status r \<noteq> EXACT")
    case True
    then have "t = ACKNOWLEDGED" "eo_broker_identity_status r \<noteq> EXACT" by auto
    with apply_transition_refused [OF \<open>t \<in> allowed_status_transitions (eo_status r)\<close>] assms(2)
    show ?thesis by auto
  next
    case False
    with apply_transition_moves [OF assms(1) True, of now] assms(2) True show ?thesis by auto
  qed
qed

theorem transition_atomic_witness:
  "order_wf sample_order \<and> (\<exists>e r'. apply_status_transition 5 SUBMITTING None sample_order = (e, r')
    \<and> (if e = None then order_wf r' \<and> eo_status r' = SUBMITTING
         \<and> SUBMITTING \<in> allowed_status_transitions (eo_status sample_order) else r' = sample_order))"
proof -
  have w: "order_wf sample_order" by (simp add: order_wf_def order_eval)
  obtain e r' where a: "apply_status_transition 5 SUBMITTING None sample_order = (e, r')"
    by (cases "apply_status_transition 5 SUBMITTING None sample_order")
  with w transition_atomic [OF w a] show ?thesis by blast
qed

text \<open>
  Once the broker identity is exact it is immutable: no transition, accepted or
  refused, with or without a supplied id, changes the recorded broker order id.
\<close>

theorem exact_identity_immutable:
  assumes "order_wf r" "eo_broker_identity_status r = EXACT"
    "apply_status_transition now t bid r = (e, r')"
  shows "eo_broker_order_id r' = eo_broker_order_id r \<and> eo_broker_identity_status r' = EXACT"
proof -
  have "eo_status r \<noteq> SUBMITTING" "eo_broker_order_id r \<noteq> []"
    using assms(1,2) by (auto simp: order_wf_def validate_consistency_iff)
  with assms(2,3) show ?thesis
    by (auto simp: transition_defs mark_broker_identity_exact_def
        split: option.splits if_splits)
qed

theorem exact_identity_immutable_witness:
  "\<exists>e r'. apply_status_transition 5 WORKING (Some ''B2'')
      (sample_order\<lparr>eo_status := ACKNOWLEDGED, eo_broker_order_id := ''B1'',
        eo_broker_identity_status := EXACT\<rparr>) = (e, r') \<and> eo_broker_order_id r' = ''B1''"
proof -
  let ?r = "sample_order\<lparr>eo_status := ACKNOWLEDGED, eo_broker_order_id := ''B1'',
        eo_broker_identity_status := EXACT\<rparr>"
  have w: "order_wf ?r" by (simp add: order_wf_def order_eval)
  have x: "eo_broker_identity_status ?r = EXACT" by simp
  obtain e r' where a: "apply_status_transition 5 WORKING (Some ''B2'') ?r = (e, r')"
    by (cases "apply_status_transition 5 WORKING (Some ''B2'') ?r")
  with exact_identity_immutable [OF w x a] show ?thesis by auto
qed

text \<open>
  The cancel gate is sound for the status table: a record \<open>is_cancellable\<close> accepts can
  always be moved to CANCEL_PENDING, and it is an order the application owns outright or
  was explicitly granted the right to cancel.
\<close>

theorem cancellable_can_cancel:
  assumes "order_wf r" "is_cancellable r"
  shows "(\<exists>r'. apply_status_transition now CANCEL_PENDING None r = (None, r')
        \<and> eo_status r' = CANCEL_PENDING \<and> order_wf r')
    \<and> (eo_origin r = APPLICATION \<or> CANCEL \<in> eo_adoption_permissions r)"
proof -
  from assms(2) have "CANCEL_PENDING \<in> allowed_status_transitions (eo_status r)"
    by (auto simp: is_cancellable_def CANCELLABLE_STATUSES_def split: if_splits)
  with apply_transition_moves [OF assms(1), of CANCEL_PENDING]
  have "\<exists>r'. apply_status_transition now CANCEL_PENDING None r = (None, r')
      \<and> eo_status r' = CANCEL_PENDING \<and> order_wf r'" by auto
  moreover from assms(2) have "eo_origin r = APPLICATION \<or> CANCEL \<in> eo_adoption_permissions r"
    by (auto simp: is_cancellable_def split: if_splits)
  ultimately show ?thesis by blast
qed

theorem cancellable_can_cancel_witness:
  "is_cancellable (sample_order\<lparr>eo_status := WORKING, eo_broker_order_id := ''B1'',
        eo_broker_identity_status := EXACT\<rparr>)
    \<and> (\<exists>r'. apply_status_transition 5 CANCEL_PENDING None
        (sample_order\<lparr>eo_status := WORKING, eo_broker_order_id := ''B1'',
          eo_broker_identity_status := EXACT\<rparr>) = (None, r'))"
proof -
  let ?r = "sample_order\<lparr>eo_status := WORKING, eo_broker_order_id := ''B1'',
        eo_broker_identity_status := EXACT\<rparr>"
  have w: "order_wf ?r" by (simp add: order_wf_def order_eval)
  have c: "is_cancellable ?r"
    by (simp add: is_cancellable_def CANCELLABLE_STATUSES_def CANCEL_ELIGIBLE_RECOVERY_STATES_def
        sample_order_def)
  with cancellable_can_cancel [OF w c] show ?thesis by blast
qed

text \<open>
  What a supplied broker id does outside ACKNOWLEDGED: on a prepared record the
  transition to SUBMITTING raises the consistency error only after the record was
  overwritten; the caller is left with an inconsistent record in status SUBMITTING.
\<close>

theorem supplied_id_leaves_inconsistent_record:
  assumes "order_wf r" "eo_status r = PREPARED" "py_strip b \<noteq> []"
  shows "\<exists>r'. apply_status_transition now SUBMITTING (Some b) r =
      (Some (InvalidExecutionOrderConsistency IdentityIllegalForStatus), r')
    \<and> eo_status r' = SUBMITTING \<and> \<not> order_wf r'"
proof -
  have "eo_broker_identity_status r = NOT_ASSIGNED"
    using assms(1,2) by (auto simp: order_wf_def validate_consistency_iff)
  with assms show ?thesis
    by (auto simp: order_wf_def transition_defs mark_exact_fresh validate_consistency_def)
qed

theorem supplied_id_leaves_inconsistent_record_witness:
  "\<exists>r'. apply_status_transition 5 SUBMITTING (Some ''B1'') sample_order =
      (Some (InvalidExecutionOrderConsistency IdentityIllegalForStatus), r') \<and> \<not> order_wf r'"
proof -
  have w: "order_wf sample_order" by (simp add: order_wf_def order_eval)
  have p: "eo_status sample_order = PREPARED" by (simp add: sample_order_def)
  have b: "py_strip ''B1'' \<noteq> []" by (simp add: py_strip_B1)
  from supplied_id_leaves_inconsistent_record [OF w p b] show ?thesis by blast
qed

end
