(* ===== verification/External_Order.thy ===== *)
theory External_Order
  imports Execution_Order
begin

text \<open>
  \<open>src/core/discovered_external_order.py\<close>: broker orders no local record claims, and their
  explicit adoption. Identifiers and the clock come from outside (\<open>uuid4\<close>, \<open>utc_now_iso\<close>) and
  are arguments. Redaction of the raw payload (\<open>src/utils/redaction.py\<close>) is not modelled: the
  record holds the already redacted response.
\<close>

datatype external_order_disposition = DISCOVERED_UNOWNED | DISP_USER_ADOPTED | DISMISSED_TERMINAL

fun allowed_disposition_transitions ::
    "external_order_disposition \<Rightarrow> external_order_disposition set" where
  "allowed_disposition_transitions DISCOVERED_UNOWNED = {DISP_USER_ADOPTED, DISMISSED_TERMINAL}"
| "allowed_disposition_transitions _ = {}"

datatype external_error =
    InvalidDispositionTransition external_order_disposition external_order_disposition
  | MissingExternalBrokerOrderId
  | NotBrokerObservable execution_order_status
  | BlankAdoptedBy
  | AdoptedRecordError order_error

definition validate_disposition_transition ::
    "external_order_disposition \<Rightarrow> external_order_disposition \<Rightarrow> external_error option" where
  "validate_disposition_transition current target =
     (if target \<notin> allowed_disposition_transitions current
      then Some (InvalidDispositionTransition current target) else None)"

definition BROKER_OBSERVABLE_STATUSES :: "execution_order_status set" where
  "BROKER_OBSERVABLE_STATUSES =
     {ACKNOWLEDGED, UNKNOWN_SUBMISSION_STATE, WORKING, PARTIALLY_FILLED, FILLED, CANCEL_PENDING,
      CANCELLED, EXPIRED, REJECTED}"

definition is_unreconciled_external_order :: "external_order_disposition \<Rightarrow> bool" where
  "is_unreconciled_external_order d \<longleftrightarrow> d = DISCOVERED_UNOWNED"

record external_order =
  xo_environment :: string
  xo_account_no :: string
  xo_symbol :: string
  xo_side :: order_side
  xo_broker_order_id :: string
  xo_quantity_requested :: int
  xo_filled_quantity :: int
  xo_limit_price :: pyfloat
  xo_broker_status :: execution_order_status
  xo_external_order_id :: string
  xo_discovered_at :: timestamp
  xo_disposition :: external_order_disposition
  xo_adopted_at :: "timestamp option"
  xo_adopted_by :: string
  xo_redacted_response :: json_dict
  xo_response_hash :: string
  xo_version :: int

definition external_order_post_init :: "external_order \<Rightarrow> external_error + external_order" where
  "external_order_post_init x =
     (let x1 = x\<lparr>xo_environment := py_upper (xo_environment x),
                 xo_symbol := py_upper (xo_symbol x),
                 xo_broker_order_id := py_strip (xo_broker_order_id x),
                 xo_version := (if xo_version x = 0 then 1 else xo_version x)\<rparr>
      in guarded (first_error
           [(xo_broker_order_id x1 = [], MissingExternalBrokerOrderId),
            (xo_broker_status x1 \<notin> BROKER_OBSERVABLE_STATUSES,
               NotBrokerObservable (xo_broker_status x1))])
         (Inr x1))"

text \<open>
  \<open>generate_client_order_id\<close> of \<open>src/core/order_state.py\<close>: the sanitised parts, the
  timestamp text and the nonce, joined by hyphens.
\<close>

definition py_alnum :: "char \<Rightarrow> bool" where
  "py_alnum c \<longleftrightarrow> (let n = (of_char c :: nat) in
     48 \<le> n \<and> n \<le> 57 \<or> 65 \<le> n \<and> n \<le> 90 \<or> 97 \<le> n \<and> n \<le> 122)"

definition strip_char :: "char \<Rightarrow> string \<Rightarrow> string" where
  "strip_char d s = rev (dropWhile (\<lambda>c. c = d) (rev (dropWhile (\<lambda>c. c = d) s)))"

definition sanitize_id_part :: "string \<Rightarrow> string" where
  "sanitize_id_part v =
     text_or (strip_char (CHR ''-'')
       (map (\<lambda>c. if py_alnum c \<or> c \<in> {CHR ''-'', CHR ''_''} then c else CHR ''-'')
         (py_upper (py_strip v)))) ''UNKNOWN''"

fun join_hyphen :: "string list \<Rightarrow> string" where
  "join_hyphen [] = []"
| "join_hyphen [s] = s"
| "join_hyphen (s # t # ts) = s @ ''-'' @ join_hyphen (t # ts)"

definition order_side_value :: "order_side \<Rightarrow> string" where
  "order_side_value s = (case s of BUY \<Rightarrow> ''BUY'' | SELL \<Rightarrow> ''SELL'')"

definition order_intent_value :: "order_intent \<Rightarrow> string" where
  "order_intent_value i = (case i of ENTRY \<Rightarrow> ''ENTRY'' | STOP_LOSS \<Rightarrow> ''STOP_LOSS''
     | PARTIAL_EXIT \<Rightarrow> ''PARTIAL_EXIT'' | MOMENTUM_EXIT \<Rightarrow> ''MOMENTUM_EXIT''
     | PARTIAL_TAKE_PROFIT \<Rightarrow> ''PARTIAL_TAKE_PROFIT'' | MANUAL_EXIT \<Rightarrow> ''MANUAL_EXIT''
     | INTENT_UNKNOWN \<Rightarrow> ''UNKNOWN'')"

definition generate_client_order_id ::
    "string \<Rightarrow> string \<Rightarrow> string \<Rightarrow> order_side \<Rightarrow> order_intent \<Rightarrow> string \<Rightarrow> string \<Rightarrow> string" where
  "generate_client_order_id env account ticker side intent stamp nonce =
     join_hyphen [sanitize_id_part env, sanitize_id_part account, sanitize_id_part ticker,
       order_side_value side, order_intent_value intent, stamp, nonce]"

text \<open>
  The adopted record, and the external order with its disposition advanced: the latter
  only once the record could be built.
\<close>

definition adopted_record ::
    "external_order \<Rightarrow> adopted_order_permission set \<Rightarrow> string \<Rightarrow> string \<Rightarrow> timestamp \<Rightarrow> execution_order" where
  "adopted_record x permissions device client_id now =
     \<lparr>eo_environment = xo_environment x, eo_account_no = xo_account_no x,
      eo_symbol = xo_symbol x, eo_side = xo_side x, eo_intent = INTENT_UNKNOWN,
      eo_client_order_id = client_id, eo_broker_order_id = xo_broker_order_id x,
      eo_attempt_group_id = [], eo_attempt_number = 1, eo_attempt_deadline_at = None,
      eo_submitted_quantity = xo_quantity_requested x,
      eo_submitted_limit_price = xo_limit_price x, eo_exchange = [],
      eo_execution_policy = REGULAR_LIMIT_EXECUTION, eo_prepared_at = Some now,
      eo_submission_started_at = None, eo_acknowledged_at = None,
      eo_market_session_date = None, eo_owner_device_id = device, eo_lease_token = [],
      eo_lease_epoch = 0, eo_status = xo_broker_status x,
      eo_filled_quantity = xo_filled_quantity x, eo_remaining_quantity = 0,
      eo_average_fill_price = Fin 0, eo_cancel_requested_at = None,
      eo_last_broker_seen_at = None, eo_last_reconciled_at = None, eo_absence_count = 0,
      eo_last_absence_snapshot_id = [], eo_last_absence_observed_at = None,
      eo_last_absence_session_date = None, eo_last_absence_broker_order_id = [],
      eo_last_absence_holding_quantity = None, eo_origin = ORIGIN_USER_ADOPTED,
      eo_broker_identity_status = EXACT, eo_recovery_state = ORS_NONE,
      eo_recovery_candidate_broker_order_ids = [], eo_adoption_permissions = permissions,
      eo_replaces_execution_order_id = [],
      eo_adopted_from_external_order_id = xo_external_order_id x,
      eo_capital_reservation_id = [], eo_raw_submission_hash = [], eo_version = 1\<rparr>"

definition adopt_external_order ::
    "external_order \<Rightarrow> string \<Rightarrow> adopted_order_permission set \<Rightarrow> string \<Rightarrow> string \<Rightarrow> timestamp
       \<Rightarrow> external_error + (execution_order \<times> external_order)" where
  "adopt_external_order x adopted_by permissions device client_id now =
     (let actor = py_strip adopted_by
      in guarded (and_then (first_error [(actor = [], BlankAdoptedBy)])
           (validate_disposition_transition (xo_disposition x) DISP_USER_ADOPTED))
         (case execution_order_post_init (adopted_record x permissions device client_id now) of
            Inl e \<Rightarrow> Inl (AdoptedRecordError e)
          | Inr record \<Rightarrow>
              Inr (record, x\<lparr>xo_disposition := DISP_USER_ADOPTED, xo_adopted_at := Some now,
                             xo_adopted_by := actor\<rparr>)))"

subsection \<open>Adoption\<close>

interpretation disposition: transition_graph allowed_disposition_transitions
    "\<lambda>d. d \<noteq> DISCOVERED_UNOWNED"
proof
  fix d :: external_order_disposition
  show "d \<noteq> DISCOVERED_UNOWNED \<Longrightarrow> allowed_disposition_transitions d = {}" by (cases d) simp_all
  show "\<not> d \<noteq> DISCOVERED_UNOWNED \<Longrightarrow> allowed_disposition_transitions d \<noteq> {}" by simp
qed

lemma adopt_Inr_cases:
  assumes "adopt_external_order x actor ps dev cid now = Inr (r, x')"
  shows "xo_disposition x = DISCOVERED_UNOWNED" "py_strip actor \<noteq> []"
    "execution_order_post_init (adopted_record x ps dev cid now) = Inr r"
    "x' = x\<lparr>xo_disposition := DISP_USER_ADOPTED, xo_adopted_at := Some now,
            xo_adopted_by := py_strip actor\<rparr>"
  using assms
  by (cases "xo_disposition x";
      auto simp: adopt_external_order_def validate_disposition_transition_def Let_def
        guarded_def and_then_def split: sum.splits option.splits if_splits)+

lemma post_init_Inr:
  "execution_order_post_init r = Inr r' \<Longrightarrow>
     validate_consistency r' = None \<and> eo_client_order_id r' \<noteq> []
     \<and> eo_origin r' = eo_origin r \<and> eo_adoption_permissions r' = eo_adoption_permissions r
     \<and> eo_broker_identity_status r' = eo_broker_identity_status r
     \<and> eo_broker_order_id r' = eo_broker_order_id r \<and> eo_status r' = eo_status r
     \<and> eo_filled_quantity r' = eo_filled_quantity r
     \<and> eo_submitted_quantity r' = eo_submitted_quantity r
     \<and> (eo_broker_identity_status r' = EXACT \<longrightarrow> eo_broker_order_id r' \<noteq> [])"
  by (auto simp: execution_order_post_init_def Let_def guarded_Inr_iff split: if_splits)

lemma adopted_record_facts:
  assumes "adopt_external_order x actor ps dev cid now = Inr (r, x')"
  shows "order_wf r" "eo_origin r = ORIGIN_USER_ADOPTED" "eo_adoption_permissions r = ps"
    "eo_broker_order_id r = xo_broker_order_id x" "eo_status r = xo_broker_status x"
  using post_init_Inr [OF adopt_Inr_cases(3) [OF assms]]
  by (auto simp: order_wf_def adopted_record_def)

text \<open>
  Adoption grants exactly what was authorised and happens once: the new record is
  well-formed, keeps the discovered broker id, is attributed to the adoption, and can be
  cancelled only if CANCEL was among the granted permissions; and the external order, now
  USER_ADOPTED, can never be adopted again.
\<close>

theorem adoption_scoped_and_once:
  assumes "adopt_external_order x actor ps dev cid now = Inr (r, x')"
  shows "order_wf r \<and> eo_origin r = ORIGIN_USER_ADOPTED
      \<and> eo_broker_order_id r = xo_broker_order_id x
      \<and> (is_cancellable r \<longrightarrow> CANCEL \<in> ps)
      \<and> xo_adopted_by x' \<noteq> []
      \<and> (\<exists>e. adopt_external_order x' actor2 ps2 dev2 cid2 now2 = Inl e)"
proof -
  note facts = adopted_record_facts [OF assms] and cases = adopt_Inr_cases [OF assms]
  have "validate_disposition_transition (xo_disposition x') DISP_USER_ADOPTED \<noteq> None"
    using cases(4) by (simp add: validate_disposition_transition_def)
  then have "\<exists>e. adopt_external_order x' actor2 ps2 dev2 cid2 now2 = Inl e"
    by (auto simp: adopt_external_order_def Let_def guarded_def split: option.splits)
  with facts cases(2,4) show ?thesis by (auto simp: is_cancellable_def)
qed

definition sample_external :: external_order where
  "sample_external = \<lparr>xo_environment = ''PROD'', xo_account_no = ''1'', xo_symbol = ''AAPL'',
     xo_side = SELL, xo_broker_order_id = ''B9'', xo_quantity_requested = 5,
     xo_filled_quantity = 2, xo_limit_price = Fin 10, xo_broker_status = WORKING,
     xo_external_order_id = ''X1'', xo_discovered_at = 0, xo_disposition = DISCOVERED_UNOWNED,
     xo_adopted_at = None, xo_adopted_by = [], xo_redacted_response = [],
     xo_response_hash = [], xo_version = 1\<rparr>"

lemma adopt_sample:
  "\<exists>r x'. adopt_external_order sample_external ''me'' {CANCEL} [] ''c9'' 7 = Inr (r, x')"
  by (simp add: adopt_external_order_def validate_disposition_transition_def sample_external_def
      execution_order_post_init_def adopted_record_def validate_consistency_def
      py_strip_def py_space_def Let_def)

theorem adoption_scoped_and_once_witness:
  "\<exists>r x'. adopt_external_order sample_external ''me'' {CANCEL} [] ''c9'' 7 = Inr (r, x')
     \<and> order_wf r \<and> eo_broker_order_id r = ''B9''
     \<and> (\<exists>e. adopt_external_order x' ''me'' {} [] ''c10'' 8 = Inl e)"
proof -
  obtain r x' where a: "adopt_external_order sample_external ''me'' {CANCEL} [] ''c9'' 7 = Inr (r, x')"
    using adopt_sample by blast
  with adoption_scoped_and_once [OF a, of "''me''" "{}" "[]" "''c10''" 8] show ?thesis
    by (auto simp: sample_external_def)
qed

text \<open>
  An external order the broker reported open under a status the application could not
  map (stored as UNKNOWN_SUBMISSION_STATE, which the code admits as broker-observable) can
  never be adopted: the record it would become is inconsistent.
\<close>

theorem unknown_status_not_adoptable:
  assumes "xo_broker_status x = UNKNOWN_SUBMISSION_STATE"
  shows "xo_broker_status x \<in> BROKER_OBSERVABLE_STATUSES
    \<and> (\<exists>e. adopt_external_order x actor ps dev cid now = Inl e)"
proof -
  have "\<nexists>r x'. adopt_external_order x actor ps dev cid now = Inr (r, x')"
  proof
    assume "\<exists>r x'. adopt_external_order x actor ps dev cid now = Inr (r, x')"
    then obtain r x' where a: "adopt_external_order x actor ps dev cid now = Inr (r, x')" by blast
    from post_init_Inr [OF adopt_Inr_cases(3) [OF a]] assms
    show False by (auto simp: adopted_record_def validate_consistency_iff)
  qed
  then have "\<exists>e. adopt_external_order x actor ps dev cid now = Inl e"
    by (metis prod.exhaust sum.exhaust)
  with assms show ?thesis by (simp add: BROKER_OBSERVABLE_STATUSES_def)
qed

theorem unknown_status_not_adoptable_witness:
  "\<exists>e. adopt_external_order (sample_external\<lparr>xo_broker_status := UNKNOWN_SUBMISSION_STATE\<rparr>)
     ''me'' {CANCEL} [] ''c9'' 7 = Inl e"
  using unknown_status_not_adoptable
    [of "sample_external\<lparr>xo_broker_status := UNKNOWN_SUBMISSION_STATE\<rparr>" "''me''" "{CANCEL}" "[]"
      "''c9''" 7]
  by simp

end
