(* ===== verification/Order_Store.thy ===== *)
theory Order_Store
  imports Execution_Order Versioned_Store
begin

text \<open>
  \<open>src/services/execution_order_repository.py\<close>: the durable table of execution orders. Rows are
  keyed by client order id; two further unique constraints allow at most one row per exact
  broker identity and one per adopted external order. A constraint that fails is an integrity
  error the code turns into a typed one by looking at the table again. A row is the record it
  decodes to; its version column and the record's version agree by construction.
\<close>

record order_table =
  ox_ids :: "string list"
  ox_rows :: "string \<rightharpoonup> execution_order"

definition empty_orders :: order_table where
  "empty_orders = \<lparr>ox_ids = [], ox_rows = Map.empty\<rparr>"

datatype order_store_error =
    OrderInconsistent order_error
  | DuplicateExecutionOrder
  | BrokerIdentityConflict
  | DuplicateAdoption
  | ExecutionOrderNotFound
  | ExecutionOrderVersionConflict
  | OrderImmutableFieldChanged
  | UntypedIntegrityError

definition identity_key_or_none :: "execution_order \<Rightarrow> string option" where
  "identity_key_or_none r =
     (if eo_broker_identity_status r \<noteq> EXACT \<or> eo_broker_order_id r = [] then None
      else Some (compute_broker_identity_key (eo_environment r) (eo_account_no r) (eo_broker_order_id r)))"

definition adoption_source_or_none :: "execution_order \<Rightarrow> string option" where
  "adoption_source_or_none r =
     (if eo_adopted_from_external_order_id r = [] then None
      else Some (eo_adopted_from_external_order_id r))"

definition table_orders :: "order_table \<Rightarrow> execution_order list" where
  "table_orders t = List.map_filter (ox_rows t) (ox_ids t)"

text \<open>Another row than the record's own holds the same non-null key.\<close>

definition held_by_other :: "(execution_order \<Rightarrow> string option) \<Rightarrow> execution_order \<Rightarrow> order_table \<Rightarrow> bool" where
  "held_by_other key r t \<longleftrightarrow> key r \<noteq> None
     \<and> list_ex (\<lambda>o'. key o' = key r \<and> eo_client_order_id o' \<noteq> eo_client_order_id r) (table_orders t)"

definition held_by_any :: "(execution_order \<Rightarrow> string option) \<Rightarrow> execution_order \<Rightarrow> order_table \<Rightarrow> bool" where
  "held_by_any key r t \<longleftrightarrow> key r \<noteq> None \<and> list_ex (\<lambda>o'. key o' = key r) (table_orders t)"

definition check_broker_identity_conflict :: "execution_order \<Rightarrow> order_table \<Rightarrow> order_store_error option" where
  "check_broker_identity_conflict r t =
     (if held_by_other identity_key_or_none r t then Some BrokerIdentityConflict else None)"

definition diagnose_integrity_error :: "execution_order \<Rightarrow> order_table \<Rightarrow> order_store_error" where
  "diagnose_integrity_error r t =
     (if ox_rows t (eo_client_order_id r) \<noteq> None then DuplicateExecutionOrder
      else if held_by_any identity_key_or_none r t then BrokerIdentityConflict
      else if held_by_any adoption_source_or_none r t then DuplicateAdoption
      else UntypedIntegrityError)"

definition insert_execution_order ::
    "execution_order \<Rightarrow> order_table \<Rightarrow> order_store_error + (execution_order \<times> order_table)" where
  "insert_execution_order r t =
     (let k = eo_client_order_id r;
          violated = ox_rows t k \<noteq> None \<or> held_by_any identity_key_or_none r t
            \<or> held_by_any adoption_source_or_none r t
      in guarded (and_then (map_option OrderInconsistent (validate_consistency r))
                   (check_broker_identity_conflict r t))
           (if violated then Inl (diagnose_integrity_error r t)
            else Inr (r, t\<lparr>ox_ids := ox_ids t @ [k], ox_rows := (ox_rows t)(k \<mapsto> r)\<rparr>)))"

definition update_execution_order ::
    "execution_order \<Rightarrow> int \<Rightarrow> order_table \<Rightarrow> order_store_error + (execution_order \<times> order_table)" where
  "update_execution_order r expected_version t =
     (let k = eo_client_order_id r; r' = r\<lparr>eo_version := expected_version + 1\<rparr>;
          violated = held_by_other identity_key_or_none r t \<or> held_by_other adoption_source_or_none r t
      in guarded (map_option OrderInconsistent (validate_consistency r))
        (case ox_rows t k of
           None \<Rightarrow> Inl ExecutionOrderNotFound
         | Some current \<Rightarrow>
             guarded (and_then (first_error
               [(eo_environment current \<noteq> eo_environment r \<or> eo_account_no current \<noteq> eo_account_no r
                   \<or> eo_symbol current \<noteq> eo_symbol r, OrderImmutableFieldChanged),
                (eo_version current \<noteq> expected_version, ExecutionOrderVersionConflict)])
               (check_broker_identity_conflict r t))
             (if violated then Inl (diagnose_integrity_error r t)
              else Inr (r', t\<lparr>ox_rows := (ox_rows t)(k \<mapsto> r')\<rparr>))))"

subsection \<open>Queries\<close>

definition in_order_scope :: "string \<Rightarrow> string \<Rightarrow> string \<Rightarrow> execution_order \<Rightarrow> bool" where
  "in_order_scope environment account_no ticker r \<longleftrightarrow>
     eo_environment r = py_upper environment \<and> eo_account_no r = account_no
     \<and> eo_symbol r = py_upper ticker"

definition is_active_order :: "execution_order \<Rightarrow> bool" where
  "is_active_order r \<longleftrightarrow> eo_status r \<notin> TERMINAL_EXECUTION_ORDER_STATUSES"

definition get_execution_order :: "order_table \<Rightarrow> string \<Rightarrow> execution_order option" where
  "get_execution_order t client_order_id = ox_rows t client_order_id"

definition find_active_unlinked_adopted_order ::
    "order_table \<Rightarrow> string \<Rightarrow> string \<Rightarrow> string \<Rightarrow> string \<Rightarrow> execution_order option" where
  "find_active_unlinked_adopted_order t environment account_no ticker allowed_id =
     (let allowed = py_strip allowed_id
      in List.find (\<lambda>r. in_order_scope environment account_no ticker r
           \<and> eo_origin r = ORIGIN_USER_ADOPTED \<and> is_active_order r
           \<and> (allowed = [] \<or> eo_client_order_id r \<noteq> allowed)) (table_orders t))"

definition find_active_execution_order_for_scope ::
    "order_table \<Rightarrow> string \<Rightarrow> string \<Rightarrow> string \<Rightarrow> execution_order option" where
  "find_active_execution_order_for_scope t environment account_no ticker =
     List.find (\<lambda>r. in_order_scope environment account_no ticker r \<and> is_active_order r) (table_orders t)"

definition list_execution_orders_for_card ::
    "order_table \<Rightarrow> string \<Rightarrow> string \<Rightarrow> string \<Rightarrow> execution_order list" where
  "list_execution_orders_for_card t environment account_no ticker =
     filter (in_order_scope environment account_no ticker) (rev (table_orders t))"

definition list_execution_orders_for_account ::
    "order_table \<Rightarrow> string \<Rightarrow> string \<Rightarrow> execution_order list" where
  "list_execution_orders_for_account t environment account_no =
     filter (\<lambda>r. eo_environment r = py_upper environment \<and> eo_account_no r = account_no) (table_orders t)"

definition list_execution_orders :: "order_table \<Rightarrow> string option \<Rightarrow> execution_order list" where
  "list_execution_orders t environment =
     filter (\<lambda>r. environment = None \<or> Some (eo_environment r) = map_option py_upper environment)
       (table_orders t)"

subsection \<open>The constraints as an invariant\<close>

definition keys_unique :: "(execution_order \<Rightarrow> string option) \<Rightarrow> order_table \<Rightarrow> bool" where
  "keys_unique key t \<longleftrightarrow> (\<forall>j k a b. ox_rows t j = Some a \<and> ox_rows t k = Some b
     \<and> key a \<noteq> None \<and> key a = key b \<longrightarrow> j = k)"

definition orders_wf :: "order_table \<Rightarrow> bool" where
  "orders_wf t \<longleftrightarrow> distinct (ox_ids t) \<and> set (ox_ids t) = dom (ox_rows t)
     \<and> (\<forall>k r. ox_rows t k = Some r \<longrightarrow> eo_client_order_id r = k \<and> validate_consistency r = None)
     \<and> keys_unique identity_key_or_none t \<and> keys_unique adoption_source_or_none t"

lemma orders_wf_empty: "orders_wf empty_orders"
  by (simp add: orders_wf_def empty_orders_def keys_unique_def)

lemma table_orders_mem:
  assumes "orders_wf t"
  shows "r \<in> set (table_orders t) \<longleftrightarrow> ox_rows t (eo_client_order_id r) = Some r"
proof -
  have "r \<in> set (table_orders t) \<longleftrightarrow> (\<exists>k \<in> set (ox_ids t). ox_rows t k = Some r)"
    by (force simp: table_orders_def map_filter_def)
  with assms show ?thesis by (auto simp: orders_wf_def dom_def)
qed

lemma not_held_iff:
  assumes "orders_wf t"
  shows "\<not> held_by_other key r t \<longleftrightarrow> key r = None
    \<or> (\<forall>k o'. ox_rows t k = Some o' \<and> key o' = key r \<longrightarrow> k = eo_client_order_id r)"
proof -
  have row: "ox_rows t k = Some o' \<Longrightarrow> eo_client_order_id o' = k \<and> o' \<in> set (table_orders t)" for k o'
    using assms table_orders_mem [OF assms, of o'] by (simp add: orders_wf_def)
  have e: "(\<exists>o' \<in> set (table_orders t). key o' = key r \<and> eo_client_order_id o' \<noteq> eo_client_order_id r)
      \<longleftrightarrow> (\<exists>k o'. ox_rows t k = Some o' \<and> key o' = key r \<and> k \<noteq> eo_client_order_id r)"
    using row table_orders_mem [OF assms] by blast
  show ?thesis unfolding held_by_other_def list_ex_iff e by (cases "key r = None") auto
qed

lemma keys_unique_update:
  assumes wf: "orders_wf t" and u: "keys_unique key t" and n: "\<not> held_by_other key r t"
    and k: "k = eo_client_order_id r" and same: "key r' = key r"
  shows "keys_unique key (t\<lparr>ox_ids := ids, ox_rows := (ox_rows t)(k \<mapsto> r')\<rparr>)"
proof -
  have other: "ox_rows t j = Some b \<Longrightarrow> key b = key r \<Longrightarrow> key r \<noteq> None \<Longrightarrow> j = k" for j b
    using n unfolding not_held_iff [OF wf] k by auto
  show ?thesis
    unfolding keys_unique_def
  proof (intro allI impI)
    fix i j a b
    let ?t = "t\<lparr>ox_ids := ids, ox_rows := (ox_rows t)(k \<mapsto> r')\<rparr>"
    assume "ox_rows ?t i = Some a \<and> ox_rows ?t j = Some b \<and> key a \<noteq> None \<and> key a = key b"
    then have h: "ox_rows ?t i = Some a" "ox_rows ?t j = Some b" "key a \<noteq> None" "key a = key b"
      by blast+
    show "i = j"
    proof (cases "i = k"; cases "j = k")
      assume "i = k" "j \<noteq> k"
      then have "a = r'" "ox_rows t j = Some b" using h(1,2) by simp_all
      with h(3,4) same other [of j b] \<open>j \<noteq> k\<close> show ?thesis by metis
    next
      assume "i \<noteq> k" "j = k"
      then have "b = r'" "ox_rows t i = Some a" using h(1,2) by simp_all
      with h(3,4) same other [of i a] \<open>i \<noteq> k\<close> show ?thesis by metis
    next
      assume "i \<noteq> k" "j \<noteq> k"
      then have "ox_rows t i = Some a" "ox_rows t j = Some b" using h(1,2) by simp_all
      with h(3,4) u show ?thesis unfolding keys_unique_def by blast
    qed simp
  qed
qed

lemma held_other_any: "held_by_other key r t \<Longrightarrow> held_by_any key r t"
  by (auto simp: held_by_other_def held_by_any_def list_ex_iff)

lemma insert_order_Inr_iff:
  "insert_execution_order r t = Inr (r', t') \<longleftrightarrow> validate_consistency r = None
     \<and> ox_rows t (eo_client_order_id r) = None \<and> r' = r
     \<and> \<not> held_by_any identity_key_or_none r t \<and> \<not> held_by_any adoption_source_or_none r t
     \<and> t' = t\<lparr>ox_ids := ox_ids t @ [eo_client_order_id r],
              ox_rows := (ox_rows t)(eo_client_order_id r \<mapsto> r)\<rparr>"
  using held_other_any [of identity_key_or_none r t]
  by (auto simp: insert_execution_order_def Let_def guard_simps check_broker_identity_conflict_def)

lemma update_order_Inr_iff:
  "update_execution_order r n t = Inr (r', t') \<longleftrightarrow> validate_consistency r = None
     \<and> (\<exists>cur. ox_rows t (eo_client_order_id r) = Some cur \<and> eo_version cur = n
          \<and> eo_environment cur = eo_environment r \<and> eo_account_no cur = eo_account_no r
          \<and> eo_symbol cur = eo_symbol r)
     \<and> \<not> held_by_other identity_key_or_none r t \<and> \<not> held_by_other adoption_source_or_none r t
     \<and> r' = r\<lparr>eo_version := n + 1\<rparr>
     \<and> t' = t\<lparr>ox_rows := (ox_rows t)(eo_client_order_id r \<mapsto> r')\<rparr>"
  by (auto simp: update_execution_order_def Let_def guard_simps check_broker_identity_conflict_def
      split: option.splits)

lemma version_irrelevant [simp]:
  "identity_key_or_none (r\<lparr>eo_version := v\<rparr>) = identity_key_or_none r"
  "adoption_source_or_none (r\<lparr>eo_version := v\<rparr>) = adoption_source_or_none r"
  "validate_consistency (r\<lparr>eo_version := v\<rparr>) = validate_consistency r"
  by (simp_all add: identity_key_or_none_def adoption_source_or_none_def validate_consistency_def)

lemma orders_wf_insert:
  assumes wf: "orders_wf t" and i: "insert_execution_order r t = Inr (r', t')"
  shows "orders_wf t'"
proof -
  note i = i [unfolded insert_order_Inr_iff]
  have n: "\<not> held_by_other identity_key_or_none r t" "\<not> held_by_other adoption_source_or_none r t"
    using i held_other_any by blast+
  have u: "keys_unique identity_key_or_none t" "keys_unique adoption_source_or_none t"
    using wf by (simp_all add: orders_wf_def)
  have "keys_unique identity_key_or_none t'" "keys_unique adoption_source_or_none t'"
    using i keys_unique_update [OF wf u(1) n(1)] keys_unique_update [OF wf u(2) n(2)] by simp_all
  with wf i show ?thesis by (auto simp: orders_wf_def)
qed

lemma orders_wf_update:
  assumes wf: "orders_wf t" and i: "update_execution_order r n t = Inr (r', t')"
  shows "orders_wf t'"
proof -
  note i = i [unfolded update_order_Inr_iff]
  have n: "\<not> held_by_other identity_key_or_none r t" "\<not> held_by_other adoption_source_or_none r t"
    using i by blast+
  have u: "keys_unique identity_key_or_none t" "keys_unique adoption_source_or_none t"
    using wf by (simp_all add: orders_wf_def)
  have t': "t' = t\<lparr>ox_ids := ox_ids t, ox_rows := (ox_rows t)(eo_client_order_id r \<mapsto> r')\<rparr>"
    and same: "identity_key_or_none r' = identity_key_or_none r"
      "adoption_source_or_none r' = adoption_source_or_none r"
    using i by simp_all
  have "keys_unique identity_key_or_none t'" "keys_unique adoption_source_or_none t'"
    unfolding t' by (rule keys_unique_update [OF wf u(1) n(1) refl same(1)]
        keys_unique_update [OF wf u(2) n(2) refl same(2)])+
  with wf i show ?thesis by (auto simp: orders_wf_def insert_absorb)
qed

subsection \<open>The order table as a fenced store\<close>

definition order_version :: "order_table \<Rightarrow> string \<Rightarrow> int option" where
  "order_version t k = map_option eo_version (ox_rows t k)"

definition put_order :: "string \<Rightarrow> int \<Rightarrow> execution_order \<Rightarrow> order_table \<Rightarrow> order_table option" where
  "put_order k n r t =
     (case update_execution_order (r\<lparr>eo_client_order_id := k\<rparr>) n t of
        Inl e \<Rightarrow> None | Inr (r', t') \<Rightarrow> Some t')"

definition put_order_content :: "string \<Rightarrow> execution_order \<Rightarrow> int \<Rightarrow> execution_order" where
  "put_order_content k r m = r\<lparr>eo_client_order_id := k, eo_version := m\<rparr>"

lemma put_order_Some:
  "put_order k n r t = Some t' \<Longrightarrow> order_version t k = Some n
     \<and> t' = t\<lparr>ox_rows := (ox_rows t)(k \<mapsto> put_order_content k r (n + 1))\<rparr>"
  by (auto simp: put_order_def put_order_content_def order_version_def update_order_Inr_iff
      split: sum.splits)

interpretation orders: fenced_store order_version ox_rows put_order put_order_content
  by standard (auto dest!: put_order_Some simp: order_version_def put_order_content_def)

lemma update_as_put_order:
  "update_execution_order r n t = Inr (r', t') \<Longrightarrow> put_order (eo_client_order_id r) n r t = Some t'"
  by (auto simp: put_order_def)

subsection \<open>What every stored table satisfies\<close>

inductive order_table_step :: "order_table \<Rightarrow> order_table \<Rightarrow> bool" where
  insert_step: "insert_execution_order r t = Inr (r', t') \<Longrightarrow> order_table_step t t'"
| update_step: "update_execution_order r n t = Inr (r', t') \<Longrightarrow> order_table_step t t'"

inductive_cases order_table_stepE: "order_table_step t t'"

lemma order_table_step_wf: "order_table_step t t' \<Longrightarrow> orders_wf t \<Longrightarrow> orders_wf t'"
  by (erule order_table_stepE) (rule orders_wf_insert orders_wf_update, assumption+)+

lemma reachable_orders_wf: "order_table_step\<^sup>*\<^sup>* empty_orders t \<Longrightarrow> orders_wf t"
  by (induction rule: rtranclp_induct) (auto intro: order_table_step_wf orders_wf_empty)

lemma identity_key_exact:
  "eo_broker_identity_status r = EXACT \<Longrightarrow> eo_broker_order_id r \<noteq> [] \<Longrightarrow>
     identity_key_or_none r
       = Some (compute_broker_identity_key (eo_environment r) (eo_account_no r) (eo_broker_order_id r))"
  by (simp add: identity_key_or_none_def)


definition exact_order :: execution_order where
  "exact_order = sample_order\<lparr>eo_status := ACKNOWLEDGED, eo_broker_order_id := ''B1'',
     eo_broker_identity_status := EXACT\<rparr>"

lemma exact_order_facts:
  "validate_consistency exact_order = None" "eo_client_order_id exact_order = ''c1''"
  "eo_adopted_from_external_order_id exact_order = []" "eo_broker_identity_status exact_order = EXACT"
  by (simp_all add: exact_order_def order_eval)

lemma insert_exact_order:
  "insert_execution_order exact_order empty_orders
     = Inr (exact_order, \<lparr>ox_ids = [''c1''], ox_rows = [''c1'' \<mapsto> exact_order]\<rparr>)"
  by (simp add: insert_order_Inr_iff exact_order_facts empty_orders_def held_by_any_def
      table_orders_def map_filter_def)


text \<open>An update that would claim an external order another record already adopted is
  refused, but not with the duplicate-adoption error: on an update the record's own row always
  answers the first question of the diagnosis, so the caller is told the record is a
  duplicate. The same claim by an insert is reported as the duplicate adoption it is.\<close>

theorem duplicate_adoption_misreported:
  assumes "order_table_step\<^sup>*\<^sup>* empty_orders t" "validate_consistency r = None"
    "ox_rows t (eo_client_order_id r) = Some cur" "eo_version cur = n"
    "eo_environment cur = eo_environment r" "eo_account_no cur = eo_account_no r"
    "eo_symbol cur = eo_symbol r"
    "\<not> held_by_other identity_key_or_none r t" "held_by_other adoption_source_or_none r t"
  shows "update_execution_order r n t = Inl DuplicateExecutionOrder
    \<and> (ox_rows t other \<noteq> None \<or> held_by_any identity_key_or_none (r\<lparr>eo_client_order_id := other\<rparr>) t
       \<or> insert_execution_order (r\<lparr>eo_client_order_id := other\<rparr>) t = Inl DuplicateAdoption)"
proof -
  let ?r = "r\<lparr>eo_client_order_id := other\<rparr>"
  have "validate_consistency ?r = None"
    using assms(2) by (simp add: validate_consistency_def)
  moreover have "adoption_source_or_none ?r = adoption_source_or_none r"
    by (simp add: adoption_source_or_none_def)
  then have "held_by_any adoption_source_or_none ?r t"
    using held_other_any [OF assms(9)] by (simp add: held_by_any_def)
  ultimately have "ox_rows t other \<noteq> None \<or> held_by_any identity_key_or_none ?r t
       \<or> insert_execution_order ?r t = Inl DuplicateAdoption"
    using held_other_any [of identity_key_or_none ?r t]
    by (auto simp: insert_execution_order_def Let_def check_broker_identity_conflict_def
        diagnose_integrity_error_def)
  then show ?thesis
    using assms(2-9) by (simp add: update_execution_order_def Let_def
        check_broker_identity_conflict_def diagnose_integrity_error_def)
qed

definition adopted_order :: "string \<Rightarrow> string \<Rightarrow> string \<Rightarrow> execution_order" where
  "adopted_order client broker source =
     sample_order\<lparr>eo_client_order_id := client, eo_status := WORKING, eo_broker_order_id := broker,
       eo_broker_identity_status := EXACT, eo_origin := ORIGIN_USER_ADOPTED,
       eo_adopted_from_external_order_id := source\<rparr>"

lemma adopted_order_facts [simp]:
  "x \<noteq> [] \<Longrightarrow> validate_consistency (adopted_order c b x) = None" "eo_client_order_id (adopted_order c b x) = c"
  "eo_version (adopted_order c b x) = 1"
  "adoption_source_or_none (adopted_order c b x) = (if x = [] then None else Some x)"
  "identity_key_or_none (adopted_order c b x)
     = (if b = [] then None else Some (compute_broker_identity_key ''PROD'' ''1'' b))"
  "eo_environment (adopted_order c b x) = ''PROD''" "eo_account_no (adopted_order c b x) = ''1''"
  "eo_symbol (adopted_order c b x) = ''AAPL''"
  by (simp_all add: adopted_order_def order_eval adoption_source_or_none_def identity_key_or_none_def)

theorem duplicate_adoption_misreported_witness:
  "\<exists>t. order_table_step\<^sup>*\<^sup>* empty_orders t
     \<and> update_execution_order (adopted_order ''c2'' ''B2'' ''X1'') 1 t = Inl DuplicateExecutionOrder
     \<and> insert_execution_order (adopted_order ''c3'' ''B3'' ''X1'') t = Inl DuplicateAdoption"
proof -
  let ?a = "adopted_order ''c1'' ''B1'' ''X1''" and ?b = "adopted_order ''c2'' ''B2'' ''X2''"
  let ?claim = "adopted_order ''c2'' ''B2'' ''X1''"
  let ?s = "\<lparr>ox_ids = [''c1''], ox_rows = [''c1'' \<mapsto> ?a]\<rparr>"
  let ?t = "\<lparr>ox_ids = [''c1'', ''c2''], ox_rows = [''c1'' \<mapsto> ?a, ''c2'' \<mapsto> ?b]\<rparr>"
  have key: "compute_broker_identity_key ''PROD'' ''1'' ''B1'' \<noteq> compute_broker_identity_key ''PROD'' ''1'' ''B2''"
    by (simp add: compute_broker_identity_key_def py_strip_def py_space_def)
  have "insert_execution_order ?a empty_orders = Inr (?a, ?s)"
    by (simp add: insert_order_Inr_iff empty_orders_def held_by_any_def table_orders_def map_filter_def)
  moreover have "insert_execution_order ?b ?s = Inr (?b, ?t)"
    using key by (simp add: insert_order_Inr_iff held_by_any_def table_orders_def map_filter_def)
  ultimately have r: "order_table_step\<^sup>*\<^sup>* empty_orders ?t"
    by (meson insert_step rtranclp.rtrancl_refl rtranclp.rtrancl_into_rtrancl)
  have row: "ox_rows ?t (eo_client_order_id ?claim) = Some ?b" by simp
  have c: "validate_consistency ?claim = None" "eo_version ?b = 1"
    "eo_environment ?b = eo_environment ?claim" "eo_account_no ?b = eo_account_no ?claim"
    "eo_symbol ?b = eo_symbol ?claim" by simp_all
  have n: "\<not> held_by_other identity_key_or_none ?claim ?t"
    and h: "held_by_other adoption_source_or_none ?claim ?t"
    using key by (simp_all add: held_by_other_def table_orders_def map_filter_def)
  have "\<not> held_by_other identity_key_or_none (adopted_order ''c3'' ''B3'' ''X1'') ?t"
    "held_by_any adoption_source_or_none (adopted_order ''c3'' ''B3'' ''X1'') ?t"
    "\<not> held_by_any identity_key_or_none (adopted_order ''c3'' ''B3'' ''X1'') ?t"
    by (simp_all add: held_by_other_def held_by_any_def table_orders_def map_filter_def
        compute_broker_identity_key_def py_strip_def py_space_def)
  then have "insert_execution_order (adopted_order ''c3'' ''B3'' ''X1'') ?t = Inl DuplicateAdoption"
    by (simp add: insert_execution_order_def Let_def check_broker_identity_conflict_def
        diagnose_integrity_error_def)
  with duplicate_adoption_misreported [OF r c(1) row c(2-5) n h] r show ?thesis by blast
qed

end
