(* ===== verification/External_Store.thy ===== *)
theory External_Store
  imports External_Order Order_Store
begin

text \<open>
  \<open>src/services/discovered_external_order_repository.py\<close>: the audit table of broker orders the
  application did not submit, the fence they and their unlinked adoptions put around a symbol,
  and the adoption that turns one into a local record in one transaction over both tables.
\<close>

record external_table =
  xt_ids :: "string list"
  xt_rows :: "string \<rightharpoonup> external_order"

datatype external_store_error =
    DuplicateExternalOrder
  | DuplicateBrokerOrderDiscovery
  | ExternalOrderNotFound
  | ExternalOrderVersionConflict
  | ExternalImmutableFieldChanged
  | ActiveExternalOrderFence
  | ActiveExecutionOrderAdoptionConflict
  | AdoptionRefused external_error
  | AdoptionOrderError order_store_error

definition external_identity_key :: "external_order \<Rightarrow> string" where
  "external_identity_key x =
     compute_broker_identity_key (xo_environment x) (xo_account_no x) (xo_broker_order_id x)"

definition table_externals :: "external_table \<Rightarrow> external_order list" where
  "table_externals t = List.map_filter (xt_rows t) (xt_ids t)"

definition insert_discovered_external_order ::
    "external_order \<Rightarrow> external_table \<Rightarrow> external_store_error + (external_order \<times> external_table)" where
  "insert_discovered_external_order x t =
     (let k = xo_external_order_id x
      in if xt_rows t k \<noteq> None then Inl DuplicateExternalOrder
         else if list_ex (\<lambda>y. external_identity_key y = external_identity_key x) (table_externals t)
         then Inl DuplicateBrokerOrderDiscovery
         else Inr (x, t\<lparr>xt_ids := xt_ids t @ [k], xt_rows := (xt_rows t)(k \<mapsto> x)\<rparr>))"

definition update_discovered_external_order ::
    "external_order \<Rightarrow> int \<Rightarrow> external_table \<Rightarrow> external_store_error + (external_order \<times> external_table)" where
  "update_discovered_external_order x expected_version t =
     (let k = xo_external_order_id x; x' = x\<lparr>xo_version := expected_version + 1\<rparr>
      in case xt_rows t k of
           None \<Rightarrow> Inl ExternalOrderNotFound
         | Some current \<Rightarrow>
             guarded (first_error
               [(xo_environment current \<noteq> xo_environment x \<or> xo_account_no current \<noteq> xo_account_no x
                   \<or> xo_symbol current \<noteq> xo_symbol x
                   \<or> xo_broker_order_id current \<noteq> xo_broker_order_id x, ExternalImmutableFieldChanged),
                (xo_version current \<noteq> expected_version, ExternalOrderVersionConflict)])
             (Inr (x', t\<lparr>xt_rows := (xt_rows t)(k \<mapsto> x')\<rparr>)))"

definition get_discovered_external_order :: "external_table \<Rightarrow> string \<Rightarrow> external_order option" where
  "get_discovered_external_order t external_id = xt_rows t external_id"

definition get_discovered_external_order_by_broker_id ::
    "external_table \<Rightarrow> string \<Rightarrow> string \<Rightarrow> string \<Rightarrow> external_order option" where
  "get_discovered_external_order_by_broker_id t environment account_no bid =
     List.find (\<lambda>x. external_identity_key x = compute_broker_identity_key environment account_no bid)
       (table_externals t)"

definition list_discovered_external_orders_for_account ::
    "external_table \<Rightarrow> string \<Rightarrow> string \<Rightarrow> external_order list" where
  "list_discovered_external_orders_for_account t environment account_no =
     filter (\<lambda>x. xo_environment x = py_upper environment \<and> xo_account_no x = account_no)
       (table_externals t)"

definition EXTERNAL_TERMINAL_STATUSES :: "execution_order_status set" where
  "EXTERNAL_TERMINAL_STATUSES = {FILLED, CANCELLED, EXPIRED, REJECTED}"

definition is_active_unowned :: "external_order \<Rightarrow> bool" where
  "is_active_unowned x \<longleftrightarrow> xo_disposition x = DISCOVERED_UNOWNED
     \<and> xo_broker_status x \<notin> EXTERNAL_TERMINAL_STATUSES"

definition require_no_active_unowned_external_order ::
    "external_table \<Rightarrow> order_table \<Rightarrow> string \<Rightarrow> string \<Rightarrow> string \<Rightarrow> string \<Rightarrow> external_store_error option" where
  "require_no_active_unowned_external_order xs os environment account_no ticker allowed_id =
     first_error
       [(list_ex (\<lambda>x. xo_environment x = py_upper environment \<and> xo_account_no x = account_no
           \<and> xo_symbol x = py_upper ticker \<and> is_active_unowned x) (table_externals xs),
         ActiveExternalOrderFence),
        (find_active_unlinked_adopted_order os environment account_no ticker allowed_id \<noteq> None,
         ActiveExternalOrderFence)]"

text \<open>Adoption in one transaction: the result is both tables, or an error and neither changed.
  The client order id is drawn by the caller (clock and nonce).\<close>

definition adopt_external_order_in_db ::
    "string \<Rightarrow> string \<Rightarrow> adopted_order_permission set \<Rightarrow> string \<Rightarrow> string \<Rightarrow> timestamp
       \<Rightarrow> external_table \<times> order_table
       \<Rightarrow> external_store_error + (execution_order \<times> external_table \<times> order_table)" where
  "adopt_external_order_in_db external_id adopted_by permissions device client_id now db =
     (case db of (xs, os) \<Rightarrow>
        case get_discovered_external_order xs external_id of
          None \<Rightarrow> Inl ExternalOrderNotFound
        | Some x \<Rightarrow>
            if find_active_execution_order_for_scope os (xo_environment x) (xo_account_no x) (xo_symbol x)
                 \<noteq> None
            then Inl ActiveExecutionOrderAdoptionConflict
            else (case adopt_external_order x adopted_by permissions device client_id now of
                Inl e \<Rightarrow> Inl (AdoptionRefused e)
              | Inr (r, x') \<Rightarrow>
                  (case insert_execution_order r os of
                     Inl e \<Rightarrow> Inl (AdoptionOrderError e)
                   | Inr (_, os') \<Rightarrow>
                       bind_result (update_discovered_external_order x' (xo_version x) xs)
                         (\<lambda>(_, xs'). Inr (r, xs', os')))))"

subsection \<open>The external table as a fenced store\<close>

definition external_version :: "external_table \<Rightarrow> string \<Rightarrow> int option" where
  "external_version t k = map_option xo_version (xt_rows t k)"

definition put_external :: "string \<Rightarrow> int \<Rightarrow> external_order \<Rightarrow> external_table \<Rightarrow> external_table option" where
  "put_external k n x t =
     (case update_discovered_external_order (x\<lparr>xo_external_order_id := k\<rparr>) n t of
        Inl e \<Rightarrow> None | Inr (x', t') \<Rightarrow> Some t')"

definition put_external_content :: "string \<Rightarrow> external_order \<Rightarrow> int \<Rightarrow> external_order" where
  "put_external_content k x m = x\<lparr>xo_external_order_id := k, xo_version := m\<rparr>"

lemma update_external_Inr_iff:
  "update_discovered_external_order x n t = Inr (x', t') \<longleftrightarrow>
     (\<exists>cur. xt_rows t (xo_external_order_id x) = Some cur \<and> xo_version cur = n
        \<and> xo_environment cur = xo_environment x \<and> xo_account_no cur = xo_account_no x
        \<and> xo_symbol cur = xo_symbol x \<and> xo_broker_order_id cur = xo_broker_order_id x)
     \<and> x' = x\<lparr>xo_version := n + 1\<rparr>
     \<and> t' = t\<lparr>xt_rows := (xt_rows t)(xo_external_order_id x \<mapsto> x')\<rparr>"
  by (auto simp: update_discovered_external_order_def Let_def guard_simps split: option.splits)

lemma put_external_Some:
  "put_external k n x t = Some t' \<Longrightarrow> external_version t k = Some n
     \<and> t' = t\<lparr>xt_rows := (xt_rows t)(k \<mapsto> put_external_content k x (n + 1))\<rparr>"
  by (auto simp: put_external_def put_external_content_def external_version_def
      update_external_Inr_iff split: sum.splits)

interpretation externals: fenced_store external_version xt_rows put_external put_external_content
  by standard (auto dest!: put_external_Some simp: external_version_def put_external_content_def)

text \<open>A row is stored under its own id; every row is a constructed external order.\<close>

definition externals_wf :: "external_table \<Rightarrow> bool" where
  "externals_wf t \<longleftrightarrow> distinct (xt_ids t) \<and> set (xt_ids t) = dom (xt_rows t)
     \<and> (\<forall>k x. xt_rows t k = Some x \<longrightarrow> xo_external_order_id x = k
          \<and> py_upper (xo_environment x) = xo_environment x \<and> py_upper (xo_symbol x) = xo_symbol x
          \<and> xo_broker_status x \<in> BROKER_OBSERVABLE_STATUSES)"

subsection \<open>Adoption keeps the fence\<close>

lemma adopt_db_Inr:
  assumes "adopt_external_order_in_db xid actor ps dev cid now (xs, os) = Inr (r, xs', os')"
  obtains x x' where "xt_rows xs xid = Some x"
    "find_active_execution_order_for_scope os (xo_environment x) (xo_account_no x) (xo_symbol x) = None"
    "adopt_external_order x actor ps dev cid now = Inr (r, x')"
    "insert_execution_order r os = Inr (r, os')"
    "update_discovered_external_order x' (xo_version x) xs = Inr (x'\<lparr>xo_version := xo_version x + 1\<rparr>, xs')"
proof -
  from assms obtain x where x: "xt_rows xs xid = Some x"
    and n: "find_active_execution_order_for_scope os (xo_environment x) (xo_account_no x) (xo_symbol x) = None"
    by (auto simp: adopt_external_order_in_db_def get_discovered_external_order_def
        split: option.splits if_splits)
  from assms x n obtain r1 x' where a: "adopt_external_order x actor ps dev cid now = Inr (r1, x')"
    by (auto simp: adopt_external_order_in_db_def get_discovered_external_order_def split: sum.splits)
  from assms x n a obtain o1 where i: "insert_execution_order r1 os = Inr (o1, os')" "r = r1"
    by (auto simp: adopt_external_order_in_db_def get_discovered_external_order_def guard_simps
        split: sum.splits)
  from assms x n a i obtain x2 where u: "update_discovered_external_order x' (xo_version x) xs = Inr (x2, xs')"
    by (auto simp: adopt_external_order_in_db_def get_discovered_external_order_def guard_simps
        split: sum.splits)
  have "o1 = r1" using i(1) by (simp add: insert_order_Inr_iff)
  moreover have "x2 = x'\<lparr>xo_version := xo_version x + 1\<rparr>" using u by (simp add: update_external_Inr_iff)
  ultimately show ?thesis using that x n a i u by simp
qed

lemma adopted_scope:
  assumes "adopt_external_order x actor ps dev cid now = Inr (r, x')"
    "py_upper (xo_environment x) = xo_environment x" "py_upper (xo_symbol x) = xo_symbol x"
  shows "eo_environment r = xo_environment x" "eo_account_no r = xo_account_no x" "eo_symbol r = xo_symbol x"
  using adopt_Inr_cases(3) [OF assms(1)] assms(2,3)
  by (auto simp: execution_order_post_init_def Let_def guarded_Inr_iff adopted_record_def)

text \<open>(C27) Adoption never opens the execution fence. When an external order that is still working
  at the broker is adopted, the transaction stores the local record and closes the external
  row together, and the account and symbol remain fenced for every mutation that does not
  target that very record.\<close>

theorem adoption_keeps_fence:
  assumes "externals_wf xs" "orders_wf os"
    "adopt_external_order_in_db xid actor ps dev cid now (xs, os) = Inr (r, xs', os')"
    "xt_rows xs xid = Some x" "is_active_unowned x"
  shows "get_execution_order os' (eo_client_order_id r) = Some r
    \<and> map_option xo_disposition (get_discovered_external_order xs' xid) = Some DISP_USER_ADOPTED
    \<and> (py_strip allowed_id = eo_client_order_id r
       \<or> require_no_active_unowned_external_order xs' os' (xo_environment x) (xo_account_no x)
           (xo_symbol x) allowed_id = Some ActiveExternalOrderFence)"
proof -
  from assms(3) obtain x1 x' where x1: "xt_rows xs xid = Some x1"
    and a1: "adopt_external_order x1 actor ps dev cid now = Inr (r, x')"
    and i: "insert_execution_order r os = Inr (r, os')"
    and u1: "update_discovered_external_order x' (xo_version x1) xs = Inr (x'\<lparr>xo_version := xo_version x1 + 1\<rparr>, xs')"
    by (rule adopt_db_Inr)
  from x1 assms(4) have "x1 = x" by simp
  note a = a1 [unfolded this] and u = u1 [unfolded this]
  have norm: "py_upper (xo_environment x) = xo_environment x" "py_upper (xo_symbol x) = xo_symbol x"
    "xo_broker_status x \<in> BROKER_OBSERVABLE_STATUSES" "xo_external_order_id x = xid"
    using assms(1,4) by (auto simp: externals_wf_def)
  note facts = adopted_record_facts [OF a] and scope = adopted_scope [OF a norm(1,2)]
  have active: "is_active_order r"
    using facts(5) norm(3) assms(5)
    by (auto simp: is_active_order_def is_active_unowned_def EXTERNAL_TERMINAL_STATUSES_def
        BROKER_OBSERVABLE_STATUSES_def TERMINAL_EXECUTION_ORDER_STATUSES_def)
  have row: "ox_rows os' (eo_client_order_id r) = Some r" using i by (simp add: insert_order_Inr_iff)
  have "r \<in> set (table_orders os')"
    using row table_orders_mem [OF orders_wf_insert [OF assms(2) i]] by simp
  then have fence: "find_active_unlinked_adopted_order os' (xo_environment x) (xo_account_no x)
      (xo_symbol x) allowed_id \<noteq> None" if "py_strip allowed_id \<noteq> eo_client_order_id r"
    using that active facts(2) scope norm(1,2)
    by (auto simp: find_active_unlinked_adopted_order_def Let_def find_None_iff in_order_scope_def)
  have "xt_rows xs' xid = Some (x'\<lparr>xo_version := xo_version x + 1\<rparr>)"
    using u adopt_Inr_cases(4) [OF a] norm(4) by (simp add: update_external_Inr_iff)
  then have "map_option xo_disposition (xt_rows xs' xid) = Some DISP_USER_ADOPTED"
    using adopt_Inr_cases(4) [OF a] by simp
  moreover have "require_no_active_unowned_external_order xs' os' (xo_environment x) (xo_account_no x)
      (xo_symbol x) allowed_id = Some ActiveExternalOrderFence"
    if "py_strip allowed_id \<noteq> eo_client_order_id r"
    using fence [OF that] by (simp add: require_no_active_unowned_external_order_def)
  ultimately show ?thesis
    using row by (auto simp: get_execution_order_def get_discovered_external_order_def)
qed

theorem adoption_keeps_fence_witness:
  "\<exists>r xs' os'. adopt_external_order_in_db ''X1'' ''me'' {CANCEL} [] ''c9'' 7
      (\<lparr>xt_ids = [''X1''], xt_rows = [''X1'' \<mapsto> sample_external]\<rparr>, empty_orders) = Inr (r, xs', os')
    \<and> get_execution_order os' (eo_client_order_id r) = Some r
    \<and> (py_strip [] = eo_client_order_id r
       \<or> require_no_active_unowned_external_order xs' os' ''PROD'' ''1'' ''AAPL'' []
           = Some ActiveExternalOrderFence)"
proof -
  let ?xs = "\<lparr>xt_ids = [''X1''], xt_rows = [''X1'' \<mapsto> sample_external]\<rparr>"
  obtain r x' where a: "adopt_external_order sample_external ''me'' {CANCEL} [] ''c9'' 7 = Inr (r, x')"
    using adopt_sample by blast
  have up: "py_upper ''PROD'' = ''PROD''" "py_upper ''AAPL'' = ''AAPL''" by code_simp+
  have f: "xo_environment sample_external = ''PROD''" "xo_account_no sample_external = ''1''"
    "xo_symbol sample_external = ''AAPL''" "xo_external_order_id sample_external = ''X1''"
    "xo_version sample_external = 1" "xo_disposition sample_external = DISCOVERED_UNOWNED"
    "xo_broker_status sample_external = WORKING" "xo_broker_order_id sample_external = ''B9''"
    by (simp_all add: sample_external_def)
  have w: "externals_wf ?xs"
    using up f by (simp add: externals_wf_def BROKER_OBSERVABLE_STATUSES_def)
  have "validate_consistency r = None" using adopted_record_facts(1) [OF a] by (simp add: order_wf_def)
  then have i: "insert_execution_order r empty_orders
      = Inr (r, \<lparr>ox_ids = [eo_client_order_id r], ox_rows = [eo_client_order_id r \<mapsto> r]\<rparr>)"
    by (simp add: insert_order_Inr_iff empty_orders_def held_by_any_def table_orders_def map_filter_def)
  have x': "x' = sample_external\<lparr>xo_disposition := DISP_USER_ADOPTED, xo_adopted_at := Some 7,
      xo_adopted_by := py_strip ''me''\<rparr>"
    using adopt_Inr_cases(4) [OF a] .
  have "\<exists>xs' os'. adopt_external_order_in_db ''X1'' ''me'' {CANCEL} [] ''c9'' 7 (?xs, empty_orders)
      = Inr (r, xs', os')"
    using a i f x' by (simp add: adopt_external_order_in_db_def get_discovered_external_order_def
        find_active_execution_order_for_scope_def table_orders_def map_filter_def empty_orders_def
        update_discovered_external_order_def Let_def)
  then obtain xs' os' where d: "adopt_external_order_in_db ''X1'' ''me'' {CANCEL} [] ''c9'' 7
      (?xs, empty_orders) = Inr (r, xs', os')" by blast
  have row: "xt_rows ?xs ''X1'' = Some sample_external" by simp
  have act: "is_active_unowned sample_external"
    by (simp add: is_active_unowned_def f EXTERNAL_TERMINAL_STATUSES_def)
  from adoption_keeps_fence [OF w orders_wf_empty d row act, of "[]"] d f show ?thesis by auto
qed

end
