(* ===== verification/Symbol_Keys.thy ===== *)
theory Symbol_Keys
  imports Prelude "HOL-Library.List_Lexorder" "HOL-Library.Char_ord"
begin

text \<open>
  \<open>src/services/kis_ws_symbol_keys.py\<close>: the validated map from symbols to subscription keys, the
  venue a key encodes, its derivation from the broker's symbol master, the edit of the file and
  the hot-reloading store that keeps the last good map. A Python dictionary is an association
  list in insertion order; \<open>dict(sorted(\<dots>))\<close> is a sort by the key. A file is what reading it
  yields: a dictionary of texts or nothing usable.
\<close>

datatype symbol_keys_error =
    InvalidKeySymbol
  | InvalidSubscriptionKey
  | ControlCharacterInKey
  | ConflictingKeys
  | KeySharedBySymbols
  | NoOrderVenue
  | ConflictingMasterRows
  | UnsupportedMasterExchange
  | NotInMaster
  | RefusedReplacement
  | UnreadableFile

subsection \<open>Validation\<close>

definition symbol_char :: "char \<Rightarrow> bool" where
  "symbol_char c \<longleftrightarrow> (let n = (of_char c :: nat) in 65 \<le> n \<and> n \<le> 90 \<or> 48 \<le> n \<and> n \<le> 57)"

definition symbol_pattern :: "string \<Rightarrow> bool" where
  "symbol_pattern s \<longleftrightarrow> (case s of [] \<Rightarrow> False
     | c # rest \<Rightarrow> symbol_char c \<and> length rest \<le> 31
         \<and> list_all (\<lambda>d. symbol_char d \<or> d \<in> set ''._-'') rest)"

definition valid_key :: "string \<Rightarrow> bool" where
  "valid_key key \<longleftrightarrow> key \<noteq> [] \<and> length key \<le> 128 \<and> \<not> list_ex py_space key"

definition has_control :: "string \<Rightarrow> bool" where
  "has_control key \<longleftrightarrow> list_ex (\<lambda>c. (of_char c :: nat) < 32) key"

fun normalize_entries ::
    "(string \<times> string) list \<Rightarrow> (string \<times> string) list \<Rightarrow> (string \<times> string) list
       \<Rightarrow> symbol_keys_error + (string \<times> string) list" where
  "normalize_entries [] normalized key_owners = Inr normalized"
| "normalize_entries ((raw_symbol, raw_key) # rest) normalized key_owners =
     (let ticker = py_upper (py_strip raw_symbol); key = py_strip raw_key
      in guarded (first_error
          [(\<not> symbol_pattern ticker, InvalidKeySymbol),
           (\<not> valid_key key, InvalidSubscriptionKey),
           (has_control key, ControlCharacterInKey),
           (map_of normalized ticker \<notin> {None, Some key}, ConflictingKeys),
           (map_of key_owners key \<notin> {None, Some ticker}, KeySharedBySymbols)])
         (normalize_entries rest (dict_set ticker key normalized) (dict_set key ticker key_owners)))"

definition normalize_symbol_keys ::
    "(string \<times> string) list \<Rightarrow> symbol_keys_error + (string \<times> string) list" where
  "normalize_symbol_keys raw =
     bind_result (normalize_entries raw [] []) (\<lambda>normalized. Inr (sort_key fst normalized))"

subsection \<open>Venues\<close>

definition ORDER_EXCHANGE_BY_PREFIX :: "(string \<times> string) list" where
  "ORDER_EXCHANGE_BY_PREFIX = [(''DAMS'', ''AMEX''), (''DNAS'', ''NASD''), (''DNYS'', ''NYSE'')]"

definition PREFIX_BY_EXCHANGE :: "(string \<times> string) list" where
  "PREFIX_BY_EXCHANGE =
     [(''AMS'', ''DAMS''), (''AMEX'', ''DAMS''), (''NAS'', ''DNAS''), (''NASD'', ''DNAS''),
      (''NASDAQ'', ''DNAS''), (''NYS'', ''DNYS''), (''NYSE'', ''DNYS'')]"

definition order_exchange_from_symbol_key :: "string \<Rightarrow> symbol_keys_error + string" where
  "order_exchange_from_symbol_key symbol_key =
     (let key = py_upper (py_strip symbol_key); prefix = take 4 key
      in case map_of ORDER_EXCHANGE_BY_PREFIX prefix of
           None \<Rightarrow> Inl NoOrderVenue
         | Some exchange \<Rightarrow> if length key \<le> length prefix then Inl NoOrderVenue else Inr exchange)"

text \<open>One row of the symbol master: symbol, broker symbol, exchange.\<close>

record master_row =
  ms_symbol :: string
  ms_kis_symbol :: string
  ms_exchange :: string

definition lookup_form :: "string \<Rightarrow> string" where
  "lookup_form s = map (\<lambda>c. if c = CHR ''/'' \<or> c = CHR ''.'' then CHR ''-'' else c) s"

definition row_matches :: "string \<Rightarrow> master_row \<Rightarrow> bool" where
  "row_matches ticker row \<longleftrightarrow>
     lookup_form (py_upper (py_strip (ms_symbol row))) = lookup_form ticker"

fun master_candidates ::
    "string \<Rightarrow> master_row list \<Rightarrow> symbol_keys_error + string set" where
  "master_candidates ticker [] = Inr {}"
| "master_candidates ticker (row # rows) =
     (let kis = py_upper (py_strip (ms_kis_symbol row));
          prefix = map_of PREFIX_BY_EXCHANGE (py_upper (py_strip (ms_exchange row)))
      in if \<not> row_matches ticker row \<or> kis = [] then master_candidates ticker rows
         else case prefix of
                None \<Rightarrow> master_candidates ticker rows
              | Some p \<Rightarrow>
                  bind_result (normalize_symbol_keys [(ticker, p @ kis)]) (\<lambda>normalized.
                  bind_result (master_candidates ticker rows) (\<lambda>matches.
                    Inr (insert (the (map_of normalized ticker)) matches))))"

definition derive_symbol_key_from_kis_master :: "string \<Rightarrow> master_row list \<Rightarrow> symbol_keys_error + string" where
  "derive_symbol_key_from_kis_master raw_symbol rows =
     (let ticker = py_upper (py_strip raw_symbol)
      in if \<not> symbol_pattern ticker then Inl InvalidKeySymbol
         else bind_result (master_candidates ticker rows) (\<lambda>matches.
           if card matches = 1 then Inr (the_elem matches)
           else if 1 < card matches then Inl ConflictingMasterRows
           else if list_ex (row_matches ticker) rows then Inl UnsupportedMasterExchange
           else Inl NotInMaster))"

subsection \<open>Editing the file\<close>

fun apply_set_values ::
    "bool \<Rightarrow> (string \<times> string) list \<Rightarrow> (string \<times> string) list \<Rightarrow> symbol_keys_error + (string \<times> string) list" where
  "apply_set_values refuse [] updated = Inr updated"
| "apply_set_values refuse ((s, k) # rest) updated =
     bind_result (normalize_symbol_keys [(s, k)]) (\<lambda>pair.
       case pair of
         [] \<Rightarrow> apply_set_values refuse rest updated
       | (ticker, key) # _ \<Rightarrow>
           if refuse \<and> map_of updated ticker \<notin> {None, Some key} then Inl RefusedReplacement
           else apply_set_values refuse rest (dict_set ticker key updated))"

definition dict_pop :: "'k \<Rightarrow> ('k \<times> 'v) list \<Rightarrow> ('k \<times> 'v) list" where
  "dict_pop k d = filter (\<lambda>(j, v). j \<noteq> k) d"

fun apply_removals ::
    "string list \<Rightarrow> (string \<times> string) list \<Rightarrow> symbol_keys_error + (string \<times> string) list" where
  "apply_removals [] updated = Inr updated"
| "apply_removals (s # rest) updated =
     (let ticker = py_upper (py_strip s)
      in if \<not> symbol_pattern ticker then Inl InvalidKeySymbol
         else apply_removals rest (dict_pop ticker updated))"

text \<open>The file before the edit: \<open>None\<close> when it does not exist, else what its dictionary holds.\<close>

definition update_symbol_keys_file ::
    "bool \<Rightarrow> (string \<times> string) list \<Rightarrow> string list \<Rightarrow> (string \<times> string) list option
       \<Rightarrow> symbol_keys_error + (string \<times> string) list" where
  "update_symbol_keys_file refuse set_values remove_symbols file =
     bind_result (case file of None \<Rightarrow> Inr [] | Some raw \<Rightarrow> normalize_symbol_keys raw) (\<lambda>current.
     bind_result (apply_set_values refuse set_values current) (\<lambda>updated.
     bind_result (apply_removals remove_symbols updated) normalize_symbol_keys))"

subsection \<open>The store\<close>

datatype key_source = KEYS_UNINITIALIZED | KEYS_EMPTY | KEYS_FILE

text \<open>\<open>ks_error\<close> is whether an error message is held. A signature stands for the triple of times
  and size the file system reports.\<close>

record 'sig key_store =
  ks_keys :: "(string \<times> string) list"
  ks_source :: key_source
  ks_generation :: int
  ks_initialized :: bool
  ks_loaded_signature :: "'sig option"
  ks_failed_signature :: "'sig option"
  ks_error :: bool
  ks_missing_after_load :: bool

definition empty_key_store :: "'sig key_store" where
  "empty_key_store = \<lparr>ks_keys = [], ks_source = KEYS_UNINITIALIZED, ks_generation = 0,
     ks_initialized = False, ks_loaded_signature = None, ks_failed_signature = None,
     ks_error = False, ks_missing_after_load = False\<rparr>"

text \<open>What one inspection of the file system sees: an error, no file, or a file with a signature
  and what reading it yields.\<close>

datatype 'sig file_view =
    FileInaccessible
  | FileMissing
  | FileSeen 'sig "symbol_keys_error + (string \<times> string) list"

definition install_keys :: "(string \<times> string) list \<Rightarrow> key_source \<Rightarrow> 'sig key_store \<Rightarrow> 'sig key_store" where
  "install_keys keys source s =
     (case normalize_symbol_keys keys of
        Inl e \<Rightarrow> s
      | Inr normalized \<Rightarrow>
          (let changed = (set normalized \<noteq> set (ks_keys s) \<or> source \<noteq> ks_source s \<or> \<not> ks_initialized s)
           in s\<lparr>ks_keys := normalized, ks_source := source, ks_initialized := True, ks_error := False,
                ks_failed_signature := None, ks_missing_after_load := False,
                ks_generation := (if changed then ks_generation s + 1 else ks_generation s)\<rparr>))"

definition note_error :: "'sig option \<Rightarrow> 'sig key_store \<Rightarrow> 'sig key_store" where
  "note_error signature s =
     s\<lparr>ks_error := True, ks_failed_signature := signature, ks_initialized := True\<rparr>"

definition refresh_if_changed :: "'sig file_view \<Rightarrow> 'sig key_store \<Rightarrow> 'sig key_store" where
  "refresh_if_changed view s =
     (case view of
        FileInaccessible \<Rightarrow> note_error None s
      | FileMissing \<Rightarrow>
          if \<not> ks_initialized s then install_keys [] KEYS_EMPTY s
          else if ks_source s = KEYS_FILE \<and> \<not> ks_missing_after_load s
          then note_error None (s\<lparr>ks_missing_after_load := True\<rparr>)
          else s
      | FileSeen signature content \<Rightarrow>
          if ks_source s = KEYS_FILE \<and> ks_loaded_signature s = Some signature \<and> \<not> ks_error s then s
          else if ks_failed_signature s = Some signature then s
          else (case bind_result content normalize_symbol_keys of
                  Inl e \<Rightarrow> note_error (Some signature) s
                | Inr keys \<Rightarrow> (install_keys keys KEYS_FILE s)\<lparr>ks_loaded_signature := Some signature\<rparr>))"

text \<open>\<open>resolve\<close> without auto-provisioning: the key, or the \<open>RuntimeError\<close> of an unknown symbol.\<close>

definition resolve_key :: "'sig file_view \<Rightarrow> string \<Rightarrow> 'sig key_store \<Rightarrow> string option \<times> 'sig key_store" where
  "resolve_key view raw_symbol s =
     (let s' = refresh_if_changed view s;
          key = py_strip (case map_of (ks_keys s') (py_upper (py_strip raw_symbol)) of
                  None \<Rightarrow> [] | Some k \<Rightarrow> k)
      in (if key = [] then None else Some key, s'))"

subsection \<open>Normal form and round trip\<close>

definition entry_normal :: "string \<times> string \<Rightarrow> bool" where
  "entry_normal e \<longleftrightarrow> (case e of (s, k) \<Rightarrow> py_upper (py_strip s) = s \<and> symbol_pattern s
     \<and> py_strip k = k \<and> valid_key k \<and> \<not> has_control k)"

definition keys_normal :: "(string \<times> string) list \<Rightarrow> bool" where
  "keys_normal d \<longleftrightarrow> distinct (map fst d) \<and> distinct (map snd d) \<and> list_all entry_normal d"

abbreviation swap_entries :: "(string \<times> string) list \<Rightarrow> (string \<times> string) list" where
  "swap_entries d \<equiv> map (\<lambda>(s, k). (k, s)) d"

lemma dict_set_fresh: "k \<notin> fst ` set d \<Longrightarrow> dict_set k v d = d @ [(k, v)]"
  by (induction k v d rule: dict_set.induct) auto

lemma dict_set_same: "distinct (map fst d) \<Longrightarrow> map_of d k = Some v \<Longrightarrow> dict_set k v d = d"
proof (induction k v d rule: dict_set.induct)
  case (2 k v j w d)
  then show ?case by (auto simp: dom_def)
qed simp

lemma map_of_swap:
  "distinct (map snd d) \<Longrightarrow> distinct (map fst d) \<Longrightarrow> map_of (swap_entries d) k = Some s \<longleftrightarrow> map_of d s = Some k"
proof -
  assume d: "distinct (map snd d)" "distinct (map fst d)"
  have "map fst (swap_entries d) = map snd d" by (simp add: case_prod_unfold comp_def)
  with d have "distinct (map fst (swap_entries d))" by metis
  then have "map_of (swap_entries d) k = Some s \<longleftrightarrow> (k, s) \<in> set (swap_entries d)" by simp
  also have "\<dots> \<longleftrightarrow> (s, k) \<in> set d" by auto
  finally show ?thesis using d(2) by simp
qed

text \<open>One entry that passes the checks either repeats a pair or extends both dictionaries.\<close>

lemma normalize_step:
  assumes "keys_normal d" "map_of d t \<in> {None, Some k}" "map_of (swap_entries d) k \<in> {None, Some t}"
    "entry_normal (t, k)"
  shows "\<exists>d'. dict_set t k d = d' \<and> dict_set k t (swap_entries d) = swap_entries d' \<and> keys_normal d'"
proof (cases "map_of d t")
  case None
  have k: "map_of (swap_entries d) k = None"
    using assms(1,3) None map_of_swap [of d k t] by (auto simp: keys_normal_def)
  have f: "t \<notin> fst ` set d" "k \<notin> fst ` set (swap_entries d)"
    using None k by (simp_all add: map_of_eq_None_iff)
  then have "k \<notin> snd ` set d" by force
  with f assms(1,4) show ?thesis
    by (simp add: dict_set_fresh keys_normal_def case_prod_unfold)
next
  case (Some k')
  with assms(2) have s: "map_of d t = Some k" by simp
  moreover have n: "distinct (map fst d)" "distinct (map snd d)" using assms(1) by (simp_all add: keys_normal_def)
  ultimately have "map_of (swap_entries d) k = Some t" using map_of_swap [of d k t] by blast
  moreover have "map fst (swap_entries d) = map snd d" by (simp add: case_prod_unfold comp_def)
  then have "distinct (map fst (swap_entries d))" using n(2) by metis
  ultimately show ?thesis using s n(1) assms(1) by (simp add: dict_set_same)
qed

lemma normalize_entries_normal:
  "normalize_entries raw d (swap_entries d) = Inr d' \<Longrightarrow> keys_normal d \<Longrightarrow> keys_normal d'"
proof (induction raw arbitrary: d)
  case (Cons e raw)
  obtain s k where e: "e = (s, k)" by (cases e)
  let ?t = "py_upper (py_strip s)" and ?k = "py_strip k"
  from Cons.prems(1) have c: "symbol_pattern ?t" "valid_key ?k" "\<not> has_control ?k"
    "map_of d ?t \<in> {None, Some ?k}" "map_of (swap_entries d) ?k \<in> {None, Some ?t}"
    "normalize_entries raw (dict_set ?t ?k d) (dict_set ?k ?t (swap_entries d)) = Inr d'"
    by (simp_all add: e Let_def guarded_Inr_iff del: insert_iff split: if_splits)
  have n: "entry_normal (?t, ?k)" using c(1-3) by (simp add: entry_normal_def py_strip_upper)
  from normalize_step [OF Cons.prems(2) c(4,5) n] c(6) Cons.IH show ?case by metis
qed simp

lemma normalize_entries_id:
  "keys_normal (d @ raw) \<Longrightarrow> normalize_entries raw d (swap_entries d) = Inr (d @ raw)"
proof (induction raw arbitrary: d)
  case (Cons e raw)
  obtain s k where e: "e = (s, k)" by (cases e)
  from Cons.prems have n: "entry_normal (s, k)" "s \<notin> fst ` set d" "k \<notin> snd ` set d"
    by (auto simp: e keys_normal_def)
  then have f: "map_of d s = None" "map_of (swap_entries d) k = None" "k \<notin> fst ` set (swap_entries d)"
    by (simp_all add: map_of_eq_None_iff) force+
  have "keys_normal ((d @ [(s, k)]) @ raw)" using Cons.prems by (simp add: e)
  from Cons.IH [OF this] n f show ?case
    by (simp add: e Let_def entry_normal_def dict_set_fresh)
qed simp

lemma keys_normal_sort: "keys_normal (sort_key fst d) = keys_normal d"
proof -
  have "distinct (map f (sort_key fst d)) = distinct (map f d)" for f :: "string \<times> string \<Rightarrow> string"
    by (simp add: distinct_map)
  then show ?thesis by (simp add: keys_normal_def list_all_iff)
qed

lemma normalize_Inr:
  assumes "normalize_symbol_keys raw = Inr d" shows "keys_normal d \<and> sorted (map fst d)"
proof -
  obtain n where n: "normalize_entries raw [] [] = Inr n" "d = sort_key fst n"
    using assms by (auto simp: normalize_symbol_keys_def bind_result_Inr_iff)
  have "keys_normal n" using normalize_entries_normal [of raw "[]" n] n(1) by (simp add: keys_normal_def)
  with n(2) show ?thesis by (simp add: keys_normal_sort)
qed

lemma normalize_id: "keys_normal d \<Longrightarrow> normalize_symbol_keys d = Inr (sort_key fst d)"
  using normalize_entries_id [of "[]" d] by (simp add: normalize_symbol_keys_def)

lemma key_file_roundtrip_lemma:
  "normalize_symbol_keys raw = Inr d \<Longrightarrow> normalize_symbol_keys d = Inr d"
  using normalize_Inr [of raw d] by (simp add: normalize_id sort_key_id_if_sorted)

text \<open>A key file written by the program reads back unchanged. Whatever dictionary was
  validated, its normal form passes the validation again and is its own normal form; it has no
  symbol twice, no key for two symbols, and every entry satisfies the syntax rules.\<close>

theorem key_file_roundtrip:
  assumes "normalize_symbol_keys raw = Inr d"
  shows "normalize_symbol_keys d = Inr d \<and> keys_normal d"
  using normalize_Inr [OF assms] key_file_roundtrip_lemma [OF assms] by blast

definition sample_keys :: "(string \<times> string) list" where
  "sample_keys = [(''msft'', ''DNASMSFT''), ('' AAPL '', ''DNASAAPL'')]"

lemma sample_keys_normal:
  "normalize_symbol_keys sample_keys = Inr [(''AAPL'', ''DNASAAPL''), (''MSFT'', ''DNASMSFT'')]"
  unfolding sample_keys_def by code_simp

theorem key_file_roundtrip_witness:
  "normalize_symbol_keys [(''AAPL'', ''DNASAAPL''), (''MSFT'', ''DNASMSFT'')]
    = Inr [(''AAPL'', ''DNASAAPL''), (''MSFT'', ''DNASMSFT'')]"
  using key_file_roundtrip [OF sample_keys_normal] by blast

subsection \<open>Derived keys\<close>

lemma normalize_single:
  assumes "normalize_symbol_keys [(s, k)] = Inr d"
  shows "d = [(py_upper (py_strip s), py_strip k)]"
  using assms by (auto simp: normalize_symbol_keys_def Let_def guarded_Inr_iff split: if_splits)

lemma prefix_no_space: "map_of PREFIX_BY_EXCHANGE x = Some p \<Longrightarrow>
    p \<in> {''DAMS'', ''DNAS'', ''DNYS''}"
  by (auto simp: PREFIX_BY_EXCHANGE_def split: if_splits)

lemma py_strip_append:
  "a \<noteq> [] \<Longrightarrow> \<not> py_space (hd a) \<Longrightarrow> b \<noteq> [] \<Longrightarrow> \<not> py_space (last b) \<Longrightarrow> py_strip (a @ b) = a @ b"
proof -
  assume h: "a \<noteq> []" "\<not> py_space (hd a)" "b \<noteq> []" "\<not> py_space (last b)"
  then have "dropWhile py_space (a @ b) = a @ b" by (cases a) auto
  moreover have "dropWhile py_space (rev (a @ b)) = rev (a @ b)"
    using h(3,4) by (cases b rule: rev_cases) auto
  ultimately show ?thesis by (simp add: py_strip_def)
qed

lemma py_strip_last: "py_strip s \<noteq> [] \<Longrightarrow> \<not> py_space (last (py_strip s))"
  unfolding py_strip_def using hd_dropWhile [of py_space "rev (dropWhile py_space s)"]
  by (simp add: last_rev)

text \<open>A candidate is prefix and broker symbol of some matching row.\<close>

definition row_key :: "master_row \<Rightarrow> string option" where
  "row_key row = (if py_upper (py_strip (ms_kis_symbol row)) = [] then None
     else map_option (\<lambda>p. p @ py_upper (py_strip (ms_kis_symbol row)))
            (map_of PREFIX_BY_EXCHANGE (py_upper (py_strip (ms_exchange row)))))"

lemma prefixed_key_strip:
  assumes "p \<in> {''DAMS'', ''DNAS'', ''DNYS''}" "py_upper (py_strip s) \<noteq> []"
  shows "py_strip (p @ py_upper (py_strip s)) = p @ py_upper (py_strip s)"
proof (rule py_strip_append)
  show "p \<noteq> []" "\<not> py_space (hd p)" using assms(1) by (auto simp: py_space_def)
  show "py_upper (py_strip s) \<noteq> []" by (rule assms(2))
  show "\<not> py_space (last (py_upper (py_strip s)))"
    using py_strip_last [of "py_upper s"] assms(2) by (simp add: py_strip_upper)
qed

lemma master_candidates_rows:
  "master_candidates t rows = Inr ks \<Longrightarrow> py_upper (py_strip t) = t \<Longrightarrow>
     ks = {k. \<exists>row \<in> set rows. row_matches t row \<and> row_key row = Some k}"
proof (induction rows arbitrary: ks)
  case (Cons row rows)
  let ?kis = "py_upper (py_strip (ms_kis_symbol row))"
  show ?case
  proof (cases "row_matches t row \<and> row_key row \<noteq> None")
    case False
    then have "master_candidates t rows = Inr ks"
      using Cons.prems(1) by (auto simp: Let_def row_key_def split: if_splits option.splits)
    from Cons.IH [OF this Cons.prems(2)] False show ?thesis by auto
  next
    case True
    then obtain p where p: "map_of PREFIX_BY_EXCHANGE (py_upper (py_strip (ms_exchange row))) = Some p"
      "?kis \<noteq> []" "row_key row = Some (p @ ?kis)" by (auto simp: row_key_def split: if_splits)
    with True Cons.prems(1) obtain d ks' where d: "normalize_symbol_keys [(t, p @ ?kis)] = Inr d"
      "master_candidates t rows = Inr ks'" "ks = insert (the (map_of d t)) ks'"
      by (auto simp: Let_def bind_result_Inr_iff)
    have "the (map_of d t) = p @ ?kis"
      using normalize_single [OF d(1)] Cons.prems(2)
        prefixed_key_strip [OF prefix_no_space [OF p(1)] p(2)] by simp
    with Cons.IH [OF d(2) Cons.prems(2)] d(3) p(3) True show ?thesis by auto
  qed
qed simp

text \<open>The venue survives the key. A key derived from the symbol master comes from a row of
  the requested symbol, and the order venue read back from the key is the venue of that row's
  exchange, so an order is never sent to another exchange than the one the master lists.\<close>

theorem derived_key_venue:
  assumes "derive_symbol_key_from_kis_master raw rows = Inr key"
  shows "\<exists>row \<in> set rows. row_matches (py_upper (py_strip raw)) row \<and> row_key row = Some key
    \<and> (\<exists>venue. order_exchange_from_symbol_key key = Inr venue
         \<and> map_of PREFIX_BY_EXCHANGE venue
            = map_of PREFIX_BY_EXCHANGE (py_upper (py_strip (ms_exchange row))))"
proof -
  let ?t = "py_upper (py_strip raw)"
  obtain ks where ks: "master_candidates ?t rows = Inr ks" "card ks = 1" "key = the_elem ks"
    using assms by (auto simp: derive_symbol_key_from_kis_master_def Let_def bind_result_Inr_iff split: if_splits)
  have "py_upper (py_strip ?t) = ?t" by (simp add: py_strip_upper)
  from master_candidates_rows [OF ks(1) this] ks(2,3)
  have "key \<in> {k. \<exists>row \<in> set rows. row_matches ?t row \<and> row_key row = Some k}"
    by (metis card_1_singletonE insertI1 the_elem_eq)
  then obtain row where row: "row \<in> set rows" "row_matches ?t row" "row_key row = Some key" by blast
  let ?kis = "py_upper (py_strip (ms_kis_symbol row))"
  from row(3) obtain p where p: "map_of PREFIX_BY_EXCHANGE (py_upper (py_strip (ms_exchange row))) = Some p"
    "?kis \<noteq> []" "key = p @ ?kis" by (auto simp: row_key_def split: if_splits)
  note c = prefix_no_space [OF p(1)]
  have u: "py_upper p = p" using c by (elim insertE emptyE; simp; code_simp)
  have key: "py_upper (py_strip key) = key"
    using prefixed_key_strip [OF c p(2)] u by (simp add: p(3) py_upper_def)
  have "length p = 4" using c by auto
  then have "take 4 key = p" "4 < length key" using p(2,3) by simp_all
  moreover have "\<exists>venue. map_of ORDER_EXCHANGE_BY_PREFIX p = Some venue \<and> map_of PREFIX_BY_EXCHANGE venue = Some p"
    using c by (auto simp: ORDER_EXCHANGE_BY_PREFIX_def PREFIX_BY_EXCHANGE_def)
  ultimately show ?thesis
    using row p(1) key by (intro bexI [of _ row]) (auto simp: order_exchange_from_symbol_key_def Let_def)
qed

definition sample_master :: "master_row list" where
  "sample_master = [\<lparr>ms_symbol = ''BRK-B'', ms_kis_symbol = ''BRK/B'', ms_exchange = ''NYSE''\<rparr>]"

lemma sample_derived: "derive_symbol_key_from_kis_master ''brk.b'' sample_master = Inr ''DNYSBRK/B''"
  unfolding sample_master_def by code_simp

theorem derived_key_venue_witness:
  "derive_symbol_key_from_kis_master ''brk.b'' sample_master = Inr ''DNYSBRK/B''
    \<and> (\<exists>venue. order_exchange_from_symbol_key ''DNYSBRK/B'' = Inr venue)"
  using derived_key_venue [OF sample_derived] sample_derived by blast

subsection \<open>Edits\<close>

lemma map_of_sort_key: "distinct (map fst d) \<Longrightarrow> map_of (sort_key fst d) = map_of d"
  by (rule map_of_eqI) (auto simp: distinct_map map_of_eq_Some_iff)

lemma apply_set_values_step:
  assumes "apply_set_values refuse ((s, k) # sets) d = Inr d'"
  shows "apply_set_values refuse sets (dict_set (py_upper (py_strip s)) (py_strip k) d) = Inr d'"
    "entry_normal (py_upper (py_strip s), py_strip k)"
    "refuse \<Longrightarrow> map_of d (py_upper (py_strip s)) \<in> {None, Some (py_strip k)}"
proof -
  from assms obtain pair where p: "normalize_symbol_keys [(s, k)] = Inr pair"
    by (auto simp: bind_result_Inr_iff)
  note q = normalize_single [OF p]
  from normalize_Inr [OF p] q show "entry_normal (py_upper (py_strip s), py_strip k)"
    by (simp add: keys_normal_def)
  from assms p q show "apply_set_values refuse sets (dict_set (py_upper (py_strip s)) (py_strip k) d) = Inr d'"
    "refuse \<Longrightarrow> map_of d (py_upper (py_strip s)) \<in> {None, Some (py_strip k)}"
    by (simp_all del: insert_iff split: if_splits)
qed

lemma list_all_dict_set: "list_all P d \<Longrightarrow> P (k, v) \<Longrightarrow> list_all P (dict_set k v d)"
  by (induction k v d rule: dict_set.induct) auto

lemma apply_set_values_extends:
  assumes "apply_set_values True sets d = Inr d'" "distinct (map fst d)" "list_all entry_normal d"
  shows "map_of d \<subseteq>\<^sub>m map_of d' \<and> distinct (map fst d') \<and> list_all entry_normal d'"
  using assms
proof (induction sets arbitrary: d)
  case (Cons e sets)
  obtain s k where e: "e = (s, k)" by (cases e)
  let ?t = "py_upper (py_strip s)" and ?k = "py_strip k"
  note step = apply_set_values_step [OF Cons.prems(1) [unfolded e]]
  have "distinct (map fst (dict_set ?t ?k d))" "list_all entry_normal (dict_set ?t ?k d)"
    using Cons.prems(2,3) step(2) by (simp_all add: distinct_dict_set list_all_dict_set)
  from Cons.IH [OF step(1) this]
  have ih: "map_of (dict_set ?t ?k d) \<subseteq>\<^sub>m map_of d' \<and> distinct (map fst d') \<and> list_all entry_normal d'" .
  have "map_of d \<subseteq>\<^sub>m map_of (dict_set ?t ?k d)"
    using step(3) by (auto simp: map_of_dict_set map_le_def)
  with ih show ?case using map_le_trans by blast
qed simp

text \<open>Validating entries that are already in normal form keeps them, whatever it accepts.\<close>

lemma normalize_entries_keep:
  "normalize_entries raw d owners = Inr d' \<Longrightarrow> distinct (map fst (d @ raw)) \<Longrightarrow> list_all entry_normal raw \<Longrightarrow>
     d' = d @ raw"
proof (induction raw arbitrary: d owners)
  case (Cons e raw)
  obtain s k where e: "e = (s, k)" by (cases e)
  from Cons.prems(3) have n: "py_upper (py_strip s) = s" "py_strip k = k" by (simp_all add: e entry_normal_def)
  from Cons.prems(2) have "s \<notin> fst ` set d" by (auto simp: e)
  then have "normalize_entries raw (d @ [(s, k)]) (dict_set k s owners) = Inr d'"
    using Cons.prems(1) n by (simp add: e Let_def guarded_Inr_iff dict_set_fresh)
  with Cons.IH [of "d @ [(s, k)]"] Cons.prems(2,3) show ?case by (simp add: e)
qed simp

text \<open>Provisioning never replaces a verified key. An edit that refuses conflicts and removes
  nothing either fails, leaving the file alone, or writes a valid map in which every symbol of
  the old file still has the key it had.\<close>

theorem provisioning_keeps_keys:
  assumes "update_symbol_keys_file True set_values [] (Some raw) = Inr d" "normalize_symbol_keys raw = Inr current"
  shows "map_of current \<subseteq>\<^sub>m map_of d \<and> keys_normal d"
proof -
  from assms obtain u where u: "apply_set_values True set_values current = Inr u" "normalize_symbol_keys u = Inr d"
    by (auto simp: update_symbol_keys_file_def bind_result_Inr_iff)
  have n: "keys_normal current" "keys_normal d" using normalize_Inr assms(2) u(2) by blast+
  then have e: "map_of current \<subseteq>\<^sub>m map_of u" "distinct (map fst u)" "list_all entry_normal u"
    using apply_set_values_extends [OF u(1)] by (simp_all add: keys_normal_def)
  from u(2) obtain v where "normalize_entries u [] [] = Inr v" "d = sort_key fst v"
    by (auto simp: normalize_symbol_keys_def bind_result_Inr_iff)
  moreover from normalize_entries_keep [OF this(1)] e(2,3) have "v = u" by simp
  ultimately have "map_of d = map_of u" using e(2) by (simp add: map_of_sort_key)
  with e(1) n(2) show ?thesis by simp
qed

lemma sample_update:
  "update_symbol_keys_file True [(''nvda'', ''DNASNVDA'')] [] (Some sample_keys)
    = Inr [(''AAPL'', ''DNASAAPL''), (''MSFT'', ''DNASMSFT''), (''NVDA'', ''DNASNVDA'')]"
  unfolding sample_keys_def by code_simp

theorem provisioning_keeps_keys_witness:
  "map_of [(''AAPL'', ''DNASAAPL''), (''MSFT'', ''DNASMSFT'')]
    \<subseteq>\<^sub>m map_of [(''AAPL'', ''DNASAAPL''), (''MSFT'', ''DNASMSFT''), (''NVDA'', ''DNASNVDA'')]"
  using provisioning_keeps_keys [OF sample_update sample_keys_normal] by blast

subsection \<open>The last known good map\<close>

definition good_content :: "'sig file_view list \<Rightarrow> (string \<times> string) list \<Rightarrow> bool" where
  "good_content views d \<longleftrightarrow>
     (\<exists>signature raw. FileSeen signature (Inr raw) \<in> set views \<and> normalize_symbol_keys raw = Inr d)"

lemma install_good:
  "normalize_symbol_keys keys = Inr d \<Longrightarrow> ks_keys (install_keys keys source s) = d"
  by (simp add: install_keys_def Let_def)

lemma refresh_keys:
  "ks_keys (refresh_if_changed view s) = ks_keys s
   \<or> ks_keys (refresh_if_changed view s) = [] \<and> \<not> ks_initialized s
   \<or> good_content [view] (ks_keys (refresh_if_changed view s))"
proof (cases view)
  case (FileSeen signature content)
  show ?thesis
  proof (cases "bind_result content normalize_symbol_keys")
    case (Inr keys)
    then obtain raw where raw: "content = Inr raw" "normalize_symbol_keys raw = Inr keys"
      by (auto simp: bind_result_Inr_iff)
    have "ks_keys (install_keys keys KEYS_FILE s) = keys"
      using key_file_roundtrip_lemma [OF raw(2)] by (rule install_good)
    with FileSeen raw show ?thesis by (auto simp: refresh_if_changed_def good_content_def)
  qed (auto simp: FileSeen refresh_if_changed_def note_error_def)
qed (auto simp: refresh_if_changed_def note_error_def install_keys_def normalize_symbol_keys_def Let_def)

lemma uninitialized_empty:
  "ks_initialized s \<or> ks_keys s = [] \<Longrightarrow>
     ks_initialized (refresh_if_changed view s) \<or> ks_keys (refresh_if_changed view s) = []"
  by (cases view) (auto simp: refresh_if_changed_def note_error_def install_keys_def Let_def
      split: sum.splits)

text \<open>The feed never runs on an unvalidated map. After any sequence of looks at the file,
  whatever failed, vanished or was half written in between, the keys in use are the empty map
  or exactly the validated content of some file the store has read; a look that finds nothing
  valid leaves the keys in use as they are.\<close>

theorem last_known_good:
  fixes views :: "'sig file_view list"
  shows "let s = fold refresh_if_changed views empty_key_store in
      (ks_keys s \<in> {[]} \<union> Collect (good_content views))
    \<and> (case view of FileSeen signature content \<Rightarrow>
           (case bind_result content normalize_symbol_keys of
              Inl e \<Rightarrow> ks_keys (refresh_if_changed view s) = ks_keys s | Inr d \<Rightarrow> True)
         | _ \<Rightarrow> ks_keys (refresh_if_changed view s) = ks_keys s)"
proof -
  let ?s = "fold refresh_if_changed views empty_key_store"
  have inv: "(ks_initialized s \<or> ks_keys s = []) \<and> ks_keys s \<in> {[]} \<union> Collect (good_content views)"
    if "s = fold refresh_if_changed views empty_key_store" for s and views :: "'sig file_view list"
    using that
  proof (induction views arbitrary: s rule: rev_induct)
    case Nil
    then show ?case by (simp add: empty_key_store_def)
  next
    case (snoc v views)
    let ?p = "fold refresh_if_changed views empty_key_store"
    from snoc.IH [OF refl] have ih: "ks_initialized ?p \<or> ks_keys ?p = []"
      "ks_keys ?p \<in> {[]} \<union> Collect (good_content views)" by blast+
    have w: "good_content [v] d \<or> good_content views d \<Longrightarrow> good_content (views @ [v]) d" for d
      by (auto simp: good_content_def)
    have "ks_keys s \<in> {[]} \<union> Collect (good_content (views @ [v]))"
      using refresh_keys [of v ?p] ih(2) w snoc.prems by auto
    moreover have "ks_initialized s \<or> ks_keys s = []"
      using uninitialized_empty [OF ih(1), of v] snoc.prems by simp
    ultimately show ?case by blast
  qed
  from inv [OF refl, of views] have i: "ks_initialized ?s \<or> ks_keys ?s = []"
    "ks_keys ?s \<in> {[]} \<union> Collect (good_content views)" by blast+
  have "case view of FileSeen signature content \<Rightarrow>
           (case bind_result content normalize_symbol_keys of
              Inl e \<Rightarrow> ks_keys (refresh_if_changed view ?s) = ks_keys ?s | Inr d \<Rightarrow> True)
         | _ \<Rightarrow> ks_keys (refresh_if_changed view ?s) = ks_keys ?s"
    using i(1) by (cases view) (auto simp: refresh_if_changed_def note_error_def install_keys_def
        normalize_symbol_keys_def Let_def split: sum.splits)
  with i(2) show ?thesis by (simp add: Let_def)
qed

end
