(* ===== verification/Board_Command.thy ===== *)
theory Board_Command
  imports Card_Store Ownership External_Store Market_Calendar Symbol_Keys
begin

text \<open>
  The requests a board gesture sends and the guards every request passes before anything is
  written: \<open>src/core/board_workflow.py\<close>, \<open>src/core/entry_monitoring_command.py\<close>,
  \<open>src/core/stop_change_command.py\<close> and the guards of
  \<open>src/services/execution_workflow_service.py\<close>. A message of the code is a constructor of the
  datatype of its exception class.
\<close>

subsection \<open>Requests\<close>

text \<open>The subclasses of \<open>BoardCommand\<close> with the fields they add.\<close>

datatype board_request =
    MoveToWatchlist
  | RemoveFromBuylist
  | MoveToBuylist
  | ActivateForToday string
  | CancelEntry
  | RequestPartialSell int
  | CancelPartialSell
  | RequestSellAll
  | CancelQueuedSellAll
  | SetOrbStop
  | SetBreakevenStop
  | SetManualStop pyfloat
  | SetBreakoutPrice pyfloat pyfloat
  | ClearBreakoutPrice
  | ReorderCard int
  | AdoptExternalOrder string string

record board_command =
  bc_environment :: string
  bc_account_no :: string
  bc_symbol :: string
  bc_expected_card_version :: int
  bc_command_id :: string
  bc_requested_at :: timestamp
  bc_expected_readiness_generation :: int
  bc_expected_ownership_version :: int
  bc_expected_execution_owner :: string
  bc_expected_strategy_instance_id :: string
  bc_request :: board_request

definition board_command_post_init :: "board_command \<Rightarrow> board_command" where
  "board_command_post_init m =
     m\<lparr>bc_environment := py_upper (bc_environment m),
       bc_symbol := py_upper (bc_symbol m),
       bc_expected_execution_owner := py_upper (bc_expected_execution_owner m),
       bc_request := (case bc_request m of
          ActivateForToday key \<Rightarrow> ActivateForToday (py_strip key) | r \<Rightarrow> r)\<rparr>"

record board_action_context =
  bx_enforce_runtime_fences :: bool
  bx_engine_enabled :: bool
  bx_readiness_generation :: int
  bx_reconciliation_in_progress :: bool
  bx_action_ready :: bool
  bx_device_active :: bool
  bx_regular_session_open :: "bool option"
  bx_session_date :: "date option"
  bx_local_operator_control :: bool

definition default_action_context :: board_action_context where
  "default_action_context =
     \<lparr>bx_enforce_runtime_fences = False, bx_engine_enabled = False, bx_readiness_generation = 0,
      bx_reconciliation_in_progress = False, bx_action_ready = True, bx_device_active = True,
      bx_regular_session_open = None, bx_session_date = None, bx_local_operator_control = False\<rparr>"

definition intent_only_request :: "board_request \<Rightarrow> bool" where
  "intent_only_request r \<longleftrightarrow> (case r of
      ActivateForToday _ \<Rightarrow> True | CancelPartialSell \<Rightarrow> True | RequestPartialSell _ \<Rightarrow> True
    | RequestSellAll \<Rightarrow> True | CancelQueuedSellAll \<Rightarrow> True | SetOrbStop \<Rightarrow> True
    | SetBreakevenStop \<Rightarrow> True | SetManualStop _ \<Rightarrow> True | _ \<Rightarrow> False)"

definition stop_request :: "board_request \<Rightarrow> bool" where
  "stop_request r \<longleftrightarrow> (case r of
      SetOrbStop \<Rightarrow> True | SetBreakevenStop \<Rightarrow> True | SetManualStop _ \<Rightarrow> True | _ \<Rightarrow> False)"

subsection \<open>Refusals\<close>

datatype reject_reason =
    IllegalMove board_status board_status
  | InvalidRealtimeMapping
  | BreakoutPriceNotPositive
  | BufferOutOfRange
  | NotOperatorControl
  | SessionStateUnavailable
  | PlanningLockedIn board_status
  | PlanImmutableInSession
  | ClosedCycleBlocked
  | ClosedCycleActiveOrder
  | ClosedCycleExternalOrder
  | FillOrPositionConfirmed
  | HiddenCardHasEvidence
  | PlanHasEvidence
  | MembershipHasEvidence
  | MembershipHidesExternalOrder
  | BuyIdentityExists
  | NoBreakoutPrice
  | SubmissionUnresolved
  | CancellationUnresolved
  | StopChangePending
  | ExternalOrderActive
  | AmbiguousOwnedOrder
  | UnlinkedOwnedOrder
  | EntryCancelPending
  | SellOrderPending
  | SellAllAlreadyExecuting
  | SellAllPending
  | MarketOpenSellStarted
  | CannotCancelEntryFrom board_status
  | PartialSellNotAllowed
  | QuantityNotPositive
  | NothingOrderable
  | NoPartialSell
  | NoOpenPosition
  | OrbLowUnavailable
  | WouldWidenStop
  | NoQueuedSellAll
  | UnrecognizedCommand
  | OnlyIntentMayClaim
  | ExternalOrderOutOfScope
  | SymbolActiveElsewhere
  | BlankStrategyInstance

datatype fence_reason =
    ReadinessChanged
  | EngineDisabled
  | ReconciliationRunning
  | DeviceNotActive
  | ActionNotReady

datatype ownership_mismatch =
    OwnedBy execution_owner
  | OwnerWithoutStrategy
  | OwnerChanged
  | OwnerRevisionChanged
  | StrategyChanged
  | ManualTransferRequired
  | OtherStrategyInstance

text \<open>The three board exceptions, the repositories' exceptions that pass through, and the
  exceptions nobody converts (\<open>ValueError\<close> of a constructor, \<open>KeyError\<close> of a lookup,
  an arithmetic error of the tick rounding).\<close>

datatype board_error =
    BoardCommandRejected reject_reason
  | BoardRuntimeFence fence_reason
  | BoardOwnershipMismatch ownership_mismatch
  | BoardCardStore card_store_error
  | BoardOwnership ownership_error
  | BoardExternal external_store_error
  | BoardCardInvalid card_error
  | BoardValueError
  | BoardKeyError

subsection \<open>Commands built for the runtime\<close>

record entry_monitoring_command =
  em_environment :: string
  em_account_no :: string
  em_symbol :: string
  em_enabled :: bool

definition build_entry_monitoring_command ::
    "string \<Rightarrow> string \<Rightarrow> string \<Rightarrow> bool \<Rightarrow> board_error + entry_monitoring_command" where
  "build_entry_monitoring_command environment account_no ticker enabled =
     (if account_no = [] \<or> py_upper ticker = [] then Inl BoardValueError
      else Inr \<lparr>em_environment = py_upper environment, em_account_no = account_no,
                em_symbol = py_upper ticker, em_enabled = enabled\<rparr>)"

record stop_change_command =
  sc_environment :: string
  sc_account_no :: string
  sc_symbol :: string
  sc_stop_type :: stop_type
  sc_price :: pyfloat
  sc_quantity :: int

definition build_stop_change_command ::
    "string \<Rightarrow> string \<Rightarrow> string \<Rightarrow> stop_type \<Rightarrow> pyfloat \<Rightarrow> int \<Rightarrow> board_error + stop_change_command" where
  "build_stop_change_command environment account_no ticker kind price quantity =
     (if \<not> isfinite price \<or> fle price (Fin 0) then Inl BoardValueError
      else if quantity \<le> 0 then Inl BoardValueError
      else Inr \<lparr>sc_environment = py_upper environment, sc_account_no = account_no,
                sc_symbol = py_upper ticker, sc_stop_type = kind, sc_price = price,
                sc_quantity = quantity\<rparr>)"

subsection \<open>Realtime mapping of an activation\<close>

text \<open>\<open>resolved\<close> is what the symbol-key store of the device answers, empty when it fails.\<close>

definition activation_symbol_key ::
    "string \<Rightarrow> string \<Rightarrow> string \<Rightarrow> trade_card \<Rightarrow> board_error + string" where
  "activation_symbol_key resolved ticker command_key c =
     (let key = (if py_strip command_key = [] then resolved else py_strip command_key)
      in if key = [] then Inr (py_strip (tc_kis_ws_symbol_key c))
         else case normalize_symbol_keys [(ticker, key)] of
                Inl e \<Rightarrow> Inl (BoardCommandRejected InvalidRealtimeMapping)
              | Inr normalized \<Rightarrow> (case map_of normalized ticker of
                    None \<Rightarrow> Inl BoardKeyError | Some key' \<Rightarrow> Inr key'))"

subsection \<open>What kind of action a request is\<close>

datatype board_action = NEW_ENTRY | KNOWN_CANCEL | PROTECTIVE_EXIT | PRESENTATION

definition board_action_name :: "board_request \<Rightarrow> trade_card \<Rightarrow> board_action" where
  "board_action_name r c =
     (case r of
        ActivateForToday _ \<Rightarrow> NEW_ENTRY
      | CancelEntry \<Rightarrow> if tc_entry_client_order_id c \<noteq> [] then KNOWN_CANCEL else PRESENTATION
      | RequestPartialSell _ \<Rightarrow> PROTECTIVE_EXIT
      | RequestSellAll \<Rightarrow> PROTECTIVE_EXIT
      | CancelPartialSell \<Rightarrow> PROTECTIVE_EXIT
      | CancelQueuedSellAll \<Rightarrow> PROTECTIVE_EXIT
      | SetOrbStop \<Rightarrow> PROTECTIVE_EXIT
      | SetBreakevenStop \<Rightarrow> PROTECTIVE_EXIT
      | SetManualStop _ \<Rightarrow> PROTECTIVE_EXIT
      | _ \<Rightarrow> PRESENTATION)"

definition is_execution_affecting :: "board_request \<Rightarrow> trade_card \<Rightarrow> bool" where
  "is_execution_affecting r c \<longleftrightarrow> board_action_name r c \<noteq> PRESENTATION"

definition move_board_card :: "board_status \<Rightarrow> trade_card \<Rightarrow> board_error + trade_card" where
  "move_board_card target c =
     (case validate_board_transition (tc_board_status c) target of
        Some (InvalidBoardTransition s t) \<Rightarrow> Inl (BoardCommandRejected (IllegalMove s t))
      | None \<Rightarrow> Inr (c\<lparr>tc_previous_board_status := Some (tc_board_status c),
                      tc_board_status := target\<rparr>))"

subsection \<open>Planning policy\<close>

datatype cycle_blocker =
    QuantityNotFlat | OrderableNotFlat | PositionNotTerminal | EntryNotTerminal
  | StopStillActive | ExitNotTerminal | CapitalReserved

definition closed_card_cycle_blockers :: "trade_card \<Rightarrow> cycle_blocker list" where
  "closed_card_cycle_blockers c = concat
     [if 0 < tc_broker_quantity c then [QuantityNotFlat] else [],
      if 0 < tc_orderable_quantity c then [OrderableNotFlat] else [],
      if tc_position_runtime_status c \<notin> {PRS_NONE, PRS_CLOSED} then [PositionNotTerminal] else [],
      if tc_next_retry_at c \<noteq> None \<or> tc_entry_submission_unresolved c \<or> tc_entry_cancel_in_flight c
         \<or> tc_entry_cancel_command_id c \<noteq> [] \<or> tc_entry_remaining_target_quantity c \<noteq> 0
      then [EntryNotTerminal] else [],
      if tc_pending_stop_type c \<noteq> None \<or> tc_pending_stop_price c \<noteq> None
         \<or> tc_pending_stop_quantity c \<noteq> 0 \<or> tc_pending_stop_command_id c \<noteq> []
         \<or> tc_pending_stop_requested_at c \<noteq> None
      then [StopStillActive] else [],
      if tc_exit_all_required c \<or> tc_sell_all_at_market_open c
         \<or> tc_pending_partial_sell_quantity c \<noteq> 0 \<or> tc_reserved_sell_quantity c \<noteq> 0
         \<or> tc_next_exit_retry_at c \<noteq> None \<or> tc_exit_submission_unresolved c
         \<or> tc_exit_cancel_in_flight c \<or> tc_exit_cancel_requested_at c \<noteq> None
         \<or> tc_exit_cancel_command_id c \<noteq> []
      then [ExitNotTerminal] else [],
      if tc_capital_reservation_id c \<noteq> [] then [CapitalReserved] else []]"

text \<open>Columns whose breakout plan a request may edit.\<close>

definition planning_columns :: "board_request \<Rightarrow> board_status set" where
  "planning_columns r =
     {BS_WATCHLIST, BS_BUYLIST, BS_BUY_TODAY}
     \<union> (case r of SetBreakoutPrice _ _ \<Rightarrow> {BS_ENTRY_PENDING, BS_CLOSED} | _ \<Rightarrow> {})"

definition require_breakout_plan_mutation_policy ::
    "board_request \<Rightarrow> trade_card option \<Rightarrow> board_action_context \<Rightarrow> board_error option" where
  "require_breakout_plan_mutation_policy r found ctx =
     (let column = (case found of
            None \<Rightarrow> None
          | Some c \<Rightarrow> if tc_board_status c \<notin> planning_columns r
                      then Some (BoardCommandRejected (PlanningLockedIn (tc_board_status c))) else None)
      in case r of
           SetBreakoutPrice price buffer \<Rightarrow>
             and_then (first_error
               [(\<not> isfinite price \<or> fle price (Fin 0), BoardCommandRejected BreakoutPriceNotPositive),
                (\<not> isfinite buffer \<or> \<not> (fle (Fin 0) buffer \<and> fle buffer (Fin 1)),
                 BoardCommandRejected BufferOutOfRange),
                (\<not> bx_local_operator_control ctx, BoardCommandRejected NotOperatorControl)]) column
         | ClearBreakoutPrice \<Rightarrow>
             and_then (first_error
               [(\<not> bx_local_operator_control ctx, BoardCommandRejected NotOperatorControl),
                (bx_regular_session_open ctx = None, BoardCommandRejected SessionStateUnavailable)])
             (and_then column (first_error
               [(map_option tc_board_status found = Some BS_BUY_TODAY
                   \<and> bx_regular_session_open ctx = Some True,
                 BoardCommandRejected PlanImmutableInSession)]))
         | _ \<Rightarrow> None)"

subsection \<open>Runtime and ownership fences\<close>

definition require_current_board_runtime ::
    "board_command \<Rightarrow> trade_card \<Rightarrow> board_action_context \<Rightarrow> board_error option" where
  "require_current_board_runtime m c ctx =
     (if \<not> bx_enforce_runtime_fences ctx then None
      else let local_cancel = (bc_request m = CancelEntry \<and> tc_entry_client_order_id c = []);
               affecting = is_execution_affecting (bc_request m) c
        in first_error
          [(bc_expected_readiness_generation m \<noteq> 0
              \<and> bc_expected_readiness_generation m \<noteq> bx_readiness_generation ctx,
            BoardRuntimeFence ReadinessChanged),
           (affecting \<and> \<not> bx_engine_enabled ctx \<and> \<not> local_cancel, BoardRuntimeFence EngineDisabled),
           (affecting \<and> bx_reconciliation_in_progress ctx, BoardRuntimeFence ReconciliationRunning),
           (affecting \<and> \<not> bx_device_active ctx, BoardRuntimeFence DeviceNotActive),
           (affecting \<and> \<not> bx_action_ready ctx, BoardRuntimeFence ActionNotReady)])"

definition owner_value :: "execution_owner \<Rightarrow> string" where
  "owner_value w = (case w of LEGACY \<Rightarrow> ''LEGACY'' | KANBAN \<Rightarrow> ''KANBAN'' | MANUAL \<Rightarrow> ''MANUAL'')"

definition require_kanban_board_ownership ::
    "board_command \<Rightarrow> trade_card \<Rightarrow> board_action_context \<Rightarrow> ownership \<Rightarrow> board_error option" where
  "require_kanban_board_ownership m c ctx w =
     (if \<not> bx_enforce_runtime_fences ctx \<or> \<not> is_execution_affecting (bc_request m) c then None
      else first_error
        [(ow_owner w \<noteq> KANBAN, BoardOwnershipMismatch (OwnedBy (ow_owner w))),
         (ow_strategy_instance_id w = [], BoardOwnershipMismatch OwnerWithoutStrategy),
         (bc_expected_execution_owner m \<noteq> [] \<and> bc_expected_execution_owner m \<noteq> owner_value (ow_owner w),
          BoardOwnershipMismatch OwnerChanged),
         (bc_expected_ownership_version m \<noteq> 0 \<and> bc_expected_ownership_version m \<noteq> ow_version w,
          BoardOwnershipMismatch OwnerRevisionChanged),
         (bc_expected_strategy_instance_id m \<noteq> []
            \<and> bc_expected_strategy_instance_id m \<noteq> ow_strategy_instance_id w,
          BoardOwnershipMismatch StrategyChanged)])"

end
