(* ===== verification/Board_Conflict.thy ===== *)
theory Board_Conflict
  imports Board_Command
begin

text \<open>
  \<open>_require_board_action_not_conflicted\<close> of \<open>src/services/execution_workflow_service.py\<close>: what the
  durable orders of a card, the unowned broker orders of its symbol and the card's own
  execution evidence forbid. The result is the list of the card's active owned orders.
\<close>

subsection \<open>Orders around a card\<close>

definition card_orders :: "order_table \<Rightarrow> trade_card \<Rightarrow> execution_order list" where
  "card_orders os c =
     list_execution_orders_for_card os (tc_environment c) (tc_account_no c) (tc_symbol c)"

definition active_owned_orders :: "order_table \<Rightarrow> trade_card \<Rightarrow> execution_order list" where
  "active_owned_orders os c = filter is_active_order (card_orders os c)"

definition card_tracks_order :: "trade_card \<Rightarrow> execution_order \<Rightarrow> bool" where
  "card_tracks_order c r \<longleftrightarrow>
     eo_client_order_id r \<noteq> []
       \<and> eo_client_order_id r \<in> {tc_entry_client_order_id c, tc_exit_client_order_id c}
     \<or> eo_attempt_group_id r \<noteq> []
       \<and> eo_attempt_group_id r \<in> {tc_entry_attempt_group_id c, tc_exit_attempt_group_id c}"

definition active_external_orders :: "external_table \<Rightarrow> trade_card \<Rightarrow> external_order list" where
  "active_external_orders xs c =
     filter (\<lambda>x. xo_symbol x = tc_symbol c \<and> is_active_unowned x)
       (list_discovered_external_orders_for_account xs (tc_environment c) (tc_account_no c))"

definition ambiguous_order :: "execution_order \<Rightarrow> bool" where
  "ambiguous_order r \<longleftrightarrow>
     eo_status r = UNKNOWN_SUBMISSION_STATE \<or> eo_broker_identity_status r = AMBIGUOUS"

subsection \<open>Evidence of the current cycle\<close>

text \<open>A terminal order belongs to the current cycle unless it was prepared in a second before
  the second of the cycle's lower bound; an unreadable time counts as current.\<close>

definition whole_second :: "timestamp \<Rightarrow> timestamp" where
  "whole_second t = t - t mod 1000000"

definition order_belongs_to_current_card_cycle :: "trade_card \<Rightarrow> execution_order \<Rightarrow> bool" where
  "order_belongs_to_current_card_cycle c r \<longleftrightarrow>
     (case eo_prepared_at r of
        None \<Rightarrow> True
      | Some prepared \<Rightarrow>
          whole_second (max (tc_created_at c) (tc_board_status_updated_at c)) \<le> prepared)"

definition order_has_current_cycle_fill :: "trade_card \<Rightarrow> execution_order \<Rightarrow> bool" where
  "order_has_current_cycle_fill c r \<longleftrightarrow>
     (0 < eo_filled_quantity r \<or> eo_status r = FILLED)
     \<and> (is_active_order r \<or> order_belongs_to_current_card_cycle c r)"

definition has_confirmed_fill_or_position_evidence :: "order_table \<Rightarrow> trade_card \<Rightarrow> bool" where
  "has_confirmed_fill_or_position_evidence os c \<longleftrightarrow>
     0 < tc_broker_quantity c \<or> 0 < tc_orderable_quantity c \<or> fpos (tc_average_entry_price c)
     \<or> tc_position_runtime_status c \<noteq> PRS_NONE
     \<or> list_ex (order_has_current_cycle_fill c) (card_orders os c)"

definition has_durable_entry_or_position_evidence :: "order_table \<Rightarrow> trade_card \<Rightarrow> bool" where
  "has_durable_entry_or_position_evidence os c \<longleftrightarrow>
     active_owned_orders os c \<noteq> [] \<or> has_durable_execution_evidence c"

subsection \<open>The guard\<close>

definition entry_lifecycle_active :: "trade_card \<Rightarrow> execution_order list \<Rightarrow> bool" where
  "entry_lifecycle_active c active \<longleftrightarrow>
     tc_board_status c = BS_ENTRY_PENDING
     \<or> tc_board_status c = BS_BUY_TODAY
       \<and> (tc_entry_client_order_id c \<noteq> [] \<or> tc_entry_submission_unresolved c
          \<or> tc_entry_cancel_in_flight c \<or> list_ex (\<lambda>r. eo_side r = BUY) active)"

definition breakout_plan_conflict :: "order_table \<Rightarrow> external_table \<Rightarrow> trade_card \<Rightarrow> reject_reason option" where
  "breakout_plan_conflict os xs c =
     (if tc_board_status c = BS_CLOSED
      then first_error
        [(closed_card_cycle_blockers c \<noteq> [], ClosedCycleBlocked),
         (active_owned_orders os c \<noteq> [], ClosedCycleActiveOrder),
         (active_external_orders xs c \<noteq> [], ClosedCycleExternalOrder)]
      else first_error
        [(has_confirmed_fill_or_position_evidence os c, FillOrPositionConfirmed),
         (tc_board_status c = BS_WATCHLIST \<and> has_durable_entry_or_position_evidence os c,
          HiddenCardHasEvidence)])"

definition planning_stage_move :: "board_request \<Rightarrow> trade_card \<Rightarrow> bool" where
  "planning_stage_move r c \<longleftrightarrow> r = MoveToWatchlist \<or> r = RemoveFromBuylist
     \<or> r = MoveToBuylist \<and> tc_board_status c = BS_WATCHLIST"

definition membership_conflict ::
    "board_request \<Rightarrow> order_table \<Rightarrow> external_table \<Rightarrow> trade_card \<Rightarrow> reject_reason option" where
  "membership_conflict r os xs c =
     (let legacy_planning_stop = has_legacy_planning_stop c \<and> card_orders os c = []
      in first_error
        [(planning_stage_move r c \<and> (active_owned_orders os c \<noteq> []
            \<or> has_durable_execution_evidence c \<and> \<not> legacy_planning_stop), MembershipHasEvidence),
         (r \<in> {MoveToWatchlist, RemoveFromBuylist} \<and> active_external_orders xs c \<noteq> [],
          MembershipHidesExternalOrder)])"

definition move_to_buylist_conflict :: "order_table \<Rightarrow> trade_card \<Rightarrow> reject_reason option" where
  "move_to_buylist_conflict os c =
     (let breakout_price = or_zero (tc_breakout_price c)
      in first_error
        [(entry_lifecycle_active c (active_owned_orders os c), BuyIdentityExists),
         (\<not> isfinite breakout_price \<or> fle breakout_price (Fin 0), NoBreakoutPrice)])"

text \<open>The fences of every request that is not a planning move.\<close>

definition execution_conflict ::
    "board_request \<Rightarrow> order_table \<Rightarrow> external_table \<Rightarrow> trade_card \<Rightarrow> reject_reason option" where
  "execution_conflict r os xs c =
     (let active = active_owned_orders os c; selling = list_ex (\<lambda>x. eo_side x = SELL) active
      in first_error
        [(tc_entry_submission_unresolved c \<or> tc_exit_submission_unresolved c, SubmissionUnresolved),
         (tc_entry_cancel_in_flight c \<or> tc_exit_cancel_in_flight c, CancellationUnresolved),
         (stop_request r \<and> tc_pending_stop_command_id c \<noteq> [], StopChangePending),
         (active_external_orders xs c \<noteq> [], ExternalOrderActive),
         (list_ex ambiguous_order active, AmbiguousOwnedOrder),
         (list_ex (\<lambda>x. \<not> card_tracks_order c x) active, UnlinkedOwnedOrder),
         (r = CancelEntry \<and> tc_entry_block_reason c = ''cancel_requested'', EntryCancelPending),
         ((case r of RequestPartialSell _ \<Rightarrow> selling | _ \<Rightarrow> False), SellOrderPending),
         ((case r of RequestPartialSell _ \<Rightarrow> tc_board_status c = BS_SELL_ALL
             \<and> (tc_exit_client_order_id c \<noteq> [] \<or> tc_exit_pending_attempt_number c \<noteq> 0
                \<or> tc_reserved_sell_quantity c \<noteq> 0 \<or> tc_exit_cancel_command_id c \<noteq> [])
           | _ \<Rightarrow> False), SellAllAlreadyExecuting),
         (r = RequestSellAll \<and> tc_board_status c = BS_SELL_ALL, SellAllPending),
         (r = CancelQueuedSellAll \<and> (tc_exit_client_order_id c \<noteq> [] \<or> selling),
          MarketOpenSellStarted)])"

definition board_conflict ::
    "board_request \<Rightarrow> order_table \<Rightarrow> external_table \<Rightarrow> trade_card \<Rightarrow> reject_reason option" where
  "board_conflict r os xs c =
     (case r of
        SetBreakoutPrice _ _ \<Rightarrow> breakout_plan_conflict os xs c
      | ClearBreakoutPrice \<Rightarrow>
          and_then (if has_durable_entry_or_position_evidence os c then Some PlanHasEvidence else None)
            (execution_conflict r os xs c)
      | MoveToBuylist \<Rightarrow> and_then (membership_conflict r os xs c) (move_to_buylist_conflict os c)
      | MoveToWatchlist \<Rightarrow> membership_conflict r os xs c
      | RemoveFromBuylist \<Rightarrow> membership_conflict r os xs c
      | ReorderCard _ \<Rightarrow> None
      | _ \<Rightarrow> execution_conflict r os xs c)"

definition require_board_action_not_conflicted ::
    "board_request \<Rightarrow> order_table \<Rightarrow> external_table \<Rightarrow> trade_card \<Rightarrow> board_error + execution_order list" where
  "require_board_action_not_conflicted r os xs c =
     guarded (map_option BoardCommandRejected (board_conflict r os xs c)) (Inr (active_owned_orders os c))"

lemmas conflict_defs = board_conflict_def breakout_plan_conflict_def membership_conflict_def
  move_to_buylist_conflict_def execution_conflict_def Let_def

lemma conflict_passed:
  "require_board_action_not_conflicted r os xs c = Inr active \<longleftrightarrow>
     board_conflict r os xs c = None \<and> active = active_owned_orders os c"
  by (auto simp: require_board_action_not_conflicted_def guarded_Inr_iff)

lemma active_owned_active: "r \<in> set (active_owned_orders os c) \<Longrightarrow> is_active_order r"
  by (simp add: active_owned_orders_def)

end
