(* ===== verification/Position.thy ===== *)
theory Position
  imports Trade_Card
begin

text \<open>
  \<open>src/services/position_manager.py\<close>: tick rounding and the breakeven stop, the trigger of a
  stop, the exit sequences, the cancel call with its lifecycle, and the reconciliation of the
  cards of an account with the holdings its broker reports. Prices are binary64 values and every
  operation on them rounds. A broker callback is represented by its outcome, an argument.
\<close>

subsection \<open>Ticks and stops\<close>

definition BREAKEVEN_BUFFER_BPS :: pyfloat where
  "BREAKEVEN_BUFFER_BPS = Fin 15"

text \<open>\<open>None\<close>: the conversion to an integer raised (an infinite or NaN price).\<close>

definition round_up_to_valid_tick :: "pyfloat \<Rightarrow> pyfloat option" where
  "round_up_to_valid_tick price =
     (if fle price (Fin 0) then Some (Fin 0)
      else let effective_tick = (if flt price (Fin 1) then to_float (1 / 10000) else to_float (1 / 100))
        in case fdiv price effective_tick of
             None \<Rightarrow> None
           | Some ticks_exact \<Rightarrow>
               map_option (\<lambda>ticks. py_round (fmul (float_of_int ticks) effective_tick) 4)
                 (py_ceil (fsub (py_round ticks_exact 6) (to_float (1 / 10 ^ 9)))))"

definition compute_breakeven_stop_price :: "pyfloat \<Rightarrow> pyfloat option" where
  "compute_breakeven_stop_price average_entry_price =
     (case fdiv BREAKEVEN_BUFFER_BPS (Fin 10000) of
        None \<Rightarrow> None
      | Some fraction \<Rightarrow> round_up_to_valid_tick (fmul average_entry_price (fadd (Fin 1) fraction)))"

definition prices_match :: "pyfloat \<Rightarrow> pyfloat \<Rightarrow> bool" where
  "prices_match a b \<longleftrightarrow> fle (fabs (fsub a b)) (to_float (1 / 10 ^ 6))"

definition current_stop :: "trade_card \<Rightarrow> pyfloat" where
  "current_stop c = or_zero (tc_active_stop_price c)"

definition minimum_manual_stop_price :: "trade_card \<Rightarrow> pyfloat option" where
  "minimum_manual_stop_price c =
     map_option (\<lambda>breakeven. fmax breakeven (current_stop c))
       (compute_breakeven_stop_price (tc_average_entry_price c))"

definition evaluate_stop_trigger :: "trade_card \<Rightarrow> pyfloat \<Rightarrow> bool" where
  "evaluate_stop_trigger c current_price =
     (if tc_exit_all_required c then True
      else case tc_active_stop_price c of
             None \<Rightarrow> False
           | Some stop \<Rightarrow> if fle stop (Fin 0) then False else fle current_price stop)"

subsection \<open>The cancel call\<close>

text \<open>How the gateway call ends: it returns with a broker status, or raises one of the two
  guarded errors. \<open>emergency\<close> and \<open>protective\<close> are the two flags of the cancel intent.\<close>

datatype cancel_outcome =
    CancelReturned string
  | CancelAmbiguous
  | CancelRejected

text \<open>Result: whether the rejection propagates, the card, and whether it was handed to
  \<open>persist_cancel_state\<close>.\<close>

definition request_cancel_with_lifecycle ::
    "timestamp \<Rightarrow> string \<Rightarrow> bool \<Rightarrow> bool \<Rightarrow> cancel_outcome \<Rightarrow> trade_card \<Rightarrow> bool \<times> trade_card \<times> bool" where
  "request_cancel_with_lifecycle now scope emergency protective outcome c =
     (let entry = py_upper scope = ''ENTRY''
      in case outcome of
           CancelAmbiguous \<Rightarrow>
             (False,
              if entry then c\<lparr>tc_entry_cancel_in_flight := True\<rparr>
              else c\<lparr>tc_exit_cancel_in_flight := True,
                     tc_exit_cancel_requested_at := (case tc_exit_cancel_requested_at c of
                        None \<Rightarrow> Some now | Some t \<Rightarrow> Some t)\<rparr>, True)
         | CancelRejected \<Rightarrow>
             (True,
              if entry then c\<lparr>tc_entry_cancel_command_id := [], tc_entry_cancel_in_flight := False,
                              tc_entry_cancel_reason := []\<rparr>
              else c\<lparr>tc_exit_cancel_command_id := [], tc_exit_cancel_in_flight := False,
                     tc_exit_cancel_requested_at := None\<rparr>, True)
         | CancelReturned status \<Rightarrow>
             if entry \<and> emergency \<and> protective
                \<and> status \<in> {''FILLED'', ''CANCELLED'', ''REJECTED'', ''EXPIRED''}
             then (False, c\<lparr>tc_entry_cancel_command_id := [], tc_entry_cancel_in_flight := False,
                    tc_entry_cancel_reason := [], tc_entry_client_order_id := [],
                    tc_entry_pending_attempt_number := 0, tc_entry_submission_unresolved := False,
                    tc_entry_remaining_target_quantity := 0, tc_entry_attempt_group_id := [],
                    tc_entry_attempt_count := 0\<rparr>, True)
             else (False, c, False))"

subsection \<open>Stops and exits of a card\<close>

definition apply_first_fill_stop :: "pyfloat \<Rightarrow> string \<Rightarrow> trade_card \<Rightarrow> trade_card" where
  "apply_first_fill_stop entry_orb_low window c =
     c\<lparr>tc_stop_type := Some STOP_ORB_LOW, tc_active_stop_price := Some entry_orb_low,
       tc_stop_quantity := tc_broker_quantity c, tc_entry_orb_window := Some window,
       tc_entry_orb_low := Some entry_orb_low\<rparr>"

definition apply_breakeven_stop :: "trade_card \<Rightarrow> trade_card option" where
  "apply_breakeven_stop c =
     map_option (\<lambda>breakeven.
       (if fle (current_stop c) breakeven
        then c\<lparr>tc_stop_type := Some STOP_BREAKEVEN, tc_active_stop_price := Some breakeven\<rparr> else c)
       \<lparr>tc_stop_quantity := tc_broker_quantity c\<rparr>)
     (compute_breakeven_stop_price (tc_average_entry_price c))"

datatype position_error =
    StopWidensRisk
  | TickRoundingFailed
  | CannotCloseNotFlat
  | PositionCardError card_error

definition apply_manual_stop :: "pyfloat \<Rightarrow> trade_card \<Rightarrow> position_error + trade_card" where
  "apply_manual_stop requested_price c =
     (case minimum_manual_stop_price c of
        None \<Rightarrow> Inl TickRoundingFailed
      | Some minimum \<Rightarrow>
          if flt requested_price minimum then Inl StopWidensRisk
          else Inr (c\<lparr>tc_stop_type := Some STOP_MANUAL_PRICE, tc_active_stop_price := Some requested_price\<rparr>))"

definition on_partial_exit_filled :: "int \<Rightarrow> trade_card \<Rightarrow> trade_card option" where
  "on_partial_exit_filled refreshed_broker_quantity c =
     map_option (\<lambda>c'. c'\<lparr>tc_board_status := BS_OPEN_POSITION, tc_position_runtime_status := PRS_OPEN\<rparr>)
       (apply_breakeven_stop (c\<lparr>tc_broker_quantity := refreshed_broker_quantity,
          tc_orderable_quantity := refreshed_broker_quantity\<rparr>))"

definition evaluate_tick :: "pyfloat \<Rightarrow> trade_card \<Rightarrow> trade_card" where
  "evaluate_tick current_price c =
     (if evaluate_stop_trigger c current_price then c\<lparr>tc_exit_all_required := True\<rparr> else c)"

text \<open>Both sequences first record the intent, then request the cancel of a working order; a
  rejected cancel propagates and leaves the column where it was.\<close>

definition handle_stop_triggered_during_partial_sell ::
    "timestamp \<Rightarrow> cancel_outcome option \<Rightarrow> trade_card \<Rightarrow> bool \<times> trade_card" where
  "handle_stop_triggered_during_partial_sell now outcome c =
     (let c1 = c\<lparr>tc_exit_all_required := True\<rparr>;
          (raised, c2, _) = (case outcome of None \<Rightarrow> (False, c1, False)
             | Some r \<Rightarrow> request_cancel_with_lifecycle now ''EXIT'' False False r c1)
      in if raised then (True, c2)
         else (False, c2\<lparr>tc_pending_partial_sell_quantity := 0, tc_board_status := BS_SELL_ALL,
                         tc_position_runtime_status := PRS_LIQUIDATING\<rparr>))"

definition start_sell_all :: "timestamp \<Rightarrow> cancel_outcome option \<Rightarrow> trade_card \<Rightarrow> bool \<times> trade_card" where
  "start_sell_all now outcome c =
     (let c1 = c\<lparr>tc_exit_all_required := True\<rparr>;
          (raised, c2, _) = (case outcome of None \<Rightarrow> (False, c1, False)
             | Some r \<Rightarrow> request_cancel_with_lifecycle now ''ENTRY'' False False r c1)
      in if raised then (True, c2)
         else (False, c2\<lparr>tc_board_status := BS_SELL_ALL, tc_position_runtime_status := PRS_LIQUIDATING\<rparr>))"

definition queue_sell_all_at_market_open :: "trade_card \<Rightarrow> trade_card" where
  "queue_sell_all_at_market_open c =
     c\<lparr>tc_board_status := BS_SELL_ALL, tc_position_runtime_status := PRS_QUEUED_FOR_OPEN,
       tc_sell_all_at_market_open := True, tc_exit_all_required := True\<rparr>"

definition confirm_flat :: "trade_card \<Rightarrow> position_error + trade_card" where
  "confirm_flat c =
     (if 0 < tc_broker_quantity c then Inl CannotCloseNotFlat
      else Inr (c\<lparr>tc_board_status := BS_CLOSED, tc_position_runtime_status := PRS_CLOSED,
        tc_stop_type := None, tc_active_stop_price := None, tc_stop_quantity := 0,
        tc_pending_stop_type := None, tc_pending_stop_price := None, tc_pending_stop_quantity := 0,
        tc_pending_stop_command_id := [], tc_pending_stop_requested_at := None,
        tc_exit_all_required := False, tc_sell_all_at_market_open := False,
        tc_market_data_outage_started_at := None, tc_market_data_outage_risk_tier := [],
        tc_entry_attempt_group_id := [], tc_entry_attempt_count := 0, tc_entry_client_order_id := [],
        tc_entry_pending_attempt_number := 0, tc_entry_submission_unresolved := False,
        tc_entry_cancel_in_flight := False, tc_entry_cancel_reason := [],
        tc_entry_cancel_command_id := [], tc_entry_remaining_target_quantity := 0,
        tc_exit_attempt_group_id := [], tc_exit_attempt_count := 0, tc_exit_client_order_id := [],
        tc_exit_pending_attempt_number := 0, tc_exit_submission_unresolved := False,
        tc_exit_cancel_in_flight := False, tc_exit_cancel_requested_at := None,
        tc_exit_cancel_command_id := [], tc_reserved_sell_quantity := 0,
        tc_next_exit_retry_at := None, tc_last_exit_error := []\<rparr>))"

subsection \<open>Broker positions\<close>

text \<open>One entry of the holdings the broker reports, before and after typing. A field the
  conversion to a float rejects is \<open>None\<close>; an entry that is not a dictionary does not occur here.\<close>

record raw_holding =
  rh_symbol :: string
  rh_quantity :: "pyfloat option"
  rh_average_price :: "pyfloat option"

record broker_holding =
  bh_symbol :: string
  bh_quantity :: int
  bh_average_price :: pyfloat

text \<open>\<open>None\<close>: an infinite quantity raises \<open>OverflowError\<close>, which is not caught.\<close>

fun extract_overseas_holdings :: "raw_holding list \<Rightarrow> broker_holding list option" where
  "extract_overseas_holdings [] = Some []"
| "extract_overseas_holdings (raw # rest) =
     (case rh_quantity raw of
        None \<Rightarrow> extract_overseas_holdings rest
      | Some q \<Rightarrow>
          if q = NaN then extract_overseas_holdings rest
          else (case py_int q of
             None \<Rightarrow> None
           | Some quantity \<Rightarrow>
               (let ticker = py_upper (py_strip (rh_symbol raw))
                in if quantity \<le> 0 \<or> ticker = [] then extract_overseas_holdings rest
                   else map_option ((#) \<lparr>bh_symbol = ticker, bh_quantity = quantity,
                          bh_average_price = or_zero (rh_average_price raw)\<rparr>)
                        (extract_overseas_holdings rest))))"

definition open_at_broker :: "int \<Rightarrow> pyfloat \<Rightarrow> trade_card \<Rightarrow> trade_card" where
  "open_at_broker quantity price c =
     (let c1 = c\<lparr>tc_broker_quantity := quantity, tc_orderable_quantity := quantity,
                 tc_average_entry_price := price, tc_position_runtime_status := PRS_OPEN\<rparr>
      in if tc_stop_type c1 = None
         then c1\<lparr>tc_entry_block_reason := ''manual_position_requires_stop'',
                 tc_warnings := (if ''STOP_REQUIRED'' \<in> set (tc_warnings c1) then tc_warnings c1
                                 else tc_warnings c1 @ [''STOP_REQUIRED''])\<rparr>
         else c1)"

definition discover_manual_position ::
    "timestamp \<Rightarrow> trade_card option \<Rightarrow> string \<Rightarrow> string \<Rightarrow> string \<Rightarrow> string \<Rightarrow> int \<Rightarrow> pyfloat
       \<Rightarrow> card_error + trade_card" where
  "discover_manual_position now found environment account_no ticker name quantity price =
     bind_result
       (case found of
          None \<Rightarrow> card_post_init ((blank_card now environment account_no ticker)
            \<lparr>tc_name := name, tc_board_status := BS_OPEN_POSITION, tc_watchlist_member := True,
             tc_buylist_member := True, tc_return_to_buylist_after_close := True\<rparr>)
        | Some c \<Rightarrow> Inr (c\<lparr>tc_board_status := BS_OPEN_POSITION\<rparr>))
       (\<lambda>c. Inr (open_at_broker quantity price c))"

definition reconcile_manual_exit :: "int \<Rightarrow> trade_card \<Rightarrow> position_error + trade_card" where
  "reconcile_manual_exit quantity c =
     (let c1 = c\<lparr>tc_broker_quantity := quantity, tc_orderable_quantity := quantity\<rparr>
      in if quantity \<le> 0 then confirm_flat c1
         else Inr (c1\<lparr>tc_stop_quantity := min (tc_stop_quantity c1) quantity\<rparr>))"

definition INTENT_PRESERVING_STATUSES :: "board_status set" where
  "INTENT_PRESERVING_STATUSES = {BS_SELL_ALL, BS_PARTIAL_SELL, BS_ENTRY_PENDING}"

text \<open>What one reported holding does to its card; \<open>None\<close> when nothing changes.\<close>

definition reconcile_holding ::
    "timestamp \<Rightarrow> string \<Rightarrow> string \<Rightarrow> (string \<Rightarrow> string) \<Rightarrow> (string \<rightharpoonup> trade_card) \<Rightarrow> broker_holding
       \<Rightarrow> card_error + trade_card option" where
  "reconcile_holding now environment account_no name_of cards h =
     (case cards (bh_symbol h) of
        None \<Rightarrow> bind_result (discover_manual_position now None environment account_no (bh_symbol h)
            (name_of (bh_symbol h)) (bh_quantity h) (bh_average_price h)) (\<lambda>c. Inr (Some c))
      | Some c \<Rightarrow>
          (let facts_changed = tc_broker_quantity c \<noteq> bh_quantity h
                 \<or> \<not> prices_match (tc_average_entry_price c) (bh_average_price h)
           in if tc_board_status c \<in> INTENT_PRESERVING_STATUSES
              then Inr (if facts_changed
                        then Some (c\<lparr>tc_broker_quantity := bh_quantity h,
                                     tc_average_entry_price := bh_average_price h\<rparr>)
                        else None)
              else if tc_board_status c \<noteq> BS_OPEN_POSITION \<or> facts_changed
              then bind_result (discover_manual_position now (Some c) environment account_no
                     (bh_symbol h) (tc_name c) (bh_quantity h) (bh_average_price h)) (\<lambda>c. Inr (Some c))
              else Inr None))"

text \<open>What happens to a card whose symbol the broker does not report.\<close>

definition reconcile_missing :: "trade_card \<Rightarrow> position_error + trade_card option" where
  "reconcile_missing c =
     (if tc_broker_quantity c \<le> 0 then Inr None
      else if tc_board_status c = BS_SELL_ALL
      then Inr (Some (c\<lparr>tc_broker_quantity := 0, tc_orderable_quantity := 0\<rparr>))
      else bind_result (reconcile_manual_exit 0 c) (\<lambda>c'. Inr (Some c')))"

fun collect_changed :: "('a \<Rightarrow> 'e + trade_card option) \<Rightarrow> 'a list \<Rightarrow> 'e + trade_card list" where
  "collect_changed f [] = Inr []"
| "collect_changed f (x # xs) =
     bind_result (f x) (\<lambda>r. bind_result (collect_changed f xs) (\<lambda>rest.
       Inr (case r of None \<Rightarrow> rest | Some c \<Rightarrow> c # rest)))"

definition account_cards :: "string \<Rightarrow> string \<Rightarrow> trade_card list \<Rightarrow> (string \<times> trade_card) list" where
  "account_cards environment account_no cards =
     py_dict (map (\<lambda>c. (tc_symbol c, c))
       (filter (\<lambda>c. tc_environment c = environment \<and> tc_account_no c = account_no) cards))"

definition reconcile_broker_positions ::
    "timestamp \<Rightarrow> string \<Rightarrow> string \<Rightarrow> (string \<Rightarrow> string) \<Rightarrow> trade_card list \<Rightarrow> broker_holding list
       \<Rightarrow> position_error + trade_card list" where
  "reconcile_broker_positions now environment account_no name_of cards holdings =
     (let by_symbol = account_cards environment account_no cards;
          reported = py_dict (map (\<lambda>h. (bh_symbol h, h)) holdings)
      in bind_result (collect_changed (\<lambda>(_, h).
             case reconcile_holding now environment account_no name_of (map_of by_symbol) h of
               Inl e \<Rightarrow> Inl (PositionCardError e) | Inr r \<Rightarrow> Inr r) reported) (\<lambda>held.
         bind_result (collect_changed (\<lambda>(ticker, c).
             if map_of reported ticker \<noteq> None then Inr None else reconcile_missing c) by_symbol)
           (\<lambda>gone. Inr (held @ gone))))"

subsection \<open>Breakeven covers the cost\<close>

text \<open>The float constants of the formula, within their rounding error.\<close>

lemma tick_constants:
  "\<exists>t. to_float (1 / 100) = Fin t \<and> 1 / 100 * (1 - 1 / 2 ^ 52) \<le> t \<and> t \<le> 1 / 100 * (1 + 1 / 2 ^ 52)"
  "\<exists>t. to_float (1 / 10000) = Fin t \<and> 1 / 10000 * (1 - 1 / 2 ^ 52) \<le> t \<and> t \<le> 1 / 10000 * (1 + 1 / 2 ^ 52)"
  "\<exists>d. to_float (1 / 10 ^ 9) = Fin d \<and> 0 \<le> d \<and> d \<le> 2 / 10 ^ 9"
proof -
  show "\<exists>t. to_float (1 / 100) = Fin t \<and> 1 / 100 * (1 - 1 / 2 ^ 52) \<le> t \<and> t \<le> 1 / 100 * (1 + 1 / 2 ^ 52)"
    using rnd64_between [of "1 / 100"] to_float_everyday [of "1 / 100"] by simp
  show "\<exists>t. to_float (1 / 10000) = Fin t \<and> 1 / 10000 * (1 - 1 / 2 ^ 52) \<le> t \<and> t \<le> 1 / 10000 * (1 + 1 / 2 ^ 52)"
    using rnd64_between [of "1 / 10000"] to_float_everyday [of "1 / 10000"] by simp
  show "\<exists>d. to_float (1 / 10 ^ 9) = Fin d \<and> 0 \<le> d \<and> d \<le> 2 / 10 ^ 9"
    using rnd64_between [of "1 / 10 ^ 9"] to_float_everyday [of "1 / 10 ^ 9"] by simp
qed

lemma py_round_near:
  assumes "n = 4 \<and> 1 / 100 \<le> x \<or> n = 6 \<and> 1 / 100 \<le> x" "x \<le> 10 ^ 14"
  shows "\<exists>y. py_round (Fin x) n = Fin y \<and> x - 1 / (2 * 10 ^ n) - x / 10 ^ 15 - 1 / 10 ^ 15 \<le> y
    \<and> y \<le> x + 1"
proof -
  define m where "m = round_half_even (x * 10 ^ n)"
  have near: "x * 10 ^ n - 1 / 2 \<le> of_int m" "of_int m \<le> x * 10 ^ n + 1 / 2"
    using round_half_even_near [of "x * 10 ^ n"] unfolding m_def by linarith+
  define z :: rat where "z = of_int m / 10 ^ n"
  define e :: rat where "e = 1 / (2 * 10 ^ n)"
  have z: "x - e \<le> z" "z \<le> x + e" using near assms(1) by (auto simp: z_def e_def)
  have small: "e \<le> 1 / 20000" using assms(1) by (auto simp: e_def)
  have x: "1 / 100 \<le> x" using assms(1) by auto
  have big: "1 / 10 ^ 20 \<le> z" "z \<le> 10 ^ 15" using assms(2) z small x by simp_all
  have d: "z / 2 ^ 52 \<le> x / 10 ^ 15 + 1 / 10 ^ 15" using z small x by simp
  have "x - e - x / 10 ^ 15 - 1 / 10 ^ 15 \<le> z * (1 - 1 / 2 ^ 52)"
    using z(1) d by (simp add: right_diff_distrib)
  moreover have "z * (1 - 1 / 2 ^ 52) \<le> rnd64 z" "rnd64 z \<le> z * (1 + 1 / 2 ^ 52)"
    by (rule rnd64_between [OF big(1)])+
  moreover have "z * (1 + 1 / 2 ^ 52) \<le> x + 1"
    using z(2) d small assms(2) by (simp add: distrib_left)
  moreover have "py_round (Fin x) n = Fin (rnd64 z)"
    using to_float_everyday [OF big] by (simp add: py_round_def z_def m_def)
  ultimately show ?thesis unfolding e_def [symmetric] by (intro exI [of _ "rnd64 z"]) simp
qed

text \<open>The rounding step, for a tick \<open>t\<close> near one of the two.\<close>

lemma tick_step:
  assumes t: "s * (1 - 1 / 2 ^ 52) \<le> t" "t \<le> s * (1 + 1 / 2 ^ 52)" "s = 1 / 100 \<or> s = 1 / 10000"
    and x: "1 / 20 \<le> x" "x \<le> 10 ^ 9" and d: "0 \<le> d" "d \<le> 2 / 10 ^ 9"
  shows "\<exists>q r y b. to_float (x / t) = Fin q \<and> py_round (Fin q) 6 = Fin r
    \<and> to_float (r - d) = Fin y \<and> py_round (fmul (float_of_int \<lceil>y\<rceil>) (Fin t)) 4 = Fin b
    \<and> x - 52 / 10 ^ 6 - x / 10 ^ 12 \<le> b"
proof -
  have tp: "0 < t" "t \<le> 2 / 100" "1 / 20000 \<le> t" using t by auto
  define k where "k = x / t"
  have kt: "k * t = x" using tp(1) by (simp add: k_def)
  have k: "2 \<le> k" "k \<le> 2 * 10 ^ 13"
  proof -
    have "2 * t \<le> x" using tp(2) x(1) by simp
    then show "2 \<le> k" using tp(1) by (simp add: k_def pos_le_divide_eq)
    have "x \<le> 2 * 10 ^ 13 * t" using tp(3) x(2) by simp
    then show "k \<le> 2 * 10 ^ 13" using tp(1) by (simp add: k_def pos_divide_le_eq)
  qed
  define q where "q = rnd64 k"
  have q: "to_float k = Fin q" "k * (1 - 1 / 2 ^ 52) \<le> q" "q \<le> k * (1 + 1 / 2 ^ 52)"
    using to_float_everyday [of k] rnd64_between [of k] k by (simp_all add: q_def)
  have "1 / 100 \<le> q" "q \<le> 10 ^ 14" using q(2,3) k by simp_all
  then obtain r where r: "py_round (Fin q) 6 = Fin r"
    "q - 1 / (2 * 10 ^ 6) - q / 10 ^ 15 - 1 / 10 ^ 15 \<le> r" "r \<le> q + 1"
    using py_round_near [of 6 q] by auto
  define y where "y = rnd64 (r - d)"
  have rd: "1 \<le> r - d" "r - d \<le> 10 ^ 14" using r(2,3) q(2,3) k d by simp_all
  have y: "to_float (r - d) = Fin y" "(r - d) * (1 - 1 / 2 ^ 52) \<le> y" "y \<le> (r - d) * (1 + 1 / 2 ^ 52)"
    using to_float_everyday [of "r - d"] rnd64_between [of "r - d"] rd by (simp_all add: y_def)
  define u :: rat where "u = of_int \<lceil>y\<rceil>"
  have u: "y \<le> u" "u < y + 1" unfolding u_def by linarith+
  have lo: "k - k / 10 ^ 14 - 6 / 10 ^ 7 \<le> u"
    using u(1) y(2) r(2) q(2) d k by simp
  have hi: "u \<le> 3 * 10 ^ 13" using u(2) y(3) r(3) q(3) d k by simp
  have pos: "1 \<le> u" using lo k by simp
  have "\<bar>\<lceil>y\<rceil>\<bar> \<le> 2 ^ 53"
  proof -
    have "(of_int \<lceil>y\<rceil> :: rat) \<le> of_int (2 ^ 53)" "of_int 0 \<le> (of_int \<lceil>y\<rceil> :: rat)"
      using hi pos by (simp_all add: u_def)
    then have "\<lceil>y\<rceil> \<le> 2 ^ 53" "0 \<le> \<lceil>y\<rceil>" by (simp_all only: of_int_le_iff)
    then show ?thesis by simp
  qed
  then have f: "fmul (float_of_int \<lceil>y\<rceil>) (Fin t) = to_float (u * t)"
    by (simp add: float_of_int_exact u_def)
  have "(k - k / 10 ^ 14 - 6 / 10 ^ 7) * t \<le> u * t" using lo tp(1) by (simp add: mult_right_mono)
  moreover have "(k - k / 10 ^ 14 - 6 / 10 ^ 7) * t = x - x / 10 ^ 14 - 6 / 10 ^ 7 * t"
    using kt by (simp add: left_diff_distrib)
  ultimately have ut: "x - x / 10 ^ 14 - 6 / 10 ^ 7 * (2 / 100) \<le> u * t" using tp(2) by simp
  have ut2: "u * t \<le> 10 ^ 13"
  proof -
    have "u * t \<le> 3 * 10 ^ 13 * (2 / 100)" using hi pos tp by (intro mult_mono) simp_all
    then show ?thesis by simp
  qed
  define p where "p = rnd64 (u * t)"
  have p: "to_float (u * t) = Fin p" "u * t * (1 - 1 / 2 ^ 52) \<le> p" "p \<le> u * t * (1 + 1 / 2 ^ 52)"
    using to_float_everyday [of "u * t"] rnd64_between [of "u * t"] ut ut2 x by (simp_all add: p_def)
  have pb: "1 / 100 \<le> p" "p \<le> 10 ^ 14" using p(2,3) ut ut2 x by simp_all
  then obtain b where b: "py_round (Fin p) 4 = Fin b"
    "p - 1 / (2 * 10 ^ 4) - p / 10 ^ 15 - 1 / 10 ^ 15 \<le> b"
    using py_round_near [of 4 p] by auto
  have "x - 52 / 10 ^ 6 - x / 10 ^ 12 \<le> b" using b(2) p(2) ut x by simp
  with q(1) r(1) y(1) f p(1) b(1) show ?thesis by (auto simp: k_def)
qed

lemma round_up_lower:
  assumes "1 / 20 \<le> x" "x \<le> 10 ^ 9"
  shows "\<exists>b. round_up_to_valid_tick (Fin x) = Some (Fin b) \<and> x - 52 / 10 ^ 6 - x / 10 ^ 12 \<le> b"
proof -
  obtain d where d: "to_float (1 / 10 ^ 9) = Fin d" "0 \<le> d" "d \<le> 2 / 10 ^ 9"
    using tick_constants(3) by blast
  have "\<exists>s t. (if flt (Fin x) (Fin 1) then to_float (1 / 10000) else to_float (1 / 100)) = Fin t
      \<and> s * (1 - 1 / 2 ^ 52) \<le> t \<and> t \<le> s * (1 + 1 / 2 ^ 52) \<and> (s = 1 / 100 \<or> s = 1 / 10000)"
    using tick_constants(1,2) by (cases "flt (Fin x) (Fin 1)") fastforce+
  then obtain s t where t: "(if flt (Fin x) (Fin 1) then to_float (1 / 10000) else to_float (1 / 100)) = Fin t"
      "s * (1 - 1 / 2 ^ 52) \<le> t" "t \<le> s * (1 + 1 / 2 ^ 52)" "s = 1 / 100 \<or> s = 1 / 10000" by blast
  have "t \<noteq> 0" using t(2,4) by auto
  moreover obtain q r y b where "to_float (x / t) = Fin q" "py_round (Fin q) 6 = Fin r"
    "to_float (r - d) = Fin y" "py_round (fmul (float_of_int \<lceil>y\<rceil>) (Fin t)) 4 = Fin b"
    "x - 52 / 10 ^ 6 - x / 10 ^ 12 \<le> b"
    using tick_step [OF t(2-4) assms d(2,3)] by blast
  moreover have "\<not> fle (Fin x) (Fin 0)" using assms by simp
  ultimately show ?thesis
    unfolding round_up_to_valid_tick_def Let_def t(1)
    by (simp add: d(1) [simplified] fsub_def fneg_def py_ceil_def)
qed

lemma breakeven_factor:
  "\<exists>f. (case fdiv BREAKEVEN_BUFFER_BPS (Fin 10000) of None \<Rightarrow> None | Some x \<Rightarrow> Some (fadd (Fin 1) x))
      = Some (Fin f) \<and> 1 + 149 / 10 ^ 5 \<le> f \<and> f \<le> 1 + 151 / 10 ^ 5"
proof -
  define g where "g = rnd64 (15 / 10000)"
  have g: "to_float (15 / 10000) = Fin g" "15 / 10000 * (1 - 1 / 2 ^ 52) \<le> g" "g \<le> 15 / 10000 * (1 + 1 / 2 ^ 52)"
    using to_float_everyday [of "15 / 10000"] rnd64_between [of "15 / 10000"] by (simp_all add: g_def)
  have "to_float (1 + g) = Fin (rnd64 (1 + g))" "(1 + g) * (1 - 1 / 2 ^ 52) \<le> rnd64 (1 + g)"
    "rnd64 (1 + g) \<le> (1 + g) * (1 + 1 / 2 ^ 52)"
    using to_float_everyday [of "1 + g"] rnd64_between [of "1 + g"] g(2,3) by simp_all
  with g show ?thesis by (intro exI [of _ "rnd64 (1 + g)"]) (simp add: BREAKEVEN_BUFFER_BPS_def)
qed

lemma breakeven_covers_cost:
  assumes "1 / 20 \<le> a" "a \<le> 10 ^ 8"
  shows "\<exists>b. compute_breakeven_stop_price (Fin a) = Some (Fin b) \<and> a \<le> b"
proof -
  obtain f where f: "(case fdiv BREAKEVEN_BUFFER_BPS (Fin 10000) of None \<Rightarrow> None | Some x \<Rightarrow> Some (fadd (Fin 1) x))
      = Some (Fin f)" "1 + 149 / 10 ^ 5 \<le> f" "f \<le> 1 + 151 / 10 ^ 5"
    using breakeven_factor by blast
  define p where "p = a * f"
  have "a * (1 + 149 / 10 ^ 5) \<le> p" "p \<le> a * (1 + 151 / 10 ^ 5)"
    using assms f(2,3) unfolding p_def by (auto intro!: mult_left_mono)
  then have p: "a + a * 149 / 10 ^ 5 \<le> p" "p \<le> a + a * 151 / 10 ^ 5" by (simp_all add: distrib_left)
  define x where "x = rnd64 p"
  have x: "to_float p = Fin x" "p * (1 - 1 / 2 ^ 52) \<le> x" "x \<le> p * (1 + 1 / 2 ^ 52)"
    using to_float_everyday [of p] rnd64_between [of p] p assms by (simp_all add: x_def)
  have "1 / 20 \<le> x" "x \<le> 10 ^ 9" using x(2,3) p assms by simp_all
  then obtain b where b: "round_up_to_valid_tick (Fin x) = Some (Fin b)" "x - 52 / 10 ^ 6 - x / 10 ^ 12 \<le> b"
    using round_up_lower by blast
  have "a \<le> b" using b(2) x(2) p assms by simp
  moreover have "compute_breakeven_stop_price (Fin a) = Some (Fin b)"
    using f(1) x(1) [unfolded p_def] b(1) by (auto simp: compute_breakeven_stop_price_def split: option.splits)
  ultimately show ?thesis by blast
qed

text \<open>The tick rounding is not always upward: the quotient is first rounded to six decimals,
  so a price less than half a millionth of a tick above the grid is rounded down. The double
  nearest to 100.000000004 becomes 100, below the price.\<close>

theorem tick_rounding_can_go_down:
  "round_up_to_valid_tick (to_float (100 + 4 / 10 ^ 9)) = Some (Fin 100)
   \<and> flt (Fin 100) (to_float (100 + 4 / 10 ^ 9))"
proof -
  define x where "x = rnd64 (100 + 4 / 10 ^ 9)"
  have x: "to_float (100 + 4 / 10 ^ 9) = Fin x" "(100 + 4 / 10 ^ 9) * (1 - 1 / 2 ^ 52) \<le> x"
    "x \<le> (100 + 4 / 10 ^ 9) * (1 + 1 / 2 ^ 52)"
    unfolding x_def by (rule to_float_everyday rnd64_between; simp)+
  obtain t where t: "to_float (1 / 100) = Fin t" "1 / 100 * (1 - 1 / 2 ^ 52) \<le> t"
    "t \<le> 1 / 100 * (1 + 1 / 2 ^ 52)" using tick_constants(1) by blast
  obtain d where d: "to_float (1 / 10 ^ 9) = Fin d" "0 \<le> d" "d \<le> 2 / 10 ^ 9"
    using tick_constants(3) by blast
  have tp: "0 < t" using t(2) by simp
  define k where "k = x / t"
  have k: "10000 + 39 / 10 ^ 8 \<le> k" "k \<le> 10000 + 41 / 10 ^ 8"
    using t x tp by (simp_all add: k_def pos_le_divide_eq pos_divide_le_eq)
  define q where "q = rnd64 k"
  have q: "to_float k = Fin q" "k * (1 - 1 / 2 ^ 52) \<le> q" "q \<le> k * (1 + 1 / 2 ^ 52)"
    using to_float_everyday [of k] rnd64_between [of k] k by (simp_all add: q_def)
  have "\<bar>q * 10 ^ 6 - of_int (10 ^ 10)\<bar> < 1 / 2" using q(2,3) k by simp
  then have "round_half_even (q * 10 ^ 6) = 10 ^ 10" by (rule round_half_even_unique)
  then have r: "py_round (Fin q) 6 = Fin 10000"
    using float_of_int_exact [of 10000] by (simp add: py_round_def float_of_int_def)
  define y where "y = rnd64 (10000 - d)"
  have y: "to_float (10000 - d) = Fin y" "9999 < y"
    using to_float_everyday [of "10000 - d"] rnd64_between [of "10000 - d"] d by (simp_all add: y_def)
  have "y \<le> 10000"
    using rnd64_mono [of "10000 - d" 10000] rnd64_of_int [of 10000] d(2) by (simp add: y_def)
  with y(2) have c: "\<lceil>y\<rceil> = 10000" by (simp add: ceiling_eq_iff)
  define p where "p = rnd64 (10000 * t)"
  have p: "to_float (10000 * t) = Fin p" "10000 * t * (1 - 1 / 2 ^ 52) \<le> p" "p \<le> 10000 * t * (1 + 1 / 2 ^ 52)"
    using to_float_everyday [of "10000 * t"] rnd64_between [of "10000 * t"] t by (simp_all add: p_def)
  have "p * 10 ^ 4 - 10 ^ 6 < 1 / 2" "10 ^ 6 - p * 10 ^ 4 < 1 / 2" using p(2,3) t(2,3) by simp_all
  then have "\<bar>p * 10 ^ 4 - of_int (10 ^ 6)\<bar> < 1 / 2" unfolding abs_less_iff by simp
  then have "round_half_even (p * 10 ^ 4) = 10 ^ 6" by (rule round_half_even_unique)
  then have b: "py_round (Fin p) 4 = Fin 100"
    using float_of_int_exact [of 100] by (simp add: py_round_def float_of_int_def)
  have "100 < x" using x(2) by simp
  then show ?thesis
    using t(1) tp q(1) r y(1) c p(1) b d(1) float_of_int_exact [of 10000]
    unfolding x(1) round_up_to_valid_tick_def
    by (simp add: Let_def k_def fsub_def fneg_def py_ceil_def)
qed

subsection \<open>Stops only tighten\<close>

lemma not_fle_flt: "a \<noteq> NaN \<Longrightarrow> b \<noteq> NaN \<Longrightarrow> \<not> fle a b \<Longrightarrow> fle b a"
  by (cases a; cases b) auto

text \<open>Moving a stop to breakeven never loses protection. For an average cost between five
  cents and 100 million, computed in floating point with all its roundings, the stop after
  \<open>apply_breakeven_stop\<close> is at least the average cost and at least the stop that was active
  before, and it covers the whole broker quantity.\<close>

theorem breakeven_stop_protects:
  assumes "tc_average_entry_price c = Fin a" "1 / 20 \<le> a" "a \<le> 10 ^ 8" "current_stop c \<noteq> NaN"
  shows "\<exists>c'. apply_breakeven_stop c = Some c' \<and> fle (Fin a) (current_stop c')
    \<and> fle (current_stop c) (current_stop c') \<and> tc_stop_quantity c' = tc_broker_quantity c"
proof -
  obtain b where b: "compute_breakeven_stop_price (tc_average_entry_price c) = Some (Fin b)" "a \<le> b"
    using breakeven_covers_cost [OF assms(2,3)] assms(1) by auto
  show ?thesis
  proof (cases "fle (current_stop c) (Fin b)")
    case True
    with b show ?thesis by (simp add: apply_breakeven_stop_def current_stop_def)
  next
    case False
    then have "fle (Fin b) (current_stop c)" using not_fle_flt [of "current_stop c" "Fin b"] assms(4) by simp
    moreover have "fle (Fin a) (Fin b)" using b(2) by simp
    ultimately have "fle (Fin a) (current_stop c)" using fle_trans by blast
    moreover have "fle (current_stop c) (current_stop c)" using assms(4) by (rule fle_refl)
    ultimately show ?thesis using False b by (simp add: apply_breakeven_stop_def current_stop_def)
  qed
qed

theorem breakeven_stop_protects_witness:
  "\<exists>c'. apply_breakeven_stop ((blank_card 0 ''PROD'' ''1'' ''A'')\<lparr>tc_average_entry_price := Fin 100,
       tc_broker_quantity := 7\<rparr>) = Some c' \<and> fle (Fin 100) (current_stop c') \<and> tc_stop_quantity c' = 7"
proof -
  let ?c = "(blank_card 0 ''PROD'' ''1'' ''A'')\<lparr>tc_average_entry_price := Fin 100, tc_broker_quantity := 7\<rparr>"
  have a: "tc_average_entry_price ?c = Fin 100" by simp
  have n: "current_stop ?c \<noteq> NaN" by (simp add: current_stop_def blank_card_def)
  from breakeven_stop_protects [OF a _ _ n] show ?thesis by auto
qed

text \<open>A manual stop is accepted only when it protects at least as much as breakeven and as
  the stop already active; what is refused leaves no new stop.\<close>

theorem manual_stop_never_widens:
  assumes "apply_manual_stop price c = Inr c'" "price \<noteq> NaN"
    "compute_breakeven_stop_price (tc_average_entry_price c) = Some b" "b \<noteq> NaN" "current_stop c \<noteq> NaN"
  shows "fle (current_stop c) price \<and> fle b price \<and> tc_active_stop_price c' = Some price
    \<and> tc_stop_type c' = Some STOP_MANUAL_PRICE \<and> tc_broker_quantity c' = tc_broker_quantity c"
proof -
  let ?m = "fmax b (current_stop c)"
  from assms(1,3) have "\<not> flt price ?m" and c': "c' = c\<lparr>tc_stop_type := Some STOP_MANUAL_PRICE,
      tc_active_stop_price := Some price\<rparr>"
    by (auto simp: apply_manual_stop_def minimum_manual_stop_price_def split: if_splits)
  moreover have "?m \<noteq> NaN" using assms(4,5) by (simp add: fmax_def)
  ultimately have "fle ?m price" using not_flt_fle [of price ?m] assms(2) by simp
  then have "fle b price" "fle (current_stop c) price"
    using fle_trans fmax_ge1 [OF assms(4)] fmax_ge2 [OF assms(5,4)] by blast+
  with c' show ?thesis by simp
qed

lemma breakeven_of_zero: "compute_breakeven_stop_price (Fin 0) = Some (Fin 0)"
  using breakeven_factor
  by (auto simp: compute_breakeven_stop_price_def round_up_to_valid_tick_def split: option.splits)

theorem manual_stop_never_widens_witness:
  "\<exists>c'. apply_manual_stop (Fin 95) ((blank_card 0 ''PROD'' ''1'' ''A'')
       \<lparr>tc_active_stop_price := Some (Fin 90)\<rparr>) = Inr c'
     \<and> fle (Fin 90) (Fin 95) \<and> tc_active_stop_price c' = Some (Fin 95)"
proof -
  let ?c = "(blank_card 0 ''PROD'' ''1'' ''A'')\<lparr>tc_active_stop_price := Some (Fin 90)\<rparr>"
  have b: "compute_breakeven_stop_price (tc_average_entry_price ?c) = Some (Fin 0)"
    using breakeven_of_zero by (simp add: blank_card_def)
  have s: "current_stop ?c = Fin 90" by (simp add: current_stop_def)
  have "\<exists>c'. apply_manual_stop (Fin 95) ?c = Inr c'"
    unfolding apply_manual_stop_def minimum_manual_stop_price_def b s by (simp add: fmax_def)
  then obtain c' where m: "apply_manual_stop (Fin 95) ?c = Inr c'" by blast
  from manual_stop_never_widens [OF m _ b] m s show ?thesis by auto
qed

subsection \<open>The trigger is sticky\<close>

text \<open>Over any sequence of ticks a positive stop triggers exactly when some tick is at or
  below it, and a triggered liquidation is never withdrawn by a recovery of the price.\<close>

theorem stop_trigger_sticky:
  assumes "tc_active_stop_price c = Some stop" "\<not> fle stop (Fin 0)"
  shows "tc_exit_all_required (fold evaluate_tick prices c)
    \<longleftrightarrow> tc_exit_all_required c \<or> (\<exists>p \<in> set prices. fle p stop)"
  using assms
proof (induction prices arbitrary: c)
  case (Cons p prices)
  have "tc_active_stop_price (evaluate_tick p c) = Some stop"
    "tc_exit_all_required (evaluate_tick p c) \<longleftrightarrow> tc_exit_all_required c \<or> fle p stop"
    using Cons.prems by (simp_all add: evaluate_tick_def evaluate_stop_trigger_def)
  with Cons.IH [of "evaluate_tick p c"] Cons.prems(2) show ?case by auto
qed simp

theorem stop_trigger_sticky_witness:
  "tc_exit_all_required (fold evaluate_tick [Fin 101, Fin 99, Fin 120]
     ((blank_card 0 ''PROD'' ''1'' ''A'')\<lparr>tc_active_stop_price := Some (Fin 100)\<rparr>))"
proof -
  let ?c = "(blank_card 0 ''PROD'' ''1'' ''A'')\<lparr>tc_active_stop_price := Some (Fin 100)\<rparr>"
  have s: "tc_active_stop_price ?c = Some (Fin 100)" by simp
  have p: "\<not> fle (Fin 100) (Fin 0)" by simp
  show ?thesis unfolding stop_trigger_sticky [OF s p] by simp
qed

subsection \<open>Reconciliation with the broker\<close>

lemma prices_match_refl: "isfinite p \<Longrightarrow> prices_match p p"
  using to_float_mono [of 0 "1 / 10 ^ 6"]
  by (cases p) (auto simp: prices_match_def fsub_def fneg_def fabs_def)

lemma open_at_broker_fields [simp]:
  "tc_board_status (open_at_broker q p c) = tc_board_status c"
  "tc_broker_quantity (open_at_broker q p c) = q" "tc_orderable_quantity (open_at_broker q p c) = q"
  "tc_average_entry_price (open_at_broker q p c) = p"
  "tc_exit_all_required (open_at_broker q p c) = tc_exit_all_required c"
  "tc_stop_type (open_at_broker q p c) = tc_stop_type c"
  by (simp_all add: open_at_broker_def Let_def)

text \<open>Broker truth wins for quantity and cost, never for intent, and settles at once. When a
  reported holding changes a known card, the card has the broker's quantity and average price;
  a card with an entry or exit in progress keeps its column and its exit flags, any other card
  is an open position; and reconciling the same holding again changes nothing.\<close>

theorem holding_reconciled:
  assumes "reconcile_holding now e acct names cards h = Inr (Some c')"
    "cards (bh_symbol h) = Some c" "isfinite (bh_average_price h)"
  shows "tc_broker_quantity c' = bh_quantity h \<and> tc_average_entry_price c' = bh_average_price h
    \<and> tc_exit_all_required c' = tc_exit_all_required c \<and> tc_stop_type c' = tc_stop_type c
    \<and> tc_board_status c' = (if tc_board_status c \<in> INTENT_PRESERVING_STATUSES then tc_board_status c
        else BS_OPEN_POSITION)
    \<and> reconcile_holding now e acct names (cards(bh_symbol h \<mapsto> c')) h = Inr None"
proof -
  note m = prices_match_refl [OF assms(3)]
  have o: "BS_OPEN_POSITION \<notin> INTENT_PRESERVING_STATUSES" by (simp add: INTENT_PRESERVING_STATUSES_def)
  show ?thesis
  proof (cases "tc_board_status c \<in> INTENT_PRESERVING_STATUSES")
    case True
    with assms m show ?thesis by (auto simp: reconcile_holding_def Let_def split: if_splits)
  next
    case False
    with assms have "c' = open_at_broker (bh_quantity h) (bh_average_price h) (c\<lparr>tc_board_status := BS_OPEN_POSITION\<rparr>)"
      by (auto simp: reconcile_holding_def Let_def discover_manual_position_def split: if_splits)
    with False m o show ?thesis by (simp add: reconcile_holding_def Let_def)
  qed
qed

theorem holding_reconciled_witness:
  "\<exists>c'. reconcile_holding 0 ''PROD'' ''1'' id [''A'' \<mapsto> (blank_card 0 ''PROD'' ''1'' ''A'')
        \<lparr>tc_board_status := BS_SELL_ALL\<rparr>] \<lparr>bh_symbol = ''A'', bh_quantity = 5, bh_average_price = Fin 10\<rparr>
      = Inr (Some c') \<and> tc_broker_quantity c' = 5 \<and> tc_board_status c' = BS_SELL_ALL"
proof -
  let ?c = "(blank_card 0 ''PROD'' ''1'' ''A'')\<lparr>tc_board_status := BS_SELL_ALL\<rparr>"
  let ?h = "\<lparr>bh_symbol = ''A'', bh_quantity = 5, bh_average_price = Fin 10\<rparr>"
  let ?c' = "?c\<lparr>tc_broker_quantity := 5, tc_average_entry_price := Fin 10\<rparr>"
  have r: "reconcile_holding 0 ''PROD'' ''1'' id [''A'' \<mapsto> ?c] ?h = Inr (Some ?c')"
    by (simp add: reconcile_holding_def Let_def INTENT_PRESERVING_STATUSES_def blank_card_def)
  have k: "[''A'' \<mapsto> ?c] (bh_symbol ?h) = Some ?c" by simp
  from holding_reconciled [OF r k] r show ?thesis by (auto simp: INTENT_PRESERVING_STATUSES_def)
qed

end
