(* ===== verification/Board_Mutation.thy ===== *)
theory Board_Mutation
  imports Board_Conflict Position
begin

text \<open>
  \<open>_apply_board_mutation\<close> of \<open>src/services/execution_workflow_service.py\<close>: what each accepted
  request changes on its card. The code mutates the card in place and raises in the middle;
  the transaction around it drops the card then, so a raise is \<open>Inl\<close> and carries no card.
\<close>

subsection \<open>Retiring a plan and a completed cycle\<close>

definition clear_executable_entry_plan :: "bool \<Rightarrow> trade_card \<Rightarrow> trade_card" where
  "clear_executable_entry_plan legacy_planning_stop c =
     (clear_orb_generation_metadata
       (if legacy_planning_stop
        then c\<lparr>tc_stop_type := None, tc_active_stop_price := None, tc_stop_quantity := 0\<rparr> else c))
     \<lparr>tc_selected_orb_window := None, tc_position_percent := Fin 0, tc_planned_quantity := 0,
      tc_target_position_quantity := 0, tc_entry_orb_window := None, tc_entry_orb_high := None,
      tc_entry_orb_low := None, tc_entry_trigger := None, tc_stop_adr := None,
      tc_entry_block_reason := [], tc_next_retry_at := None, tc_entry_attempt_group_id := [],
      tc_entry_attempt_count := 0, tc_entry_client_order_id := [],
      tc_entry_pending_attempt_number := 0, tc_entry_submission_unresolved := False,
      tc_entry_cancel_in_flight := False, tc_entry_cancel_reason := [],
      tc_entry_cancel_command_id := [], tc_entry_remaining_target_quantity := 0,
      tc_capital_reservation_id := [], tc_market_data_last_trusted_price := None,
      tc_market_data_last_trusted_at := None, tc_market_data_outage_started_at := None,
      tc_market_data_outage_risk_tier := []\<rparr>"

definition restart_closed_cycle :: "timestamp \<Rightarrow> bool \<Rightarrow> trade_card \<Rightarrow> trade_card" where
  "restart_closed_cycle requested_at legacy_planning_stop c =
     (clear_executable_entry_plan legacy_planning_stop c)
     \<lparr>tc_previous_board_status := Some (tc_board_status c), tc_board_status := BS_BUYLIST,
      tc_board_status_updated_at := requested_at, tc_session_date := None,
      tc_last_buy_today_session_date := None, tc_rejected_orb_snapshot := [],
      tc_buy_today_note := [], tc_entry_runtime_status := None,
      tc_position_runtime_status := PRS_NONE, tc_broker_quantity := 0, tc_orderable_quantity := 0,
      tc_average_entry_price := Fin 0, tc_stop_type := None, tc_active_stop_price := None,
      tc_stop_quantity := 0, tc_pending_stop_type := None, tc_pending_stop_price := None,
      tc_pending_stop_quantity := 0, tc_pending_stop_command_id := [],
      tc_pending_stop_requested_at := None, tc_exit_all_required := False,
      tc_sell_all_at_market_open := False, tc_pending_partial_sell_quantity := 0,
      tc_reserved_sell_quantity := 0, tc_next_exit_retry_at := None, tc_exit_attempt_count := 0,
      tc_exit_attempt_group_id := [], tc_exit_client_order_id := [],
      tc_exit_pending_attempt_number := 0, tc_exit_submission_unresolved := False,
      tc_last_exit_error := [], tc_exit_cancel_in_flight := False,
      tc_exit_cancel_requested_at := None, tc_exit_cancel_command_id := [],
      tc_return_to_buylist_after_close := False, tc_warnings := []\<rparr>"

subsection \<open>Breakout planning\<close>

definition set_breakout_price ::
    "timestamp \<Rightarrow> pyfloat \<Rightarrow> pyfloat \<Rightarrow> execution_order list \<Rightarrow> trade_card \<Rightarrow> trade_card" where
  "set_breakout_price requested_at price buffer active_orders c0 =
     (let legacy = has_legacy_planning_stop c0;
          restarting = tc_board_status c0 = BS_CLOSED;
          c = (if restarting then restart_closed_cycle requested_at legacy c0 else c0);
          previous_breakout = or_zero (tc_breakout_price c);
          had_canonical_target = (\<not> restarting \<and> isfinite previous_breakout \<and> fpos previous_breakout);
          preserve = (\<not> restarting \<and> (active_orders \<noteq> [] \<or> has_durable_execution_evidence c));
          c1 = (if preserve then c else clear_executable_entry_plan legacy c);
          c2 = (if tc_board_status c1 \<in> {BS_WATCHLIST, BS_BUYLIST} \<and> \<not> had_canonical_target
                then c1\<lparr>tc_buffer_pct := buffer\<rparr> else c1);
          c3 = c2\<lparr>tc_breakout_price := Some price,
                  tc_buylist_member := (tc_board_status c2 \<noteq> BS_WATCHLIST \<or> tc_buylist_member c2)\<rparr>
      in if preserve then c3
         else c3\<lparr>tc_buy_today_note := [],
                 tc_entry_runtime_status := (if tc_board_status c3 = BS_BUY_TODAY
                                             then Some ERS_ORB_FORMING else None)\<rparr>)"

definition leave_planning_columns :: "trade_card \<Rightarrow> board_error + trade_card" where
  "leave_planning_columns c =
     (if tc_board_status c = BS_BUY_TODAY
      then bind_result (move_board_card BS_BUYLIST c) (move_board_card BS_WATCHLIST)
      else if tc_board_status c = BS_BUYLIST then move_board_card BS_WATCHLIST c
      else Inr c)"

definition clear_breakout_price :: "trade_card \<Rightarrow> board_error + trade_card" where
  "clear_breakout_price c =
     bind_result (leave_planning_columns c) (\<lambda>c1.
       Inr ((clear_executable_entry_plan (has_legacy_planning_stop c) c1)
         \<lparr>tc_breakout_price := None, tc_buylist_member := False, tc_session_date := None,
          tc_buy_today_note := [], tc_entry_runtime_status := None\<rparr>))"

subsection \<open>Entries, exits and stops\<close>

definition request_stop_change ::
    "board_command \<Rightarrow> stop_type \<Rightarrow> pyfloat \<Rightarrow> trade_card \<Rightarrow> board_error + trade_card" where
  "request_stop_change m kind price c =
     bind_result (build_stop_change_command (tc_environment c) (tc_account_no c) (tc_symbol c)
        kind price (tc_broker_quantity c)) (\<lambda>s.
       Inr (c\<lparr>tc_pending_stop_type := Some (sc_stop_type s), tc_pending_stop_price := Some (sc_price s),
              tc_pending_stop_quantity := sc_quantity s, tc_pending_stop_command_id := bc_command_id m,
              tc_pending_stop_requested_at := Some (bc_requested_at m)\<rparr>))"

definition cancel_entry :: "trade_card \<Rightarrow> board_error + trade_card" where
  "cancel_entry c =
     (if tc_board_status c = BS_BUY_TODAY \<and> tc_entry_client_order_id c = []
      then bind_result (move_board_card BS_BUYLIST c) (\<lambda>c1.
        Inr (c1\<lparr>tc_buy_today_note := [], tc_entry_runtime_status := None, tc_entry_block_reason := [],
                tc_entry_attempt_group_id := [], tc_entry_attempt_count := 0,
                tc_entry_client_order_id := [], tc_entry_pending_attempt_number := 0,
                tc_entry_submission_unresolved := False\<rparr>))
      else if tc_board_status c \<in> {BS_BUY_TODAY, BS_ENTRY_PENDING}
      then Inr (c\<lparr>tc_entry_block_reason := ''cancel_requested''\<rparr>)
      else Inl (BoardCommandRejected (CannotCancelEntryFrom (tc_board_status c))))"

definition retire_liquidation_objective :: "trade_card \<Rightarrow> trade_card" where
  "retire_liquidation_objective c =
     c\<lparr>tc_sell_all_at_market_open := False, tc_exit_all_required := False,
       tc_reserved_sell_quantity := 0, tc_next_exit_retry_at := None, tc_exit_attempt_count := 0,
       tc_exit_attempt_group_id := [], tc_exit_client_order_id := [],
       tc_exit_pending_attempt_number := 0, tc_exit_submission_unresolved := False,
       tc_last_exit_error := [], tc_exit_cancel_in_flight := False,
       tc_exit_cancel_requested_at := None, tc_exit_cancel_command_id := []\<rparr>"

definition request_partial_sell :: "int \<Rightarrow> trade_card \<Rightarrow> board_error + trade_card" where
  "request_partial_sell quantity c =
     (let source_status = tc_board_status c;
          orderable = (if tc_orderable_quantity c = 0 then tc_broker_quantity c
                       else tc_orderable_quantity c)
      in guarded (first_error
          [(source_status \<notin> {BS_OPEN_POSITION, BS_SELL_ALL}, BoardCommandRejected PartialSellNotAllowed),
           (quantity \<le> 0, BoardCommandRejected QuantityNotPositive),
           (orderable \<le> 0, BoardCommandRejected NothingOrderable)])
         (if orderable \<le> quantity
          then bind_result (if source_status = BS_SELL_ALL then Inr c else move_board_card BS_SELL_ALL c)
            (\<lambda>c1. Inr (c1\<lparr>tc_exit_all_required := True, tc_pending_partial_sell_quantity := 0\<rparr>))
          else bind_result (move_board_card BS_PARTIAL_SELL
              (if source_status = BS_SELL_ALL then retire_liquidation_objective c else c))
            (\<lambda>c1. Inr (c1\<lparr>tc_pending_partial_sell_quantity := quantity,
                           tc_position_runtime_status := PRS_PARTIAL_EXIT_PENDING\<rparr>))))"

definition cancel_partial_sell :: "execution_order list \<Rightarrow> trade_card \<Rightarrow> board_error + trade_card" where
  "cancel_partial_sell active_orders c =
     (if tc_board_status c \<noteq> BS_PARTIAL_SELL then Inl (BoardCommandRejected NoPartialSell)
      else let durable_exit_started = (list_ex (\<lambda>r. eo_side r = SELL) active_orders
                 \<or> tc_exit_client_order_id c \<noteq> [] \<or> tc_exit_pending_attempt_number c \<noteq> 0
                 \<or> tc_reserved_sell_quantity c \<noteq> 0);
               c1 = c\<lparr>tc_pending_partial_sell_quantity := 0, tc_next_exit_retry_at := None,
                      tc_last_exit_error := []\<rparr>
        in if durable_exit_started then Inr c1
           else bind_result (move_board_card BS_OPEN_POSITION c1) (\<lambda>c2.
             Inr (c2\<lparr>tc_position_runtime_status := PRS_OPEN, tc_reserved_sell_quantity := 0,
                     tc_exit_attempt_group_id := [], tc_exit_attempt_count := 0,
                     tc_exit_client_order_id := [], tc_exit_pending_attempt_number := 0,
                     tc_exit_submission_unresolved := False, tc_exit_cancel_in_flight := False,
                     tc_exit_cancel_requested_at := None, tc_exit_cancel_command_id := []\<rparr>)))"

text \<open>\<open>card.active_stop_price and price < card.active_stop_price\<close>\<close>

definition widens_active_stop :: "pyfloat \<Rightarrow> trade_card \<Rightarrow> bool" where
  "widens_active_stop price c \<longleftrightarrow> (case tc_active_stop_price c of
      None \<Rightarrow> False | Some stop \<Rightarrow> truthy stop \<and> flt price stop)"

definition set_orb_stop :: "board_command \<Rightarrow> trade_card \<Rightarrow> board_error + trade_card" where
  "set_orb_stop m c =
     (let orb_low = or_zero (tc_entry_orb_low c)
      in guarded (first_error
          [(tc_position_runtime_status c = PRS_NONE, BoardCommandRejected NoOpenPosition),
           (fle orb_low (Fin 0), BoardCommandRejected OrbLowUnavailable),
           (widens_active_stop orb_low c, BoardCommandRejected WouldWidenStop)])
         (request_stop_change m STOP_ORB_LOW orb_low c))"

definition set_breakeven_stop :: "board_command \<Rightarrow> trade_card \<Rightarrow> board_error + trade_card" where
  "set_breakeven_stop m c =
     (if tc_position_runtime_status c = PRS_NONE then Inl (BoardCommandRejected NoOpenPosition)
      else case compute_breakeven_stop_price (tc_average_entry_price c) of
             None \<Rightarrow> Inl BoardValueError
           | Some breakeven \<Rightarrow>
               if widens_active_stop breakeven c then Inl (BoardCommandRejected WouldWidenStop)
               else request_stop_change m STOP_BREAKEVEN breakeven c)"

definition set_manual_stop :: "board_command \<Rightarrow> pyfloat \<Rightarrow> trade_card \<Rightarrow> board_error + trade_card" where
  "set_manual_stop m price c =
     (if tc_position_runtime_status c = PRS_NONE then Inl (BoardCommandRejected NoOpenPosition)
      else case minimum_manual_stop_price c of
             None \<Rightarrow> Inl BoardValueError
           | Some minimum \<Rightarrow>
               if flt price minimum then Inl (BoardCommandRejected WouldWidenStop)
               else request_stop_change m STOP_MANUAL_PRICE price c)"

definition cancel_queued_sell_all :: "trade_card \<Rightarrow> board_error + trade_card" where
  "cancel_queued_sell_all c =
     (if tc_board_status c \<noteq> BS_SELL_ALL \<or> \<not> tc_sell_all_at_market_open c
      then Inl (BoardCommandRejected NoQueuedSellAll)
      else bind_result (move_board_card BS_OPEN_POSITION c) (\<lambda>c1.
        Inr (c1\<lparr>tc_sell_all_at_market_open := False, tc_exit_all_required := False,
                tc_position_runtime_status := PRS_OPEN\<rparr>)))"

subsection \<open>Column moves\<close>

definition move_to_watchlist :: "date \<Rightarrow> trade_card \<Rightarrow> board_error + trade_card" where
  "move_to_watchlist session c =
     bind_result (move_board_card BS_WATCHLIST c) (\<lambda>c1.
       Inr ((clear_executable_entry_plan (has_legacy_planning_stop c) c1)
         \<lparr>tc_watchlist_member := True, tc_watchlist_session_date := Some session,
          tc_buylist_member := False, tc_session_date := None, tc_entry_runtime_status := None,
          tc_buy_today_note := []\<rparr>))"

definition remove_from_buylist :: "trade_card \<Rightarrow> board_error + trade_card" where
  "remove_from_buylist c =
     bind_result (move_board_card BS_WATCHLIST c) (\<lambda>c1.
       Inr ((clear_executable_entry_plan (has_legacy_planning_stop c) c1)
         \<lparr>tc_buylist_member := False, tc_session_date := None, tc_entry_runtime_status := None,
          tc_buy_today_note := []\<rparr>))"

definition move_to_buylist :: "trade_card \<Rightarrow> board_error + trade_card" where
  "move_to_buylist c =
     bind_result (move_board_card BS_BUYLIST c) (\<lambda>c1.
       let c2 = (clear_executable_entry_plan (has_legacy_planning_stop c) c1)
             \<lparr>tc_buylist_member := True, tc_buy_today_note := [], tc_session_date := None,
              tc_entry_runtime_status := None, tc_entry_block_reason := []\<rparr>
       in Inr (if tc_entry_client_order_id c2 = [] \<and> tc_broker_quantity c2 \<le> 0
               then c2\<lparr>tc_entry_attempt_group_id := [], tc_entry_attempt_count := 0\<rparr> else c2))"

definition activate_for_today ::
    "string \<Rightarrow> date \<Rightarrow> board_command \<Rightarrow> string \<Rightarrow> trade_card \<Rightarrow> board_error + trade_card" where
  "activate_for_today resolved session m command_key c =
     bind_result (move_board_card BS_BUY_TODAY c) (\<lambda>c1.
     bind_result (activation_symbol_key resolved (bc_symbol m) command_key c1) (\<lambda>key.
     bind_result (build_entry_monitoring_command (tc_environment c1) (tc_account_no c1) (tc_symbol c1) True)
       (\<lambda>monitoring.
         Inr (c1\<lparr>tc_buy_today_note := [], tc_last_buy_today_session_date := None,
                 tc_rejected_orb_snapshot := [], tc_kis_ws_symbol_key := key,
                 tc_session_date := Some session, tc_buylist_member := em_enabled monitoring,
                 tc_entry_runtime_status := Some ERS_ORB_FORMING, tc_entry_block_reason := []\<rparr>))))"

definition request_sell_all :: "board_action_context \<Rightarrow> trade_card \<Rightarrow> board_error + trade_card" where
  "request_sell_all ctx c =
     bind_result (move_board_card BS_SELL_ALL c) (\<lambda>c1.
       let c2 = c1\<lparr>tc_exit_all_required := True, tc_pending_partial_sell_quantity := 0,
                   tc_position_runtime_status := PRS_LIQUIDATING\<rparr>
       in Inr (if bx_regular_session_open ctx = Some False
               then c2\<lparr>tc_sell_all_at_market_open := True,
                       tc_position_runtime_status := PRS_QUEUED_FOR_OPEN\<rparr> else c2))"

subsection \<open>The dispatcher\<close>

text \<open>What the mutation reads of its surroundings: the market clock and the symbol-key store.\<close>

record board_surroundings =
  bs_now :: moment
  bs_resolved_key :: string

definition apply_board_mutation ::
    "board_surroundings \<Rightarrow> board_command \<Rightarrow> board_action_context \<Rightarrow> execution_order list
       \<Rightarrow> trade_card \<Rightarrow> board_error + trade_card" where
  "apply_board_mutation env m ctx active_orders c =
     (let upcoming = current_or_next_nyse_session_date (bs_now env)
      in case bc_request m of
        SetBreakoutPrice price buffer \<Rightarrow>
          Inr (set_breakout_price (bc_requested_at m) price buffer active_orders c)
      | ClearBreakoutPrice \<Rightarrow> clear_breakout_price c
      | CancelEntry \<Rightarrow> cancel_entry c
      | RequestPartialSell quantity \<Rightarrow> request_partial_sell quantity c
      | CancelPartialSell \<Rightarrow> cancel_partial_sell active_orders c
      | SetOrbStop \<Rightarrow> set_orb_stop m c
      | SetBreakevenStop \<Rightarrow> set_breakeven_stop m c
      | SetManualStop price \<Rightarrow> set_manual_stop m price c
      | CancelQueuedSellAll \<Rightarrow> cancel_queued_sell_all c
      | ReorderCard priority \<Rightarrow> Inr (c\<lparr>tc_kanban_priority := priority\<rparr>)
      | MoveToWatchlist \<Rightarrow> move_to_watchlist upcoming c
      | RemoveFromBuylist \<Rightarrow> remove_from_buylist c
      | MoveToBuylist \<Rightarrow> move_to_buylist c
      | ActivateForToday key \<Rightarrow> activate_for_today (bs_resolved_key env)
          (case bx_session_date ctx of Some d \<Rightarrow> d | None \<Rightarrow> upcoming) m key c
      | RequestSellAll \<Rightarrow> request_sell_all ctx c
      | AdoptExternalOrder _ _ \<Rightarrow> Inl (BoardCommandRejected UnrecognizedCommand))"

end
