(* ===== verification/Board_Safety.thy ===== *)
theory Board_Safety
  imports Board_Mutation
begin

text \<open>
  What the mutations of \<open>Board_Mutation\<close> guarantee: accepted requests follow the board graph,
  broker facts and active protection are out of their reach, a stop request only tightens, a
  planning move hides nothing live, and a restarted card starts clean.
\<close>

subsection \<open>Frames\<close>

lemma move_Inr_iff [guard_simps]:
  "move_board_card target c = Inr c' \<longleftrightarrow> validate_board_transition (tc_board_status c) target = None
     \<and> c' = c\<lparr>tc_previous_board_status := Some (tc_board_status c), tc_board_status := target\<rparr>"
  by (auto simp: move_board_card_def split: option.splits board_transition_error.splits)

lemma clear_plan_frame [frame_simps]:
  "tc_board_status (clear_executable_entry_plan l c) = tc_board_status c"
  "tc_broker_quantity (clear_executable_entry_plan l c) = tc_broker_quantity c"
  "tc_orderable_quantity (clear_executable_entry_plan l c) = tc_orderable_quantity c"
  "tc_average_entry_price (clear_executable_entry_plan l c) = tc_average_entry_price c"
  "tc_stop_type (clear_executable_entry_plan l c) = (if l then None else tc_stop_type c)"
  "tc_active_stop_price (clear_executable_entry_plan l c) = (if l then None else tc_active_stop_price c)"
  "tc_stop_quantity (clear_executable_entry_plan l c) = (if l then 0 else tc_stop_quantity c)"
  "tc_environment (clear_executable_entry_plan l c) = tc_environment c"
  "tc_account_no (clear_executable_entry_plan l c) = tc_account_no c"
  "tc_symbol (clear_executable_entry_plan l c) = tc_symbol c"
  "tc_version (clear_executable_entry_plan l c) = tc_version c"
  "tc_breakout_price (clear_executable_entry_plan l c) = tc_breakout_price c"
  by (simp_all add: clear_executable_entry_plan_def clear_orb_generation_metadata_def)

text \<open>The facts only broker reconciliation may write, and the protection only the runtime's
  acknowledgement may install.\<close>

definition broker_facts :: "trade_card \<Rightarrow> int \<times> int \<times> pyfloat" where
  "broker_facts c = (tc_broker_quantity c, tc_orderable_quantity c, tc_average_entry_price c)"

definition protection :: "trade_card \<Rightarrow> stop_type option \<times> pyfloat option \<times> int" where
  "protection c = (tc_stop_type c, tc_active_stop_price c, tc_stop_quantity c)"

lemma legacy_stop_flat: "has_legacy_planning_stop c \<Longrightarrow> tc_broker_quantity c = 0"
  by (simp add: has_legacy_planning_stop_def has_durable_execution_evidence_def Let_def)

lemmas mutation_defs = clear_breakout_price_def leave_planning_columns_def cancel_entry_def
  request_partial_sell_def cancel_partial_sell_def set_orb_stop_def set_breakeven_stop_def
  set_manual_stop_def cancel_queued_sell_all_def move_to_watchlist_def remove_from_buylist_def
  move_to_buylist_def activate_for_today_def request_sell_all_def request_stop_change_def
  retire_liquidation_objective_def

lemma set_breakout_frame:
  assumes "tc_board_status c \<noteq> BS_CLOSED"
  shows "tc_board_status (set_breakout_price now p b act c) = tc_board_status c"
    "broker_facts (set_breakout_price now p b act c) = broker_facts c"
    "card_id_of (set_breakout_price now p b act c) = card_id_of c"
    "\<not> has_legacy_planning_stop c \<Longrightarrow> protection (set_breakout_price now p b act c) = protection c"
  using assms
  by (simp_all add: set_breakout_price_def Let_def frame_simps broker_facts_def protection_def card_id_of_def)

text \<open>What every accepted request other than a restart leaves alone.\<close>

definition board_frame :: "trade_card \<Rightarrow> trade_card \<Rightarrow> bool" where
  "board_frame c c' \<longleftrightarrow> broker_facts c' = broker_facts c \<and> card_id_of c' = card_id_of c
     \<and> (tc_broker_quantity c \<noteq> 0 \<longrightarrow> protection c' = protection c)"

lemma board_frame_refl [simp]: "board_frame c c"
  by (simp add: board_frame_def)

lemma reorder_frame: "board_frame c (c\<lparr>tc_kanban_priority := n\<rparr>)"
  by (simp add: board_frame_def broker_facts_def protection_def card_id_of_def)

lemmas board_frame_defs = board_frame_def broker_facts_def protection_def card_id_of_def

text \<open>A column is reached by accepted board moves.\<close>

definition moves_to :: "board_status \<Rightarrow> board_status \<Rightarrow> bool" where
  "moves_to s t \<longleftrightarrow> (\<exists>ts. board_walk s ts \<and> last (s # ts) = t)"

lemma moves_to_refl [simp]: "moves_to s s"
  unfolding moves_to_def by (rule exI [of _ "[]"]) simp

lemma moves_to_one: "validate_board_transition s t = None \<Longrightarrow> moves_to s t"
  unfolding moves_to_def by (rule exI [of _ "[t]"]) simp

lemma moves_to_two:
  "validate_board_transition s u = None \<Longrightarrow> validate_board_transition u t = None \<Longrightarrow> moves_to s t"
  unfolding moves_to_def by (rule exI [of _ "[u, t]"]) simp

lemmas move_steps = guard_simps bind_result_Inr_iff guarded_Inr_iff

lemma planning_move_facts:
  "move_to_watchlist d c = Inr c' \<Longrightarrow> board_frame c c' \<and> moves_to (tc_board_status c) (tc_board_status c')"
  "remove_from_buylist c = Inr c' \<Longrightarrow> board_frame c c' \<and> moves_to (tc_board_status c) (tc_board_status c')"
  "move_to_buylist c = Inr c' \<Longrightarrow> board_frame c c' \<and> moves_to (tc_board_status c) (tc_board_status c')"
  by (auto simp: move_to_watchlist_def remove_from_buylist_def move_to_buylist_def move_steps Let_def
      frame_simps board_frame_defs moves_to_one dest: legacy_stop_flat)

lemma clear_breakout_facts:
  "clear_breakout_price c = Inr c' \<Longrightarrow> board_frame c c' \<and> moves_to (tc_board_status c) (tc_board_status c')"
  by (auto simp: clear_breakout_price_def leave_planning_columns_def move_steps frame_simps
      board_frame_defs moves_to_one intro: moves_to_two dest: legacy_stop_flat split: if_splits)

lemma entry_request_facts:
  "cancel_entry c = Inr c' \<Longrightarrow> board_frame c c' \<and> moves_to (tc_board_status c) (tc_board_status c')"
  "activate_for_today k d m key c = Inr c' \<Longrightarrow> board_frame c c' \<and> moves_to (tc_board_status c) (tc_board_status c')"
  by (auto simp: cancel_entry_def activate_for_today_def move_steps board_frame_defs moves_to_one
      split: if_splits)

lemma exit_request_facts:
  "request_partial_sell q c = Inr c' \<Longrightarrow> board_frame c c' \<and> moves_to (tc_board_status c) (tc_board_status c')"
  "cancel_partial_sell act c = Inr c' \<Longrightarrow> board_frame c c' \<and> moves_to (tc_board_status c) (tc_board_status c')"
  "request_sell_all ctx c = Inr c' \<Longrightarrow> board_frame c c' \<and> moves_to (tc_board_status c) (tc_board_status c')"
  "cancel_queued_sell_all c = Inr c' \<Longrightarrow> board_frame c c' \<and> moves_to (tc_board_status c) (tc_board_status c')"
     apply (auto simp: request_partial_sell_def retire_liquidation_objective_def move_steps Let_def
      board_frame_defs moves_to_one split: if_splits) [1]
    apply (auto simp: cancel_partial_sell_def move_steps Let_def board_frame_defs moves_to_one split: if_splits) [1]
   apply (auto simp: request_sell_all_def move_steps Let_def board_frame_defs moves_to_one split: if_splits) [1]
  apply (auto simp: cancel_queued_sell_all_def move_steps board_frame_defs moves_to_one split: if_splits) [1]
  done

lemma stop_change_Inr_iff:
  "request_stop_change m k p c = Inr c' \<longleftrightarrow> isfinite p \<and> \<not> fle p (Fin 0) \<and> 0 < tc_broker_quantity c
     \<and> c' = c\<lparr>tc_pending_stop_type := Some k, tc_pending_stop_price := Some p,
              tc_pending_stop_quantity := tc_broker_quantity c,
              tc_pending_stop_command_id := bc_command_id m,
              tc_pending_stop_requested_at := Some (bc_requested_at m)\<rparr>"
  by (auto simp: request_stop_change_def build_stop_change_command_def)

lemma stop_request_facts:
  "request_stop_change m k p c = Inr c' \<Longrightarrow> board_frame c c' \<and> moves_to (tc_board_status c) (tc_board_status c')"
  by (simp add: stop_change_Inr_iff board_frame_defs)

text \<open>An accepted stop request is a stop change that does not widen.\<close>

lemma round_up_not_NaN: "round_up_to_valid_tick p = Some b \<Longrightarrow> b \<noteq> NaN"
proof
  assume r: "round_up_to_valid_tick p = Some b" and n: "b = NaN"
  let ?t = "if flt p (Fin 1) then to_float (1 / 10000) else to_float (1 / 100)"
  obtain t where t: "?t = Fin t" "t \<noteq> 0" using tick_constants(1,2) by (cases "flt p (Fin 1)") auto
  have k: "py_round (fmul (float_of_int k) (Fin t)) 4 \<noteq> NaN" for k
  proof -
    have "float_of_int k \<noteq> NaN" by (simp add: float_of_int_def)
    with t(2) have "fmul (float_of_int k) (Fin t) \<noteq> NaN"
      by (cases "float_of_int k") (auto simp: signed_inf_def)
    then show ?thesis by (cases "fmul (float_of_int k) (Fin t)") (auto simp: py_round_def)
  qed
  show False using r n unfolding round_up_to_valid_tick_def Let_def t(1)
    by (auto simp: k split: if_splits option.splits)
qed

definition tightens :: "pyfloat \<Rightarrow> trade_card \<Rightarrow> bool" where
  "tightens price c \<longleftrightarrow> (case tc_active_stop_price c of None \<Rightarrow> True | Some stop \<Rightarrow> fle stop price)"

lemma not_widening_tightens:
  assumes "\<not> widens_active_stop p c" "isfinite p" "\<not> fle p (Fin 0)" "pred_option isfinite (tc_active_stop_price c)"
  shows "tightens p c"
proof (cases "tc_active_stop_price c")
  case (Some stop)
  obtain x where x: "p = Fin x" using assms(2) by (rule isfinite_cases)
  have "isfinite stop" using assms(4) Some by simp
  then obtain y where y: "stop = Fin y" by (rule isfinite_cases)
  show ?thesis using assms(1,3) Some by (auto simp: widens_active_stop_def tightens_def x y truthy_def)
qed (simp add: tightens_def)

lemma above_minimum_tightens:
  assumes "minimum_manual_stop_price c = Some minimum" "\<not> flt p minimum" "isfinite p"
    "pred_option isfinite (tc_active_stop_price c)"
  shows "tightens p c"
proof (cases "tc_active_stop_price c")
  case (Some stop)
  from assms(1) obtain b where b: "compute_breakeven_stop_price (tc_average_entry_price c) = Some b"
    "minimum = fmax b (current_stop c)" by (auto simp: minimum_manual_stop_price_def)
  have bn: "b \<noteq> NaN"
    using b(1) round_up_not_NaN by (auto simp: compute_breakeven_stop_price_def split: option.splits)
  have s: "current_stop c = stop" "stop \<noteq> NaN" using Some assms(4) by (auto simp: current_stop_def)
  have "minimum \<noteq> NaN" using bn s b(2) by (simp add: fmax_def)
  moreover have "p \<noteq> NaN" using assms(3) by auto
  ultimately have "fle minimum p" using not_flt_fle [of p minimum] assms(2) by simp
  moreover have "fle stop minimum" unfolding b(2) s(1) using fmax_ge2 [OF s(2) bn] .
  ultimately show ?thesis using Some fle_trans by (auto simp: tightens_def)
qed (simp add: tightens_def)

text \<open>A price a stop change accepts is finite and positive.\<close>

lemma stop_change_tightens:
  assumes "request_stop_change m k p c = Inr c'" "\<not> widens_active_stop p c"
  shows "\<exists>k p. request_stop_change m k p c = Inr c'
    \<and> (pred_option isfinite (tc_active_stop_price c) \<longrightarrow> tightens p c)"
  using assms not_widening_tightens [OF assms(2)] by (blast dest: stop_change_Inr_iff [THEN iffD1])

lemma accepted_stop_request:
  assumes "stop_request (bc_request m)" "apply_board_mutation env m ctx act c = Inr c'"
  shows "\<exists>k p. request_stop_change m k p c = Inr c'
    \<and> (pred_option isfinite (tc_active_stop_price c) \<longrightarrow> tightens p c)"
proof (cases "bc_request m")
  case SetOrbStop
  with assms(2) show ?thesis
    by (intro stop_change_tightens [of m STOP_ORB_LOW "or_zero (tc_entry_orb_low c)"])
      (auto simp: apply_board_mutation_def set_orb_stop_def move_steps Let_def split: if_splits)
next
  case SetBreakevenStop
  with assms(2) obtain b where "request_stop_change m STOP_BREAKEVEN b c = Inr c'" "\<not> widens_active_stop b c"
    by (auto simp: apply_board_mutation_def set_breakeven_stop_def Let_def split: if_splits option.splits)
  then show ?thesis by (rule stop_change_tightens)
next
  case (SetManualStop price)
  with assms(2) obtain n where n: "minimum_manual_stop_price c = Some n" "\<not> flt price n"
    and s: "request_stop_change m STOP_MANUAL_PRICE price c = Inr c'"
    by (auto simp: apply_board_mutation_def set_manual_stop_def Let_def split: if_splits option.splits)
  from s have "isfinite price" by (simp add: stop_change_Inr_iff)
  with above_minimum_tightens [OF n] s show ?thesis by blast
qed (use assms(1) in \<open>simp_all add: stop_request_def\<close>)

subsection \<open>All requests\<close>

lemma mutation_facts:
  assumes "apply_board_mutation env m ctx act c = Inr c'"
    and "tc_board_status c = BS_CLOSED \<Longrightarrow> \<forall>p b. bc_request m \<noteq> SetBreakoutPrice p b"
  shows "board_frame c c' \<and> moves_to (tc_board_status c) (tc_board_status c')"
proof (cases "stop_request (bc_request m)")
  case True
  from accepted_stop_request [OF True assms(1)] stop_request_facts show ?thesis by blast
next
  case False
  note a = assms(1) [unfolded apply_board_mutation_def Let_def]
  show ?thesis
  proof (cases "bc_request m")
    case (SetBreakoutPrice p b)
    with assms(2) have open_card: "tc_board_status c \<noteq> BS_CLOSED" by blast
    have "tc_broker_quantity c \<noteq> 0 \<Longrightarrow> \<not> has_legacy_planning_stop c" using legacy_stop_flat by blast
    with a SetBreakoutPrice set_breakout_frame [OF open_card] show ?thesis by (auto simp: board_frame_def)
  qed (use a False in \<open>auto simp: stop_request_def planning_move_facts clear_breakout_facts
    entry_request_facts exit_request_facts reorder_frame\<close>)
qed

text \<open>(C34) Every accepted board request moves its card along the board graph. The new column is
  reached from the old one by moves the transition table allows; the one exception is the
  documented restart of a closed card, which a breakout price sends back to BUYLIST.\<close>

theorem board_request_follows_graph:
  assumes "apply_board_mutation env m ctx act c = Inr c'"
  shows "\<exists>ts. board_walk (tc_board_status c) ts \<and> last (tc_board_status c # ts) = tc_board_status c'
    \<or> tc_board_status c = BS_CLOSED \<and> tc_board_status c' = BS_BUYLIST
      \<and> bc_request m \<in> range (\<lambda>(p, b). SetBreakoutPrice p b)"
proof (cases "tc_board_status c = BS_CLOSED \<and> bc_request m \<in> range (\<lambda>(p, b). SetBreakoutPrice p b)")
  case True
  with assms have "tc_board_status c' = BS_BUYLIST"
    by (auto simp: apply_board_mutation_def set_breakout_price_def restart_closed_cycle_def frame_simps Let_def)
  with True show ?thesis by blast
next
  case False
  then have "tc_board_status c = BS_CLOSED \<Longrightarrow> \<forall>p b. bc_request m \<noteq> SetBreakoutPrice p b"
    by (auto simp: image_iff)
  from mutation_facts [OF assms this] show ?thesis by (auto simp: moves_to_def)
qed


text \<open>(C4) A stop request only tightens. Once the runtime acknowledges an accepted stop request,
  the active stop is a finite positive price not below the stop that was active before, and it
  covers the whole broker quantity; until then the old protection stays active.\<close>

theorem stop_request_tightens:
  assumes "stop_request (bc_request m)" "apply_board_mutation env m ctx act c = Inr c'"
    "pred_option isfinite (tc_active_stop_price c)" "bc_command_id m \<noteq> []"
  shows "protection c' = protection c
    \<and> (case acknowledge_pending_stop_change c' of (done, c'') \<Rightarrow> done
        \<and> (\<exists>price. tc_active_stop_price c'' = Some price \<and> isfinite price \<and> fpos price
             \<and> fle (or_zero (tc_active_stop_price c)) price)
        \<and> tc_stop_quantity c'' = tc_broker_quantity c \<and> 0 < tc_stop_quantity c'')"
proof -
  obtain k p where s: "request_stop_change m k p c = Inr c'" and t: "tightens p c"
    using accepted_stop_request [OF assms(1,2)] assms(3) by blast
  from s have p: "isfinite p" "\<not> fle p (Fin 0)" by (simp_all add: stop_change_Inr_iff)
  then have "fpos p" by (auto elim!: isfinite_cases)
  moreover have "fle (or_zero (tc_active_stop_price c)) p"
    using t p by (cases "tc_active_stop_price c") (auto simp: tightens_def elim!: isfinite_cases)
  ultimately show ?thesis
    using s assms(4) p(1) by (auto simp: stop_change_Inr_iff acknowledge_pending_stop_change_def protection_def)
qed

subsection \<open>Planning\<close>

text \<open>Retiring a plan leaves no evidence when there was none, or only the imported stop.\<close>

lemma clear_plan_evidence:
  "\<not> has_durable_execution_evidence c \<Longrightarrow> \<not> has_durable_execution_evidence (clear_executable_entry_plan l c)"
  by (cases l) (simp_all add: has_durable_execution_evidence_def clear_executable_entry_plan_def
      clear_orb_generation_metadata_def)

lemma clear_legacy_stop:
  "tc_stop_quantity c = 0 \<Longrightarrow> clear_executable_entry_plan True c =
     clear_executable_entry_plan True (c\<lparr>tc_stop_type := None, tc_active_stop_price := None\<rparr>)"
  by (simp add: clear_executable_entry_plan_def clear_orb_generation_metadata_def)

lemma clear_plan_no_evidence:
  assumes "\<not> has_durable_execution_evidence c \<or> has_legacy_planning_stop c"
  shows "\<not> has_durable_execution_evidence (clear_executable_entry_plan (has_legacy_planning_stop c) c)"
proof (cases "has_legacy_planning_stop c")
  case True
  then have q: "tc_stop_quantity c = 0"
    and e: "\<not> has_durable_execution_evidence (c\<lparr>tc_stop_type := None, tc_active_stop_price := None\<rparr>)"
    by (simp_all add: has_legacy_planning_stop_def Let_def)
  from clear_plan_evidence [OF e, of True] show ?thesis
    unfolding clear_legacy_stop [OF q, symmetric] by (simp add: True)
next
  case False
  with assms show ?thesis using clear_plan_evidence by blast
qed

lemma evidence_frame [simp]:
  "has_durable_execution_evidence (c\<lparr>tc_board_status := s\<rparr>) = has_durable_execution_evidence c"
  "has_durable_execution_evidence (c\<lparr>tc_previous_board_status := ps\<rparr>) = has_durable_execution_evidence c"
  "has_durable_execution_evidence (c\<lparr>tc_watchlist_member := w\<rparr>) = has_durable_execution_evidence c"
  "has_durable_execution_evidence (c\<lparr>tc_watchlist_session_date := d\<rparr>) = has_durable_execution_evidence c"
  "has_durable_execution_evidence (c\<lparr>tc_buylist_member := b\<rparr>) = has_durable_execution_evidence c"
  "has_durable_execution_evidence (c\<lparr>tc_session_date := d\<rparr>) = has_durable_execution_evidence c"
  "has_durable_execution_evidence (c\<lparr>tc_entry_runtime_status := e\<rparr>) = has_durable_execution_evidence c"
  "has_durable_execution_evidence (c\<lparr>tc_buy_today_note := n\<rparr>) = has_durable_execution_evidence c"
  "has_durable_execution_evidence (c\<lparr>tc_buffer_pct := x\<rparr>) = has_durable_execution_evidence c"
  "has_durable_execution_evidence (c\<lparr>tc_breakout_price := y\<rparr>) = has_durable_execution_evidence c"
  by (simp_all add: has_durable_execution_evidence_def)

lemma clear_plan_moved:
  "clear_executable_entry_plan l (c\<lparr>tc_previous_board_status := ps, tc_board_status := s\<rparr>) =
     (clear_executable_entry_plan l c)\<lparr>tc_previous_board_status := ps, tc_board_status := s\<rparr>"
  by (simp add: clear_executable_entry_plan_def clear_orb_generation_metadata_def)

text \<open>Planning never hides anything live. When a move of a card to the hidden Watchlist is
  accepted, the symbol has no active owned order and no active unowned broker order, and the
  card that disappears from the board is a passive planning card: nothing on it can execute.\<close>

theorem hidden_card_is_passive:
  assumes "bc_request m \<in> {MoveToWatchlist, RemoveFromBuylist}"
    "require_board_action_not_conflicted (bc_request m) os xs c = Inr act"
    "apply_board_mutation env m ctx act c = Inr c'"
  shows "tc_board_status c' = BS_WATCHLIST \<and> is_passive_planning_card c'
    \<and> active_owned_orders os c = [] \<and> active_external_orders xs c = []"
proof -
  have n: "active_owned_orders os c = []" "active_external_orders xs c = []"
    "\<not> has_durable_execution_evidence c \<or> has_legacy_planning_stop c"
    using assms(1,2) by (auto simp: conflict_passed conflict_defs planning_stage_move_def split: if_splits)
  have "tc_board_status c' = BS_WATCHLIST \<and> \<not> has_durable_execution_evidence c'"
    using assms(1,3) clear_plan_no_evidence [OF n(3)]
    by (auto simp: apply_board_mutation_def move_to_watchlist_def remove_from_buylist_def Let_def
        move_steps clear_plan_moved)
  with n show ?thesis by (simp add: is_passive_planning_card_def)
qed

lemma restart_status [simp]: "tc_board_status (restart_closed_cycle now l c) = BS_BUYLIST"
  by (simp add: restart_closed_cycle_def)

lemma restart_no_evidence: "\<not> has_durable_execution_evidence (restart_closed_cycle now l c)"
  unfolding has_durable_execution_evidence_def
  by (simp add: restart_closed_cycle_def clear_executable_entry_plan_def clear_orb_generation_metadata_def
      truthy_def)

text \<open>A closed card is reopened only from a settled cycle, and starts clean. When a breakout
  price is accepted for a CLOSED card, no shares, no reservation, no unresolved submission and
  no active order of either kind were left, and the card is a passive BUYLIST card with the new
  price and without any residue of the old cycle.\<close>

theorem restart_from_settled_cycle:
  assumes "tc_board_status c = BS_CLOSED" "bc_request m = SetBreakoutPrice price buffer"
    "require_board_action_not_conflicted (bc_request m) os xs c = Inr act"
    "apply_board_mutation env m ctx act c = Inr c'"
  shows "tc_broker_quantity c \<le> 0 \<and> tc_capital_reservation_id c = []
    \<and> \<not> tc_entry_submission_unresolved c \<and> \<not> tc_exit_submission_unresolved c
    \<and> active_owned_orders os c = [] \<and> active_external_orders xs c = []
    \<and> tc_board_status c' = BS_BUYLIST \<and> is_passive_planning_card c'
    \<and> tc_breakout_price c' = Some price \<and> tc_buylist_member c'"
proof -
  have b: "closed_card_cycle_blockers c = []" "active_owned_orders os c = []" "active_external_orders xs c = []"
    using assms(1-3) by (simp_all add: conflict_passed conflict_defs split: if_splits)
  have settled: "tc_broker_quantity c \<le> 0 \<and> tc_capital_reservation_id c = []
      \<and> \<not> tc_entry_submission_unresolved c \<and> \<not> tc_exit_submission_unresolved c"
    using b(1) by (auto simp: closed_card_cycle_blockers_def split: if_splits)
  have "c' = set_breakout_price (bc_requested_at m) price buffer act c"
    using assms(2,4) by (simp add: apply_board_mutation_def Let_def)
  then have "tc_board_status c' = BS_BUYLIST \<and> \<not> has_durable_execution_evidence c'
      \<and> tc_breakout_price c' = Some price \<and> tc_buylist_member c'"
    using assms(1) clear_plan_evidence [OF restart_no_evidence]
    by (simp add: set_breakout_price_def Let_def restart_status frame_simps)
  with settled b show ?thesis by (simp add: is_passive_planning_card_def)
qed

subsection \<open>Exits\<close>

text \<open>A partial sell is a partial sell. An accepted request sells a positive quantity below
  what is orderable and then is the card's only exit objective coming from a liquidation, or
  it becomes a full liquidation; no working sell order of the card exists at that point, and a
  liquidation that already has an order is never reduced.\<close>

theorem partial_sell_bounded:
  assumes "bc_request m = RequestPartialSell q"
    "require_board_action_not_conflicted (bc_request m) os xs c = Inr act"
    "apply_board_mutation env m ctx act c = Inr c'"
  shows "0 < q \<and> list_all (\<lambda>r. eo_side r \<noteq> SELL) act
    \<and> (tc_board_status c = BS_SELL_ALL \<longrightarrow> tc_exit_client_order_id c = [])
    \<and> (tc_board_status c' = BS_SELL_ALL \<and> tc_exit_all_required c' \<and> tc_pending_partial_sell_quantity c' = 0
       \<or> tc_board_status c' = BS_PARTIAL_SELL \<and> tc_pending_partial_sell_quantity c' = q
         \<and> q < (if tc_orderable_quantity c = 0 then tc_broker_quantity c else tc_orderable_quantity c)
         \<and> (tc_board_status c = BS_SELL_ALL \<longrightarrow> \<not> tc_exit_all_required c' \<and> \<not> tc_sell_all_at_market_open c'))"
proof -
  have "\<not> list_ex (\<lambda>r. eo_side r = SELL) act"
    "tc_board_status c = BS_SELL_ALL \<Longrightarrow> tc_exit_client_order_id c = []"
    using assms(1,2) by (auto simp: conflict_passed conflict_defs split: if_splits)
  moreover have "request_partial_sell q c = Inr c'"
    using assms(1,3) by (simp add: apply_board_mutation_def Let_def)
  ultimately show ?thesis
    by (auto simp: request_partial_sell_def retire_liquidation_objective_def move_steps Let_def
        list_ex_iff list_all_iff split: if_splits)
qed

text \<open>A card that the broker reports flat while a partial sell was pending is lost to the
  board. Reconciliation closes it and leaves the pending partial quantity in place, which the
  restart guard reads as an exit that is not terminal: from then on every request of the board
  other than a reordering is refused or raises, for every state of the order tables and every
  context, so the symbol can never be planned again from the board.\<close>

theorem closed_partial_sell_never_restarts:
  assumes "tc_board_status c = BS_PARTIAL_SELL" "0 < tc_broker_quantity c"
    "tc_pending_partial_sell_quantity c \<noteq> 0" "reconcile_missing c = Inr (Some c')"
  shows "tc_board_status c' = BS_CLOSED
    \<and> {m. bc_request m \<notin> range ReorderCard \<and>
          (\<exists>os xs act env ctx c''. require_board_action_not_conflicted (bc_request m) os xs c' = Inr act
             \<and> apply_board_mutation env m ctx act c' = Inr c'')} = {}"
proof -
  have c: "tc_board_status c' = BS_CLOSED" "tc_broker_quantity c' = 0"
    "tc_pending_partial_sell_quantity c' \<noteq> 0" "tc_position_runtime_status c' = PRS_CLOSED"
    using assms by (auto simp: reconcile_missing_def reconcile_manual_exit_def confirm_flat_def Let_def)
  have blocked: "closed_card_cycle_blockers c' \<noteq> []" using c(3) by (simp add: closed_card_cycle_blockers_def)
  have evidence: "has_durable_execution_evidence c'" using c(4) by (simp add: has_durable_execution_evidence_def)
  have dead: "False" if r: "bc_request m \<notin> range ReorderCard"
    and g: "require_board_action_not_conflicted (bc_request m) os xs c' = Inr act"
    and a: "apply_board_mutation env m ctx act c' = Inr c''" for m os xs act env ctx c''
  proof (cases "stop_request (bc_request m)")
    case True
    from accepted_stop_request [OF True a] c(2) show False by (auto simp: stop_change_Inr_iff)
  next
    case False
    have g': "board_conflict (bc_request m) os xs c' = None" using g by (simp add: conflict_passed)
    note a' = a [unfolded apply_board_mutation_def Let_def]
    show False
    proof (cases "bc_request m")
      case ClearBreakoutPrice
      with g' evidence show False by (simp add: board_conflict_def has_durable_entry_or_position_evidence_def)
    qed (use r g' a' False c(1) blocked in \<open>auto simp: stop_request_def board_conflict_def
      breakout_plan_conflict_def move_to_watchlist_def remove_from_buylist_def move_to_buylist_def
      activate_for_today_def request_sell_all_def cancel_entry_def request_partial_sell_def
      cancel_partial_sell_def cancel_queued_sell_all_def move_board_card_def
      validate_board_transition_def Let_def\<close>)
  qed
  show ?thesis using c(1) dead by blast
qed

subsection \<open>Concrete requests\<close>

definition sample_command :: "board_request \<Rightarrow> board_command" where
  "sample_command r =
     \<lparr>bc_environment = ''PROD'', bc_account_no = ''1'', bc_symbol = ''AAPL'',
      bc_expected_card_version = 1, bc_command_id = ''c1'', bc_requested_at = 5,
      bc_expected_readiness_generation = 0, bc_expected_ownership_version = 0,
      bc_expected_execution_owner = [], bc_expected_strategy_instance_id = [], bc_request = r\<rparr>"

definition sample_surroundings :: board_surroundings where
  "sample_surroundings = \<lparr>bs_now = (739000, 0), bs_resolved_key = []\<rparr>"

definition held_card :: trade_card where
  "held_card = (blank_card 0 ''PROD'' ''1'' ''AAPL'')
     \<lparr>tc_board_status := BS_OPEN_POSITION, tc_position_runtime_status := PRS_OPEN,
      tc_broker_quantity := 10, tc_orderable_quantity := 10, tc_average_entry_price := Fin 100,
      tc_entry_orb_low := Some (Fin 95), tc_stop_type := Some STOP_ORB_LOW,
      tc_active_stop_price := Some (Fin 90), tc_stop_quantity := 10\<rparr>"

lemma sample_command_fields [simp]:
  "bc_request (sample_command r) = r" "bc_command_id (sample_command r) = ''c1''"
  "bc_requested_at (sample_command r) = 5"
  by (simp_all add: sample_command_def)

lemma held_card_fields [simp]:
  "tc_board_status held_card = BS_OPEN_POSITION" "tc_broker_quantity held_card = 10"
  "tc_orderable_quantity held_card = 10" "tc_active_stop_price held_card = Some (Fin 90)"
  "tc_position_runtime_status held_card = PRS_OPEN" "tc_entry_orb_low held_card = Some (Fin 95)"
  by (simp_all add: held_card_def)

lemma held_sell_all:
  "\<exists>c'. apply_board_mutation sample_surroundings (sample_command RequestSellAll) default_action_context [] held_card = Inr c'"
  by (simp add: apply_board_mutation_def request_sell_all_def move_board_card_def
      validate_board_transition_def Let_def)

theorem board_request_follows_graph_witness:
  "\<exists>c' ts. apply_board_mutation sample_surroundings (sample_command RequestSellAll)
        default_action_context [] held_card = Inr c'
     \<and> board_walk BS_OPEN_POSITION ts \<and> last (BS_OPEN_POSITION # ts) = tc_board_status c'"
proof -
  obtain c' where a: "apply_board_mutation sample_surroundings (sample_command RequestSellAll)
      default_action_context [] held_card = Inr c'" using held_sell_all by blast
  from board_request_follows_graph [OF a] a show ?thesis by auto
qed


theorem stop_request_tightens_witness:
  "\<exists>c'. apply_board_mutation sample_surroundings (sample_command SetOrbStop)
        default_action_context [] held_card = Inr c'
     \<and> protection c' = protection held_card
     \<and> tc_stop_quantity (snd (acknowledge_pending_stop_change c')) = 10"
proof -
  have "\<exists>c'. apply_board_mutation sample_surroundings (sample_command SetOrbStop)
      default_action_context [] held_card = Inr c'"
    by (simp add: apply_board_mutation_def set_orb_stop_def widens_active_stop_def
        request_stop_change_def build_stop_change_command_def Let_def)
  then obtain c' where a: "apply_board_mutation sample_surroundings (sample_command SetOrbStop)
      default_action_context [] held_card = Inr c'" by blast
  have s: "stop_request (bc_request (sample_command SetOrbStop))" by (simp add: stop_request_def)
  from stop_request_tightens [OF s a] a show ?thesis by (auto split: prod.splits)
qed

text \<open>Planning and exit requests with empty order tables.\<close>

definition no_externals :: external_table where
  "no_externals = \<lparr>xt_ids = [], xt_rows = Map.empty\<rparr>"

lemma no_orders [simp]:
  "card_orders empty_orders c = []" "active_owned_orders empty_orders c = []"
  "active_external_orders no_externals c = []"
  by (simp_all add: card_orders_def active_owned_orders_def list_execution_orders_for_card_def
      table_orders_def empty_orders_def active_external_orders_def no_externals_def
      list_discovered_external_orders_for_account_def table_externals_def map_filter_def)

definition planned_card :: "board_status \<Rightarrow> trade_card" where
  "planned_card s = (blank_card 0 ''PROD'' ''1'' ''AAPL'')\<lparr>tc_board_status := s\<rparr>"

lemma planned_card_facts [simp]:
  "tc_board_status (planned_card s) = s" "\<not> has_durable_execution_evidence (planned_card s)"
  "closed_card_cycle_blockers (planned_card s) = []"
  by (simp_all add: planned_card_def blank_card_def has_durable_execution_evidence_def truthy_def
      closed_card_cycle_blockers_def)

theorem hidden_card_is_passive_witness:
  "\<exists>c'. apply_board_mutation sample_surroundings (sample_command MoveToWatchlist)
        default_action_context [] (planned_card BS_BUYLIST) = Inr c'
     \<and> tc_board_status c' = BS_WATCHLIST \<and> is_passive_planning_card c'"
proof -
  let ?m = "sample_command MoveToWatchlist"
  have g: "require_board_action_not_conflicted (bc_request ?m) empty_orders no_externals
      (planned_card BS_BUYLIST) = Inr []"
    by (simp add: conflict_passed conflict_defs planning_stage_move_def)
  have "\<exists>c'. apply_board_mutation sample_surroundings ?m default_action_context [] (planned_card BS_BUYLIST) = Inr c'"
    by (simp add: apply_board_mutation_def move_to_watchlist_def move_board_card_def
        validate_board_transition_def Let_def)
  then obtain c' where a: "apply_board_mutation sample_surroundings ?m default_action_context []
      (planned_card BS_BUYLIST) = Inr c'" by blast
  from hidden_card_is_passive [OF _ g a] a show ?thesis by simp
qed

theorem restart_from_settled_cycle_witness:
  "\<exists>c'. apply_board_mutation sample_surroundings (sample_command (SetBreakoutPrice (Fin 50) (Fin 0)))
        default_action_context [] (planned_card BS_CLOSED) = Inr c'
     \<and> is_passive_planning_card c' \<and> tc_breakout_price c' = Some (Fin 50)"
proof -
  let ?m = "sample_command (SetBreakoutPrice (Fin 50) (Fin 0))"
  have g: "require_board_action_not_conflicted (bc_request ?m) empty_orders no_externals
      (planned_card BS_CLOSED) = Inr []"
    by (simp add: conflict_passed conflict_defs)
  obtain c' where a: "apply_board_mutation sample_surroundings ?m default_action_context []
      (planned_card BS_CLOSED) = Inr c'" by (simp add: apply_board_mutation_def Let_def)
  from restart_from_settled_cycle [OF planned_card_facts(1) sample_command_fields(1) g a] a
  show ?thesis by blast
qed

lemma held_card_quiet:
  "\<not> tc_entry_submission_unresolved held_card" "\<not> tc_exit_submission_unresolved held_card"
  "\<not> tc_entry_cancel_in_flight held_card" "\<not> tc_exit_cancel_in_flight held_card"
  by (simp_all add: held_card_def blank_card_def)

theorem partial_sell_bounded_witness:
  "\<exists>c'. apply_board_mutation sample_surroundings (sample_command (RequestPartialSell 4))
        default_action_context [] held_card = Inr c'
     \<and> tc_board_status c' = BS_PARTIAL_SELL \<and> tc_pending_partial_sell_quantity c' = 4"
proof -
  let ?m = "sample_command (RequestPartialSell 4)"
  have g: "require_board_action_not_conflicted (bc_request ?m) empty_orders no_externals held_card = Inr []"
    by (simp add: conflict_passed conflict_defs held_card_quiet stop_request_def)
  have "\<exists>c'. apply_board_mutation sample_surroundings ?m default_action_context [] held_card = Inr c'
      \<and> tc_board_status c' \<noteq> BS_SELL_ALL"
    by (simp add: apply_board_mutation_def request_partial_sell_def move_board_card_def
        validate_board_transition_def Let_def)
  then obtain c' where a: "apply_board_mutation sample_surroundings ?m default_action_context [] held_card = Inr c'"
    and n: "tc_board_status c' \<noteq> BS_SELL_ALL" by blast
  from partial_sell_bounded [OF sample_command_fields(1) g a] a n show ?thesis by auto
qed

theorem closed_partial_sell_never_restarts_witness:
  "\<exists>c'. reconcile_missing (held_card\<lparr>tc_board_status := BS_PARTIAL_SELL,
          tc_pending_partial_sell_quantity := 4\<rparr>) = Inr (Some c')
     \<and> {m. bc_request m \<notin> range ReorderCard \<and>
          (\<exists>os xs act env ctx c''. require_board_action_not_conflicted (bc_request m) os xs c' = Inr act
             \<and> apply_board_mutation env m ctx act c' = Inr c'')} = {}"
proof -
  let ?c = "held_card\<lparr>tc_board_status := BS_PARTIAL_SELL, tc_pending_partial_sell_quantity := 4\<rparr>"
  have "\<exists>c'. reconcile_missing ?c = Inr (Some c')"
    by (simp add: reconcile_missing_def reconcile_manual_exit_def confirm_flat_def Let_def)
  then obtain c' where r: "reconcile_missing ?c = Inr (Some c')" by blast
  have "tc_board_status ?c = BS_PARTIAL_SELL" "0 < tc_broker_quantity ?c"
    "tc_pending_partial_sell_quantity ?c \<noteq> 0" by simp_all
  from closed_partial_sell_never_restarts [OF this r] r show ?thesis by blast
qed

end
