(* ===== verification/Stop_Change.thy ===== *)
theory Stop_Change
  imports Trade_Card
begin

text \<open>
  \<open>src/services/stop_change_coordinator.py\<close>: the process-local record of stop requests that are
  committed but may be newer than the card snapshot of the runtime worker. The state is the
  dictionary of pending changes by card key. Each method takes the locks of its cards before it
  reads or writes, so the methods are atomic steps on that dictionary.
\<close>

record coordinated_stop_change =
  sg_card_key :: string
  sg_command_id :: string
  sg_request_card_version :: int
  sg_stop_type :: "stop_type option"
  sg_price :: pyfloat
  sg_quantity :: int
  sg_requested_at :: timestamp

type_synonym stop_coordinator = "string \<rightharpoonup> coordinated_stop_change"

datatype stop_change_error = NoPendingStopChange | NoRequestTimestamp

definition stop_change_from_card :: "trade_card \<Rightarrow> stop_change_error + coordinated_stop_change" where
  "stop_change_from_card c =
     (case (tc_pending_stop_price c, tc_pending_stop_requested_at c) of
        (None, _) \<Rightarrow> Inl NoPendingStopChange
      | (Some price, requested) \<Rightarrow>
          if tc_pending_stop_command_id c = [] then Inl NoPendingStopChange
          else (case requested of
                  None \<Rightarrow> Inl NoRequestTimestamp
                | Some requested_at \<Rightarrow> Inr \<lparr>sg_card_key = card_key c, sg_command_id = tc_pending_stop_command_id c,
                    sg_request_card_version = tc_version c, sg_stop_type = tc_pending_stop_type c,
                    sg_price = price, sg_quantity = tc_pending_stop_quantity c, sg_requested_at = requested_at\<rparr>))"

definition matches_active :: "coordinated_stop_change \<Rightarrow> trade_card \<Rightarrow> bool" where
  "matches_active g c \<longleftrightarrow> tc_stop_type c = sg_stop_type g
     \<and> (case tc_active_stop_price c of None \<Rightarrow> False | Some p \<Rightarrow> feq p (sg_price g))
     \<and> tc_stop_quantity c = sg_quantity g \<and> tc_pending_stop_command_id c = []"

definition apply_to :: "coordinated_stop_change \<Rightarrow> trade_card \<Rightarrow> trade_card" where
  "apply_to g c =
     c\<lparr>tc_pending_stop_type := sg_stop_type g, tc_pending_stop_price := Some (sg_price g),
       tc_pending_stop_quantity := sg_quantity g, tc_pending_stop_command_id := sg_command_id g,
       tc_pending_stop_requested_at := Some (sg_requested_at g)\<rparr>"

definition record_durable :: "trade_card \<Rightarrow> stop_coordinator \<Rightarrow> stop_change_error + stop_coordinator" where
  "record_durable c pending =
     bind_result (stop_change_from_card c) (\<lambda>g. Inr (pending(sg_card_key g \<mapsto> g)))"

definition superseded :: "coordinated_stop_change \<Rightarrow> trade_card \<Rightarrow> bool" where
  "superseded g c \<longleftrightarrow> sg_request_card_version g < tc_version c \<and> tc_pending_stop_command_id c = []"

definition reconcile_durable :: "trade_card \<Rightarrow> stop_coordinator \<Rightarrow> bool \<times> stop_coordinator" where
  "reconcile_durable c pending =
     (case pending (card_key c) of
        None \<Rightarrow> (False, pending)
      | Some g \<Rightarrow>
          if tc_pending_stop_command_id c = sg_command_id g then (False, pending)
          else if \<not> matches_active g c \<and> \<not> superseded g c then (False, pending)
          else (True, pending(card_key c := None)))"

text \<open>One card of \<open>overlay_pending\<close>; the lookup goes to the copy taken before the loop.\<close>

definition overlay_card ::
    "stop_coordinator \<Rightarrow> trade_card \<Rightarrow> stop_coordinator \<Rightarrow> trade_card \<times> stop_coordinator" where
  "overlay_card copied c pending =
     (case copied (card_key c) of
        None \<Rightarrow> (c, pending)
      | Some g \<Rightarrow>
          if tc_pending_stop_command_id c = sg_command_id g then (apply_to g c, pending)
          else if matches_active g c then (c, pending)
          else if tc_board_status c \<notin> {BS_OPEN_POSITION, BS_PARTIAL_SELL} then (c, pending)
          else if superseded g c then (c, snd (reconcile_durable c pending))
          else if tc_pending_stop_command_id c \<noteq> [] \<and> tc_pending_stop_command_id c \<noteq> sg_command_id g
          then (c, pending)
          else (apply_to g c, pending))"

fun overlay_cards ::
    "stop_coordinator \<Rightarrow> trade_card list \<Rightarrow> stop_coordinator \<Rightarrow> trade_card list \<times> stop_coordinator" where
  "overlay_cards copied [] pending = ([], pending)"
| "overlay_cards copied (c # cs) pending =
     (let (c', pending1) = overlay_card copied c pending; (cs', pending2) = overlay_cards copied cs pending1
      in (c' # cs', pending2))"

definition overlay_pending :: "trade_card list \<Rightarrow> stop_coordinator \<Rightarrow> trade_card list \<times> stop_coordinator" where
  "overlay_pending cards pending = overlay_cards pending cards pending"

definition pending_for :: "string \<Rightarrow> stop_coordinator \<Rightarrow> coordinated_stop_change option" where
  "pending_for key pending = pending key"

subsection \<open>A committed request is never missed\<close>

definition pending_stop :: "trade_card \<Rightarrow> stop_type option \<times> pyfloat option \<times> int \<times> string \<times> timestamp option" where
  "pending_stop c = (tc_pending_stop_type c, tc_pending_stop_price c, tc_pending_stop_quantity c,
     tc_pending_stop_command_id c, tc_pending_stop_requested_at c)"

lemma from_card_Inr:
  assumes "stop_change_from_card c = Inr g"
  shows "sg_card_key g = card_key c" "sg_command_id g = tc_pending_stop_command_id c" "sg_command_id g \<noteq> []"
    "sg_request_card_version g = tc_version c" "pending_stop (apply_to g w) = pending_stop c"
  using assms by (auto simp: stop_change_from_card_def apply_to_def pending_stop_def
      split: option.splits if_splits)

lemma overlay_other:
  "copied (card_key c) = None \<Longrightarrow> overlay_card copied c pending = (c, pending)"
  by (simp add: overlay_card_def)

text \<open>What the worker sees of a card does not depend on the records retired on the way.\<close>

lemma overlay_view: "fst (overlay_card copied c p) = fst (overlay_card copied c Map.empty)"
  by (simp add: overlay_card_def split: option.split)

lemma overlay_cards_map:
  "fst (overlay_cards copied cs p) = map (\<lambda>c. fst (overlay_card copied c Map.empty)) cs"
proof (induction cs arbitrary: p)
  case (Cons c cs)
  obtain c' p1 where 1: "overlay_card copied c p = (c', p1)" by (cases "overlay_card copied c p")
  obtain cs' p2 where 2: "overlay_cards copied cs p1 = (cs', p2)" by (cases "overlay_cards copied cs p1")
  show ?case using Cons.IH [of p1] overlay_view [of copied c p] by (simp add: 1 2)
qed simp

lemma overlay_shows:
  assumes "copied (card_key w) = Some g" "tc_board_status w \<in> {BS_OPEN_POSITION, BS_PARTIAL_SELL}"
    "tc_version w \<le> sg_request_card_version g" "tc_pending_stop_command_id w = []" "\<not> matches_active g w"
  shows "fst (overlay_card copied w p) = apply_to g w"
  using assms by (simp add: overlay_card_def superseded_def)

text \<open>A committed stop request cannot be missed by the runtime. After a request was recorded,
  overlaying any batch of cards the worker loaded before the commit shows that request on its
  card: type, price, quantity, command and time are those committed, unless the snapshot is
  already protected by exactly that stop; the other fields of the snapshot are untouched.\<close>

theorem committed_stop_not_missed:
  assumes "record_durable c pending = Inr pending'" "i < length ws" "card_key (ws ! i) = card_key c"
    "tc_version (ws ! i) \<le> tc_version c" "tc_pending_stop_command_id (ws ! i) = []"
    "tc_board_status (ws ! i) \<in> {BS_OPEN_POSITION, BS_PARTIAL_SELL}"
  shows "let w = ws ! i; w' = fst (overlay_pending ws pending') ! i
    in pending_stop w' = pending_stop c \<and> (\<exists>g. w' = apply_to g w)
       \<or> w' = w \<and> tc_stop_type w = tc_pending_stop_type c \<and> tc_stop_quantity w = tc_pending_stop_quantity c
         \<and> (\<exists>p q. tc_active_stop_price w = Some p \<and> tc_pending_stop_price c = Some q \<and> feq p q)"
proof -
  from assms(1) obtain g where g: "stop_change_from_card c = Inr g" "pending' = pending(sg_card_key g \<mapsto> g)"
    by (auto simp: record_durable_def bind_result_Inr_iff)
  note f = from_card_Inr [OF g(1)]
  have l: "pending' (card_key (ws ! i)) = Some g" using g(2) f(1) assms(3) by simp
  have o: "fst (overlay_pending ws pending') ! i = fst (overlay_card pending' (ws ! i) Map.empty)"
    using assms(2) by (simp add: overlay_pending_def overlay_cards_map)
  show ?thesis
  proof (cases "matches_active g (ws ! i)")
    case False
    have "tc_version (ws ! i) \<le> sg_request_card_version g" using f(4) assms(4) by simp
    from overlay_shows [of pending' "ws ! i" g, OF l assms(6) this assms(5)] False
    have "fst (overlay_card pending' (ws ! i) Map.empty) = apply_to g (ws ! i)" by blast
    with o f(5) show ?thesis unfolding Let_def by metis
  next
    case True
    then have "fst (overlay_card pending' (ws ! i) Map.empty) = ws ! i"
      using l f(3) by (simp add: overlay_card_def matches_active_def)
    moreover have "sg_stop_type g = tc_pending_stop_type c" "sg_quantity g = tc_pending_stop_quantity c"
      "tc_pending_stop_price c = Some (sg_price g)"
      using f(5) [of c] by (simp_all add: pending_stop_def apply_to_def)
    ultimately show ?thesis using True o
      by (auto simp: Let_def matches_active_def split: option.splits)
  qed
qed

definition waiting_card :: trade_card where
  "waiting_card = (blank_card 0 ''PROD'' ''1'' ''AAPL'')
     \<lparr>tc_board_status := BS_OPEN_POSITION, tc_broker_quantity := 10\<rparr>"

definition requesting_card :: trade_card where
  "requesting_card = waiting_card
     \<lparr>tc_version := 2, tc_pending_stop_type := Some STOP_BREAKEVEN, tc_pending_stop_price := Some (Fin 101),
      tc_pending_stop_quantity := 10, tc_pending_stop_command_id := ''c'',
      tc_pending_stop_requested_at := Some 7\<rparr>"

lemma request_recorded:
  "\<exists>p. record_durable requesting_card Map.empty = Inr p"
  by (simp add: record_durable_def stop_change_from_card_def requesting_card_def)

theorem committed_stop_not_missed_witness:
  "\<exists>p. record_durable requesting_card Map.empty = Inr p
     \<and> pending_stop (fst (overlay_pending [waiting_card] p) ! 0) = pending_stop requesting_card"
proof -
  obtain p where r: "record_durable requesting_card Map.empty = Inr p" using request_recorded by blast
  have w: "0 < length [waiting_card]" "card_key ([waiting_card] ! 0) = card_key requesting_card"
    "tc_version ([waiting_card] ! 0) \<le> tc_version requesting_card"
    "tc_pending_stop_command_id ([waiting_card] ! 0) = []"
    "tc_board_status ([waiting_card] ! 0) \<in> {BS_OPEN_POSITION, BS_PARTIAL_SELL}"
    by (simp_all add: waiting_card_def requesting_card_def card_key_def blank_card_def)
  have "tc_stop_quantity waiting_card \<noteq> tc_pending_stop_quantity requesting_card"
    by (simp add: waiting_card_def requesting_card_def blank_card_def)
  with committed_stop_not_missed [OF r w] r show ?thesis by (auto simp: Let_def)
qed

subsection \<open>A request is retired once it is served\<close>

text \<open>The life of a request ends with its acknowledgement and not before. A card write that
  still carries the request keeps it recorded; the first durable write after the runtime
  acknowledged it retires the record, and from then on the overlay leaves every card of that
  key as it is, so a served request is never resurrected.\<close>

theorem served_stop_retired:
  assumes "record_durable c pending = Inr pending'"
    "acknowledge_pending_stop_change c = (True, served)" "tc_version c < n"
  shows "reconcile_durable (c\<lparr>tc_version := n\<rparr>) pending' = (False, pending')
    \<and> (case reconcile_durable (served\<lparr>tc_version := n\<rparr>) pending' of (done, pending'') \<Rightarrow>
         done \<and> pending_for (card_key c) pending'' = None
         \<and> (\<forall>w p. card_key w = card_key c \<longrightarrow> overlay_card pending'' w p = (w, p)))"
proof -
  from assms(1) obtain g where g: "stop_change_from_card c = Inr g" "pending' = pending(sg_card_key g \<mapsto> g)"
    by (auto simp: record_durable_def bind_result_Inr_iff)
  note f = from_card_Inr [OF g(1)]
  have key: "card_key (x\<lparr>tc_version := n\<rparr>) = card_key x" for x by (simp add: card_key_def)
  have s: "card_key served = card_key c" "tc_pending_stop_command_id served = []"
    using assms(2) by (auto simp: acknowledge_pending_stop_change_def card_key_def split: if_splits)
  have "superseded g (served\<lparr>tc_version := n\<rparr>)" using s(2) f(4) assms(3) by (simp add: superseded_def)
  then show ?thesis
    using g(2) f(1-3) s by (simp add: reconcile_durable_def key pending_for_def overlay_other)
qed

theorem served_stop_retired_witness:
  "\<exists>p. record_durable requesting_card Map.empty = Inr p
     \<and> fst (reconcile_durable ((snd (acknowledge_pending_stop_change requesting_card))\<lparr>tc_version := 3\<rparr>) p)"
proof -
  obtain p where r: "record_durable requesting_card Map.empty = Inr p" using request_recorded by blast
  have a: "acknowledge_pending_stop_change requesting_card
      = (True, snd (acknowledge_pending_stop_change requesting_card))"
    by (simp add: acknowledge_pending_stop_change_def requesting_card_def)
  have v: "tc_version requesting_card < 3" by (simp add: requesting_card_def)
  from served_stop_retired [OF r a v] r show ?thesis by (auto split: prod.splits)
qed

end
