(* ===== verification/Board_Action.thy ===== *)
theory Board_Action
  imports Board_Safety Stop_Change
begin

text \<open>
  \<open>request_board_action\<close> of \<open>src/services/execution_workflow_service.py\<close>: the workflow request over
  the card, ownership, order and external-order tables, the recovery snapshot and the stop
  coordinator. The code first reads and checks without a lock (\<open>board_preflight\<close>) and then
  repeats the checks that a concurrent writer can invalidate inside one transaction
  (\<open>board_commit\<close>); a raise inside the transaction rolls it back. The best-effort daily summary
  written after the commit is not modelled.
\<close>

subsection \<open>State\<close>

record board_db =
  bd_cards :: card_table
  bd_owners :: ownership_table
  bd_orders :: order_table
  bd_externals :: external_table
  bd_snapshot :: "trade_card list"
  bd_stops :: stop_coordinator

text \<open>The clocks, the configured strategy and the id drawn for an adopted order.\<close>

record board_env =
  be_surroundings :: board_surroundings
  be_now :: timestamp
  be_server_now :: timestamp
  be_client_id :: string
  be_strategy :: string

record board_result =
  br_card :: "trade_card option"
  br_command_id :: string
  br_adopted :: "string option"

datatype board_plan =
    PlanAdoption string string "trade_card option"
  | PlanCreation pyfloat pyfloat
  | PlanUpdate "execution_order list"

definition command_card :: "board_command \<Rightarrow> card_table \<Rightarrow> trade_card option" where
  "command_card m t = get_trade_card t (bc_environment m) (bc_account_no m) (bc_symbol m)"

definition not_found :: board_error where
  "not_found = BoardCardStore TradeCardNotFound"

definition version_conflict :: board_error where
  "version_conflict = BoardCardStore TradeCardVersionConflict"

text \<open>A repository's exception passes through unchanged.\<close>

definition raise_as :: "('e \<Rightarrow> board_error) \<Rightarrow> 'e + 'a \<Rightarrow> board_error + 'a" where
  "raise_as wrap r = (case r of Inl e \<Rightarrow> Inl (wrap e) | Inr x \<Rightarrow> Inr x)"

lemma raise_as_Inr_iff [guard_simps]: "raise_as wrap r = Inr x \<longleftrightarrow> r = Inr x"
  by (cases r) (simp_all add: raise_as_def)

subsection \<open>Before the transaction\<close>

definition adoption_preflight ::
    "board_command \<Rightarrow> string \<Rightarrow> string \<Rightarrow> board_db \<Rightarrow> board_error + board_plan" where
  "adoption_preflight m external_id adopted_by db =
     (let in_scope = (case get_discovered_external_order (bd_externals db) external_id of
            None \<Rightarrow> False
          | Some x \<Rightarrow> (xo_environment x, xo_account_no x, xo_symbol x)
                      = (bc_environment m, bc_account_no m, bc_symbol m));
          found = command_card m (bd_cards db)
      in guarded (first_error
          [(\<not> in_scope, BoardCommandRejected ExternalOrderOutOfScope),
           (bc_expected_card_version m \<noteq> 0 \<and> found = None, not_found),
           (bc_expected_card_version m \<noteq> 0
              \<and> map_option tc_version found \<noteq> Some (bc_expected_card_version m), version_conflict)])
         (Inr (PlanAdoption external_id adopted_by found)))"

text \<open>Another account already executes the symbol.\<close>

definition active_elsewhere :: "board_command \<Rightarrow> trade_card \<Rightarrow> bool" where
  "active_elsewhere m other \<longleftrightarrow> py_strip (tc_account_no other) \<noteq> py_strip (bc_account_no m)
     \<and> tc_board_status other \<in> SYMBOL_EXECUTION_ACTIVE_STATUSES"

definition activation_preflight :: "board_command \<Rightarrow> card_table \<Rightarrow> board_error option" where
  "activation_preflight m t =
     (case bc_request m of
        ActivateForToday _ \<Rightarrow>
          if list_ex (\<lambda>other. py_upper (py_strip (tc_symbol other)) = py_upper (py_strip (bc_symbol m))
                \<and> active_elsewhere m other) (list_trade_cards t (Some (bc_environment m)) None)
          then Some (BoardCommandRejected SymbolActiveElsewhere) else None
      | _ \<Rightarrow> None)"

definition board_preflight ::
    "board_command \<Rightarrow> board_action_context \<Rightarrow> bool \<Rightarrow> board_db \<Rightarrow> board_error + board_plan" where
  "board_preflight m ctx claim db =
     guarded (if claim \<and> \<not> intent_only_request (bc_request m)
              then Some (BoardCommandRejected OnlyIntentMayClaim) else None)
     (case bc_request m of
        AdoptExternalOrder external_id adopted_by \<Rightarrow> adoption_preflight m external_id adopted_by db
      | _ \<Rightarrow>
        (let found = command_card m (bd_cards db)
         in guarded (require_breakout_plan_mutation_policy (bc_request m) found ctx)
           (case found of
              None \<Rightarrow>
                (case bc_request m of
                   SetBreakoutPrice price buffer \<Rightarrow>
                     if bc_expected_card_version m \<noteq> 0 then Inl not_found
                     else Inr (PlanCreation price buffer)
                 | _ \<Rightarrow> Inl not_found)
            | Some c \<Rightarrow>
                guarded (and_then (if tc_version c \<noteq> bc_expected_card_version m then Some version_conflict else None)
                        (and_then (activation_preflight m (bd_cards db))
                                  (require_current_board_runtime m c ctx)))
                (bind_result (require_board_action_not_conflicted (bc_request m) (bd_orders db)
                    (bd_externals db) c) (\<lambda>active. Inr (PlanUpdate active))))))"

subsection \<open>The transaction\<close>

definition commit_creation ::
    "board_env \<Rightarrow> board_command \<Rightarrow> board_action_context \<Rightarrow> card_table
       \<Rightarrow> board_error + (trade_card \<times> card_table)" where
  "commit_creation env m ctx t =
     guarded (and_then (if command_card m t \<noteq> None then Some version_conflict else None)
                       (require_breakout_plan_mutation_policy (bc_request m) None ctx))
     (bind_result (raise_as BoardCardInvalid (card_post_init
          (blank_card (be_now env) (bc_environment m) (bc_account_no m) (bc_symbol m)))) (\<lambda>created.
      bind_result (apply_board_mutation (be_surroundings env) m ctx [] created) (\<lambda>c.
        raise_as BoardCardStore (insert_trade_card (be_server_now env) c t))))"

definition activation_commit_check :: "board_command \<Rightarrow> card_table \<Rightarrow> board_error option" where
  "activation_commit_check m t =
     (case bc_request m of
        ActivateForToday _ \<Rightarrow>
          if list_ex (active_elsewhere m) (list_trade_cards_for_symbol t (bc_environment m) (bc_symbol m))
          then Some (BoardCommandRejected SymbolActiveElsewhere) else None
      | _ \<Rightarrow> None)"

definition claim_ownership ::
    "board_env \<Rightarrow> board_command \<Rightarrow> trade_card \<Rightarrow> ownership_table \<Rightarrow> board_error + ownership_table" where
  "claim_ownership env m c owners =
     (let w = get_ownership owners (tc_environment c) (tc_account_no c) (tc_symbol c);
          target = py_strip (be_strategy env)
      in guarded (first_error
          [(target = [], BoardCommandRejected BlankStrategyInstance),
           (bc_expected_execution_owner m \<noteq> [] \<and> bc_expected_execution_owner m \<noteq> owner_value (ow_owner w),
            BoardOwnershipMismatch OwnerChanged),
           (bc_expected_execution_owner m \<noteq> [] \<and> bc_expected_ownership_version m \<noteq> ow_version w,
            BoardOwnershipMismatch OwnerRevisionChanged),
           (ow_owner w = MANUAL, BoardOwnershipMismatch ManualTransferRequired),
           (ow_owner w = KANBAN \<and> ow_strategy_instance_id w \<noteq> target,
            BoardOwnershipMismatch OtherStrategyInstance)])
         (if ow_owner w \<noteq> LEGACY then Inr owners
          else bind_result (raise_as BoardOwnership (ownership_post_init
              \<lparr>ow_environment = tc_environment c, ow_account_no = tc_account_no c, ow_symbol = tc_symbol c,
               ow_owner = KANBAN, ow_strategy_instance_id = target,
               ow_assigned_by = ''kanban_intent:'' @ take 16 (bc_command_id m),
               ow_assigned_at = None, ow_version = 0\<rparr>)) (\<lambda>new.
            bind_result (raise_as BoardOwnership
              (assign_ownership_in_transaction (be_server_now env) new (Some (ow_version w)) owners))
              (\<lambda>(assigned, owners'). Inr owners'))))"

definition commit_update ::
    "board_env \<Rightarrow> board_command \<Rightarrow> board_action_context \<Rightarrow> bool \<Rightarrow> execution_order list \<Rightarrow> board_db
       \<Rightarrow> board_error + (trade_card \<times> card_table \<times> ownership_table)" where
  "commit_update env m ctx claim active db =
     guarded (activation_commit_check m (bd_cards db))
     (case command_card m (bd_cards db) of
        None \<Rightarrow> Inl not_found
      | Some current \<Rightarrow>
          guarded (and_then (if tc_version current \<noteq> bc_expected_card_version m then Some version_conflict else None)
                  (and_then (require_breakout_plan_mutation_policy (bc_request m) (Some current) ctx)
                            (require_current_board_runtime m current ctx)))
          (bind_result
            (if claim then claim_ownership env m current (bd_owners db)
             else guarded (require_kanban_board_ownership m current ctx
                     (get_ownership (bd_owners db) (tc_environment current) (tc_account_no current)
                        (tc_symbol current))) (Inr (bd_owners db)))
            (\<lambda>owners.
              bind_result (apply_board_mutation (be_surroundings env) m ctx active current) (\<lambda>c.
              bind_result (raise_as BoardCardStore (update_trade_card_in_transaction (be_now env)
                    (be_server_now env) c (bc_expected_card_version m) (bd_cards db)))
                (\<lambda>(updated, cards). Inr (updated, cards, owners))))))"

text \<open>Publication after the commit: the coordinator's record of a stop request may raise, the
  committed rows stay.\<close>

definition publish ::
    "board_command \<Rightarrow> trade_card \<Rightarrow> board_db \<Rightarrow> (board_error + board_result) \<times> board_db" where
  "publish m updated db =
     (let result = \<lparr>br_card = Some updated, br_command_id = bc_command_id m, br_adopted = None\<rparr>;
          recorded = (if stop_request (bc_request m) then record_durable updated (bd_stops db) else Inr (bd_stops db))
      in case recorded of
           Inl e \<Rightarrow> (Inl BoardValueError, db)
         | Inr stops \<Rightarrow> (Inr result, db\<lparr>bd_stops := stops,
             bd_snapshot := upsert_local_snapshot_card updated (bd_snapshot db)\<rparr>))"

definition board_commit ::
    "board_env \<Rightarrow> board_command \<Rightarrow> board_action_context \<Rightarrow> bool \<Rightarrow> board_plan \<Rightarrow> board_db
       \<Rightarrow> (board_error + board_result) \<times> board_db" where
  "board_commit env m ctx claim plan db =
     (case plan of
        PlanAdoption external_id adopted_by found \<Rightarrow>
          (case adopt_external_order_in_db external_id adopted_by {} [] (be_client_id env) (be_now env)
                  (bd_externals db, bd_orders db) of
             Inl e \<Rightarrow> (Inl (BoardExternal e), db)
           | Inr (r, xs, os) \<Rightarrow>
               (Inr \<lparr>br_card = found, br_command_id = bc_command_id m,
                     br_adopted = Some (eo_client_order_id r)\<rparr>,
                db\<lparr>bd_externals := xs, bd_orders := os\<rparr>))
      | PlanCreation price buffer \<Rightarrow>
          (case commit_creation env m ctx (bd_cards db) of
             Inl e \<Rightarrow> (Inl e, db)
           | Inr (c, t) \<Rightarrow>
               (Inr \<lparr>br_card = Some c, br_command_id = bc_command_id m, br_adopted = None\<rparr>,
                db\<lparr>bd_cards := t, bd_snapshot := upsert_local_snapshot_card c (bd_snapshot db)\<rparr>))
      | PlanUpdate active \<Rightarrow>
          (case commit_update env m ctx claim active db of
             Inl e \<Rightarrow> (Inl e, db)
           | Inr (updated, cards, owners) \<Rightarrow>
               publish m updated (db\<lparr>bd_cards := cards, bd_owners := owners\<rparr>)))"

definition request_board_action ::
    "board_env \<Rightarrow> board_command \<Rightarrow> board_action_context \<Rightarrow> bool \<Rightarrow> board_db
       \<Rightarrow> (board_error + board_result) \<times> board_db" where
  "request_board_action env m ctx claim db =
     (case board_preflight m ctx claim db of
        Inl e \<Rightarrow> (Inl e, db) | Inr plan \<Rightarrow> board_commit env m ctx claim plan db)"

subsection \<open>What a mutation does to identity and column\<close>

lemma mutation_identity:
  assumes "apply_board_mutation env m ctx act c = Inr c'" shows "card_id_of c' = card_id_of c"
proof (cases "tc_board_status c = BS_CLOSED \<and> bc_request m \<in> range (\<lambda>(p, b). SetBreakoutPrice p b)")
  case True
  with assms show ?thesis
    by (auto simp: apply_board_mutation_def set_breakout_price_def restart_closed_cycle_def frame_simps
        card_id_of_def Let_def)
next
  case False
  then have "tc_board_status c = BS_CLOSED \<Longrightarrow> \<forall>p b. bc_request m \<noteq> SetBreakoutPrice p b"
    by (auto simp: image_iff)
  from mutation_facts [OF assms this] show ?thesis by (simp add: board_frame_def)
qed

lemma allowed_into:
  "BS_BUY_TODAY \<in> ALLOWED_BOARD_TRANSITIONS s \<longleftrightarrow> s = BS_BUYLIST"
  "BS_SELL_ALL \<in> ALLOWED_BOARD_TRANSITIONS s \<longleftrightarrow> s = BS_OPEN_POSITION \<or> s = BS_PARTIAL_SELL"
  by (cases s; simp)+

text \<open>Only an activation takes a card into a column that executes.\<close>

lemma only_activation_executes:
  assumes "apply_board_mutation env m ctx act c = Inr c'"
    "tc_board_status c' \<in> SYMBOL_EXECUTION_ACTIVE_STATUSES"
    "tc_board_status c \<notin> SYMBOL_EXECUTION_ACTIVE_STATUSES"
  shows "tc_board_status c = BS_BUYLIST \<and> (\<exists>key. bc_request m = ActivateForToday key)"
proof (cases "stop_request (bc_request m)")
  case True
  from accepted_stop_request [OF True assms(1)] assms(2,3) show ?thesis by (auto simp: stop_change_Inr_iff)
next
  case False
  note a = assms(1) [unfolded apply_board_mutation_def Let_def]
  show ?thesis
  proof (cases "bc_request m")
    case (SetBreakoutPrice p b)
    with a assms(2,3) set_breakout_frame(1) [of c] show ?thesis
      by (cases "tc_board_status c = BS_CLOSED")
        (auto simp: set_breakout_price_def Let_def frame_simps SYMBOL_EXECUTION_ACTIVE_STATUSES_def)
  qed (use a False assms(2,3) in \<open>auto simp: stop_request_def SYMBOL_EXECUTION_ACTIVE_STATUSES_def
      move_to_watchlist_def remove_from_buylist_def move_to_buylist_def activate_for_today_def
      request_sell_all_def cancel_entry_def request_partial_sell_def cancel_partial_sell_def
      cancel_queued_sell_all_def clear_breakout_price_def leave_planning_columns_def move_steps
      validate_board_transition_def allowed_into frame_simps Let_def split: if_splits\<close>)
qed

subsection \<open>One account per symbol\<close>

definition executing :: "trade_card \<Rightarrow> bool" where
  "executing c \<longleftrightarrow> tc_board_status c \<in> SYMBOL_EXECUTION_ACTIVE_STATUSES"

definition one_account_per_symbol :: "card_table \<Rightarrow> bool" where
  "one_account_per_symbol t \<longleftrightarrow> (\<forall>j k c d. ct_rows t j = Some c \<and> ct_rows t k = Some d
     \<and> executing c \<and> executing d \<and> tc_environment c = tc_environment d \<and> tc_symbol c = tc_symbol d
     \<longrightarrow> py_strip (tc_account_no c) = py_strip (tc_account_no d))"

text \<open>The cards are as their constructor leaves them.\<close>

definition symbols_normal :: "card_table \<Rightarrow> bool" where
  "symbols_normal t \<longleftrightarrow> (\<forall>k c. ct_rows t k = Some c \<longrightarrow> py_upper (py_strip (tc_symbol c)) = tc_symbol c)"

definition command_normal :: "board_command \<Rightarrow> bool" where
  "command_normal m \<longleftrightarrow> py_upper (bc_environment m) = bc_environment m \<and> py_upper (bc_symbol m) = bc_symbol m"

lemma symbol_rows:
  assumes "table_wf t" "ct_rows t k = Some c" "tc_environment c = py_upper environment"
    "tc_symbol c = py_upper (py_strip ticker)"
  shows "c \<in> set (list_trade_cards_for_symbol t environment ticker)"
proof -
  have "card_id_of c = k" using assms(1,2) by (force simp: table_wf_def)
  with assms show ?thesis by (simp add: list_trade_cards_for_symbol_def table_cards_mem)
qed

lemma row_write_exclusive:
  assumes "one_account_per_symbol t" "\<And>j. j \<noteq> k \<Longrightarrow> ct_rows t' j = ct_rows t j" "ct_rows t' k = Some new"
    and "\<And>j d. executing new \<Longrightarrow> j \<noteq> k \<Longrightarrow> ct_rows t j = Some d \<Longrightarrow> executing d \<Longrightarrow>
      tc_environment d = tc_environment new \<Longrightarrow> tc_symbol d = tc_symbol new \<Longrightarrow>
      py_strip (tc_account_no d) = py_strip (tc_account_no new)"
  shows "one_account_per_symbol t'"
  unfolding one_account_per_symbol_def
proof (intro allI impI)
  fix i j c d
  assume "ct_rows t' i = Some c \<and> ct_rows t' j = Some d \<and> executing c \<and> executing d
    \<and> tc_environment c = tc_environment d \<and> tc_symbol c = tc_symbol d"
  then have h: "ct_rows t' i = Some c" "ct_rows t' j = Some d" "executing c" "executing d"
    "tc_environment c = tc_environment d" "tc_symbol c = tc_symbol d" by blast+
  show "py_strip (tc_account_no c) = py_strip (tc_account_no d)"
  proof (cases "i = k"; cases "j = k")
    assume "i = k" "j = k"
    with h show ?thesis by simp
  next
    assume ij: "i = k" "j \<noteq> k"
    then have "c = new" "ct_rows t j = Some d" using h(1,2) assms(2,3) by simp_all
    with assms(4) [OF _ ij(2)] h show ?thesis by metis
  next
    assume ij: "i \<noteq> k" "j = k"
    then have "d = new" "ct_rows t i = Some c" using h(1,2) assms(2,3) by simp_all
    with assms(4) [OF _ ij(1)] h show ?thesis by metis
  next
    assume "i \<noteq> k" "j \<noteq> k"
    then have "ct_rows t i = Some c" "ct_rows t j = Some d" using h(1,2) assms(2) by simp_all
    with assms(1) h show ?thesis unfolding one_account_per_symbol_def by blast
  qed
qed

subsection \<open>The transaction in detail\<close>

definition command_key :: "board_command \<Rightarrow> card_id" where
  "command_key m = (py_upper (bc_environment m), bc_account_no m, py_upper (bc_symbol m))"

lemma command_card_row: "command_card m t = ct_rows t (command_key m)"
  by (simp add: command_card_def get_trade_card_def command_key_def)

lemma commit_update_Inr:
  assumes "commit_update env m ctx claim active db = Inr (updated, cards, owners)" "table_wf (bd_cards db)"
  obtains current c where
    "ct_rows (bd_cards db) (command_key m) = Some current" "card_id_of current = command_key m"
    "tc_version current = bc_expected_card_version m" "activation_commit_check m (bd_cards db) = None"
    "require_current_board_runtime m current ctx = None"
    "apply_board_mutation (be_surroundings env) m ctx active current = Inr c"
    "updated = c\<lparr>tc_updated_at := be_now env, tc_version := bc_expected_card_version m + 1\<rparr>"
    "ct_rows cards = (ct_rows (bd_cards db))(command_key m \<mapsto> updated)" "ct_ids cards = ct_ids (bd_cards db)"
    "if claim then claim_ownership env m current (bd_owners db) = Inr owners
     else owners = bd_owners db \<and> require_kanban_board_ownership m current ctx
       (get_ownership (bd_owners db) (tc_environment current) (tc_account_no current) (tc_symbol current)) = None"
proof -
  obtain current where cur: "ct_rows (bd_cards db) (command_key m) = Some current"
    using assms(1) by (auto simp: commit_update_def guarded_Inr_iff command_card_row split: option.splits)
  have id: "card_id_of current = command_key m" using assms(2) cur by (force simp: table_wf_def)
  note u = assms(1) [unfolded commit_update_def command_card_row cur guarded_Inr_iff bind_result_Inr_iff]
  then obtain c where g: "activation_commit_check m (bd_cards db) = None"
    "tc_version current = bc_expected_card_version m" "require_current_board_runtime m current ctx = None"
    and c: "apply_board_mutation (be_surroundings env) m ctx active current = Inr c"
    and w: "update_trade_card_in_transaction (be_now env) (be_server_now env) c
        (bc_expected_card_version m) (bd_cards db) = Inr (updated, cards)"
    and o: "if claim then claim_ownership env m current (bd_owners db) = Inr owners
      else owners = bd_owners db \<and> require_kanban_board_ownership m current ctx
        (get_ownership (bd_owners db) (tc_environment current) (tc_account_no current) (tc_symbol current)) = None"
    by (auto simp: guarded_Inr_iff bind_result_Inr_iff raise_as_Inr_iff split: if_splits prod.splits)
  have "card_id_of c = command_key m" using mutation_identity [OF c] id by simp
  with w have "updated = c\<lparr>tc_updated_at := be_now env, tc_version := bc_expected_card_version m + 1\<rparr>"
    "ct_rows cards = (ct_rows (bd_cards db))(command_key m \<mapsto> updated)" "ct_ids cards = ct_ids (bd_cards db)"
    by (auto simp: update_Inr_iff)
  with that cur id g c o show thesis by blast
qed

lemma commit_creation_Inr:
  assumes "commit_creation env m ctx t = Inr (c, t')"
  obtains created where "card_post_init (blank_card (be_now env) (bc_environment m) (bc_account_no m) (bc_symbol m)) = Inr created"
    "command_card m t = None"
    "tc_board_status c \<notin> SYMBOL_EXECUTION_ACTIVE_STATUSES" "card_id_of c = card_id_of created"
    "ct_rows t (card_id_of c) = None" "tc_version c = 1"
    "ct_rows t' = (ct_rows t)(card_id_of c \<mapsto> c)"
proof -
  from assms obtain created c0 where 1:
    "card_post_init (blank_card (be_now env) (bc_environment m) (bc_account_no m) (bc_symbol m)) = Inr created"
    "apply_board_mutation (be_surroundings env) m ctx [] created = Inr c0"
    "insert_trade_card (be_server_now env) c0 t = Inr (c, t')" "command_card m t = None"
    by (auto simp: commit_creation_def guarded_Inr_iff bind_result_Inr_iff raise_as_Inr_iff split: if_splits)
  have "tc_board_status created = BS_WATCHLIST"
    using 1(1) by (auto simp: card_post_init_def guarded_Inr_iff bind_result_Inr_iff normalise_card_def
        blank_card_def Let_def)
  with only_activation_executes [OF 1(2)]
  have "tc_board_status c0 \<notin> SYMBOL_EXECUTION_ACTIVE_STATUSES"
    by (auto simp: SYMBOL_EXECUTION_ACTIVE_STATUSES_def)
  moreover have "card_id_of c0 = card_id_of created" by (rule mutation_identity [OF 1(2)])
  ultimately show thesis using that [OF 1(1,4)] 1(3) by (auto simp: insert_Inr_iff)
qed

lemma publish_tables:
  assumes "publish m updated db = (r, db')"
  shows "bd_cards db' = bd_cards db" "bd_owners db' = bd_owners db" "bd_orders db' = bd_orders db"
    "bd_externals db' = bd_externals db"
  using assms by (auto simp: publish_def Let_def split: sum.splits if_splits)

text \<open>(C1) One account per symbol, also under races. However the tables changed between a request's
  first checks and its transaction, a committed request never leaves one symbol in an executing
  column for two accounts when it was not so before: whatever plan the first checks produced,
  the transaction's own check decides.\<close>

theorem activation_exclusive:
  assumes "board_commit env m ctx claim plan db = (r, db')" "one_account_per_symbol (bd_cards db)"
    "table_wf (bd_cards db)" "symbols_normal (bd_cards db)" "command_normal m"
  shows "one_account_per_symbol (bd_cards db')"
proof (cases plan)
  case (PlanAdoption x a f)
  with assms(1,2) show ?thesis by (auto simp: board_commit_def split: sum.splits prod.splits)
next
  case (PlanCreation p b)
  show ?thesis
  proof (cases "commit_creation env m ctx (bd_cards db)")
    case (Inr ct)
    then obtain c t' where ct: "commit_creation env m ctx (bd_cards db) = Inr (c, t')" by (cases ct) simp
    obtain created where cr: "tc_board_status c \<notin> SYMBOL_EXECUTION_ACTIVE_STATUSES"
      "ct_rows t' = (ct_rows (bd_cards db))(card_id_of c \<mapsto> c)"
      using ct by (rule commit_creation_Inr) blast
    have "bd_cards db' = t'" using assms(1) PlanCreation ct by (auto simp: board_commit_def)
    with row_write_exclusive [OF assms(2), of "card_id_of c" t' c] cr show ?thesis by (simp add: executing_def)
  qed (use assms(1,2) PlanCreation in \<open>auto simp: board_commit_def\<close>)
next
  case (PlanUpdate active)
  show ?thesis
  proof (cases "commit_update env m ctx claim active db")
    case (Inr u)
    then obtain updated cards owners where
      u: "commit_update env m ctx claim active db = Inr (updated, cards, owners)" by (cases u) auto
    obtain current c where cur: "ct_rows (bd_cards db) (command_key m) = Some current"
      "card_id_of current = command_key m" "activation_commit_check m (bd_cards db) = None"
      "apply_board_mutation (be_surroundings env) m ctx active current = Inr c"
      "updated = c\<lparr>tc_updated_at := be_now env, tc_version := bc_expected_card_version m + 1\<rparr>"
      "ct_rows cards = (ct_rows (bd_cards db))(command_key m \<mapsto> updated)"
      using commit_update_Inr [OF u assms(3)] by metis
    have id: "card_id_of updated = command_key m"
      using mutation_identity [OF cur(4)] cur(2) by (simp add: cur(5))
    have same: "tc_environment updated = bc_environment m" "tc_symbol updated = bc_symbol m"
      "tc_account_no updated = bc_account_no m"
      "tc_environment current = bc_environment m" "tc_symbol current = bc_symbol m"
      "tc_account_no current = bc_account_no m"
      using id cur(2) assms(5) by (simp_all add: card_id_of_def command_key_def command_normal_def)
    have strip: "py_upper (py_strip (bc_symbol m)) = bc_symbol m"
      using assms(4) cur(1) same(5) unfolding symbols_normal_def by metis
    have "py_strip (tc_account_no d) = py_strip (tc_account_no updated)"
      if e: "executing updated" and j: "ct_rows (bd_cards db) j = Some d" "executing d"
        and k: "tc_environment d = tc_environment updated" "tc_symbol d = tc_symbol updated" for j d
    proof (cases "executing current")
      case True
      from assms(2) [unfolded one_account_per_symbol_def, rule_format, of j d "command_key m" current]
      show ?thesis using j cur(1) True k same by simp
    next
      case False
      obtain key where a: "bc_request m = ActivateForToday key"
        using only_activation_executes [OF cur(4)] e False by (auto simp: executing_def cur(5))
      have "d \<in> set (list_trade_cards_for_symbol (bd_cards db) (bc_environment m) (bc_symbol m))"
        by (rule symbol_rows [OF assms(3) j(1)]) (use k same strip assms(5) in \<open>simp_all add: command_normal_def\<close>)
      then have "\<not> active_elsewhere m d"
        using cur(3) a by (auto simp: activation_commit_check_def list_ex_iff split: if_splits)
      then show ?thesis using j(2) same by (simp add: active_elsewhere_def executing_def)
    qed
    moreover have "bd_cards db' = cards"
      using assms(1) PlanUpdate u publish_tables(1) by (fastforce simp: board_commit_def)
    ultimately show ?thesis
      using row_write_exclusive [OF assms(2), of "command_key m" cards updated] cur(6) by simp
  qed (use assms(1,2) PlanUpdate in \<open>auto simp: board_commit_def\<close>)
qed

subsection \<open>Atomicity and scope\<close>

lemma stop_publication:
  assumes "stop_request (bc_request m)" "bc_command_id m \<noteq> []"
    "apply_board_mutation env m ctx act c0 = Inr c"
  shows "\<exists>stops. record_durable (c\<lparr>tc_updated_at := now, tc_version := n\<rparr>) pending = Inr stops"
proof -
  from accepted_stop_request [OF assms(1,3)] obtain k p where "request_stop_change m k p c0 = Inr c" by blast
  then show ?thesis using assms(2)
    by (auto simp: stop_change_Inr_iff record_durable_def stop_change_from_card_def)
qed

lemma publish_succeeds:
  assumes "apply_board_mutation env m ctx act c0 = Inr c" "bc_command_id m \<noteq> []"
  shows "\<exists>r db'. publish m (c\<lparr>tc_updated_at := now, tc_version := n\<rparr>) db = (Inr r, db')"
proof (cases "stop_request (bc_request m)")
  case True
  from stop_publication [OF True assms(2,1), of n now "bd_stops db"]
  obtain stops where "record_durable (c\<lparr>tc_updated_at := now, tc_version := n\<rparr>) (bd_stops db) = Inr stops"
    by blast
  then show ?thesis by (simp add: publish_def Let_def True)
qed (simp add: publish_def Let_def)


lemma post_init_keyed:
  "ownership_post_init w = Inr w' \<Longrightarrow>
     w' = w\<lparr>ow_environment := py_upper (ow_environment w), ow_symbol := py_upper (ow_symbol w)\<rparr>"
  by (simp add: ownership_post_init_def guarded_Inr_iff)

text \<open>A claim that is accepted ends in ownership by the configured strategy.\<close>

lemma claim_ownership_Inr:
  assumes "claim_ownership env m c owners = Inr owners'"
    and k: "k = (py_upper (tc_environment c), tc_account_no c, py_upper (tc_symbol c))"
    and w: "w = get_ownership owners (tc_environment c) (tc_account_no c) (tc_symbol c)"
    and w': "w' = get_ownership owners' (tc_environment c) (tc_account_no c) (tc_symbol c)"
  shows "ow_owner w \<noteq> MANUAL" "ow_owner w' = KANBAN" "ow_strategy_instance_id w' = py_strip (be_strategy env)"
    "ow_owner w = KANBAN \<Longrightarrow> owners' = owners"
    "ow_owner w = LEGACY \<Longrightarrow> ow_version w' = ow_version w + 1"
    "ot_rows owners' |` (- {k}) = ot_rows owners |` (- {k})"
proof -
  note a = assms(1) [unfolded claim_ownership_def Let_def w [symmetric] guarded_Inr_iff]
  from a have g: "ow_owner w \<noteq> MANUAL" "ow_owner w = KANBAN \<Longrightarrow> ow_strategy_instance_id w = py_strip (be_strategy env)"
    by (auto simp: guard_simps simp del: first_error.simps)
  have v: "owner_version owners k = Some (ow_version w)"
    by (simp add: owner_version_def w get_ownership_def k legacy_default_def split: option.split)
  have "ow_owner w' = KANBAN \<and> ow_strategy_instance_id w' = py_strip (be_strategy env)
     \<and> (ow_owner w = KANBAN \<longrightarrow> owners' = owners) \<and> (ow_owner w = LEGACY \<longrightarrow> ow_version w' = ow_version w + 1)
     \<and> ot_rows owners' |` (- {k}) = ot_rows owners |` (- {k})"
  proof (cases "ow_owner w")
    case LEGACY
    with a obtain new assigned where n: "ownership_post_init
        \<lparr>ow_environment = tc_environment c, ow_account_no = tc_account_no c, ow_symbol = tc_symbol c,
         ow_owner = KANBAN, ow_strategy_instance_id = py_strip (be_strategy env),
         ow_assigned_by = ''kanban_intent:'' @ take 16 (bc_command_id m),
         ow_assigned_at = None, ow_version = 0\<rparr> = Inr new"
      and new4: "assign_ownership_in_transaction (be_server_now env) new (Some (ow_version w)) owners
        = Inr (assigned, owners')"
      by (simp only: execution_owner.simps simp_thms if_False bind_result_Inr_iff raise_as_Inr_iff)
        (auto split: prod.splits)
    from post_init_keyed [OF n] have new: "owner_id_of new = k" "ow_owner new = KANBAN"
      "ow_strategy_instance_id new = py_strip (be_strategy env)" by (simp_all add: owner_id_of_def k)
    note new = new new4
    from new(4) have rows: "ot_rows owners' = (ot_rows owners)(k \<mapsto> new\<lparr>ow_assigned_at := Some (be_server_now env),
        ow_version := ow_version w + 1\<rparr>)" by (auto simp: assign_Inr_iff new(1))
    then have "w' = new\<lparr>ow_assigned_at := Some (be_server_now env), ow_version := ow_version w + 1\<rparr>"
      by (simp add: w' get_ownership_def k)
    with new(2,3) rows LEGACY show ?thesis by (auto simp: restrict_map_def)
  next
    case KANBAN
    with a have "owners' = owners" by simp
    with KANBAN g(2) show ?thesis by (simp add: w w')
  qed (use g(1) in simp)
  with g(1) show "ow_owner w \<noteq> MANUAL" "ow_owner w' = KANBAN" "ow_strategy_instance_id w' = py_strip (be_strategy env)"
    "ow_owner w = KANBAN \<Longrightarrow> owners' = owners" "ow_owner w = LEGACY \<Longrightarrow> ow_version w' = ow_version w + 1"
    "ot_rows owners' |` (- {k}) = ot_rows owners |` (- {k})" by blast+
qed

lemma current_owner_key:
  "card_id_of current = command_key m \<Longrightarrow>
     (py_upper (tc_environment current), tc_account_no current, py_upper (tc_symbol current)) = command_key m
     \<and> get_ownership t (tc_environment current) (tc_account_no current) (tc_symbol current)
       = get_ownership t (bc_environment m) (bc_account_no m) (bc_symbol m)"
  by (auto simp: card_id_of_def command_key_def get_ownership_def)

lemma board_commit_update_Inr:
  assumes "board_commit env m ctx claim (PlanUpdate active) db = (Inr r, db')"
  obtains updated cards owners where
    "commit_update env m ctx claim active db = Inr (updated, cards, owners)" "br_card r = Some updated"
    "bd_cards db' = cards" "bd_owners db' = owners" "bd_orders db' = bd_orders db" "bd_externals db' = bd_externals db"
proof (cases "commit_update env m ctx claim active db")
  case (Inr u)
  then obtain updated cards owners where u: "commit_update env m ctx claim active db = Inr (updated, cards, owners)"
    by (cases u) auto
  with assms have p: "publish m updated (db\<lparr>bd_cards := cards, bd_owners := owners\<rparr>) = (Inr r, db')"
    by (simp add: board_commit_def)
  from p have "br_card r = Some updated" by (auto simp: publish_def Let_def split: sum.splits if_splits)
  with that u publish_tables [OF p] show thesis by simp
qed (use assms in \<open>simp add: board_commit_def\<close>)

text \<open>(C18) An accepted update writes one card and nothing else. The stored version was the one the
  request was rendered from, the written row is at the next version, every other card, both
  order tables and the ownership of every other key are untouched; without a claim the whole
  ownership table is.\<close>

theorem accepted_update_scope:
  assumes "board_commit env m ctx claim (PlanUpdate active) db = (Inr r, db')" "table_wf (bd_cards db)"
  shows "stored_version (bd_cards db) (command_key m) = Some (bc_expected_card_version m)
    \<and> (\<exists>c. br_card r = Some c \<and> tc_version c = bc_expected_card_version m + 1
         \<and> ct_rows (bd_cards db') = (ct_rows (bd_cards db))(command_key m \<mapsto> c))
    \<and> bd_orders db' = bd_orders db \<and> bd_externals db' = bd_externals db
    \<and> (if claim then ot_rows (bd_owners db') |` (- {command_key m}) = ot_rows (bd_owners db) |` (- {command_key m})
       else bd_owners db' = bd_owners db)"
proof -
  obtain updated cards owners where u: "commit_update env m ctx claim active db = Inr (updated, cards, owners)"
    and r: "br_card r = Some updated" "bd_cards db' = cards" "bd_owners db' = owners"
      "bd_orders db' = bd_orders db" "bd_externals db' = bd_externals db"
    using assms(1) by (rule board_commit_update_Inr)
  obtain current c where cur: "ct_rows (bd_cards db) (command_key m) = Some current"
    "card_id_of current = command_key m" "tc_version current = bc_expected_card_version m"
    "updated = c\<lparr>tc_updated_at := be_now env, tc_version := bc_expected_card_version m + 1\<rparr>"
    "ct_rows cards = (ct_rows (bd_cards db))(command_key m \<mapsto> updated)"
    "if claim then claim_ownership env m current (bd_owners db) = Inr owners else owners = bd_owners db"
    by (rule commit_update_Inr [OF u assms(2)]) (use that in \<open>simp split: if_splits\<close>)
  have "claim \<Longrightarrow> ot_rows owners |` (- {command_key m}) = ot_rows (bd_owners db) |` (- {command_key m})"
    using claim_ownership_Inr(6) [of env m current "bd_owners db" owners] cur(6) current_owner_key [OF cur(2)]
    by (simp only: if_True)
  with cur r show ?thesis by (simp add: stored_version_def)
qed

text \<open>Ownership moves to the board only as an explicit, fenced claim. After an accepted request
  that claims, the symbol belongs to KANBAN under the configured strategy; it was not MANUAL
  before, a KANBAN assignment was already that strategy's and is left alone, and a LEGACY
  assignment is replaced at the next version.\<close>

theorem accepted_claim_owns:
  assumes "board_commit env m ctx True (PlanUpdate active) db = (Inr r, db')" "table_wf (bd_cards db)"
  shows "let owner = \<lambda>t. get_ownership t (bc_environment m) (bc_account_no m) (bc_symbol m);
      before = owner (bd_owners db); after = owner (bd_owners db')
    in ow_owner after = KANBAN \<and> ow_strategy_instance_id after = py_strip (be_strategy env)
      \<and> (case ow_owner before of MANUAL \<Rightarrow> False | KANBAN \<Rightarrow> after = before
         | LEGACY \<Rightarrow> ow_version after = ow_version before + 1)"
proof -
  obtain updated cards where u: "commit_update env m ctx True active db = Inr (updated, cards, bd_owners db')"
    using board_commit_update_Inr [OF assms(1)] by metis
  obtain current where cur: "card_id_of current = command_key m"
    "claim_ownership env m current (bd_owners db) = Inr (bd_owners db')"
    by (rule commit_update_Inr [OF u assms(2)]) (use that in simp)
  note c = claim_ownership_Inr [OF cur(2) refl refl refl, unfolded conjunct2 [OF current_owner_key [OF cur(1)]]]
  show ?thesis
    using c(1-3,5) c(4) by (cases "ow_owner (get_ownership (bd_owners db) (bc_environment m) (bc_account_no m) (bc_symbol m))")
      (simp_all add: Let_def)
qed

text \<open>With the runtime fences on, an execution-affecting request is accepted only for a symbol
  KANBAN owns under a strategy, on the active device, with the engine enabled (or to withdraw
  monitoring only), no reconciliation running, the action ready, and the readiness generation
  and ownership revision the operator saw still current.\<close>

theorem fenced_request_accepted_only_by_owner:
  assumes "board_commit env m ctx False (PlanUpdate active) db = (Inr r, db')" "table_wf (bd_cards db)"
    "bx_enforce_runtime_fences ctx" "intent_only_request (bc_request m)"
  shows "let w = get_ownership (bd_owners db) (bc_environment m) (bc_account_no m) (bc_symbol m)
    in ow_owner w = KANBAN \<and> ow_strategy_instance_id w \<noteq> [] \<and> bx_engine_enabled ctx
      \<and> bx_device_active ctx \<and> bx_action_ready ctx \<and> \<not> bx_reconciliation_in_progress ctx
      \<and> bc_expected_readiness_generation m \<in> {0, bx_readiness_generation ctx}
      \<and> bc_expected_ownership_version m \<in> {0, ow_version w}"
proof -
  obtain updated cards owners where u: "commit_update env m ctx False active db = Inr (updated, cards, owners)"
    using assms(1) by (rule board_commit_update_Inr)
  obtain current where cur: "card_id_of current = command_key m"
    "require_current_board_runtime m current ctx = None"
    "require_kanban_board_ownership m current ctx
       (get_ownership (bd_owners db) (tc_environment current) (tc_account_no current) (tc_symbol current)) = None"
    by (rule commit_update_Inr [OF u assms(2)]) (use that in simp)
  have affecting: "is_execution_affecting (bc_request m) current" "bc_request m \<noteq> CancelEntry"
    using assms(4) by (cases "bc_request m"; simp add: intent_only_request_def is_execution_affecting_def
        board_action_name_def)+
  from cur(2,3) assms(3) affecting show ?thesis
    unfolding conjunct2 [OF current_owner_key [OF cur(1)]]
    by (simp add: require_current_board_runtime_def require_kanban_board_ownership_def Let_def split: if_splits)
qed

subsection \<open>Concrete requests\<close>

definition sample_owner_table :: "execution_owner \<Rightarrow> ownership_table" where
  "sample_owner_table w =
     \<lparr>ot_ids = [(''PROD'', ''1'', ''AAPL'')],
      ot_rows = [(''PROD'', ''1'', ''AAPL'') \<mapsto> sample_ownership\<lparr>ow_owner := w, ow_version := 3\<rparr>]\<rparr>"

definition sample_db :: "execution_owner \<Rightarrow> board_db" where
  "sample_db w =
     \<lparr>bd_cards = \<lparr>ct_ids = [(''PROD'', ''1'', ''AAPL'')], ct_rows = [(''PROD'', ''1'', ''AAPL'') \<mapsto> held_card],
        ct_row_updated_at = [(''PROD'', ''1'', ''AAPL'') \<mapsto> 0], ct_generation = 1\<rparr>,
      bd_owners = sample_owner_table w, bd_orders = empty_orders, bd_externals = no_externals,
      bd_snapshot = [], bd_stops = Map.empty\<rparr>"

definition sample_env :: board_env where
  "sample_env = \<lparr>be_surroundings = sample_surroundings, be_now = 9, be_server_now = 9,
     be_client_id = ''x'', be_strategy = ''s''\<rparr>"

definition fenced_context :: board_action_context where
  "fenced_context = default_action_context\<lparr>bx_enforce_runtime_fences := True, bx_engine_enabled := True\<rparr>"

lemma sample_key [simp]: "command_key (sample_command r) = (''PROD'', ''1'', ''AAPL'')"
  unfolding command_key_def sample_command_def by code_simp

lemma held_card_id: "card_id_of held_card = (''PROD'', ''1'', ''AAPL'')" "tc_version held_card = 1"
  by (simp_all add: held_card_def blank_card_def card_id_of_def)

lemma sample_db_wf: "table_wf (bd_cards (sample_db w))"
  by (simp add: sample_db_def table_wf_def held_card_id)

lemma sample_row: "command_card (sample_command r) (bd_cards (sample_db w)) = Some held_card"
  by (simp add: command_card_row sample_db_def)

lemma sample_owner:
  "get_ownership (bd_owners (sample_db w)) (tc_environment held_card) (tc_account_no held_card) (tc_symbol held_card)
    = sample_ownership\<lparr>ow_owner := w, ow_version := 3\<rparr>"
proof -
  have "py_upper ''PROD'' = ''PROD''" "py_upper ''AAPL'' = ''AAPL''" by code_simp+
  then show ?thesis
    by (simp add: get_ownership_def sample_db_def sample_owner_table_def held_card_def blank_card_def)
qed

lemma sample_fields [simp]: "bc_expected_card_version (sample_command r) = 1"
  "bc_expected_readiness_generation (sample_command r) = 0" "bc_expected_ownership_version (sample_command r) = 0"
  "bc_expected_execution_owner (sample_command r) = []" "bc_expected_strategy_instance_id (sample_command r) = []"
  by (simp_all add: sample_command_def)

lemma sample_update_accepted:
  assumes "require_current_board_runtime (sample_command RequestSellAll) held_card ctx = None"
    "if claim then \<exists>owners. claim_ownership sample_env (sample_command RequestSellAll) held_card (bd_owners (sample_db w)) = Inr owners
     else require_kanban_board_ownership (sample_command RequestSellAll) held_card ctx
       (sample_ownership\<lparr>ow_owner := w, ow_version := 3\<rparr>) = None"
    "bx_regular_session_open ctx = None"
  shows "\<exists>r db'. board_commit sample_env (sample_command RequestSellAll) ctx claim (PlanUpdate []) (sample_db w) = (Inr r, db')"
proof -
  let ?m = "sample_command RequestSellAll"
  obtain c where c: "apply_board_mutation (be_surroundings sample_env) ?m ctx [] held_card = Inr c"
    using assms(3) by (simp add: apply_board_mutation_def request_sell_all_def move_board_card_def
      validate_board_transition_def Let_def)
  have "card_id_of c = (''PROD'', ''1'', ''AAPL'')" using mutation_identity [OF c] held_card_id(1) by simp
  then have u: "\<exists>x t. update_trade_card_in_transaction (be_now sample_env) (be_server_now sample_env) c 1
      (bd_cards (sample_db w)) = Inr (x, t)"
    by (simp add: update_Inr_iff sample_db_def held_card_id)
  have "\<exists>u. commit_update sample_env ?m ctx claim [] (sample_db w) = Inr u"
    using c u assms(1,2)
    by (auto simp: commit_update_def activation_commit_check_def sample_row held_card_id sample_owner
        require_breakout_plan_mutation_policy_def raise_as_def Let_def split: if_splits)
  then obtain updated cards owners where
    "commit_update sample_env ?m ctx claim [] (sample_db w) = Inr (updated, cards, owners)" by auto
  then show ?thesis by (simp add: board_commit_def publish_def stop_request_def Let_def)
qed

lemma sample_claim:
  "\<exists>owners. claim_ownership sample_env (sample_command r) held_card (bd_owners (sample_db LEGACY)) = Inr owners"
proof -
  have s: "py_strip ''s'' = ''s''" by code_simp
  have u: "py_upper ''PROD'' = ''PROD''" "py_upper ''AAPL'' = ''AAPL''" by code_simp+
  show ?thesis
    by (simp add: claim_ownership_def sample_owner Let_def sample_env_def s raise_as_def
        ownership_post_init_def assign_ownership_in_transaction_def sample_db_def sample_owner_table_def
        owner_id_of_def held_card_def blank_card_def get_ownership_def u)
qed

lemma plain_runtime: "require_current_board_runtime m c default_action_context = None"
  "require_kanban_board_ownership m c default_action_context w = None"
  "bx_regular_session_open default_action_context = None"
  by (simp_all add: require_current_board_runtime_def require_kanban_board_ownership_def default_action_context_def)

theorem activation_exclusive_witness:
  "\<exists>r db'. board_commit sample_env (sample_command RequestSellAll) default_action_context False
        (PlanUpdate []) (sample_db LEGACY) = (Inr r, db')
     \<and> one_account_per_symbol (bd_cards db')"
proof -
  obtain r db' where b: "board_commit sample_env (sample_command RequestSellAll) default_action_context False
      (PlanUpdate []) (sample_db LEGACY) = (Inr r, db')"
    using sample_update_accepted [of default_action_context False LEGACY] by (auto simp: plain_runtime)
  have "one_account_per_symbol (bd_cards (sample_db LEGACY))"
    by (auto simp: one_account_per_symbol_def sample_db_def split: if_splits)
  moreover have "symbols_normal (bd_cards (sample_db LEGACY))"
  proof -
    have "py_upper (py_strip ''AAPL'') = ''AAPL''" by code_simp
    then show ?thesis by (simp add: symbols_normal_def sample_db_def held_card_def blank_card_def)
  qed
  moreover have "command_normal (sample_command RequestSellAll)"
    unfolding command_normal_def sample_command_def by code_simp
  ultimately show ?thesis using activation_exclusive [OF b _ sample_db_wf] b by blast
qed


theorem accepted_update_scope_witness:
  "\<exists>r db'. board_commit sample_env (sample_command RequestSellAll) default_action_context False
        (PlanUpdate []) (sample_db LEGACY) = (Inr r, db')
     \<and> bd_owners db' = bd_owners (sample_db LEGACY) \<and> (\<exists>c. br_card r = Some c \<and> tc_version c = 2)"
proof -
  obtain r db' where b: "board_commit sample_env (sample_command RequestSellAll) default_action_context False
      (PlanUpdate []) (sample_db LEGACY) = (Inr r, db')"
    using sample_update_accepted [of default_action_context False LEGACY] by (auto simp: plain_runtime)
  from accepted_update_scope [OF b sample_db_wf] b show ?thesis by auto
qed

theorem accepted_claim_owns_witness:
  "\<exists>r db'. board_commit sample_env (sample_command RequestSellAll) default_action_context True
        (PlanUpdate []) (sample_db LEGACY) = (Inr r, db')
     \<and> ow_owner (get_ownership (bd_owners db') (bc_environment (sample_command RequestSellAll))
          (bc_account_no (sample_command RequestSellAll)) (bc_symbol (sample_command RequestSellAll))) = KANBAN"
proof -
  obtain r db' where b: "board_commit sample_env (sample_command RequestSellAll) default_action_context True
      (PlanUpdate []) (sample_db LEGACY) = (Inr r, db')"
    using sample_update_accepted [of default_action_context True LEGACY] sample_claim by (auto simp: plain_runtime)
  from accepted_claim_owns [OF b sample_db_wf] b show ?thesis by (auto simp: Let_def)
qed

theorem fenced_request_accepted_only_by_owner_witness:
  "\<exists>r db'. board_commit sample_env (sample_command RequestSellAll) fenced_context False
        (PlanUpdate []) (sample_db KANBAN) = (Inr r, db')
     \<and> bx_engine_enabled fenced_context"
proof -
  have f: "require_current_board_runtime (sample_command RequestSellAll) held_card fenced_context = None"
    "require_kanban_board_ownership (sample_command RequestSellAll) held_card fenced_context
       (sample_ownership\<lparr>ow_owner := KANBAN, ow_version := 3\<rparr>) = None"
    "bx_regular_session_open fenced_context = None" "bx_enforce_runtime_fences fenced_context"
    by (simp_all add: require_current_board_runtime_def require_kanban_board_ownership_def fenced_context_def
        default_action_context_def sample_ownership_def legacy_default_def)
  obtain r db' where b: "board_commit sample_env (sample_command RequestSellAll) fenced_context False
      (PlanUpdate []) (sample_db KANBAN) = (Inr r, db')"
    using sample_update_accepted [of fenced_context False KANBAN] f by auto
  have i: "intent_only_request (bc_request (sample_command RequestSellAll))" by (simp add: intent_only_request_def)
  from fenced_request_accepted_only_by_owner [OF b sample_db_wf f(4) i] b show ?thesis by (auto simp: Let_def)
qed

end
