(* ===== verification/Float_Sum.thy ===== *)
theory Float_Sum
  imports Py_Float
begin

text \<open>
  Python's \<open>sum\<close> over floats: addition from the left, each partial sum rounded (CPython 3.11, the
  version the dependency lock is built for; later versions compensate and are only more exact).
  For non-negative terms the computed sum grows with its terms and misses the exact sum by at
  most one relative rounding error per term. \<open>fval\<close> is the exact value of a finite float.
\<close>

definition fsum :: "pyfloat list \<Rightarrow> pyfloat" where
  "fsum xs = foldl fadd (Fin 0) xs"

definition fval :: "pyfloat \<Rightarrow> rat" where
  "fval a = (case a of Fin x \<Rightarrow> x | _ \<Rightarrow> 0)"

lemma fval_simps [simp]: "fval (Fin x) = x" "fval PosInf = 0" "fval NegInf = 0" "fval NaN = 0"
  by (simp_all add: fval_def)

text \<open>A finite, non-negative double: what amounts of money are supposed to be.\<close>

definition amount :: "pyfloat \<Rightarrow> bool" where
  "amount a \<longleftrightarrow> isfinite a \<and> 0 \<le> fval a \<and> wf_float a"

lemma amount_Fin [simp]: "amount (Fin x) \<longleftrightarrow> 0 \<le> x \<and> wf_float (Fin x)"
  by (simp add: amount_def)

lemma amount_not_special [simp]: "\<not> amount PosInf" "\<not> amount NegInf" "\<not> amount NaN"
  by (simp_all add: amount_def)

lemma amount_cases: "amount a \<Longrightarrow> (\<And>x. a = Fin x \<Longrightarrow> 0 \<le> x \<Longrightarrow> rnd64 x = x \<Longrightarrow> P) \<Longrightarrow> P"
  by (cases a) (auto simp: wf_float_def rnd64_representable)

lemma amount_to_float: "amount (to_float x) \<longleftrightarrow> isfinite (to_float x) \<and> 0 \<le> rnd64 x"
  using wf_to_float [of x] by (auto simp: amount_def to_float_def Let_def)

subsection \<open>The error of one rounding\<close>

definition ulp_rel :: rat where
  "ulp_rel = 1 / 2 ^ 52"

definition ulp_abs :: rat where
  "ulp_abs = two_pow (- 1000)"

lemma ulp_bounds [simp]: "0 < ulp_rel" "0 < ulp_abs" "ulp_rel < 1" "ulp_rel \<le> 1" "ulp_abs \<le> 1 / 10 ^ 20"
  "0 \<le> ulp_rel" "0 \<le> ulp_abs" "ulp_rel \<le> 1 / (4 * 10 ^ 15)"
  using two_pow_m1000 by (simp_all add: ulp_rel_def ulp_abs_def less_imp_le)

lemma rnd64_error_nonneg:
  assumes "0 \<le> x" shows "\<bar>rnd64 x - x\<bar> \<le> x * ulp_rel + ulp_abs"
proof (cases "two_pow (- 1000) \<le> x")
  case True
  from rnd64_error [OF this] have "\<bar>rnd64 x - x\<bar> \<le> x * ulp_rel" by (simp add: ulp_rel_def)
  then show ?thesis by (rule order_trans) simp
next
  case False
  then have x: "x \<le> ulp_abs" by (simp add: ulp_abs_def)
  have "representable ulp_abs"
    unfolding representable_def ulp_abs_def by (intro exI [of _ 1] exI [of _ "- 1000"]) simp
  then have "rnd64 ulp_abs = ulp_abs" by (rule rnd64_representable)
  then have "rnd64 x \<le> ulp_abs" "0 \<le> rnd64 x" using x assms r64.le_fixed r64.nonneg by auto
  moreover have "0 \<le> x * ulp_rel" using assms by simp
  ultimately show ?thesis using x assms by linarith
qed

lemma rnd64_lower: "0 \<le> x \<Longrightarrow> x * (1 - ulp_rel) - ulp_abs \<le> rnd64 x"
  using rnd64_error_nonneg [of x] by (simp add: right_diff_distrib abs_le_iff)

lemma rnd64_upper: "0 \<le> x \<Longrightarrow> rnd64 x \<le> x * (1 + ulp_rel) + ulp_abs"
  using rnd64_error_nonneg [of x] by (simp add: distrib_left abs_le_iff)

subsection \<open>Sums of non-negative amounts\<close>

lemma fsum_Nil [simp]: "fsum [] = Fin 0"
  by (simp add: fsum_def)

lemma fsum_snoc [simp]: "fsum (xs @ [x]) = fadd (fsum xs) x"
  by (simp add: fsum_def)

lemma to_float_nonneg: "0 \<le> x \<Longrightarrow> fle (Fin 0) (to_float x)"
  using to_float_mono [of 0 x] by simp

lemma fle_Fin0_cases: "fle (Fin 0) a \<Longrightarrow> (\<And>x. a = Fin x \<Longrightarrow> 0 \<le> x \<Longrightarrow> P) \<Longrightarrow> (a = PosInf \<Longrightarrow> P) \<Longrightarrow> P"
  by (cases a) (auto simp: fle_def feq_def)

lemma fadd_nonneg: "fle (Fin 0) a \<Longrightarrow> fle (Fin 0) b \<Longrightarrow> fle (Fin 0) (fadd a b)"
  by (elim fle_Fin0_cases) (simp_all add: to_float_nonneg)

lemma amount_nonneg: "amount a \<Longrightarrow> fle (Fin 0) a"
  by (erule amount_cases) simp

lemma fsum_nonneg: "list_all (fle (Fin 0)) xs \<Longrightarrow> fle (Fin 0) (fsum xs)"
  by (induction xs rule: rev_induct) (simp_all add: fadd_nonneg fle_refl)

lemma fle_PosInf: "a \<noteq> NaN \<Longrightarrow> fle a PosInf"
  by (cases a) (simp_all add: fle_def feq_def)

lemma fle_Fin_below: "fle (Fin 0) a \<Longrightarrow> fle a (Fin y) \<Longrightarrow> \<exists>x. a = Fin x \<and> 0 \<le> x \<and> x \<le> y"
  by (cases a) (auto simp: fle_def feq_def)

lemma fadd_mono:
  assumes "fle (Fin 0) a" "fle a a'" "fle (Fin 0) b" "fle b b'"
  shows "fle (fadd a b) (fadd a' b')"
proof (cases "isfinite a' \<and> isfinite b'")
  case True
  then obtain y z where "a' = Fin y" "b' = Fin z" by (metis isfinite_cases)
  with assms fle_Fin_below [of a y] fle_Fin_below [of b z] show ?thesis
    by (auto simp: to_float_mono add_mono)
next
  case False
  have "fle (Fin 0) a'" "fle (Fin 0) b'" using assms fle_trans by blast+
  with False have "fadd a' b' = PosInf" by (elim fle_Fin0_cases) simp_all
  moreover have "fadd a b \<noteq> NaN" using fadd_nonneg [OF assms(1,3)] by (auto simp: fle_def feq_def)
  ultimately show ?thesis by (simp add: fle_PosInf)
qed

lemma fsum_mono:
  "list_all2 fle xs ys \<Longrightarrow> list_all (fle (Fin 0)) xs \<Longrightarrow> fle (fsum xs) (fsum ys)"
proof (induction xs arbitrary: ys rule: rev_induct)
  case (snoc x xs)
  from snoc.prems(1) obtain zs z where ys: "ys = zs @ [z]" "list_all2 fle xs zs" "fle x z"
    by (auto simp: list_all2_append1 list_all2_Cons1)
  with snoc show ?case by (simp add: fadd_mono fsum_nonneg)
qed (simp add: fle_refl)

lemma fadd_zero: "wf_float a \<Longrightarrow> fadd a (Fin 0) = a"
  by (cases a) (simp_all add: to_float_wf)

lemma wf_fadd: "wf_float (fadd a b)"
  by (cases a; cases b) (simp_all add: wf_to_float)

lemma wf_fsum: "wf_float (fsum xs)"
  by (cases xs rule: rev_cases) (simp_all add: wf_fadd)

text \<open>What the computed sum says about the exact one.\<close>

definition exact_sum :: "pyfloat list \<Rightarrow> rat" where
  "exact_sum xs = sum_list (map fval xs)"

lemma exact_sum_simps [simp]: "exact_sum [] = 0" "exact_sum (x # xs) = fval x + exact_sum xs"
  "exact_sum (xs @ ys) = exact_sum xs + exact_sum ys"
  by (simp_all add: exact_sum_def)

lemma exact_sum_nonneg: "list_all amount xs \<Longrightarrow> 0 \<le> exact_sum xs"
  by (induction xs) (auto simp: amount_def)

lemma fsum_exact:
  "list_all amount xs \<Longrightarrow> fsum xs = Fin s \<Longrightarrow>
     0 \<le> s \<and> exact_sum xs * (1 - of_nat (length xs) * ulp_rel) \<le> s + of_nat (length xs) * ulp_abs"
proof (induction xs arbitrary: s rule: rev_induct)
  case (snoc x xs)
  from snoc.prems obtain r where x: "x = Fin r" "0 \<le> r" by (auto elim: amount_cases)
  have am: "list_all amount xs" using snoc.prems(1) by simp
  from am have "list_all (fle (Fin 0)) xs" by (simp add: list_all_iff amount_nonneg)
  then have "fle (Fin 0) (fsum xs)" by (rule fsum_nonneg)
  then obtain p where p: "fsum xs = Fin p" using snoc.prems(2) x by (auto elim!: fle_Fin0_cases)
  from snoc.IH [OF am p] have ih: "0 \<le> p"
    "exact_sum xs * (1 - of_nat (length xs) * ulp_rel) \<le> p + of_nat (length xs) * ulp_abs" by blast+
  have s: "s = rnd64 (p + r)" using snoc.prems(2) p x by (auto simp: to_float_def Let_def split: if_splits)
  let ?k = "of_nat (length xs) :: rat" and ?e = "exact_sum xs"
  have e: "0 \<le> ?e" using am by (rule exact_sum_nonneg)
  have "(p + r) * (1 - ulp_rel) - ulp_abs \<le> s" using rnd64_lower [of "p + r"] ih x s by simp
  moreover have "?e * ((1 - ?k * ulp_rel) * (1 - ulp_rel)) \<le> p * (1 - ulp_rel) + ?k * ulp_abs"
  proof -
    have "?e * (1 - ?k * ulp_rel) * (1 - ulp_rel) \<le> (p + ?k * ulp_abs) * (1 - ulp_rel)"
      using ih(2) by (intro mult_right_mono) simp_all
    moreover have "?k * ulp_abs * (1 - ulp_rel) \<le> ?k * ulp_abs" by (rule mult_left_le) simp_all
    ultimately show ?thesis unfolding distrib_right mult.assoc [of ?e] by linarith
  qed
  moreover have "?e * (1 - (?k + 1) * ulp_rel) \<le> ?e * ((1 - ?k * ulp_rel) * (1 - ulp_rel))"
    by (rule mult_left_mono [OF _ e]) (simp add: algebra_simps)
  moreover have "r * (1 - (?k + 1) * ulp_rel) \<le> r * (1 - ulp_rel)"
    by (rule mult_left_mono [OF _ x(2)]) (simp add: algebra_simps)
  ultimately have "(?e + r) * (1 - (?k + 1) * ulp_rel) \<le> s + (?k + 1) * ulp_abs"
    unfolding distrib_right [of ?e r] distrib_right [of p r] distrib_right [of ?k 1 ulp_abs] by linarith
  with s x ih show ?case by (simp add: r64.nonneg add.commute)
qed simp

text \<open>For up to a thousand terms.\<close>

lemma fsum_exact_thousand:
  assumes "list_all amount xs" "length xs \<le> 1000" "fsum xs = Fin s"
  shows "0 \<le> exact_sum xs" "0 \<le> s" "exact_sum xs * (1 - 1 / (4 * 10 ^ 12)) \<le> s + 1 / 10 ^ 17"
proof -
  let ?n = "of_nat (length xs) :: rat"
  have n: "?n \<le> 1000" using assms(2) of_nat_le_iff [of "length xs" 1000, where 'a = rat] by simp
  have nu: "?n * ulp_rel \<le> 1 / (4 * 10 ^ 12)" and na: "?n * ulp_abs \<le> 1 / 10 ^ 17"
    using mult_mono [OF n ulp_bounds(8)] mult_mono [OF n ulp_bounds(5)] by simp_all
  show e0: "0 \<le> exact_sum xs" using assms(1) by (rule exact_sum_nonneg)
  have e: "0 \<le> s \<and> exact_sum xs * (1 - ?n * ulp_rel) \<le> s + ?n * ulp_abs"
    using fsum_exact [OF assms(1,3)] by blast
  then show "0 \<le> s" by blast
  have "exact_sum xs * (1 - 1 / (4 * 10 ^ 12)) \<le> exact_sum xs * (1 - ?n * ulp_rel)"
    using nu by (intro mult_left_mono [OF _ e0]) simp
  with e na show "exact_sum xs * (1 - 1 / (4 * 10 ^ 12)) \<le> s + 1 / 10 ^ 17" by linarith
qed

subsection \<open>The capacity check in floating point\<close>

text \<open>\<open>capacity - sum(commitments) < request\<close> refuses a request; one that passes overdraws the
  exact capacity by less than a tenth of a cent, for capacities up to a thousand million and
  up to a thousand commitments.\<close>

lemma fsub_Fin: "fsub (Fin x) (Fin y) = to_float (x - y)"
  by (simp add: fsub_def fneg_def)

lemma overdraw_bound:
  assumes "list_all amount xs" "length xs \<le> 1000" "fsum xs = Fin s" "b \<le> 10 ^ 9" "0 \<le> r"
    "r \<le> b - s + 1 / 10 ^ 4"
  shows "exact_sum xs + r \<le> b + 1 / 1000"
  using fsum_exact_thousand [OF assms(1-3)] assms(4-6) by simp

lemma rnd64_diff_upper:
  assumes "0 \<le> x" "x \<le> 2 * 10 ^ 9" shows "rnd64 x \<le> x + 1 / 10 ^ 5"
proof -
  have "x * ulp_rel \<le> 2 * 10 ^ 9 * (1 / (4 * 10 ^ 15))"
    by (rule mult_mono [OF assms(2) ulp_bounds(8)]) simp_all
  then show ?thesis using rnd64_upper [OF assms(1)] ulp_bounds(5) by (simp add: distrib_left)
qed

lemma fsub_fsum_Fin:
  assumes "list_all amount xs" "fsub (Fin b) (fsum xs) \<noteq> NegInf" "b \<le> 10 ^ 9"
  obtains s where "fsum xs = Fin s" "0 \<le> s" "fsub (Fin b) (fsum xs) = Fin (rnd64 (b - s))"
proof -
  have "fle (Fin 0) (fsum xs)" using assms(1) by (intro fsum_nonneg) (simp add: list_all_iff amount_nonneg)
  then obtain s where s: "fsum xs = Fin s" "0 \<le> s"
    using assms(2) by (auto elim!: fle_Fin0_cases simp: fsub_def fneg_def)
  have "rnd64 (b - s) \<le> 10 ^ 9"
    using r64.le_fixed [of "10 ^ 9" "b - s"] rnd64_of_int [of "10 ^ 9"] s assms(3) by simp
  then have "rnd64 (b - s) < max_exclusive" using max_exclusive_gt_int by simp
  with s assms(2) have "fsub (Fin b) (fsum xs) = Fin (rnd64 (b - s))"
    by (auto simp: fsub_Fin to_float_def Let_def split: if_splits)
  with s that show thesis by blast
qed

lemma capacity_check:
  assumes "list_all amount xs" "length xs \<le> 1000" "b \<le> 10 ^ 9" "0 < r"
    "\<not> flt (fsub (Fin b) (fsum xs)) (Fin r)"
  shows "exact_sum xs + r \<le> b + 1 / 1000"
proof -
  have "fsub (Fin b) (fsum xs) \<noteq> NegInf" using assms(5) by auto
  then obtain s where s: "fsum xs = Fin s" "0 \<le> s" "fsub (Fin b) (fsum xs) = Fin (rnd64 (b - s))"
    using fsub_fsum_Fin assms(1,3) by blast
  with assms(5) have r: "r \<le> rnd64 (b - s)" by simp
  then have "0 \<le> b - s" using assms(4) r64.nonpos [of "b - s"] by linarith
  then have "r \<le> b - s + 1 / 10 ^ 4" using r rnd64_diff_upper [of "b - s"] s assms(3) by simp
  with overdraw_bound [OF assms(1,2) s(1) assms(3)] assms(4) show ?thesis by simp
qed

text \<open>The same with a tolerance of a millionth added to what is available.\<close>

lemma millionth: "\<exists>d. to_float (1 / 10 ^ 6) = Fin d \<and> 0 \<le> d \<and> d \<le> 2 / 10 ^ 6"
  using to_float_everyday [of "1 / 10 ^ 6"] rnd64_between [of "1 / 10 ^ 6"] r64.nonneg [of "1 / 10 ^ 6"] by simp

lemma tolerant_capacity_check:
  assumes "list_all amount xs" "length xs \<le> 1000" "b \<le> 10 ^ 9" "0 < r"
    "\<not> flt (fadd (fsub (Fin b) (fsum xs)) (to_float (1 / 10 ^ 6))) (Fin r)"
  shows "exact_sum xs + r \<le> b + 1 / 1000"
proof -
  obtain d where d: "to_float (1 / 10 ^ 6) = Fin d" "0 \<le> d" "d \<le> 2 / 10 ^ 6" using millionth by blast
  have "fsub (Fin b) (fsum xs) \<noteq> NegInf" using assms(5) d(1) by auto
  then obtain s where s: "fsum xs = Fin s" "0 \<le> s" "fsub (Fin b) (fsum xs) = Fin (rnd64 (b - s))"
    using fsub_fsum_Fin assms(1,3) by blast
  let ?a = "rnd64 (b - s)"
  have "?a \<le> 10 ^ 9" using r64.le_fixed [of "10 ^ 9" "b - s"] rnd64_of_int [of "10 ^ 9"] s assms(3) by simp
  then have "rnd64 (?a + d) \<le> 2 * 10 ^ 9"
    using r64.le_fixed [of "2 * 10 ^ 9" "?a + d"] rnd64_of_int [of "2 * 10 ^ 9"] d by simp
  then have "rnd64 (?a + d) < max_exclusive" using max_exclusive_gt_int by simp
  then have r: "r \<le> rnd64 (?a + d)" using assms(5) s(3) d(1)
    by (auto simp: to_float_def [of "?a + d"] Let_def split: if_splits)
  then have ad: "0 \<le> ?a + d" using assms(4) r64.nonpos [of "?a + d"] by linarith
  then have ra: "r \<le> ?a + d + 1 / 10 ^ 5" using r rnd64_diff_upper [of "?a + d"] \<open>?a \<le> 10 ^ 9\<close> d by simp
  have "?a \<le> b - s + 1 / 10 ^ 5"
  proof (cases "0 \<le> b - s")
    case True
    then show ?thesis using rnd64_diff_upper [of "b - s"] s assms(3) by simp
  next
    case False
    then have n: "0 \<le> s - b" by simp
    have "?a = - rnd64 (s - b)" using rnd64_minus [of "s - b"] by simp
    moreover have "(s - b) * (1 / 2) \<le> (s - b) * (1 - ulp_rel)"
      by (rule mult_left_mono [OF _ n]) (use ulp_bounds(8) in simp)
    moreover note rnd64_lower [OF n]
    ultimately show ?thesis using ad d ulp_bounds(5) n by simp
  qed
  with ra d have "r \<le> b - s + 1 / 10 ^ 4" by simp
  with overdraw_bound [OF assms(1,2) s(1) assms(3)] assms(4) show ?thesis by simp
qed

text \<open>A fraction of a base that does not exceed its limit bounds the amount, rounding included.\<close>

lemma fraction_check:
  assumes "fdiv (Fin g) (Fin b) = Some q" "\<not> flt (Fin f) q" "0 \<le> g" "0 < b" "b \<le> 10 ^ 9" "0 \<le> f" "f \<le> 1"
  shows "g \<le> f * b + 1 / 10 ^ 5"
proof -
  have q: "q = to_float (g / b)" using assms(1,4) by simp
  have gb: "0 \<le> g / b" using assms(3,4) by simp
  have "0 \<le> rnd64 (g / b)" using gb by (rule r64.nonneg)
  then have "rnd64 (g / b) \<le> f" using assms(2) q max_exclusive_gt_int
    by (auto simp: to_float_def Let_def split: if_splits)
  then have "g / b * (1 - ulp_rel) - ulp_abs \<le> f" using rnd64_lower [OF gb] by linarith
  then have "(g / b * (1 - ulp_rel) - ulp_abs) * b \<le> f * b" using assms(4) by (intro mult_right_mono) simp_all
  then have g: "g * (1 - ulp_rel) \<le> f * b + ulp_abs * b"
    using assms(4) by (simp add: left_diff_distrib)
  have fb: "f * b \<le> 10 ^ 9" using mult_mono [OF assms(7,5)] assms(4) by simp
  have ab: "ulp_abs * b \<le> 1 / 10 ^ 20 * 10 ^ 9"
    by (rule mult_mono [OF ulp_bounds(5) assms(5)]) (use assms(4) in simp_all)
  have "g * (1 / 2) \<le> g * (1 - ulp_rel)"
    by (rule mult_left_mono [OF _ assms(3)]) (use ulp_bounds(8) in simp)
  with g fb ab have "g \<le> 4 * 10 ^ 9" by simp
  then have "g * ulp_rel \<le> 4 * 10 ^ 9 * (1 / (4 * 10 ^ 15))"
    by (rule mult_mono [OF _ ulp_bounds(8)]) simp_all
  with g ab show ?thesis by (simp add: right_diff_distrib)
qed

subsection \<open>Evaluation on whole numbers\<close>

lemma to_float_int: "\<bar>n\<bar> \<le> 2 ^ 53 \<Longrightarrow> to_float (of_int n) = Fin (of_int n)"
  using rnd64_of_int [of n] max_exclusive_gt_int of_int_le_iff [of "\<bar>n\<bar>" "2 ^ 53", where 'a = rat]
  by (simp add: to_float_def Let_def abs_le_iff)

lemma to_float_numeral [simp]:
  "(numeral k :: int) \<le> 2 ^ 53 \<Longrightarrow> to_float (numeral k) = Fin (numeral k)"
  "(numeral k :: int) \<le> 2 ^ 53 \<Longrightarrow> to_float (- numeral k) = Fin (- numeral k)"
  using to_float_int [of "numeral k"] to_float_int [of "- numeral k"] by simp_all

lemma wf_float_int: "\<bar>n\<bar> \<le> 2 ^ 53 \<Longrightarrow> wf_float (Fin (of_int n))"
  using wf_to_float [of "of_int n"] by (simp add: to_float_int)

lemma wf_float_numeral [simp]:
  "wf_float (Fin 1)" "(numeral k :: int) \<le> 2 ^ 53 \<Longrightarrow> wf_float (Fin (numeral k))"
  using wf_float_int [of 1] wf_float_int [of "numeral k"] by simp_all

lemma to_float_le: "wf_float (Fin y) \<Longrightarrow> x \<le> y \<Longrightarrow> \<not> flt (Fin y) (to_float x)"
  using to_float_mono [of x y] by (auto simp: to_float_wf dest: flt_not_fle)

end
