(* ===== verification/Reservation.thy ===== *)
theory Reservation
  imports Float_Sum
begin

text \<open>
  \<open>src/core/capital_reservation.py\<close>: capital set aside for one entry order. A fill consumes it, a
  cancellation or an expiry gives the rest back; while it is open it counts against the buying
  power of the account. The timestamps are already parsed; the clock and the generated id are
  arguments.
\<close>

datatype reservation_status = RESERVED | PARTIALLY_CONSUMED | CONSUMED | RELEASED | RESERVATION_EXPIRED

definition OPEN_RESERVATION_STATUSES :: "reservation_status set" where
  "OPEN_RESERVATION_STATUSES = {RESERVED, PARTIALLY_CONSUMED}"

record reservation =
  cr_reservation_id :: string
  cr_environment :: string
  cr_account_no :: string
  cr_symbol :: string
  cr_attempt_group_id :: string
  cr_requested_notional :: pyfloat
  cr_remaining_reserved_notional :: pyfloat
  cr_projected_open_risk :: pyfloat
  cr_remaining_projected_open_risk :: pyfloat
  cr_status :: reservation_status
  cr_version :: int
  cr_created_at :: timestamp
  cr_released_at :: "timestamp option"
  cr_absence_count :: int
  cr_last_absence_snapshot_id :: string
  cr_last_absence_observed_at :: "string option"
  cr_last_absence_session_date :: "string option"

definition nonempty_text :: "string option \<Rightarrow> string option" where
  "nonempty_text v = (if some_text v then v else None)"

definition reservation_post_init :: "reservation \<Rightarrow> reservation" where
  "reservation_post_init r =
     r\<lparr>cr_environment := py_upper (cr_environment r), cr_symbol := py_upper (cr_symbol r),
       cr_projected_open_risk := fmax (Fin 0) (cr_projected_open_risk r),
       cr_remaining_projected_open_risk := fmax (Fin 0) (cr_remaining_projected_open_risk r),
       cr_version := max 1 (cr_version r), cr_absence_count := max 0 (cr_absence_count r),
       cr_last_absence_observed_at := nonempty_text (cr_last_absence_observed_at r),
       cr_last_absence_session_date := nonempty_text (cr_last_absence_session_date r)\<rparr>"

definition create_reservation ::
    "string \<Rightarrow> timestamp \<Rightarrow> string \<Rightarrow> string \<Rightarrow> string \<Rightarrow> string \<Rightarrow> pyfloat \<Rightarrow> pyfloat \<Rightarrow> reservation" where
  "create_reservation new_id now environment account_no ticker attempt_group requested_notional projected_open_risk =
     reservation_post_init
       \<lparr>cr_reservation_id = new_id, cr_environment = environment, cr_account_no = account_no,
        cr_symbol = ticker, cr_attempt_group_id = attempt_group,
        cr_requested_notional = requested_notional, cr_remaining_reserved_notional = requested_notional,
        cr_projected_open_risk = projected_open_risk,
        cr_remaining_projected_open_risk = projected_open_risk, cr_status = RESERVED, cr_version = 1,
        cr_created_at = now, cr_released_at = None, cr_absence_count = 0,
        cr_last_absence_snapshot_id = [], cr_last_absence_observed_at = None,
        cr_last_absence_session_date = None\<rparr>"

definition reservation_is_open :: "reservation \<Rightarrow> bool" where
  "reservation_is_open r \<longleftrightarrow> cr_status r \<in> OPEN_RESERVATION_STATUSES"

text \<open>The literal \<open>1e-9\<close>.\<close>

definition dust :: pyfloat where
  "dust = to_float (1 / 10 ^ 9)"

definition consume_reservation_notional :: "pyfloat \<Rightarrow> reservation \<Rightarrow> reservation" where
  "consume_reservation_notional raw r =
     (let notional = fmax (Fin 0) raw;
          previous = cr_remaining_reserved_notional r;
          remaining = fmax (Fin 0) (fsub previous notional);
          risk = (if flt dust previous
                  then (case fdiv remaining previous of
                          None \<Rightarrow> cr_remaining_projected_open_risk r
                        | Some fraction \<Rightarrow> fmul (cr_remaining_projected_open_risk r) fraction)
                  else cr_remaining_projected_open_risk r)
      in if fle remaining dust
         then r\<lparr>cr_remaining_reserved_notional := remaining, cr_remaining_projected_open_risk := Fin 0,
                cr_status := CONSUMED\<rparr>
         else r\<lparr>cr_remaining_reserved_notional := remaining, cr_remaining_projected_open_risk := risk,
                cr_status := PARTIALLY_CONSUMED\<rparr>)"

definition release_reservation_notional :: "timestamp \<Rightarrow> reservation \<Rightarrow> reservation" where
  "release_reservation_notional now r =
     r\<lparr>cr_remaining_reserved_notional := Fin 0, cr_remaining_projected_open_risk := Fin 0,
       cr_status := RELEASED, cr_released_at := Some now\<rparr>"

definition expire_reservation_notional :: "timestamp \<Rightarrow> reservation \<Rightarrow> reservation" where
  "expire_reservation_notional now r =
     r\<lparr>cr_remaining_reserved_notional := Fin 0, cr_remaining_projected_open_risk := Fin 0,
       cr_status := RESERVATION_EXPIRED, cr_released_at := Some now\<rparr>"

definition available_for_new_entries :: "pyfloat \<Rightarrow> reservation list \<Rightarrow> pyfloat" where
  "available_for_new_entries buying_power reservations =
     fsub buying_power (fsum (map cr_remaining_reserved_notional (filter reservation_is_open reservations)))"

subsection \<open>The amounts of a reservation\<close>

definition reservation_amounts :: "reservation \<Rightarrow> bool" where
  "reservation_amounts r \<longleftrightarrow> amount (cr_remaining_reserved_notional r)"

text \<open>A closed reservation has nothing left but dust.\<close>

definition reservation_ok :: "reservation \<Rightarrow> bool" where
  "reservation_ok r \<longleftrightarrow> reservation_amounts r
     \<and> (reservation_is_open r \<or> fle (cr_remaining_reserved_notional r) dust)"

text \<open>What an open reservation holds; a closed one holds nothing.\<close>

definition held_notional :: "reservation \<Rightarrow> rat" where
  "held_notional r = (if reservation_is_open r then fval (cr_remaining_reserved_notional r) else 0)"

lemma amount_after_fill:
  assumes "amount a"
  shows "amount (fmax (Fin 0) (fsub a (fmax (Fin 0) n)))
    \<and> fval (fmax (Fin 0) (fsub a (fmax (Fin 0) n))) \<le> fval a"
proof -
  obtain x where x: "a = Fin x" "0 \<le> x" "rnd64 x = x" using assms by (rule amount_cases)
  have "(\<exists>k \<ge> 0. fmax (Fin 0) n = Fin k) \<or> fmax (Fin 0) n = PosInf"
    by (cases n) (auto simp: fmax_def)
  then consider k where "fmax (Fin 0) n = Fin k" "0 \<le> k" | "fmax (Fin 0) n = PosInf" by blast
  then show ?thesis
  proof cases
    case 1
    have le: "rnd64 (x - k) \<le> x" using x 1 by (intro r64.diff_le) simp_all
    have "x < max_exclusive" using assms x by (simp add: amount_def wf_float_def)
    with le x 1 wf_to_float [of "x - k"] show ?thesis
      by (auto simp: fsub_Fin to_float_def Let_def fmax_def)
  next
    case 2
    with x show ?thesis by (simp add: fsub_def fneg_def fmax_def)
  qed
qed

lemma consume_shrinks:
  assumes "reservation_amounts r"
  shows "reservation_amounts (consume_reservation_notional n r)"
    "reservation_is_open r \<Longrightarrow> held_notional (consume_reservation_notional n r) \<le> held_notional r"
    "fval (cr_remaining_reserved_notional (consume_reservation_notional n r))
       \<le> fval (cr_remaining_reserved_notional r)"
  using amount_after_fill [of "cr_remaining_reserved_notional r" n] assms
  by (auto simp: reservation_amounts_def consume_reservation_notional_def Let_def held_notional_def
      reservation_is_open_def OPEN_RESERVATION_STATUSES_def amount_def)

lemma dust_nonneg: "fle (Fin 0) dust"
  by (simp add: dust_def to_float_nonneg)

lemma consume_ok:
  assumes "reservation_ok r"
  shows "reservation_ok (consume_reservation_notional n r)"
    "held_notional (consume_reservation_notional n r) \<le> held_notional r"
    "reservation_is_open (consume_reservation_notional n r) \<Longrightarrow> reservation_is_open r"
proof -
  let ?r = "consume_reservation_notional n r"
  have am: "reservation_amounts r" using assms by (simp add: reservation_ok_def)
  note s = consume_shrinks [OF am, of n]
  have o: "reservation_is_open ?r \<longleftrightarrow> \<not> fle (cr_remaining_reserved_notional ?r) dust"
    by (simp add: consume_reservation_notional_def Let_def reservation_is_open_def OPEN_RESERVATION_STATUSES_def)
  with s(1) show "reservation_ok ?r" by (simp add: reservation_ok_def)
  have "fle (cr_remaining_reserved_notional ?r) (cr_remaining_reserved_notional r)"
    using s(1,3) am by (auto simp: reservation_amounts_def elim!: amount_cases)
  then show c: "reservation_is_open ?r \<Longrightarrow> reservation_is_open r"
    using o assms fle_trans by (auto simp: reservation_ok_def)
  then show "held_notional ?r \<le> held_notional r"
    using s(2) am by (auto simp: held_notional_def reservation_amounts_def amount_def)
qed

lemma closing_ok:
  "reservation_ok (release_reservation_notional now r)" "held_notional (release_reservation_notional now r) = 0"
  "reservation_ok (expire_reservation_notional now r)" "held_notional (expire_reservation_notional now r) = 0"
  "\<not> reservation_is_open (release_reservation_notional now r)"
  "\<not> reservation_is_open (expire_reservation_notional now r)"
  by (simp_all add: reservation_ok_def reservation_amounts_def release_reservation_notional_def
      expire_reservation_notional_def held_notional_def reservation_is_open_def OPEN_RESERVATION_STATUSES_def
      dust_nonneg)

lemma held_nonneg: "reservation_ok r \<Longrightarrow> 0 \<le> held_notional r"
  by (simp add: held_notional_def reservation_ok_def reservation_amounts_def amount_def)

lemma exact_sum_open:
  "exact_sum (map cr_remaining_reserved_notional (filter reservation_is_open rs)) = sum_list (map held_notional rs)"
  by (induction rs) (simp_all add: held_notional_def)

end
