(* ===== verification/Portfolio_Risk.thy ===== *)
theory Portfolio_Risk
  imports Float_Sum "HOL-Library.List_Lexorder" "HOL-Library.Char_ord"
begin

text \<open>
  \<open>src/risk/portfolio.py\<close>: the decision whether one more entry fits the account. A snapshot holds
  the positions of the account and the exposures that are not positions yet; the decision adds
  the proposed entry to both and compares with the limits. With it goes the specification the
  gateway's transaction repeats the decision with, under the account lock. Observation times are
  timezone-aware; texts are compared stripped and in upper case.
\<close>

definition normalized_text :: "string \<Rightarrow> string" where
  "normalized_text v = py_upper (py_strip v)"

lemma normalized_text_idem [simp]: "normalized_text (normalized_text v) = normalized_text v"
  by (simp add: normalized_text_def py_strip_upper)

datatype risk_value_error =
    NotFiniteNonnegative string
  | PositionLimitOutOfRange
  | GrossLimitAboveNav
  | SinglePositionFractionOutOfRange
  | FxAgeNotPositive
  | PositionSymbolRequired
  | PositionQuantityNotPositive
  | MarkPriceNotPositive
  | ExposureSymbolRequired
  | ExposureSourceRequired
  | ExposureNotionalNotPositive
  | ReservationScopeIncomplete
  | ProposedNotionalNotPositive

text \<open>The condition under which \<open>_finite_nonnegative\<close> raises, with the name it reports.\<close>

definition finite_nonnegative :: "pyfloat \<Rightarrow> string \<Rightarrow> bool \<times> risk_value_error" where
  "finite_nonnegative v field = (\<not> isfinite v \<or> flt v (Fin 0), NotFiniteNonnegative field)"

definition MAX_PORTFOLIO_POSITIONS :: int where
  "MAX_PORTFOLIO_POSITIONS = 30"

subsection \<open>Limits\<close>

record risk_limits =
  rl_max_simultaneous_positions :: int
  rl_max_total_open_risk_fraction :: pyfloat
  rl_max_gross_notional_fraction :: pyfloat
  rl_max_single_position_notional_fraction :: pyfloat
  rl_max_incremental_buying_power_fraction :: pyfloat
  rl_max_daily_loss_fraction :: pyfloat
  rl_max_drawdown_fraction :: pyfloat
  rl_max_sector_notional_fraction :: pyfloat
  rl_max_industry_notional_fraction :: pyfloat
  rl_max_correlation_group_notional_fraction :: pyfloat
  rl_max_strategy_notional_fraction :: pyfloat
  rl_max_fx_age :: int

definition fraction_out_of_range :: "pyfloat \<Rightarrow> bool" where
  "fraction_out_of_range f \<longleftrightarrow> \<not> (fpos f \<and> fle f (Fin 1))"

definition risk_limits_post_init :: "risk_limits \<Rightarrow> risk_value_error option" where
  "risk_limits_post_init l = first_error
     ([(\<not> (1 \<le> rl_max_simultaneous_positions l
           \<and> rl_max_simultaneous_positions l \<le> MAX_PORTFOLIO_POSITIONS), PositionLimitOutOfRange)]
      @ map (\<lambda>(v, field). finite_nonnegative v field)
         [(rl_max_total_open_risk_fraction l, ''max_total_open_risk_fraction''),
          (rl_max_gross_notional_fraction l, ''max_gross_notional_fraction''),
          (rl_max_single_position_notional_fraction l, ''max_single_position_notional_fraction''),
          (rl_max_incremental_buying_power_fraction l, ''max_incremental_buying_power_fraction''),
          (rl_max_daily_loss_fraction l, ''max_daily_loss_fraction''),
          (rl_max_drawdown_fraction l, ''max_drawdown_fraction''),
          (rl_max_sector_notional_fraction l, ''max_sector_notional_fraction''),
          (rl_max_industry_notional_fraction l, ''max_industry_notional_fraction''),
          (rl_max_correlation_group_notional_fraction l, ''max_correlation_group_notional_fraction''),
          (rl_max_strategy_notional_fraction l, ''max_strategy_notional_fraction'')]
      @ [(flt (Fin 1) (rl_max_gross_notional_fraction l), GrossLimitAboveNav),
         (fraction_out_of_range (rl_max_single_position_notional_fraction l),
          SinglePositionFractionOutOfRange),
         (rl_max_fx_age l \<le> 0, FxAgeNotPositive)])"

subsection \<open>Positions, exposures, proposals\<close>

record position_risk =
  pr_symbol :: string
  pr_quantity :: int
  pr_mark_price :: pyfloat
  pr_stop_price :: pyfloat
  pr_strategy_id :: string
  pr_sector :: string
  pr_industry :: string
  pr_correlation_group :: string

definition position_risk_post_init :: "position_risk \<Rightarrow> risk_value_error + position_risk" where
  "position_risk_post_init p0 =
     (let p = p0\<lparr>pr_symbol := normalized_text (pr_symbol p0),
                 pr_strategy_id := normalized_text (pr_strategy_id p0),
                 pr_sector := normalized_text (pr_sector p0),
                 pr_industry := normalized_text (pr_industry p0),
                 pr_correlation_group := normalized_text (pr_correlation_group p0)\<rparr>
      in guarded (first_error
           [(pr_symbol p = [], PositionSymbolRequired),
            (pr_quantity p \<le> 0, PositionQuantityNotPositive),
            finite_nonnegative (pr_mark_price p) ''mark_price'',
            (fle (pr_mark_price p) (Fin 0), MarkPriceNotPositive),
            finite_nonnegative (pr_stop_price p) ''stop_price'']) (Inr p))"

definition position_notional :: "position_risk \<Rightarrow> pyfloat" where
  "position_notional p = fmul (float_of_int (pr_quantity p)) (pr_mark_price p)"

definition position_open_risk :: "position_risk \<Rightarrow> pyfloat" where
  "position_open_risk p =
     fmul (float_of_int (pr_quantity p)) (fmax (Fin 0) (fsub (pr_mark_price p) (pr_stop_price p)))"

record projected_exposure =
  px_symbol :: string
  px_gross_notional_usd :: pyfloat
  px_open_risk_usd :: pyfloat
  px_source :: string
  px_reservation_id :: string
  px_strategy_id :: string
  px_sector :: string
  px_industry :: string
  px_correlation_group :: string

definition projected_exposure_post_init :: "projected_exposure \<Rightarrow> risk_value_error + projected_exposure" where
  "projected_exposure_post_init x0 =
     (let x = x0\<lparr>px_symbol := normalized_text (px_symbol x0), px_source := normalized_text (px_source x0),
                 px_reservation_id := py_strip (px_reservation_id x0),
                 px_strategy_id := normalized_text (px_strategy_id x0),
                 px_sector := normalized_text (px_sector x0),
                 px_industry := normalized_text (px_industry x0),
                 px_correlation_group := normalized_text (px_correlation_group x0)\<rparr>
      in guarded (first_error
           [(px_symbol x = [], ExposureSymbolRequired),
            (px_source x = [], ExposureSourceRequired),
            finite_nonnegative (px_gross_notional_usd x) ''gross_notional_usd'',
            (fle (px_gross_notional_usd x) (Fin 0), ExposureNotionalNotPositive),
            finite_nonnegative (px_open_risk_usd x) ''open_risk_usd'']) (Inr x))"

record proposed_entry =
  pe_symbol :: string
  pe_quantity :: int
  pe_reference_price :: pyfloat
  pe_stop_price :: pyfloat
  pe_strategy_id :: string
  pe_environment :: string
  pe_account_no :: string
  pe_sector :: string
  pe_industry :: string
  pe_correlation_group :: string

definition as_position :: "proposed_entry \<Rightarrow> risk_value_error + position_risk" where
  "as_position e = position_risk_post_init
     \<lparr>pr_symbol = pe_symbol e, pr_quantity = pe_quantity e, pr_mark_price = pe_reference_price e,
      pr_stop_price = pe_stop_price e, pr_strategy_id = pe_strategy_id e, pr_sector = pe_sector e,
      pr_industry = pe_industry e, pr_correlation_group = pe_correlation_group e\<rparr>"

text \<open>The code iterates over positions and exposures together and reads the same attributes.\<close>

datatype exposure_item = Held position_risk | Pending projected_exposure

fun item_symbol :: "exposure_item \<Rightarrow> string" where
  "item_symbol (Held p) = pr_symbol p"
| "item_symbol (Pending x) = px_symbol x"

fun item_notional :: "exposure_item \<Rightarrow> pyfloat" where
  "item_notional (Held p) = position_notional p"
| "item_notional (Pending x) = px_gross_notional_usd x"

fun item_open_risk :: "exposure_item \<Rightarrow> pyfloat" where
  "item_open_risk (Held p) = position_open_risk p"
| "item_open_risk (Pending x) = px_open_risk_usd x"

datatype group_attribute = BY_SECTOR | BY_INDUSTRY | BY_CORRELATION_GROUP | BY_STRATEGY

fun position_group :: "group_attribute \<Rightarrow> position_risk \<Rightarrow> string" where
  "position_group BY_SECTOR p = pr_sector p"
| "position_group BY_INDUSTRY p = pr_industry p"
| "position_group BY_CORRELATION_GROUP p = pr_correlation_group p"
| "position_group BY_STRATEGY p = pr_strategy_id p"

fun item_group :: "group_attribute \<Rightarrow> exposure_item \<Rightarrow> string" where
  "item_group a (Held p) = position_group a p"
| "item_group BY_SECTOR (Pending x) = px_sector x"
| "item_group BY_INDUSTRY (Pending x) = px_industry x"
| "item_group BY_CORRELATION_GROUP (Pending x) = px_correlation_group x"
| "item_group BY_STRATEGY (Pending x) = px_strategy_id x"

record risk_snapshot =
  sn_account_equity_usd :: pyfloat
  sn_usable_buying_power_usd :: pyfloat
  sn_positions :: "position_risk list"
  sn_projected_exposures :: "projected_exposure list"
  sn_daily_realized_pnl_usd :: "pyfloat option"
  sn_daily_unrealized_pnl_usd :: "pyfloat option"
  sn_high_water_equity_usd :: "pyfloat option"
  sn_equity_source_currency :: string
  sn_fx_rate_to_usd :: "pyfloat option"
  sn_fx_observed_at :: "timestamp option"
  sn_evaluated_at :: timestamp

definition risk_snapshot_post_init :: "risk_snapshot \<Rightarrow> risk_value_error + risk_snapshot" where
  "risk_snapshot_post_init s =
     guarded (first_error
       [finite_nonnegative (sn_account_equity_usd s) ''account_equity_usd'',
        finite_nonnegative (sn_usable_buying_power_usd s) ''usable_buying_power_usd''])
     (Inr (s\<lparr>sn_equity_source_currency := normalized_text (sn_equity_source_currency s)\<rparr>))"

subsection \<open>The reservation specification\<close>

record reservation_spec =
  sp_environment :: string
  sp_account_no :: string
  sp_symbol :: string
  sp_proposed_notional_usd :: pyfloat
  sp_proposed_open_risk_usd :: pyfloat
  sp_account_equity_usd :: pyfloat
  sp_baseline_position_symbols :: "string list"
  sp_baseline_open_risk_usd :: pyfloat
  sp_baseline_gross_notional_usd :: pyfloat
  sp_baseline_symbol_notional_usd :: pyfloat
  sp_max_simultaneous_positions :: int
  sp_max_total_open_risk_fraction :: pyfloat
  sp_max_gross_notional_fraction :: pyfloat
  sp_max_single_position_notional_fraction :: pyfloat
  sp_evaluated_at :: timestamp

definition reservation_spec_post_init :: "reservation_spec \<Rightarrow> risk_value_error + reservation_spec" where
  "reservation_spec_post_init s0 =
     (let s = s0\<lparr>sp_environment := normalized_text (sp_environment s0),
                 sp_account_no := py_strip (sp_account_no s0),
                 sp_symbol := normalized_text (sp_symbol s0),
                 sp_baseline_position_symbols := sort (remdups (filter (\<lambda>v. v \<noteq> [])
                   (map normalized_text (sp_baseline_position_symbols s0))))\<rparr>
      in guarded (first_error
           [finite_nonnegative (sp_proposed_notional_usd s) ''proposed_notional_usd'',
            finite_nonnegative (sp_proposed_open_risk_usd s) ''proposed_open_risk_usd'',
            finite_nonnegative (sp_account_equity_usd s) ''account_equity_usd'',
            finite_nonnegative (sp_baseline_open_risk_usd s) ''baseline_open_risk_usd'',
            finite_nonnegative (sp_baseline_gross_notional_usd s) ''baseline_gross_notional_usd'',
            finite_nonnegative (sp_baseline_symbol_notional_usd s) ''baseline_symbol_notional_usd'',
            (sp_environment s = [] \<or> sp_account_no s = [] \<or> sp_symbol s = [], ReservationScopeIncomplete),
            (fle (sp_proposed_notional_usd s) (Fin 0), ProposedNotionalNotPositive),
            (\<not> (1 \<le> sp_max_simultaneous_positions s
                \<and> sp_max_simultaneous_positions s \<le> MAX_PORTFOLIO_POSITIONS), PositionLimitOutOfRange),
            finite_nonnegative (sp_max_total_open_risk_fraction s) ''max_total_open_risk_fraction'',
            finite_nonnegative (sp_max_gross_notional_fraction s) ''max_gross_notional_fraction'',
            finite_nonnegative (sp_max_single_position_notional_fraction s)
              ''max_single_position_notional_fraction'',
            (fraction_out_of_range (sp_max_single_position_notional_fraction s),
             SinglePositionFractionOutOfRange)]) (Inr s))"

text \<open>\<open>math.isclose(a, b, rel_tol=0.0, abs_tol=1e-6)\<close>.\<close>

definition close_to :: "pyfloat \<Rightarrow> pyfloat \<Rightarrow> bool" where
  "close_to a b \<longleftrightarrow> feq a b
     \<or> (isfinite a \<and> isfinite b \<and> fle (fabs (fsub b a)) (to_float (1 / 10 ^ 6)))"

datatype reservation_spec_error =
    SpecOtherScope | SpecNotionalMismatch | SpecRiskOutsideNotional | SpecEquityNotPositive
  | SpecNotCurrent

definition require_portfolio_risk_reservation_spec ::
    "reservation_spec \<Rightarrow> string \<Rightarrow> string \<Rightarrow> string \<Rightarrow> int \<Rightarrow> pyfloat \<Rightarrow> timestamp
       \<Rightarrow> reservation_spec_error + reservation_spec" where
  "require_portfolio_risk_reservation_spec s environment account_no ticker quantity reference_price evaluated_at =
     guarded (first_error
       [((sp_environment s, sp_account_no s, sp_symbol s)
           \<noteq> (normalized_text environment, py_strip account_no, normalized_text ticker), SpecOtherScope),
        (\<not> close_to (sp_proposed_notional_usd s) (fmul (float_of_int quantity) reference_price),
         SpecNotionalMismatch),
        (flt (sp_proposed_open_risk_usd s) (Fin 0)
           \<or> flt (fadd (sp_proposed_notional_usd s) (to_float (1 / 10 ^ 6))) (sp_proposed_open_risk_usd s),
         SpecRiskOutsideNotional),
        (fle (sp_account_equity_usd s) (Fin 0), SpecEquityNotPositive),
        (sp_evaluated_at s \<noteq> evaluated_at, SpecNotCurrent)]) (Inr s)"

subsection \<open>The decision\<close>

datatype risk_reason =
    InvalidProposal risk_value_error
  | PendingBuyWithoutReservation
  | EquityRequired
  | BuyingPowerRequired
  | TooManyPositions
  | OpenRiskExceeded
  | GrossNotionalExceeded
  | SinglePositionExceeded
  | IncrementalBuyingPowerExceeded
  | DailyPnlRequired
  | DailyLossReached
  | HighWaterRequired
  | DrawdownReached
  | ClassificationRequired group_attribute
  | ConcentrationExceeded group_attribute
  | FxRateStale

record risk_decision =
  rd_approved :: bool
  rd_reasons :: "risk_reason list"
  rd_position_count_after :: int
  rd_total_open_risk_after_usd :: pyfloat
  rd_gross_notional_after_usd :: pyfloat
  rd_proposed_notional_usd :: pyfloat
  rd_reservation_spec :: "reservation_spec option"

text \<open>\<open>amount / base > limit\<close>; the base is positive where the code divides, so the
  \<open>ZeroDivisionError\<close> (here: not exceeding) does not occur.\<close>

definition fraction_exceeds :: "pyfloat \<Rightarrow> pyfloat \<Rightarrow> pyfloat \<Rightarrow> bool" where
  "fraction_exceeds sum_usd base limit \<longleftrightarrow>
     (case fdiv sum_usd base of None \<Rightarrow> False | Some f \<Rightarrow> flt limit f)"

text \<open>\<open>if c: reasons.append(r)\<close>\<close>

definition when_reason :: "bool \<Rightarrow> 'r \<Rightarrow> 'r list" where
  "when_reason c r = (if c then [r] else [])"

definition group_notional :: "exposure_item list \<Rightarrow> group_attribute \<Rightarrow> string \<Rightarrow> pyfloat" where
  "group_notional items a key =
     (if key = [] then Fin 0 else fsum (map item_notional (filter (\<lambda>i. item_group a i = key) items)))"

definition check_concentration ::
    "exposure_item list \<Rightarrow> position_risk \<Rightarrow> pyfloat \<Rightarrow> group_attribute \<Rightarrow> pyfloat \<Rightarrow> risk_reason list" where
  "check_concentration items proposed equity a limit =
     (if fle limit (Fin 0) then []
      else if position_group a proposed = [] then [ClassificationRequired a]
      else if fle equity (Fin 0) then []
      else when_reason (fraction_exceeds
             (fadd (group_notional items a (position_group a proposed)) (position_notional proposed))
             equity limit) (ConcentrationExceeded a))"

definition daily_loss_reasons :: "risk_limits \<Rightarrow> risk_snapshot \<Rightarrow> risk_reason list" where
  "daily_loss_reasons l s =
     (let equity = sn_account_equity_usd s
      in if \<not> fpos (rl_max_daily_loss_fraction l) then []
         else case (sn_daily_realized_pnl_usd s, sn_daily_unrealized_pnl_usd s) of
           (Some realized, Some unrealized) \<Rightarrow>
             when_reason (fpos equity
                 \<and> flt (fsum [realized, unrealized]) (fneg (fmul equity (rl_max_daily_loss_fraction l))))
               DailyLossReached
         | _ \<Rightarrow> [DailyPnlRequired])"

definition drawdown_reasons :: "risk_limits \<Rightarrow> risk_snapshot \<Rightarrow> risk_reason list" where
  "drawdown_reasons l s =
     (if \<not> fpos (rl_max_drawdown_fraction l) then []
      else case sn_high_water_equity_usd s of
        None \<Rightarrow> [HighWaterRequired]
      | Some h \<Rightarrow>
          if \<not> isfinite h \<or> fle h (Fin 0) then [HighWaterRequired]
          else case fdiv (fsub h (sn_account_equity_usd s)) h of
                 None \<Rightarrow> [HighWaterRequired]
               | Some f \<Rightarrow> when_reason (fle (rl_max_drawdown_fraction l) (fmax (Fin 0) f)) DrawdownReached)"

definition fx_reasons :: "risk_limits \<Rightarrow> risk_snapshot \<Rightarrow> risk_reason list" where
  "fx_reasons l s =
     when_reason (sn_equity_source_currency s \<notin> {[], ''USD''}
         \<and> (case (sn_fx_observed_at s, sn_fx_rate_to_usd s) of
              (Some observed, Some rate) \<Rightarrow> \<not> isfinite rate \<or> fle rate (Fin 0)
                \<or> rl_max_fx_age l < sn_evaluated_at s - observed
            | _ \<Rightarrow> True)) FxRateStale"

definition remaining_exposures :: "string \<Rightarrow> risk_snapshot \<Rightarrow> projected_exposure list" where
  "remaining_exposures replaced s =
     filter (\<lambda>x. \<not> (replaced \<noteq> [] \<and> px_reservation_id x = replaced)) (sn_projected_exposures s)"

definition existing_items :: "string \<Rightarrow> risk_snapshot \<Rightarrow> exposure_item list" where
  "existing_items replaced s = map Held (sn_positions s) @ map Pending (remaining_exposures replaced s)"

definition position_count_after :: "exposure_item list \<Rightarrow> position_risk \<Rightarrow> int" where
  "position_count_after items proposed = int (card (insert (pr_symbol proposed) (item_symbol ` set items)))"

definition core_limit_reasons :: "risk_limits \<Rightarrow> pyfloat \<Rightarrow> exposure_item list \<Rightarrow> position_risk \<Rightarrow> risk_reason list" where
  "core_limit_reasons l equity items proposed =
     (let total = (\<lambda>sel. fadd (fsum (map sel items)));
          symbol_notional = fsum (map item_notional (filter (\<lambda>i. item_symbol i = pr_symbol proposed) items))
      in when_reason (rl_max_simultaneous_positions l < position_count_after items proposed) TooManyPositions
       @ when_reason (fpos equity \<and> fpos (rl_max_total_open_risk_fraction l)
           \<and> fraction_exceeds (total item_open_risk (position_open_risk proposed)) equity
               (rl_max_total_open_risk_fraction l)) OpenRiskExceeded
       @ when_reason (fpos equity \<and> fpos (rl_max_gross_notional_fraction l)
           \<and> fraction_exceeds (total item_notional (position_notional proposed)) equity
               (rl_max_gross_notional_fraction l)) GrossNotionalExceeded
       @ when_reason (fpos equity \<and> fraction_exceeds (fadd symbol_notional (position_notional proposed))
           equity (rl_max_single_position_notional_fraction l)) SinglePositionExceeded)"

definition entry_reasons :: "risk_limits \<Rightarrow> risk_snapshot \<Rightarrow> string \<Rightarrow> position_risk \<Rightarrow> risk_reason list" where
  "entry_reasons l s replaced proposed =
     (let equity = sn_account_equity_usd s; buying_power = sn_usable_buying_power_usd s;
          items = existing_items replaced s
      in when_reason (list_ex (\<lambda>x. px_source x = ''PENDING_BUY_WITHOUT_ACTIVE_RESERVATION'')
             (remaining_exposures replaced s)) PendingBuyWithoutReservation
       @ when_reason (fle equity (Fin 0)) EquityRequired
       @ when_reason (fle buying_power (Fin 0)) BuyingPowerRequired
       @ core_limit_reasons l equity items proposed
       @ when_reason (fpos buying_power \<and> fpos (rl_max_incremental_buying_power_fraction l)
           \<and> fraction_exceeds (position_notional proposed) buying_power
               (rl_max_incremental_buying_power_fraction l)) IncrementalBuyingPowerExceeded
       @ daily_loss_reasons l s
       @ drawdown_reasons l s
       @ check_concentration items proposed equity BY_SECTOR (rl_max_sector_notional_fraction l)
       @ check_concentration items proposed equity BY_INDUSTRY (rl_max_industry_notional_fraction l)
       @ check_concentration items proposed equity BY_CORRELATION_GROUP
           (rl_max_correlation_group_notional_fraction l)
       @ check_concentration items proposed equity BY_STRATEGY (rl_max_strategy_notional_fraction l)
       @ fx_reasons l s)"

text \<open>What the transaction will not find among the active reservations.\<close>

definition atomic_baseline :: "string \<Rightarrow> risk_snapshot \<Rightarrow> exposure_item list" where
  "atomic_baseline replaced s = map Held (sn_positions s)
     @ map Pending (filter (\<lambda>x. px_reservation_id x = []) (remaining_exposures replaced s))"

definition decision_spec ::
    "risk_limits \<Rightarrow> proposed_entry \<Rightarrow> risk_snapshot \<Rightarrow> string \<Rightarrow> position_risk
       \<Rightarrow> risk_value_error + reservation_spec" where
  "decision_spec l e s replaced proposed =
     (let baseline = atomic_baseline replaced s
      in reservation_spec_post_init
       \<lparr>sp_environment = pe_environment e, sp_account_no = pe_account_no e,
        sp_symbol = pr_symbol proposed,
        sp_proposed_notional_usd = position_notional proposed,
        sp_proposed_open_risk_usd = position_open_risk proposed,
        sp_account_equity_usd = sn_account_equity_usd s,
        sp_baseline_position_symbols = map item_symbol baseline,
        sp_baseline_open_risk_usd = fsum (map item_open_risk baseline),
        sp_baseline_gross_notional_usd = fsum (map item_notional baseline),
        sp_baseline_symbol_notional_usd =
          fsum (map item_notional (filter (\<lambda>i. item_symbol i = pr_symbol proposed) baseline)),
        sp_max_simultaneous_positions = rl_max_simultaneous_positions l,
        sp_max_total_open_risk_fraction = rl_max_total_open_risk_fraction l,
        sp_max_gross_notional_fraction = rl_max_gross_notional_fraction l,
        sp_max_single_position_notional_fraction = rl_max_single_position_notional_fraction l,
        sp_evaluated_at = sn_evaluated_at s\<rparr>)"

definition evaluate_entry ::
    "risk_limits \<Rightarrow> proposed_entry \<Rightarrow> risk_snapshot \<Rightarrow> string \<Rightarrow> risk_value_error + risk_decision" where
  "evaluate_entry l e s replaced_raw =
     (let replaced = py_strip replaced_raw
      in case as_position e of
        Inl err \<Rightarrow> Inr \<lparr>rd_approved = False, rd_reasons = [InvalidProposal err],
          rd_position_count_after = int (length (sn_positions s)),
          rd_total_open_risk_after_usd = fsum (map position_open_risk (sn_positions s)),
          rd_gross_notional_after_usd = fsum (map position_notional (sn_positions s)),
          rd_proposed_notional_usd = Fin 0, rd_reservation_spec = None\<rparr>
      | Inr proposed \<Rightarrow>
          let items = existing_items replaced s;
              reasons = entry_reasons l s replaced proposed
          in bind_result
            (if py_strip (pe_environment e) \<noteq> [] \<and> py_strip (pe_account_no e) \<noteq> []
             then bind_result (decision_spec l e s replaced proposed) (\<lambda>spec. Inr (Some spec))
             else Inr None)
            (\<lambda>spec. Inr \<lparr>rd_approved = (reasons = []), rd_reasons = dedup reasons,
               rd_position_count_after = position_count_after items proposed,
               rd_total_open_risk_after_usd =
                 fadd (fsum (map item_open_risk items)) (position_open_risk proposed),
               rd_gross_notional_after_usd =
                 fadd (fsum (map item_notional items)) (position_notional proposed),
               rd_proposed_notional_usd = position_notional proposed,
               rd_reservation_spec = spec\<rparr>))"

subsection \<open>What an approval means\<close>

lemma when_reason_Nil [simp]: "when_reason c r = [] \<longleftrightarrow> \<not> c"
  by (simp add: when_reason_def)

lemma finite_nonnegative_passed:
  "\<not> fst (finite_nonnegative v field) \<longleftrightarrow> (\<exists>x. v = Fin x \<and> 0 \<le> x)"
  by (cases v) (auto simp: finite_nonnegative_def isfinite_def)

lemma limits_valid:
  assumes "risk_limits_post_init l = None"
  shows "1 \<le> rl_max_simultaneous_positions l" "rl_max_simultaneous_positions l \<le> 30"
    "\<exists>x. rl_max_gross_notional_fraction l = Fin x \<and> 0 \<le> x \<and> x \<le> 1"
    "\<exists>x. rl_max_single_position_notional_fraction l = Fin x \<and> 0 < x \<and> x \<le> 1"
    "\<exists>x. rl_max_total_open_risk_fraction l = Fin x \<and> 0 \<le> x"
  using assms unfolding risk_limits_post_init_def first_error_None_iff MAX_PORTFOLIO_POSITIONS_def
  by (auto simp: finite_nonnegative_passed fraction_out_of_range_def fpos_def)

lemma snapshot_equity:
  "risk_snapshot_post_init s0 = Inr s \<Longrightarrow> \<exists>x. sn_account_equity_usd s = Fin x \<and> 0 \<le> x"
  unfolding risk_snapshot_post_init_def guarded_Inr_iff first_error_None_iff
  by (auto simp: finite_nonnegative_passed)

lemma position_valid:
  assumes "position_risk_post_init p0 = Inr p"
  shows "pr_symbol p \<noteq> []" "0 < pr_quantity p" "\<exists>x. pr_mark_price p = Fin x \<and> 0 < x"
    "\<exists>x. pr_stop_price p = Fin x \<and> 0 \<le> x"
  using assms unfolding position_risk_post_init_def Let_def guarded_Inr_iff first_error_None_iff
  by (auto simp: finite_nonnegative_passed)

lemma fmul_nonneg_cases:
  assumes "fle (Fin 0) a" "b = Fin y" "0 < y" shows "amount (fmul a b) \<or> fmul a b = PosInf"
  using assms(1)
proof (rule fle_Fin0_cases)
  fix x assume a: "a = Fin x" "0 \<le> x"
  have "0 \<le> rnd64 (x * y)" using a assms(3) by (intro r64.nonneg) simp
  then show ?thesis using a assms(2) wf_to_float [of "x * y"] max_exclusive_gt_int
    by (auto simp: amount_def to_float_def Let_def)
qed (use assms in \<open>simp add: signed_inf_def\<close>)

lemma position_notional_amount:
  assumes "position_risk_post_init p0 = Inr p"
  shows "amount (position_notional p) \<or> position_notional p = PosInf"
proof -
  obtain y where "pr_mark_price p = Fin y" "0 < y" using position_valid [OF assms] by blast
  moreover have "fle (Fin 0) (float_of_int (pr_quantity p))"
    using position_valid(2) [OF assms] by (simp add: float_of_int_def to_float_nonneg)
  ultimately show ?thesis unfolding position_notional_def by (rule fmul_nonneg_cases [rotated])
qed

lemma evaluate_approved:
  assumes "evaluate_entry l e s replaced = Inr d" "rd_approved d"
  obtains p where "as_position e = Inr p" "entry_reasons l s (py_strip replaced) p = []"
  using assms by (auto simp: evaluate_entry_def Let_def bind_result_Inr_iff split: sum.splits)


lemma within_fraction:
  "wf_float (Fin f) \<Longrightarrow> 0 < b \<Longrightarrow> g / b \<le> f \<Longrightarrow> \<not> fraction_exceeds (Fin g) (Fin b) (Fin f)"
  by (simp add: fraction_exceeds_def to_float_le)

definition sample_limits :: risk_limits where
  "sample_limits = \<lparr>rl_max_simultaneous_positions = 30, rl_max_total_open_risk_fraction = Fin 1,
     rl_max_gross_notional_fraction = Fin 1, rl_max_single_position_notional_fraction = Fin 1,
     rl_max_incremental_buying_power_fraction = Fin 1, rl_max_daily_loss_fraction = Fin 0,
     rl_max_drawdown_fraction = Fin 0, rl_max_sector_notional_fraction = Fin 1,
     rl_max_industry_notional_fraction = Fin 0, rl_max_correlation_group_notional_fraction = Fin 0,
     rl_max_strategy_notional_fraction = Fin 0, rl_max_fx_age = 300000000\<rparr>"

definition sample_holding :: position_risk where
  "sample_holding = \<lparr>pr_symbol = ''MSFT'', pr_quantity = 100, pr_mark_price = Fin 400, pr_stop_price = Fin 390,
     pr_strategy_id = [], pr_sector = ''TECH'', pr_industry = [], pr_correlation_group = []\<rparr>"

definition sample_snapshot :: risk_snapshot where
  "sample_snapshot = \<lparr>sn_account_equity_usd = Fin 100000, sn_usable_buying_power_usd = Fin 50000,
     sn_positions = [sample_holding], sn_projected_exposures = [],
     sn_daily_realized_pnl_usd = None, sn_daily_unrealized_pnl_usd = None,
     sn_high_water_equity_usd = None, sn_equity_source_currency = ''USD'',
     sn_fx_rate_to_usd = None, sn_fx_observed_at = None, sn_evaluated_at = 0\<rparr>"

definition sample_entry :: proposed_entry where
  "sample_entry = \<lparr>pe_symbol = ''aapl '', pe_quantity = 10, pe_reference_price = Fin 200,
     pe_stop_price = Fin 195, pe_strategy_id = ''orb'', pe_environment = ''prod'', pe_account_no = ''1'',
     pe_sector = ''tech'', pe_industry = [], pe_correlation_group = []\<rparr>"

definition sample_position :: position_risk where
  "sample_position = \<lparr>pr_symbol = ''AAPL'', pr_quantity = 10, pr_mark_price = Fin 200, pr_stop_price = Fin 195,
     pr_strategy_id = ''ORB'', pr_sector = ''TECH'', pr_industry = [], pr_correlation_group = []\<rparr>"

lemma sample_texts:
  "normalized_text ''aapl '' = ''AAPL''" "normalized_text ''orb'' = ''ORB''" "normalized_text ''tech'' = ''TECH''"
  "normalized_text ''AAPL'' = ''AAPL''" "normalized_text ''MSFT'' = ''MSFT''" "normalized_text ''prod'' = ''PROD''"
  "normalized_text ''USD'' = ''USD''" "normalized_text [] = []" "py_strip ''prod'' = ''prod''" "py_strip ''1'' = ''1''"
  by code_simp+

lemma sample_proposed: "as_position sample_entry = Inr sample_position"
  by (simp add: as_position_def position_risk_post_init_def sample_entry_def sample_position_def sample_texts
      finite_nonnegative_def isfinite_def)

lemmas sample_amounts = position_notional_def position_open_risk_def sample_position_def sample_holding_def
  float_of_int_def fsub_Fin fmax_def

lemma sample_numbers:
  "existing_items [] sample_snapshot = [Held sample_holding]"
  "position_notional sample_holding = Fin 40000" "position_notional sample_position = Fin 2000"
  "position_open_risk sample_holding = Fin 1000" "position_open_risk sample_position = Fin 50"
  by (simp_all add: existing_items_def remaining_exposures_def sample_snapshot_def) (simp_all add: sample_amounts)

lemma sample_reasons: "entry_reasons sample_limits sample_snapshot [] sample_position = []"
proof -
  have r: "remaining_exposures [] sample_snapshot = []" "sn_account_equity_usd sample_snapshot = Fin 100000"
    "sn_usable_buying_power_usd sample_snapshot = Fin 50000" "fx_reasons sample_limits sample_snapshot = []"
    by (simp_all add: remaining_exposures_def fx_reasons_def sample_snapshot_def)
  have g: "group_notional [Held sample_holding] BY_SECTOR ''TECH'' = Fin 40000"
    by (simp add: group_notional_def sample_numbers) (simp add: sample_holding_def fsum_def sample_numbers)
  show ?thesis
    unfolding entry_reasons_def core_limit_reasons_def Let_def r sample_numbers
    by (simp add: sample_limits_def sample_numbers fsum_def within_fraction position_count_after_def
        daily_loss_reasons_def drawdown_reasons_def check_concentration_def)
      (simp add: sample_position_def g within_fraction)
qed

lemma sample_spec: "\<exists>spec. decision_spec sample_limits sample_entry sample_snapshot [] sample_position = Inr spec"
proof -
  have b: "atomic_baseline [] sample_snapshot = [Held sample_holding]"
    by (simp add: atomic_baseline_def remaining_exposures_def sample_snapshot_def)
  show ?thesis
    unfolding decision_spec_def Let_def b sample_numbers
    by (simp add: reservation_spec_post_init_def finite_nonnegative_def sample_limits_def sample_numbers fsum_def
        MAX_PORTFOLIO_POSITIONS_def fraction_out_of_range_def)
      (simp add: sample_entry_def sample_position_def sample_holding_def sample_snapshot_def sample_texts)
qed

lemma sample_approved:
  "\<exists>d. evaluate_entry sample_limits sample_entry sample_snapshot [] = Inr d \<and> rd_approved d"
  using sample_spec
  by (auto simp: evaluate_entry_def Let_def sample_proposed sample_reasons bind_result_Inr_iff)

lemma sample_limits_valid: "risk_limits_post_init sample_limits = None"
  by (simp add: risk_limits_post_init_def sample_limits_def finite_nonnegative_def MAX_PORTFOLIO_POSITIONS_def
      fraction_out_of_range_def)


end
