(* ===== verification/Reservation_Store.thy ===== *)
theory Reservation_Store
  imports Reservation Portfolio_Risk Versioned_Store
begin

text \<open>
  \<open>src/services/capital_reservation_repository.py\<close>: the shared table of capital reservations. A row
  is keyed by reservation id and fenced by its version; an update writes the amounts, the status
  and the absence evidence, never the scope of the row. Entries of one account are serialised by
  a lock row, so the availability check, the projected-risk check and the insertion are one step.
  Rows are read in insertion order (SQL leaves the order open; the bounds proved here hold for
  every order).
\<close>

record reservation_table =
  rt_ids :: "string list"
  rt_rows :: "string \<rightharpoonup> reservation"

definition empty_reservations :: reservation_table where
  "empty_reservations = \<lparr>rt_ids = [], rt_rows = Map.empty\<rparr>"

datatype reservation_store_error =
    DuplicateReservation
  | InsufficientAvailableCapital
  | ReservationVersionConflict
  | ReservationNotFound
  | RiskSpecMismatch
  | EquityNotFresh
  | ProjectedRiskLimit
  | ReplacementNotFinite
  | OriginalReservationMissing
  | OriginalOtherScope
  | PreparedReservationMissing
  | PreparedReservationChanged
  | ExposureExceedsHold

definition table_reservations :: "reservation_table \<Rightarrow> reservation list" where
  "table_reservations t = List.map_filter (rt_rows t) (rt_ids t)"

definition active_rows :: "string \<Rightarrow> string \<Rightarrow> reservation_table \<Rightarrow> reservation list" where
  "active_rows environment account_no t =
     filter (\<lambda>r. cr_environment r = environment \<and> cr_account_no r = account_no \<and> reservation_is_open r)
       (table_reservations t)"

definition list_active_reservations :: "reservation_table \<Rightarrow> string \<Rightarrow> string \<Rightarrow> reservation list" where
  "list_active_reservations t environment account_no =
     map reservation_post_init (active_rows (py_upper environment) account_no t)"

definition fetch_reservation :: "reservation_table \<Rightarrow> string \<Rightarrow> reservation option" where
  "fetch_reservation t rid = map_option reservation_post_init (rt_rows t rid)"

definition insert_reservation ::
    "reservation \<Rightarrow> reservation_table \<Rightarrow> reservation_store_error + reservation_table" where
  "insert_reservation r t =
     (if rt_rows t (cr_reservation_id r) \<noteq> None then Inl DuplicateReservation
      else Inr (t\<lparr>rt_ids := rt_ids t @ [cr_reservation_id r],
                  rt_rows := (rt_rows t)(cr_reservation_id r \<mapsto> r)\<rparr>))"

text \<open>The columns an update writes, over those the row keeps.\<close>

definition written_row :: "reservation \<Rightarrow> int \<Rightarrow> reservation \<Rightarrow> reservation" where
  "written_row r next_version stored =
     stored\<lparr>cr_requested_notional := cr_requested_notional r,
       cr_remaining_reserved_notional := cr_remaining_reserved_notional r,
       cr_projected_open_risk := cr_projected_open_risk r,
       cr_remaining_projected_open_risk := cr_remaining_projected_open_risk r,
       cr_status := cr_status r, cr_version := next_version, cr_released_at := cr_released_at r,
       cr_absence_count := cr_absence_count r,
       cr_last_absence_snapshot_id := cr_last_absence_snapshot_id r,
       cr_last_absence_observed_at := cr_last_absence_observed_at r,
       cr_last_absence_session_date := cr_last_absence_session_date r\<rparr>"

definition update_reservation ::
    "reservation \<Rightarrow> int \<Rightarrow> reservation_table
       \<Rightarrow> reservation_store_error + (reservation \<times> reservation_table)" where
  "update_reservation r expected_version t =
     (case rt_rows t (cr_reservation_id r) of
        None \<Rightarrow> Inl ReservationNotFound
      | Some stored \<Rightarrow>
          if cr_version stored \<noteq> expected_version then Inl ReservationVersionConflict
          else Inr (r\<lparr>cr_version := expected_version + 1\<rparr>,
                    t\<lparr>rt_rows := (rt_rows t)(cr_reservation_id r \<mapsto>
                        written_row r (expected_version + 1) stored)\<rparr>))"

definition save_reservation_strict ::
    "reservation \<Rightarrow> reservation_table \<Rightarrow> reservation_store_error + (reservation \<times> reservation_table)" where
  "save_reservation_strict r t =
     (if rt_rows t (cr_reservation_id r) = None
      then bind_result (insert_reservation r t) (\<lambda>t'. Inr (r, t'))
      else update_reservation r (cr_version r) t)"

text \<open>The best-effort wrapper: a failure is logged and the caller goes on.\<close>

definition save_reservation :: "reservation \<Rightarrow> reservation_table \<Rightarrow> reservation_table" where
  "save_reservation r t = (case save_reservation_strict r t of Inl e \<Rightarrow> t | Inr (r', t') \<Rightarrow> t')"

subsection \<open>The projected-risk check\<close>

definition row_open_risk :: "reservation \<Rightarrow> pyfloat" where
  "row_open_risk r =
     (if fpos (cr_remaining_projected_open_risk r) then cr_remaining_projected_open_risk r
      else cr_remaining_reserved_notional r)"

definition projected_symbols :: "reservation \<Rightarrow> reservation list \<Rightarrow> reservation_spec \<Rightarrow> string set" where
  "projected_symbols r rows spec =
     insert (cr_symbol r) (py_upper ` set (filter (\<lambda>s. py_strip s \<noteq> []) (sp_baseline_position_symbols spec))
       \<union> (\<lambda>row. py_upper (cr_symbol row)) ` set rows)"

definition portfolio_capacity_reasons ::
    "reservation \<Rightarrow> reservation list \<Rightarrow> reservation_spec \<Rightarrow> risk_reason list" where
  "portfolio_capacity_reasons r rows spec =
     (let equity = sp_account_equity_usd spec;
          open_risk_after = fadd (fadd (sp_baseline_open_risk_usd spec) (fsum (map row_open_risk rows)))
            (sp_proposed_open_risk_usd spec);
          gross_after = fadd (fadd (sp_baseline_gross_notional_usd spec)
            (fsum (map cr_remaining_reserved_notional rows))) (sp_proposed_notional_usd spec);
          symbol_notional_after = fadd (fadd (sp_baseline_symbol_notional_usd spec)
            (fsum (map cr_remaining_reserved_notional
              (filter (\<lambda>row. py_upper (cr_symbol row) = cr_symbol r) rows)))) (sp_proposed_notional_usd spec)
      in when_reason (0 < sp_max_simultaneous_positions spec
           \<and> sp_max_simultaneous_positions spec < int (card (projected_symbols r rows spec))) TooManyPositions
       @ when_reason (fpos (sp_max_total_open_risk_fraction spec)
           \<and> fraction_exceeds open_risk_after equity (sp_max_total_open_risk_fraction spec)) OpenRiskExceeded
       @ when_reason (fpos (sp_max_gross_notional_fraction spec)
           \<and> fraction_exceeds gross_after equity (sp_max_gross_notional_fraction spec)) GrossNotionalExceeded
       @ when_reason (fpos (sp_max_single_position_notional_fraction spec)
           \<and> fraction_exceeds symbol_notional_after equity (sp_max_single_position_notional_fraction spec))
           SinglePositionExceeded)"

definition finite_nonneg :: "pyfloat \<Rightarrow> bool" where
  "finite_nonneg v \<longleftrightarrow> isfinite v \<and> fle (Fin 0) v"

definition require_projected_portfolio_capacity ::
    "reservation \<Rightarrow> reservation list \<Rightarrow> reservation_spec \<Rightarrow> reservation_store_error option" where
  "require_projected_portfolio_capacity r rows spec =
     first_error
       [((py_upper (sp_environment spec), sp_account_no spec, py_upper (sp_symbol spec))
            \<noteq> (cr_environment r, cr_account_no r, cr_symbol r)
          \<or> \<not> close_to (sp_proposed_notional_usd spec) (cr_requested_notional r)
          \<or> \<not> close_to (sp_proposed_open_risk_usd spec) (cr_projected_open_risk r), RiskSpecMismatch),
        (\<not> (finite_nonneg (sp_account_equity_usd spec) \<and> finite_nonneg (sp_baseline_open_risk_usd spec)
             \<and> finite_nonneg (sp_baseline_gross_notional_usd spec)
             \<and> finite_nonneg (sp_baseline_symbol_notional_usd spec))
          \<or> fle (sp_account_equity_usd spec) (Fin 0), EquityNotFresh),
        (portfolio_capacity_reasons r rows spec \<noteq> [], ProjectedRiskLimit)]"

definition insert_reservation_if_available ::
    "reservation \<Rightarrow> pyfloat \<Rightarrow> reservation_spec option \<Rightarrow> reservation_table
       \<Rightarrow> reservation_store_error + reservation_table" where
  "insert_reservation_if_available r buying_power spec t =
     guarded
       (if \<not> fpos (cr_requested_notional r) then None
        else
          let rows = active_rows (cr_environment r) (cr_account_no r) t;
              available = fsub buying_power (fsum (map cr_remaining_reserved_notional rows))
          in and_then (if flt available (cr_requested_notional r) then Some InsufficientAvailableCapital else None)
               (case spec of None \<Rightarrow> None | Some s \<Rightarrow> require_projected_portfolio_capacity r rows s))
       (insert_reservation r t)"

subsection \<open>Replacing an entry order\<close>

text \<open>While both legs may exist the reservation holds the larger of them.\<close>

definition transition_hold :: "reservation \<Rightarrow> pyfloat \<Rightarrow> pyfloat \<Rightarrow> reservation" where
  "transition_hold original notional open_risk =
     (let risk = cr_remaining_projected_open_risk original;
          original_risk = (if fle risk (Fin 0) \<and> fpos (cr_remaining_reserved_notional original)
            then cr_remaining_reserved_notional original else risk);
          hold = fmax (cr_remaining_reserved_notional original) notional;
          risk_hold = fmax original_risk open_risk
      in original\<lparr>cr_requested_notional := hold, cr_remaining_reserved_notional := hold,
           cr_projected_open_risk := risk_hold, cr_remaining_projected_open_risk := risk_hold\<rparr>)"

definition prepare_reservation_for_replacement ::
    "timestamp \<Rightarrow> string \<Rightarrow> string \<Rightarrow> string \<Rightarrow> string \<Rightarrow> pyfloat \<Rightarrow> pyfloat \<Rightarrow> pyfloat \<Rightarrow> reservation_spec
       \<Rightarrow> reservation_table \<Rightarrow> reservation_store_error + (reservation \<times> reservation \<times> reservation_table)" where
  "prepare_reservation_for_replacement now original_id environment account_no ticker notional open_risk
       buying_power spec t =
     (let scope = (py_upper environment, account_no, py_upper ticker);
          rows = active_rows (py_upper environment) account_no t
      in guarded (if original_id = [] \<or> fle notional (Fin 0) \<or> flt open_risk (Fin 0)
                     \<or> \<not> isfinite notional \<or> \<not> isfinite open_risk \<or> \<not> isfinite buying_power
                  then Some ReplacementNotFinite else None)
       (case List.find (\<lambda>r. cr_reservation_id r = original_id) rows of
          None \<Rightarrow> Inl OriginalReservationMissing
        | Some row \<Rightarrow>
            let original = reservation_post_init row;
                others = filter (\<lambda>r. cr_reservation_id r \<noteq> original_id) rows;
                available = fsub buying_power (fsum (map cr_remaining_reserved_notional others));
                replacement = create_reservation [] now environment account_no ticker
                  (cr_attempt_group_id original) notional open_risk
            in guarded (first_error
                 [((cr_environment original, cr_account_no original, cr_symbol original) \<noteq> scope,
                   OriginalOtherScope),
                  (flt (fadd available (to_float (1 / 10 ^ 6))) notional, InsufficientAvailableCapital)])
               (guarded (require_projected_portfolio_capacity replacement others spec)
                 (bind_result (update_reservation (transition_hold original notional open_risk)
                     (cr_version original) t)
                   (\<lambda>(prepared, t'). Inr (prepared, original, t'))))))"

definition activate_prepared_replacement_reservation ::
    "string \<Rightarrow> int \<Rightarrow> string \<Rightarrow> string \<Rightarrow> string \<Rightarrow> pyfloat \<Rightarrow> pyfloat \<Rightarrow> reservation_table
       \<Rightarrow> reservation_store_error + (reservation \<times> reservation_table)" where
  "activate_prepared_replacement_reservation rid expected_version environment account_no ticker
       notional open_risk t =
     (case fetch_reservation t rid of
        None \<Rightarrow> Inl PreparedReservationMissing
      | Some r \<Rightarrow>
          guarded (first_error
            [(\<not> reservation_is_open r \<or> cr_version r \<noteq> expected_version
                \<or> (cr_environment r, cr_account_no r, cr_symbol r)
                   \<noteq> (py_upper environment, account_no, py_upper ticker), PreparedReservationChanged),
             (fle notional (Fin 0) \<or> flt open_risk (Fin 0)
                \<or> flt (fadd (cr_remaining_reserved_notional r) (to_float (1 / 10 ^ 6))) notional
                \<or> flt (fadd (cr_remaining_projected_open_risk r) (to_float (1 / 10 ^ 6))) open_risk,
              ExposureExceedsHold)])
          (update_reservation
             (r\<lparr>cr_requested_notional := notional, cr_remaining_reserved_notional := notional,
                cr_projected_open_risk := open_risk, cr_remaining_projected_open_risk := open_risk,
                cr_status := RESERVED, cr_released_at := None\<rparr>) (cr_version r) t))"

definition restore_prepared_replacement_reservation ::
    "reservation \<Rightarrow> reservation \<Rightarrow> reservation_table
       \<Rightarrow> reservation_store_error + (reservation \<times> reservation_table)" where
  "restore_prepared_replacement_reservation prepared previous t =
     (case fetch_reservation t (cr_reservation_id prepared) of
        None \<Rightarrow> Inl ReservationVersionConflict
      | Some current \<Rightarrow>
          if cr_version current \<noteq> cr_version prepared then Inl ReservationVersionConflict
          else update_reservation (previous\<lparr>cr_version := cr_version current\<rparr>) (cr_version current) t)"

subsection \<open>Stale reservations\<close>

text \<open>Every release is a transaction of its own: what was released before a conflict stays so.\<close>

fun release_stale ::
    "timestamp \<Rightarrow> string set \<Rightarrow> reservation list \<Rightarrow> reservation list \<Rightarrow> reservation_table
       \<Rightarrow> (reservation_store_error + reservation list) \<times> reservation_table" where
  "release_stale now open_symbols [] released t = (Inr released, t)"
| "release_stale now open_symbols (r # rs) released t =
     (if cr_symbol r \<in> open_symbols then release_stale now open_symbols rs released t
      else case save_reservation_strict (release_reservation_notional now r) t of
             Inl e \<Rightarrow> (Inl e, t)
           | Inr (r', t') \<Rightarrow> release_stale now open_symbols rs (released @ [r']) t')"

definition reconcile_stale_reservations ::
    "timestamp \<Rightarrow> string \<Rightarrow> string \<Rightarrow> string list \<Rightarrow> reservation_table
       \<Rightarrow> (reservation_store_error + reservation list) \<times> reservation_table" where
  "reconcile_stale_reservations now environment account_no open_broker_order_symbols t =
     release_stale now (set (map py_upper open_broker_order_symbols))
       (list_active_reservations t environment account_no) [] t"

subsection \<open>The table as a fenced store\<close>

definition reservation_version :: "reservation_table \<Rightarrow> string \<Rightarrow> int option" where
  "reservation_version t k = map_option cr_version (rt_rows t k)"

text \<open>The columns a writer controls, over an arbitrary fixed row.\<close>

definition controlled :: "int \<Rightarrow> reservation \<Rightarrow> reservation" where
  "controlled m r = written_row r m (create_reservation [] 0 [] [] [] [] (Fin 0) (Fin 0))"

definition controlled_row :: "reservation_table \<Rightarrow> string \<Rightarrow> reservation option" where
  "controlled_row t k = map_option (\<lambda>r. controlled (cr_version r) r) (rt_rows t k)"

definition put_reservation :: "string \<Rightarrow> int \<Rightarrow> reservation \<Rightarrow> reservation_table \<Rightarrow> reservation_table option" where
  "put_reservation k n r t =
     (case update_reservation (r\<lparr>cr_reservation_id := k\<rparr>) n t of Inl e \<Rightarrow> None | Inr (r', t') \<Rightarrow> Some t')"

lemma update_reservation_Inr_iff:
  "update_reservation r n t = Inr (r', t') \<longleftrightarrow>
     (\<exists>stored. rt_rows t (cr_reservation_id r) = Some stored \<and> cr_version stored = n
        \<and> r' = r\<lparr>cr_version := n + 1\<rparr>
        \<and> t' = t\<lparr>rt_rows := (rt_rows t)(cr_reservation_id r \<mapsto> written_row r (n + 1) stored)\<rparr>)"
  by (auto simp: update_reservation_def split: option.splits if_splits)

lemma written_row_fields [simp]:
  "cr_reservation_id (written_row r n s) = cr_reservation_id s" "cr_environment (written_row r n s) = cr_environment s"
  "cr_account_no (written_row r n s) = cr_account_no s" "cr_symbol (written_row r n s) = cr_symbol s"
  "cr_remaining_reserved_notional (written_row r n s) = cr_remaining_reserved_notional r"
  "cr_status (written_row r n s) = cr_status r" "cr_version (written_row r n s) = n"
  "cr_attempt_group_id (written_row r n s) = cr_attempt_group_id s" "cr_created_at (written_row r n s) = cr_created_at s"
  by (simp_all add: written_row_def)

lemma controlled_written: "controlled m (written_row r n s) = controlled m r"
  by (simp add: controlled_def written_row_def)

interpretation reservations:
  versioned_store reservation_version controlled_row put_reservation "\<lambda>k r m. controlled m r"
proof
  fix k n v s
  assume "reservation_version s k = Some n"
  then show "put_reservation k n v s \<noteq> None"
    by (auto simp: put_reservation_def update_reservation_def reservation_version_def split: option.splits)
qed (auto simp: put_reservation_def update_reservation_Inr_iff reservation_version_def controlled_row_def
    controlled_written controlled_def written_row_def split: sum.splits)

lemma update_as_put_reservation:
  "update_reservation r n t = Inr (r', t') \<Longrightarrow> put_reservation (cr_reservation_id r) n r t = Some t'"
  by (auto simp: put_reservation_def)

end
