(* ===== verification/Reservation_Safety.thy ===== *)
theory Reservation_Safety
  imports Reservation_Store
begin

text \<open>
  What the reservation table guarantees while entries are reserved, filled, cancelled and replaced:
  an account never commits more than its buying power, and never more symbols than the
  portfolio limit; a replacement that is called off leaves the reservation as it was; the
  transaction repeats the decision of the portfolio check.
\<close>

subsection \<open>Well-formed tables and what an account holds\<close>

definition scope_normal :: "reservation \<Rightarrow> bool" where
  "scope_normal r \<longleftrightarrow> py_upper (cr_environment r) = cr_environment r \<and> py_upper (cr_symbol r) = cr_symbol r"

definition reservations_wf :: "reservation_table \<Rightarrow> bool" where
  "reservations_wf t \<longleftrightarrow> distinct (rt_ids t) \<and> dom (rt_rows t) = set (rt_ids t)
     \<and> (\<forall>k r. rt_rows t k = Some r \<longrightarrow> cr_reservation_id r = k \<and> reservation_ok r \<and> scope_normal r)"

definition in_account :: "string \<Rightarrow> string \<Rightarrow> reservation \<Rightarrow> bool" where
  "in_account e a r \<longleftrightarrow> cr_environment r = e \<and> cr_account_no r = a"

fun row_hold :: "string \<Rightarrow> string \<Rightarrow> reservation option \<Rightarrow> rat" where
  "row_hold e a None = 0"
| "row_hold e a (Some r) = (if in_account e a r then held_notional r else 0)"

definition account_hold :: "string \<Rightarrow> string \<Rightarrow> reservation_table \<Rightarrow> rat" where
  "account_hold e a t = (\<Sum>k \<in> set (rt_ids t). row_hold e a (rt_rows t k))"

lemma wf_row:
  assumes "reservations_wf t" "rt_rows t k = Some r"
  shows "k \<in> set (rt_ids t)" "cr_reservation_id r = k" "reservation_ok r" "scope_normal r"
  using assms by (auto simp: reservations_wf_def)

lemma exact_sum_active:
  "exact_sum (map cr_remaining_reserved_notional
      (filter (\<lambda>r. P r \<and> cr_environment r = e \<and> cr_account_no r = a \<and> reservation_is_open r)
        (List.map_filter m ks)))
   = sum_list (map (\<lambda>k. case m k of None \<Rightarrow> 0 | Some r \<Rightarrow> if P r then row_hold e a (Some r) else 0) ks)"
  by (induction ks) (auto simp: List.map_filter_simps held_notional_def in_account_def split: option.splits)

lemma active_rows_hold:
  assumes "reservations_wf t"
  shows "exact_sum (map cr_remaining_reserved_notional (active_rows e a t)) = account_hold e a t"
proof -
  have "(case rt_rows t k of None \<Rightarrow> 0 | Some r \<Rightarrow> if True then row_hold e a (Some r) else 0)
      = row_hold e a (rt_rows t k)" for k by (cases "rt_rows t k") simp_all
  with exact_sum_active [of "\<lambda>_. True" e a "rt_rows t" "rt_ids t"] assms show ?thesis
    by (simp add: active_rows_def table_reservations_def account_hold_def reservations_wf_def
        sum_list_distinct_conv_sum_set)
qed

lemma other_rows_hold:
  assumes "reservations_wf t" "k \<in> set (rt_ids t)"
  shows "exact_sum (map cr_remaining_reserved_notional
      (filter (\<lambda>r. cr_reservation_id r \<noteq> k) (active_rows e a t)))
    = account_hold e a t - row_hold e a (rt_rows t k)"
proof -
  have r: "(case rt_rows t j of None \<Rightarrow> 0 | Some r \<Rightarrow> if cr_reservation_id r \<noteq> k then row_hold e a (Some r) else 0)
      = (if j = k then 0 else row_hold e a (rt_rows t j))" for j
    using wf_row(2) [OF assms(1), of j] by (cases "rt_rows t j") auto
  have "exact_sum (map cr_remaining_reserved_notional
      (filter (\<lambda>r. cr_reservation_id r \<noteq> k) (active_rows e a t)))
    = (\<Sum>j \<in> set (rt_ids t). if j = k then 0 else row_hold e a (rt_rows t j))"
    using exact_sum_active [of "\<lambda>r. cr_reservation_id r \<noteq> k" e a "rt_rows t" "rt_ids t"] assms(1)
    by (simp add: active_rows_def table_reservations_def r reservations_wf_def
        sum_list_distinct_conv_sum_set conj_commute)
  also have "\<dots> = (\<Sum>j \<in> set (rt_ids t) - {k}. row_hold e a (rt_rows t j))"
    by (subst sum.remove [OF _ assms(2)]) (auto intro!: sum.cong)
  also have "\<dots> = account_hold e a t - row_hold e a (rt_rows t k)"
    using assms(2) by (simp add: account_hold_def sum_diff1)
  finally show ?thesis .
qed

lemma active_rows_mem:
  assumes "reservations_wf t"
  shows "r \<in> set (active_rows e a t) \<longleftrightarrow>
    (\<exists>k. rt_rows t k = Some r \<and> in_account e a r \<and> reservation_is_open r)"
proof -
  have "r \<in> set (table_reservations t) \<longleftrightarrow> (\<exists>k. rt_rows t k = Some r)"
    using wf_row(1) [OF assms] by (force simp: table_reservations_def List.map_filter_def)
  then show ?thesis by (auto simp: active_rows_def in_account_def)
qed

lemma active_amounts:
  "reservations_wf t \<Longrightarrow> list_all amount (map cr_remaining_reserved_notional (active_rows e a t))"
  using active_rows_mem [of t _ e a] wf_row(3) [of t] by (fastforce simp: list_all_iff reservation_ok_def reservation_amounts_def)

lemma active_length: "length (active_rows e a t) \<le> length (rt_ids t)"
proof -
  have "length (List.map_filter f ks) \<le> length ks" for f :: "string \<Rightarrow> reservation option" and ks
    by (induction ks) (auto simp: List.map_filter_simps split: option.splits)
  then show ?thesis unfolding active_rows_def table_reservations_def by (meson length_filter_le order_trans)
qed

lemma post_init_scope:
  "scope_normal r \<Longrightarrow> cr_environment (reservation_post_init r) = cr_environment r
     \<and> cr_symbol (reservation_post_init r) = cr_symbol r"
  by (simp add: reservation_post_init_def scope_normal_def)

lemma post_init_fields [simp]:
  "cr_reservation_id (reservation_post_init r) = cr_reservation_id r"
  "cr_account_no (reservation_post_init r) = cr_account_no r"
  "cr_remaining_reserved_notional (reservation_post_init r) = cr_remaining_reserved_notional r"
  "cr_status (reservation_post_init r) = cr_status r"
  "reservation_is_open (reservation_post_init r) = reservation_is_open r"
  "held_notional (reservation_post_init r) = held_notional r"
  "reservation_ok (reservation_post_init r) = reservation_ok r"
  by (simp_all add: reservation_post_init_def reservation_is_open_def held_notional_def reservation_ok_def
      reservation_amounts_def)

subsection \<open>The steps\<close>

text \<open>
  What changes the table while an account trades with buying power at most \<open>B\<close>: the gateway
  reserves for a new entry with a valid risk specification; a fill, a cancellation or an expiry
  is applied to the row it was read from; a replacement is prepared, activated with a target its
  hold covers, or called off.
\<close>

inductive reservation_step :: "rat \<Rightarrow> reservation_table \<Rightarrow> reservation_table \<Rightarrow> bool" for B where
  entry_step: "insert_reservation_if_available
      (create_reservation rid now environment account_no ticker grp (Fin n) risk) (Fin b) (Some spec) t = Inr t'
    \<Longrightarrow> b \<le> B \<Longrightarrow> 0 < n \<Longrightarrow> wf_float (Fin n) \<Longrightarrow> reservation_spec_post_init raw = Inr spec
    \<Longrightarrow> reservation_step B t t'"
| fill_step: "fetch_reservation t rid = Some r
    \<Longrightarrow> update_reservation (consume_reservation_notional x r) v t = Inr (r', t') \<Longrightarrow> reservation_step B t t'"
| release_step: "fetch_reservation t rid = Some r
    \<Longrightarrow> update_reservation (release_reservation_notional now r) v t = Inr (r', t') \<Longrightarrow> reservation_step B t t'"
| expire_step: "fetch_reservation t rid = Some r
    \<Longrightarrow> update_reservation (expire_reservation_notional now r) v t = Inr (r', t') \<Longrightarrow> reservation_step B t t'"
| prepare_step: "prepare_reservation_for_replacement now rid environment account_no ticker (Fin n) risk
      (Fin b) spec t = Inr (prepared, original, t')
    \<Longrightarrow> b \<le> B \<Longrightarrow> wf_float (Fin n) \<Longrightarrow> reservation_step B t t'"
| activate_step: "activate_prepared_replacement_reservation rid v environment account_no ticker (Fin n) risk t
      = Inr (r', t')
    \<Longrightarrow> rt_rows t rid = Some r \<Longrightarrow> fle (Fin n) (cr_remaining_reserved_notional r) \<Longrightarrow> wf_float (Fin n)
    \<Longrightarrow> reservation_step B t t'"
| restore_step: "restore_prepared_replacement_reservation prepared original t = Inr (r', t')
    \<Longrightarrow> prepare_reservation_for_replacement now rid environment account_no ticker notional risk
      buying_power spec t0 = Inr (prepared, original, t1)
    \<Longrightarrow> rt_rows t (cr_reservation_id prepared) = Some prepared \<Longrightarrow> reservations_wf t0
    \<Longrightarrow> reservation_step B t t'"

subsection \<open>Updates\<close>

lemma update_wf:
  assumes "reservations_wf t" "update_reservation r v t = Inr (r', t')" "reservation_ok r"
  shows "reservations_wf t'" "rt_ids t' = rt_ids t"
proof -
  obtain s where s: "rt_rows t (cr_reservation_id r) = Some s"
    "t' = t\<lparr>rt_rows := (rt_rows t)(cr_reservation_id r \<mapsto> written_row r (v + 1) s)\<rparr>"
    using assms(2) by (auto simp: update_reservation_Inr_iff)
  from wf_row [OF assms(1) s(1)] have k: "insert (cr_reservation_id r) (set (rt_ids t)) = set (rt_ids t)"
    "cr_reservation_id s = cr_reservation_id r" "scope_normal s" by auto
  with s(2) assms(1,3) show "reservations_wf t'" "rt_ids t' = rt_ids t"
    by (auto simp: reservations_wf_def reservation_ok_def reservation_amounts_def reservation_is_open_def
        scope_normal_def simp del: dom_def)
qed

lemma update_hold:
  assumes "reservations_wf t" "rt_rows t k = Some s" "rt_ids t' = rt_ids t" "rt_rows t' = (rt_rows t)(k \<mapsto> s')"
  shows "account_hold e a t' = account_hold e a t - row_hold e a (Some s) + row_hold e a (Some s')"
proof -
  have k: "k \<in> set (rt_ids t)" using wf_row(1) [OF assms(1,2)] .
  have "(\<Sum>j \<in> set (rt_ids t) - {k}. row_hold e a (rt_rows t' j))
      = (\<Sum>j \<in> set (rt_ids t) - {k}. row_hold e a (rt_rows t j))" by (rule sum.cong) (auto simp: assms(4))
  then show ?thesis unfolding account_hold_def assms(3)
    by (subst (1 2) sum.remove [OF _ k]) (simp_all add: assms(2,4))
qed

lemma written_hold:
  "held_notional (written_row r n s) = held_notional r" "reservation_is_open (written_row r n s) = reservation_is_open r"
  "in_account e a (written_row r n s) = in_account e a s"
  by (simp_all add: held_notional_def reservation_is_open_def in_account_def)

definition held_symbols :: "string \<Rightarrow> string \<Rightarrow> reservation_table \<Rightarrow> string set" where
  "held_symbols e a t = cr_symbol ` set (active_rows e a t)"

lemma update_symbols:
  assumes "reservations_wf t" "rt_rows t (cr_reservation_id r) = Some s"
    "update_reservation r v t = Inr (r', t')" "reservation_ok r" "reservation_is_open r \<longrightarrow> reservation_is_open s"
  shows "held_symbols e a t' \<subseteq> held_symbols e a t"
proof
  let ?k = "cr_reservation_id r"
  have t': "rt_rows t' = (rt_rows t)(?k \<mapsto> written_row r (v + 1) s)"
    using assms(2,3) by (auto simp: update_reservation_Inr_iff)
  fix x assume "x \<in> held_symbols e a t'"
  then obtain k q where q: "rt_rows t' k = Some q" "in_account e a q" "reservation_is_open q" "x = cr_symbol q"
    using active_rows_mem [OF update_wf(1) [OF assms(1,3,4)]] by (auto simp: held_symbols_def)
  show "x \<in> held_symbols e a t"
  proof (cases "k = ?k")
    case True
    with q t' assms(5) have "in_account e a s" "reservation_is_open s" "x = cr_symbol s"
      by (auto simp: written_hold)
    with assms(2) active_rows_mem [OF assms(1)] show ?thesis by (force simp: held_symbols_def)
  next
    case False
    with q t' active_rows_mem [OF assms(1)] show ?thesis by (force simp: held_symbols_def)
  qed
qed

lemma update_hold_eq:
  assumes "reservations_wf t" "rt_rows t (cr_reservation_id r) = Some s"
    "update_reservation r v t = Inr (r', t')"
  shows "account_hold e a t' = account_hold e a t
    + (if in_account e a s then held_notional r - held_notional s else 0)"
proof -
  have t': "rt_ids t' = rt_ids t" "rt_rows t' = (rt_rows t)(cr_reservation_id r \<mapsto> written_row r (v + 1) s)"
    using assms(2,3) by (auto simp: update_reservation_Inr_iff)
  show ?thesis using update_hold [OF assms(1,2) t'] by (simp add: written_hold)
qed

subsection \<open>No account commits more than it has\<close>

definition account_ok :: "rat \<Rightarrow> reservation_table \<Rightarrow> bool" where
  "account_ok B t \<longleftrightarrow> reservations_wf t
     \<and> (length (rt_ids t) \<le> 1000 \<longrightarrow> (\<forall>e a. account_hold e a t \<le> B + 1 / 1000))
     \<and> (\<forall>e a. card (held_symbols e a t) \<le> 30)"

lemma finite_held [simp]: "finite (held_symbols e a t)"
  by (simp add: held_symbols_def)

text \<open>An update keeps the account within bounds when the new hold fits.\<close>

lemma update_ok:
  assumes "account_ok B t" "rt_rows t (cr_reservation_id r) = Some s"
    "update_reservation r v t = Inr (r', t')" "reservation_ok r" "reservation_is_open r \<longrightarrow> reservation_is_open s"
    and fits: "\<And>e a. in_account e a s \<Longrightarrow> length (rt_ids t) \<le> 1000 \<Longrightarrow>
      held_notional r \<le> held_notional s \<or> account_hold e a t - held_notional s + held_notional r \<le> B + 1 / 1000"
  shows "account_ok B t'"
proof -
  have wf: "reservations_wf t" using assms(1) by (simp add: account_ok_def)
  note u = update_wf [OF wf assms(3,4)]
  have "card (held_symbols e a t') \<le> 30" for e a
    using card_mono [OF finite_held update_symbols [OF wf assms(2-5)]] assms(1)
    by (meson account_ok_def order_trans)
  moreover have "account_hold e a t' \<le> B + 1 / 1000" if l: "length (rt_ids t') \<le> 1000" for e a
  proof -
    have "account_hold e a t \<le> B + 1 / 1000" using assms(1) l u(2) by (simp add: account_ok_def)
    then show ?thesis using update_hold_eq [OF wf assms(2,3), of e a] fits [of e a] l u(2)
      by (cases "in_account e a s") auto
  qed
  ultimately show ?thesis using u(1) by (simp add: account_ok_def)
qed

lemmas shrink_ok = update_ok [OF _ _ _ _ _ disjI1]

lemma created_fields:
  "cr_reservation_id (create_reservation rid now env acct tkr grp n k) = rid"
  "cr_environment (create_reservation rid now env acct tkr grp n k) = py_upper env"
  "cr_account_no (create_reservation rid now env acct tkr grp n k) = acct"
  "cr_symbol (create_reservation rid now env acct tkr grp n k) = py_upper tkr"
  "cr_requested_notional (create_reservation rid now env acct tkr grp n k) = n"
  "cr_remaining_reserved_notional (create_reservation rid now env acct tkr grp n k) = n"
  "cr_projected_open_risk (create_reservation rid now env acct tkr grp n k) = fmax (Fin 0) k"
  "reservation_is_open (create_reservation rid now env acct tkr grp n k)"
  by (simp_all add: create_reservation_def reservation_post_init_def reservation_is_open_def
      OPEN_RESERVATION_STATUSES_def)

lemma spec_positions:
  assumes "reservation_spec_post_init raw = Inr spec"
  shows "1 \<le> sp_max_simultaneous_positions spec" "sp_max_simultaneous_positions spec \<le> 30"
  using assms unfolding reservation_spec_post_init_def Let_def guarded_Inr_iff first_error_None_iff
  by (auto simp: MAX_PORTFOLIO_POSITIONS_def)

lemma finite_projected [simp]: "finite (projected_symbols r rows spec)"
  by (simp add: projected_symbols_def)

lemma capacity_symbols:
  assumes "require_projected_portfolio_capacity r rows spec = None" "reservation_spec_post_init raw = Inr spec"
  shows "card (projected_symbols r rows spec) \<le> 30"
  using assms(1) spec_positions [OF assms(2)]
  by (auto simp: require_projected_portfolio_capacity_def portfolio_capacity_reasons_def Let_def when_reason_def
      split: if_splits)

lemma entry_ok:
  assumes "account_ok B t" "B \<le> 10 ^ 9" "b \<le> B" "0 < n" "wf_float (Fin n)"
    "reservation_spec_post_init raw = Inr spec" "r = create_reservation rid now env acct tkr grp (Fin n) risk"
    "insert_reservation_if_available r (Fin b) (Some spec) t = Inr t'"
  shows "account_ok B t'"
proof -
  let ?e = "cr_environment r" and ?a = "cr_account_no r"
  let ?rows = "active_rows ?e ?a t"
  have wf: "reservations_wf t" using assms(1) by (simp add: account_ok_def)
  have req: "cr_requested_notional r = Fin n" by (simp add: assms(7) created_fields)
  with assms(4,8) have c: "\<not> flt (fsub (Fin b) (fsum (map cr_remaining_reserved_notional ?rows))) (Fin n)"
    "require_projected_portfolio_capacity r ?rows spec = None"
    and ins: "insert_reservation r t = Inr t'"
    by (auto simp: insert_reservation_if_available_def Let_def guarded_Inr_iff split: if_splits)
  from ins have new: "rt_rows t rid = None" and t': "rt_ids t' = rt_ids t @ [rid]" "rt_rows t' = (rt_rows t)(rid \<mapsto> r)"
    by (auto simp: insert_reservation_def assms(7) created_fields split: if_splits)
  have fresh: "rid \<notin> set (rt_ids t)" using new wf by (auto simp: reservations_wf_def)
  have ok: "reservation_ok r" "scope_normal r" "held_notional r = n" "reservation_is_open r"
    using assms(4,5) by (simp_all add: reservation_ok_def reservation_amounts_def scope_normal_def held_notional_def
        assms(7) created_fields)
  have wf': "reservations_wf t'"
    using wf fresh ok(1,2) by (auto simp: reservations_wf_def t' assms(7) created_fields)
  have hold: "account_hold e a t' = account_hold e a t + row_hold e a (Some r)" for e a
    unfolding account_hold_def t' using fresh by (auto intro!: sum.cong)
  have "account_hold e a t' \<le> B + 1 / 1000" if l: "length (rt_ids t') \<le> 1000" for e a
  proof (cases "in_account e a r")
    case True
    then have ea: "e = ?e" "a = ?a" by (auto simp: in_account_def)
    have "length (map cr_remaining_reserved_notional ?rows) \<le> 1000"
      using active_length [of ?e ?a t] l t' by simp
    from capacity_check [OF active_amounts [OF wf] this _ assms(4) c(1)] assms(2,3)
    have "account_hold ?e ?a t + n \<le> b + 1 / 1000" by (simp add: active_rows_hold [OF wf])
    with hold [of e a] True ok(3) ea assms(3) show ?thesis by simp
  next
    case False
    with hold [of e a] assms(1) l t' show ?thesis by (simp add: account_ok_def)
  qed
  moreover have "card (held_symbols e a t') \<le> 30" for e a
  proof (cases "in_account e a r")
    case True
    then have ea: "e = ?e" "a = ?a" by (auto simp: in_account_def)
    have "held_symbols e a t' \<subseteq> projected_symbols r ?rows spec"
    proof
      fix x assume "x \<in> held_symbols e a t'"
      then obtain k q where q: "rt_rows t' k = Some q" "in_account e a q" "reservation_is_open q" "x = cr_symbol q"
        using active_rows_mem [OF wf'] by (auto simp: held_symbols_def)
      show "x \<in> projected_symbols r ?rows spec"
      proof (cases "k = rid")
        case True
        with q t' show ?thesis by (simp add: projected_symbols_def)
      next
        case False
        with q t' ea have "q \<in> set ?rows" "py_upper (cr_symbol q) = cr_symbol q"
          using active_rows_mem [OF wf] wf_row(4) [OF wf] by (auto simp: scope_normal_def)
        with q(4) show ?thesis by (force simp: projected_symbols_def)
      qed
    qed
    then show ?thesis using capacity_symbols [OF c(2) assms(6)] card_mono [OF finite_projected] by (meson order_trans)
  next
    case False
    have "held_symbols e a t' \<subseteq> held_symbols e a t"
      using False active_rows_mem [OF wf'] active_rows_mem [OF wf] t' by (fastforce simp: held_symbols_def split: if_splits)
    then show ?thesis using assms(1) card_mono [OF finite_held] by (meson account_ok_def order_trans)
  qed
  ultimately show ?thesis using wf' by (simp add: account_ok_def)
qed

lemma transition_hold_fields [simp]:
  "cr_reservation_id (transition_hold r n k) = cr_reservation_id r"
  "cr_status (transition_hold r n k) = cr_status r"
  "cr_remaining_reserved_notional (transition_hold r n k) = fmax (cr_remaining_reserved_notional r) n"
  "cr_version (transition_hold r n k) = cr_version r"
  by (simp_all add: transition_hold_def Let_def)

lemma prepare_Inr:
  assumes "prepare_reservation_for_replacement now rid env acct tkr n k bp spec t = Inr (prepared, original, t')"
    "reservations_wf t"
  obtains row where "rt_rows t rid = Some row" "in_account (py_upper env) acct row" "reservation_is_open row"
    "original = reservation_post_init row"
    "update_reservation (transition_hold original n k) (cr_version original) t = Inr (prepared, t')"
    "isfinite n" "\<not> fle n (Fin 0)"
    "\<not> flt (fadd (fsub bp (fsum (map cr_remaining_reserved_notional
         (filter (\<lambda>q. cr_reservation_id q \<noteq> rid) (active_rows (py_upper env) acct t)))))
         (to_float (1 / 10 ^ 6))) n"
proof -
  from assms(1) obtain row where f: "List.find (\<lambda>r. cr_reservation_id r = rid) (active_rows (py_upper env) acct t) = Some row"
    by (auto simp: prepare_reservation_for_replacement_def Let_def guarded_Inr_iff split: option.splits)
  from find_Some_mem [OF f] have mem: "row \<in> set (active_rows (py_upper env) acct t)" "cr_reservation_id row = rid"
    by auto
  then have row: "rt_rows t rid = Some row" "in_account (py_upper env) acct row" "reservation_is_open row"
    using active_rows_mem [OF assms(2)] wf_row(2) [OF assms(2)] by metis+
  have "original = reservation_post_init row
    \<and> update_reservation (transition_hold original n k) (cr_version original) t = Inr (prepared, t')
    \<and> isfinite n \<and> \<not> fle n (Fin 0)
    \<and> \<not> flt (fadd (fsub bp (fsum (map cr_remaining_reserved_notional
         (filter (\<lambda>q. cr_reservation_id q \<noteq> rid) (active_rows (py_upper env) acct t)))))
         (to_float (1 / 10 ^ 6))) n"
    using assms(1) f by (auto simp: prepare_reservation_for_replacement_def Let_def guarded_Inr_iff
        bind_result_Inr_iff split: if_splits)
  with row that show thesis by blast
qed

lemma prepare_ok:
  assumes "account_ok B t" "B \<le> 10 ^ 9" "b \<le> B" "wf_float (Fin n)"
    "prepare_reservation_for_replacement now rid env acct tkr (Fin n) k (Fin b) spec t = Inr (prepared, original, t')"
  shows "account_ok B t'"
proof -
  have wf: "reservations_wf t" using assms(1) by (simp add: account_ok_def)
  obtain row where row: "rt_rows t rid = Some row" "in_account (py_upper env) acct row" "reservation_is_open row"
    and o: "original = reservation_post_init row"
    and u: "update_reservation (transition_hold original (Fin n) k) (cr_version original) t = Inr (prepared, t')"
    and n: "\<not> fle (Fin n) (Fin 0)"
    and c: "\<not> flt (fadd (fsub (Fin b) (fsum (map cr_remaining_reserved_notional
         (filter (\<lambda>q. cr_reservation_id q \<noteq> rid) (active_rows (py_upper env) acct t)))))
         (to_float (1 / 10 ^ 6))) (Fin n)"
    using prepare_Inr [OF assms(5) wf] by metis
  let ?r = "transition_hold original (Fin n) k"
  obtain x where x: "cr_remaining_reserved_notional row = Fin x" "0 \<le> x" "wf_float (Fin x)"
    using wf_row(3) [OF wf row(1)] by (auto simp: reservation_ok_def reservation_amounts_def amount_def elim!: isfinite_cases)
  have h: "held_notional row = x" using x row(3) by (simp add: held_notional_def)
  have id: "cr_reservation_id ?r = rid" using wf_row(2) [OF wf row(1)] o by simp
  have open_r: "reservation_is_open ?r" using row(3) o by (simp add: reservation_is_open_def)
  have hr: "held_notional ?r = max x n" and ok: "reservation_ok ?r"
    using open_r x n assms(4) o by (auto simp: held_notional_def reservation_ok_def reservation_amounts_def fmax_def)
  show ?thesis
  proof (rule update_ok [OF assms(1) _ u ok])
    show "rt_rows t (cr_reservation_id ?r) = Some row" using row(1) id by simp
    fix e a assume ea: "in_account e a row" and l: "length (rt_ids t) \<le> 1000"
    then have eq: "e = py_upper env" "a = acct" using row(2) by (auto simp: in_account_def)
    let ?others = "filter (\<lambda>q. cr_reservation_id q \<noteq> rid) (active_rows e a t)"
    have "list_all amount (map cr_remaining_reserved_notional ?others)"
      using active_amounts [OF wf, of e a] by (auto simp: list_all_iff)
    moreover have "length (map cr_remaining_reserved_notional ?others) \<le> 1000"
      using active_length [of e a t] l by (simp add: order_trans [OF length_filter_le])
    ultimately have "exact_sum (map cr_remaining_reserved_notional ?others) + n \<le> b + 1 / 1000"
      using tolerant_capacity_check [of _ b n] c n assms(2,3) eq by simp
    then have "account_hold e a t - held_notional row + n \<le> B + 1 / 1000"
      using other_rows_hold [OF wf wf_row(1) [OF wf row(1)], of e a] row(1) ea assms(3) by simp
    then show "held_notional ?r \<le> held_notional row
        \<or> account_hold e a t - held_notional row + held_notional ?r \<le> B + 1 / 1000"
      unfolding hr h by (simp add: max_def)
  qed (use row(3) in simp)
qed

lemma activate_ok:
  assumes "account_ok B t" "wf_float (Fin n)" "rt_rows t rid = Some row"
    "fle (Fin n) (cr_remaining_reserved_notional row)"
    "activate_prepared_replacement_reservation rid v env acct tkr (Fin n) k t = Inr (r', t')"
  shows "account_ok B t'"
proof -
  have wf: "reservations_wf t" using assms(1) by (simp add: account_ok_def)
  let ?r = "(reservation_post_init row)\<lparr>cr_requested_notional := Fin n, cr_remaining_reserved_notional := Fin n,
      cr_projected_open_risk := k, cr_remaining_projected_open_risk := k, cr_status := RESERVED,
      cr_released_at := None\<rparr>"
  have a: "reservation_is_open row" "\<not> fle (Fin n) (Fin 0)"
    and u: "update_reservation ?r (cr_version (reservation_post_init row)) t = Inr (r', t')"
    using assms(3,5) by (auto simp: activate_prepared_replacement_reservation_def fetch_reservation_def
        guarded_Inr_iff split: if_splits)
  have id: "cr_reservation_id ?r = rid" using wf_row(2) [OF wf assms(3)] by simp
  have ok: "reservation_ok ?r" "held_notional ?r \<le> held_notional row"
    using a assms(2,4) wf_row(3) [OF wf assms(3)]
    by (auto simp: reservation_ok_def reservation_amounts_def held_notional_def reservation_is_open_def
        OPEN_RESERVATION_STATUSES_def amount_def elim!: isfinite_cases)
  show ?thesis
    by (rule shrink_ok [OF assms(1) _ u ok(1) _ ok(2)]) (use assms(3) id a(1) in simp_all)
qed

text \<open>What the hold of a prepared replacement covers.\<close>

lemma prepared_covers:
  assumes "prepare_reservation_for_replacement now rid env acct tkr n k bp spec t0 = Inr (prepared, original, t1)"
    "reservations_wf t0"
  shows "cr_reservation_id prepared = rid" "cr_reservation_id original = rid" "reservation_ok original"
    "reservation_is_open original" "reservation_is_open prepared"
    "fval (cr_remaining_reserved_notional original) \<le> fval (cr_remaining_reserved_notional prepared)"
    "fval n \<le> fval (cr_remaining_reserved_notional prepared)"
proof -
  obtain row where row: "rt_rows t0 rid = Some row" "reservation_is_open row" "original = reservation_post_init row"
    and u: "update_reservation (transition_hold original n k) (cr_version original) t0 = Inr (prepared, t1)"
    and n: "isfinite n"
    using prepare_Inr [OF assms] by metis
  obtain m where m: "n = Fin m" using n by (rule isfinite_cases)
  note w = wf_row [OF assms(2) row(1)]
  obtain x where x: "cr_remaining_reserved_notional row = Fin x"
    using w(3) by (auto simp: reservation_ok_def reservation_amounts_def amount_def elim!: isfinite_cases)
  have p: "prepared = (transition_hold original n k)\<lparr>cr_version := cr_version original + 1\<rparr>"
    using u by (auto simp: update_reservation_Inr_iff)
  show "cr_reservation_id prepared = rid" "cr_reservation_id original = rid" "reservation_ok original"
    "reservation_is_open original" "reservation_is_open prepared"
    using row(2,3) w(2,3) by (simp_all add: p reservation_is_open_def)
  show "fval (cr_remaining_reserved_notional original) \<le> fval (cr_remaining_reserved_notional prepared)"
    "fval n \<le> fval (cr_remaining_reserved_notional prepared)"
    using x m row(3) by (auto simp: p fmax_def)
qed

lemma restore_ok:
  assumes "account_ok B t" "rt_rows t (cr_reservation_id prepared) = Some prepared" "reservations_wf t0"
    "prepare_reservation_for_replacement now rid env acct tkr n k bp spec t0 = Inr (prepared, original, t1)"
    "restore_prepared_replacement_reservation prepared original t = Inr (r', t')"
  shows "account_ok B t'"
proof -
  note c = prepared_covers [OF assms(4,3)]
  let ?r = "original\<lparr>cr_version := cr_version (reservation_post_init prepared)\<rparr>"
  have u: "update_reservation ?r (cr_version (reservation_post_init prepared)) t = Inr (r', t')"
    using assms(2,5) by (auto simp: restore_prepared_replacement_reservation_def fetch_reservation_def split: if_splits)
  have ok: "reservation_ok ?r" "reservation_is_open ?r" "held_notional ?r \<le> held_notional prepared"
    using c(3-6) by (simp_all add: reservation_ok_def reservation_amounts_def held_notional_def reservation_is_open_def)
  show ?thesis
    by (rule shrink_ok [OF assms(1) _ u ok(1) _ ok(3)]) (use assms(2) c in simp_all)
qed

lemma mutation_ok:
  assumes "account_ok B t" "fetch_reservation t rid = Some r" "update_reservation r1 v t = Inr (r', t')"
    "reservation_ok r \<Longrightarrow> reservation_ok r1 \<and> held_notional r1 \<le> held_notional r
       \<and> (reservation_is_open r1 \<longrightarrow> reservation_is_open r)"
    "cr_reservation_id r1 = cr_reservation_id r"
  shows "account_ok B t'"
proof -
  have wf: "reservations_wf t" using assms(1) by (simp add: account_ok_def)
  obtain row where row: "rt_rows t rid = Some row" "r = reservation_post_init row"
    using assms(2) by (auto simp: fetch_reservation_def)
  have ok: "reservation_ok r1" "held_notional r1 \<le> held_notional row" "reservation_is_open r1 \<longrightarrow> reservation_is_open row"
    using assms(4) wf_row(3) [OF wf row(1)] row(2) by auto
  show ?thesis
    by (rule shrink_ok [OF assms(1) _ assms(3) ok(1,3) ok(2)])
      (use row wf_row(2) [OF wf row(1)] assms(5) in simp)
qed

lemma step_ok:
  assumes "reservation_step B t t'" "B \<le> 10 ^ 9" "account_ok B t" shows "account_ok B t'"
  using assms(1)
proof cases
  case entry_step
  with assms(2,3) show ?thesis using entry_ok by blast
next
  case (fill_step rid r x v r')
  show ?thesis by (rule mutation_ok [OF assms(3) fill_step])
      (simp_all add: consume_ok, simp add: consume_reservation_notional_def Let_def)
next
  case (release_step rid r now v r')
  show ?thesis by (rule mutation_ok [OF assms(3) release_step])
      (simp_all add: closing_ok held_nonneg, simp add: release_reservation_notional_def)
next
  case (expire_step rid r now v r')
  show ?thesis by (rule mutation_ok [OF assms(3) expire_step])
      (simp_all add: closing_ok held_nonneg, simp add: expire_reservation_notional_def)
next
  case prepare_step
  with assms(2,3) show ?thesis using prepare_ok by blast
next
  case activate_step
  with assms(3) show ?thesis using activate_ok by blast
next
  case restore_step
  with assms(3) show ?thesis using restore_ok by blast
qed


subsection \<open>A replacement that is called off\<close>

text \<open>(C33) Calling a replacement off restores the reservation. Directly after a replacement was prepared,
  the restoration succeeds and leaves the table as it was before, but for the version of that
  one row, which is two higher.\<close>

theorem called_off_replacement_restores:
  assumes "reservations_wf t" "fetch_reservation t rid = rt_rows t rid"
    "prepare_reservation_for_replacement now rid env acct tkr n k bp spec t = Inr (prepared, original, t1)"
  shows "\<exists>r' t2. restore_prepared_replacement_reservation prepared original t1 = Inr (r', t2)
    \<and> rt_rows t rid = Some original
    \<and> t2 = t\<lparr>rt_rows := (rt_rows t)(rid \<mapsto> original\<lparr>cr_version := cr_version original + 2\<rparr>)\<rparr>"
proof -
  obtain row where row: "rt_rows t rid = Some row" "original = reservation_post_init row"
    and u: "update_reservation (transition_hold original n k) (cr_version original) t = Inr (prepared, t1)"
    using prepare_Inr [OF assms(3,1)] by metis
  have o: "original = row" using assms(2) row by (simp add: fetch_reservation_def)
  have id: "cr_reservation_id row = rid" using wf_row(2) [OF assms(1) row(1)] .
  let ?w = "written_row (transition_hold row n k) (cr_version row + 1) row"
  from u have p: "prepared = (transition_hold row n k)\<lparr>cr_version := cr_version row + 1\<rparr>"
    "t1 = t\<lparr>rt_rows := (rt_rows t)(rid \<mapsto> ?w)\<rparr>"
    using row(1) by (simp_all add: update_reservation_Inr_iff o id)
  have "cr_version (reservation_post_init r) = max 1 (cr_version r)" for r
    by (simp add: reservation_post_init_def)
  with row(2) o have ver: "1 \<le> cr_version row" by (metis max.cobounded1)
  have same: "written_row (row\<lparr>cr_version := cr_version row + 1\<rparr>) (2 + cr_version row) ?w
      = row\<lparr>cr_version := cr_version row + 2\<rparr>"
    by (simp add: written_row_def transition_hold_def Let_def)
  have "fetch_reservation t1 rid = Some (reservation_post_init ?w)" by (simp add: p(2) fetch_reservation_def)
  moreover have "cr_version (reservation_post_init ?w) = cr_version row + 1"
    using ver by (simp add: reservation_post_init_def)
  ultimately have "restore_prepared_replacement_reservation prepared original t1
      = update_reservation (row\<lparr>cr_version := cr_version row + 1\<rparr>) (cr_version row + 1) t1"
    by (simp add: restore_prepared_replacement_reservation_def p(1) o id)
  also have "\<dots> = Inr (row\<lparr>cr_version := cr_version row + 2\<rparr>,
      t\<lparr>rt_rows := (rt_rows t)(rid \<mapsto> row\<lparr>cr_version := cr_version row + 2\<rparr>)\<rparr>)"
    using same by (simp add: update_reservation_def p(2) id add.commute)
  finally show ?thesis using row(1) o by simp
qed

subsection \<open>The transaction repeats the decision\<close>

lemma spec_fields:
  assumes "reservation_spec_post_init s0 = Inr s"
  shows "s = s0\<lparr>sp_environment := normalized_text (sp_environment s0), sp_account_no := py_strip (sp_account_no s0),
      sp_symbol := normalized_text (sp_symbol s0),
      sp_baseline_position_symbols := sort (remdups (filter (\<lambda>v. v \<noteq> [])
        (map normalized_text (sp_baseline_position_symbols s0))))\<rparr>"
    "finite_nonneg (sp_proposed_notional_usd s0)" "finite_nonneg (sp_proposed_open_risk_usd s0)"
    "finite_nonneg (sp_account_equity_usd s0)" "finite_nonneg (sp_baseline_open_risk_usd s0)"
    "finite_nonneg (sp_baseline_gross_notional_usd s0)" "finite_nonneg (sp_baseline_symbol_notional_usd s0)"
  using assms unfolding reservation_spec_post_init_def Let_def guarded_Inr_iff first_error_None_iff
  by (auto simp: finite_nonnegative_passed finite_nonneg_def)

lemma upper_normalized [simp]: "py_upper (normalized_text v) = normalized_text v"
  by (simp add: normalized_text_def)

lemma strip_normalized [simp]: "py_strip (normalized_text v) = normalized_text v"
  by (simp add: normalized_text_def py_strip_upper)

lemma normal_text: "normalized_text v = v \<Longrightarrow> py_upper v = v \<and> py_strip v = v"
  by (metis upper_normalized strip_normalized)

lemma close_to_refl: "finite_nonneg v \<Longrightarrow> close_to v v"
  by (auto simp: finite_nonneg_def close_to_def feq_def isfinite_def)

definition symbol_normal :: "exposure_item \<Rightarrow> bool" where
  "symbol_normal i \<longleftrightarrow> normalized_text (item_symbol i) = item_symbol i \<and> item_symbol i \<noteq> []"

lemma baseline_all:
  "list_all (\<lambda>x. px_reservation_id x = []) (sn_projected_exposures s) \<Longrightarrow> atomic_baseline replaced s = existing_items replaced s"
  unfolding atomic_baseline_def existing_items_def
  by (subst filter_True) (auto simp: remaining_exposures_def list_all_iff)

lemma projected_symbols_baseline:
  assumes "list_all symbol_normal items" "normalized_text v = v"
    "sp_baseline_position_symbols spec = sort (remdups (filter (\<lambda>w. w \<noteq> []) (map normalized_text (map item_symbol items))))"
    "cr_symbol r = v"
  shows "projected_symbols r [] spec = insert v (item_symbol ` set items)"
proof -
  let ?S = "item_symbol ` set items"
  have n: "normalized_text w = w" "w \<noteq> []" "py_upper w = w" "py_strip w = w" if "w \<in> ?S" for w
    using that assms(1) normal_text by (auto simp: list_all_iff symbol_normal_def)
  have "normalized_text ` ?S = (\<lambda>w. w) ` ?S" by (rule image_cong [OF refl n(1)])
  moreover have "w \<noteq> [] \<and> py_strip w \<noteq> []" if "w \<in> ?S" for w using n(2,4) [OF that] by simp
  then have "{w \<in> ?S. w \<noteq> [] \<and> py_strip w \<noteq> []} = ?S" by blast
  moreover have "py_upper ` ?S = (\<lambda>w. w) ` ?S" by (rule image_cong [OF refl n(3)])
  ultimately have "py_upper ` {w \<in> normalized_text ` ?S. w \<noteq> [] \<and> py_strip w \<noteq> []} = ?S" by simp
  moreover have "set (filter (\<lambda>w. py_strip w \<noteq> []) (sp_baseline_position_symbols spec))
      = {w \<in> normalized_text ` ?S. w \<noteq> [] \<and> py_strip w \<noteq> []}"
    unfolding assms(3) by (auto simp: image_image)
  ultimately show ?thesis unfolding projected_symbols_def assms(4) by simp
qed

lemma capacity_repeats_decision:
  assumes "risk_limits_post_init l = None" "evaluate_entry l e s replaced = Inr d"
    "rd_reservation_spec d = Some spec" "as_position e = Inr p"
    "list_all (\<lambda>x. px_reservation_id x = []) (sn_projected_exposures s)"
    "list_all symbol_normal (existing_items (py_strip replaced) s)"
    "r = create_reservation rid now (sp_environment spec) (sp_account_no spec) (sp_symbol spec) grp
       (sp_proposed_notional_usd spec) (sp_proposed_open_risk_usd spec)"
  shows "(require_projected_portfolio_capacity r [] spec = None \<longleftrightarrow>
      fpos (sn_account_equity_usd s)
      \<and> core_limit_reasons l (sn_account_equity_usd s) (existing_items (py_strip replaced) s) p = [])
    \<and> (if rd_approved d then require_projected_portfolio_capacity r [] spec = None else True)"
proof -
  let ?items = "existing_items (py_strip replaced) s"
  have d: "decision_spec l e s (py_strip replaced) p = Inr spec"
    "rd_approved d \<longleftrightarrow> entry_reasons l s (py_strip replaced) p = []"
    using assms(2-4) by (auto simp: evaluate_entry_def Let_def bind_result_Inr_iff split: if_splits)
  note f = spec_fields [OF d(1) [unfolded decision_spec_def Let_def baseline_all [OF assms(5)]], simplified]
  have sym: "normalized_text (pr_symbol p) = pr_symbol p"
    using assms(4) by (auto simp: as_position_def position_risk_post_init_def Let_def guarded_Inr_iff)
  have m: "\<exists>x. rl_max_single_position_notional_fraction l = Fin x \<and> 0 < x" "0 < rl_max_simultaneous_positions l"
    using limits_valid(1,4) [OF assms(1)] by auto
  have eq: "\<exists>x. sn_account_equity_usd s = Fin x \<and> 0 \<le> x"
    using f(4) by (auto simp: finite_nonneg_def elim!: isfinite_cases)
  have r: "cr_environment r = sp_environment spec" "cr_account_no r = sp_account_no spec" "cr_symbol r = pr_symbol p"
    "cr_requested_notional r = sp_proposed_notional_usd spec"
    "cr_projected_open_risk r = sp_proposed_open_risk_usd spec"
    using f(1,3) sym normal_text [OF sym]
    by (auto simp: assms(7) created_fields fmax_def finite_nonneg_def fle_def feq_def)
  have ps: "projected_symbols r [] spec = insert (pr_symbol p) (item_symbol ` set ?items)"
    by (rule projected_symbols_baseline [OF assms(6) sym _ r(3)]) (simp add: f(1))
  have core: "portfolio_capacity_reasons r [] spec = [] \<longleftrightarrow> core_limit_reasons l (sn_account_equity_usd s) ?items p = []"
    if "fpos (sn_account_equity_usd s)"
    using that m r(3) unfolding portfolio_capacity_reasons_def core_limit_reasons_def Let_def ps
    by (auto simp: f(1) fadd_zero wf_fsum position_count_after_def)
  have "require_projected_portfolio_capacity r [] spec = None \<longleftrightarrow>
      fpos (sn_account_equity_usd s) \<and> portfolio_capacity_reasons r [] spec = []"
    using f(2-7) r sym normal_text [OF sym] eq close_to_refl
    by (auto simp: require_projected_portfolio_capacity_def f(1) split: if_splits)
  with core d(2) eq show ?thesis
    by (auto simp: entry_reasons_def Let_def)
qed


subsection \<open>A sample account\<close>

lemma sample_spec_fields:
  assumes "decision_spec sample_limits sample_entry sample_snapshot [] sample_position = Inr spec"
  shows "sp_environment spec = ''PROD''" "sp_account_no spec = ''1''" "sp_symbol spec = ''AAPL''"
    "sp_proposed_notional_usd spec = Fin 2000" "sp_proposed_open_risk_usd spec = Fin 50"
  using spec_fields(1) [OF assms [unfolded decision_spec_def Let_def]]
  by (simp_all add: sample_numbers) (simp_all add: sample_entry_def sample_position_def sample_texts)

definition sample_reservation :: reservation where
  "sample_reservation = create_reservation ''r1'' 0 ''PROD'' ''1'' ''AAPL'' ''g'' (Fin 2000) (Fin 50)"

lemma sample_reservation_spec:
  assumes "decision_spec sample_limits sample_entry sample_snapshot [] sample_position = Inr spec"
  shows "sample_reservation = create_reservation ''r1'' 0 (sp_environment spec) (sp_account_no spec) (sp_symbol spec)
    ''g'' (sp_proposed_notional_usd spec) (sp_proposed_open_risk_usd spec)"
  by (simp add: sample_reservation_def sample_spec_fields [OF assms])

lemma sample_decision:
  obtains d spec where "evaluate_entry sample_limits sample_entry sample_snapshot [] = Inr d" "rd_approved d"
    "rd_reservation_spec d = Some spec"
    "decision_spec sample_limits sample_entry sample_snapshot [] sample_position = Inr spec"
proof -
  obtain spec where "decision_spec sample_limits sample_entry sample_snapshot [] sample_position = Inr spec"
    using sample_spec by blast
  moreover have "py_strip (pe_environment sample_entry) \<noteq> []" "py_strip (pe_account_no sample_entry) \<noteq> []"
    by (simp_all add: sample_entry_def sample_texts)
  ultimately show thesis
    using that by (auto simp: evaluate_entry_def Let_def sample_proposed sample_reasons)
qed

lemma sample_normal:
  "list_all (\<lambda>x. px_reservation_id x = []) (sn_projected_exposures sample_snapshot)"
  "list_all symbol_normal (existing_items (py_strip []) sample_snapshot)"
  by (simp add: sample_snapshot_def, simp add: sample_numbers symbol_normal_def)
    (simp add: sample_holding_def sample_texts)

lemma sample_capacity:
  assumes "decision_spec sample_limits sample_entry sample_snapshot [] sample_position = Inr spec"
  shows "require_projected_portfolio_capacity
    (create_reservation rid now ''PROD'' ''1'' ''AAPL'' grp (Fin 2000) (Fin 50)) [] spec = None"
proof -
  obtain d where d: "evaluate_entry sample_limits sample_entry sample_snapshot [] = Inr d" "rd_approved d"
    "rd_reservation_spec d = Some spec" using sample_decision assms by (metis sum.inject(2))
  from capacity_repeats_decision [OF sample_limits_valid d(1,3) sample_proposed sample_normal refl] d(2)
  show ?thesis by (simp add: sample_spec_fields [OF assms])
qed


lemma sample_insertion:
  assumes "decision_spec sample_limits sample_entry sample_snapshot [] sample_position = Inr spec"
  shows "insert_reservation_if_available sample_reservation (Fin 50000) (Some spec) empty_reservations
    = Inr \<lparr>rt_ids = [''r1''], rt_rows = [''r1'' \<mapsto> sample_reservation]\<rparr>"
proof -
  have r: "active_rows e a empty_reservations = []" for e a
    by (simp add: active_rows_def table_reservations_def empty_reservations_def List.map_filter_simps)
  have n: "cr_requested_notional sample_reservation = Fin 2000" "cr_reservation_id sample_reservation = ''r1''"
    by (simp_all add: sample_reservation_def created_fields)
  have "\<not> flt (fsub (Fin 50000) (Fin 0)) (Fin 2000)" by (simp add: fsub_Fin)
  then show ?thesis
    by (simp add: insert_reservation_if_available_def Let_def r n insert_reservation_def
        sample_capacity [OF assms, of "''r1''" 0 "''g''", folded sample_reservation_def])
      (simp add: empty_reservations_def)
qed

definition sample_table :: reservation_table where
  "sample_table = \<lparr>rt_ids = [''r1''], rt_rows = [''r1'' \<mapsto> sample_reservation]\<rparr>"

lemma sample_step: "reservation_step 50000 empty_reservations sample_table"
proof -
  obtain d spec where s: "decision_spec sample_limits sample_entry sample_snapshot [] sample_position = Inr spec"
    by (rule sample_decision)
  then show ?thesis
    using sample_insertion [OF s] reservation_step.entry_step [of _ _ _ _ _ _ 2000 _ 50000 spec, folded sample_table_def]
    unfolding decision_spec_def Let_def sample_reservation_def sample_table_def by fastforce
qed


lemma sample_reservation_row: "reservation_post_init sample_reservation = sample_reservation"
  "cr_environment sample_reservation = ''PROD''" "cr_account_no sample_reservation = ''1''"
  "cr_symbol sample_reservation = ''AAPL''" "cr_remaining_reserved_notional sample_reservation = Fin 2000"
  "cr_reservation_id sample_reservation = ''r1''" "reservation_is_open sample_reservation"
  "reservation_ok sample_reservation" "scope_normal sample_reservation"
proof -
  have u: "py_upper ''PROD'' = ''PROD''" "py_upper ''AAPL'' = ''AAPL''" by code_simp+
  show "reservation_post_init sample_reservation = sample_reservation"
    by (simp add: sample_reservation_def create_reservation_def reservation_post_init_def fmax_def nonempty_text_def u)
  show "cr_environment sample_reservation = ''PROD''" "cr_account_no sample_reservation = ''1''"
    "cr_symbol sample_reservation = ''AAPL''" "cr_remaining_reserved_notional sample_reservation = Fin 2000"
    "cr_reservation_id sample_reservation = ''r1''" "reservation_is_open sample_reservation"
    "reservation_ok sample_reservation" "scope_normal sample_reservation"
    by (simp_all add: sample_reservation_def created_fields u reservation_ok_def reservation_amounts_def
        scope_normal_def)
qed

lemma sample_table_wf: "reservations_wf sample_table" "fetch_reservation sample_table ''r1'' = rt_rows sample_table ''r1''"
  by (simp_all add: sample_table_def reservations_wf_def fetch_reservation_def sample_reservation_row)

lemma sample_prepare:
  "\<exists>spec p o' t. prepare_reservation_for_replacement 0 ''r1'' ''PROD'' ''1'' ''AAPL'' (Fin 2000) (Fin 50)
     (Fin 50000) spec sample_table = Inr (p, o', t)"
proof -
  obtain d spec where s: "decision_spec sample_limits sample_entry sample_snapshot [] sample_position = Inr spec"
    by (rule sample_decision)
  have u: "py_upper ''PROD'' = ''PROD''" "py_upper ''AAPL'' = ''AAPL''" by code_simp+
  have rows: "active_rows ''PROD'' ''1'' sample_table = [sample_reservation]"
    by (simp add: active_rows_def table_reservations_def sample_table_def List.map_filter_simps sample_reservation_row)
  have c: "\<not> flt (fadd (Fin 50000) (to_float (1 / 10 ^ 6))) (Fin 2000)"
  proof -
    obtain e where e: "to_float (1 / 10 ^ 6) = Fin e" "0 \<le> e" using millionth by blast
    then have "fle (to_float 50000) (to_float (50000 + e))" by (intro to_float_mono) simp
    then have "fle (Fin 2000) (to_float (50000 + e))"
      using fle_trans [of "Fin 2000" "Fin 50000"] by simp
    with e show ?thesis using flt_not_fle by auto
  qed
  have "fsub (Fin 50000) (Fin 0) = Fin 50000" by (simp add: fsub_Fin)
  with c have "\<exists>p o' t. prepare_reservation_for_replacement 0 ''r1'' ''PROD'' ''1'' ''AAPL'' (Fin 2000) (Fin 50)
     (Fin 50000) spec sample_table = Inr (p, o', t)"
    by (simp add: prepare_reservation_for_replacement_def Let_def u rows sample_reservation_row sample_capacity [OF s])
      (simp add: update_reservation_def sample_table_def sample_reservation_row)
  then show ?thesis by blast
qed

theorem called_off_replacement_restores_witness:
  "\<exists>spec p o' t r' t2. prepare_reservation_for_replacement 0 ''r1'' ''PROD'' ''1'' ''AAPL'' (Fin 2000) (Fin 50)
      (Fin 50000) spec sample_table = Inr (p, o', t)
    \<and> restore_prepared_replacement_reservation p o' t = Inr (r', t2) \<and> o' = sample_reservation"
proof -
  obtain spec p o' t where s: "prepare_reservation_for_replacement 0 ''r1'' ''PROD'' ''1'' ''AAPL'' (Fin 2000) (Fin 50)
     (Fin 50000) spec sample_table = Inr (p, o', t)" using sample_prepare by blast
  have "rt_rows sample_table ''r1'' = Some sample_reservation" by (simp add: sample_table_def)
  with called_off_replacement_restores [OF sample_table_wf s] have "o' = sample_reservation
      \<and> (\<exists>r' t2. restore_prepared_replacement_reservation p o' t = Inr (r', t2))" by auto
  with s show ?thesis by blast
qed

subsection \<open>A buying power that is not a number\<close>

text \<open>The availability check of a new entry fails open on NaN: a buying power that is not a number
  is never too small, so the reservation is inserted whatever it asks for. The replacement path
  refuses the same input.\<close>

theorem nan_buying_power_reserves:
  "insert_reservation_if_available r NaN None t = insert_reservation r t
    \<and> prepare_reservation_for_replacement now rid env acct tkr n k NaN spec t = Inl ReplacementNotFinite"
  by (simp add: insert_reservation_if_available_def prepare_reservation_for_replacement_def Let_def fsub_def
      isfinite_def)

end
