(* ===== verification/Capital.thy ===== *)
theory Capital
  imports Reservation_Safety
begin

text \<open>
  \<open>src/services/capital_allocator.py\<close>: the reservations of this device, a local ledger mirrored from
  the shared table. With a database (\<open>Some t\<close>) the table decides and the ledger follows it; without
  one (\<open>None\<close>) the ledger is all there is. The account lock and the file lock make every function
  one step; its result is the exception or value, the ledger and the database afterwards.
\<close>

type_synonym ledger = "reservation list"

datatype capital_error = RequestedNotionalNotPositive | CapitalStore reservation_store_error

definition find_active_reservations :: "ledger \<Rightarrow> string \<Rightarrow> string \<Rightarrow> reservation list" where
  "find_active_reservations rs environment account_no =
     filter (\<lambda>r. reservation_is_open r \<and> cr_environment r = py_upper environment \<and> cr_account_no r = account_no) rs"

text \<open>Reading the ledger constructs every record anew.\<close>

definition load_ledger :: "ledger \<Rightarrow> ledger" where
  "load_ledger rs = map reservation_post_init rs"

definition merge_by_id :: "reservation list \<Rightarrow> reservation list \<Rightarrow> reservation list" where
  "merge_by_id local_active db_active =
     map snd (py_dict (map (\<lambda>r. (cr_reservation_id r, r)) (local_active @ db_active)))"

definition active_reservations :: "ledger \<Rightarrow> reservation_table option \<Rightarrow> string \<Rightarrow> string \<Rightarrow> reservation list" where
  "active_reservations ledger db environment account_no =
     (let active = find_active_reservations (load_ledger ledger) environment account_no
      in case db of None \<Rightarrow> active
         | Some t \<Rightarrow> merge_by_id active (list_active_reservations t environment account_no))"

definition reserve_capital_for_entry ::
    "string \<Rightarrow> timestamp \<Rightarrow> string \<Rightarrow> string \<Rightarrow> string \<Rightarrow> string \<Rightarrow> pyfloat \<Rightarrow> pyfloat
       \<Rightarrow> ledger \<times> reservation_table option
       \<Rightarrow> (capital_error + reservation option) \<times> ledger \<times> reservation_table option" where
  "reserve_capital_for_entry new_id now environment account_no ticker grp requested buying_power state =
     (case state of (ledger, db) \<Rightarrow>
        if fle requested (Fin 0) then (Inl RequestedNotionalNotPositive, ledger, db)
        else
          let available = available_for_new_entries buying_power
                (active_reservations ledger db environment account_no);
              r = create_reservation new_id now environment account_no ticker grp requested (Fin 0)
          in if flt available requested then (Inr None, ledger, db)
             else case db of
               None \<Rightarrow> (Inr (Some r), load_ledger ledger @ [r], None)
             | Some t \<Rightarrow>
                 (case save_reservation_strict r t of
                    Inl e \<Rightarrow> (Inl (CapitalStore e), ledger, db)
                  | Inr (r', t') \<Rightarrow> (Inr (Some r'), load_ledger ledger @ [r'], Some t')))"

fun upsert_local_reservation :: "ledger \<Rightarrow> reservation \<Rightarrow> ledger" where
  "upsert_local_reservation [] r = [r]"
| "upsert_local_reservation (c # rs) r =
     (if cr_reservation_id c = cr_reservation_id r then r # rs else c # upsert_local_reservation rs r)"

definition find_local :: "string \<Rightarrow> ledger \<Rightarrow> reservation option" where
  "find_local rid rs = List.find (\<lambda>r. cr_reservation_id r = rid) rs"

definition mutate_reservation ::
    "string \<Rightarrow> (reservation \<Rightarrow> reservation) \<Rightarrow> ledger \<times> reservation_table option
       \<Rightarrow> (capital_error + reservation option) \<times> ledger \<times> reservation_table option" where
  "mutate_reservation rid mutation state =
     (case state of (ledger0, db) \<Rightarrow>
        let ledger = load_ledger ledger0;
            found = (case find_local rid ledger of
                Some r \<Rightarrow> Some r
              | None \<Rightarrow> (case db of None \<Rightarrow> None | Some t \<Rightarrow> fetch_reservation t rid))
        in case found of
             None \<Rightarrow> (Inr None, ledger0, db)
           | Some r \<Rightarrow>
               (case db of
                  None \<Rightarrow> (Inr (Some (mutation r)), upsert_local_reservation ledger (mutation r), None)
                | Some t \<Rightarrow>
                    (case save_reservation_strict (mutation r) t of
                       Inr (r', t') \<Rightarrow> (Inr (Some r'), upsert_local_reservation ledger r', Some t')
                     | Inl e \<Rightarrow>
                         (Inl (CapitalStore e),
                          if e \<noteq> ReservationVersionConflict then ledger0
                          else case fetch_reservation t rid of
                            None \<Rightarrow> ledger0
                          | Some authoritative \<Rightarrow> upsert_local_reservation ledger authoritative,
                          db))))"

definition consume_reservation ::
    "string \<Rightarrow> pyfloat \<Rightarrow> ledger \<times> reservation_table option
       \<Rightarrow> (capital_error + reservation option) \<times> ledger \<times> reservation_table option" where
  "consume_reservation rid notional = mutate_reservation rid (consume_reservation_notional notional)"

definition release_reservation ::
    "string \<Rightarrow> timestamp \<Rightarrow> ledger \<times> reservation_table option
       \<Rightarrow> (capital_error + reservation option) \<times> ledger \<times> reservation_table option" where
  "release_reservation rid now = mutate_reservation rid (release_reservation_notional now)"

definition expire_reservation ::
    "string \<Rightarrow> timestamp \<Rightarrow> ledger \<times> reservation_table option
       \<Rightarrow> (capital_error + reservation option) \<times> ledger \<times> reservation_table option" where
  "expire_reservation rid now = mutate_reservation rid (expire_reservation_notional now)"

subsection \<open>The ledger follows the database\<close>

lemma post_init_idem [simp]: "reservation_post_init (reservation_post_init r) = reservation_post_init r"
  by (simp add: reservation_post_init_def fmax_def nonempty_text_def)

lemma find_upsert: "find_local (cr_reservation_id r) (upsert_local_reservation rs r) = Some r"
  by (induction rs) (auto simp: find_local_def)

text \<open>The columns that identify a reservation and never change.\<close>

definition reservation_identity :: "reservation \<Rightarrow> string \<times> string \<times> string \<times> string \<times> string \<times> timestamp" where
  "reservation_identity r = (cr_reservation_id r, cr_environment r, cr_account_no r, cr_symbol r,
     cr_attempt_group_id r, cr_created_at r)"

lemma same_row:
  assumes "reservation_identity r = reservation_identity s"
  shows "written_row r n s = r\<lparr>cr_version := n\<rparr>"
  using assms by (cases r; cases s) (simp add: reservation_identity_def written_row_def)

lemma find_local_mem: "find_local rid rs = Some r \<Longrightarrow> r \<in> set rs \<and> cr_reservation_id r = rid"
  unfolding find_local_def by (drule find_Some_mem) simp

lemma save_cases:
  assumes "save_reservation_strict r t = res"
  shows "(rt_rows t (cr_reservation_id r) = None
      \<and> res = Inr (r, t\<lparr>rt_ids := rt_ids t @ [cr_reservation_id r], rt_rows := (rt_rows t)(cr_reservation_id r \<mapsto> r)\<rparr>))
    \<or> (\<exists>s. rt_rows t (cr_reservation_id r) = Some s \<and> cr_version s \<noteq> cr_version r \<and> res = Inl ReservationVersionConflict)
    \<or> (\<exists>s. rt_rows t (cr_reservation_id r) = Some s \<and> cr_version s = cr_version r
         \<and> res = Inr (r\<lparr>cr_version := cr_version r + 1\<rparr>, t\<lparr>rt_rows := (rt_rows t)(cr_reservation_id r \<mapsto>
             written_row r (cr_version r + 1) s)\<rparr>))"
  using assms by (cases "rt_rows t (cr_reservation_id r)")
    (auto simp: save_reservation_strict_def insert_reservation_def update_reservation_def)

lemma load_find: "find_local rid (load_ledger rs) = map_option reservation_post_init (find_local rid rs)"
  by (induction rs) (auto simp: find_local_def load_ledger_def)

text \<open>The identity of a reservation is the same in the ledger and in the table, and rows are stored
  the way the constructor leaves them.\<close>

definition same_identities :: "string \<Rightarrow> ledger \<Rightarrow> reservation_table \<Rightarrow> bool" where
  "same_identities rid ledger t \<longleftrightarrow>
     (\<forall>s. rt_rows t rid = Some s \<longrightarrow> cr_reservation_id s = rid
        \<and> reservation_identity (reservation_post_init s) = reservation_identity s
        \<and> (\<forall>r. find_local rid (load_ledger ledger) = Some r \<longrightarrow> reservation_identity r = reservation_identity s))"

lemma mutation_mirrors:
  assumes "mutate_reservation rid mutation (ledger, Some t) = (result, ledger', Some t')"
    "\<And>r. reservation_identity (mutation r) = reservation_identity r"
    "same_identities rid ledger t" "result \<noteq> Inr None"
  shows "find_local rid (load_ledger ledger') = fetch_reservation t' rid"
proof -
  let ?l = "load_ledger ledger"
  obtain r where r: "(case find_local rid ?l of Some r \<Rightarrow> Some r | None \<Rightarrow> fetch_reservation t rid) = Some r"
    using assms(1,4) by (cases "case find_local rid ?l of Some r \<Rightarrow> Some r | None \<Rightarrow> fetch_reservation t rid")
      (auto simp: mutate_reservation_def Let_def split: option.splits)
  have row: "cr_reservation_id s = rid \<and> reservation_identity r = reservation_identity s"
    if "rt_rows t rid = Some s" for s
    using assms(3) that r unfolding same_identities_def fetch_reservation_def by (auto split: option.splits)
  have id: "cr_reservation_id r = rid"
    using r assms(3) unfolding same_identities_def fetch_reservation_def
    by (auto split: option.splits dest: find_local_mem)
  let ?m = "mutation r"
  have idm: "cr_reservation_id ?m = rid" using assms(2) [of r] id by (simp add: reservation_identity_def)
  have e: "mutate_reservation rid mutation (ledger, Some t) =
      (case save_reservation_strict ?m t of
         Inr (r', u) \<Rightarrow> (Inr (Some r'), upsert_local_reservation ?l r', Some u)
       | Inl err \<Rightarrow> (Inl (CapitalStore err), if err \<noteq> ReservationVersionConflict then ledger
           else case fetch_reservation t rid of None \<Rightarrow> ledger | Some a \<Rightarrow> upsert_local_reservation ?l a, Some t))"
    by (simp only: mutate_reservation_def Let_def prod.case option.case r)
  from save_cases [OF refl, of t ?m] show ?thesis
  proof (elim disjE exE conjE)
    assume "rt_rows t (cr_reservation_id ?m) = None"
      and "save_reservation_strict ?m t = Inr (?m, t\<lparr>rt_ids := rt_ids t @ [cr_reservation_id ?m],
        rt_rows := (rt_rows t)(cr_reservation_id ?m \<mapsto> ?m)\<rparr>)"
    with e assms(1) find_upsert [of ?m ?l] show ?thesis
      by (auto simp: idm load_find fetch_reservation_def)
  next
    fix s assume s: "rt_rows t (cr_reservation_id ?m) = Some s"
      and "save_reservation_strict ?m t = Inl ReservationVersionConflict"
    with e assms(1) find_upsert [of "reservation_post_init s" ?l] row [of s] show ?thesis
      by (auto simp: idm load_find fetch_reservation_def)
  next
    fix s assume s: "rt_rows t (cr_reservation_id ?m) = Some s"
      and w: "save_reservation_strict ?m t = Inr (?m\<lparr>cr_version := cr_version ?m + 1\<rparr>, t\<lparr>rt_rows :=
        (rt_rows t)(cr_reservation_id ?m \<mapsto> written_row ?m (cr_version ?m + 1) s)\<rparr>)"
    have "reservation_identity ?m = reservation_identity s" using row [of s] s assms(2) [of r] by (simp add: idm)
    note same_row [OF this, of "cr_version ?m + 1"]
    with e w assms(1) find_upsert [of "?m\<lparr>cr_version := cr_version ?m + 1\<rparr>" ?l] show ?thesis
      by (auto simp: idm load_find fetch_reservation_def)
  qed
qed

lemma mutations_keep_identity:
  "reservation_identity (consume_reservation_notional n r) = reservation_identity r"
  "reservation_identity (release_reservation_notional now r) = reservation_identity r"
  "reservation_identity (expire_reservation_notional now r) = reservation_identity r"
  by (simp_all add: reservation_identity_def consume_reservation_notional_def release_reservation_notional_def
      expire_reservation_notional_def Let_def)

text \<open>The ledger never drifts from the table. Whatever a consumption, release or expiry of a known
  reservation ends in, success or a version conflict with another device, reading the ledger
  afterwards shows for that reservation exactly the row the database holds.\<close>

theorem ledger_follows_database:
  assumes "operation \<in> {consume_reservation rid n, release_reservation rid now, expire_reservation rid now}"
    "operation (ledger, Some t) = (result, ledger', Some t')" "same_identities rid ledger t" "result \<noteq> Inr None"
  shows "find_local rid (load_ledger ledger') = fetch_reservation t' rid"
  using assms(1,2) mutation_mirrors [OF _ _ assms(3,4)] mutations_keep_identity
  unfolding consume_reservation_def release_reservation_def expire_reservation_def by blast

theorem ledger_follows_database_witness:
  "\<exists>l' t'. release_reservation ''r1'' 5 ([sample_reservation], Some sample_table)
       = (Inr (Some ((release_reservation_notional 5 sample_reservation)\<lparr>cr_version := 2\<rparr>)), l', Some t')
     \<and> find_local ''r1'' (load_ledger l') = fetch_reservation t' ''r1''"
proof -
  have v: "cr_version sample_reservation = 1"
    by (simp add: sample_reservation_def create_reservation_def reservation_post_init_def)
  have s: "same_identities ''r1'' [sample_reservation] sample_table"
    by (simp add: same_identities_def sample_table_def sample_reservation_row load_ledger_def find_local_def)
  have "\<exists>l' t'. release_reservation ''r1'' 5 ([sample_reservation], Some sample_table)
       = (Inr (Some ((release_reservation_notional 5 sample_reservation)\<lparr>cr_version := 2\<rparr>)), l', Some t')"
    by (simp add: release_reservation_def mutate_reservation_def load_ledger_def find_local_def sample_reservation_row Let_def
        save_reservation_strict_def update_reservation_def sample_table_def release_reservation_notional_def v)
  then obtain l' t' where r: "release_reservation ''r1'' 5 ([sample_reservation], Some sample_table)
       = (Inr (Some ((release_reservation_notional 5 sample_reservation)\<lparr>cr_version := 2\<rparr>)), l', Some t')"
    by blast
  from ledger_follows_database [of "release_reservation ''r1'' 5" "''r1''" "Fin 0" 5, OF _ r s] r
  show ?thesis by blast
qed

subsection \<open>A reservation another device closed\<close>

text \<open>A reservation closed on another device keeps blocking this one. The availability check takes
  the open reservations of the ledger and overrides them with the open rows of the table, so a
  row the table has closed overrides nothing: the stale copy still counts, a request the
  database could fund is denied, and the ledger stays as it is, although the code says a stale
  copy must never shadow the database.\<close>

theorem stale_copy_blocks:
  assumes "find_active_reservations (load_ledger [r]) environment account_no = [r]"
    "list_active_reservations t environment account_no = []" "rt_rows t new_id = None"
    "fpos requested" "flt (fsub bp (fsum [cr_remaining_reserved_notional r])) requested"
    "\<not> flt (fsub bp (Fin 0)) requested"
  shows "reserve_capital_for_entry new_id now environment account_no ticker grp requested bp ([r], Some t)
      = (Inr None, [r], Some t)
    \<and> (\<exists>c l t'. reserve_capital_for_entry new_id now environment account_no ticker grp requested bp ([], Some t)
         = (Inr (Some c), l, Some t'))"
proof -
  have "reservation_is_open r" using assms(1) by (auto simp: find_active_reservations_def filter_eq_Cons_iff)
  then have a: "active_reservations [r] (Some t) environment account_no = [r]"
    "active_reservations [] (Some t) environment account_no = []"
    "available_for_new_entries bp [r] = fsub bp (fsum [cr_remaining_reserved_notional r])"
    "available_for_new_entries bp [] = fsub bp (Fin 0)"
    using assms(1,2) by (simp_all add: active_reservations_def merge_by_id_def py_dict_def available_for_new_entries_def)
      (simp add: find_active_reservations_def load_ledger_def)
  have "\<not> fle requested (Fin 0)" using assms(4) flt_not_fle by (auto simp: fpos_def)
  then show ?thesis
    using a assms(3,5,6) by (simp add: reserve_capital_for_entry_def save_reservation_strict_def insert_reservation_def
        created_fields Let_def)
qed

definition released_table :: reservation_table where
  "released_table = \<lparr>rt_ids = [''r1''], rt_rows = [''r1'' \<mapsto> release_reservation_notional 5 sample_reservation]\<rparr>"

theorem stale_copy_blocks_witness:
  "reserve_capital_for_entry ''r2'' 9 ''PROD'' ''1'' ''MSFT'' ''g'' (Fin 2000) (Fin 3000)
     ([sample_reservation], Some released_table) = (Inr None, [sample_reservation], Some released_table)"
proof -
  have u: "py_upper ''PROD'' = ''PROD''" by code_simp
  have "find_active_reservations (load_ledger [sample_reservation]) ''PROD'' ''1'' = [sample_reservation]"
    "list_active_reservations released_table ''PROD'' ''1'' = []" "rt_rows released_table ''r2'' = None"
    "fpos (Fin 2000)" "flt (fsub (Fin 3000) (fsum [cr_remaining_reserved_notional sample_reservation])) (Fin 2000)"
    "\<not> flt (fsub (Fin 3000) (Fin 0)) (Fin 2000)"
    by (simp_all add: find_active_reservations_def load_ledger_def sample_reservation_row u list_active_reservations_def
        active_rows_def table_reservations_def released_table_def List.map_filter_simps fsum_def fsub_Fin)
      (simp add: release_reservation_notional_def reservation_is_open_def OPEN_RESERVATION_STATUSES_def)
  from stale_copy_blocks [OF this] show ?thesis by blast
qed

end
