(* ===== verification/Execution_Result.thy ===== *)
theory Execution_Result
  imports Execution_Order
begin

text \<open>
  \<open>src/core/execution_result.py\<close>: the result shape the entry and exit orchestration reads, whether the
  order went through the legacy ledger (\<open>BrokerOrder\<close>) or the guarded gateway
  (\<open>ExecutionOrderRecord\<close>), and the projection of a guarded record into the legacy read model.
\<close>

datatype unified_status =
    U_PREPARED | U_SUBMITTING | U_ACKNOWLEDGED | U_WORKING | U_PARTIALLY_FILLED | U_FILLED
  | U_CANCEL_PENDING | U_CANCELLED | U_REJECTED | U_EXPIRED | U_UNKNOWN

fun broker_status_map :: "order_status \<Rightarrow> unified_status" where
  "broker_status_map OS_CREATED = U_PREPARED"
| "broker_status_map OS_SUBMITTING = U_SUBMITTING"
| "broker_status_map OS_ACCEPTED = U_ACKNOWLEDGED"
| "broker_status_map OS_WORKING = U_WORKING"
| "broker_status_map OS_PARTIALLY_FILLED = U_PARTIALLY_FILLED"
| "broker_status_map OS_FILLED = U_FILLED"
| "broker_status_map OS_CANCEL_REQUESTED = U_CANCEL_PENDING"
| "broker_status_map OS_CANCELLED = U_CANCELLED"
| "broker_status_map OS_REJECTED = U_REJECTED"
| "broker_status_map OS_EXPIRED = U_EXPIRED"
| "broker_status_map OS_UNKNOWN_SUBMISSION_STATE = U_UNKNOWN"
| "broker_status_map OS_UNKNOWN = U_UNKNOWN"

fun execution_status_map :: "execution_order_status \<Rightarrow> unified_status" where
  "execution_status_map PREPARED = U_PREPARED"
| "execution_status_map SUBMITTING = U_SUBMITTING"
| "execution_status_map ACKNOWLEDGED = U_ACKNOWLEDGED"
| "execution_status_map WORKING = U_WORKING"
| "execution_status_map PARTIALLY_FILLED = U_PARTIALLY_FILLED"
| "execution_status_map FILLED = U_FILLED"
| "execution_status_map CANCEL_PENDING = U_CANCEL_PENDING"
| "execution_status_map CANCELLED = U_CANCELLED"
| "execution_status_map CANCELLED_LOCALLY = U_CANCELLED"
| "execution_status_map REJECTED = U_REJECTED"
| "execution_status_map NOT_ACCEPTED_CONFIRMED = U_REJECTED"
| "execution_status_map EXPIRED = U_EXPIRED"
| "execution_status_map UNKNOWN_SUBMISSION_STATE = U_UNKNOWN"

fun execution_to_broker_status :: "execution_order_status \<Rightarrow> order_status" where
  "execution_to_broker_status PREPARED = OS_CREATED"
| "execution_to_broker_status SUBMITTING = OS_SUBMITTING"
| "execution_to_broker_status ACKNOWLEDGED = OS_ACCEPTED"
| "execution_to_broker_status WORKING = OS_WORKING"
| "execution_to_broker_status PARTIALLY_FILLED = OS_PARTIALLY_FILLED"
| "execution_to_broker_status FILLED = OS_FILLED"
| "execution_to_broker_status CANCEL_PENDING = OS_CANCEL_REQUESTED"
| "execution_to_broker_status CANCELLED = OS_CANCELLED"
| "execution_to_broker_status CANCELLED_LOCALLY = OS_CANCELLED"
| "execution_to_broker_status REJECTED = OS_REJECTED"
| "execution_to_broker_status NOT_ACCEPTED_CONFIRMED = OS_REJECTED"
| "execution_to_broker_status EXPIRED = OS_EXPIRED"
| "execution_to_broker_status UNKNOWN_SUBMISSION_STATE = OS_UNKNOWN_SUBMISSION_STATE"

text \<open>The timestamps the constructor defaults to are the text of the current moment.\<close>

definition broker_order_from_execution_record :: "string \<Rightarrow> execution_order \<Rightarrow> broker_order" where
  "broker_order_from_execution_record now_text r =
     broker_order_post_init
       \<lparr>bo_client_order_id = eo_client_order_id r, bo_environment = eo_environment r,
        bo_account_no = eo_account_no r, bo_symbol = eo_symbol r, bo_side = eo_side r,
        bo_intent = eo_intent r, bo_quantity_requested = eo_submitted_quantity r,
        bo_limit_price = eo_submitted_limit_price r, bo_exchange = eo_exchange r,
        bo_status = execution_to_broker_status (eo_status r),
        bo_execution_policy = eo_execution_policy r, bo_broker_order_id = eo_broker_order_id r,
        bo_submitted_at = now_text, bo_updated_at = now_text,
        bo_filled_quantity = eo_filled_quantity r, bo_applied_filled_quantity = 0,
        bo_remaining_quantity = eo_remaining_quantity r,
        bo_avg_fill_price = eo_average_fill_price r, bo_raw_submit_response = None,
        bo_raw_status_response = None, bo_error_message = [], bo_buylist_key = [],
        bo_buylist_symbol_key = [], bo_attempt_group_id = eo_attempt_group_id r,
        bo_attempt_number = eo_attempt_number r,
        bo_attempt_deadline_at = eo_attempt_deadline_at r, bo_retry_eligible = True,
        bo_replaces_client_order_id = [],
        bo_capital_reservation_id = eo_capital_reservation_id r, bo_cancel_requested_at = None,
        bo_terminal_reason = []\<rparr>"

record submission_result =
  es_client_order_id :: string
  es_status :: unified_status
  es_broker_order_id :: string
  es_submitted_quantity :: int
  es_filled_quantity :: int
  es_remaining_quantity :: int
  es_capital_reservation_id :: string
  es_ambiguous :: bool
  es_error_message :: string
  es_legacy_broker_order :: "broker_order option" \<comment> \<open>excluded from equality by the code\<close>

definition from_broker_order :: "broker_order \<Rightarrow> submission_result" where
  "from_broker_order b =
     \<lparr>es_client_order_id = bo_client_order_id b, es_status = broker_status_map (bo_status b),
      es_broker_order_id = bo_broker_order_id b, es_submitted_quantity = bo_quantity_requested b,
      es_filled_quantity = bo_filled_quantity b, es_remaining_quantity = bo_remaining_quantity b,
      es_capital_reservation_id = bo_capital_reservation_id b,
      es_ambiguous = (bo_status b \<in> {OS_UNKNOWN_SUBMISSION_STATE, OS_UNKNOWN}),
      es_error_message = bo_error_message b, es_legacy_broker_order = Some b\<rparr>"

definition from_execution_order :: "execution_order \<Rightarrow> submission_result" where
  "from_execution_order r =
     \<lparr>es_client_order_id = eo_client_order_id r, es_status = execution_status_map (eo_status r),
      es_broker_order_id = eo_broker_order_id r, es_submitted_quantity = eo_submitted_quantity r,
      es_filled_quantity = eo_filled_quantity r, es_remaining_quantity = eo_remaining_quantity r,
      es_capital_reservation_id = eo_capital_reservation_id r,
      es_ambiguous = (eo_status r \<in> {SUBMITTING, UNKNOWN_SUBMISSION_STATE}),
      es_error_message = [], es_legacy_broker_order = None\<rparr>"

text \<open>The generated equality leaves the compatibility payload out.\<close>

definition same_result :: "submission_result \<Rightarrow> submission_result \<Rightarrow> bool" where
  "same_result a b \<longleftrightarrow> a\<lparr>es_legacy_broker_order := None\<rparr> = b\<lparr>es_legacy_broker_order := None\<rparr>"

lemma status_maps_agree: "broker_status_map (execution_to_broker_status s) = execution_status_map s"
  by (cases s) simp_all

lemma projected_status_ambiguous:
  "execution_to_broker_status s \<in> {OS_UNKNOWN_SUBMISSION_STATE, OS_UNKNOWN} \<longleftrightarrow> s = UNKNOWN_SUBMISSION_STATE"
  by (cases s) simp_all

lemma open_status_agrees: "is_open_status (execution_to_broker_status s) \<longleftrightarrow>
    s \<in> {PREPARED, SUBMITTING, ACKNOWLEDGED, WORKING, PARTIALLY_FILLED, CANCEL_PENDING, UNKNOWN_SUBMISSION_STATE}"
  by (cases s) (simp_all add: is_open_status_def OPEN_ORDER_STATUSES_def)

text \<open>The two routes to a submission result agree. Reading a guarded record directly, or projecting
  it into the legacy ledger shape first, gives equal results, for exactly the records that are
  neither being submitted (the legacy shape does not call those ambiguous) nor recorded with
  nothing filled and nothing remaining of a nonzero order (the legacy constructor takes that
  for a missing value and puts the whole quantity back).\<close>

theorem submission_results_agree:
  "same_result (from_broker_order (broker_order_from_execution_record now_text r)) (from_execution_order r)
     \<longleftrightarrow> eo_status r \<noteq> SUBMITTING
       \<and> \<not> (eo_remaining_quantity r = 0 \<and> eo_filled_quantity r = 0 \<and> eo_submitted_quantity r \<noteq> 0)"
  by (auto simp: same_result_def from_broker_order_def from_execution_order_def
      broker_order_from_execution_record_def broker_order_post_init_def Let_def status_maps_agree
      projected_status_ambiguous [simplified])

end
