(* ===== verification/Entry_Attempt.thy ===== *)
theory Entry_Attempt
  imports Capital Execution_Result
begin

text \<open>
  \<open>src/services/entry_attempt_manager.py\<close>: one attempt to enter a symbol: the cooldown and the rate
  limit, the capital reserved for the attempt, the submission with each way it can end, and the
  resolution of the order once the broker reports on it.

  The manager is the bookkeeping per symbol and the capital state (this device's ledger and the
  shared table). The clock, the generated ids, the reported buying power (\<open>None\<close> when the provider
  raises) and the moment of a release are an \<open>attempt_env\<close>; the submission itself is a parameter that
  may change the capital state, because other devices share the table. The symbols another thread is
  attempting are a set; the log text of a result is left out.
\<close>

type_synonym capital_state = "ledger \<times> reservation_table option"
type_synonym attempt_key = "string \<times> string \<times> string"

record entry_config =
  ec_retry_cooldown :: int \<comment> \<open>\<open>ENTRY_RETRY_COOLDOWN_SECONDS\<close>\<close>
  ec_max_attempts :: nat \<comment> \<open>\<open>MAX_ENTRY_ATTEMPTS_PER_SYMBOL_PER_MINUTE\<close>, at least one\<close>
  ec_gateway_owns_reservation :: bool

definition seconds :: "int \<Rightarrow> int" where
  "seconds n = n * 1000000"

record entry_trigger =
  tr_environment :: string
  tr_account_no :: string
  tr_symbol :: string
  tr_trigger_at :: timestamp
  tr_kanban_priority :: int
  tr_quantity :: int
  tr_limit_price :: pyfloat
  tr_notional :: pyfloat
  tr_exchange :: string
  tr_attempt_group_id :: string
  tr_attempt_number :: int
  tr_client_order_id :: string

datatype attempt_outcome =
    SUBMITTED | WAITING_FOR_CAPITAL | SYMBOL_LOCKED | DUPLICATE_ORDER | COOLDOWN | RATE_LIMITED
  | ATTEMPT_REJECTED | BROKER_REJECTED | BROKER_ROUTING_REJECTED | UNRESOLVED

record attempt_result =
  ar_trigger :: entry_trigger
  ar_outcome :: attempt_outcome
  ar_submission :: "submission_result option"
  ar_reservation_id :: string
  ar_attempt_group_id :: string
  ar_attempt_count :: int
  ar_retry_at :: "timestamp option"

datatype deadline_action =
    STILL_WORKING | MOVE_TO_OPEN_POSITION | AWAIT_CANCEL_CONFIRMATION
  | CONFIRMED_CANCELLED_ZERO_FILL | CONFIRMED_CANCELLED_WITH_FILL
  | RELEASE_AND_RETRY_AFTER_COOLDOWN | BLOCK_SYMBOL_PENDING_RECONCILIATION
  | CANCEL_REMAINDER_AND_RETRY | CANCEL_AND_RETRY_AFTER_COOLDOWN

definition TERMINAL_ACTIONS :: "deadline_action set" where
  "TERMINAL_ACTIONS = {MOVE_TO_OPEN_POSITION, CONFIRMED_CANCELLED_ZERO_FILL,
     CONFIRMED_CANCELLED_WITH_FILL, RELEASE_AND_RETRY_AFTER_COOLDOWN}"

definition decide_attempt_deadline_action :: "broker_order \<Rightarrow> deadline_action" where
  "decide_attempt_deadline_action order =
     (if bo_status order = OS_FILLED then MOVE_TO_OPEN_POSITION
      else if bo_status order = OS_CANCELLED
        then if 0 < bo_filled_quantity order then CONFIRMED_CANCELLED_WITH_FILL
             else CONFIRMED_CANCELLED_ZERO_FILL
      else if bo_status order = OS_CANCEL_REQUESTED then AWAIT_CANCEL_CONFIRMATION
      else if bo_status order \<in> {OS_UNKNOWN_SUBMISSION_STATE, OS_UNKNOWN}
        then BLOCK_SYMBOL_PENDING_RECONCILIATION
      else if bo_status order = OS_REJECTED then RELEASE_AND_RETRY_AFTER_COOLDOWN
      else STILL_WORKING)"

record symbol_attempt_state =
  sa_attempt_group_id :: string
  sa_attempt_count :: int
  sa_cooldown_until :: "timestamp option"
  sa_attempt_timestamps :: "timestamp list"

definition fresh_attempt_state :: symbol_attempt_state where
  "fresh_attempt_state = \<lparr>sa_attempt_group_id = [], sa_attempt_count = 0,
     sa_cooldown_until = None, sa_attempt_timestamps = []\<rparr>"

record attempt_manager =
  am_states :: "attempt_key \<rightharpoonup> symbol_attempt_state"
  am_capital :: capital_state

definition symbol_attempt_key :: "string \<Rightarrow> string \<Rightarrow> string \<Rightarrow> attempt_key" where
  "symbol_attempt_key environment account_no ticker = (py_upper environment, account_no, py_upper ticker)"

definition trigger_key :: "entry_trigger \<Rightarrow> attempt_key" where
  "trigger_key t = symbol_attempt_key (tr_environment t) (tr_account_no t) (tr_symbol t)"

text \<open>\<open>self._state.setdefault(key, _SymbolAttemptState())\<close>\<close>

definition attempt_state :: "attempt_manager \<Rightarrow> attempt_key \<Rightarrow> symbol_attempt_state" where
  "attempt_state m k = (case am_states m k of None \<Rightarrow> fresh_attempt_state | Some st \<Rightarrow> st)"

definition put_attempt_state ::
    "attempt_key \<Rightarrow> symbol_attempt_state \<Rightarrow> attempt_manager \<Rightarrow> attempt_manager" where
  "put_attempt_state k st m = m\<lparr>am_states := (am_states m)(k \<mapsto> st)\<rparr>"

definition restore_symbol_state ::
    "attempt_key \<Rightarrow> timestamp option \<Rightarrow> string \<Rightarrow> int \<Rightarrow> attempt_manager \<Rightarrow> attempt_manager" where
  "restore_symbol_state k cooldown_until grp count m =
     (if cooldown_until = None \<and> grp = [] \<and> count = 0 then m
      else let st = attempt_state m k
        in put_attempt_state k
          (st\<lparr>sa_cooldown_until :=
                (case cooldown_until of None \<Rightarrow> sa_cooldown_until st | Some u \<Rightarrow> Some u),
              sa_attempt_group_id := (if grp = [] then sa_attempt_group_id st else grp),
              sa_attempt_count := (if count = 0 then sa_attempt_count st else count)\<rparr>) m)"

definition reset_symbol :: "attempt_key \<Rightarrow> attempt_manager \<Rightarrow> attempt_manager" where
  "reset_symbol k m = m\<lparr>am_states := (am_states m)(k := None)\<rparr>"

subsection \<open>Before the submission\<close>

record attempt_env =
  ae_now :: timestamp
  ae_fresh_group :: string
  ae_fresh_reservation :: string
  ae_reserved_at :: timestamp
  ae_released_at :: timestamp
  ae_buying_power :: "pyfloat option"

definition recent_timestamps :: "timestamp \<Rightarrow> timestamp list \<Rightarrow> timestamp list" where
  "recent_timestamps now ts = filter (\<lambda>t. now - seconds 60 \<le> t) ts"

definition cooling_down :: "timestamp \<Rightarrow> symbol_attempt_state \<Rightarrow> bool" where
  "cooling_down now st \<longleftrightarrow> (case sa_cooldown_until st of None \<Rightarrow> False | Some u \<Rightarrow> now < u)"

definition attempt_answer ::
    "entry_trigger \<Rightarrow> attempt_outcome \<Rightarrow> string \<Rightarrow> int \<Rightarrow> string \<Rightarrow> timestamp option \<Rightarrow> attempt_result" where
  "attempt_answer t outcome grp count rid retry_at =
     \<lparr>ar_trigger = t, ar_outcome = outcome, ar_submission = None, ar_reservation_id = rid,
      ar_attempt_group_id = grp, ar_attempt_count = count, ar_retry_at = retry_at\<rparr>"

definition choose_group :: "string \<Rightarrow> entry_trigger \<Rightarrow> symbol_attempt_state \<Rightarrow> symbol_attempt_state" where
  "choose_group fresh t st =
     (let g = (if tr_attempt_group_id t \<noteq> [] then tr_attempt_group_id t else sa_attempt_group_id st)
      in st\<lparr>sa_attempt_group_id := (if g = [] then fresh else g)\<rparr>)"

definition next_attempt_number :: "entry_trigger \<Rightarrow> symbol_attempt_state \<Rightarrow> int" where
  "next_attempt_number t st =
     (if tr_attempt_number t \<noteq> 0 then tr_attempt_number t else sa_attempt_count st + 1)"

definition start_cooldown :: "entry_config \<Rightarrow> timestamp \<Rightarrow> symbol_attempt_state \<Rightarrow> symbol_attempt_state" where
  "start_cooldown cfg now st = st\<lparr>sa_cooldown_until := Some (now + seconds (ec_retry_cooldown cfg))\<rparr>"

definition retire_number :: "int \<Rightarrow> symbol_attempt_state \<Rightarrow> symbol_attempt_state" where
  "retire_number number st = st\<lparr>sa_attempt_count := max (sa_attempt_count st) number\<rparr>"

definition stamp_attempt :: "timestamp \<Rightarrow> symbol_attempt_state \<Rightarrow> symbol_attempt_state" where
  "stamp_attempt now st = st\<lparr>sa_attempt_timestamps := sa_attempt_timestamps st @ [now]\<rparr>"

datatype reserve_outcome = ReservationRaised | CapitalUnavailable | CapitalReserved "reservation option"

definition reserve_for_attempt ::
    "entry_config \<Rightarrow> attempt_env \<Rightarrow> entry_trigger \<Rightarrow> string \<Rightarrow> capital_state
       \<Rightarrow> reserve_outcome \<times> capital_state" where
  "reserve_for_attempt cfg env t grp c =
     (if ec_gateway_owns_reservation cfg then (CapitalReserved None, c)
      else case ae_buying_power env of
        None \<Rightarrow> (ReservationRaised, c)
      | Some bp \<Rightarrow>
          (case reserve_capital_for_entry (ae_fresh_reservation env) (ae_reserved_at env)
              (tr_environment t) (tr_account_no t) (tr_symbol t) grp (tr_notional t) bp c of
             (Inl e, c') \<Rightarrow> (ReservationRaised, c')
           | (Inr None, c') \<Rightarrow> (CapitalUnavailable, c')
           | (Inr (Some r), c') \<Rightarrow> (CapitalReserved (Some r), c')))"

subsection \<open>The submission\<close>

text \<open>What the submission is called with, besides the constant side, intent and missing deadline.\<close>

record submit_request =
  sr_trigger :: entry_trigger
  sr_attempt_group_id :: string
  sr_attempt_number :: int
  sr_capital_reservation_id :: string

text \<open>How it ends: a result, or the first exception handler that matches. A definitive broker
  rejection carries the broker's code and the message.\<close>

datatype submit_outcome =
    Submission submission_result
  | InsufficientCapital
  | AmbiguousSubmission
  | DuplicateOpenOrder
  | PreBrokerAborted
  | DefinitelyRejected string string
  | SubmissionFailed

type_synonym submit_order = "submit_request \<Rightarrow> capital_state \<Rightarrow> submit_outcome \<times> capital_state"

fun contains_text :: "string \<Rightarrow> string \<Rightarrow> bool" where
  "contains_text pat [] = (pat = [])"
| "contains_text pat (c # s) = (take (length pat) (c # s) = pat \<or> contains_text pat s)"

definition routing_rejection :: "string \<Rightarrow> string \<Rightarrow> bool" where
  "routing_rejection code detail =
     (let broker_code = py_upper (py_strip code)
      in broker_code = ''APBK0656''
         \<or> broker_code = [] \<and> contains_text ''APBK0656'' (py_upper detail))"

definition held_id :: "reservation option \<Rightarrow> string" where
  "held_id r = (case r of None \<Rightarrow> [] | Some c \<Rightarrow> cr_reservation_id c)"

definition release_held ::
    "timestamp \<Rightarrow> reservation option \<Rightarrow> capital_state \<Rightarrow> capital_error option \<times> capital_state" where
  "release_held now r c =
     (case r of None \<Rightarrow> (None, c)
      | Some held \<Rightarrow>
          (case release_reservation (cr_reservation_id held) now c of
             (Inl e, c') \<Rightarrow> (Some e, c') | (Inr v, c') \<Rightarrow> (None, c')))"

text \<open>
  The bookkeeping after the submission. A release that raises leaves the handler with the exception:
  what the handler would have done after it does not happen.
\<close>

definition finish_attempt ::
    "entry_config \<Rightarrow> attempt_env \<Rightarrow> entry_trigger \<Rightarrow> reservation option \<Rightarrow> int \<Rightarrow> submit_outcome
       \<Rightarrow> symbol_attempt_state \<Rightarrow> capital_state
       \<Rightarrow> (capital_error + attempt_result) \<times> symbol_attempt_state \<times> capital_state" where
  "finish_attempt cfg env t held number ending st c =
     (let now = ae_now env; grp = sa_attempt_group_id st;
          answer = (\<lambda>outcome st'. attempt_answer t outcome grp (sa_attempt_count st') (held_id held)
            (if outcome \<in> {ATTEMPT_REJECTED, BROKER_ROUTING_REJECTED} then sa_cooldown_until st' else None));
          unheld = (\<lambda>outcome st'. (answer outcome st')\<lparr>ar_reservation_id := []\<rparr>);
          released = (\<lambda>st_raise st_done result.
            case release_held (ae_released_at env) held c of
              (Some e, c') \<Rightarrow> (Inl e, st_raise, c') | (None, c') \<Rightarrow> (Inr result, st_done, c'))
      in case ending of
           InsufficientCapital \<Rightarrow> (Inr (unheld WAITING_FOR_CAPITAL st), st, c)
         | AmbiguousSubmission \<Rightarrow>
             (let st' = stamp_attempt now (retire_number number st) in (Inr (unheld UNRESOLVED st'), st', c))
         | DuplicateOpenOrder \<Rightarrow> released st st (answer DUPLICATE_ORDER st)
         | PreBrokerAborted \<Rightarrow>
             (let st' = start_cooldown cfg now (retire_number number st)
              in released st st' (answer ATTEMPT_REJECTED st'))
         | DefinitelyRejected code detail \<Rightarrow>
             (let st1 = stamp_attempt now (retire_number number st);
                  st2 = start_cooldown cfg now st1
              in if routing_rejection code detail then released st st2 (answer BROKER_ROUTING_REJECTED st2)
                 else released st st1 (answer BROKER_REJECTED st1))
         | SubmissionFailed \<Rightarrow>
             (let st' = start_cooldown cfg now st in released st st' (answer ATTEMPT_REJECTED st'))
         | Submission s \<Rightarrow>
             (let st1 = stamp_attempt now (st\<lparr>sa_attempt_count := number\<rparr>);
                  st2 = start_cooldown cfg now st1;
                  rid = text_or (es_capital_reservation_id s) (held_id held)
              in if es_status s = U_REJECTED
                 then released st1 st2
                   ((answer ATTEMPT_REJECTED st2)\<lparr>ar_submission := Some s, ar_reservation_id := rid\<rparr>)
                 else (Inr ((answer SUBMITTED st1)\<lparr>ar_submission := Some s, ar_reservation_id := rid\<rparr>), st1, c)))"

definition attempt_entry_locked ::
    "entry_config \<Rightarrow> submit_order \<Rightarrow> attempt_env \<Rightarrow> entry_trigger \<Rightarrow> symbol_attempt_state \<Rightarrow> capital_state
       \<Rightarrow> (capital_error + attempt_result) \<times> symbol_attempt_state \<times> capital_state" where
  "attempt_entry_locked cfg submit env t st0 c =
     (let now = ae_now env;
          st1 = st0\<lparr>sa_attempt_timestamps := recent_timestamps now (sa_attempt_timestamps st0)\<rparr>;
          st = choose_group (ae_fresh_group env) t st1;
          number = next_attempt_number t st
      in if cooling_down now st0
         then (Inr (attempt_answer t COOLDOWN (sa_attempt_group_id st0) (sa_attempt_count st0) []
                 (sa_cooldown_until st0)), st0, c)
         else if ec_max_attempts cfg \<le> length (sa_attempt_timestamps st1)
         then (Inr (attempt_answer t RATE_LIMITED (sa_attempt_group_id st1) (sa_attempt_count st1) []
                 (Some (Min (set (sa_attempt_timestamps st1)) + seconds 60))), st1, c)
         else case reserve_for_attempt cfg env t (sa_attempt_group_id st) c of
           (ReservationRaised, c1) \<Rightarrow>
             (let st' = start_cooldown cfg now st
              in (Inr (attempt_answer t ATTEMPT_REJECTED (sa_attempt_group_id st) (sa_attempt_count st) []
                   (sa_cooldown_until st')), st', c1))
         | (CapitalUnavailable, c1) \<Rightarrow>
             (Inr (attempt_answer t WAITING_FOR_CAPITAL (sa_attempt_group_id st) (sa_attempt_count st) []
               None), st, c1)
         | (CapitalReserved held, c1) \<Rightarrow>
             (case submit \<lparr>sr_trigger = t, sr_attempt_group_id = sa_attempt_group_id st,
                 sr_attempt_number = number, sr_capital_reservation_id = held_id held\<rparr> c1 of
                (ending, c2) \<Rightarrow> finish_attempt cfg env t held number ending st c2))"

definition attempt_entry ::
    "entry_config \<Rightarrow> attempt_key set \<Rightarrow> submit_order \<Rightarrow> attempt_env \<Rightarrow> entry_trigger \<Rightarrow> attempt_manager
       \<Rightarrow> (capital_error + attempt_result) \<times> attempt_manager" where
  "attempt_entry cfg busy submit env t m =
     (if trigger_key t \<in> busy then (Inr (attempt_answer t SYMBOL_LOCKED [] 0 [] None), m)
      else case attempt_entry_locked cfg submit env t (attempt_state m (trigger_key t)) (am_capital m) of
        (r, st, c) \<Rightarrow> (r, (put_attempt_state (trigger_key t) st m)\<lparr>am_capital := c\<rparr>))"

text \<open>
  A batch of triggers, by trigger time, then descending priority, then symbol; Python's sort is
  stable. An exception ends the batch; \<open>envs\<close> gives each attempt its environment.
\<close>

fun text_less :: "string \<Rightarrow> string \<Rightarrow> bool" where
  "text_less s [] = False"
| "text_less [] (d # t) = True"
| "text_less (c # s) (d # t) =
     ((of_char c :: nat) < of_char d \<or> (of_char c :: nat) = of_char d \<and> text_less s t)"

definition trigger_before :: "entry_trigger \<Rightarrow> entry_trigger \<Rightarrow> bool" where
  "trigger_before a b \<longleftrightarrow> tr_trigger_at a < tr_trigger_at b
     \<or> tr_trigger_at a = tr_trigger_at b \<and> (tr_kanban_priority b < tr_kanban_priority a
       \<or> tr_kanban_priority a = tr_kanban_priority b
         \<and> text_less (tr_symbol a) (tr_symbol b))"

fun insert_trigger :: "entry_trigger \<Rightarrow> entry_trigger list \<Rightarrow> entry_trigger list" where
  "insert_trigger t [] = [t]"
| "insert_trigger t (u # us) = (if trigger_before u t then u # insert_trigger t us else t # u # us)"

definition order_triggers :: "entry_trigger list \<Rightarrow> entry_trigger list" where
  "order_triggers ts = foldr insert_trigger ts []"

fun run_triggers ::
    "entry_config \<Rightarrow> attempt_key set \<Rightarrow> submit_order \<Rightarrow> (nat \<Rightarrow> attempt_env) \<Rightarrow> nat \<Rightarrow> entry_trigger list
       \<Rightarrow> attempt_manager \<Rightarrow> (capital_error + attempt_result list) \<times> attempt_manager" where
  "run_triggers cfg busy submit envs i [] m = (Inr [], m)"
| "run_triggers cfg busy submit envs i (t # ts) m =
     (case attempt_entry cfg busy submit (envs i) t m of
        (Inl e, m') \<Rightarrow> (Inl e, m')
      | (Inr r, m') \<Rightarrow>
          (case run_triggers cfg busy submit envs (Suc i) ts m' of
             (Inl e, m'') \<Rightarrow> (Inl e, m'') | (Inr rs, m'') \<Rightarrow> (Inr (r # rs), m'')))"

definition process_triggers ::
    "entry_config \<Rightarrow> attempt_key set \<Rightarrow> submit_order \<Rightarrow> (nat \<Rightarrow> attempt_env) \<Rightarrow> entry_trigger list
       \<Rightarrow> attempt_manager \<Rightarrow> (capital_error + attempt_result list) \<times> attempt_manager" where
  "process_triggers cfg busy submit envs ts m = run_triggers cfg busy submit envs 0 (order_triggers ts) m"

subsection \<open>Resolving the order\<close>

text \<open>\<open>float(filled) * float(average price)\<close>, where an integer that no double reaches raises; quantities
  are within the integers a double represents exactly.\<close>

definition settle_reservation_for_order ::
    "timestamp \<Rightarrow> broker_order \<Rightarrow> capital_state \<Rightarrow> capital_error option \<times> capital_state" where
  "settle_reservation_for_order now order c =
     (if bo_capital_reservation_id order = [] then (None, c)
      else
        let rid = bo_capital_reservation_id order;
            filled_notional = fmul (to_float (of_int (bo_filled_quantity order))) (bo_avg_fill_price order);
            consumed = (if fpos filled_notional then consume_reservation rid filled_notional c
                        else (Inr None, c))
        in case consumed of
             (Inl e, c1) \<Rightarrow> (Some e, c1)
           | (Inr v, c1) \<Rightarrow>
               (case release_reservation rid now c1 of
                  (Inl e, c2) \<Rightarrow> (Some e, c2) | (Inr v, c2) \<Rightarrow> (None, c2)))"

text \<open>The result: the exception or the action, whether the cancellation callback is called (one that
  raises leaves the same manager), and the manager.\<close>

definition resolve_entry_order ::
    "entry_config \<Rightarrow> timestamp \<Rightarrow> timestamp \<Rightarrow> broker_order \<Rightarrow> bool \<Rightarrow> bool \<Rightarrow> attempt_manager
       \<Rightarrow> (capital_error + deadline_action) \<times> bool \<times> attempt_manager" where
  "resolve_entry_order cfg now released_at order at_deadline cancel_requested m =
     (let action = decide_attempt_deadline_action order;
          key = symbol_attempt_key (bo_environment order) (bo_account_no order) (bo_symbol order);
          st = attempt_state m key;
          m0 = put_attempt_state key st m
      in if action = STILL_WORKING
         then if at_deadline \<or> cancel_requested then (Inr AWAIT_CANCEL_CONFIRMATION, True, m0)
              else (Inr action, False, m0)
         else if action \<in> {AWAIT_CANCEL_CONFIRMATION, BLOCK_SYMBOL_PENDING_RECONCILIATION}
         then (Inr action, False, m0)
         else case settle_reservation_for_order released_at order (am_capital m) of
           (Some e, c) \<Rightarrow> (Inl e, False, m0\<lparr>am_capital := c\<rparr>)
         | (None, c) \<Rightarrow>
             (Inr action, False,
              (put_attempt_state key
                (if action \<in> {CONFIRMED_CANCELLED_ZERO_FILL, RELEASE_AND_RETRY_AFTER_COOLDOWN}
                 then start_cooldown cfg now st else st) m)\<lparr>am_capital := c\<rparr>))"

definition handle_attempt_deadline ::
    "entry_config \<Rightarrow> timestamp \<Rightarrow> timestamp \<Rightarrow> broker_order \<Rightarrow> attempt_manager
       \<Rightarrow> (capital_error + deadline_action) \<times> bool \<times> attempt_manager" where
  "handle_attempt_deadline cfg now released_at order = resolve_entry_order cfg now released_at order True False"

end
