(* ===== verification/Entry_Safety.thy ===== *)
theory Entry_Safety
  imports Entry_Attempt "HOL-Library.Multiset"
begin

text \<open>
  What the entry attempts guarantee: how often a symbol may reach the broker, when capital stays
  reserved for an order and when it is given back, and in which order a batch runs.
\<close>

subsection \<open>The rate limit\<close>

text \<open>An attempt whose result says that the broker was, or may have been, reached.\<close>

fun reached_broker :: "capital_error + attempt_result \<Rightarrow> bool" where
  "reached_broker (Inl e) = False"
| "reached_broker (Inr r) =
     (ar_outcome r \<in> {SUBMITTED, UNRESOLVED, BROKER_REJECTED, BROKER_ROUTING_REJECTED}
        \<or> ar_submission r \<noteq> None)"

lemma stamps_simps [simp]:
  "sa_attempt_timestamps (retire_number n st) = sa_attempt_timestamps st"
  "sa_attempt_timestamps (start_cooldown cfg now st) = sa_attempt_timestamps st"
  "sa_attempt_timestamps (stamp_attempt now st) = sa_attempt_timestamps st @ [now]"
  "sa_attempt_timestamps (choose_group f t st) = sa_attempt_timestamps st"
  by (simp_all add: retire_number_def start_cooldown_def stamp_attempt_def choose_group_def Let_def)

lemma answer_simps [simp]:
  "ar_outcome (attempt_answer t oc g n i u) = oc" "ar_submission (attempt_answer t oc g n i u) = None"
  "ar_trigger (attempt_answer t oc g n i u) = t" "ar_reservation_id (attempt_answer t oc g n i u) = i"
  by (simp_all add: attempt_answer_def)

lemma finish_stamps:
  assumes "finish_attempt cfg env t held n ending st c = (r, st', c')"
  shows "sa_attempt_timestamps st' = sa_attempt_timestamps st @ [ae_now env]
    \<or> (sa_attempt_timestamps st' = sa_attempt_timestamps st \<and> \<not> reached_broker r)"
  using assms
  by (cases ending) (auto simp: finish_attempt_def Let_def split: prod.splits option.splits if_splits)

lemma attempt_stamps:
  assumes "attempt_entry_locked cfg submit env t st c = (r, st', c')"
  defines "ts \<equiv> recent_timestamps (ae_now env) (sa_attempt_timestamps st)"
  shows "(sa_attempt_timestamps st' = ts @ [ae_now env] \<and> length ts < ec_max_attempts cfg)
    \<or> (sa_attempt_timestamps st' \<in> {sa_attempt_timestamps st, ts} \<and> \<not> reached_broker r)"
proof (cases "cooling_down (ae_now env) st \<or> ec_max_attempts cfg \<le> length ts")
  case True
  then show ?thesis using assms by (auto simp: attempt_entry_locked_def Let_def split: if_splits)
next
  case False
  let ?st = "choose_group (ae_fresh_group env) t (st\<lparr>sa_attempt_timestamps := ts\<rparr>)"
  obtain o1 c1 where rs: "reserve_for_attempt cfg env t (sa_attempt_group_id ?st) c = (o1, c1)" by (meson surj_pair)
  show ?thesis
  proof (cases o1)
    case (CapitalReserved held)
    obtain ending c2 where "submit \<lparr>sr_trigger = t, sr_attempt_group_id = sa_attempt_group_id ?st,
        sr_attempt_number = next_attempt_number t ?st, sr_capital_reservation_id = held_id held\<rparr> c1 = (ending, c2)"
      by (meson surj_pair)
    with False rs CapitalReserved assms
    have "finish_attempt cfg env t held (next_attempt_number t ?st) ending ?st c2 = (r, st', c')"
      by (simp add: attempt_entry_locked_def Let_def)
    from finish_stamps [OF this] False show ?thesis by auto
  qed (use False rs assms in \<open>auto simp: attempt_entry_locked_def Let_def\<close>)
qed

text \<open>A run of one process: attempts and resolutions at nondecreasing moments, and the seeding of
  bookkeeping from the cards. The last component is the moments at which each symbol reached the
  broker.\<close>

type_synonym entry_run = "timestamp \<times> attempt_manager \<times> (attempt_key \<Rightarrow> timestamp list)"

inductive entry_step :: "entry_config \<Rightarrow> entry_run \<Rightarrow> entry_run \<Rightarrow> bool" for cfg where
  attempt: "\<lbrakk>T \<le> ae_now env; attempt_entry cfg busy submit env t m = (r, m')\<rbrakk> \<Longrightarrow>
     entry_step cfg (T, m, h) (ae_now env, m',
       if reached_broker r then h(trigger_key t := h (trigger_key t) @ [ae_now env]) else h)"
| resolve: "\<lbrakk>T \<le> now; resolve_entry_order cfg now released_at order at_deadline cancel m = (r, sent, m')\<rbrakk> \<Longrightarrow>
     entry_step cfg (T, m, h) (now, m', h)"
| restore: "entry_step cfg (T, m, h) (T, restore_symbol_state k u g n m, h)"

definition stamps :: "attempt_manager \<Rightarrow> attempt_key \<Rightarrow> timestamp list" where
  "stamps m k = sa_attempt_timestamps (attempt_state m k)"

definition since :: "timestamp \<Rightarrow> timestamp list \<Rightarrow> nat" where
  "since x ts = length (filter (\<lambda>t. x \<le> t) ts)"

definition within_minute :: "timestamp \<Rightarrow> timestamp list \<Rightarrow> nat" where
  "within_minute a ts = length (filter (\<lambda>t. a \<le> t \<and> t \<le> a + seconds 60) ts)"

fun rate_ok :: "entry_config \<Rightarrow> entry_run \<Rightarrow> bool" where
  "rate_ok cfg (T, m, h) \<longleftrightarrow>
     (\<forall>k x. T - seconds 60 \<le> x \<longrightarrow> since x (h k) \<le> since x (stamps m k))
     \<and> (\<forall>k a. within_minute a (h k) \<le> ec_max_attempts cfg)"

lemma since_recent: "now - seconds 60 \<le> x \<Longrightarrow> since x (recent_timestamps now ts) = since x ts"
  by (auto simp: since_def recent_timestamps_def intro!: arg_cong [of _ _ length] filter_cong)

lemma since_snoc [simp]: "since x (ts @ [u]) = since x ts + (if x \<le> u then 1 else 0)"
  by (simp add: since_def)

lemma within_snoc: "within_minute a (ts @ [u]) = within_minute a ts + (if a \<le> u \<and> u \<le> a + seconds 60 then 1 else 0)"
  by (simp add: within_minute_def)

lemma within_le_since: "u \<le> a + seconds 60 \<Longrightarrow> within_minute a ts \<le> since (u - seconds 60) ts"
  by (induction ts) (auto simp: within_minute_def since_def)

lemma state_put [simp]: "attempt_state (put_attempt_state k st m) j = (if j = k then st else attempt_state m j)"
  "am_states (m\<lparr>am_capital := c\<rparr>) = am_states m" "am_capital (put_attempt_state k st m) = am_capital m"
  "attempt_state (m\<lparr>am_capital := c\<rparr>) j = attempt_state m j"
  by (simp_all add: attempt_state_def put_attempt_state_def)

lemma attempt_keeps_rate:
  assumes "rate_ok cfg (T, m, h)" "T \<le> ae_now env" "attempt_entry cfg busy submit env t m = (r, m')"
  shows "rate_ok cfg (ae_now env, m',
    if reached_broker r then h(trigger_key t := h (trigger_key t) @ [ae_now env]) else h)"
proof (cases "trigger_key t \<in> busy")
  case True
  then show ?thesis using assms by (auto simp: attempt_entry_def)
next
  case False
  let ?k = "trigger_key t" and ?now = "ae_now env"
  let ?ts = "recent_timestamps ?now (stamps m ?k)"
  obtain st c where l: "attempt_entry_locked cfg submit env t (attempt_state m ?k) (am_capital m) = (r, st, c)"
    using assms(3) False that
    by (cases "attempt_entry_locked cfg submit env t (attempt_state m ?k) (am_capital m)")
      (simp add: attempt_entry_def)
  with assms(3) False have m': "stamps m' j = (if j = ?k then sa_attempt_timestamps st else stamps m j)" for j
    unfolding attempt_entry_def stamps_def by (auto split: prod.splits)
  have inv: "since x (h k) \<le> since x (stamps m k)" if "?now - seconds 60 \<le> x" for x k
    using assms(1) [unfolded rate_ok.simps, THEN conjunct1, rule_format, of x k] assms(2) that by simp
  have w: "within_minute a (h k) \<le> ec_max_attempts cfg" for a k
    using assms(1) [unfolded rate_ok.simps, THEN conjunct2] by blast
  from attempt_stamps [OF l] consider
      (stamp) "sa_attempt_timestamps st = ?ts @ [?now]" "length ?ts < ec_max_attempts cfg"
    | (none) "sa_attempt_timestamps st \<in> {stamps m ?k, ?ts}" "\<not> reached_broker r"
    by (auto simp: stamps_def)
  then show ?thesis
  proof cases
    case stamp
    have le: "since (?now - seconds 60) (h ?k) \<le> length ?ts"
      using inv [of "?now - seconds 60" ?k] by (simp add: since_def recent_timestamps_def)
    have "within_minute a (h ?k @ [?now]) \<le> ec_max_attempts cfg" for a
      using within_le_since [of ?now a "h ?k"] le stamp(2) w [of a ?k] unfolding within_snoc by (cases "?now \<le> a + seconds 60") auto
    moreover have "since x (h k) \<le> since x (stamps m' k)
        \<and> since x (h ?k @ [?now]) \<le> since x (stamps m' ?k)" if "?now - seconds 60 \<le> x" for x k
      using inv [OF that, of k] inv [OF that, of ?k] that by (simp add: m' stamp(1) since_recent le_SucI)
    ultimately show ?thesis using w by auto
  next
    case none
    have "since x (h k) \<le> since x (stamps m' k)" if "?now - seconds 60 \<le> x" for x k
      using inv [OF that, of k] none(1) that by (auto simp: m' since_recent)
    with none(2) w show ?thesis by simp
  qed
qed

lemma resolve_keeps_stamps:
  "resolve_entry_order cfg now rel order d cn m = (r, sent, m') \<Longrightarrow> stamps m' k = stamps m k"
  by (auto simp: resolve_entry_order_def stamps_def Let_def split: prod.splits option.splits if_splits)

lemma restore_keeps_stamps: "stamps (restore_symbol_state j u g n m) k = stamps m k"
  by (simp add: restore_symbol_state_def stamps_def Let_def)

lemma step_keeps_rate: "entry_step cfg s s' \<Longrightarrow> rate_ok cfg s \<Longrightarrow> rate_ok cfg s'"
proof (induction rule: entry_step.induct)
  case (attempt T env busy submit t m r m' h)
  then show ?case by (blast intro: attempt_keeps_rate)
next
  case (resolve T now released_at order at_deadline cancel m r sent m' h)
  then show ?case by (simp add: resolve_keeps_stamps)
qed (simp add: restore_keeps_stamps)


subsection \<open>Capital of an attempt\<close>

definition open_row :: "reservation option \<Rightarrow> bool" where
  "open_row v \<longleftrightarrow> (case v of None \<Rightarrow> False | Some r \<Rightarrow> reservation_is_open r)"

text \<open>The reservation counts against the buying power, on this device or in the shared table.\<close>

definition capital_held :: "string \<Rightarrow> capital_state \<Rightarrow> bool" where
  "capital_held rid c \<longleftrightarrow> open_row (find_local rid (load_ledger (fst c)))
     \<or> (case snd c of None \<Rightarrow> False | Some t \<Rightarrow> open_row (fetch_reservation t rid))"

definition keyed_table :: "capital_state \<Rightarrow> bool" where
  "keyed_table c \<longleftrightarrow> (case snd c of None \<Rightarrow> True
     | Some t \<Rightarrow> \<forall>k r. rt_rows t k = Some r \<longrightarrow> cr_reservation_id r = k)"

lemma post_init_open [simp]:
  "reservation_is_open (reservation_post_init r) = reservation_is_open r"
  "cr_reservation_id (reservation_post_init r) = cr_reservation_id r"
  by (simp_all add: reservation_is_open_def reservation_post_init_def)

lemma open_row_simps [simp]: "\<not> open_row None" "open_row (Some r) = reservation_is_open r"
  "open_row (map_option reservation_post_init v) = open_row v"
  by (simp_all add: open_row_def split: option.splits)

lemma released_closed [simp]:
  "\<not> reservation_is_open (release_reservation_notional now r)"
  "\<not> reservation_is_open ((release_reservation_notional now r)\<lparr>cr_version := n\<rparr>)"
  "cr_reservation_id (release_reservation_notional now r) = cr_reservation_id r"
  "\<not> reservation_is_open (written_row (release_reservation_notional now r) n s)"
  by (simp_all add: closing_ok(5))
    (simp_all add: reservation_is_open_def release_reservation_notional_def OPEN_RESERVATION_STATUSES_def)

text \<open>A release that does not raise leaves nothing held.\<close>

lemma find_upserted: "cr_reservation_id r = rid \<Longrightarrow>
    find_local rid (load_ledger (upsert_local_reservation l r)) = Some (reservation_post_init r)"
  by (auto simp: load_find find_upsert)

lemma release_clears:
  assumes "release_reservation rid now c = (Inr v, c')" "keyed_table c"
  shows "\<not> capital_held rid c'"
proof -
  obtain l db where c: "c = (l, db)" by (cases c)
  let ?l = "load_ledger l"
  define found where "found = (case find_local rid ?l of Some r \<Rightarrow> Some r
    | None \<Rightarrow> (case db of None \<Rightarrow> None | Some t \<Rightarrow> fetch_reservation t rid))"
  show ?thesis
  proof (cases found)
    case None
    then have "c' = c" "find_local rid ?l = None" "\<And>t. db = Some t \<Longrightarrow> fetch_reservation t rid = None"
      using assms(1) unfolding release_reservation_def mutate_reservation_def Let_def c found_def
      by (auto split: option.splits)
    then show ?thesis by (auto simp: capital_held_def c split: option.splits)
  next
    case (Some r)
    let ?m = "release_reservation_notional now r"
    have id: "cr_reservation_id r = rid"
      using Some assms(2) unfolding found_def keyed_table_def c fetch_reservation_def
      by (auto split: option.splits dest: find_local_mem)
    have e: "release_reservation rid now c = (case db of
        None \<Rightarrow> (Inr (Some ?m), upsert_local_reservation ?l ?m, None)
      | Some t \<Rightarrow> (case save_reservation_strict ?m t of
          Inr (r', u) \<Rightarrow> (Inr (Some r'), upsert_local_reservation ?l r', Some u)
        | Inl err \<Rightarrow> (Inl (CapitalStore err), if err \<noteq> ReservationVersionConflict then l
            else case fetch_reservation t rid of None \<Rightarrow> l | Some a \<Rightarrow> upsert_local_reservation ?l a, db)))"
      unfolding release_reservation_def mutate_reservation_def Let_def c prod.case found_def [symmetric] Some
      by simp
    show ?thesis
    proof (cases db)
      case None
      with assms(1) e id show ?thesis by (auto simp: capital_held_def find_upserted)
    next
      case (Some t)
      from save_cases [OF refl, of t ?m] show ?thesis
        using assms(1) unfolding e Some
        by (auto simp: capital_held_def id find_upserted fetch_reservation_def)
    qed
  qed
qed

text \<open>The generated id is new to the ledger and to the table.\<close>

definition unknown_id :: "string \<Rightarrow> capital_state \<Rightarrow> bool" where
  "unknown_id rid c \<longleftrightarrow> find_local rid (load_ledger (fst c)) = None
     \<and> (case snd c of None \<Rightarrow> True | Some t \<Rightarrow> rt_rows t rid = None)"

lemma unknown_not_held: "unknown_id rid c \<Longrightarrow> \<not> capital_held rid c"
  by (auto simp: unknown_id_def capital_held_def fetch_reservation_def split: option.splits)

lemma created_open [simp]:
  "reservation_is_open (create_reservation i n e a s g q k)" "cr_reservation_id (create_reservation i n e a s g q k) = i"
  by (simp_all add: create_reservation_def reservation_post_init_def reservation_is_open_def OPEN_RESERVATION_STATUSES_def)

lemma find_local_append: "find_local rid l = None \<Longrightarrow> find_local rid (l @ [r]) = (if cr_reservation_id r = rid then Some r else None)"
  by (induction l) (auto simp: find_local_def)

lemma load_append [simp]: "load_ledger (l @ [r]) = load_ledger l @ [reservation_post_init r]"
  "find_local rid (load_ledger (load_ledger l)) = find_local rid (load_ledger l)"
  by (simp_all add: load_ledger_def comp_def)

lemma reserve_cases:
  assumes "reserve_capital_for_entry new_id now environment account_no ticker grp requested bp c = (res, c')"
    "unknown_id new_id c" "keyed_table c"
  shows "(\<exists>r. res = Inr (Some r) \<and> cr_reservation_id r = new_id \<and> capital_held new_id c' \<and> keyed_table c')
    \<or> (\<not> (\<exists>r. res = Inr (Some r)) \<and> c' = c)"
proof (cases c)
  case (Pair l db)
  show ?thesis
  proof (cases db)
    case None
    with assms Pair show ?thesis
      by (auto simp: reserve_capital_for_entry_def Let_def capital_held_def keyed_table_def unknown_id_def
          find_local_append split: if_splits)
  next
    case (Some t)
    let ?r = "create_reservation new_id now environment account_no ticker grp requested (Fin 0)"
    have "rt_rows t new_id = None" using assms(2) by (simp add: unknown_id_def Pair Some)
    then have "save_reservation_strict ?r t = Inr (?r, t\<lparr>rt_ids := rt_ids t @ [new_id], rt_rows := (rt_rows t)(new_id \<mapsto> ?r)\<rparr>)"
      by (simp add: save_reservation_strict_def insert_reservation_def)
    with assms Pair Some show ?thesis
      by (auto simp: reserve_capital_for_entry_def Let_def capital_held_def keyed_table_def unknown_id_def
          find_local_append split: if_splits)
  qed
qed

lemma reserved_or_unchanged:
  assumes "reserve_for_attempt cfg env t grp c = (ending, c')" "\<not> ec_gateway_owns_reservation cfg"
    "unknown_id (ae_fresh_reservation env) c" "keyed_table c"
  shows "(\<exists>h. ending = CapitalReserved (Some h) \<and> cr_reservation_id h = ae_fresh_reservation env
        \<and> capital_held (ae_fresh_reservation env) c' \<and> keyed_table c')
    \<or> (ending \<in> {ReservationRaised, CapitalUnavailable} \<and> c' = c)"
proof (cases "ae_buying_power env")
  case None
  with assms(1,2) show ?thesis by (simp add: reserve_for_attempt_def)
next
  case (Some bp)
  obtain res d where d: "reserve_capital_for_entry (ae_fresh_reservation env) (ae_reserved_at env) (tr_environment t)
      (tr_account_no t) (tr_symbol t) grp (tr_notional t) bp c = (res, d)" by (meson surj_pair)
  from reserve_cases [OF d assms(3,4)] assms(1,2) Some d show ?thesis
    by (cases res) (auto simp: reserve_for_attempt_def split: option.splits)
qed

lemma finish_capital:
  assumes "finish_attempt cfg env t (Some h) n ending st c = (Inr r, st', c')" "ending \<noteq> InsufficientCapital"
    "capital_held (cr_reservation_id h) c" "keyed_table c"
  shows "capital_held (cr_reservation_id h) c' \<longleftrightarrow> ar_outcome r \<in> {SUBMITTED, UNRESOLVED}"
proof -
  have "\<not> capital_held (cr_reservation_id h) d"
    if "release_held (ae_released_at env) (Some h) c = (None, d)" for d
    using that release_clears [OF _ assms(4)] by (auto simp: release_held_def split: prod.splits sum.splits)
  with assms show ?thesis
    by (cases ending) (auto simp: finish_attempt_def Let_def split: prod.splits option.splits if_splits)
qed


subsection \<open>Resolution\<close>

lemma save_keyed:
  assumes "save_reservation_strict r t = Inr (r', t')" "keyed_table (l, Some t)"
  shows "keyed_table (l', Some t')"
  using save_cases [OF assms(1)] assms(2) by (auto simp: keyed_table_def split: if_splits)

lemma mutate_keyed:
  assumes "mutate_reservation rid f c = (res, c')" "keyed_table c"
  shows "keyed_table c'"
proof -
  obtain l db where c: "c = (l, db)" by (cases c)
  have triv: "keyed_table (k, db)" for k using assms(2) by (simp add: keyed_table_def c)
  show ?thesis
  proof (cases db)
    case None
    with assms(1) show ?thesis
      by (auto simp: mutate_reservation_def c Let_def keyed_table_def split: option.splits)
  next
    case (Some t)
    have saved: "keyed_table (k, Some t')" if "save_reservation_strict r t = Inr (r', t')" for k r r' t'
      using save_keyed [OF that] assms(2) by (simp add: c Some)
    have "keyed_table (k, Some t)" for k using triv by (simp add: Some)
    with assms(1) saved show ?thesis
      unfolding mutate_reservation_def c Some prod.case Let_def option.case
      by (auto split: option.splits sum.splits prod.splits)
  qed
qed

lemma settle_clears:
  assumes "settle_reservation_for_order now order c = (None, c')" "keyed_table c"
  shows "if bo_capital_reservation_id order = [] then c' = c
    else \<not> capital_held (bo_capital_reservation_id order) c'"
proof (cases "bo_capital_reservation_id order = []")
  case False
  define n where "n = fmul (to_float (of_int (bo_filled_quantity order))) (bo_avg_fill_price order)"
  let ?rid = "bo_capital_reservation_id order"
  obtain v c1 v' where c1: "(if fpos n then consume_reservation ?rid n c else (Inr None, c)) = (Inr v, c1)"
    and r: "release_reservation ?rid now c1 = (Inr v', c')"
    using assms(1) False unfolding settle_reservation_for_order_def Let_def n_def [symmetric]
    by (cases "if fpos n then consume_reservation ?rid n c else (Inr None, c)")
      (auto split: sum.splits prod.splits)
  have "keyed_table c1"
    using c1 assms(2) mutate_keyed unfolding consume_reservation_def by (auto split: if_splits)
  from release_clears [OF r this] False show ?thesis by simp
qed (use assms in \<open>simp add: settle_reservation_for_order_def\<close>)

text \<open>Capital is settled exactly when the broker has confirmed the end of the order. A resolution that
  does not raise and ends in a terminal action leaves nothing of the order's reservation held and
  sends no cancellation; every other one, in particular a cancellation just requested, leaves the
  ledger, the table and all bookkeeping as they are.\<close>

theorem capital_settled_on_confirmation:
  assumes "resolve_entry_order cfg now released_at order at_deadline cancel m = (Inr action, sent, m')"
    "keyed_table (am_capital m)"
  shows "if action \<in> TERMINAL_ACTIONS
    then \<not> sent \<and> (if bo_capital_reservation_id order = [] then am_capital m' = am_capital m
                     else \<not> capital_held (bo_capital_reservation_id order) (am_capital m'))
    else am_capital m' = am_capital m \<and> attempt_state m' = attempt_state m"
  using assms settle_clears [of released_at order "am_capital m"]
  by (auto simp: resolve_entry_order_def Let_def TERMINAL_ACTIONS_def decide_attempt_deadline_action_def
      split: prod.splits option.splits if_splits)

text \<open>A broker expiry is never settled. An order the broker reports EXPIRED counts as still working:
  its capital stays reserved whatever the deadline, and at the deadline a cancellation is sent for
  an order that no longer exists.\<close>

theorem expired_order_never_settled:
  assumes "bo_status order = OS_EXPIRED"
  shows "\<exists>m'. resolve_entry_order cfg now released_at order at_deadline cancel m =
      (Inr (if at_deadline \<or> cancel then AWAIT_CANCEL_CONFIRMATION else STILL_WORKING), at_deadline \<or> cancel, m')
    \<and> am_capital m' = am_capital m"
  using assms by (auto simp: resolve_entry_order_def decide_attempt_deadline_action_def Let_def)

subsection \<open>A release that fails\<close>

lemma failed_finish:
  assumes "finish_attempt cfg env t held n ending st c = (Inl e, st', c')"
    "ending \<in> insert PreBrokerAborted (range (\<lambda>(code, detail). DefinitelyRejected code detail))"
  shows "st' = st"
  using assms by (auto simp: finish_attempt_def Let_def split: prod.splits option.splits if_splits)

lemma only_finish_raises:
  assumes "attempt_entry_locked cfg submit env t st c = (Inl e, st', c')"
  shows "\<exists>held n q c1. finish_attempt cfg env t held n (fst (submit q c1))
    (choose_group (ae_fresh_group env) t
      (st\<lparr>sa_attempt_timestamps := recent_timestamps (ae_now env) (sa_attempt_timestamps st)\<rparr>))
    (snd (submit q c1)) = (Inl e, st', c')"
proof -
  let ?st = "choose_group (ae_fresh_group env) t
      (st\<lparr>sa_attempt_timestamps := recent_timestamps (ae_now env) (sa_attempt_timestamps st)\<rparr>)"
  obtain o1 c1 where rs: "reserve_for_attempt cfg env t (sa_attempt_group_id ?st) c = (o1, c1)"
    by (meson surj_pair)
  obtain held where o: "o1 = CapitalReserved held"
    using assms rs by (cases o1) (auto simp: attempt_entry_locked_def Let_def split: if_splits)
  let ?q = "\<lparr>sr_trigger = t, sr_attempt_group_id = sa_attempt_group_id ?st,
    sr_attempt_number = next_attempt_number t ?st, sr_capital_reservation_id = held_id held\<rparr>"
  have "finish_attempt cfg env t held (next_attempt_number t ?st) (fst (submit ?q c1)) ?st (snd (submit ?q c1))
      = (Inl e, st', c')"
    using assms rs o by (auto simp: attempt_entry_locked_def Let_def split: if_splits prod.splits)
  then show ?thesis by blast
qed

text \<open>A rejected attempt whose release fails is forgotten. When the gateway retired the order's
  identity (a definitive rejection, or an abort before the broker call) and the release of the
  reservation then raises, for instance because another device wrote the row, the exception
  leaves before the attempt number is advanced and before any cooldown: the next attempt is
  submitted under the very number, and so the client order id, that was just retired.\<close>

theorem failed_release_reuses_number:
  assumes "attempt_entry cfg busy submit env t m = (Inl e, m')"
    "\<And>q c. fst (submit q c) \<in> insert PreBrokerAborted (range (\<lambda>(code, detail). DefinitelyRejected code detail))"
  shows "next_attempt_number u (attempt_state m' (trigger_key t)) = next_attempt_number u (attempt_state m (trigger_key t))
    \<and> sa_cooldown_until (attempt_state m' (trigger_key t)) = sa_cooldown_until (attempt_state m (trigger_key t))"
proof -
  let ?k = "trigger_key t"
  obtain st c where l: "attempt_entry_locked cfg submit env t (attempt_state m ?k) (am_capital m) = (Inl e, st, c)"
    and st: "attempt_state m' ?k = st"
    using assms(1) by (cases "attempt_entry_locked cfg submit env t (attempt_state m ?k) (am_capital m)")
      (auto simp: attempt_entry_def split: if_splits)
  from only_finish_raises [OF l] failed_finish [OF _ assms(2)]
  have "st = choose_group (ae_fresh_group env) t ((attempt_state m ?k)\<lparr>sa_attempt_timestamps :=
      recent_timestamps (ae_now env) (sa_attempt_timestamps (attempt_state m ?k))\<rparr>)" by blast
  with st show ?thesis by (simp add: next_attempt_number_def choose_group_def Let_def)
qed

subsection \<open>The order of a batch\<close>

lemma text_less_irrefl [simp]: "\<not> text_less s s"
  by (induction s) auto

lemma text_less_trans: "text_less a b \<Longrightarrow> text_less b c \<Longrightarrow> text_less a c"
proof (induction a b arbitrary: c rule: text_less.induct)
  case (2 d t)
  then show ?case by (cases c) auto
next
  case (3 x s d t)
  then show ?case by (cases c) auto
qed simp

lemma text_less_linear: "text_less a b \<or> a = b \<or> text_less b a"
proof (induction a b rule: text_less.induct)
  case (1 s)
  then show ?case by (cases s) auto
next
  case (3 c s d t)
  then show ?case by (metis linorder_neqE_nat of_char_eq_iff text_less.simps(3))
qed auto

lemma trigger_before_trans_neg:
  "\<not> trigger_before b a \<Longrightarrow> \<not> trigger_before c b \<Longrightarrow> \<not> trigger_before c a"
  using text_less_trans text_less_linear unfolding trigger_before_def by (smt (verit))

lemma trigger_before_asym: "trigger_before a b \<Longrightarrow> \<not> trigger_before b a"
  using text_less_trans [of "tr_symbol a" "tr_symbol b" "tr_symbol a"] by (auto simp: trigger_before_def)

lemma set_insert_trigger [simp]: "set (insert_trigger t us) = insert t (set us)"
  by (induction us) auto

lemma insert_trigger_sorted:
  "sorted_wrt (\<lambda>a b. \<not> trigger_before b a) us \<Longrightarrow> sorted_wrt (\<lambda>a b. \<not> trigger_before b a) (insert_trigger t us)"
proof (induction us)
  case (Cons u us)
  have "\<not> trigger_before x t" if "\<not> trigger_before u t" "x \<in> set us" for x
    using Cons.prems that trigger_before_trans_neg [of u t x] by simp
  with Cons show ?case by (auto dest: trigger_before_asym)
qed simp

lemma mset_insert_trigger [simp]: "mset (insert_trigger t us) = add_mset t (mset us)"
  by (induction us) auto

lemma order_triggers_props:
  "sorted_wrt (\<lambda>a b. \<not> trigger_before b a) (order_triggers ts)" "mset (order_triggers ts) = mset ts"
  by (induction ts) (auto simp: order_triggers_def insert_trigger_sorted)

lemma attempt_answers_trigger:
  assumes "attempt_entry cfg busy submit env t m = (Inr r, m')"
  shows "ar_trigger r = t"
proof (cases "trigger_key t \<in> busy")
  case False
  then obtain st c where l: "attempt_entry_locked cfg submit env t (attempt_state m (trigger_key t)) (am_capital m) = (Inr r, st, c)"
    using assms by (cases "attempt_entry_locked cfg submit env t (attempt_state m (trigger_key t)) (am_capital m)")
      (auto simp: attempt_entry_def)
  have f: "ar_trigger r' = t" if "finish_attempt cfg env t held n ending st c = (Inr r', st', c')" for held n ending st c r' st' c'
    using that by (cases ending) (auto simp: finish_attempt_def Let_def split: prod.splits option.splits if_splits)
  from l show ?thesis
    by (auto simp: attempt_entry_locked_def Let_def split: if_splits prod.splits reserve_outcome.splits dest: f)
qed (use assms in \<open>auto simp: attempt_entry_def\<close>)

lemma run_answers:
  "run_triggers cfg busy submit envs i ts m = (Inr rs, m') \<Longrightarrow> map ar_trigger rs = ts"
  by (induction cfg busy submit envs i ts m arbitrary: rs m' rule: run_triggers.induct)
    (auto split: prod.splits sum.splits dest: attempt_answers_trigger)

text \<open>A batch treats every trigger once, in priority order. The answers of a batch that does not raise
  are for a permutation of the triggers in which none comes after one with a later trigger time,
  or with the same time and a lower priority, or with both equal and a later symbol.\<close>

theorem batch_in_priority_order:
  assumes "process_triggers cfg busy submit envs ts m = (Inr rs, m')"
  shows "mset (map ar_trigger rs) = mset ts
    \<and> sorted_wrt (\<lambda>a b. \<not> trigger_before b a) (map ar_trigger rs)"
  using run_answers [OF assms [unfolded process_triggers_def]] order_triggers_props by simp

subsection \<open>A sample attempt\<close>

definition sample_config :: entry_config where
  "sample_config = \<lparr>ec_retry_cooldown = 3, ec_max_attempts = 4, ec_gateway_owns_reservation = False\<rparr>"

definition sample_trigger :: entry_trigger where
  "sample_trigger = \<lparr>tr_environment = ''PROD'', tr_account_no = ''1'', tr_symbol = ''AAPL'', tr_trigger_at = 0,
     tr_kanban_priority = 0, tr_quantity = 20, tr_limit_price = Fin 100, tr_notional = Fin 2000,
     tr_exchange = ''NASD'', tr_attempt_group_id = [], tr_attempt_number = 0, tr_client_order_id = []\<rparr>"

definition sample_env :: attempt_env where
  "sample_env = \<lparr>ae_now = 0, ae_fresh_group = ''g'', ae_fresh_reservation = ''r1'', ae_reserved_at = 0,
     ae_released_at = 0, ae_buying_power = Some (Fin 50000)\<rparr>"

definition sample_manager :: attempt_manager where
  "sample_manager = \<lparr>am_states = Map.empty, am_capital = ([], Some empty_reservations)\<rparr>"

definition entry_reservation :: reservation where
  "entry_reservation = create_reservation ''r1'' 0 ''PROD'' ''1'' ''AAPL'' ''g'' (Fin 2000) (Fin 0)"

lemma sample_reserve:
  "reserve_for_attempt sample_config sample_env sample_trigger ''g'' ([], Some empty_reservations)
    = (CapitalReserved (Some entry_reservation),
       [entry_reservation], Some \<lparr>rt_ids = [''r1''], rt_rows = [''r1'' \<mapsto> entry_reservation]\<rparr>)"
proof -
  have "active_reservations [] (Some empty_reservations) ''PROD'' ''1'' = []"
    by (simp add: active_reservations_def merge_by_id_def py_dict_def find_active_reservations_def load_ledger_def
        list_active_reservations_def active_rows_def table_reservations_def empty_reservations_def
        List.map_filter_simps)
  then show ?thesis
    by (simp add: reserve_for_attempt_def sample_config_def sample_env_def sample_trigger_def Let_def
        reserve_capital_for_entry_def available_for_new_entries_def fsub_Fin save_reservation_strict_def
        insert_reservation_def load_ledger_def entry_reservation_def [symmetric])
      (simp add: empty_reservations_def entry_reservation_def)
qed

lemma sample_locked:
  "attempt_entry sample_config {} submit sample_env sample_trigger sample_manager =
     (case submit \<lparr>sr_trigger = sample_trigger, sr_attempt_group_id = ''g'', sr_attempt_number = 1,
         sr_capital_reservation_id = ''r1''\<rparr>
         ([entry_reservation], Some \<lparr>rt_ids = [''r1''], rt_rows = [''r1'' \<mapsto> entry_reservation]\<rparr>) of
       (ending, c2) \<Rightarrow>
         (case finish_attempt sample_config sample_env sample_trigger (Some entry_reservation) 1 ending
             (fresh_attempt_state\<lparr>sa_attempt_group_id := ''g''\<rparr>) c2 of
            (r, st, c) \<Rightarrow> (r, (put_attempt_state (trigger_key sample_trigger) st sample_manager)\<lparr>am_capital := c\<rparr>)))"
proof -
  have a: "attempt_state sample_manager k = fresh_attempt_state" "am_capital sample_manager = ([], Some empty_reservations)" for k
    by (simp_all add: attempt_state_def sample_manager_def)
  have st: "choose_group (ae_fresh_group sample_env) sample_trigger
      (fresh_attempt_state\<lparr>sa_attempt_timestamps := []\<rparr>) = fresh_attempt_state\<lparr>sa_attempt_group_id := ''g''\<rparr>"
    by (simp add: choose_group_def fresh_attempt_state_def sample_env_def sample_trigger_def recent_timestamps_def)
  have n: "next_attempt_number sample_trigger (fresh_attempt_state\<lparr>sa_attempt_group_id := ''g''\<rparr>) = 1"
    "held_id (Some entry_reservation) = ''r1''" "\<not> cooling_down (ae_now sample_env) fresh_attempt_state"
    "recent_timestamps (ae_now sample_env) (sa_attempt_timestamps fresh_attempt_state) = []"
    "ec_max_attempts sample_config = 4"
    by (simp_all add: next_attempt_number_def sample_trigger_def fresh_attempt_state_def held_id_def
        entry_reservation_def cooling_down_def recent_timestamps_def sample_config_def)
  show ?thesis
    by (simp add: attempt_entry_def attempt_entry_locked_def Let_def a n st sample_reserve cong: if_cong)
      (cases "submit \<lparr>sr_trigger = sample_trigger, sr_attempt_group_id = ''g'', sr_attempt_number = 1,
          sr_capital_reservation_id = ''r1''\<rparr>
         ([entry_reservation], Some \<lparr>rt_ids = [''r1''], rt_rows = [''r1'' \<mapsto> entry_reservation]\<rparr>)", simp)
qed

text \<open>An ambiguous submission, and an abort while another device writes the row.\<close>

definition ambiguous_submit :: submit_order where
  "ambiguous_submit q c = (AmbiguousSubmission, c)"

definition aborted_submit :: submit_order where
  "aborted_submit q c = (PreBrokerAborted, fst c,
     Some \<lparr>rt_ids = [''r1''], rt_rows = [''r1'' \<mapsto> entry_reservation\<lparr>cr_version := 2\<rparr>]\<rparr>)"

lemma ambiguous_attempt:
  "\<exists>r m'. attempt_entry sample_config {} ambiguous_submit sample_env sample_trigger sample_manager = (Inr r, m')
     \<and> ar_outcome r = UNRESOLVED"
  by (simp add: sample_locked ambiguous_submit_def finish_attempt_def Let_def)


lemma sample_capital: "keyed_table (am_capital sample_manager)"
  "unknown_id (ae_fresh_reservation sample_env) (am_capital sample_manager)"
  by (simp_all add: keyed_table_def unknown_id_def sample_manager_def empty_reservations_def find_local_def load_ledger_def)


theorem failed_release_reuses_number_witness:
  "\<exists>e m'. attempt_entry sample_config {} aborted_submit sample_env sample_trigger sample_manager = (Inl e, m')
     \<and> next_attempt_number sample_trigger (attempt_state m' (trigger_key sample_trigger)) = 1"
proof -
  have v: "cr_version entry_reservation = 1" "cr_reservation_id entry_reservation = ''r1''"
    by (simp_all add: entry_reservation_def create_reservation_def reservation_post_init_def)
  have "\<exists>e m'. attempt_entry sample_config {} aborted_submit sample_env sample_trigger sample_manager = (Inl e, m')"
    by (simp add: sample_locked aborted_submit_def finish_attempt_def Let_def release_held_def release_reservation_def
        mutate_reservation_def load_ledger_def find_local_def v save_reservation_strict_def update_reservation_def
        release_reservation_notional_def reservation_post_init_def fetch_reservation_def)
  then obtain e m' where a: "attempt_entry sample_config {} aborted_submit sample_env sample_trigger sample_manager = (Inl e, m')"
    by blast
  have "next_attempt_number sample_trigger (attempt_state sample_manager k) = 1" for k
    by (simp add: next_attempt_number_def sample_trigger_def attempt_state_def sample_manager_def fresh_attempt_state_def)
  with failed_release_reuses_number [OF a, of sample_trigger] a show ?thesis by (simp add: aborted_submit_def) 
qed

definition sample_broker_order :: broker_order where
  "sample_broker_order = (broker_order_from_execution_record [] sample_order)
     \<lparr>bo_status := OS_CANCELLED, bo_capital_reservation_id := ''r1''\<rparr>"

theorem capital_settled_on_confirmation_witness:
  "\<exists>m'. resolve_entry_order sample_config 0 0 sample_broker_order False False
        \<lparr>am_states = Map.empty, am_capital = ([sample_reservation], Some sample_table)\<rparr>
      = (Inr CONFIRMED_CANCELLED_ZERO_FILL, False, m') \<and> \<not> capital_held ''r1'' (am_capital m')"
proof -
  let ?m = "\<lparr>am_states = Map.empty, am_capital = ([sample_reservation], Some sample_table)\<rparr>"
  have o: "bo_status sample_broker_order = OS_CANCELLED" "bo_filled_quantity sample_broker_order = 0"
    "bo_capital_reservation_id sample_broker_order = ''r1''" "bo_avg_fill_price sample_broker_order = Fin 0"
    by (simp_all add: sample_broker_order_def broker_order_from_execution_record_def broker_order_post_init_def
        sample_order_def Let_def)
  have v: "cr_version sample_reservation = 1"
    by (simp add: sample_reservation_def create_reservation_def reservation_post_init_def)
  have z: "\<not> fpos (fmul (to_float (of_int (bo_filled_quantity sample_broker_order))) (bo_avg_fill_price sample_broker_order))"
    by (simp add: o to_float_def fpos_def max_exclusive_def)
  have "\<exists>v c. release_reservation ''r1'' 0 ([sample_reservation], Some sample_table) = (Inr v, c)"
    by (simp add: release_reservation_def mutate_reservation_def load_ledger_def find_local_def sample_reservation_row Let_def
        save_reservation_strict_def update_reservation_def sample_table_def release_reservation_notional_def v)
  then have "\<exists>c. settle_reservation_for_order 0 sample_broker_order (am_capital ?m) = (None, c)"
    using z by (auto simp: settle_reservation_for_order_def o(3) Let_def)
  then have "\<exists>m'. resolve_entry_order sample_config 0 0 sample_broker_order False False ?m
      = (Inr CONFIRMED_CANCELLED_ZERO_FILL, False, m')"
    by (auto simp: resolve_entry_order_def decide_attempt_deadline_action_def o(1,2) Let_def)
  then obtain m' where r: "resolve_entry_order sample_config 0 0 sample_broker_order False False ?m
      = (Inr CONFIRMED_CANCELLED_ZERO_FILL, False, m')" by blast
  have "keyed_table (am_capital ?m)" by (simp add: keyed_table_def sample_table_def sample_reservation_row)
  from capital_settled_on_confirmation [OF r this] r show ?thesis by (auto simp: TERMINAL_ACTIONS_def o)
qed

theorem expired_order_never_settled_witness:
  "\<exists>m'. resolve_entry_order sample_config 0 0 (sample_broker_order\<lparr>bo_status := OS_EXPIRED\<rparr>) True False sample_manager
      = (Inr AWAIT_CANCEL_CONFIRMATION, True, m') \<and> am_capital m' = am_capital sample_manager"
  using expired_order_never_settled [of "sample_broker_order\<lparr>bo_status := OS_EXPIRED\<rparr>"
      sample_config 0 0 True False sample_manager] by simp

theorem batch_in_priority_order_witness:
  "\<exists>rs m'. process_triggers sample_config {} ambiguous_submit (\<lambda>_. sample_env) [sample_trigger] sample_manager = (Inr rs, m')
     \<and> mset (map ar_trigger rs) = {#sample_trigger#}"
proof -
  obtain r m' where "attempt_entry sample_config {} ambiguous_submit sample_env sample_trigger sample_manager = (Inr r, m')"
    using ambiguous_attempt by blast
  then have p: "process_triggers sample_config {} ambiguous_submit (\<lambda>_. sample_env) [sample_trigger] sample_manager = (Inr [r], m')"
    by (simp add: process_triggers_def order_triggers_def)
  from batch_in_priority_order [OF p] p show ?thesis by auto
qed

end
