(* ===== verification/Request_Scheduler.thy ===== *)
theory Request_Scheduler
  imports Py_Float
begin

text \<open>
  \<open>src/services/kis_request_scheduler.py\<close>: one scheduler per process paces every request to the
  broker. A bucket per request kind, account and endpoint holds a budget that is refilled when its
  window has passed; what is left of a mutation budget is \<open>UNCERTAIN\<close> until the broker or verified
  evidence says otherwise. A request waits for its turn (most urgent class first, then arrival),
  pays from its bucket, waits for the spacing since the previous start, and runs. A mutation is
  repeated only after a refusal the classifier confirms.

  Times are doubles of the monotonic clock, read where the code reads it. The condition variable
  makes each function one step; between the attempts of one request, when its turn is released,
  others change the state (\<open>other\<close>). The operation, the classifier and the \<open>retry_if\<close> of a read are
  arguments.
\<close>

datatype request_kind = RK_READ | RK_MUTATION

datatype request_priority =
    EMERGENCY_EXIT | EXIT_CANCEL_OR_RECONCILIATION | LEASE_OR_HANDOFF | ACCOUNT_RECONCILIATION
  | ENTRY_CANCEL | NEW_ENTRY | DISPLAY_REFRESH

fun priority_rank :: "request_priority \<Rightarrow> nat" where
  "priority_rank EMERGENCY_EXIT = 1"
| "priority_rank EXIT_CANCEL_OR_RECONCILIATION = 2"
| "priority_rank LEASE_OR_HANDOFF = 3"
| "priority_rank ACCOUNT_RECONCILIATION = 4"
| "priority_rank ENTRY_CANCEL = 5"
| "priority_rank NEW_ENTRY = 6"
| "priority_rank DISPLAY_REFRESH = 7"

datatype budget_knowledge = BUDGET_KNOWN | BUDGET_UNCERTAIN

record budget_policy =
  bp_capacity :: int
  bp_window :: pyfloat

datatype policy_error = CapacityNotPositive | WindowNotPositive

definition budget_policy_post_init :: "budget_policy \<Rightarrow> policy_error option" where
  "budget_policy_post_init p = first_error
     [(bp_capacity p \<le> 0, CapacityNotPositive), (fle (bp_window p) (Fin 0), WindowNotPositive)]"

record budget_bucket =
  bb_capacity :: int
  bb_remaining :: int
  bb_reset_at :: pyfloat
  bb_window :: pyfloat
  bb_knowledge :: budget_knowledge

type_synonym bucket_key = "request_kind \<times> string \<times> string"

record scheduler_config =
  sc_read_policy :: budget_policy
  sc_mutation_policy :: budget_policy
  sc_reserve :: int
  sc_max_read_attempts :: int
  sc_max_mutation_attempts :: int
  sc_request_spacing :: pyfloat
  sc_mutation_spacing :: pyfloat
  sc_backoff :: pyfloat

record scheduler_metrics =
  sm_completed_reads :: nat
  sm_completed_mutations :: nat
  sm_read_retries :: nat
  sm_confirmed_retries :: nat
  sm_ambiguous_not_retried :: nat
  sm_budget_rejections :: nat
  sm_uncertain_entry_rejections :: nat

record scheduler_state =
  ss_buckets :: "bucket_key \<rightharpoonup> budget_bucket"
  ss_last_request :: "pyfloat option"
  ss_last_mutation :: "pyfloat option"
  ss_not_before :: pyfloat
  ss_metrics :: scheduler_metrics

definition make_scheduler ::
    "budget_policy \<Rightarrow> budget_policy \<Rightarrow> int \<Rightarrow> int \<Rightarrow> int \<Rightarrow> pyfloat \<Rightarrow> pyfloat \<Rightarrow> pyfloat
       \<Rightarrow> scheduler_config \<times> scheduler_state" where
  "make_scheduler read_policy mutation_policy reserve reads mutations spacing mutation_spacing backoff =
     (\<lparr>sc_read_policy = read_policy, sc_mutation_policy = mutation_policy, sc_reserve = max 0 reserve,
       sc_max_read_attempts = max 1 reads, sc_max_mutation_attempts = max 1 mutations,
       sc_request_spacing = fmax (Fin 0) spacing, sc_mutation_spacing = fmax (Fin 0) mutation_spacing,
       sc_backoff = fmax (Fin 0) backoff\<rparr>,
      \<lparr>ss_buckets = Map.empty, ss_last_request = None, ss_last_mutation = None, ss_not_before = Fin 0,
       ss_metrics = \<lparr>sm_completed_reads = 0, sm_completed_mutations = 0, sm_read_retries = 0,
         sm_confirmed_retries = 0, sm_ambiguous_not_retried = 0, sm_budget_rejections = 0,
         sm_uncertain_entry_rejections = 0\<rparr>\<rparr>)"

subsection \<open>Budgets\<close>

definition bucket_key_of :: "request_kind \<Rightarrow> string \<Rightarrow> string \<Rightarrow> bucket_key" where
  "bucket_key_of kind account_no endpoint =
     (kind, py_strip account_no,
      (let e = map py_lower_char (py_strip endpoint) in if e = [] then ''unknown'' else e))"

fun policy_for :: "scheduler_config \<Rightarrow> request_kind \<Rightarrow> budget_policy" where
  "policy_for cfg RK_READ = sc_read_policy cfg"
| "policy_for cfg RK_MUTATION = sc_mutation_policy cfg"

fun new_bucket :: "scheduler_config \<Rightarrow> request_kind \<Rightarrow> pyfloat \<Rightarrow> budget_bucket" where
  "new_bucket cfg RK_READ now =
     (let p = sc_read_policy cfg
      in \<lparr>bb_capacity = bp_capacity p, bb_remaining = bp_capacity p, bb_reset_at = fadd now (bp_window p),
          bb_window = bp_window p, bb_knowledge = BUDGET_KNOWN\<rparr>)"
| "new_bucket cfg RK_MUTATION now =
     (let p = sc_mutation_policy cfg
      in \<lparr>bb_capacity = bp_capacity p, bb_remaining = min (bp_capacity p) (sc_reserve cfg),
          bb_reset_at = fadd now (bp_window p), bb_window = bp_window p, bb_knowledge = BUDGET_UNCERTAIN\<rparr>)"

definition refill :: "scheduler_config \<Rightarrow> pyfloat \<Rightarrow> budget_bucket \<Rightarrow> budget_bucket" where
  "refill cfg now b =
     b\<lparr>bb_remaining := (if bb_knowledge b = BUDGET_KNOWN then bb_capacity b
          else min (bb_capacity b) (sc_reserve cfg)),
       bb_reset_at := fadd now (bb_window b)\<rparr>"

text \<open>The bucket as \<open>_bucket\<close> returns it, and the state with it stored.\<close>

definition current_bucket ::
    "scheduler_config \<Rightarrow> pyfloat \<Rightarrow> bucket_key \<Rightarrow> scheduler_state \<Rightarrow> budget_bucket" where
  "current_bucket cfg now k s =
     (case ss_buckets s k of
        None \<Rightarrow> new_bucket cfg (fst k) now
      | Some b \<Rightarrow> if fle (bb_reset_at b) now then refill cfg now b else b)"

definition put_bucket :: "bucket_key \<Rightarrow> budget_bucket \<Rightarrow> scheduler_state \<Rightarrow> scheduler_state" where
  "put_bucket k b s = s\<lparr>ss_buckets := (ss_buckets s)(k \<mapsto> b)\<rparr>"

definition synchronize_budget ::
    "scheduler_config \<Rightarrow> pyfloat \<Rightarrow> request_kind \<Rightarrow> string \<Rightarrow> string \<Rightarrow> int \<Rightarrow> pyfloat option
       \<Rightarrow> scheduler_state \<Rightarrow> scheduler_state" where
  "synchronize_budget cfg now kind account_no endpoint remaining reset_after s =
     (let p = policy_for cfg kind;
          after = (case reset_after of None \<Rightarrow> bp_window p | Some v \<Rightarrow> fmax (to_float (1 / 1000)) v)
      in put_bucket (bucket_key_of kind account_no endpoint)
           \<lparr>bb_capacity = bp_capacity p, bb_remaining = max 0 (min (bp_capacity p) remaining),
            bb_reset_at = fadd now after, bb_window = after, bb_knowledge = BUDGET_KNOWN\<rparr> s)"

definition configure_verified_mutation_budget ::
    "pyfloat \<Rightarrow> string \<Rightarrow> string \<Rightarrow> int \<Rightarrow> pyfloat \<Rightarrow> scheduler_state \<Rightarrow> policy_error + scheduler_state" where
  "configure_verified_mutation_budget now account_no endpoint capacity window s =
     (let k = bucket_key_of RK_MUTATION account_no endpoint
      in guarded (first_error [(capacity \<le> 0, CapacityNotPositive), (fle window (Fin 0), WindowNotPositive)])
         (Inr (if ss_buckets s k \<noteq> None then s
               else put_bucket k \<lparr>bb_capacity = capacity, bb_remaining = capacity, bb_reset_at = fadd now window,
                      bb_window = window, bb_knowledge = BUDGET_KNOWN\<rparr> s)))"

definition mark_budget_uncertain ::
    "scheduler_config \<Rightarrow> pyfloat \<Rightarrow> request_kind \<Rightarrow> string \<Rightarrow> string \<Rightarrow> scheduler_state \<Rightarrow> scheduler_state" where
  "mark_budget_uncertain cfg now kind account_no endpoint s =
     (let k = bucket_key_of kind account_no endpoint; b = current_bucket cfg now k s
      in put_bucket k (b\<lparr>bb_knowledge := BUDGET_UNCERTAIN,
           bb_remaining := (if kind = RK_MUTATION then min (bb_remaining b) (sc_reserve cfg) else bb_remaining b)\<rparr>) s)"

datatype budget_error = RequestBudgetUncertain | MutationBudgetExceeded

definition count_rejection :: "bool \<Rightarrow> scheduler_state \<Rightarrow> scheduler_state" where
  "count_rejection uncertain s =
     s\<lparr>ss_metrics := (ss_metrics s)\<lparr>sm_budget_rejections := sm_budget_rejections (ss_metrics s) + 1,
         sm_uncertain_entry_rejections := sm_uncertain_entry_rejections (ss_metrics s) + (if uncertain then 1 else 0)\<rparr>\<rparr>"

definition require_available ::
    "scheduler_config \<Rightarrow> pyfloat \<Rightarrow> string \<Rightarrow> string \<Rightarrow> bool \<Rightarrow> bool \<Rightarrow> scheduler_state
       \<Rightarrow> budget_error option \<times> scheduler_state" where
  "require_available cfg now account_no endpoint is_new_entry consume s =
     (let k = bucket_key_of RK_MUTATION account_no endpoint;
          b = current_bucket cfg now k s; s1 = put_bucket k b s
      in if is_new_entry \<and> bb_knowledge b \<noteq> BUDGET_KNOWN then (Some RequestBudgetUncertain, count_rejection True s1)
         else if bb_remaining b \<le> 0 then (Some MutationBudgetExceeded, count_rejection False s1)
         else (None, if consume then put_bucket k (b\<lparr>bb_remaining := bb_remaining b - 1\<rparr>) s1 else s1))"

subsection \<open>Pacing\<close>

definition defer_requests :: "pyfloat \<Rightarrow> pyfloat \<Rightarrow> scheduler_state \<Rightarrow> scheduler_state" where
  "defer_requests now seconds s =
     (let delay = fmax (Fin 0) seconds
      in if fle delay (Fin 0) then s
         else s\<lparr>ss_not_before := fmax (ss_not_before s) (fadd now delay)\<rparr>)"

definition required_start :: "scheduler_config \<Rightarrow> request_kind \<Rightarrow> scheduler_state \<Rightarrow> pyfloat" where
  "required_start cfg kind s =
     (let a = ss_not_before s;
          b = (case ss_last_request s of None \<Rightarrow> a | Some t \<Rightarrow> fmax a (fadd t (sc_request_spacing cfg)))
      in case (kind, ss_last_mutation s) of
           (RK_MUTATION, Some t) \<Rightarrow> fmax b (fadd t (sc_mutation_spacing cfg))
         | _ \<Rightarrow> b)"

text \<open>The pause and the state; \<open>observed\<close> is the clock after the pause.\<close>

definition wait_for_request_spacing ::
    "scheduler_config \<Rightarrow> pyfloat \<Rightarrow> pyfloat \<Rightarrow> request_kind \<Rightarrow> scheduler_state \<Rightarrow> pyfloat \<times> scheduler_state" where
  "wait_for_request_spacing cfg now observed kind s =
     (let required = required_start cfg kind s;
          start = fmax observed required
      in (fmax (Fin 0) (fsub required now),
          s\<lparr>ss_last_request := Some start,
            ss_last_mutation := (if kind = RK_MUTATION then Some start else ss_last_mutation s)\<rparr>))"

subsection \<open>Turns\<close>

record turn_state =
  ts_queue :: "(nat \<times> nat) list"
  ts_sequence :: nat
  ts_active :: "(nat \<times> nat) option"

definition enqueue_turn :: "request_priority \<Rightarrow> turn_state \<Rightarrow> (nat \<times> nat) \<times> turn_state" where
  "enqueue_turn priority t =
     (let w = (priority_rank priority, ts_sequence t + 1)
      in (w, t\<lparr>ts_sequence := ts_sequence t + 1, ts_queue := ts_queue t @ [w]\<rparr>))"

definition turn_before :: "nat \<times> nat \<Rightarrow> nat \<times> nat \<Rightarrow> bool" where
  "turn_before v w \<longleftrightarrow> fst v < fst w \<or> fst v = fst w \<and> snd v < snd w"

text \<open>A waiter leaves the condition variable when no request is active and it heads the heap.\<close>

definition may_proceed :: "nat \<times> nat \<Rightarrow> turn_state \<Rightarrow> bool" where
  "may_proceed w t \<longleftrightarrow> ts_active t = None \<and> w \<in> set (ts_queue t) \<and> (\<forall>v \<in> set (ts_queue t). v = w \<or> turn_before w v)"

definition take_turn :: "nat \<times> nat \<Rightarrow> turn_state \<Rightarrow> turn_state option" where
  "take_turn w t =
     (if may_proceed w t then Some (t\<lparr>ts_queue := removeAll w (ts_queue t), ts_active := Some w\<rparr>) else None)"

definition release_turn :: "turn_state \<Rightarrow> turn_state" where
  "release_turn t = t\<lparr>ts_active := None\<rparr>"

subsection \<open>Running a request\<close>

datatype request_exception =
    BudgetRefused budget_error
  | OperationRaised pyfloat string \<comment> \<open>its \<open>retry_after_seconds\<close>, and what else it is\<close>

text \<open>What one attempt meets: three readings of the clock before the operation, one after it for a
  pause the exception asks for, and how the operation ends (\<open>None\<close>: it returns).\<close>

record attempt_env =
  ae_now :: pyfloat
  ae_spacing_now :: pyfloat
  ae_observed :: pyfloat
  ae_after :: pyfloat
  ae_outcome :: "request_exception option"

text \<open>What the scheduler does: the call of the operation at a start time, or a pause before the next
  attempt.\<close>

datatype scheduler_action = Dispatch nat pyfloat | Pause pyfloat

fun retry_after :: "request_exception \<Rightarrow> pyfloat" where
  "retry_after (BudgetRefused e) = Fin 0"
| "retry_after (OperationRaised v x) = fmax (Fin 0) v"

definition defer_for_exception :: "pyfloat \<Rightarrow> request_exception \<Rightarrow> scheduler_state \<Rightarrow> scheduler_state" where
  "defer_for_exception now x s = (if flt (Fin 0) (retry_after x) then defer_requests now (retry_after x) s else s)"

definition retry_delay :: "scheduler_config \<Rightarrow> nat \<Rightarrow> pyfloat" where
  "retry_delay cfg attempt = fmul (sc_backoff cfg) (float_of_int (2 ^ (attempt - 1)))"

text \<open>One attempt of a mutation up to its end: how it ended, the state, and the start if the
  operation ran.\<close>

definition mutation_attempt ::
    "scheduler_config \<Rightarrow> string \<Rightarrow> string \<Rightarrow> bool \<Rightarrow> nat \<Rightarrow> attempt_env \<Rightarrow> scheduler_state
       \<Rightarrow> request_exception option \<times> scheduler_state \<times> scheduler_action list" where
  "mutation_attempt cfg account_no endpoint is_new_entry attempt e s =
     (case require_available cfg (ae_now e) account_no endpoint is_new_entry True s of
        (Some err, s1) \<Rightarrow> (Some (BudgetRefused err), s1, [])
      | (None, s1) \<Rightarrow>
          (case wait_for_request_spacing cfg (ae_spacing_now e) (ae_observed e) RK_MUTATION s1 of
             (_, s2) \<Rightarrow> (ae_outcome e, s2, [Dispatch attempt (the (ss_last_mutation s2))])))"

function execute_mutation ::
    "scheduler_config \<Rightarrow> string \<Rightarrow> string \<Rightarrow> bool \<Rightarrow> (request_exception \<Rightarrow> bool) \<Rightarrow> (nat \<Rightarrow> attempt_env)
       \<Rightarrow> (nat \<Rightarrow> scheduler_state \<Rightarrow> scheduler_state) \<Rightarrow> nat \<Rightarrow> scheduler_state
       \<Rightarrow> request_exception option \<times> scheduler_state \<times> scheduler_action list" where
  "execute_mutation cfg account_no endpoint is_new_entry classify env other attempt s =
     (case mutation_attempt cfg account_no endpoint is_new_entry attempt (env attempt) (other attempt s) of
        (None, s1, acts) \<Rightarrow>
          (None, s1\<lparr>ss_metrics := (ss_metrics s1)\<lparr>sm_completed_mutations := sm_completed_mutations (ss_metrics s1) + 1\<rparr>\<rparr>,
           acts)
      | (Some x, s1, acts) \<Rightarrow>
          let s2 = defer_for_exception (ae_after (env attempt)) x s1 in
          if \<not> classify x
          then (Some x, s2\<lparr>ss_metrics := (ss_metrics s2)\<lparr>sm_ambiguous_not_retried :=
                  sm_ambiguous_not_retried (ss_metrics s2) + 1\<rparr>\<rparr>, acts)
          else if sc_max_mutation_attempts cfg \<le> int attempt then (Some x, s2, acts)
          else
            (case execute_mutation cfg account_no endpoint is_new_entry classify env other (attempt + 1)
                (s2\<lparr>ss_metrics := (ss_metrics s2)\<lparr>sm_confirmed_retries := sm_confirmed_retries (ss_metrics s2) + 1\<rparr>\<rparr>) of
               (r, s3, acts') \<Rightarrow>
                 (r, s3, acts @ [Pause (fmax (retry_after x) (retry_delay cfg attempt))] @ acts')))"
  by pat_completeness auto

termination
  by (relation "measure (\<lambda>(cfg, account_no, endpoint, is_new_entry, classify, env, other, attempt, s).
        nat (sc_max_mutation_attempts cfg) - attempt)") auto

declare execute_mutation.simps [simp del]

text \<open>A read: idempotent, so every exception the caller does not exclude is retried.\<close>

definition read_attempt ::
    "scheduler_config \<Rightarrow> string \<Rightarrow> string \<Rightarrow> nat \<Rightarrow> attempt_env \<Rightarrow> scheduler_state
       \<Rightarrow> request_exception option \<times> scheduler_state \<times> scheduler_action list" where
  "read_attempt cfg account_no endpoint attempt e s =
     (let k = bucket_key_of RK_READ account_no endpoint;
          b = current_bucket cfg (ae_now e) k s
      in if bb_remaining b \<le> 0 then (Some (BudgetRefused MutationBudgetExceeded), put_bucket k b s, [])
         else (case wait_for_request_spacing cfg (ae_spacing_now e) (ae_observed e) RK_READ
                   (put_bucket k (b\<lparr>bb_remaining := bb_remaining b - 1\<rparr>) s) of
                 (_, s2) \<Rightarrow> (ae_outcome e, s2, [Dispatch attempt (the (ss_last_request s2))])))"

function execute_read ::
    "scheduler_config \<Rightarrow> string \<Rightarrow> string \<Rightarrow> (request_exception \<Rightarrow> bool) \<Rightarrow> (nat \<Rightarrow> attempt_env)
       \<Rightarrow> (nat \<Rightarrow> scheduler_state \<Rightarrow> scheduler_state) \<Rightarrow> nat \<Rightarrow> scheduler_state
       \<Rightarrow> request_exception option \<times> scheduler_state \<times> scheduler_action list" where
  "execute_read cfg account_no endpoint retry_if env other attempt s =
     (case read_attempt cfg account_no endpoint attempt (env attempt) (other attempt s) of
        (None, s1, acts) \<Rightarrow>
          (None, s1\<lparr>ss_metrics := (ss_metrics s1)\<lparr>sm_completed_reads := sm_completed_reads (ss_metrics s1) + 1\<rparr>\<rparr>, acts)
      | (Some x, s1, acts) \<Rightarrow>
          let s2 = defer_for_exception (ae_after (env attempt)) x s1 in
          if sc_max_read_attempts cfg \<le> int attempt \<or> \<not> retry_if x then (Some x, s2, acts)
          else
            (case execute_read cfg account_no endpoint retry_if env other (attempt + 1)
                (s2\<lparr>ss_metrics := (ss_metrics s2)\<lparr>sm_read_retries := sm_read_retries (ss_metrics s2) + 1\<rparr>\<rparr>) of
               (r, s3, acts') \<Rightarrow> (r, s3, acts @ [Pause (retry_delay cfg attempt)] @ acts')))"
  by pat_completeness auto

termination
  by (relation "measure (\<lambda>(cfg, account_no, endpoint, retry_if, env, other, attempt, s).
        nat (sc_max_read_attempts cfg) - attempt)") auto

declare execute_read.simps [simp del]

end
