(* ===== verification/Live_Policy.thy ===== *)
theory Live_Policy
  imports Portfolio_Risk Card_Store Order_Types
begin

text \<open>
  Whether a broker mutation may leave the machine at all: the trading switch of
  \<open>src/services/trading_state.py\<close> and the live-execution envelope of
  \<open>src/services/controlled_live_policy.py\<close>.

  The switch is the in-process toggle; the administrative lock is the environment value
  \<open>TRADING_ENABLED\<close>, the shared control is read through the provider the application installs.
  The envelope reads the execution configuration (a record of the values it uses, of their
  declared types) and, for a BUY, the card of the symbol. A table argument of \<open>None\<close> stands for
  no database, or for a read that failed: the code treats the two alike.
\<close>

subsection \<open>The trading switch\<close>

definition TRUTHY_ENV_VALUES :: "string set" where
  "TRUTHY_ENV_VALUES = {''1'', ''true'', ''yes'', ''on''}"

definition FALSY_ENV_VALUES :: "string set" where
  "FALSY_ENV_VALUES = {''0'', ''false'', ''no'', ''off''}"

definition is_trading_locked_disabled :: "string option \<Rightarrow> bool" where
  "is_trading_locked_disabled value =
     (case value of None \<Rightarrow> False
      | Some v \<Rightarrow> let normalized = map py_lower_char (py_strip v)
          in normalized \<in> FALSY_ENV_VALUES \<or> normalized \<notin> TRUTHY_ENV_VALUES)"

datatype trading_disabled = LocalAdministrativeLock | SharedControlUnavailable | KillSwitchOff

text \<open>Each function returns its result and the toggle it leaves.\<close>

definition is_trading_enabled :: "string option \<Rightarrow> bool \<Rightarrow> bool \<times> bool" where
  "is_trading_enabled env_value enabled =
     (if is_trading_locked_disabled env_value then (False, False) else (enabled, enabled))"

definition set_trading_enabled :: "string option \<Rightarrow> bool \<Rightarrow> bool \<times> bool" where
  "set_trading_enabled env_value requested =
     is_trading_enabled env_value (requested \<and> \<not> is_trading_locked_disabled env_value)"

text \<open>
  The provider: \<open>None\<close> when none is installed, otherwise what it returns, \<open>None\<close> for an exception.
  \<open>emergency\<close> is the context flag of \<open>allow_cached_emergency_authorization\<close>.
\<close>

definition require_trading_enabled ::
    "string option \<Rightarrow> bool option option \<Rightarrow> bool \<Rightarrow> bool \<Rightarrow> trading_disabled option \<times> bool" where
  "require_trading_enabled env_value provider emergency enabled =
     (if is_trading_locked_disabled env_value then (Some LocalAdministrativeLock, False)
      else case provider of
        None \<Rightarrow> (if \<not> enabled then Some KillSwitchOff else None, enabled)
      | Some (Some b) \<Rightarrow> (if \<not> b then Some KillSwitchOff else None, b)
      | Some None \<Rightarrow>
          (if emergency \<and> enabled then None else Some SharedControlUnavailable, enabled))"

lemma require_trading_enabled_None_iff:
  "fst (require_trading_enabled env_value provider emergency enabled) = None \<longleftrightarrow>
     \<not> is_trading_locked_disabled env_value
     \<and> (provider = Some (Some True) \<or> provider = None \<and> enabled \<or> provider = Some None \<and> emergency \<and> enabled)"
  by (auto simp: require_trading_enabled_def split: option.splits)

lemma lock_disarms:
  "is_trading_locked_disabled env_value \<Longrightarrow> \<not> snd (is_trading_enabled env_value enabled)
     \<and> \<not> snd (set_trading_enabled env_value requested)
     \<and> \<not> snd (require_trading_enabled env_value provider emergency enabled)"
  by (simp add: is_trading_enabled_def set_trading_enabled_def require_trading_enabled_def)

subsection \<open>The configuration of the live envelope\<close>

record live_config =
  lc_mode :: string
  lc_budget_verified :: bool
  lc_submit_capacity :: int
  lc_cancel_capacity :: int
  lc_replace_capacity :: int
  lc_min_spacing :: pyfloat
  lc_ws_enabled :: bool
  lc_ws_protocol_verified :: bool
  lc_market_data_mode :: string
  lc_max_entry_notional :: pyfloat
  lc_max_entry_equity_fraction :: pyfloat
  lc_max_confirmed_attempts :: int
  lc_max_simultaneous_positions :: int
  lc_max_total_open_risk_fraction :: pyfloat
  lc_max_gross_notional_fraction :: pyfloat
  lc_entry_issues :: "string list" \<comment> \<open>\<open>entry_configuration_issues()\<close>\<close>

record live_scheduler =
  ls_min_spacing :: "pyfloat option"
  ls_max_attempts :: "int option"

datatype live_error =
    UnknownLiveMode
  | MutationBudgetsNotReviewed
  | SpacingTooShort
  | WebSocketPathRequired
  | EntryCapsInvalid
  | NoPositiveEntryCap
  | AutomaticRetriesConfigured
  | ProfileLimitOutsideReviewed string
  | SchedulerSpacingTooShort
  | SchedulerRetries
  | LiveExecutionDisabled
  | EntryOverridesInvalid
  | SymbolNotBackedByCard
  | EntryNotionalInvalid
  | EquityUnreadable
  | EquityNotFreshPositive
  | EntryExceedsCap
  | NoEntryCap \<comment> \<open>\<open>min\<close> of an empty list\<close>

definition CONTROLLED_LIVE :: string where "CONTROLLED_LIVE = ''CONTROLLED_LIVE''"
definition FULL_LIVE :: string where "FULL_LIVE = ''FULL_LIVE''"
definition DISABLED :: string where "DISABLED = ''DISABLED''"

definition live_mode :: "live_config \<Rightarrow> string" where
  "live_mode c = normalized_text (if lc_mode c = [] then DISABLED else lc_mode c)"

definition min_live_spacing :: pyfloat where
  "min_live_spacing = to_float (1 / 10)"

definition outside_reviewed :: "pyfloat \<Rightarrow> pyfloat \<Rightarrow> bool" where
  "outside_reviewed configured reviewed \<longleftrightarrow>
     \<not> isfinite configured \<or> fle configured (Fin 0) \<or> flt reviewed configured"

definition controlled_profile :: "live_config \<Rightarrow> (bool \<times> live_error) list" where
  "controlled_profile c =
     [(\<not> isfinite (lc_max_entry_notional c) \<or> flt (lc_max_entry_notional c) (Fin 0)
         \<or> \<not> isfinite (lc_max_entry_equity_fraction c)
         \<or> \<not> (fle (Fin 0) (lc_max_entry_equity_fraction c) \<and> fle (lc_max_entry_equity_fraction c) (Fin 1)),
       EntryCapsInvalid),
      (fle (lc_max_entry_notional c) (Fin 0) \<and> fle (lc_max_entry_equity_fraction c) (Fin 0), NoPositiveEntryCap),
      (lc_max_confirmed_attempts c \<noteq> 1, AutomaticRetriesConfigured),
      (outside_reviewed (float_of_int (lc_max_simultaneous_positions c)) (Fin 30),
       ProfileLimitOutsideReviewed ''PORTFOLIO_MAX_SIMULTANEOUS_POSITIONS''),
      (outside_reviewed (lc_max_total_open_risk_fraction c) (to_float (1 / 10)),
       ProfileLimitOutsideReviewed ''PORTFOLIO_MAX_TOTAL_OPEN_RISK_FRACTION''),
      (outside_reviewed (lc_max_gross_notional_fraction c) (Fin 1),
       ProfileLimitOutsideReviewed ''PORTFOLIO_MAX_GROSS_NOTIONAL_FRACTION'')]"

definition scheduler_checks :: "live_config \<Rightarrow> live_scheduler \<Rightarrow> (bool \<times> live_error) list" where
  "scheduler_checks c s =
     [(case ls_min_spacing s of None \<Rightarrow> True | Some v \<Rightarrow> flt v (lc_min_spacing c), SchedulerSpacingTooShort),
      (live_mode c = CONTROLLED_LIVE \<and> ls_max_attempts s \<noteq> Some 1, SchedulerRetries)]"

definition require_controlled_live_configuration ::
    "live_config \<Rightarrow> string \<Rightarrow> live_scheduler option \<Rightarrow> live_error option" where
  "require_controlled_live_configuration c environment scheduler =
     (if normalized_text environment \<noteq> ''PROD'' \<or> live_mode c = DISABLED then None
      else first_error
        ([(live_mode c \<notin> {CONTROLLED_LIVE, FULL_LIVE}, UnknownLiveMode),
          (\<not> lc_budget_verified c \<or> lc_submit_capacity c \<le> 0 \<or> lc_cancel_capacity c \<le> 0
             \<or> lc_replace_capacity c \<le> 0, MutationBudgetsNotReviewed),
          (flt (lc_min_spacing c) min_live_spacing, SpacingTooShort),
          (\<not> (lc_ws_enabled c \<and> lc_ws_protocol_verified c \<and> lc_market_data_mode c = ''WEBSOCKET''),
           WebSocketPathRequired)]
         @ (if live_mode c = CONTROLLED_LIVE then controlled_profile c else [])
         @ (case scheduler of None \<Rightarrow> [] | Some s \<Rightarrow> scheduler_checks c s)))"

definition require_live_mutation_allowed :: "live_config \<Rightarrow> string \<Rightarrow> live_error option" where
  "require_live_mutation_allowed c environment =
     (if normalized_text environment \<noteq> ''PROD'' then None
      else if live_mode c = DISABLED then Some LiveExecutionDisabled
      else require_controlled_live_configuration c environment None)"

subsection \<open>Which entries the envelope covers\<close>

definition card_authorizes_entry :: "trade_card \<Rightarrow> bool" where
  "card_authorizes_entry c \<longleftrightarrow> tc_board_status c \<in> {BS_BUY_TODAY, BS_ENTRY_PENDING}
     \<or> (tc_board_status c = BS_OPEN_POSITION \<and> tc_position_runtime_status c = PRS_ENTRY_COMPLETING
        \<and> 0 < tc_entry_remaining_target_quantity c \<and> \<not> tc_entry_submission_unresolved c
        \<and> \<not> tc_entry_cancel_in_flight c \<and> \<not> tc_exit_all_required c \<and> \<not> tc_sell_all_at_market_open c)"

definition live_entry_symbol_allowed ::
    "live_config \<Rightarrow> string \<Rightarrow> string \<Rightarrow> string \<Rightarrow> card_table option \<Rightarrow> bool" where
  "live_entry_symbol_allowed c environment ticker account_no cards =
     (if normalized_text environment \<noteq> ''PROD'' \<or> live_mode c \<noteq> CONTROLLED_LIVE then True
      else if normalized_text ticker = [] \<or> py_strip account_no = [] then False
      else case cards of None \<Rightarrow> False
        | Some t \<Rightarrow>
            (case get_trade_card t (normalized_text environment) (py_strip account_no) (normalized_text ticker) of
               None \<Rightarrow> False | Some card' \<Rightarrow> card_authorizes_entry card'))"

definition live_entry_card_allowed :: "live_config \<Rightarrow> trade_card \<Rightarrow> bool" where
  "live_entry_card_allowed c card' =
     (if normalized_text (tc_environment card') \<noteq> ''PROD'' \<or> live_mode c \<noteq> CONTROLLED_LIVE then True
      else py_strip (tc_symbol card') \<noteq> [] \<and> card_authorizes_entry card')"

text \<open>The symbols shown to the operator, from the database when there is one, else from the local
  snapshot.\<close>

definition controlled_live_symbols ::
    "string \<Rightarrow> string \<Rightarrow> card_table option \<Rightarrow> trade_card list \<Rightarrow> string list" where
  "controlled_live_symbols environment account_no cards snapshot =
     (let env = normalized_text environment; account = py_strip account_no;
          loaded = (case cards of
              Some t \<Rightarrow> list_trade_cards t (Some env) (if account = [] then None else Some account)
            | None \<Rightarrow> snapshot)
      in sort (remdups (map (\<lambda>c. normalized_text (tc_symbol c))
           (filter (\<lambda>c. normalized_text (tc_environment c) = env
             \<and> (account = [] \<or> py_strip (tc_account_no c) = account)
             \<and> card_authorizes_entry c \<and> py_strip (tc_symbol c) \<noteq> []) loaded))))"

definition automatic_mutation_retry_permitted :: "live_config \<Rightarrow> string \<Rightarrow> bool" where
  "automatic_mutation_retry_permitted c environment \<longleftrightarrow>
     \<not> (normalized_text environment = ''PROD'' \<and> live_mode c = CONTROLLED_LIVE)"

subsection \<open>The entry fence\<close>

text \<open>The caps of an entry: the fixed one and the share of the account's equity (\<open>None\<close>: the provider
  raised).\<close>

definition equity_cap :: "live_config \<Rightarrow> pyfloat option \<Rightarrow> live_error + pyfloat list" where
  "equity_cap c equity =
     (if flt (Fin 0) (lc_max_entry_equity_fraction c)
      then (case equity of None \<Rightarrow> Inl EquityUnreadable
        | Some e \<Rightarrow> if \<not> isfinite e \<or> fle e (Fin 0) then Inl EquityNotFreshPositive
            else Inr [fmul e (lc_max_entry_equity_fraction c)])
      else Inr [])"

definition entry_caps :: "live_config \<Rightarrow> pyfloat option \<Rightarrow> live_error + pyfloat list" where
  "entry_caps c equity =
     bind_result (equity_cap c equity) (\<lambda>caps.
       Inr ((if flt (Fin 0) (lc_max_entry_notional c) then [lc_max_entry_notional c] else []) @ caps))"

fun min_cap :: "pyfloat list \<Rightarrow> live_error + pyfloat" where
  "min_cap [] = Inl NoEntryCap"
| "min_cap (x # xs) = Inr (foldl fmin x xs)"

definition require_live_entry_allowed ::
    "live_config \<Rightarrow> string \<Rightarrow> string \<Rightarrow> string \<Rightarrow> order_side \<Rightarrow> int \<Rightarrow> pyfloat \<Rightarrow> card_table option
       \<Rightarrow> pyfloat option \<Rightarrow> live_error + pyfloat option" where
  "require_live_entry_allowed c environment account_no ticker side quantity limit_price cards equity =
     (if normalized_text environment \<noteq> ''PROD'' then Inr None
      else guarded (require_live_mutation_allowed c environment)
        (if side \<noteq> BUY then Inr None
         else if lc_entry_issues c \<noteq> [] then Inl EntryOverridesInvalid
         else if live_mode c = FULL_LIVE then Inr None
         else
           let notional = fmul (float_of_int quantity) limit_price
           in guarded (first_error
                [(\<not> live_entry_symbol_allowed c environment (normalized_text ticker) account_no cards,
                  SymbolNotBackedByCard),
                 (\<not> isfinite notional \<or> fle notional (Fin 0), EntryNotionalInvalid)])
              (bind_result (bind_result (entry_caps c equity) min_cap)
                (\<lambda>cap. if flt cap notional then Inl EntryExceedsCap else Inr (Some cap)))))"

subsection \<open>What a permitted entry satisfies\<close>

lemma mutation_allowed_mode:
  "require_live_mutation_allowed c environment = None \<Longrightarrow> normalized_text environment = ''PROD''
     \<Longrightarrow> live_mode c = CONTROLLED_LIVE \<or> live_mode c = FULL_LIVE"
  by (auto simp: require_live_mutation_allowed_def require_controlled_live_configuration_def guard_simps
      CONTROLLED_LIVE_def DISABLED_def split: if_splits)

lemma entry_caps_cases:
  assumes "entry_caps c equity = Inr caps"
  obtains (none) "\<not> flt (Fin 0) (lc_max_entry_equity_fraction c)"
      "caps = (if flt (Fin 0) (lc_max_entry_notional c) then [lc_max_entry_notional c] else [])"
    | (share) e where "flt (Fin 0) (lc_max_entry_equity_fraction c)" "equity = Some e" "isfinite e" "\<not> fle e (Fin 0)"
      "caps = (if flt (Fin 0) (lc_max_entry_notional c) then [lc_max_entry_notional c] else [])
         @ [fmul e (lc_max_entry_equity_fraction c)]"
  using assms
  by (auto simp: entry_caps_def equity_cap_def guard_simps split: if_splits option.splits)

lemma fle_fmin_both: "fle v (fmin a b) \<Longrightarrow> b \<noteq> NaN \<Longrightarrow> fle v a \<and> fle v b"
  by (cases v; cases a; cases b) (auto simp: fmin_def fle_def feq_def split: if_splits)

lemma ceiling_respected: "\<not> flt cap v \<Longrightarrow> isfinite v \<Longrightarrow> cap \<noteq> NaN \<Longrightarrow> fle v cap"
  by (cases v; cases cap) (auto simp: fle_def feq_def isfinite_def)

text \<open>
  (C23) A production BUY that the envelope permits in controlled-live mode is backed by a card
  that authorises the entry, and its notional is positive and at most the ceiling the call returns,
  which in turn respects every cap that is configured: the fixed one and the share of current
  equity.
\<close>

theorem live_entry_capped:
  assumes ok: "require_live_entry_allowed c environment account_no ticker BUY quantity limit_price cards equity
      = Inr cap"
    and prod: "normalized_text environment = ''PROD''" and live: "live_mode c = CONTROLLED_LIVE"
  shows "let notional = fmul (float_of_int quantity) limit_price
    in (\<exists>t card'. cards = Some t \<and> card_authorizes_entry card'
          \<and> get_trade_card t ''PROD'' (py_strip account_no) (normalized_text ticker) = Some card')
      \<and> (\<exists>v. cap = Some v \<and> fle notional v)
      \<and> flt (Fin 0) notional \<and> isfinite notional
      \<and> (flt (Fin 0) (lc_max_entry_notional c) \<longrightarrow> fle notional (lc_max_entry_notional c))
      \<and> (flt (Fin 0) (lc_max_entry_equity_fraction c)
          \<longrightarrow> (\<exists>e. equity = Some e \<and> fle notional (fmul e (lc_max_entry_equity_fraction c))))"
proof -
  define notional where "notional = fmul (float_of_int quantity) limit_price"
  have not_full: "live_mode c \<noteq> FULL_LIVE" by (simp add: live CONTROLLED_LIVE_def FULL_LIVE_def)
  obtain caps v where facts: "require_live_mutation_allowed c environment = None"
      "live_entry_symbol_allowed c environment (normalized_text ticker) account_no cards"
      "isfinite notional" "\<not> fle notional (Fin 0)"
      "entry_caps c equity = Inr caps" "min_cap caps = Inr v" "\<not> flt v notional" "cap = Some v"
    using ok prod not_full
    by (auto simp: require_live_entry_allowed_def Let_def guard_simps simp flip: notional_def split: if_splits)
  have card_ok: "\<exists>t card'. cards = Some t \<and> card_authorizes_entry card'
      \<and> get_trade_card t ''PROD'' (py_strip account_no) (normalized_text ticker) = Some card'"
    using facts(2) prod live by (auto simp: live_entry_symbol_allowed_def split: if_splits option.splits)
  have profile: "first_error (controlled_profile c) = None"
    using facts(1) prod live
    by (auto simp: require_live_mutation_allowed_def require_controlled_live_configuration_def
        CONTROLLED_LIVE_def DISABLED_def first_error_append split: option.splits if_splits)
  then have finite: "isfinite (lc_max_entry_notional c)" "isfinite (lc_max_entry_equity_fraction c)"
    by (simp_all add: controlled_profile_def split: if_splits)
  have positive: "flt (Fin 0) notional"
    using facts(3,4) by (cases notional) (auto simp: isfinite_def fle_def feq_def)
  have bound: "fle notional v
      \<and> (flt (Fin 0) (lc_max_entry_notional c) \<longrightarrow> fle notional (lc_max_entry_notional c))
      \<and> (flt (Fin 0) (lc_max_entry_equity_fraction c)
          \<longrightarrow> (\<exists>e. equity = Some e \<and> fle notional (fmul e (lc_max_entry_equity_fraction c))))"
    using facts(5)
  proof (cases rule: entry_caps_cases)
    case none
    then have "caps = [lc_max_entry_notional c]" "v = lc_max_entry_notional c"
      using facts(6) by (auto split: if_splits)
    moreover have "fle notional v"
      using finite(1) \<open>v = _\<close> by (intro ceiling_respected facts(3,7)) (auto simp: isfinite_def)
    ultimately show ?thesis using none by auto
  next
    case (share e)
    let ?share = "fmul e (lc_max_entry_equity_fraction c)"
    have number: "?share \<noteq> NaN"
      using share(3) finite(2) by (cases e; cases "lc_max_entry_equity_fraction c")
        (auto simp: isfinite_def to_float_def Let_def)
    show ?thesis
    proof (cases "flt (Fin 0) (lc_max_entry_notional c)")
      case True
      with share facts(6) have v: "v = fmin (lc_max_entry_notional c) ?share" by simp
      have "v \<noteq> NaN" using number finite(1) by (auto simp: v fmin_def isfinite_def)
      then have "fle notional v" using ceiling_respected [OF facts(7,3)] by blast
      with v number fle_fmin_both have "fle notional (lc_max_entry_notional c) \<and> fle notional ?share" by blast
      with \<open>fle notional v\<close> share show ?thesis by auto
    next
      case False
      with share facts(6) have v: "v = ?share" by simp
      then have "fle notional v" using ceiling_respected [OF facts(7,3)] number by blast
      with v False share show ?thesis by auto
    qed
  qed
  show ?thesis
    using bound card_ok positive facts(3,8) unfolding Let_def notional_def by blast
qed

definition sample_live_config :: live_config where
  "sample_live_config =
     \<lparr>lc_mode = ''CONTROLLED_LIVE'', lc_budget_verified = True, lc_submit_capacity = 1, lc_cancel_capacity = 1,
      lc_replace_capacity = 1, lc_min_spacing = Fin 1, lc_ws_enabled = True, lc_ws_protocol_verified = True,
      lc_market_data_mode = ''WEBSOCKET'', lc_max_entry_notional = Fin 1000,
      lc_max_entry_equity_fraction = Fin 0, lc_max_confirmed_attempts = 1, lc_max_simultaneous_positions = 1,
      lc_max_total_open_risk_fraction = Fin (1 / 16), lc_max_gross_notional_fraction = Fin 1,
      lc_entry_issues = []\<rparr>"

lemma sample_live_mode: "live_mode sample_live_config = CONTROLLED_LIVE"
  by code_simp

lemma tenth_bounds: "fle (Fin (1 / 16)) (to_float (1 / 10))" "fle (to_float (1 / 10)) (Fin 1)"
proof -
  have "representable (1 / 16)"
    unfolding representable_def by (intro exI [of _ 1] exI [of _ "- 4"]) (simp add: two_pow_def)
  then have "to_float (1 / 16) = Fin (1 / 16)"
    by (rule to_float_representable) (simp add: max_exclusive_def)
  with to_float_mono [of "1 / 16" "1 / 10"] show "fle (Fin (1 / 16)) (to_float (1 / 10))" by simp
  show "fle (to_float (1 / 10)) (Fin 1)"
    using to_float_mono [of "1 / 10" 1] by simp
qed

lemma fle_not_flt: "fle a b \<Longrightarrow> \<not> flt b a"
  by (cases a; cases b) (auto simp: fle_def feq_def)

lemma sample_live_allowed: "require_live_mutation_allowed sample_live_config ''PROD'' = None"
proof -
  have prod: "normalized_text ''PROD'' = ''PROD''" by code_simp
  have "first_error (controlled_profile sample_live_config) = None"
    using fle_not_flt [OF tenth_bounds(1)] float_of_int_exact [of 1]
    by (simp add: controlled_profile_def outside_reviewed_def sample_live_config_def isfinite_def fle_def feq_def)
  moreover have "\<not> flt (Fin 1) min_live_spacing"
    using fle_not_flt [OF tenth_bounds(2)] by (simp add: min_live_spacing_def)
  ultimately show ?thesis
    using sample_live_mode
    by (simp add: require_live_mutation_allowed_def require_controlled_live_configuration_def prod
        CONTROLLED_LIVE_def DISABLED_def first_error_append) (simp add: sample_live_config_def)
qed

definition sample_buy_card :: trade_card where
  "sample_buy_card = sample_card\<lparr>tc_board_status := BS_BUY_TODAY\<rparr>"

definition sample_buy_cards :: card_table where
  "sample_buy_cards = empty_table\<lparr>ct_ids := [(''PROD'', ''1'', ''AAPL'')],
     ct_rows := [(''PROD'', ''1'', ''AAPL'') \<mapsto> sample_buy_card]\<rparr>"

lemma sample_text_normal: "normalized_text ''PROD'' = ''PROD''" "normalized_text ''AAPL'' = ''AAPL''"
  "py_strip ''1'' = ''1''" "py_upper ''PROD'' = ''PROD''" "py_upper ''AAPL'' = ''AAPL''"
  by code_simp+

lemma sample_entry_allowed:
  "require_live_entry_allowed sample_live_config ''PROD'' ''1'' ''AAPL'' BUY 10 (Fin 50) (Some sample_buy_cards) None
     = Inr (Some (Fin 1000))"
proof -
  have notional: "fmul (float_of_int 10) (Fin 50) = Fin 500"
    using float_of_int_exact [of 10] float_of_int_exact [of 500] by (simp add: float_of_int_def)
  have "get_trade_card sample_buy_cards ''PROD'' ''1'' ''AAPL'' = Some sample_buy_card"
    by (simp add: get_trade_card_def sample_buy_cards_def sample_text_normal)
  then have card_ok: "live_entry_symbol_allowed sample_live_config ''PROD'' ''AAPL'' ''1'' (Some sample_buy_cards)"
    by (simp add: live_entry_symbol_allowed_def sample_text_normal card_authorizes_entry_def sample_buy_card_def)
  have mode: "live_mode sample_live_config \<noteq> FULL_LIVE"
    by (simp add: sample_live_mode CONTROLLED_LIVE_def FULL_LIVE_def)
  have caps: "entry_caps sample_live_config None = Inr [Fin 1000]"
    by (simp add: entry_caps_def equity_cap_def sample_live_config_def)
  show ?thesis
    using mode card_ok
    by (simp add: require_live_entry_allowed_def sample_text_normal sample_live_allowed notional caps Let_def
        isfinite_def fle_def feq_def) (simp add: sample_live_config_def)
qed

lemma live_entry_capped_witness:
  "fle (fmul (float_of_int 10) (Fin 50)) (Fin 1000)"
  using live_entry_capped [OF sample_entry_allowed sample_text_normal(1) sample_live_mode] by (simp add: Let_def)

end
