(* ===== verification/Position_Sizing.thy ===== *)
theory Position_Sizing
  imports Order_Types
begin

text \<open>
  How many shares a plan buys: \<open>src/risk/orb_position.py\<close> (the opening-range plans, their
  configured bounds and warnings) and \<open>src/risk/position_sizer.py\<close> (the general sizer).
  Numbers are floats; an argument that is no finite number is \<open>None\<close> after the code's
  \<open>_finite_float\<close>. The settings in force are an argument. Warnings carry their bound, not their
  wording.
\<close>

definition sizing_float :: "pyfloat \<Rightarrow> pyfloat option" where
  "sizing_float v = (if isfinite v then Some v else None)"

definition positive_float :: "pyfloat \<Rightarrow> bool" where
  "positive_float v \<longleftrightarrow> isfinite v \<and> flt (Fin 0) v"

lemma positive_float_cases: "positive_float v \<Longrightarrow> (\<And>x. v = Fin x \<Longrightarrow> 0 < x \<Longrightarrow> P) \<Longrightarrow> P"
  by (cases v) (auto simp: positive_float_def)

text \<open>\<open>x / y\<close> where \<open>y\<close> is known not to be zero.\<close>

definition fquot :: "pyfloat \<Rightarrow> pyfloat \<Rightarrow> pyfloat" where
  "fquot a b = (case fdiv a b of None \<Rightarrow> NaN | Some q \<Rightarrow> q)"

subsection \<open>Opening-range settings\<close>

record orb_settings =
  os_capital_min :: pyfloat
  os_capital_ideal :: pyfloat
  os_capital_max :: pyfloat
  os_stop_adr_min :: pyfloat
  os_stop_adr_ideal :: pyfloat
  os_stop_adr_max :: pyfloat

datatype orb_settings_error =
    OrbNotFinite | CapitalOutOfRange | StopAdrNegative | CapitalIdealOutside | StopAdrIdealOutside
  | CapitalBoundsEqual | StopAdrBoundsEqual

definition orb_settings_post_init :: "orb_settings \<Rightarrow> orb_settings_error option" where
  "orb_settings_post_init s = first_error
     [(\<not> list_all isfinite [os_capital_min s, os_capital_ideal s, os_capital_max s, os_stop_adr_min s,
         os_stop_adr_ideal s, os_stop_adr_max s], OrbNotFinite),
      (flt (os_capital_min s) (Fin 0) \<or> flt (Fin 100) (os_capital_max s), CapitalOutOfRange),
      (flt (os_stop_adr_min s) (Fin 0), StopAdrNegative),
      (\<not> (fle (os_capital_min s) (os_capital_ideal s) \<and> fle (os_capital_ideal s) (os_capital_max s)),
       CapitalIdealOutside),
      (\<not> (fle (os_stop_adr_min s) (os_stop_adr_ideal s) \<and> fle (os_stop_adr_ideal s) (os_stop_adr_max s)),
       StopAdrIdealOutside),
      (fle (os_capital_max s) (os_capital_min s), CapitalBoundsEqual),
      (fle (os_stop_adr_max s) (os_stop_adr_min s), StopAdrBoundsEqual)]"

definition DEFAULT_ORB_SETTINGS :: orb_settings where
  "DEFAULT_ORB_SETTINGS = \<lparr>os_capital_min = Fin 10, os_capital_ideal = Fin (35 / 2), os_capital_max = Fin 30,
     os_stop_adr_min = Fin 15, os_stop_adr_ideal = Fin 65, os_stop_adr_max = Fin 66\<rparr>"

text \<open>Persisted settings: a missing entry takes its default, a value that is no number (\<open>Some None\<close>)
  or a combination the constructor refuses falls back to the defaults as a whole.\<close>

definition orb_settings_from_mapping :: "(string \<rightharpoonup> pyfloat option) option \<Rightarrow> orb_settings" where
  "orb_settings_from_mapping values =
     (case values of None \<Rightarrow> DEFAULT_ORB_SETTINGS
      | Some m \<Rightarrow>
          let get = (\<lambda>k d. case m k of None \<Rightarrow> Some d | Some v \<Rightarrow> v) in
          case (get ''capital_min_percent'' (Fin 10), get ''capital_ideal_percent'' (Fin (35 / 2)),
                get ''capital_max_percent'' (Fin 30), get ''stop_adr_min_percent'' (Fin 15),
                get ''stop_adr_ideal_percent'' (Fin 65), get ''stop_adr_max_percent'' (Fin 66)) of
            (Some a, Some b, Some c, Some d, Some e, Some f) \<Rightarrow>
              let s = \<lparr>os_capital_min = a, os_capital_ideal = b, os_capital_max = c, os_stop_adr_min = d,
                    os_stop_adr_ideal = e, os_stop_adr_max = f\<rparr>
              in (case orb_settings_post_init s of None \<Rightarrow> s | Some _ \<Rightarrow> DEFAULT_ORB_SETTINGS)
          | _ \<Rightarrow> DEFAULT_ORB_SETTINGS)"

subsection \<open>Opening-range sizing\<close>

record orb_sizing =
  oz_total_risk :: pyfloat
  oz_risk_per_share :: pyfloat
  oz_shares :: pyfloat
  oz_investment :: pyfloat
  oz_capital_percent :: pyfloat
  oz_stop_loss_percent :: pyfloat
  oz_sl_adr :: "pyfloat option"

definition zero_position_values :: orb_sizing where
  "zero_position_values = \<lparr>oz_total_risk = Fin 0, oz_risk_per_share = Fin 0, oz_shares = Fin 0,
     oz_investment = Fin 0, oz_capital_percent = Fin 0, oz_stop_loss_percent = Fin 0, oz_sl_adr = None\<rparr>"

text \<open>\<open>None\<close> where \<open>math.ceil\<close> raises (an infinite quotient) or the distance rounds to zero.\<close>

definition calculate_orb_position_values ::
    "pyfloat \<Rightarrow> pyfloat \<Rightarrow> pyfloat \<Rightarrow> pyfloat \<Rightarrow> pyfloat option \<Rightarrow> orb_sizing option" where
  "calculate_orb_position_values account risk_fraction entry stop adr_percent =
     (if \<not> positive_float account \<or> \<not> positive_float risk_fraction \<or> flt (Fin 1) risk_fraction
         \<or> \<not> positive_float entry \<or> \<not> positive_float stop \<or> fle entry stop
      then Some zero_position_values
      else
        let total_risk = fmul account risk_fraction;
            risk_per_share = fsub entry stop
        in case fdiv total_risk risk_per_share of
             None \<Rightarrow> None
           | Some raw \<Rightarrow>
               (case (if flt (Fin 0) raw then map_option float_of_int (py_ceil raw) else Some (Fin 0)) of
                  None \<Rightarrow> None
                | Some shares \<Rightarrow>
                    let investment = fmul shares entry;
                        stop_loss_percent = fmul (fquot risk_per_share entry) (Fin 100)
                    in Some \<lparr>oz_total_risk = total_risk, oz_risk_per_share = risk_per_share, oz_shares = shares,
                         oz_investment = investment,
                         oz_capital_percent = fmul (fquot investment account) (Fin 100),
                         oz_stop_loss_percent = stop_loss_percent,
                         oz_sl_adr = (case adr_percent of None \<Rightarrow> None
                           | Some a \<Rightarrow> if positive_float a then Some (fmul (fquot stop_loss_percent a) (Fin 100))
                               else None)\<rparr>))"

definition is_orb_position_plan_valid :: "orb_sizing \<Rightarrow> pyfloat option \<Rightarrow> orb_settings \<Rightarrow> bool" where
  "is_orb_position_plan_valid z adr_percent s \<longleftrightarrow>
     \<not> flt (oz_shares z) (Fin 1)
     \<and> \<not> (flt (oz_capital_percent z) (os_capital_min s) \<or> flt (os_capital_max s) (oz_capital_percent z))
     \<and> \<not> (case adr_percent of None \<Rightarrow> False
           | Some a \<Rightarrow> flt (Fin 0) a \<and> fle a (oz_stop_loss_percent z))
     \<and> \<not> (case oz_sl_adr z of None \<Rightarrow> False
           | Some v \<Rightarrow> flt v (os_stop_adr_min s) \<or> flt (os_stop_adr_max s) v)"

datatype orb_warning =
    ZeroShares | CapitalBelow pyfloat | CapitalAbove pyfloat | StopWiderThanAdr | StopAdrBelow pyfloat
  | StopAdrAbove pyfloat

text \<open>\<open>int(\<dots>)\<close> of the share count raises on an infinite or undefined one: \<open>None\<close>.\<close>

definition validate_orb_position_values ::
    "orb_sizing \<Rightarrow> pyfloat option \<Rightarrow> orb_settings \<Rightarrow> orb_warning list option" where
  "validate_orb_position_values z adr_percent s =
     map_option (\<lambda>shares.
         (if shares < 1 then [ZeroShares] else [])
         @ (if flt (oz_capital_percent z) (os_capital_min s) then [CapitalBelow (os_capital_min s)] else [])
         @ (if flt (os_capital_max s) (oz_capital_percent z) then [CapitalAbove (os_capital_max s)] else [])
         @ (case adr_percent of None \<Rightarrow> []
            | Some a \<Rightarrow> if flt (Fin 0) a \<and> fle a (oz_stop_loss_percent z) then [StopWiderThanAdr] else [])
         @ (case oz_sl_adr z of None \<Rightarrow> []
            | Some v \<Rightarrow> if flt v (os_stop_adr_min s) then [StopAdrBelow (os_stop_adr_min s)]
                else if flt (os_stop_adr_max s) v then [StopAdrAbove (os_stop_adr_max s)] else []))
       (py_int (oz_shares z))"

definition score_orb_position_recommendation :: "orb_sizing \<Rightarrow> pyfloat \<Rightarrow> orb_settings \<Rightarrow> pyfloat" where
  "score_orb_position_recommendation z risk_percent s =
     (case oz_sl_adr z of None \<Rightarrow> Fin 0
      | Some v \<Rightarrow>
          let sl_adr_score = fmax (Fin 0) (fsub (Fin 100) (fmul (fabs (fsub v (os_stop_adr_ideal s))) (Fin 3)));
              capital_score = fmax (Fin 0)
                (fsub (Fin 100) (fmul (fabs (fsub (oz_capital_percent z) (os_capital_ideal s))) (Fin 4)));
              risk_score = fmax (Fin 0) (fsub (Fin 100) (fmul (fmul risk_percent (Fin 100)) (Fin 25)))
          in py_round (fadd (fadd (fmul sl_adr_score (to_float (45 / 100))) (fmul capital_score (to_float (40 / 100))))
               (fmul risk_score (to_float (15 / 100)))) 1)"

subsection \<open>The general sizer\<close>

record position_size =
  pz_shares :: int
  pz_dollar_amount :: pyfloat
  pz_percent_of_account :: pyfloat
  pz_risk_amount :: pyfloat

definition zero_position :: position_size where
  "zero_position = \<lparr>pz_shares = 0, pz_dollar_amount = Fin 0, pz_percent_of_account = Fin 0,
     pz_risk_amount = Fin 0\<rparr>"

record position_sizer =
  sz_account_size :: pyfloat
  sz_max_risk_per_trade :: pyfloat

definition make_position_sizer :: "pyfloat \<Rightarrow> pyfloat \<Rightarrow> position_sizer" where
  "make_position_sizer account max_risk =
     \<lparr>sz_account_size = (if positive_float account then account else Fin 0),
      sz_max_risk_per_trade =
        (if isfinite max_risk \<and> fle (Fin 0) max_risk \<and> fle max_risk (Fin 1) then max_risk else Fin 0)\<rparr>"

definition size_fixed_percent :: "position_sizer \<Rightarrow> pyfloat \<Rightarrow> pyfloat \<Rightarrow> position_size" where
  "size_fixed_percent z entry percent =
     (if fle (sz_account_size z) (Fin 0) \<or> \<not> positive_float entry \<or> \<not> positive_float percent
         \<or> flt (Fin 1) percent then zero_position
      else
        let amount = fmul (sz_account_size z) percent; raw = fquot amount entry
        in if \<not> positive_float amount \<or> \<not> isfinite raw \<or> flt raw (Fin 0) then zero_position
           else case py_int raw of None \<Rightarrow> zero_position
             | Some shares \<Rightarrow> \<lparr>pz_shares = shares, pz_dollar_amount = fmul (float_of_int shares) entry,
                 pz_percent_of_account = percent, pz_risk_amount = fmul amount (sz_max_risk_per_trade z)\<rparr>)"

definition size_risk_based :: "position_sizer \<Rightarrow> pyfloat \<Rightarrow> pyfloat \<Rightarrow> pyfloat option \<Rightarrow> position_size" where
  "size_risk_based z entry stop risk_percent =
     (let risk_fraction = (case risk_percent of None \<Rightarrow> sz_max_risk_per_trade z | Some r \<Rightarrow> r)
      in if fle (sz_account_size z) (Fin 0) \<or> \<not> positive_float entry \<or> \<not> positive_float stop
            \<or> fle entry stop \<or> \<not> positive_float risk_fraction \<or> flt (Fin 1) risk_fraction then zero_position
         else
           let risk_amount = fmul (sz_account_size z) risk_fraction;
               risk_per_share = fsub entry stop; raw = fquot risk_amount risk_per_share
           in if \<not> positive_float risk_amount \<or> \<not> positive_float risk_per_share \<or> \<not> positive_float raw
              then zero_position
              else case py_ceil raw of None \<Rightarrow> zero_position
                | Some shares \<Rightarrow>
                    let amount = fmul (float_of_int shares) entry; percent = fquot amount (sz_account_size z)
                    in if shares \<le> 0 \<or> \<not> isfinite amount \<or> \<not> isfinite percent then zero_position
                       else \<lparr>pz_shares = shares, pz_dollar_amount = amount, pz_percent_of_account = percent,
                         pz_risk_amount = risk_amount\<rparr>)"

definition size_volatility_based :: "position_sizer \<Rightarrow> pyfloat \<Rightarrow> pyfloat \<Rightarrow> pyfloat \<Rightarrow> position_size" where
  "size_volatility_based z entry atr atr_multiplier =
     (if \<not> positive_float entry \<or> \<not> positive_float atr \<or> \<not> positive_float atr_multiplier then zero_position
      else size_risk_based z entry (fsub entry (fmul atr atr_multiplier)) None)"

definition size_kelly :: "position_sizer \<Rightarrow> pyfloat \<Rightarrow> pyfloat \<Rightarrow> pyfloat \<Rightarrow> position_size" where
  "size_kelly z win_rate avg_win avg_loss =
     (if fle (sz_account_size z) (Fin 0) \<or> \<not> isfinite win_rate \<or> \<not> (fle (Fin 0) win_rate \<and> fle win_rate (Fin 1))
         \<or> \<not> positive_float avg_win \<or> \<not> isfinite avg_loss \<or> flt avg_loss (Fin 0) then zero_position
      else
        let losses = (if feq avg_loss (Fin 0) then avg_win else avg_loss);
            kelly = fquot (fsub (fmul win_rate avg_win) (fmul (fsub (Fin 1) win_rate) losses)) avg_win
        in if \<not> isfinite kelly then zero_position
           else size_fixed_percent z (Fin 1)
             (fmax (fmin (fmul kelly (to_float (1 / 4))) (sz_max_risk_per_trade z)) (Fin 0)))"

subsection \<open>The two validity routines agree\<close>

lemma share_bounds: "py_int (Fin x) = Some n \<Longrightarrow> n < 1 \<longleftrightarrow> x < 1"
  by (auto simp: py_int_def floor_less_iff ceiling_less_iff less_ceiling_iff split: if_splits)

text \<open>
  The plan check that gates an order and the one that words the warnings agree: for a
  share count that is a number, a plan is valid exactly when no warning is given.
\<close>

theorem orb_validity_agrees:
  assumes "isfinite (oz_shares z)"
  shows "is_orb_position_plan_valid z adr_percent s
    \<longleftrightarrow> validate_orb_position_values z adr_percent s = Some []"
proof -
  obtain x where x: "oz_shares z = Fin x" using assms by (rule isfinite_cases)
  obtain n where n: "py_int (Fin x) = Some n" by (simp add: py_int_def)
  show ?thesis
    using share_bounds [OF n]
    by (auto simp: is_orb_position_plan_valid_def validate_orb_position_values_def x n split: option.splits)
qed

definition sample_sizing :: orb_sizing where
  "sample_sizing = \<lparr>oz_total_risk = Fin 100, oz_risk_per_share = Fin 2, oz_shares = Fin 50, oz_investment = Fin 2000,
     oz_capital_percent = Fin 20, oz_stop_loss_percent = Fin 5, oz_sl_adr = Some (Fin 50)\<rparr>"

lemma orb_validity_agrees_witness:
  "is_orb_position_plan_valid sample_sizing (Some (Fin 10)) DEFAULT_ORB_SETTINGS"
proof -
  have "validate_orb_position_values sample_sizing (Some (Fin 10)) DEFAULT_ORB_SETTINGS = Some []"
    by (simp add: validate_orb_position_values_def sample_sizing_def DEFAULT_ORB_SETTINGS_def py_int_def)
  moreover have "isfinite (oz_shares sample_sizing)" by (simp add: sample_sizing_def)
  ultimately show ?thesis using orb_validity_agrees by blast
qed

subsection \<open>What the sizer never exceeds\<close>

lemma size_fixed_percent_share:
  "pz_percent_of_account (size_fixed_percent z entry percent) \<in> {Fin 0, percent}"
  by (simp add: size_fixed_percent_def zero_position_def Let_def split: option.split)

lemma quarter: "to_float (1 / 4) = Fin (1 / 4)"
proof (rule to_float_representable)
  show "representable (1 / 4)"
    unfolding representable_def by (intro exI [of _ 1] exI [of _ "- 2"]) (simp add: two_pow_def)
qed (simp add: max_exclusive_def)

text \<open>The Kelly fraction is capped at the configured risk per trade, whatever the win rate.\<close>

lemma size_kelly_capped:
  assumes "z = make_position_sizer account max_risk"
  shows "fle (pz_percent_of_account (size_kelly z win_rate avg_win avg_loss)) (sz_max_risk_per_trade z)"
proof -
  have "\<exists>m. sz_max_risk_per_trade z = Fin m \<and> 0 \<le> m"
    by (cases max_risk) (simp_all add: assms make_position_sizer_def)
  then obtain m where m: "sz_max_risk_per_trade z = Fin m" "0 \<le> m" by blast
  have zero: "fle (Fin 0) (sz_max_risk_per_trade z)" using m by simp
  have cap: "fle (fmax (fmin k (Fin m)) (Fin 0)) (Fin m)" if "k \<noteq> NaN" for k
    using that m(2) by (cases k) (auto simp: fmin_def fmax_def fle_def feq_def)
  have number: "fmul k (to_float (1 / 4)) \<noteq> NaN" if "isfinite k" for k
    using that by (cases k) (simp_all add: quarter)
  show ?thesis
  proof (cases "size_kelly z win_rate avg_win avg_loss = zero_position")
    case True
    with zero show ?thesis by (simp add: zero_position_def)
  next
    case False
    then obtain k where k: "isfinite k" "size_kelly z win_rate avg_win avg_loss
        = size_fixed_percent z (Fin 1) (fmax (fmin (fmul k (to_float (1 / 4))) (Fin m)) (Fin 0))"
      by (auto simp: size_kelly_def Let_def m(1) split: if_splits)
    with size_fixed_percent_share [of z "Fin 1" "fmax (fmin (fmul k (to_float (1 / 4))) (Fin m)) (Fin 0)"]
      cap [OF number [OF k(1)]] zero m(1) show ?thesis by auto
  qed
qed

text \<open>A risk-based size is of shares whose stop lies below the entry; anything else is no position.\<close>

lemma size_risk_based_positive:
  assumes "0 < pz_shares (size_risk_based z entry stop risk_percent)"
  shows "positive_float entry \<and> positive_float stop \<and> flt stop entry"
  using assms
  by (cases entry; cases stop)
    (auto simp: size_risk_based_def zero_position_def Let_def positive_float_def split: if_splits option.splits)

end
