(* ===== verification/Pre_Trade.thy ===== *)
theory Pre_Trade
  imports Position_Sizing Portfolio_Risk
begin

text \<open>
  \<open>src/risk/pre_trade.py\<close>: the approval an exposure-increasing order must carry. A decision is
  bound to one exact order and plan and is short-lived; \<open>assess_orb_entry_candidate\<close> builds it from
  the selected opening-range candidate (the dataclass of \<open>src/core/execution_queue.py\<close>), and
  \<open>require_pre_trade_risk_approval\<close> is the check at the gateway. The hash behind the plan
  identifier is an argument. Reasons carry their content instead of their wording.
\<close>

datatype orb_candidate_status =
    OCS_NOT_AVAILABLE | OCS_FORMING | OCS_WAITING_BREAKOUT | OCS_RISK_INVALID | OCS_VALID
  | OCS_EXECUTE_READY | OCS_REJECTED

record orb_candidate =
  oc_symbol :: string
  oc_window :: string
  oc_orb_high :: "pyfloat option"
  oc_orb_low :: "pyfloat option"
  oc_breakout_price :: "pyfloat option"
  oc_breakout_trigger :: "pyfloat option"
  oc_entry_trigger :: "pyfloat option"
  oc_execution_price :: "pyfloat option"
  oc_floor_price :: "pyfloat option"
  oc_current_price :: "pyfloat option"
  oc_source_session_date :: "string option"
  oc_stop_loss :: "pyfloat option"
  oc_shares :: int
  oc_capital_percent :: pyfloat
  oc_stop_loss_percent :: pyfloat
  oc_stop_adr :: "pyfloat option"
  oc_risk_percent :: pyfloat
  oc_score :: pyfloat
  oc_score_version :: string
  oc_range_closed_at :: "string option"
  oc_breakout_confirmed :: bool
  oc_breakout_confirmed_at :: "string option"
  oc_candidate_created_at :: string
  oc_execution_price_manual :: bool
  oc_status :: orb_candidate_status
  oc_valid :: bool
  oc_terminal_rejection :: bool
  oc_warnings :: "string list"
  oc_reason :: string

subsection \<open>Share quantities\<close>

text \<open>A quantity as the code receives it: a boolean, a number (an integer has been converted), or
  something \<open>float\<close> rejects.\<close>

datatype share_value = SvBool bool | SvNumber pyfloat | SvOther

definition normalize_share_quantity :: "share_value \<Rightarrow> int option" where
  "normalize_share_quantity v =
     (case v of
        SvNumber (Fin x) \<Rightarrow> if 0 < x \<and> of_int \<lfloor>x\<rfloor> = x then Some \<lfloor>x\<rfloor> else None
      | _ \<Rightarrow> None)"

definition share_number :: "int \<Rightarrow> share_value" where
  "share_number n = SvNumber (float_of_int n)"

lemma normalize_share_number:
  "\<bar>n\<bar> \<le> 2 ^ 53 \<Longrightarrow> normalize_share_quantity (share_number n) = (if 0 < n then Some n else None)"
  by (simp add: normalize_share_quantity_def share_number_def float_of_int_exact)

lemma normalize_positive: "normalize_share_quantity v = Some n \<Longrightarrow> 0 < n"
  by (auto simp: normalize_share_quantity_def split: share_value.splits pyfloat.splits if_splits)

subsection \<open>The decision\<close>

datatype approval_reason =
    NoCandidate
  | SymbolDiffers
  | PlanIdDiffers
  | CandidateNotReady orb_candidate_status
  | QuantityDiffers
  | EntryTriggerInvalid
  | PriceDiffersFromTrigger
  | StopNotBelowEntry
  | RiskMetricsIncomplete
  | BoundWarning orb_warning
  | CandidateWarning string
  | OtherReason string

record pre_trade_decision =
  pd_approved :: bool
  pd_environment :: string
  pd_account_no :: string
  pd_symbol :: string
  pd_side :: order_side
  pd_intent :: order_intent
  pd_quantity :: int
  pd_reference_price :: pyfloat
  pd_exchange :: string
  pd_execution_policy :: string
  pd_strategy_id :: string
  pd_plan_id :: string
  pd_evaluated_at :: timestamp
  pd_expires_at :: timestamp
  pd_reasons :: "approval_reason list"
  pd_portfolio_risk_reservation :: "reservation_spec option"

text \<open>30 seconds.\<close>

definition DEFAULT_APPROVAL_TTL :: int where
  "DEFAULT_APPROVAL_TTL = 30 * 1000000"

datatype decision_error = DecisionPriceInvalid | ShareQuantityInvalid

definition strip_reasons :: "approval_reason list \<Rightarrow> approval_reason list" where
  "strip_reasons rs = filter (\<lambda>r. r \<notin> {CandidateWarning [], OtherReason []})
     (map (\<lambda>r. case r of CandidateWarning w \<Rightarrow> CandidateWarning (py_strip w)
        | OtherReason w \<Rightarrow> OtherReason (py_strip w) | _ \<Rightarrow> r) rs)"

record order_fingerprint =
  of_environment :: string
  of_account_no :: string
  of_symbol :: string
  of_side :: order_side
  of_intent :: order_intent
  of_quantity :: share_value
  of_reference_price :: pyfloat
  of_exchange :: string
  of_execution_policy :: string
  of_strategy_id :: string
  of_plan_id :: string

definition create_decision ::
    "bool \<Rightarrow> order_fingerprint \<Rightarrow> approval_reason list \<Rightarrow> timestamp \<Rightarrow> timestamp option \<Rightarrow> reservation_spec option
       \<Rightarrow> decision_error + pre_trade_decision" where
  "create_decision approved f reasons evaluated expires spec =
     (if \<not> isfinite (of_reference_price f) \<or> fle (of_reference_price f) (Fin 0) then Inl DecisionPriceInvalid
      else case normalize_share_quantity (of_quantity f) of
        None \<Rightarrow> Inl ShareQuantityInvalid
      | Some n \<Rightarrow> Inr \<lparr>pd_approved = approved, pd_environment = normalized_text (of_environment f),
          pd_account_no = py_strip (of_account_no f), pd_symbol = normalized_text (of_symbol f),
          pd_side = of_side f, pd_intent = of_intent f, pd_quantity = n,
          pd_reference_price = of_reference_price f, pd_exchange = normalized_text (of_exchange f),
          pd_execution_policy = normalized_text (of_execution_policy f),
          pd_strategy_id = py_strip (of_strategy_id f), pd_plan_id = py_strip (of_plan_id f),
          pd_evaluated_at = evaluated,
          pd_expires_at = (case expires of None \<Rightarrow> evaluated + DEFAULT_APPROVAL_TTL | Some e \<Rightarrow> e),
          pd_reasons = strip_reasons reasons, pd_portfolio_risk_reservation = spec\<rparr>)"

subsection \<open>The check\<close>

datatype approval_error =
    ApprovalMissing | ApprovalInvalid | ApprovalMismatch | ApprovalWithoutPlan | ApprovalExpired | ApprovalRejected

definition price_matches :: "pyfloat \<Rightarrow> pyfloat \<Rightarrow> bool" where
  "price_matches a b \<longleftrightarrow> feq a b
     \<or> (isfinite a \<and> isfinite b \<and> fle (fabs (fsub b a)) (to_float (1 / 10 ^ 9)))"

definition require_pre_trade_risk_approval ::
    "pre_trade_decision option \<Rightarrow> order_fingerprint \<Rightarrow> timestamp \<Rightarrow> approval_error option" where
  "require_pre_trade_risk_approval decision f now =
     (case decision of None \<Rightarrow> Some ApprovalMissing
      | Some d \<Rightarrow>
          (case (normalize_share_quantity (of_quantity f), normalize_share_quantity (share_number (pd_quantity d))) of
             (Some requested, Some approved) \<Rightarrow> first_error
               [((pd_environment d, pd_account_no d, pd_symbol d, pd_side d, pd_intent d, approved, pd_exchange d,
                   pd_execution_policy d, pd_strategy_id d, pd_plan_id d)
                  \<noteq> (normalized_text (of_environment f), py_strip (of_account_no f), normalized_text (of_symbol f),
                     of_side f, of_intent f, requested, normalized_text (of_exchange f),
                     normalized_text (of_execution_policy f), py_strip (of_strategy_id f), py_strip (of_plan_id f))
                  \<or> \<not> price_matches (pd_reference_price d) (of_reference_price f), ApprovalMismatch),
                (pd_strategy_id d = [] \<or> pd_plan_id d = [], ApprovalWithoutPlan),
                (pd_expires_at d \<le> pd_evaluated_at d
                  \<or> DEFAULT_APPROVAL_TTL < pd_expires_at d - pd_evaluated_at d
                  \<or> now < pd_evaluated_at d \<or> pd_expires_at d < now, ApprovalExpired),
                (\<not> pd_approved d, ApprovalRejected)]
           | _ \<Rightarrow> Some ApprovalInvalid))"

subsection \<open>Assessing an opening-range candidate\<close>

definition option_float :: "pyfloat option \<Rightarrow> pyfloat option" where
  "option_float v = (case v of None \<Rightarrow> None | Some a \<Rightarrow> sizing_float a)"

type_synonym plan_payload =
  "string \<times> string \<times> pyfloat option \<times> pyfloat option \<times> int \<times> pyfloat option \<times> pyfloat option
     \<times> pyfloat option \<times> pyfloat option"

definition plan_payload_of :: "orb_candidate \<Rightarrow> plan_payload" where
  "plan_payload_of c = (py_upper (oc_symbol c), oc_window c, option_float (oc_entry_trigger c),
     option_float (oc_stop_loss c), oc_shares c, sizing_float (oc_capital_percent c),
     sizing_float (oc_stop_loss_percent c), option_float (oc_stop_adr c), sizing_float (oc_risk_percent c))"

definition orb_candidate_plan_id :: "(plan_payload \<Rightarrow> string) \<Rightarrow> orb_candidate option \<Rightarrow> string" where
  "orb_candidate_plan_id digest candidate =
     (case candidate of None \<Rightarrow> ''ORB:MISSING'' | Some c \<Rightarrow> ''ORB:'' @ digest (plan_payload_of c))"

definition planned_quantity :: "orb_candidate \<Rightarrow> int" where
  "planned_quantity c = (case normalize_share_quantity (share_number (oc_shares c)) of None \<Rightarrow> 0 | Some n \<Rightarrow> n)"

definition candidate_sizing :: "orb_candidate \<Rightarrow> pyfloat \<Rightarrow> pyfloat \<Rightarrow> orb_sizing" where
  "candidate_sizing c capital stop_percent =
     zero_position_values\<lparr>oz_shares := float_of_int (planned_quantity c), oz_capital_percent := capital,
       oz_stop_loss_percent := stop_percent, oz_sl_adr := option_float (oc_stop_adr c)\<rparr>"

definition candidate_reasons ::
    "(plan_payload \<Rightarrow> string) \<Rightarrow> orb_settings \<Rightarrow> orb_candidate \<Rightarrow> string \<Rightarrow> int \<Rightarrow> pyfloat \<Rightarrow> string
       \<Rightarrow> approval_reason list" where
  "candidate_reasons digest settings c ticker requested reference_price plan_id =
     (let entry = option_float (oc_entry_trigger c); stop = option_float (oc_stop_loss c);
          submitted = sizing_float reference_price;
          capital = sizing_float (oc_capital_percent c); stop_percent = sizing_float (oc_stop_loss_percent c)
      in when_reason (normalized_text (oc_symbol c) \<noteq> normalized_text ticker) SymbolDiffers
       @ when_reason (plan_id \<noteq> orb_candidate_plan_id digest (Some c)) PlanIdDiffers
       @ when_reason (oc_status c \<noteq> OCS_EXECUTE_READY \<or> \<not> oc_valid c) (CandidateNotReady (oc_status c))
       @ when_reason (planned_quantity c \<noteq> requested) QuantityDiffers
       @ (case entry of None \<Rightarrow> [EntryTriggerInvalid]
          | Some e \<Rightarrow> if fle e (Fin 0) then [EntryTriggerInvalid]
              else when_reason (case submitted of None \<Rightarrow> True | Some p \<Rightarrow> \<not> price_matches e p)
                PriceDiffersFromTrigger)
       @ when_reason (case (stop, entry) of
             (Some s, Some e) \<Rightarrow> fle s (Fin 0) \<or> fle e s | _ \<Rightarrow> True) StopNotBelowEntry
       @ (case (capital, stop_percent) of
             (Some cp, Some sp) \<Rightarrow>
               (case validate_orb_position_values (candidate_sizing c cp sp) None settings of
                  None \<Rightarrow> [] | Some ws \<Rightarrow> map BoundWarning ws)
           | _ \<Rightarrow> [RiskMetricsIncomplete])
       @ map CandidateWarning (oc_warnings c))"

definition assess_orb_entry_candidate ::
    "(plan_payload \<Rightarrow> string) \<Rightarrow> orb_settings \<Rightarrow> orb_candidate option \<Rightarrow> string \<Rightarrow> string \<Rightarrow> string \<Rightarrow> share_value
       \<Rightarrow> pyfloat \<Rightarrow> string \<Rightarrow> string \<Rightarrow> string \<Rightarrow> timestamp \<Rightarrow> decision_error + pre_trade_decision" where
  "assess_orb_entry_candidate digest settings candidate environment account_no ticker quantity reference_price
       plan_id exchange execution_policy evaluated_at =
     (case normalize_share_quantity quantity of
        None \<Rightarrow> Inl ShareQuantityInvalid
      | Some requested \<Rightarrow>
          let f = \<lparr>of_environment = environment, of_account_no = account_no, of_symbol = ticker, of_side = BUY,
                of_intent = ENTRY, of_quantity = share_number requested, of_reference_price = reference_price,
                of_exchange = exchange, of_execution_policy = execution_policy, of_strategy_id = ''ORB'',
                of_plan_id = plan_id\<rparr>;
              reasons = (case candidate of None \<Rightarrow> [NoCandidate]
                | Some c \<Rightarrow> candidate_reasons digest settings c ticker requested reference_price plan_id);
              normalized = dedup (filter (\<lambda>r. r \<noteq> CandidateWarning []) reasons)
          in create_decision (normalized = []) f normalized evaluated_at None None)"

subsection \<open>What an approval stands for\<close>

lemma approval_None_iff:
  "require_pre_trade_risk_approval decision f now = None \<longleftrightarrow>
     (\<exists>d requested. decision = Some d \<and> normalize_share_quantity (of_quantity f) = Some requested
        \<and> normalize_share_quantity (share_number (pd_quantity d)) = Some requested
        \<and> pd_environment d = normalized_text (of_environment f) \<and> pd_account_no d = py_strip (of_account_no f)
        \<and> pd_symbol d = normalized_text (of_symbol f) \<and> pd_side d = of_side f \<and> pd_intent d = of_intent f
        \<and> pd_exchange d = normalized_text (of_exchange f)
        \<and> pd_execution_policy d = normalized_text (of_execution_policy f)
        \<and> pd_strategy_id d = py_strip (of_strategy_id f) \<and> pd_plan_id d = py_strip (of_plan_id f)
        \<and> price_matches (pd_reference_price d) (of_reference_price f)
        \<and> pd_strategy_id d \<noteq> [] \<and> pd_plan_id d \<noteq> [] \<and> pd_evaluated_at d < pd_expires_at d
        \<and> pd_expires_at d - pd_evaluated_at d \<le> DEFAULT_APPROVAL_TTL \<and> pd_evaluated_at d \<le> now
        \<and> now \<le> pd_expires_at d \<and> pd_approved d)"
  by (simp add: require_pre_trade_risk_approval_def split: option.split) (auto simp: not_less not_le)

lemma dedup_Nil_iff [simp]: "dedup xs = [] \<longleftrightarrow> xs = []"
  by (cases xs) simp_all

lemma when_reason_Nil_iff [simp]: "when_reason c r = [] \<longleftrightarrow> \<not> c"
  by (simp add: when_reason_def)

definition entry_geometry :: "orb_candidate \<Rightarrow> bool" where
  "entry_geometry c \<longleftrightarrow> (\<exists>e s. oc_entry_trigger c = Some e \<and> oc_stop_loss c = Some s
     \<and> isfinite e \<and> isfinite s \<and> flt (Fin 0) s \<and> flt s e)"

lemma option_float_Some_iff: "option_float v = Some a \<longleftrightarrow> v = Some a \<and> isfinite a"
  by (auto simp: option_float_def sizing_float_def split: option.splits if_splits)

lemma finite_not_le: "isfinite a \<Longrightarrow> isfinite b \<Longrightarrow> \<not> fle a b \<longleftrightarrow> flt b a"
  by (cases a; cases b) auto

lemma candidate_reasons_ok:
  assumes "\<forall>r \<in> set (candidate_reasons digest settings c ticker requested price plan_id). r = CandidateWarning []"
  shows "normalized_text (oc_symbol c) = normalized_text ticker \<and> plan_id = orb_candidate_plan_id digest (Some c)
    \<and> oc_status c = OCS_EXECUTE_READY \<and> oc_valid c \<and> planned_quantity c = requested \<and> entry_geometry c"
proof -
  have w: "set (when_reason b r) = (if b then {r} else {})" for b and r :: approval_reason
    by (simp add: when_reason_def)
  have "normalized_text (oc_symbol c) = normalized_text ticker" "plan_id = orb_candidate_plan_id digest (Some c)"
    "oc_status c = OCS_EXECUTE_READY" "oc_valid c" "planned_quantity c = requested"
    using assms by (simp_all add: candidate_reasons_def Let_def w split: if_splits)
  moreover obtain e where e: "option_float (oc_entry_trigger c) = Some e" "\<not> fle e (Fin 0)"
    using assms
    by (cases "option_float (oc_entry_trigger c)") (auto simp: candidate_reasons_def Let_def w split: if_splits)
  moreover obtain s where s: "option_float (oc_stop_loss c) = Some s" "\<not> fle s (Fin 0)" "\<not> fle e s"
    using assms e(1)
    by (cases "option_float (oc_stop_loss c)") (auto simp: candidate_reasons_def Let_def w split: if_splits)
  ultimately show ?thesis
    using finite_not_le [of s "Fin 0"] finite_not_le [of e s]
    by (auto simp: entry_geometry_def option_float_Some_iff)
qed


definition sample_candidate :: orb_candidate where
  "sample_candidate =
     \<lparr>oc_symbol = ''AAPL'', oc_window = ''5m'', oc_orb_high = None, oc_orb_low = None, oc_breakout_price = None,
      oc_breakout_trigger = None, oc_entry_trigger = Some (Fin 50), oc_execution_price = None,
      oc_floor_price = None, oc_current_price = None, oc_source_session_date = None,
      oc_stop_loss = Some (Fin 48), oc_shares = 10, oc_capital_percent = Fin 20, oc_stop_loss_percent = Fin 4,
      oc_stop_adr = Some (Fin 50), oc_risk_percent = Fin 0, oc_score = Fin 0, oc_score_version = [],
      oc_range_closed_at = None, oc_breakout_confirmed = True, oc_breakout_confirmed_at = None,
      oc_candidate_created_at = [], oc_execution_price_manual = False, oc_status = OCS_EXECUTE_READY,
      oc_valid = True, oc_terminal_rejection = False, oc_warnings = [], oc_reason = []\<rparr>"

definition sample_fingerprint :: order_fingerprint where
  "sample_fingerprint =
     \<lparr>of_environment = ''PROD'', of_account_no = ''1'', of_symbol = ''AAPL'', of_side = BUY, of_intent = ENTRY,
      of_quantity = share_number 10, of_reference_price = Fin 50, of_exchange = ''NASD'',
      of_execution_policy = ''REGULAR_LIMIT'', of_strategy_id = ''ORB'', of_plan_id = ''ORB:x''\<rparr>"

lemma sample_fingerprint_texts:
  "normalized_text ''PROD'' = ''PROD''" "normalized_text ''AAPL'' = ''AAPL''" "normalized_text ''NASD'' = ''NASD''"
  "normalized_text ''REGULAR_LIMIT'' = ''REGULAR_LIMIT''" "py_strip ''1'' = ''1''" "py_strip ''ORB'' = ''ORB''"
  "py_strip ''ORB:x'' = ''ORB:x''"
  by code_simp+

lemma sample_assessed:
  "\<exists>d. assess_orb_entry_candidate (\<lambda>_. ''x'') DEFAULT_ORB_SETTINGS (Some sample_candidate) ''PROD'' ''1'' ''AAPL''
      (share_number 10) (Fin 50) ''ORB:x'' ''NASD'' ''REGULAR_LIMIT'' 0 = Inr d
    \<and> require_pre_trade_risk_approval (Some d) sample_fingerprint 5 = None"
proof -
  have ten: "normalize_share_quantity (share_number 10) = Some 10" "float_of_int 10 = Fin 10"
    using normalize_share_number [of 10] float_of_int_exact [of 10] by simp_all
  have same: "price_matches (Fin 50) (Fin 50)" by (simp add: price_matches_def feq_def)
  have "candidate_reasons (\<lambda>_. ''x'') DEFAULT_ORB_SETTINGS sample_candidate ''AAPL'' 10 (Fin 50) ''ORB:x'' = []"
    using ten same
    by (simp add: candidate_reasons_def Let_def sample_candidate_def option_float_def sizing_float_def
        orb_candidate_plan_id_def planned_quantity_def candidate_sizing_def validate_orb_position_values_def
        DEFAULT_ORB_SETTINGS_def py_int_def zero_position_values_def)
  then show ?thesis
    using ten same
    by (simp add: assess_orb_entry_candidate_def create_decision_def approval_None_iff sample_fingerprint_def
        sample_fingerprint_texts DEFAULT_APPROVAL_TTL_def)
qed


end
