(* ===== verification/Command_Store.thy ===== *)
theory Command_Store
  imports Versioned_Store
begin

text \<open>
  \<open>src/services/execution_command_repository.py\<close>: the journal of commands written before every
  broker call. A unique constraint on the idempotency key makes the second journaling of a
  command fail; the outcome is recorded once, by a conditional update that only applies while the
  row is still \<open>REQUESTED\<close> at the expected version. Rows are read in the order of their ids.
  The redaction of broker payloads (\<open>src/utils/redaction.py\<close>, with the hash of the redacted form)
  is an argument. A timestamp that does not parse is \<open>None\<close>.
\<close>

datatype command_type = CT_SUBMIT | CT_CANCEL | CT_REPLACE

datatype command_status =
    CS_REQUESTED | CS_ACKNOWLEDGED | CS_FAILED | CS_AMBIGUOUS | CS_PRE_BROKER_ABORTED | CS_COMPLETED

record exec_command =
  ec_idempotency_key :: string
  ec_command_type :: command_type
  ec_environment :: string
  ec_account_no :: string
  ec_symbol :: string
  ec_lease_epoch :: int
  ec_owner_device_id :: string
  ec_lease_token :: string
  ec_target_broker_order_id :: string
  ec_requested_at :: "timestamp option"
  ec_status :: command_status
  ec_redacted_response :: json_dict
  ec_response_hash :: string
  ec_command_id :: "int option"
  ec_version :: int
  ec_source :: string

type_synonym redaction = "string \<Rightarrow> json_dict \<Rightarrow> json_dict \<times> string"

datatype command_error =
    BlankIdempotencyKey
  | CommandTimestampInvalid
  | DuplicateCommand
  | CommandNotFound
  | CommandResponseConflict

definition command_post_init :: "redaction \<Rightarrow> exec_command \<Rightarrow> command_error + exec_command" where
  "command_post_init redact c =
     (let key = py_strip (ec_idempotency_key c)
      in if key = [] then Inl BlankIdempotencyKey
         else Inr (c\<lparr>ec_idempotency_key := key, ec_environment := py_upper (ec_environment c),
           ec_symbol := py_upper (ec_symbol c),
           ec_redacted_response := fst (redact (ec_account_no c) (ec_redacted_response c)),
           ec_version := (if ec_version c = 0 then 1 else ec_version c)\<rparr>))"

record command_table =
  cm_keys :: "string list"
  cm_rows :: "string \<rightharpoonup> exec_command"
  cm_next_id :: int

definition empty_commands :: command_table where
  "empty_commands = \<lparr>cm_keys = [], cm_rows = Map.empty, cm_next_id = 1\<rparr>"

definition insert_command ::
    "exec_command \<Rightarrow> command_table \<Rightarrow> command_error + (exec_command \<times> command_table)" where
  "insert_command c t =
     (let k = ec_idempotency_key c; c' = c\<lparr>ec_command_id := Some (cm_next_id t)\<rparr>
      in if ec_requested_at c = None then Inl CommandTimestampInvalid
         else if cm_rows t k \<noteq> None then Inl DuplicateCommand
         else Inr (c', t\<lparr>cm_keys := cm_keys t @ [k], cm_rows := (cm_rows t)(k \<mapsto> c'),
           cm_next_id := cm_next_id t + 1\<rparr>))"

definition update_command_response ::
    "redaction \<Rightarrow> string \<Rightarrow> command_status \<Rightarrow> json_dict \<Rightarrow> int option \<Rightarrow> command_table
       \<Rightarrow> command_error + (exec_command \<times> command_table)" where
  "update_command_response redact key status response expected_version t =
     (case cm_rows t key of
        None \<Rightarrow> Inl CommandNotFound
      | Some current \<Rightarrow>
          let guard_version = (case expected_version of None \<Rightarrow> ec_version current | Some n \<Rightarrow> n);
              (redacted, digest) = redact (ec_account_no current) response;
              row = current\<lparr>ec_status := status, ec_redacted_response := redacted, ec_response_hash := digest,
                ec_version := guard_version + 1\<rparr>
          in if ec_status current \<noteq> CS_REQUESTED \<or> ec_version current \<noteq> guard_version
             then Inl CommandResponseConflict
             else Inr (row, t\<lparr>cm_rows := (cm_rows t)(key \<mapsto> row)\<rparr>))"

definition get_command :: "command_table \<Rightarrow> string \<Rightarrow> exec_command option" where
  "get_command t key = cm_rows t key"

definition list_execution_commands_for_account :: "command_table \<Rightarrow> string \<Rightarrow> string \<Rightarrow> exec_command list" where
  "list_execution_commands_for_account t environment account_no =
     filter (\<lambda>c. ec_environment c = py_upper environment \<and> ec_account_no c = account_no)
       (List.map_filter (cm_rows t) (cm_keys t))"

lemma insert_command_Inr_iff:
  "insert_command c t = Inr (c', t') \<longleftrightarrow> ec_requested_at c \<noteq> None \<and> cm_rows t (ec_idempotency_key c) = None
     \<and> c' = c\<lparr>ec_command_id := Some (cm_next_id t)\<rparr>
     \<and> t' = t\<lparr>cm_keys := cm_keys t @ [ec_idempotency_key c], cm_rows := (cm_rows t)(ec_idempotency_key c \<mapsto> c'),
              cm_next_id := cm_next_id t + 1\<rparr>"
  by (auto simp: insert_command_def Let_def)

lemma update_command_Inr_iff:
  "update_command_response redact k s resp n t = Inr (c', t') \<longleftrightarrow>
     (\<exists>c. cm_rows t k = Some c \<and> ec_status c = CS_REQUESTED \<and> (n = None \<or> n = Some (ec_version c))
        \<and> c' = c\<lparr>ec_status := s, ec_redacted_response := fst (redact (ec_account_no c) resp),
             ec_response_hash := snd (redact (ec_account_no c) resp), ec_version := ec_version c + 1\<rparr>
        \<and> t' = t\<lparr>cm_rows := (cm_rows t)(k \<mapsto> c')\<rparr>)"
  by (auto simp: update_command_response_def Let_def split: option.splits prod.splits)

text \<open>An outcome is final: once recorded, every further response is refused.\<close>

lemma response_is_final:
  assumes "update_command_response redact k s resp n t = Inr (c', t')" "s \<noteq> CS_REQUESTED"
  shows "update_command_response redact' k s' resp' n' t' = Inl CommandResponseConflict"
proof -
  obtain c where "cm_rows t' k = Some c" "ec_status c = s"
    using assms(1) by (auto simp: update_command_Inr_iff)
  with assms(2) show ?thesis by (simp add: update_command_response_def Let_def split: prod.split)
qed

subsection \<open>The journal as a fenced store\<close>

definition command_version :: "command_table \<Rightarrow> string \<Rightarrow> int option" where
  "command_version t k = map_option ec_version (cm_rows t k)"

definition outcome_row :: "command_table \<Rightarrow> string \<Rightarrow> (command_status \<times> int) option" where
  "outcome_row t k = map_option (\<lambda>c. (ec_status c, ec_version c)) (cm_rows t k)"

definition put_outcome ::
    "redaction \<Rightarrow> string \<Rightarrow> int \<Rightarrow> command_status \<times> json_dict \<Rightarrow> command_table \<Rightarrow> command_table option" where
  "put_outcome redact k n v t =
     (case update_command_response redact k (fst v) (snd v) (Some n) t of Inl e \<Rightarrow> None | Inr (c, t') \<Rightarrow> Some t')"

interpretation commands:
  fenced_store command_version outcome_row "put_outcome redact" "\<lambda>k v m. (fst v, m)" for redact
  by unfold_locales
    (auto simp: put_outcome_def update_command_Inr_iff command_version_def outcome_row_def split: sum.splits)

end
