(* ===== verification/Device_State.thy ===== *)
theory Device_State
  imports Versioned_Store
begin

text \<open>
  \<open>src/core/runtime_readiness.py\<close> and \<open>src/services/runtime_device_state_repository.py\<close>: when the
  engine may execute, when a device may give up its lease, and the table in which every device
  publishes its readiness. Entering STANDBY_READY opens a new readiness generation; the outgoing
  owner confirms one generation, and leaving the state withdraws the confirmation.

  The details a device publishes are JSON values; ages are microseconds, exact where the code's
  seconds are doubles.
\<close>

subsection \<open>Readiness\<close>

datatype runtime_device_state =
    RDS_STARTING | RDS_STANDBY | RDS_STANDBY_READY | RDS_ACTIVE | RDS_SHUTTING_DOWN | RDS_STOPPED | RDS_FAILED

record engine_readiness =
  er_lease_current :: bool
  er_startup_reconciliation_complete :: bool
  er_account_reconciliation_fresh :: bool
  er_websocket_connected :: bool
  er_critical_trade_subscriptions_acked :: bool
  er_critical_quote_subscriptions_acked :: bool
  er_critical_quotes_fresh :: bool
  er_accumulator_draining_within_budget :: bool
  er_database_writable :: bool
  er_device_active :: bool

definition standby_check_results :: "engine_readiness \<Rightarrow> (string \<times> bool) list" where
  "standby_check_results e =
     [(''startup_reconciliation_complete'', er_startup_reconciliation_complete e),
      (''account_reconciliation_fresh'', er_account_reconciliation_fresh e),
      (''websocket_connected'', er_websocket_connected e),
      (''critical_trade_subscriptions_acked'', er_critical_trade_subscriptions_acked e),
      (''critical_quote_subscriptions_acked'', er_critical_quote_subscriptions_acked e),
      (''accumulator_draining_within_budget'', er_accumulator_draining_within_budget e),
      (''database_writable'', er_database_writable e)]"

definition standby_blockers :: "engine_readiness \<Rightarrow> string list" where
  "standby_blockers e = map fst (filter (\<lambda>(n, passed). \<not> passed) (standby_check_results e))"

definition standby_checks_completed :: "engine_readiness \<Rightarrow> nat" where
  "standby_checks_completed e = length (filter snd (standby_check_results e))"

definition engine_healthy :: "engine_readiness \<Rightarrow> bool" where
  "engine_healthy e \<longleftrightarrow> er_lease_current e \<and> er_startup_reconciliation_complete e
     \<and> er_account_reconciliation_fresh e \<and> er_websocket_connected e
     \<and> er_critical_trade_subscriptions_acked e \<and> er_critical_quote_subscriptions_acked e
     \<and> er_critical_quotes_fresh e \<and> er_accumulator_draining_within_budget e
     \<and> er_database_writable e \<and> er_device_active e"

definition standby_ready :: "engine_readiness \<Rightarrow> bool" where
  "standby_ready e = list_all snd (standby_check_results e)"

text \<open>The premarket check lists the same fields.\<close>

definition premarket_handoff_ready :: "engine_readiness \<Rightarrow> bool" where
  "premarket_handoff_ready e = list_all snd (standby_check_results e)"

lemma standby_ready_blockers: "standby_ready e \<longleftrightarrow> standby_blockers e = []"
  by (auto simp: standby_ready_def standby_blockers_def filter_empty_conv list_all_iff)

subsection \<open>Shutting down\<close>

record shutdown_exposure =
  se_open_positions :: "string list"
  se_working_orders :: "string list"
  se_inspection_confirmed :: bool

definition exposure_is_clear :: "shutdown_exposure \<Rightarrow> bool" where
  "exposure_is_clear x \<longleftrightarrow>
     se_inspection_confirmed x \<and> \<not> (se_open_positions x \<noteq> [] \<or> se_working_orders x \<noteq> [])"

datatype shutdown_reason =
    UnattendedUnknownExposure | AcceptedUnknownExposure | UnknownExposureNeedsAcceptance
  | NoExposure | SuccessorConfirmed
  | UnattendedExposure | AcceptedExposure | ExposureNeedsAcceptance

definition decide_shutdown_lease_release ::
    "shutdown_exposure \<Rightarrow> bool \<Rightarrow> bool \<Rightarrow> bool \<Rightarrow> bool \<Rightarrow> bool \<times> shutdown_reason" where
  "decide_shutdown_lease_release x successor_standby_ready handoff_confirmed unattended accepted =
     (if \<not> se_inspection_confirmed x
      then if unattended then (False, UnattendedUnknownExposure)
           else if accepted then (True, AcceptedUnknownExposure)
           else (False, UnknownExposureNeedsAcceptance)
      else if exposure_is_clear x then (True, NoExposure)
      else if successor_standby_ready \<and> handoff_confirmed then (True, SuccessorConfirmed)
      else if unattended then (False, UnattendedExposure)
      else if accepted then (True, AcceptedExposure)
      else (False, ExposureNeedsAcceptance))"

lemma unattended_release_safe:
  "fst (decide_shutdown_lease_release x successor handoff True accepted) \<longleftrightarrow>
     exposure_is_clear x \<or> (se_inspection_confirmed x \<and> successor \<and> handoff)"
  by (auto simp: decide_shutdown_lease_release_def exposure_is_clear_def)

subsection \<open>The device table\<close>

record runtime_device =
  rd_device_id :: string
  rd_hostname :: string
  rd_state :: runtime_device_state
  rd_handoff_confirmed :: bool
  rd_readiness_generation :: int
  rd_confirmed_generation :: int
  rd_confirmed_by_lease_epoch :: int
  rd_confirmed_at :: "timestamp option"
  rd_updated_at :: timestamp
  rd_schema_version :: int
  rd_details :: json_dict

record device_table =
  dt_ids :: "string list"
  dt_rows :: "string \<rightharpoonup> runtime_device"

fun json_true :: "json \<Rightarrow> bool" where
  "json_true JNull = False"
| "json_true (JBool b) = b"
| "json_true (JInt i) = (i \<noteq> 0)"
| "json_true (JStr s) = (s \<noteq> [])"
| "json_true (JList xs) = (xs \<noteq> [])"
| "json_true (JDict d) = (d \<noteq> [])"

definition detail_true :: "runtime_device \<Rightarrow> string \<Rightarrow> bool" where
  "detail_true r k = (case map_of (rd_details r) k of None \<Rightarrow> False | Some v \<Rightarrow> json_true v)"

definition COORDINATION_RU_PROFILE :: string where
  "COORDINATION_RU_PROFILE = ''operator-executor-sync-v8''"

definition runtime_row_owns_process_liveness :: "runtime_device \<Rightarrow> bool" where
  "runtime_row_owns_process_liveness r \<longleftrightarrow> map_of (rd_details r) ''main_py_alive'' \<noteq> None
     \<and> map_of (rd_details r) ''coordination_ru_profile'' = Some (JStr COORDINATION_RU_PROFILE)"

datatype device_error = MissingDeviceId | StandbyNeedsGeneration

definition write_device :: "runtime_device \<Rightarrow> device_table \<Rightarrow> device_table" where
  "write_device r t =
     t\<lparr>dt_ids := (if dt_rows t (rd_device_id r) = None then dt_ids t @ [rd_device_id r] else dt_ids t),
       dt_rows := (dt_rows t)(rd_device_id r \<mapsto> r)\<rparr>"

definition save_runtime_device_state ::
    "timestamp \<Rightarrow> string \<Rightarrow> string \<Rightarrow> runtime_device_state \<Rightarrow> bool \<Rightarrow> int \<Rightarrow> json_dict option \<Rightarrow> device_table
       \<Rightarrow> device_error + (runtime_device \<times> device_table)" where
  "save_runtime_device_state server_now raw_id hostname state handoff_confirmed schema details t =
     (let device_id = py_strip raw_id; existing = dt_rows t device_id;
          prior = (case existing of None \<Rightarrow> 0 | Some r \<Rightarrow> rd_readiness_generation r);
          staying = (case existing of None \<Rightarrow> False
            | Some r \<Rightarrow> state = RDS_STANDBY_READY \<and> rd_state r = RDS_STANDBY_READY);
          generation = (if staying then prior else if state = RDS_STANDBY_READY then prior + 1 else prior);
          confirmed = handoff_confirmed \<and> state = RDS_STANDBY_READY;
          fresh = \<lparr>rd_device_id = device_id, rd_hostname = hostname, rd_state = state,
            rd_handoff_confirmed = confirmed, rd_readiness_generation = generation,
            rd_confirmed_generation = (if confirmed then generation else 0),
            rd_confirmed_by_lease_epoch = 0,
            rd_confirmed_at = (if confirmed then Some server_now else None),
            rd_updated_at = server_now, rd_schema_version = schema,
            rd_details = (case details of Some d \<Rightarrow> d
              | None \<Rightarrow> (case existing of None \<Rightarrow> [] | Some r \<Rightarrow> rd_details r))\<rparr>;
          row = (case existing of
              Some r \<Rightarrow> if staying
                then fresh\<lparr>rd_handoff_confirmed := rd_handoff_confirmed r,
                       rd_confirmed_generation := rd_confirmed_generation r,
                       rd_confirmed_by_lease_epoch := rd_confirmed_by_lease_epoch r,
                       rd_confirmed_at := rd_confirmed_at r\<rparr>
                else fresh
            | None \<Rightarrow> fresh)
      in if device_id = [] then Inl MissingDeviceId else Inr (row, write_device row t))"

definition refresh_runtime_device_state ::
    "timestamp \<Rightarrow> string \<Rightarrow> string \<Rightarrow> runtime_device_state \<Rightarrow> int \<Rightarrow> json_dict option \<Rightarrow> bool \<Rightarrow> device_table
       \<Rightarrow> device_error + (bool \<times> device_table)" where
  "refresh_runtime_device_state server_now raw_id hostname state schema details heartbeat_only t =
     (let device_id = py_strip raw_id
      in if device_id = [] then Inl MissingDeviceId
         else case dt_rows t device_id of
           None \<Rightarrow> Inr (False, t)
         | Some r \<Rightarrow>
             if rd_state r \<noteq> state \<or> heartbeat_only \<and> (rd_hostname r \<noteq> hostname \<or> rd_schema_version r \<noteq> schema)
             then Inr (False, t)
             else Inr (True, t\<lparr>dt_rows := (dt_rows t)(device_id \<mapsto>
               (if heartbeat_only then r
                else r\<lparr>rd_hostname := hostname, rd_schema_version := schema,
                       rd_details := (case details of None \<Rightarrow> [] | Some d \<Rightarrow> d)\<rparr>)
               \<lparr>rd_updated_at := server_now\<rparr>)\<rparr>))"

definition publish_runtime_device_state_transition ::
    "timestamp \<Rightarrow> string \<Rightarrow> string \<Rightarrow> runtime_device_state \<Rightarrow> int \<Rightarrow> json_dict option \<Rightarrow> device_table
       \<Rightarrow> device_error + device_table" where
  "publish_runtime_device_state_transition server_now raw_id hostname state schema details t =
     (let device_id = py_strip raw_id
      in guarded (first_error [(device_id = [], MissingDeviceId),
             (state = RDS_STANDBY_READY, StandbyNeedsGeneration)])
         (case dt_rows t device_id of
            Some r \<Rightarrow> Inr (t\<lparr>dt_rows := (dt_rows t)(device_id \<mapsto>
              r\<lparr>rd_hostname := hostname, rd_state := state, rd_schema_version := schema,
                rd_handoff_confirmed := False, rd_confirmed_generation := 0,
                rd_confirmed_by_lease_epoch := 0, rd_confirmed_at := None,
                rd_details := (case details of None \<Rightarrow> [] | Some d \<Rightarrow> d), rd_updated_at := server_now\<rparr>)\<rparr>)
          | None \<Rightarrow> map_sum id snd
              (save_runtime_device_state server_now device_id hostname state False schema details t)))"

definition fresh_age :: "timestamp \<Rightarrow> int \<Rightarrow> runtime_device \<Rightarrow> bool" where
  "fresh_age now max_age r \<longleftrightarrow> 0 \<le> now - rd_updated_at r \<and> now - rd_updated_at r \<le> max_age"

definition confirm_standby_handoff ::
    "timestamp \<Rightarrow> timestamp \<Rightarrow> string \<Rightarrow> int \<Rightarrow> int \<Rightarrow> int \<Rightarrow> device_table \<Rightarrow> bool \<times> device_table" where
  "confirm_standby_handoff now server_now device_id generation outgoing_epoch max_age t =
     (case dt_rows t device_id of
        None \<Rightarrow> (False, t)
      | Some r \<Rightarrow>
          if rd_state r = RDS_STANDBY_READY \<and> 0 < generation \<and> rd_readiness_generation r = generation
             \<and> 0 < outgoing_epoch \<and> fresh_age now max_age r
          then (True, t\<lparr>dt_rows := (dt_rows t)(device_id \<mapsto>
                 r\<lparr>rd_handoff_confirmed := True, rd_confirmed_generation := generation,
                   rd_confirmed_by_lease_epoch := outgoing_epoch, rd_confirmed_at := Some server_now\<rparr>)\<rparr>)
          else (False, t))"

datatype standby_error =
    GenerationNotPositive | NoReadinessRow | NotStandbyReady | GenerationChanged | StandbyHeartbeatStale

definition verify_standby_generation_for_claim ::
    "timestamp \<Rightarrow> string \<Rightarrow> int \<Rightarrow> int \<Rightarrow> device_table \<Rightarrow> standby_error option" where
  "verify_standby_generation_for_claim now device_id generation max_age t =
     (if generation \<le> 0 then Some GenerationNotPositive
      else case dt_rows t device_id of
        None \<Rightarrow> Some NoReadinessRow
      | Some r \<Rightarrow> first_error
          [(rd_state r \<noteq> RDS_STANDBY_READY, NotStandbyReady),
           (rd_readiness_generation r \<noteq> generation, GenerationChanged),
           (\<not> fresh_age now max_age r, StandbyHeartbeatStale)])"

definition get_runtime_device_state :: "device_table \<Rightarrow> string \<Rightarrow> runtime_device option" where
  "get_runtime_device_state t device_id = dt_rows t device_id"

text \<open>Staleness of the owner's row; \<open>None\<close> when the row does not carry the process heartbeat.\<close>

definition runtime_device_row_is_stale ::
    "timestamp option \<Rightarrow> string \<Rightarrow> int \<Rightarrow> device_table \<Rightarrow> bool option" where
  "runtime_device_row_is_stale server_now device_id max_age t =
     (case dt_rows t device_id of
        None \<Rightarrow> None
      | Some r \<Rightarrow>
          if \<not> runtime_row_owns_process_liveness r then None
          else case server_now of
            None \<Rightarrow> Some True
          | Some reference \<Rightarrow> Some (max_age < max 0 (reference - rd_updated_at r)
              \<or> \<not> detail_true r ''main_py_alive'' \<or> rd_state r \<in> {RDS_STOPPED, RDS_FAILED}))"

definition table_devices :: "device_table \<Rightarrow> runtime_device list" where
  "table_devices t = List.map_filter (dt_rows t) (dt_ids t)"

definition find_standby_successor ::
    "timestamp \<Rightarrow> string \<Rightarrow> int \<Rightarrow> bool \<Rightarrow> int \<Rightarrow> device_table \<Rightarrow> runtime_device option" where
  "find_standby_successor now excluding max_age require_confirmed outgoing_epoch t =
     List.find (\<lambda>r. fresh_age now max_age r \<and> (\<not> require_confirmed
           \<or> rd_handoff_confirmed r \<and> rd_confirmed_generation r = rd_readiness_generation r
             \<and> 0 < outgoing_epoch \<and> rd_confirmed_by_lease_epoch r = outgoing_epoch))
       (sort_key (\<lambda>r. - rd_updated_at r)
         (filter (\<lambda>r. rd_device_id r \<noteq> excluding \<and> rd_state r = RDS_STANDBY_READY
            \<and> (require_confirmed \<longrightarrow> rd_handoff_confirmed r)) (table_devices t)))"

definition find_confirmed_standby_successor ::
    "timestamp \<Rightarrow> string \<Rightarrow> int \<Rightarrow> int \<Rightarrow> device_table \<Rightarrow> runtime_device option" where
  "find_confirmed_standby_successor now excluding max_age outgoing_epoch =
     find_standby_successor now excluding max_age True outgoing_epoch"

subsection \<open>A confirmation is for the current generation\<close>

definition devices_wf :: "device_table \<Rightarrow> bool" where
  "devices_wf t \<longleftrightarrow> (\<forall>k r. dt_rows t k = Some r \<longrightarrow> rd_device_id r = k
     \<and> (rd_handoff_confirmed r \<longrightarrow>
          rd_state r = RDS_STANDBY_READY \<and> rd_confirmed_generation r = rd_readiness_generation r))"

inductive device_step :: "device_table \<Rightarrow> device_table \<Rightarrow> bool" where
  save: "save_runtime_device_state now i h s c v d t = Inr (r, t') \<Longrightarrow> device_step t t'"
| refresh: "refresh_runtime_device_state now i h s v d b t = Inr (written, t') \<Longrightarrow> device_step t t'"
| publish: "publish_runtime_device_state_transition now i h s v d t = Inr t' \<Longrightarrow> device_step t t'"
| confirm: "confirm_standby_handoff now server_now i g e a t = (done, t') \<Longrightarrow> device_step t t'"

definition generation_of :: "device_table \<Rightarrow> string \<Rightarrow> int" where
  "generation_of t k = (case dt_rows t k of None \<Rightarrow> 0 | Some r \<Rightarrow> rd_readiness_generation r)"

lemma save_device:
  assumes "save_runtime_device_state now i h s c v d t = Inr (r, t')" "devices_wf t"
  shows "devices_wf t' \<and> generation_of t k \<le> generation_of t' k"
  using assms
  by (auto simp: save_runtime_device_state_def Let_def write_device_def devices_wf_def generation_of_def
      split: option.splits if_splits)

lemma device_step_wf:
  assumes "device_step t t'" "devices_wf t"
  shows "devices_wf t' \<and> generation_of t k \<le> generation_of t' k"
  using assms(1)
proof cases
  case (save now i h s c v d r)
  with assms(2) show ?thesis by (blast dest: save_device)
next
  case (refresh now i h s v d b written)
  with assms(2) show ?thesis
    by (auto simp: refresh_runtime_device_state_def Let_def devices_wf_def generation_of_def
        split: option.splits if_splits)
next
  case (publish now i h s v d)
  show ?thesis
  proof (cases "dt_rows t (py_strip i)")
    case None
    with publish obtain r where "save_runtime_device_state now (py_strip i) h s False v d t = Inr (r, t')"
      by (auto simp: publish_runtime_device_state_transition_def Let_def guard_simps map_sum_def
          split: sum.splits)
    with assms(2) show ?thesis by (blast dest: save_device)
  next
    case (Some r)
    with publish assms(2) show ?thesis
      by (auto simp: publish_runtime_device_state_transition_def Let_def guard_simps devices_wf_def
          generation_of_def split: if_splits)
  qed
next
  case (confirm now server_now i g e a finished)
  with assms(2) show ?thesis
    by (auto simp: confirm_standby_handoff_def devices_wf_def generation_of_def split: option.splits if_splits)
qed

subsection \<open>A generation is good for one stay in readiness\<close>

text \<open>The device left readiness at this generation, or has a later one.\<close>

definition generation_spent :: "string \<Rightarrow> int \<Rightarrow> device_table \<Rightarrow> bool" where
  "generation_spent k g t \<longleftrightarrow> (\<exists>r. dt_rows t k = Some r \<and> (g < rd_readiness_generation r
     \<or> g \<le> rd_readiness_generation r \<and> rd_state r \<noteq> RDS_STANDBY_READY))"

lemma generation_spent_refused:
  "generation_spent k g t \<Longrightarrow> verify_standby_generation_for_claim now k g max_age t \<noteq> None"
  by (auto simp: generation_spent_def verify_standby_generation_for_claim_def)

lemma generation_spent_save:
  assumes "save_runtime_device_state now i h s c v d t = Inr (r, t')" "generation_spent k g t"
  shows "generation_spent k g t'"
  using assms
  by (auto simp: save_runtime_device_state_def Let_def write_device_def generation_spent_def
      split: option.splits if_splits)

lemma generation_spent_step:
  assumes "device_step t t'" "generation_spent k g t"
  shows "generation_spent k g t'"
  using assms(1)
proof cases
  case (save now i h s c v d r)
  with assms(2) show ?thesis by (blast dest: generation_spent_save)
next
  case (refresh now i h s v d b written)
  with assms(2) show ?thesis
    by (auto simp: refresh_runtime_device_state_def Let_def generation_spent_def split: option.splits if_splits)
next
  case (publish now i h s v d)
  show ?thesis
  proof (cases "dt_rows t (py_strip i)")
    case None
    with publish obtain r where "save_runtime_device_state now (py_strip i) h s False v d t = Inr (r, t')"
      by (auto simp: publish_runtime_device_state_transition_def Let_def guard_simps map_sum_def
          split: sum.splits)
    with assms(2) show ?thesis by (blast dest: generation_spent_save)
  next
    case (Some r)
    with publish assms(2) show ?thesis
      by (auto simp: publish_runtime_device_state_transition_def Let_def guard_simps generation_spent_def
          split: if_splits)
  qed
next
  case (confirm now server_now i g' e a finished)
  with assms(2) show ?thesis
    by (auto simp: confirm_standby_handoff_def generation_spent_def split: option.splits if_splits)
qed

lemma generation_spent_steps:
  assumes "device_step\<^sup>*\<^sup>* t t'" "generation_spent k g t"
  shows "generation_spent k g t'"
  using assms by (induction rule: rtranclp_induct) (use generation_spent_step in blast)+

lemma device_row_steps:
  assumes "device_step\<^sup>*\<^sup>* t t'" "devices_wf t"
  shows "devices_wf t' \<and> generation_of t k \<le> generation_of t' k"
  using assms by (induction rule: rtranclp_induct) (use device_step_wf order_trans in blast)+

text \<open>
  A readiness generation is good for one uninterrupted stay in readiness. When a standby
  whose generation a claim could have presented is later seen in any other state, that generation is
  refused from then on, however often the device becomes ready again and whatever it publishes: a
  takeover cannot rest on a readiness that was given up.
\<close>

theorem abandoned_readiness_refused:
  assumes "devices_wf t" "verify_standby_generation_for_claim now k g max_age t = None"
    and "device_step\<^sup>*\<^sup>* t t1" "dt_rows t1 k = Some r" "rd_state r \<noteq> RDS_STANDBY_READY"
    and "device_step\<^sup>*\<^sup>* t1 t2"
  shows "verify_standby_generation_for_claim now' k g max_age' t2 \<noteq> None"
proof -
  have "generation_of t k = g"
    using assms(2)
    by (auto simp: verify_standby_generation_for_claim_def generation_of_def split: if_splits option.splits)
  with device_row_steps [OF assms(3,1), of k] assms(4,5) have "generation_spent k g t1"
    by (simp add: generation_spent_def generation_of_def)
  then show ?thesis
    by (rule generation_spent_refused [OF generation_spent_steps [OF assms(6)]])
qed

definition sample_device :: "runtime_device_state \<Rightarrow> int \<Rightarrow> runtime_device" where
  "sample_device state generation =
     \<lparr>rd_device_id = ''d'', rd_hostname = ''h'', rd_state = state, rd_handoff_confirmed = False,
      rd_readiness_generation = generation, rd_confirmed_generation = 0, rd_confirmed_by_lease_epoch = 0,
      rd_confirmed_at = None, rd_updated_at = 0, rd_schema_version = 1, rd_details = []\<rparr>"

lemma abandoned_readiness_refused_witness:
  "verify_standby_generation_for_claim 0 ''d'' 1 30
     \<lparr>dt_ids = [''d''], dt_rows = [''d'' \<mapsto> sample_device RDS_STANDBY_READY 2]\<rparr> \<noteq> None"
proof -
  let ?table = "\<lambda>s (n :: int). \<lparr>dt_ids = [''d''], dt_rows = [''d'' \<mapsto> sample_device s n]\<rparr>"
  have strip: "py_strip ''d'' = ''d''" by code_simp
  have leave: "device_step (?table RDS_STANDBY_READY 1) (?table RDS_STOPPED 1)"
    by (rule device_step.publish [of 0 "''d''" "''h''" RDS_STOPPED 1 None])
      (simp add: publish_runtime_device_state_transition_def Let_def strip sample_device_def)
  have back_again: "device_step (?table RDS_STOPPED 1) (?table RDS_STANDBY_READY 2)"
    by (rule device_step.save [of 0 "''d''" "''h''" RDS_STANDBY_READY False 1 None _
          "sample_device RDS_STANDBY_READY 2"])
      (simp add: save_runtime_device_state_def Let_def strip sample_device_def write_device_def)
  show ?thesis
    by (rule abandoned_readiness_refused [of "?table RDS_STANDBY_READY 1" 0 "''d''" 1 30 "?table RDS_STOPPED 1"
          "sample_device RDS_STOPPED 1"])
      (use leave back_again in
        \<open>auto simp: devices_wf_def sample_device_def verify_standby_generation_for_claim_def fresh_age_def\<close>)
qed

end
