(* ===== verification/Device_Lease.thy ===== *)
theory Device_Lease
  imports Device_State
begin

text \<open>
  The main-device lease: \<open>src/services/state_sync.py\<close> (claiming, taking over from a stale owner,
  releasing), \<open>src/services/execution_authority.py\<close> (checking a cached lease against the row) and
  \<open>src/services/execution_lease_protocol.py\<close> (the same check behind the guarded gateway), with the
  local execution lease of \<open>src/core/execution_mode.py\<close>.

  The ownership row is one row of the state table; each operation locks it, so it is one step on the
  row. Its payload is the JSON object these functions write, a missing epoch being 0. Whether
  an operator command is in flight and whether the legacy heartbeat is stale are arguments, the
  device table is that of \<open>Device_State\<close>.
\<close>

record local_device_role =
  ld_device_id :: string
  ld_hostname :: string

record lease_row =
  lr_device_id :: string
  lr_hostname :: string
  lr_lease_token :: string
  lr_lease_epoch :: int
  lr_revision :: int
  lr_updated_at :: timestamp
  lr_updated_by_host :: string
  lr_updated_by_device :: string

record main_device =
  md_device_id :: string
  md_hostname :: string
  md_revision :: int
  md_updated_at :: timestamp
  md_lease_token :: string
  md_lease_epoch :: int

datatype ownership_failure =
    NoDeviceId
  | OperatorCommandInFlight
  | SuccessorNotReady standby_error
  | NoExpectedOwner
  | AlreadyReleased
  | OwnerChanged
  | OwnerFresh
  | AlreadyClaimed
  | ExactLeaseRequired
  | LeaseTokenChanged
  | LeaseEpochChanged

text \<open>The epoch a row stands for: rows older than the explicit field count their revision.\<close>

definition effective_epoch :: "lease_row \<Rightarrow> int" where
  "effective_epoch row = max (lr_lease_epoch row) (lr_revision row)"

definition main_device_from_state :: "lease_row \<Rightarrow> ownership_failure + main_device" where
  "main_device_from_state row =
     (if py_strip (lr_device_id row) = [] then Inl NoDeviceId
      else Inr \<lparr>md_device_id = py_strip (lr_device_id row), md_hostname = py_strip (lr_hostname row),
        md_revision = lr_revision row, md_updated_at = lr_updated_at row,
        md_lease_token = py_strip (lr_lease_token row), md_lease_epoch = effective_epoch row\<rparr>)"

definition get_main_device :: "lease_row option \<Rightarrow> ownership_failure + main_device option" where
  "get_main_device row =
     (case row of None \<Rightarrow> Inr None
      | Some r \<Rightarrow> if py_strip (lr_device_id r) = [] then Inr None
          else map_sum id Some (main_device_from_state r))"

definition revision_or_one :: "lease_row \<Rightarrow> int" where
  "revision_or_one row = (if lr_revision row = 0 then 1 else lr_revision row)"

definition owned_row :: "timestamp \<Rightarrow> string \<Rightarrow> local_device_role \<Rightarrow> int \<Rightarrow> int \<Rightarrow> lease_row" where
  "owned_row server_now token role epoch revision =
     \<lparr>lr_device_id = ld_device_id role, lr_hostname = ld_hostname role, lr_lease_token = token,
      lr_lease_epoch = epoch, lr_revision = revision, lr_updated_at = server_now,
      lr_updated_by_host = ld_hostname role, lr_updated_by_device = ld_device_id role\<rparr>"

text \<open>What a claim that presents a readiness generation has to prove; the same gate in every claim.\<close>

definition standby_gate ::
    "timestamp \<Rightarrow> local_device_role \<Rightarrow> int \<Rightarrow> int \<Rightarrow> device_table \<Rightarrow> ownership_failure option" where
  "standby_gate now role generation max_age devices =
     (if 0 < generation
      then map_option SuccessorNotReady
        (verify_standby_generation_for_claim now (ld_device_id role) generation max_age devices)
      else None)"

type_synonym claim_result = "(ownership_failure + main_device) \<times> lease_row option"

definition claim_main_device ::
    "timestamp \<Rightarrow> timestamp \<Rightarrow> string \<Rightarrow> local_device_role \<Rightarrow> int \<Rightarrow> int \<Rightarrow> bool \<Rightarrow> device_table \<Rightarrow> lease_row option
       \<Rightarrow> claim_result" where
  "claim_main_device now server_now token role generation max_age command_in_flight devices row =
     (case and_then (if command_in_flight then Some OperatorCommandInFlight else None)
             (standby_gate now role generation max_age devices) of
        Some e \<Rightarrow> (Inl e, row)
      | None \<Rightarrow>
          let row' = (case row of
                None \<Rightarrow> owned_row server_now token role 1 1
              | Some r \<Rightarrow> owned_row server_now token role (effective_epoch r + 1) (revision_or_one r + 1))
          in (main_device_from_state row', Some row'))"

definition claim_main_device_if_stale ::
    "timestamp \<Rightarrow> timestamp \<Rightarrow> timestamp option \<Rightarrow> string \<Rightarrow> local_device_role \<Rightarrow> string \<Rightarrow> int \<Rightarrow> bool \<Rightarrow> int \<Rightarrow> int
       \<Rightarrow> device_table \<Rightarrow> lease_row option \<Rightarrow> claim_result" where
  "claim_main_device_if_stale now server_now clock token role expected cutoff heartbeat_stale generation max_age
       devices row =
     (if py_strip expected = [] then (Inl NoExpectedOwner, row)
      else case row of
        None \<Rightarrow> (Inl AlreadyReleased, None)
      | Some r \<Rightarrow>
          (case main_device_from_state r of
             Inl e \<Rightarrow> (Inl e, row)
           | Inr owner \<Rightarrow>
               let stale = (case runtime_device_row_is_stale clock (md_device_id owner) cutoff devices of
                     None \<Rightarrow> heartbeat_stale | Some b \<Rightarrow> b)
               in case and_then (first_error
                    [(md_device_id owner \<noteq> py_strip expected, OwnerChanged), (\<not> stale, OwnerFresh)])
                    (standby_gate now role generation max_age devices) of
                    Some e \<Rightarrow> (Inl e, row)
                  | None \<Rightarrow>
                      let row' = owned_row server_now token role
                            (max (md_lease_epoch owner) (lr_revision r) + 1) (revision_or_one r + 1)
                      in (main_device_from_state row', Some row')))"

definition claim_main_device_if_unclaimed ::
    "timestamp \<Rightarrow> timestamp \<Rightarrow> string \<Rightarrow> local_device_role \<Rightarrow> int \<Rightarrow> int \<Rightarrow> device_table \<Rightarrow> lease_row option
       \<Rightarrow> claim_result" where
  "claim_main_device_if_unclaimed now server_now token role generation max_age devices row =
     (case and_then (case row of None \<Rightarrow> None
               | Some r \<Rightarrow> if py_strip (lr_device_id r) \<noteq> [] then Some AlreadyClaimed else None)
             (standby_gate now role generation max_age devices) of
        Some e \<Rightarrow> (Inl e, row)
      | None \<Rightarrow>
          let row' = (case row of
                None \<Rightarrow> owned_row server_now token role 1 1
              | Some r \<Rightarrow> owned_row server_now token role (effective_epoch r + 1) (lr_revision r + 1))
          in (main_device_from_state row', Some row'))"

definition release_main_device ::
    "timestamp \<Rightarrow> local_device_role \<Rightarrow> string \<Rightarrow> int \<Rightarrow> lease_row option
       \<Rightarrow> ownership_failure option \<times> lease_row option" where
  "release_main_device server_now role token epoch row =
     (if py_strip token = [] \<or> epoch \<le> 0 then (Some ExactLeaseRequired, row)
      else case row of
        None \<Rightarrow> (None, None)
      | Some r \<Rightarrow>
          (case main_device_from_state r of
             Inl e \<Rightarrow> (Some e, row)
           | Inr owner \<Rightarrow>
               if md_device_id owner \<noteq> ld_device_id role then (None, row)
               else if md_lease_token owner \<noteq> py_strip token then (Some LeaseTokenChanged, row)
               else if md_lease_epoch owner \<noteq> epoch then (Some LeaseEpochChanged, row)
               else (None, Some (r\<lparr>lr_device_id := [], lr_hostname := [], lr_lease_token := [],
                 lr_lease_epoch := md_lease_epoch owner, lr_revision := lr_revision r + 1,
                 lr_updated_at := server_now, lr_updated_by_host := ld_hostname role,
                 lr_updated_by_device := ld_device_id role\<rparr>))))"

subsection \<open>Checking a cached lease\<close>

record execution_lease =
  el_device_id :: string
  el_lease_token :: string
  el_lease_epoch :: int

datatype lease_check_error =
    LeaseDatabaseUnavailable | NoLeaseRow | LeaseChanged | LeaseWithoutEpoch

text \<open>\<open>None\<close> for the state of the table: no database was configured or the read failed.\<close>

definition require_current_lease ::
    "lease_row option option \<Rightarrow> execution_lease option \<Rightarrow> lease_check_error option" where
  "require_current_lease read expected =
     (case expected of
        None \<Rightarrow> None
      | Some l \<Rightarrow>
          (case read of
             None \<Rightarrow> Some LeaseDatabaseUnavailable
           | Some None \<Rightarrow> Some NoLeaseRow
           | Some (Some r) \<Rightarrow>
               if py_strip (lr_device_id r) \<noteq> el_device_id l \<or> py_strip (lr_lease_token r) = []
                  \<or> py_strip (lr_lease_token r) \<noteq> el_lease_token l
                  \<or> 0 < el_lease_epoch l \<and> effective_epoch r \<noteq> el_lease_epoch l
               then Some LeaseChanged else None))"

definition protocol_require_current ::
    "lease_row option option \<Rightarrow> execution_lease option \<Rightarrow> lease_check_error option" where
  "protocol_require_current read lease =
     (case lease of
        None \<Rightarrow> None
      | Some l \<Rightarrow> if el_lease_epoch l \<le> 0 then Some LeaseWithoutEpoch else require_current_lease read lease)"

subsection \<open>A superseded lease never comes back\<close>

inductive lease_step :: "lease_row option \<Rightarrow> lease_row option \<Rightarrow> bool" where
  claim: "claim_main_device now server_now token role g a f devices row = (res, row') \<Longrightarrow> lease_step row row'"
| claim_stale: "claim_main_device_if_stale now server_now clock token role expected cutoff hs g a devices row
     = (res, row') \<Longrightarrow> lease_step row row'"
| claim_unclaimed: "claim_main_device_if_unclaimed now server_now token role g a devices row = (res, row')
     \<Longrightarrow> lease_step row row'"
| release: "release_main_device server_now role token epoch row = (err, row') \<Longrightarrow> lease_step row row'"

definition row_epoch :: "lease_row option \<Rightarrow> int" where
  "row_epoch row = (case row of None \<Rightarrow> 0 | Some r \<Rightarrow> effective_epoch r)"

text \<open>The lease the gateway accepts.\<close>

definition lease_accepted :: "lease_row option \<Rightarrow> execution_lease \<Rightarrow> bool" where
  "lease_accepted row l \<longleftrightarrow> protocol_require_current (Some row) (Some l) = None"

lemma lease_accepted_iff:
  "lease_accepted row l \<longleftrightarrow> (\<exists>r. row = Some r \<and> 0 < el_lease_epoch l \<and> el_lease_epoch l = effective_epoch r
     \<and> el_device_id l = py_strip (lr_device_id r) \<and> el_lease_token l = py_strip (lr_lease_token r)
     \<and> el_lease_token l \<noteq> [])"
  by (auto simp: lease_accepted_def protocol_require_current_def require_current_lease_def split: option.splits
      if_splits)

lemma owned_row_fields [simp]:
  "effective_epoch (owned_row n t role e v) = max e v" "lr_device_id (owned_row n t role e v) = ld_device_id role"
  "lr_lease_token (owned_row n t role e v) = t"
  by (simp_all add: owned_row_def effective_epoch_def)

lemma revision_or_one_le: "0 < effective_epoch r \<Longrightarrow> revision_or_one r \<le> effective_epoch r"
  by (auto simp: revision_or_one_def effective_epoch_def)

text \<open>Every operation leaves the row alone, or raises the epoch, or blanks the token at an epoch not
  below the old one.\<close>

lemma lease_step_cases:
  assumes "lease_step row row'" "0 < row_epoch row \<or> row = None"
  shows "row' = row \<or> row_epoch row < row_epoch row'
    \<or> (\<exists>r'. row' = Some r' \<and> lr_lease_token r' = [] \<and> row_epoch row \<le> row_epoch row')"
  using assms(1)
proof cases
  case (claim now server_now token role g a f devices res)
  with assms(2) show ?thesis
    by (auto simp: claim_main_device_def Let_def row_epoch_def split: option.splits if_splits)
next
  case (claim_stale now server_now clock token role expected cutoff hs g a devices res)
  with assms(2) show ?thesis
    by (auto simp: claim_main_device_if_stale_def Let_def row_epoch_def main_device_from_state_def
        split: option.splits if_splits sum.splits)
next
  case (claim_unclaimed now server_now token role g a devices res)
  with assms(2) show ?thesis
    by (auto simp: claim_main_device_if_unclaimed_def Let_def row_epoch_def split: option.splits if_splits)
next
  case (release server_now role token epoch err)
  with assms(2) show ?thesis
    by (auto simp: release_main_device_def row_epoch_def main_device_from_state_def effective_epoch_def
        split: option.splits if_splits sum.splits)
qed

text \<open>A row that no longer stands for a lease, and never will: the epoch is past it, or the token is gone.\<close>

definition lease_dead :: "lease_row option \<Rightarrow> execution_lease \<Rightarrow> bool" where
  "lease_dead row l \<longleftrightarrow> 0 < row_epoch row \<and> el_lease_epoch l \<le> row_epoch row
     \<and> (el_lease_epoch l < row_epoch row \<or> (\<exists>r. row = Some r \<and> lr_lease_token r = []))"

lemma lease_dead_not_accepted: "lease_dead row l \<Longrightarrow> \<not> lease_accepted row l"
  by (auto simp: lease_dead_def lease_accepted_iff row_epoch_def py_strip_def)

lemma lease_dead_step:
  assumes "lease_step row row'" "lease_dead row l"
  shows "lease_dead row' l"
  using lease_step_cases [OF assms(1)] assms(2) by (force simp: lease_dead_def)

lemma lease_accepted_step:
  assumes "lease_step row row'" "lease_accepted row l"
  shows "lease_accepted row' l \<or> lease_dead row' l"
proof -
  have epoch: "0 < row_epoch row" "el_lease_epoch l = row_epoch row"
    using assms(2) by (auto simp: lease_accepted_iff row_epoch_def)
  then show ?thesis
    using lease_step_cases [OF assms(1)] assms(2) by (force simp: lease_dead_def)
qed

lemma lease_accepted_steps:
  assumes "lease_step\<^sup>*\<^sup>* row row'" "lease_accepted row l \<or> lease_dead row l"
  shows "lease_accepted row' l \<or> lease_dead row' l"
  using assms by (induction rule: rtranclp_induct) (use lease_accepted_step lease_dead_step in blast)+

lemma lease_dead_steps:
  assumes "lease_step\<^sup>*\<^sup>* row row'" "lease_dead row l"
  shows "lease_dead row' l"
  using assms by (induction rule: rtranclp_induct) (use lease_dead_step in blast)+

text \<open>
  (C20) A lease that the row stops accepting is never accepted again, whatever claims,
  takeovers and releases follow, and whatever tokens they draw. A device that was displaced cannot come
  back with what it cached, so the gateway's check of the cached lease is a fence.
\<close>

theorem superseded_lease_refused:
  assumes "lease_accepted row l" "lease_step\<^sup>*\<^sup>* row row1" "\<not> lease_accepted row1 l"
    and "lease_step\<^sup>*\<^sup>* row1 row2"
  shows "\<not> lease_accepted row2 l"
proof -
  have "lease_dead row1 l"
    using lease_accepted_steps [OF assms(2)] assms(1,3) by blast
  then show ?thesis
    using lease_dead_steps [OF assms(4)] lease_dead_not_accepted by blast
qed

lemma claim_step: "lease_step row (snd (claim_main_device now server_now token role g a f devices row))"
  by (rule lease_step.claim, rule surjective_pairing)

definition sample_role :: "string \<Rightarrow> local_device_role" where
  "sample_role device = \<lparr>ld_device_id = device, ld_hostname = ''host''\<rparr>"

definition sample_lease :: execution_lease where
  "sample_lease = \<lparr>el_device_id = ''main'', el_lease_token = ''t1'', el_lease_epoch = 1\<rparr>"

lemma superseded_lease_refused_witness:
  "\<not> lease_accepted (Some (owned_row 2 ''t1'' (sample_role ''main'') 3 3)) sample_lease"
proof (rule superseded_lease_refused)
  let ?row = "\<lambda>token device (n :: int). Some (owned_row 2 token (sample_role device) n n)"
  let ?devices = "\<lparr>dt_ids = [], dt_rows = Map.empty\<rparr>"
  show "lease_accepted (?row ''t1'' ''main'' 1) sample_lease"
    by (simp add: lease_accepted_iff sample_lease_def sample_role_def) (code_simp)
  have "lease_step (?row ''t1'' ''main'' 1) (?row ''t2'' ''spare'' 2)"
    using claim_step [of "?row ''t1'' ''main'' 1" 2 2 "''t2''" "sample_role ''spare''" 0 30 False ?devices]
    by (simp add: claim_main_device_def standby_gate_def revision_or_one_def owned_row_def effective_epoch_def Let_def)
  then show "lease_step\<^sup>*\<^sup>* (?row ''t1'' ''main'' 1) (?row ''t2'' ''spare'' 2)"
    by blast
  show "\<not> lease_accepted (?row ''t2'' ''spare'' 2) sample_lease"
    by (simp add: lease_accepted_iff sample_lease_def)
  have "lease_step (?row ''t2'' ''spare'' 2) (?row ''t1'' ''main'' 3)"
    using claim_step [of "?row ''t2'' ''spare'' 2" 2 2 "''t1''" "sample_role ''main''" 0 30 False ?devices]
    by (simp add: claim_main_device_def standby_gate_def revision_or_one_def owned_row_def effective_epoch_def Let_def)
  then show "lease_step\<^sup>*\<^sup>* (?row ''t2'' ''spare'' 2) (?row ''t1'' ''main'' 3)"
    by blast
qed

end
