(* ===== verification/Gateway_Base.thy ===== *)
theory Gateway_Base
  imports Request_Scheduler Live_Policy Pre_Trade Command_Store Device_Lease Ownership External_Store Reservation_Store
begin

text \<open>
  What the guarded gateway of \<open>src/services/execution_command_gateway.py\<close> works on: the requests of
  \<open>src/core/execution_request.py\<close>, the shared database, the surroundings of a call, the
  exceptions, and the guards its sequences share (ownership, lease, replaceability, priorities,
  the in-process registry of commands in flight).

  The database is one record of the tables the gateway touches; a transaction maps it to an error
  or to the database after the commit. \<open>gateway_env\<close> is what a stage reads beside the database:
  clock, trading switch, live configuration, account figures and mutation budget (the scheduler,
  \<open>kis_request_scheduler.py\<close>, as the answer it gives). Different stages of one call see different
  surroundings. The structural checks of a composed gateway (mode, engine, budget and buying-power
  providers present, epoch-verifying lease protocol) hold by construction here.
\<close>

subsection \<open>Requests\<close>

datatype execution_source = LEGACY_BUY_DASHBOARD | KANBAN_BOARD | SYSTEM

definition as_source :: "string \<Rightarrow> execution_source" where
  "as_source v =
     (case map_of [(''LEGACY_BUY_DASHBOARD'', LEGACY_BUY_DASHBOARD), (''KANBAN_BOARD'', KANBAN_BOARD),
         (''SYSTEM'', SYSTEM)] (py_upper v) of None \<Rightarrow> SYSTEM | Some s \<Rightarrow> s)"

definition RESERVED_MOO_EXECUTION :: string where
  "RESERVED_MOO_EXECUTION = ''RESERVED_MOO''"

record submit_request =
  sr_client_order_id :: string
  sr_environment :: string
  sr_account_no :: string
  sr_symbol :: string
  sr_side :: order_side
  sr_intent :: order_intent
  sr_quantity :: int
  sr_limit_price :: pyfloat
  sr_exchange :: string
  sr_execution_policy :: string
  sr_attempt_group_id :: string
  sr_attempt_number :: int
  sr_attempt_deadline_at :: "string option"
  sr_lease :: "execution_lease option"
  sr_source :: execution_source
  sr_replaces_execution_order_id :: string
  sr_prepared_capital_reservation_id :: string
  sr_prepared_capital_reservation_version :: int
  sr_strategy_instance_id :: string
  sr_emergency :: bool
  sr_pre_trade_risk_decision :: "pre_trade_decision option"
  sr_risk_strategy_id :: string
  sr_risk_plan_id :: string

definition submit_request_post_init :: "submit_request \<Rightarrow> submit_request" where
  "submit_request_post_init r =
     r\<lparr>sr_client_order_id := py_strip (sr_client_order_id r), sr_environment := py_upper (sr_environment r),
       sr_symbol := py_upper (sr_symbol r),
       sr_prepared_capital_reservation_id := py_strip (sr_prepared_capital_reservation_id r),
       sr_prepared_capital_reservation_version := max 0 (sr_prepared_capital_reservation_version r)\<rparr>"

record cancel_request =
  xr_client_order_id :: string
  xr_cancel_command_id :: string
  xr_environment :: string
  xr_account_no :: string
  xr_lease :: "execution_lease option"
  xr_source :: execution_source
  xr_strategy_instance_id :: string

definition cancel_request_post_init :: "cancel_request \<Rightarrow> cancel_request" where
  "cancel_request_post_init r =
     r\<lparr>xr_client_order_id := py_strip (xr_client_order_id r),
       xr_cancel_command_id := py_strip (xr_cancel_command_id r),
       xr_environment := py_upper (xr_environment r)\<rparr>"

subsection \<open>The database and the surroundings\<close>

record gateway_db =
  gd_commands :: command_table
  gd_orders :: order_table
  gd_externals :: external_table
  gd_reservations :: reservation_table
  gd_owners :: ownership_table
  gd_lease :: "lease_row option"
  gd_cards :: card_table

record gateway_env =
  ge_now :: timestamp
  ge_trading_env_value :: "string option"
  ge_trading_provider :: "bool option option"
  ge_trading_enabled :: bool
  ge_live_config :: live_config
  ge_account_equity :: "pyfloat option"
  ge_buying_power :: pyfloat
  ge_entries_ready :: bool
  ge_budget_available :: "command_type \<Rightarrow> request_priority \<Rightarrow> bool \<Rightarrow> bool"

record gateway_config =
  gw_projected_risk_required :: bool
  gw_redact :: redaction

datatype gateway_error =
    TradingDisabledError trading_disabled
  | ExecutionOwnershipMismatch
  | NoLeaseSupplied
  | LeaseNotVerified lease_check_error
  | EntriesNotReady
  | MutationBudgetExceeded
  | QuantityNotPositive
  | LimitPriceInvalid
  | PreTradeRiskRejected approval_error
  | PortfolioSpecMissing
  | PortfolioSpecRejected reservation_spec_error
  | PreparedReservationRejected
  | BlankClientOrderId
  | LiveEnvelope live_error
  | ActiveExternalOrderFenceError
  | CommandStoreError command_error
  | OrderStoreError order_store_error
  | ReservationStoreError reservation_store_error
  | OrderRecordError order_error
  | RecoveryTransitionError recovery_error
  | SubmissionPreBrokerAborted gateway_error
  | SubmissionRejected
  | SubmissionAmbiguous
  | AmbiguousPostBrokerPersistence
  | CancelNotPermitted
  | CancellationPreBrokerAborted gateway_error
  | CancellationRejected
  | CancellationAmbiguous
  | OrderNotFoundForCancel
  | ConcurrentExecutionOwnership
  | ReplacementIdentityExists
  | ReplacementReservationRequired
  | ReplaceNotSafe
  | ReplaceCancelConfirmationPending

subsection \<open>One command per key in flight\<close>

type_synonym recovery_key = "string \<times> string \<times> string"

definition recovery_key_of :: "string \<Rightarrow> string \<Rightarrow> string \<Rightarrow> recovery_key" where
  "recovery_key_of environment account_no ticker = (py_upper environment, account_no, py_upper ticker)"

definition claim_key ::
    "recovery_key \<Rightarrow> execution_source \<Rightarrow> (recovery_key \<rightharpoonup> execution_source)
       \<Rightarrow> gateway_error + (recovery_key \<rightharpoonup> execution_source)" where
  "claim_key k source holders =
     (if holders k \<noteq> None then Inl ConcurrentExecutionOwnership else Inr (holders(k \<mapsto> source)))"

definition release_key ::
    "recovery_key \<Rightarrow> (recovery_key \<rightharpoonup> execution_source) \<Rightarrow> (recovery_key \<rightharpoonup> execution_source)" where
  "release_key k holders = holders(k := None)"

lemma claim_exclusive: "claim_key k s h = Inr h' \<Longrightarrow> claim_key k s' h' = Inl ConcurrentExecutionOwnership"
  by (auto simp: claim_key_def split: if_splits)

subsection \<open>Guards\<close>

definition require_ownership ::
    "gateway_db \<Rightarrow> string \<Rightarrow> string \<Rightarrow> string \<Rightarrow> execution_source \<Rightarrow> string \<Rightarrow> gateway_error option" where
  "require_ownership db environment account_no ticker source strategy_instance_id =
     (let w = get_ownership (gd_owners db) environment account_no ticker
      in case ow_owner w of
           MANUAL \<Rightarrow> Some ExecutionOwnershipMismatch
         | KANBAN \<Rightarrow>
             if source \<noteq> KANBAN_BOARD then Some ExecutionOwnershipMismatch
             else if strategy_instance_id = [] \<or> strategy_instance_id \<noteq> ow_strategy_instance_id w
             then Some ExecutionOwnershipMismatch else None
         | LEGACY \<Rightarrow> if source = KANBAN_BOARD then Some ExecutionOwnershipMismatch else None)"

definition require_verified_lease :: "gateway_db \<Rightarrow> execution_lease option \<Rightarrow> gateway_error option" where
  "require_verified_lease db lease =
     (case lease of None \<Rightarrow> Some NoLeaseSupplied
      | Some l \<Rightarrow> map_option LeaseNotVerified (protocol_require_current (Some (gd_lease db)) (Some l)))"

definition require_external_fence ::
    "gateway_db \<Rightarrow> string \<Rightarrow> string \<Rightarrow> string \<Rightarrow> string \<Rightarrow> gateway_error option" where
  "require_external_fence db environment account_no ticker allowed_id =
     map_option (\<lambda>_. ActiveExternalOrderFenceError)
       (require_no_active_unowned_external_order (gd_externals db) (gd_orders db) environment account_no ticker
          allowed_id)"

definition require_budget_available ::
    "gateway_env \<Rightarrow> command_type \<Rightarrow> request_priority \<Rightarrow> bool \<Rightarrow> gateway_error option" where
  "require_budget_available e t p is_new_entry =
     (if ge_budget_available e t p is_new_entry then None else Some MutationBudgetExceeded)"

definition require_trading :: "gateway_env \<Rightarrow> gateway_error option" where
  "require_trading e = map_option TradingDisabledError
     (fst (require_trading_enabled (ge_trading_env_value e) (ge_trading_provider e) False (ge_trading_enabled e)))"

definition priority_for_submit :: "submit_request \<Rightarrow> request_priority" where
  "priority_for_submit r =
     (if sr_side r = BUY \<and> sr_intent r = ENTRY then NEW_ENTRY
      else if sr_intent r \<in> {STOP_LOSS, MANUAL_EXIT} then EMERGENCY_EXIT
      else EXIT_CANCEL_OR_RECONCILIATION)"

definition priority_for_record :: "execution_order \<Rightarrow> request_priority" where
  "priority_for_record r =
     (if eo_side r = BUY then ENTRY_CANCEL
      else if eo_intent r \<in> {STOP_LOSS, MANUAL_EXIT} then EMERGENCY_EXIT
      else EXIT_CANCEL_OR_RECONCILIATION)"

definition transition_recovery_state ::
    "order_recovery_state \<Rightarrow> execution_order \<Rightarrow> gateway_error + execution_order" where
  "transition_recovery_state target r =
     (case validate_recovery_transition (eo_recovery_state r) target of
        Some e \<Rightarrow> Inl (RecoveryTransitionError e)
      | None \<Rightarrow> let r' = r\<lparr>eo_recovery_state := target\<rparr>
          in guarded (map_option OrderRecordError (validate_consistency r')) (Inr r'))"

definition cancellable_for_replace :: "execution_order \<Rightarrow> bool" where
  "cancellable_for_replace r \<longleftrightarrow>
     (if eo_origin r \<notin> {APPLICATION, ORIGIN_USER_ADOPTED} then False
      else if eo_origin r = ORIGIN_USER_ADOPTED \<and> REPLACE \<notin> eo_adoption_permissions r then False
      else eo_broker_identity_status r = EXACT \<and> eo_broker_order_id r \<noteq> []
        \<and> eo_recovery_state r \<in> {ORS_NONE, CANCEL_REQUIRED}
        \<and> CANCEL_PENDING \<in> allowed_status_transitions (eo_status r))"

text \<open>A status transition whose failure is an exception of the call.\<close>

definition transition_or_raise ::
    "timestamp \<Rightarrow> execution_order_status \<Rightarrow> string option \<Rightarrow> execution_order \<Rightarrow> gateway_error + execution_order" where
  "transition_or_raise now target bid r =
     (case apply_status_transition now target bid r of
        (Some e, _) \<Rightarrow> Inl (OrderRecordError e) | (None, r') \<Rightarrow> Inr r')"

text \<open>Writes of the three tables as steps of one transaction on the whole database.\<close>

definition tx_insert_command :: "exec_command \<Rightarrow> gateway_db \<Rightarrow> gateway_error + gateway_db" where
  "tx_insert_command c db =
     (case insert_command c (gd_commands db) of Inl e \<Rightarrow> Inl (CommandStoreError e)
      | Inr (c', t') \<Rightarrow> Inr (db\<lparr>gd_commands := t'\<rparr>))"

definition tx_update_command ::
    "redaction \<Rightarrow> string \<Rightarrow> command_status \<Rightarrow> json_dict \<Rightarrow> gateway_db \<Rightarrow> gateway_error + gateway_db" where
  "tx_update_command redact key status response db =
     (case update_command_response redact key status response None (gd_commands db) of
        Inl e \<Rightarrow> Inl (CommandStoreError e)
      | Inr (c', t') \<Rightarrow> Inr (db\<lparr>gd_commands := t'\<rparr>))"

definition tx_update_order ::
    "execution_order \<Rightarrow> gateway_db \<Rightarrow> gateway_error + (execution_order \<times> gateway_db)" where
  "tx_update_order r db =
     (case update_execution_order r (eo_version r) (gd_orders db) of
        Inl e \<Rightarrow> Inl (OrderStoreError e)
      | Inr (r', t') \<Rightarrow> Inr (r', db\<lparr>gd_orders := t'\<rparr>))"

definition tx_insert_order :: "execution_order \<Rightarrow> gateway_db \<Rightarrow> gateway_error + gateway_db" where
  "tx_insert_order r db =
     (case insert_execution_order r (gd_orders db) of
        Inl e \<Rightarrow> Inl (OrderStoreError e)
      | Inr (_, t') \<Rightarrow> Inr (db\<lparr>gd_orders := t'\<rparr>))"

definition tx_update_reservation ::
    "reservation \<Rightarrow> int \<Rightarrow> gateway_db \<Rightarrow> gateway_error + gateway_db" where
  "tx_update_reservation r n db =
     (case update_reservation r n (gd_reservations db) of
        Inl e \<Rightarrow> Inl (ReservationStoreError e)
      | Inr (r', t') \<Rightarrow> Inr (db\<lparr>gd_reservations := t'\<rparr>))"

end
