(* ===== verification/Gateway_Submit.thy ===== *)
theory Gateway_Submit
  imports Gateway_Base
begin

text \<open>
  \<open>ExecutionCommandGateway._do_submit\<close> and \<open>submit_guarded\<close>: the guarded submission of one order.
  Its stages are separate definitions, because other devices and the reconciliation run between
  them: the checks before anything is written, the transaction that journals command, reservation
  and \<open>PREPARED\<close> order together, the transaction to \<open>SUBMITTING\<close>, the final gate with its abort
  transaction, the broker call (an outcome), and the persistence of that outcome.
  \<open>do_submit\<close> composes them with what others do in between.
\<close>

subsection \<open>Before anything is written\<close>

definition submit_fingerprint :: "submit_request \<Rightarrow> int \<Rightarrow> pyfloat \<Rightarrow> order_fingerprint" where
  "submit_fingerprint r quantity limit_price =
     \<lparr>of_environment = sr_environment r, of_account_no = sr_account_no r, of_symbol = sr_symbol r,
      of_side = sr_side r, of_intent = sr_intent r, of_quantity = share_number quantity,
      of_reference_price = limit_price, of_exchange = sr_exchange r,
      of_execution_policy = sr_execution_policy r, of_strategy_id = sr_risk_strategy_id r,
      of_plan_id = sr_risk_plan_id r\<rparr>"

definition is_new_entry :: "submit_request \<Rightarrow> bool" where
  "is_new_entry r \<longleftrightarrow> sr_side r = BUY \<and> sr_intent r = ENTRY"

definition entry_risk_approval ::
    "gateway_config \<Rightarrow> timestamp \<Rightarrow> submit_request \<Rightarrow> int \<Rightarrow> pyfloat \<Rightarrow> gateway_error + reservation_spec option" where
  "entry_risk_approval gw now r quantity limit_price =
     (if \<not> is_new_entry r then Inr None
      else case sr_pre_trade_risk_decision r of
        None \<Rightarrow> Inl (PreTradeRiskRejected ApprovalMissing)
      | Some d \<Rightarrow>
          guarded (map_option PreTradeRiskRejected
              (require_pre_trade_risk_approval (Some d) (submit_fingerprint r quantity limit_price) now))
            (case pd_portfolio_risk_reservation d of
               None \<Rightarrow> if gw_projected_risk_required gw then Inl PortfolioSpecMissing else Inr None
             | Some spec \<Rightarrow>
                 (case require_portfolio_risk_reservation_spec spec (sr_environment r) (sr_account_no r)
                     (sr_symbol r) quantity limit_price (pd_evaluated_at d) of
                    Inl e \<Rightarrow> Inl (PortfolioSpecRejected e) | Inr s \<Rightarrow> Inr (Some s))))"

definition submit_limit_price :: "submit_request \<Rightarrow> gateway_error + pyfloat" where
  "submit_limit_price r =
     (if sr_execution_policy r = RESERVED_MOO_EXECUTION then Inr (Fin 0)
      else if \<not> isfinite (sr_limit_price r) \<or> fle (sr_limit_price r) (Fin 0) then Inl LimitPriceInvalid
      else Inr (sr_limit_price r))"

definition submit_guards :: "gateway_env \<Rightarrow> submit_request \<Rightarrow> gateway_db \<Rightarrow> gateway_error option" where
  "submit_guards e r db =
     and_then (require_trading e)
     (and_then (require_ownership db (sr_environment r) (sr_account_no r) (sr_symbol r) (sr_source r)
         (sr_strategy_instance_id r))
     (and_then (require_verified_lease db (sr_lease r))
     (and_then (if is_new_entry r \<and> \<not> ge_entries_ready e then Some EntriesNotReady else None)
     (and_then (require_budget_available e CT_SUBMIT (priority_for_submit r) (is_new_entry r))
       (if sr_quantity r \<le> 0 then Some QuantityNotPositive else None)))))"

text \<open>The reservation a replacement hands over, from the confirmed-cancelled order it replaces.\<close>

definition linked_reservation :: "submit_request \<Rightarrow> gateway_db \<Rightarrow> gateway_error + reservation" where
  "linked_reservation r db =
     (let rid = sr_prepared_capital_reservation_id r in
      if sr_replaces_execution_order_id r = [] then Inl PreparedReservationRejected
      else case get_execution_order (gd_orders db) (sr_replaces_execution_order_id r) of
        None \<Rightarrow> Inl PreparedReservationRejected
      | Some old \<Rightarrow>
          if eo_status old \<noteq> CANCELLED \<or> eo_capital_reservation_id old \<noteq> rid
             \<or> (eo_environment old, eo_account_no old, eo_symbol old, eo_side old, eo_intent old)
                \<noteq> (sr_environment r, sr_account_no r, sr_symbol r, sr_side r, sr_intent r)
          then Inl PreparedReservationRejected
          else (case fetch_reservation (gd_reservations db) rid of
                None \<Rightarrow> Inl PreparedReservationRejected
              | Some v \<Rightarrow>
                  if \<not> reservation_is_open v
                     \<or> (cr_environment v, cr_account_no v, cr_symbol v)
                        \<noteq> (sr_environment r, sr_account_no r, sr_symbol r)
                  then Inl PreparedReservationRejected else Inr v))"

definition new_execution_order ::
    "timestamp \<Rightarrow> submit_request \<Rightarrow> int \<Rightarrow> pyfloat \<Rightarrow> string \<Rightarrow> order_error + execution_order" where
  "new_execution_order now r quantity limit_price reservation_id =
     execution_order_post_init
       \<lparr>eo_environment = sr_environment r, eo_account_no = sr_account_no r, eo_symbol = sr_symbol r,
        eo_side = sr_side r, eo_intent = sr_intent r, eo_client_order_id = sr_client_order_id r,
        eo_broker_order_id = [], eo_attempt_group_id = sr_attempt_group_id r,
        eo_attempt_number = sr_attempt_number r, eo_attempt_deadline_at = sr_attempt_deadline_at r,
        eo_submitted_quantity = quantity, eo_submitted_limit_price = limit_price,
        eo_exchange = sr_exchange r, eo_execution_policy = sr_execution_policy r, eo_prepared_at = Some now,
        eo_submission_started_at = None, eo_acknowledged_at = None, eo_market_session_date = None,
        eo_owner_device_id = (case sr_lease r of None \<Rightarrow> [] | Some l \<Rightarrow> el_device_id l),
        eo_lease_token = (case sr_lease r of None \<Rightarrow> [] | Some l \<Rightarrow> el_lease_token l),
        eo_lease_epoch = (case sr_lease r of None \<Rightarrow> 0 | Some l \<Rightarrow> el_lease_epoch l),
        eo_status = PREPARED, eo_filled_quantity = 0, eo_remaining_quantity = 0,
        eo_average_fill_price = Fin 0, eo_cancel_requested_at = None, eo_last_broker_seen_at = None,
        eo_last_reconciled_at = None, eo_absence_count = 0, eo_last_absence_snapshot_id = [],
        eo_last_absence_observed_at = None, eo_last_absence_session_date = None,
        eo_last_absence_broker_order_id = [], eo_last_absence_holding_quantity = None,
        eo_origin = APPLICATION, eo_broker_identity_status = NOT_ASSIGNED, eo_recovery_state = ORS_NONE,
        eo_recovery_candidate_broker_order_ids = [], eo_adoption_permissions = {},
        eo_replaces_execution_order_id = sr_replaces_execution_order_id r,
        eo_adopted_from_external_order_id = [], eo_capital_reservation_id = reservation_id,
        eo_raw_submission_hash = [], eo_version = 1\<rparr>"

lemma new_execution_order_fields:
  assumes "new_execution_order now r quantity limit_price rid = Inr order"
  shows "eo_client_order_id order = py_strip (sr_client_order_id r) \<and> eo_status order = PREPARED
    \<and> eo_capital_reservation_id order = rid \<and> eo_submitted_quantity order = quantity
    \<and> eo_submitted_limit_price order = limit_price \<and> validate_consistency order = None"
  using assms by (auto simp: new_execution_order_def execution_order_post_init_def Let_def guard_simps)

definition new_command ::
    "gateway_config \<Rightarrow> timestamp \<Rightarrow> string \<Rightarrow> command_type \<Rightarrow> string \<Rightarrow> string \<Rightarrow> string \<Rightarrow> execution_lease option
       \<Rightarrow> string \<Rightarrow> string \<Rightarrow> gateway_error + exec_command" where
  "new_command gw now key kind environment account_no ticker lease target source =
     (case command_post_init (gw_redact gw)
         \<lparr>ec_idempotency_key = key, ec_command_type = kind, ec_environment = environment,
          ec_account_no = account_no, ec_symbol = ticker,
          ec_lease_epoch = (case lease of None \<Rightarrow> 0 | Some l \<Rightarrow> el_lease_epoch l),
          ec_owner_device_id = (case lease of None \<Rightarrow> [] | Some l \<Rightarrow> el_device_id l),
          ec_lease_token = (case lease of None \<Rightarrow> [] | Some l \<Rightarrow> el_lease_token l),
          ec_target_broker_order_id = target, ec_requested_at = Some now, ec_status = CS_REQUESTED,
          ec_redacted_response = [], ec_response_hash = [], ec_command_id = None, ec_version = 1,
          ec_source = source\<rparr> of
        Inl e \<Rightarrow> Inl (CommandStoreError e) | Inr c \<Rightarrow> Inr c)"

fun source_value :: "execution_source \<Rightarrow> string" where
  "source_value LEGACY_BUY_DASHBOARD = ''LEGACY_BUY_DASHBOARD''"
| "source_value KANBAN_BOARD = ''KANBAN_BOARD''"
| "source_value SYSTEM = ''SYSTEM''"

definition submit_key :: "string \<Rightarrow> string" where
  "submit_key client_order_id = ''SUBMIT:'' @ client_order_id"

text \<open>Everything the later stages carry.\<close>

record prepared_submit =
  ps_request :: submit_request
  ps_limit_price :: pyfloat
  ps_spec :: "reservation_spec option"
  ps_notional :: pyfloat
  ps_open_risk :: pyfloat
  ps_buying_power :: pyfloat
  ps_reservation :: reservation
  ps_command :: exec_command
  ps_record :: execution_order

definition submit_notional :: "submit_request \<Rightarrow> pyfloat \<Rightarrow> pyfloat" where
  "submit_notional r limit_price =
     (if sr_side r = BUY then fmul (float_of_int (sr_quantity r)) limit_price else Fin 0)"

definition spec_open_risk :: "reservation_spec option \<Rightarrow> pyfloat" where
  "spec_open_risk spec = (case spec of None \<Rightarrow> Fin 0 | Some s \<Rightarrow> sp_proposed_open_risk_usd s)"

definition submit_reservation ::
    "timestamp \<Rightarrow> string \<Rightarrow> submit_request \<Rightarrow> pyfloat \<Rightarrow> pyfloat \<Rightarrow> gateway_db \<Rightarrow> gateway_error + reservation" where
  "submit_reservation now new_id r notional open_risk db =
     (if sr_prepared_capital_reservation_id r \<noteq> [] then linked_reservation r db
      else Inr (create_reservation new_id now (sr_environment r) (sr_account_no r) (sr_symbol r)
        (if sr_attempt_group_id r = [] then sr_client_order_id r else sr_attempt_group_id r) notional open_risk))"

definition prepare_submit ::
    "gateway_config \<Rightarrow> gateway_env \<Rightarrow> string \<Rightarrow> submit_request \<Rightarrow> gateway_db \<Rightarrow> gateway_error + prepared_submit" where
  "prepare_submit gw e new_id r db =
     guarded (submit_guards e r db)
     (bind_result (submit_limit_price r) (\<lambda>limit_price.
      bind_result (entry_risk_approval gw (ge_now e) r (sr_quantity r) limit_price) (\<lambda>spec.
      guarded (if sr_client_order_id r = [] then Some BlankClientOrderId else None)
        (let notional = submit_notional r limit_price; open_risk = spec_open_risk spec
         in bind_result (submit_reservation (ge_now e) new_id r notional open_risk db) (\<lambda>v.
            bind_result (new_command gw (ge_now e) (submit_key (sr_client_order_id r)) CT_SUBMIT (sr_environment r)
                (sr_account_no r) (sr_symbol r) (sr_lease r) [] (source_value (sr_source r))) (\<lambda>c.
            bind_result (map_sum OrderRecordError id
                (new_execution_order (ge_now e) r (sr_quantity r) limit_price (cr_reservation_id v))) (\<lambda>order.
              Inr \<lparr>ps_request = r, ps_limit_price = limit_price, ps_spec = spec, ps_notional = notional,
                ps_open_risk = open_risk,
                ps_buying_power = (if fpos notional then ge_buying_power e else Fin 0),
                ps_reservation = v, ps_command = c, ps_record = order\<rparr>)))))))"

lemma prepare_submit_Inr:
  assumes "prepare_submit gw e new_id r db = Inr p"
  shows "submit_guards e r db = None \<and> submit_limit_price r = Inr (ps_limit_price p)
    \<and> entry_risk_approval gw (ge_now e) r (sr_quantity r) (ps_limit_price p) = Inr (ps_spec p)
    \<and> sr_client_order_id r \<noteq> [] \<and> ps_request p = r
    \<and> ps_notional p = submit_notional r (ps_limit_price p) \<and> ps_open_risk p = spec_open_risk (ps_spec p)
    \<and> submit_reservation (ge_now e) new_id r (ps_notional p) (ps_open_risk p) db = Inr (ps_reservation p)
    \<and> new_command gw (ge_now e) (submit_key (sr_client_order_id r)) CT_SUBMIT (sr_environment r) (sr_account_no r)
        (sr_symbol r) (sr_lease r) [] (source_value (sr_source r)) = Inr (ps_command p)
    \<and> new_execution_order (ge_now e) r (sr_quantity r) (ps_limit_price p) (cr_reservation_id (ps_reservation p))
        = Inr (ps_record p)"
proof -
  obtain lp spec v c order where s: "submit_guards e r db = None" "submit_limit_price r = Inr lp"
      "entry_risk_approval gw (ge_now e) r (sr_quantity r) lp = Inr spec" "sr_client_order_id r \<noteq> []"
      "submit_reservation (ge_now e) new_id r (submit_notional r lp) (spec_open_risk spec) db = Inr v"
      "new_command gw (ge_now e) (submit_key (sr_client_order_id r)) CT_SUBMIT (sr_environment r) (sr_account_no r)
        (sr_symbol r) (sr_lease r) [] (source_value (sr_source r)) = Inr c"
      "map_sum OrderRecordError id (new_execution_order (ge_now e) r (sr_quantity r) lp (cr_reservation_id v)) = Inr order"
    and p: "p = \<lparr>ps_request = r, ps_limit_price = lp, ps_spec = spec, ps_notional = submit_notional r lp,
      ps_open_risk = spec_open_risk spec,
      ps_buying_power = (if fpos (submit_notional r lp) then ge_buying_power e else Fin 0),
      ps_reservation = v, ps_command = c, ps_record = order\<rparr>"
    using assms unfolding prepare_submit_def Let_def guarded_Inr_iff bind_result_Inr_iff
    by (auto split: if_splits)
  have "new_execution_order (ge_now e) r (sr_quantity r) lp (cr_reservation_id v) = Inr order"
    using s(7) by (cases "new_execution_order (ge_now e) r (sr_quantity r) lp (cr_reservation_id v)") auto
  with s p show ?thesis by simp
qed

subsection \<open>The two transactions before the final gate\<close>

definition reserve_capital :: "prepared_submit \<Rightarrow> gateway_db \<Rightarrow> gateway_error + (reservation \<times> gateway_db)" where
  "reserve_capital p db =
     (let r = ps_request p in
      if sr_prepared_capital_reservation_id r \<noteq> []
      then (case activate_prepared_replacement_reservation (sr_prepared_capital_reservation_id r)
              (sr_prepared_capital_reservation_version r) (sr_environment r) (sr_account_no r) (sr_symbol r)
              (ps_notional p) (ps_open_risk p) (gd_reservations db) of
            Inl e \<Rightarrow> Inl (ReservationStoreError e)
          | Inr (v, t) \<Rightarrow> Inr (v, db\<lparr>gd_reservations := t\<rparr>))
      else (case insert_reservation_if_available (ps_reservation p) (ps_buying_power p) (ps_spec p)
              (gd_reservations db) of
            Inl e \<Rightarrow> Inl (ReservationStoreError e)
          | Inr t \<Rightarrow> Inr (ps_reservation p, db\<lparr>gd_reservations := t\<rparr>)))"

definition journal_submit :: "prepared_submit \<Rightarrow> gateway_db \<Rightarrow> gateway_error + (reservation \<times> gateway_db)" where
  "journal_submit p db =
     (let r = ps_request p
      in guarded (require_external_fence db (sr_environment r) (sr_account_no r) (sr_symbol r) [])
        (bind_result (tx_insert_command (ps_command p) db) (\<lambda>db1.
         bind_result (reserve_capital p db1) (\<lambda>(v, db2).
         bind_result (tx_insert_order (ps_record p) db2) (\<lambda>db3. Inr (v, db3))))))"

definition begin_submitting ::
    "timestamp \<Rightarrow> prepared_submit \<Rightarrow> gateway_db \<Rightarrow> gateway_error + (execution_order \<times> gateway_db)" where
  "begin_submitting now p db = bind_result (transition_or_raise now SUBMITTING None (ps_record p)) (\<lambda>r. tx_update_order r db)"

subsection \<open>The final gate\<close>

definition submit_gate ::
    "gateway_config \<Rightarrow> gateway_env \<Rightarrow> prepared_submit \<Rightarrow> gateway_db \<Rightarrow> gateway_error option" where
  "submit_gate gw e p db =
     (let r = ps_request p in
      and_then (require_ownership db (sr_environment r) (sr_account_no r) (sr_symbol r) (sr_source r)
          (sr_strategy_instance_id r))
      (and_then (require_verified_lease db (sr_lease r))
      (and_then (case entry_risk_approval gw (ge_now e) r (sr_quantity r) (ps_limit_price p) of
          Inl err \<Rightarrow> Some err | Inr _ \<Rightarrow> None)
      (and_then (case require_live_entry_allowed (ge_live_config e) (sr_environment r) (sr_account_no r)
          (sr_symbol r) (sr_side r) (sr_quantity r) (ps_limit_price p) (Some (gd_cards db)) (ge_account_equity e) of
          Inl err \<Rightarrow> Some (LiveEnvelope err) | Inr _ \<Rightarrow> None)
       (require_external_fence db (sr_environment r) (sr_account_no r) (sr_symbol r) [])))))"

definition abort_submit ::
    "gateway_config \<Rightarrow> timestamp \<Rightarrow> gateway_error \<Rightarrow> prepared_submit \<Rightarrow> reservation \<Rightarrow> execution_order \<Rightarrow> json_dict
       \<Rightarrow> gateway_db \<Rightarrow> gateway_error \<times> gateway_db" where
  "abort_submit gw now gate_error p v order response db =
     (case bind_result (transition_or_raise now CANCELLED_LOCALLY None order) (\<lambda>order'.
           bind_result (tx_update_order order' db) (\<lambda>(_, db1).
           bind_result (tx_update_command (gw_redact gw) (submit_key (sr_client_order_id (ps_request p)))
               CS_PRE_BROKER_ABORTED response db1) (\<lambda>db2.
           tx_update_reservation (release_reservation_notional now v) (cr_version v) db2))) of
        Inl err \<Rightarrow> (err, db)
      | Inr db' \<Rightarrow> (SubmissionPreBrokerAborted gate_error, db'))"

subsection \<open>The outcome of the broker call\<close>

text \<open>The broker answered with an order id, or the call raised; the broker adapter says whether an
  exception is ambiguous.\<close>

datatype submit_outcome = BrokerAccepted string json_dict | BrokerRaised bool json_dict

definition persist_submit_failure ::
    "gateway_config \<Rightarrow> timestamp \<Rightarrow> bool \<Rightarrow> json_dict \<Rightarrow> string \<Rightarrow> reservation \<Rightarrow> execution_order \<Rightarrow> gateway_db
       \<Rightarrow> gateway_error + gateway_db" where
  "persist_submit_failure gw now ambiguous response key v order db =
     bind_result (tx_update_order order db) (\<lambda>(_, db1).
     bind_result (tx_update_command (gw_redact gw) key (if ambiguous then CS_AMBIGUOUS else CS_FAILED) response db1)
       (\<lambda>db2. if ambiguous then Inr db2
              else tx_update_reservation (release_reservation_notional now v) (cr_version v) db2))"

definition persist_submit_success ::
    "gateway_config \<Rightarrow> json_dict \<Rightarrow> string \<Rightarrow> execution_order \<Rightarrow> gateway_db \<Rightarrow> gateway_error + (execution_order \<times> gateway_db)" where
  "persist_submit_success gw response key order db =
     bind_result (tx_update_order order db) (\<lambda>(order', db1).
     bind_result (tx_update_command (gw_redact gw) key CS_ACKNOWLEDGED response db1) (\<lambda>db2. Inr (order', db2)))"

definition settle_submit ::
    "gateway_config \<Rightarrow> timestamp \<Rightarrow> submit_outcome \<Rightarrow> prepared_submit \<Rightarrow> reservation \<Rightarrow> execution_order \<Rightarrow> gateway_db
       \<Rightarrow> (gateway_error + execution_order) \<times> gateway_db" where
  "settle_submit gw now outcome p v order db =
     (let key = submit_key (sr_client_order_id (ps_request p)) in
      case outcome of
        BrokerRaised ambiguous response \<Rightarrow>
          (case transition_or_raise now (if ambiguous then UNKNOWN_SUBMISSION_STATE else REJECTED) None order of
             Inl err \<Rightarrow> (Inl err, db)
           | Inr order' \<Rightarrow>
               (case persist_submit_failure gw now ambiguous response key v order' db of
                  Inl err \<Rightarrow> (Inl AmbiguousPostBrokerPersistence, db)
                | Inr db' \<Rightarrow> (Inl (if ambiguous then SubmissionAmbiguous else SubmissionRejected), db')))
      | BrokerAccepted bid response \<Rightarrow>
          (case transition_or_raise now ACKNOWLEDGED (Some bid)
              (order\<lparr>eo_remaining_quantity := eo_submitted_quantity order\<rparr>) of
             Inl err \<Rightarrow> (Inl err, db)
           | Inr order' \<Rightarrow>
               (case persist_submit_success gw response key order' db of
                  Inl err \<Rightarrow> (Inl AmbiguousPostBrokerPersistence, db)
                | Inr (order'', db') \<Rightarrow> (Inr order'', db'))))"

subsection \<open>The whole sequence\<close>

text \<open>
  \<open>other n\<close> is what others commit before the stage \<open>n\<close>; \<open>clock\<close> and \<open>gate_env\<close> are the surroundings of
  the later stages. The last component tells whether the broker was called.
\<close>

definition do_submit ::
    "gateway_config \<Rightarrow> gateway_env \<Rightarrow> timestamp \<Rightarrow> gateway_env \<Rightarrow> timestamp \<Rightarrow> string \<Rightarrow> json_dict \<Rightarrow> submit_outcome
       \<Rightarrow> (nat \<Rightarrow> gateway_db \<Rightarrow> gateway_db) \<Rightarrow> submit_request \<Rightarrow> gateway_db
       \<Rightarrow> (gateway_error + execution_order) \<times> gateway_db \<times> bool" where
  "do_submit gw e clock gate_env end_clock new_id abort_response outcome other r db =
     (case prepare_submit gw e new_id r db of
        Inl err \<Rightarrow> (Inl err, db, False)
      | Inr p \<Rightarrow>
          (case journal_submit p (other 1 db) of
             Inl err \<Rightarrow> (Inl err, other 1 db, False)
           | Inr (v, db1) \<Rightarrow>
               (case begin_submitting clock p (other 2 db1) of
                  Inl err \<Rightarrow> (Inl err, other 2 db1, False)
                | Inr (order, db2) \<Rightarrow>
                    (case submit_gate gw gate_env p (other 3 db2) of
                       Some gate_error \<Rightarrow>
                         (case abort_submit gw end_clock gate_error p v order abort_response (other 4 (other 3 db2)) of
                            (err, db3) \<Rightarrow> (Inl err, db3, False))
                     | None \<Rightarrow>
                         (case settle_submit gw end_clock outcome p v order (other 4 (other 3 db2)) of
                            (result, db3) \<Rightarrow> (result, db3, True))))))"

text \<open>The public entry point, with a writable database.\<close>

definition submit_guarded ::
    "gateway_config \<Rightarrow> gateway_env \<Rightarrow> timestamp \<Rightarrow> gateway_env \<Rightarrow> timestamp \<Rightarrow> string \<Rightarrow> json_dict \<Rightarrow> submit_outcome
       \<Rightarrow> (nat \<Rightarrow> gateway_db \<Rightarrow> gateway_db) \<Rightarrow> (recovery_key \<rightharpoonup> execution_source) \<Rightarrow> submit_request \<Rightarrow> gateway_db
       \<Rightarrow> (gateway_error + execution_order) \<times> gateway_db \<times> bool" where
  "submit_guarded gw e clock gate_env end_clock new_id abort_response outcome other holders r db =
     (case require_live_entry_allowed (ge_live_config e) (sr_environment r) (sr_account_no r) (sr_symbol r)
         (sr_side r) (sr_quantity r) (sr_limit_price r) (Some (gd_cards db)) (ge_account_equity e) of
        Inl err \<Rightarrow> (Inl (LiveEnvelope err), db, False)
      | Inr _ \<Rightarrow>
          (case claim_key (recovery_key_of (sr_environment r) (sr_account_no r) (sr_symbol r)) (sr_source r) holders of
             Inl err \<Rightarrow> (Inl err, db, False)
           | Inr _ \<Rightarrow> do_submit gw e clock gate_env end_clock new_id abort_response outcome other r db))"

end
