(* ===== verification/Gateway_Cancel.thy ===== *)
theory Gateway_Cancel
  imports Gateway_Submit
begin

text \<open>
  \<open>ExecutionCommandGateway._do_cancel\<close> and \<open>cancel_guarded\<close>: the guarded cancellation of one order,
  in the stages between which others run, as for the submission. The permission check and whether
  a terminal answer gives the reservation back are arguments, because the replacement calls the
  same sequence with its own.
\<close>

record broker_snapshot =
  bs_status :: order_status
  bs_filled_quantity :: int
  bs_remaining_quantity :: int
  bs_avg_fill_price :: pyfloat
  bs_broker_order_id :: string
  bs_raw_response :: json_dict

definition cancel_key :: "string \<Rightarrow> string" where
  "cancel_key cancel_command_id = ''CANCEL:'' @ cancel_command_id"

definition cancel_guards ::
    "gateway_env \<Rightarrow> (execution_order \<Rightarrow> bool) \<Rightarrow> cancel_request \<Rightarrow> execution_order \<Rightarrow> gateway_db
       \<Rightarrow> gateway_error option" where
  "cancel_guards e permitted r order db =
     and_then (if eo_environment order \<noteq> xr_environment r \<or> eo_account_no order \<noteq> xr_account_no r
         then Some CancelNotPermitted else None)
     (and_then (require_ownership db (eo_environment order) (eo_account_no order) (eo_symbol order) (xr_source r)
         (xr_strategy_instance_id r))
     (and_then (require_verified_lease db (xr_lease r))
     (and_then (require_budget_available e CT_CANCEL (priority_for_record order) False)
       (if \<not> permitted order then Some CancelNotPermitted else None))))"

text \<open>One transaction: fence, command, \<open>CANCEL_PENDING\<close>.\<close>

definition journal_cancel ::
    "gateway_config \<Rightarrow> timestamp \<Rightarrow> cancel_request \<Rightarrow> execution_order \<Rightarrow> gateway_db
       \<Rightarrow> gateway_error + (execution_order \<times> gateway_db)" where
  "journal_cancel gw now r order db =
     bind_result (new_command gw now (cancel_key (xr_cancel_command_id r)) CT_CANCEL (eo_environment order)
         (eo_account_no order) (eo_symbol order) (xr_lease r) (eo_broker_order_id order)
         (source_value (xr_source r))) (\<lambda>c.
     guarded (require_external_fence db (eo_environment order) (eo_account_no order) (eo_symbol order)
         (eo_client_order_id order))
       (bind_result (tx_insert_command c db) (\<lambda>db1.
        bind_result (transition_or_raise now CANCEL_PENDING None order) (\<lambda>order'.
        tx_update_order order' db1))))"

definition cancel_gate ::
    "gateway_env \<Rightarrow> cancel_request \<Rightarrow> execution_order \<Rightarrow> gateway_db \<Rightarrow> gateway_error option" where
  "cancel_gate e r order db =
     and_then (require_ownership db (eo_environment order) (eo_account_no order) (eo_symbol order) (xr_source r)
         (xr_strategy_instance_id r))
     (and_then (require_verified_lease db (xr_lease r))
     (and_then (map_option LiveEnvelope (require_live_mutation_allowed (ge_live_config e) (eo_environment order)))
       (require_external_fence db (eo_environment order) (eo_account_no order) (eo_symbol order)
         (eo_client_order_id order))))"

text \<open>No cancel reached the broker: the status of before comes back and the command is retired.\<close>

definition abort_cancel ::
    "gateway_config \<Rightarrow> timestamp \<Rightarrow> gateway_error \<Rightarrow> cancel_request \<Rightarrow> execution_order_status \<Rightarrow> execution_order
       \<Rightarrow> json_dict \<Rightarrow> gateway_db \<Rightarrow> gateway_error \<times> gateway_db" where
  "abort_cancel gw now gate_error r before order response db =
     (case bind_result (transition_or_raise now before None order) (\<lambda>order'.
           bind_result (tx_update_order order' db) (\<lambda>(_, db1).
           tx_update_command (gw_redact gw) (cancel_key (xr_cancel_command_id r)) CS_PRE_BROKER_ABORTED response db1)) of
        Inl err \<Rightarrow> (err, db)
      | Inr db' \<Rightarrow> (CancellationPreBrokerAborted gate_error, db'))"

subsection \<open>The answer of the broker\<close>

datatype cancel_outcome = CancelAnswered broker_snapshot | CancelRaised bool json_dict

definition persist_cancel_failure ::
    "gateway_config \<Rightarrow> timestamp \<Rightarrow> bool \<Rightarrow> json_dict \<Rightarrow> string \<Rightarrow> execution_order \<Rightarrow> gateway_db
       \<Rightarrow> gateway_error + gateway_db" where
  "persist_cancel_failure gw now ambiguous response key order db =
     bind_result (tx_update_command (gw_redact gw) key (if ambiguous then CS_AMBIGUOUS else CS_FAILED) response db)
       (\<lambda>db1. bind_result (if ambiguous then transition_recovery_state DISCOVERING order
                           else transition_or_raise now WORKING None order) (\<lambda>order'.
              bind_result (tx_update_order order' db1) (\<lambda>(_, db2). Inr db2)))"

text \<open>The fields the answer sets, then the transition it stands for.\<close>

definition absorb_snapshot :: "broker_snapshot \<Rightarrow> execution_order \<Rightarrow> execution_order" where
  "absorb_snapshot s order =
     (let filled = max (eo_filled_quantity order) (bs_filled_quantity s)
      in order\<lparr>eo_filled_quantity := filled,
           eo_average_fill_price := (if truthy (bs_avg_fill_price s) then bs_avg_fill_price s
             else eo_average_fill_price order),
           eo_remaining_quantity := max 0 (if bs_remaining_quantity s \<noteq> 0 then bs_remaining_quantity s
             else eo_submitted_quantity order - filled)\<rparr>)"

definition apply_cancel_answer ::
    "timestamp \<Rightarrow> broker_snapshot \<Rightarrow> execution_order \<Rightarrow> gateway_error + execution_order" where
  "apply_cancel_answer now s order0 =
     (let order = absorb_snapshot s order0 in
      case bs_status s of
        OS_CANCELLED \<Rightarrow> transition_or_raise now CANCELLED None order
      | OS_FILLED \<Rightarrow> transition_or_raise now FILLED None
          (order\<lparr>eo_filled_quantity := (if bs_filled_quantity s \<noteq> 0 then bs_filled_quantity s
               else eo_submitted_quantity order), eo_remaining_quantity := 0\<rparr>)
      | OS_PARTIALLY_FILLED \<Rightarrow> transition_or_raise now PARTIALLY_FILLED None
          (order\<lparr>eo_filled_quantity := bs_filled_quantity s,
             eo_remaining_quantity := max 0 (eo_submitted_quantity order - bs_filled_quantity s)\<rparr>)
      | _ \<Rightarrow> transition_recovery_state DISCOVERING order)"

definition settled_reservation :: "timestamp \<Rightarrow> execution_order \<Rightarrow> reservation \<Rightarrow> reservation" where
  "settled_reservation now order v =
     (let price = (if truthy (eo_average_fill_price order) then eo_average_fill_price order
            else eo_submitted_limit_price order);
          filled_notional = fmul (float_of_int (eo_filled_quantity order)) price;
          v1 = (if fpos filled_notional then consume_reservation_notional filled_notional v else v)
      in if reservation_is_open v1 then release_reservation_notional now v1 else v1)"

definition persist_cancel_success ::
    "gateway_config \<Rightarrow> timestamp \<Rightarrow> bool \<Rightarrow> json_dict \<Rightarrow> string \<Rightarrow> execution_order \<Rightarrow> gateway_db
       \<Rightarrow> gateway_error + (execution_order \<times> gateway_db)" where
  "persist_cancel_success gw now give_back response key order db =
     bind_result (tx_update_order order db) (\<lambda>(order', db1).
     bind_result (tx_update_command (gw_redact gw) key CS_ACKNOWLEDGED response db1) (\<lambda>db2.
       if eo_status order \<in> {CANCELLED, FILLED} \<and> eo_capital_reservation_id order \<noteq> [] \<and> give_back
       then (case fetch_reservation (gd_reservations db) (eo_capital_reservation_id order) of
               None \<Rightarrow> Inr (order', db2)
             | Some v \<Rightarrow>
                 if \<not> reservation_is_open v then Inr (order', db2)
                 else bind_result (tx_update_reservation (settled_reservation now order v) (cr_version v) db2)
                   (\<lambda>db3. Inr (order', db3)))
       else Inr (order', db2)))"

definition settle_cancel ::
    "gateway_config \<Rightarrow> timestamp \<Rightarrow> bool \<Rightarrow> cancel_outcome \<Rightarrow> cancel_request \<Rightarrow> execution_order \<Rightarrow> gateway_db
       \<Rightarrow> (gateway_error + execution_order) \<times> gateway_db" where
  "settle_cancel gw now give_back outcome r order db =
     (let key = cancel_key (xr_cancel_command_id r) in
      case outcome of
        CancelRaised ambiguous response \<Rightarrow>
          (case persist_cancel_failure gw now ambiguous response key order db of
             Inl err \<Rightarrow> (Inl AmbiguousPostBrokerPersistence, db)
           | Inr db' \<Rightarrow> (Inl (if ambiguous then CancellationAmbiguous else CancellationRejected), db'))
      | CancelAnswered s \<Rightarrow>
          (case apply_cancel_answer now s order of
             Inl err \<Rightarrow> (Inl err, db)
           | Inr order' \<Rightarrow>
               (case persist_cancel_success gw now give_back (bs_raw_response s) key order' db of
                  Inl err \<Rightarrow> (Inl AmbiguousPostBrokerPersistence, db)
                | Inr (order'', db') \<Rightarrow> (Inr order'', db'))))"

subsection \<open>The whole sequence\<close>

definition do_cancel ::
    "gateway_config \<Rightarrow> gateway_env \<Rightarrow> timestamp \<Rightarrow> gateway_env \<Rightarrow> timestamp \<Rightarrow> (execution_order \<Rightarrow> bool) \<Rightarrow> bool
       \<Rightarrow> json_dict \<Rightarrow> cancel_outcome \<Rightarrow> (nat \<Rightarrow> gateway_db \<Rightarrow> gateway_db) \<Rightarrow> cancel_request \<Rightarrow> execution_order
       \<Rightarrow> gateway_db \<Rightarrow> (gateway_error + execution_order) \<times> gateway_db \<times> bool" where
  "do_cancel gw e clock gate_env end_clock permitted give_back abort_response outcome other r order db =
     (case cancel_guards e permitted r order db of
        Some err \<Rightarrow> (Inl err, db, False)
      | None \<Rightarrow>
          (case journal_cancel gw clock r order (other 1 db) of
             Inl err \<Rightarrow> (Inl err, other 1 db, False)
           | Inr (order1, db1) \<Rightarrow>
               (case cancel_gate gate_env r order1 (other 2 db1) of
                  Some gate_error \<Rightarrow>
                    (case abort_cancel gw end_clock gate_error r (eo_status order) order1 abort_response
                        (other 3 (other 2 db1)) of
                       (err, db2) \<Rightarrow> (Inl err, db2, False))
                | None \<Rightarrow>
                    (case settle_cancel gw end_clock give_back outcome r order1 (other 3 (other 2 db1)) of
                       (result, db2) \<Rightarrow> (result, db2, True)))))"

definition cancel_guarded ::
    "gateway_config \<Rightarrow> gateway_env \<Rightarrow> timestamp \<Rightarrow> gateway_env \<Rightarrow> timestamp \<Rightarrow> json_dict \<Rightarrow> cancel_outcome
       \<Rightarrow> (nat \<Rightarrow> gateway_db \<Rightarrow> gateway_db) \<Rightarrow> (recovery_key \<rightharpoonup> execution_source) \<Rightarrow> cancel_request \<Rightarrow> gateway_db
       \<Rightarrow> (gateway_error + execution_order) \<times> gateway_db \<times> bool" where
  "cancel_guarded gw e clock gate_env end_clock abort_response outcome other holders r db =
     (case require_live_mutation_allowed (ge_live_config e) (xr_environment r) of
        Some err \<Rightarrow> (Inl (LiveEnvelope err), db, False)
      | None \<Rightarrow>
          (case get_execution_order (gd_orders db) (xr_client_order_id r) of
             None \<Rightarrow> (Inl OrderNotFoundForCancel, db, False)
           | Some order \<Rightarrow>
               (case claim_key (recovery_key_of (eo_environment order) (eo_account_no order) (eo_symbol order))
                    (xr_source r) holders of
                  Inl err \<Rightarrow> (Inl err, db, False)
                | Inr _ \<Rightarrow> do_cancel gw e clock gate_env end_clock is_cancellable True abort_response outcome other r
                    order db)))"

end
