(* ===== verification/Gateway_Replace.thy ===== *)
theory Gateway_Replace
  imports Gateway_Cancel
begin

text \<open>
  \<open>ExecutionCommandGateway.replace_guarded\<close> and \<open>resume_replace_guarded\<close>: replacing a working order
  by a new one. The whole request is checked first, the parent command and the capital hold that
  covers both legs are journaled in one transaction, the old order is cancelled through the guarded
  cancellation, the broker is asked until it reports the cancellation itself, and only then the
  linked order is submitted through the guarded submission.

  The inquiries are the list of answers the loop gets before its deadline (an exception is an
  empty answer; there is at least one). The caller's second check of the market is an argument:
  whether it raises. \<open>other n\<close> is what others commit before the stage \<open>n\<close>; the two legs have their
  own.
\<close>

record replace_request =
  rr_client_order_id :: string
  rr_replace_command_id :: string
  rr_new_client_order_id :: string
  rr_new_quantity :: int
  rr_new_limit_price :: pyfloat
  rr_environment :: string
  rr_account_no :: string
  rr_lease :: "execution_lease option"
  rr_source :: execution_source
  rr_strategy_instance_id :: string
  rr_pre_trade_risk_decision :: "pre_trade_decision option"
  rr_risk_strategy_id :: string
  rr_risk_plan_id :: string

definition replace_request_post_init :: "replace_request \<Rightarrow> replace_request" where
  "replace_request_post_init r =
     r\<lparr>rr_client_order_id := py_strip (rr_client_order_id r),
       rr_replace_command_id := py_strip (rr_replace_command_id r),
       rr_new_client_order_id := py_strip (rr_new_client_order_id r),
       rr_environment := py_upper (rr_environment r)\<rparr>"

text \<open>The submission of the second leg.\<close>

definition replacement_submit ::
    "replace_request \<Rightarrow> execution_order \<Rightarrow> int \<Rightarrow> pyfloat \<Rightarrow> string \<Rightarrow> int \<Rightarrow> submit_request" where
  "replacement_submit r old quantity limit_price held_id held_version =
     \<lparr>sr_client_order_id = rr_new_client_order_id r, sr_environment = eo_environment old,
      sr_account_no = eo_account_no old, sr_symbol = eo_symbol old, sr_side = eo_side old,
      sr_intent = eo_intent old, sr_quantity = quantity, sr_limit_price = limit_price,
      sr_exchange = eo_exchange old, sr_execution_policy = eo_execution_policy old,
      sr_attempt_group_id = eo_attempt_group_id old, sr_attempt_number = eo_attempt_number old + 1,
      sr_attempt_deadline_at = None, sr_lease = rr_lease r, sr_source = rr_source r,
      sr_replaces_execution_order_id = rr_client_order_id r,
      sr_prepared_capital_reservation_id = held_id,
      sr_prepared_capital_reservation_version = held_version,
      sr_strategy_instance_id = rr_strategy_instance_id r, sr_emergency = False,
      sr_pre_trade_risk_decision = rr_pre_trade_risk_decision r, sr_risk_strategy_id = rr_risk_strategy_id r,
      sr_risk_plan_id = rr_risk_plan_id r\<rparr>"

definition is_entry_order :: "execution_order \<Rightarrow> bool" where
  "is_entry_order old \<longleftrightarrow> eo_side old = BUY \<and> eo_intent old = ENTRY"

definition replace_limit_price :: "replace_request \<Rightarrow> execution_order \<Rightarrow> gateway_error + pyfloat" where
  "replace_limit_price r old =
     (if eo_execution_policy old = RESERVED_MOO_EXECUTION then Inr (Fin 0)
      else if \<not> isfinite (rr_new_limit_price r) \<or> fle (rr_new_limit_price r) (Fin 0) then Inl LimitPriceInvalid
      else Inr (rr_new_limit_price r))"

text \<open>The checks of an entry: switch, approval with its portfolio spec, live envelope, and the open
  reservation the replacement takes over.\<close>

definition replace_entry_spec ::
    "gateway_config \<Rightarrow> gateway_env \<Rightarrow> replace_request \<Rightarrow> execution_order \<Rightarrow> pyfloat \<Rightarrow> gateway_db
       \<Rightarrow> gateway_error + reservation_spec option" where
  "replace_entry_spec gw e r old limit_price db =
     (if \<not> is_entry_order old then Inr None
      else guarded (require_trading e)
        (bind_result (entry_risk_approval gw (ge_now e)
            (replacement_submit r old (rr_new_quantity r) limit_price [] 0) (rr_new_quantity r) limit_price)
         (\<lambda>spec.
          guarded (case require_live_entry_allowed (ge_live_config e) (eo_environment old) (eo_account_no old)
              (eo_symbol old) (eo_side old) (rr_new_quantity r) limit_price (Some (gd_cards db))
              (ge_account_equity e) of Inl err \<Rightarrow> Some (LiveEnvelope err) | Inr _ \<Rightarrow> None)
            (case spec of None \<Rightarrow> Inr None
             | Some s \<Rightarrow>
                 if eo_capital_reservation_id old = [] then Inl ReplacementReservationRequired
                 else (case fetch_reservation (gd_reservations db) (eo_capital_reservation_id old) of
                     None \<Rightarrow> Inl ReplacementReservationRequired
                   | Some v \<Rightarrow> if reservation_is_open v then Inr (Some s) else Inl ReplacementReservationRequired)))))"

definition replace_checks ::
    "gateway_config \<Rightarrow> gateway_env \<Rightarrow> replace_request \<Rightarrow> execution_order \<Rightarrow> gateway_db
       \<Rightarrow> gateway_error + (pyfloat \<times> reservation_spec option)" where
  "replace_checks gw e r old db =
     guarded (first_error
       [(eo_environment old \<noteq> rr_environment r \<or> eo_account_no old \<noteq> rr_account_no r, CancelNotPermitted),
        (rr_new_quantity r \<le> 0, QuantityNotPositive)])
     (bind_result (replace_limit_price r old) (\<lambda>limit_price.
      guarded (first_error
        [(rr_new_client_order_id r = [], BlankClientOrderId),
         (get_execution_order (gd_orders db) (rr_new_client_order_id r) \<noteq> None, ReplacementIdentityExists)])
      (bind_result (replace_entry_spec gw e r old limit_price db) (\<lambda>spec.
       guarded
         (and_then (require_ownership db (eo_environment old) (eo_account_no old) (eo_symbol old) (rr_source r)
             (rr_strategy_instance_id r))
         (and_then (if \<not> cancellable_for_replace old then Some CancelNotPermitted else None)
         (and_then (require_verified_lease db (rr_lease r))
         (and_then (require_budget_available e CT_REPLACE (priority_for_record old) (is_entry_order old))
         (and_then (require_budget_available e CT_CANCEL (priority_for_record old) False)
           (require_budget_available e CT_SUBMIT (priority_for_record old) (is_entry_order old)))))))
         (Inr (limit_price, spec))))))"

definition replace_key :: "string \<Rightarrow> string" where
  "replace_key replace_command_id = ''REPLACE:'' @ replace_command_id"

text \<open>One transaction: fence, hold (with what the reservation was before), parent command.\<close>

definition journal_replace ::
    "gateway_config \<Rightarrow> gateway_env \<Rightarrow> replace_request \<Rightarrow> execution_order \<Rightarrow> pyfloat \<Rightarrow> reservation_spec option
       \<Rightarrow> gateway_db \<Rightarrow> gateway_error + ((reservation \<times> reservation) option \<times> gateway_db)" where
  "journal_replace gw e r old limit_price spec db =
     bind_result (new_command gw (ge_now e) (replace_key (rr_replace_command_id r)) CT_REPLACE (eo_environment old)
         (eo_account_no old) (eo_symbol old) (rr_lease r) (eo_broker_order_id old) (source_value (rr_source r))) (\<lambda>c.
     guarded (require_external_fence db (eo_environment old) (eo_account_no old) (eo_symbol old)
         (eo_client_order_id old))
       (bind_result
          (case spec of None \<Rightarrow> Inr (None, db)
           | Some s \<Rightarrow>
               (case prepare_reservation_for_replacement (ge_now e) (eo_capital_reservation_id old)
                   (eo_environment old) (eo_account_no old) (eo_symbol old)
                   (fmul (float_of_int (rr_new_quantity r)) limit_price) (sp_proposed_open_risk_usd s)
                   (ge_buying_power e) s (gd_reservations db) of
                 Inl err \<Rightarrow> Inl (ReservationStoreError err)
               | Inr (prepared, previous, t) \<Rightarrow> Inr (Some (prepared, previous), db\<lparr>gd_reservations := t\<rparr>)))
          (\<lambda>(hold, db1). bind_result (tx_insert_command c db1) (\<lambda>db2. Inr (hold, db2)))))"

definition replacement_cancel :: "replace_request \<Rightarrow> cancel_request" where
  "replacement_cancel r =
     \<lparr>xr_client_order_id = rr_client_order_id r, xr_cancel_command_id = rr_replace_command_id r @ '':CANCEL'',
      xr_environment = rr_environment r, xr_account_no = rr_account_no r, xr_lease = rr_lease r,
      xr_source = rr_source r, xr_strategy_instance_id = rr_strategy_instance_id r\<rparr>"

subsection \<open>Asking the broker what became of the cancellation\<close>

definition same_broker_order_id :: "string \<Rightarrow> string \<Rightarrow> bool" where
  "same_broker_order_id a b \<longleftrightarrow>
     (let l = py_strip a; r = py_strip b; bare = dropWhile (\<lambda>c. c = CHR ''0'')
      in l \<noteq> [] \<and> r \<noteq> [] \<and> (l = r \<or> bare l = bare r))"

fun cancel_truth :: "order_status \<Rightarrow> execution_order_status option" where
  "cancel_truth OS_CANCELLED = Some CANCELLED"
| "cancel_truth OS_FILLED = Some FILLED"
| "cancel_truth OS_PARTIALLY_FILLED = Some PARTIALLY_FILLED"
| "cancel_truth OS_REJECTED = Some REJECTED"
| "cancel_truth OS_EXPIRED = Some EXPIRED"
| "cancel_truth _ = None"

text \<open>The record with the evidence of an answer, before its status moves.\<close>

definition with_cancel_evidence :: "broker_snapshot \<Rightarrow> execution_order_status \<Rightarrow> execution_order \<Rightarrow> execution_order" where
  "with_cancel_evidence s target r =
     (let filled = max (eo_filled_quantity r) (bs_filled_quantity s)
      in r\<lparr>eo_filled_quantity := filled,
           eo_average_fill_price := (if truthy (bs_avg_fill_price s) then bs_avg_fill_price s
             else eo_average_fill_price r),
           eo_remaining_quantity := (if target \<in> {CANCELLED, FILLED, REJECTED, EXPIRED} then 0
             else max 0 (if bs_remaining_quantity s \<noteq> 0 then bs_remaining_quantity s
               else eo_submitted_quantity r - filled))\<rparr>)"

text \<open>Whether the answer decided, with the record as it is in memory then; nothing is written for an
  answer that does not decide.\<close>

definition apply_authoritative_cancel_snapshot ::
    "timestamp \<Rightarrow> broker_snapshot \<Rightarrow> execution_order \<Rightarrow> gateway_db
       \<Rightarrow> gateway_error + (bool \<times> execution_order \<times> gateway_db)" where
  "apply_authoritative_cancel_snapshot now s r db =
     (case cancel_truth (bs_status s) of
        None \<Rightarrow> Inr (False, r, db)
      | Some target \<Rightarrow>
          let r1 = with_cancel_evidence s target r in
          if target \<noteq> eo_status r \<and> target \<notin> allowed_status_transitions (eo_status r) then Inr (False, r1, db)
          else bind_result (if target \<noteq> eo_status r then transition_or_raise now target None r1 else Inr r1) (\<lambda>r2.
               bind_result (if eo_recovery_state r2 = DISCOVERING then transition_recovery_state ORS_NONE r2 else Inr r2)
                 (\<lambda>r3. bind_result (tx_update_order r3 db) (\<lambda>(r4, db'). Inr (True, r4, db')))))"

fun wait_for_cancel_terminal ::
    "timestamp \<Rightarrow> broker_snapshot list list \<Rightarrow> execution_order \<Rightarrow> gateway_db
       \<Rightarrow> gateway_error + (execution_order \<times> gateway_db)" where
  "wait_for_cancel_terminal now [] r db = Inr (r, db)"
| "wait_for_cancel_terminal now (answer # answers) r db =
     (case List.find (\<lambda>s. same_broker_order_id (bs_broker_order_id s) (eo_broker_order_id r)) answer of
        None \<Rightarrow> wait_for_cancel_terminal now answers r db
      | Some s \<Rightarrow>
          (case apply_authoritative_cancel_snapshot now s r db of
             Inl err \<Rightarrow> Inl err
           | Inr (decided, r', db') \<Rightarrow>
               if decided then Inr (r', db') else wait_for_cancel_terminal now answers r' db'))"

text \<open>The acknowledged cancellation is doubted until an inquiry confirms it.\<close>

definition confirm_cancel ::
    "timestamp \<Rightarrow> broker_snapshot list list \<Rightarrow> string \<Rightarrow> gateway_db
       \<Rightarrow> gateway_error + (execution_order option \<times> gateway_db)" where
  "confirm_cancel now answers client_order_id db =
     (case get_execution_order (gd_orders db) client_order_id of
        None \<Rightarrow> Inr (None, db)
      | Some old \<Rightarrow>
          bind_result
            (if eo_status old = CANCELLED \<and> eo_recovery_state old = ORS_NONE
             then bind_result (transition_recovery_state DISCOVERING old) (\<lambda>r. tx_update_order r db)
             else Inr (old, db)) (\<lambda>(old1, db1).
          bind_result
            (if eo_status old1 \<in> {CANCEL_PENDING, CANCELLED} then wait_for_cancel_terminal now answers old1 db1
             else Inr (old1, db1)) (\<lambda>(old2, db2). Inr (Some old2, db2))))"

subsection \<open>The capital hold\<close>

definition release_hold :: "timestamp \<Rightarrow> string \<Rightarrow> gateway_db \<Rightarrow> gateway_error + gateway_db" where
  "release_hold now reservation_id db =
     (case fetch_reservation (gd_reservations db) reservation_id of
        None \<Rightarrow> Inr db
      | Some v \<Rightarrow> if \<not> reservation_is_open v then Inr db
          else tx_update_reservation (release_reservation_notional now v) (cr_version v) db)"

text \<open>Releasing, then raising: a failing release raises instead.\<close>

definition release_and_raise ::
    "timestamp \<Rightarrow> (reservation \<times> reservation) option \<Rightarrow> gateway_error \<Rightarrow> gateway_db \<Rightarrow> gateway_error \<times> gateway_db" where
  "release_and_raise now hold err db =
     (case hold of None \<Rightarrow> (err, db)
      | Some (prepared, previous) \<Rightarrow>
          (case release_hold now (cr_reservation_id prepared) db of
             Inl e \<Rightarrow> (e, db) | Inr db' \<Rightarrow> (err, db')))"

definition restore_hold ::
    "(reservation \<times> reservation) option \<Rightarrow> gateway_error \<Rightarrow> gateway_db \<Rightarrow> gateway_error \<times> gateway_db" where
  "restore_hold hold err db =
     (case hold of None \<Rightarrow> (err, db)
      | Some (prepared, previous) \<Rightarrow>
          (case restore_prepared_replacement_reservation prepared previous (gd_reservations db) of
             Inl e \<Rightarrow> (ReservationStoreError e, db)
           | Inr (v, t) \<Rightarrow> (err, db\<lparr>gd_reservations := t\<rparr>)))"

text \<open>After the inquiries: \<open>None\<close> if the old order is safely gone.\<close>

definition replacement_refused ::
    "timestamp \<Rightarrow> int \<Rightarrow> (reservation \<times> reservation) option \<Rightarrow> bool \<Rightarrow> execution_order option \<Rightarrow> gateway_db
       \<Rightarrow> (gateway_error \<times> gateway_db) option" where
  "replacement_refused now filled_before hold revalidation_fails cancelled db =
     (case cancelled of
        None \<Rightarrow> Some (ReplaceNotSafe, db)
      | Some old \<Rightarrow>
          if eo_status old = CANCELLED \<and> filled_before < eo_filled_quantity old
          then Some (release_and_raise now hold ReplaceNotSafe db)
          else if eo_status old \<noteq> CANCELLED \<or> eo_recovery_state old \<noteq> ORS_NONE
          then Some (case hold of
              Some (prepared, previous) \<Rightarrow>
                if eo_status old = FILLED \<and> reservation_is_open prepared
                then (case tx_update_reservation (release_reservation_notional now prepared) (cr_version prepared) db of
                        Inl e \<Rightarrow> (e, db) | Inr db' \<Rightarrow> (ReplaceNotSafe, db'))
                else (ReplaceNotSafe, db)
            | None \<Rightarrow> (ReplaceNotSafe, db))
          else if revalidation_fails then Some (release_and_raise now hold ReplaceNotSafe db)
          else None)"

definition keeps_hold :: "gateway_error \<Rightarrow> bool" where
  "keeps_hold err \<longleftrightarrow> err \<in> {SubmissionAmbiguous, AmbiguousPostBrokerPersistence}"

text \<open>The second leg and the end of the parent command. \<open>leg\<close> is the guarded submission.\<close>

definition finish_replacement ::
    "gateway_config \<Rightarrow> timestamp \<Rightarrow> string \<Rightarrow> json_dict \<Rightarrow> int option \<Rightarrow> bool \<Rightarrow> string \<Rightarrow> (reservation \<times> reservation) option
       \<Rightarrow> (gateway_error + execution_order) \<times> gateway_db \<Rightarrow> (gateway_error + execution_order) \<times> gateway_db" where
  "finish_replacement gw now key response parent_version finalize new_id hold leg =
     (case leg of
        (Inl err, db) \<Rightarrow>
          if keeps_hold err then (Inl err, db)
          else if get_execution_order (gd_orders db) new_id \<noteq> None then (Inl err, db)
          else (case release_and_raise now hold err db of (err', db') \<Rightarrow> (Inl err', db'))
      | (Inr order, db) \<Rightarrow>
          if \<not> finalize then (Inr order, db)
          else (case update_command_response (gw_redact gw) key CS_COMPLETED response parent_version (gd_commands db) of
             Inl e \<Rightarrow> (Inl (CommandStoreError e), db)
           | Inr (c, t) \<Rightarrow> (Inr order, db\<lparr>gd_commands := t\<rparr>)))"

subsection \<open>The whole replacement\<close>

text \<open>What the legs meet: their surroundings, clocks and outcomes, in the order of \<open>do_cancel\<close> and
  \<open>do_submit\<close>.\<close>

record leg_env =
  le_env :: gateway_env
  le_clock :: timestamp
  le_gate_env :: gateway_env
  le_end_clock :: timestamp
  le_response :: json_dict
  le_other :: "nat \<Rightarrow> gateway_db \<Rightarrow> gateway_db"

text \<open>The last two components tell whether the broker was asked to cancel and to submit.\<close>

definition do_replace ::
    "gateway_config \<Rightarrow> gateway_env \<Rightarrow> timestamp \<Rightarrow> leg_env \<Rightarrow> cancel_outcome \<Rightarrow> broker_snapshot list list \<Rightarrow> bool
       \<Rightarrow> leg_env \<Rightarrow> string \<Rightarrow> submit_outcome \<Rightarrow> (nat \<Rightarrow> gateway_db \<Rightarrow> gateway_db) \<Rightarrow> replace_request
       \<Rightarrow> execution_order \<Rightarrow> gateway_db \<Rightarrow> (gateway_error + execution_order) \<times> gateway_db \<times> bool \<times> bool" where
  "do_replace gw e now cl cancel_answer answers revalidation_fails sl new_id submit_answer other r old db =
     (case replace_checks gw e r old db of
        Inl err \<Rightarrow> (Inl err, db, False, False)
      | Inr (limit_price, spec) \<Rightarrow>
          (case journal_replace gw e r old limit_price spec (other 1 db) of
             Inl err \<Rightarrow> (Inl err, other 1 db, False, False)
           | Inr (hold, db1) \<Rightarrow>
               (case do_cancel gw (le_env cl) (le_clock cl) (le_gate_env cl) (le_end_clock cl) cancellable_for_replace
                   (hold = None) (le_response cl) cancel_answer (le_other cl)
                   (cancel_request_post_init (replacement_cancel r)) old (other 2 db1) of
                  (Inl err, db2, asked) \<Rightarrow>
                    if err \<in> {CancellationAmbiguous, AmbiguousPostBrokerPersistence} then (Inl err, db2, asked, False)
                    else (case restore_hold hold err (other 3 db2) of (err', db3) \<Rightarrow> (Inl err', db3, asked, False))
                | (Inr _, db2, asked) \<Rightarrow>
                    (case confirm_cancel now answers (rr_client_order_id r) (other 3 db2) of
                       Inl err \<Rightarrow> (Inl err, other 3 db2, asked, False)
                     | Inr (cancelled, db3) \<Rightarrow>
                         (case replacement_refused now (eo_filled_quantity old) hold revalidation_fails cancelled
                             (other 4 db3) of
                            Some (err, db4) \<Rightarrow> (Inl err, db4, asked, False)
                          | None \<Rightarrow>
                              let gone = the cancelled;
                                  s = submit_request_post_init (replacement_submit r gone (rr_new_quantity r) limit_price
                                    (case hold of None \<Rightarrow> [] | Some (p, q) \<Rightarrow> cr_reservation_id p)
                                    (case hold of None \<Rightarrow> 0 | Some (p, q) \<Rightarrow> cr_version p))
                              in (case do_submit gw (le_env sl) (le_clock sl) (le_gate_env sl) (le_end_clock sl) new_id
                                      (le_response sl) submit_answer (le_other sl) s (other 5 (other 4 db3)) of
                                    (result, db4, submitted) \<Rightarrow>
                                      (case finish_replacement gw now (replace_key (rr_replace_command_id r)) [] None
                                          True (rr_new_client_order_id r) hold (result, other 6 db4) of
                                         (result', db5) \<Rightarrow> (result', db5, asked, submitted))))))))"

definition replace_guarded ::
    "gateway_config \<Rightarrow> gateway_env \<Rightarrow> timestamp \<Rightarrow> leg_env \<Rightarrow> cancel_outcome \<Rightarrow> broker_snapshot list list \<Rightarrow> bool
       \<Rightarrow> leg_env \<Rightarrow> string \<Rightarrow> submit_outcome \<Rightarrow> (nat \<Rightarrow> gateway_db \<Rightarrow> gateway_db) \<Rightarrow> (recovery_key \<rightharpoonup> execution_source)
       \<Rightarrow> replace_request \<Rightarrow> gateway_db \<Rightarrow> (gateway_error + execution_order) \<times> gateway_db \<times> bool \<times> bool" where
  "replace_guarded gw e now cl cancel_answer answers revalidation_fails sl new_id submit_answer other holders r db =
     (case require_live_mutation_allowed (ge_live_config e) (rr_environment r) of
        Some err \<Rightarrow> (Inl (LiveEnvelope err), db, False, False)
      | None \<Rightarrow>
          (case get_execution_order (gd_orders db) (rr_client_order_id r) of
             None \<Rightarrow> (Inl OrderNotFoundForCancel, db, False, False)
           | Some old \<Rightarrow>
               (case claim_key (recovery_key_of (eo_environment old) (eo_account_no old) (eo_symbol old)) (rr_source r)
                   holders of
                  Inl err \<Rightarrow> (Inl err, db, False, False)
                | Inr _ \<Rightarrow> do_replace gw e now cl cancel_answer answers revalidation_fails sl new_id submit_answer
                    other r old db)))"

subsection \<open>Resuming after a restart\<close>

text \<open>Only the submission leg: the old order must be confirmed cancelled without a fill.\<close>

definition resume_checks :: "replace_request \<Rightarrow> execution_order \<Rightarrow> gateway_db \<Rightarrow> gateway_error + exec_command" where
  "resume_checks r old db =
     guarded (first_error
       [(eo_environment old \<noteq> rr_environment r \<or> eo_account_no old \<noteq> rr_account_no r, ReplaceNotSafe),
        (eo_status old \<noteq> CANCELLED \<or> eo_filled_quantity old \<noteq> 0 \<or> eo_recovery_state old \<noteq> ORS_NONE,
         ReplaceCancelConfirmationPending),
        (rr_new_quantity r \<noteq> eo_submitted_quantity old, ReplaceNotSafe)])
     (case get_command (gd_commands db) (replace_key (rr_replace_command_id r)) of
        None \<Rightarrow> Inl ReplaceNotSafe
      | Some parent \<Rightarrow>
          if ec_command_type parent \<noteq> CT_REPLACE \<or> ec_environment parent \<noteq> eo_environment old
             \<or> ec_account_no parent \<noteq> eo_account_no old \<or> ec_symbol parent \<noteq> eo_symbol old
             \<or> \<not> same_broker_order_id (ec_target_broker_order_id parent) (eo_broker_order_id old)
             \<or> ec_status parent \<notin> {CS_REQUESTED, CS_COMPLETED}
          then Inl ReplaceNotSafe
          else guarded (and_then (require_ownership db (eo_environment old) (eo_account_no old) (eo_symbol old)
                   (rr_source r) (rr_strategy_instance_id r)) (require_verified_lease db (rr_lease r)))
                 (Inr parent))"

definition completed_statuses :: "execution_order_status set" where
  "completed_statuses = {ACKNOWLEDGED, WORKING, PARTIALLY_FILLED, FILLED}"

text \<open>What an already existing new order means: the result, or why not.\<close>

definition existing_replacement :: "execution_order \<Rightarrow> execution_order \<Rightarrow> gateway_error + execution_order" where
  "existing_replacement old existing =
     (if eo_replaces_execution_order_id existing \<noteq> eo_client_order_id old
         \<or> eo_capital_reservation_id existing \<noteq> eo_capital_reservation_id old then Inl ReplaceNotSafe
      else if eo_status existing \<in> completed_statuses then Inr existing
      else if eo_status existing \<in> {PREPARED, SUBMITTING, UNKNOWN_SUBMISSION_STATE} then Inl SubmissionAmbiguous
      else Inl ReplaceNotSafe)"

definition do_resume_replace ::
    "gateway_config \<Rightarrow> timestamp \<Rightarrow> bool \<Rightarrow> leg_env \<Rightarrow> string \<Rightarrow> submit_outcome \<Rightarrow> (nat \<Rightarrow> gateway_db \<Rightarrow> gateway_db)
       \<Rightarrow> replace_request \<Rightarrow> execution_order \<Rightarrow> gateway_db \<Rightarrow> (gateway_error + execution_order) \<times> gateway_db \<times> bool" where
  "do_resume_replace gw now revalidation_fails sl new_id submit_answer other r old db =
     (let key = replace_key (rr_replace_command_id r);
          resumed = [(''resumed_after_cancel_confirmation'', JBool True)]
      in case resume_checks r old db of
           Inl err \<Rightarrow> (Inl err, db, False)
         | Inr parent \<Rightarrow>
             (case get_execution_order (gd_orders db) (rr_new_client_order_id r) of
                Some existing \<Rightarrow>
                  (case existing_replacement old existing of
                     Inl err \<Rightarrow> (Inl err, db, False)
                   | Inr result \<Rightarrow>
                       (case finish_replacement gw now key resumed (Some (ec_version parent))
                           (ec_status parent = CS_REQUESTED) (rr_new_client_order_id r) None (Inr result, other 1 db) of
                          (res, db') \<Rightarrow> (res, db', False)))
              | None \<Rightarrow>
                  if ec_status parent = CS_COMPLETED then (Inl SubmissionAmbiguous, db, False)
                  else
                    (case fetch_reservation (gd_reservations db) (eo_capital_reservation_id old) of
                       None \<Rightarrow> (Inl ReplaceNotSafe, db, False)
                     | Some v \<Rightarrow>
                         if \<not> reservation_is_open v then (Inl ReplaceNotSafe, db, False)
                         else if revalidation_fails
                         then (case tx_update_reservation (release_reservation_notional now v) (cr_version v) (other 1 db) of
                                 Inl err \<Rightarrow> (Inl err, other 1 db, False)
                               | Inr db' \<Rightarrow> (Inl ReplaceNotSafe, db', False))
                         else
                           (case do_submit gw (le_env sl) (le_clock sl) (le_gate_env sl) (le_end_clock sl) new_id
                               (le_response sl) submit_answer (le_other sl)
                               (submit_request_post_init ((replacement_submit r old (rr_new_quantity r)
                                   (rr_new_limit_price r) (cr_reservation_id v) (cr_version v))
                                   \<lparr>sr_replaces_execution_order_id := eo_client_order_id old\<rparr>)) (other 1 db) of
                              (result, db1, submitted) \<Rightarrow>
                                (case finish_replacement gw now key resumed (Some (ec_version parent)) True
                                    (rr_new_client_order_id r) (Some (v, v)) (result, other 2 db1) of
                                   (res, db2) \<Rightarrow> (res, db2, submitted))))))"

definition resume_replace_guarded ::
    "gateway_config \<Rightarrow> timestamp \<Rightarrow> bool \<Rightarrow> leg_env \<Rightarrow> string \<Rightarrow> submit_outcome \<Rightarrow> (nat \<Rightarrow> gateway_db \<Rightarrow> gateway_db)
       \<Rightarrow> (recovery_key \<rightharpoonup> execution_source) \<Rightarrow> replace_request \<Rightarrow> gateway_db
       \<Rightarrow> (gateway_error + execution_order) \<times> gateway_db \<times> bool" where
  "resume_replace_guarded gw now revalidation_fails sl new_id submit_answer other holders r db =
     (case get_execution_order (gd_orders db) (rr_client_order_id r) of
        None \<Rightarrow> (Inl ReplaceNotSafe, db, False)
      | Some old \<Rightarrow>
          (case claim_key (recovery_key_of (eo_environment old) (eo_account_no old) (eo_symbol old)) (rr_source r)
              holders of
             Inl err \<Rightarrow> (Inl err, db, False)
           | Inr _ \<Rightarrow> do_resume_replace gw now revalidation_fails sl new_id submit_answer other r old db))"

end
