(* ===== verification/Gateway_Steps.thy ===== *)
theory Gateway_Steps
  imports Gateway_Cancel
begin

text \<open>
  The guarded gateway as a transition system. Any number of submissions and cancellations are in
  flight, in this process and on other devices; each stage of \<open>Gateway_Submit\<close> and
  \<open>Gateway_Cancel\<close> is one step on the shared database, a call can stop after any stage (an exception,
  a crash), and between two steps anything else may commit what \<open>db_evolves\<close> allows. The broker calls
  made so far are a list the steps only append to.
\<close>

datatype phase =
    SubPrepared prepared_submit
  | SubJournaled prepared_submit reservation
  | SubSubmitting prepared_submit reservation execution_order
  | SubCleared prepared_submit reservation execution_order gateway_db
  | SubRefused prepared_submit reservation execution_order gateway_error
  | SubSent prepared_submit reservation execution_order
  | CanChecked cancel_request execution_order bool
  | CanJournaled cancel_request execution_order_status execution_order bool
  | CanCleared cancel_request execution_order bool gateway_db
  | CanRefused cancel_request execution_order_status execution_order gateway_error
  | CanSent cancel_request execution_order bool

text \<open>A call of the broker, with the database as the final gate read it.\<close>

datatype broker_call =
    SubmitCall prepared_submit execution_order gateway_db
  | CancelCall cancel_request execution_order gateway_db

record gateway_state =
  gs_db :: gateway_db
  gs_inflight :: "nat \<rightharpoonup> phase"
  gs_calls :: "broker_call list"

definition submit_id :: "prepared_submit \<Rightarrow> string" where
  "submit_id p = sr_client_order_id (ps_request p)"

text \<open>What everything else may do to the database: journal further commands, record outcomes of
  calls (the emergency journal does), and write the other tables, in which no order row disappears.
  Retiring a command as never sent is the privilege of the call that journaled it. A cancellation
  carries the record its caller has read before.\<close>

definition commands_evolve :: "command_table \<Rightarrow> command_table \<Rightarrow> bool" where
  "commands_evolve t t' \<longleftrightarrow> (\<forall>k. case cm_rows t k of
      None \<Rightarrow> (\<forall>c. cm_rows t' k = Some c \<longrightarrow> ec_status c \<noteq> CS_PRE_BROKER_ABORTED)
    | Some c \<Rightarrow> (\<exists>c'. cm_rows t' k = Some c' \<and> (c' = c \<or> ec_status c' \<noteq> CS_PRE_BROKER_ABORTED)))"

definition rows_kept :: "('k \<rightharpoonup> 'v) \<Rightarrow> ('k \<rightharpoonup> 'v) \<Rightarrow> bool" where
  "rows_kept m m' \<longleftrightarrow> (\<forall>k. m k \<noteq> None \<longrightarrow> m' k \<noteq> None)"

definition db_evolves :: "gateway_db \<Rightarrow> gateway_db \<Rightarrow> bool" where
  "db_evolves db db' \<longleftrightarrow> commands_evolve (gd_commands db) (gd_commands db')
     \<and> rows_kept (ox_rows (gd_orders db)) (ox_rows (gd_orders db'))"

inductive gateway_step :: "gateway_config \<Rightarrow> gateway_state \<Rightarrow> gateway_state \<Rightarrow> bool" for gw where
  prepare: "gs_inflight s i = None \<Longrightarrow> prepare_submit gw e new_id (submit_request_post_init r) (gs_db s) = Inr p
    \<Longrightarrow> gateway_step gw s (s\<lparr>gs_inflight := (gs_inflight s)(i \<mapsto> SubPrepared p)\<rparr>)"
| journal: "gs_inflight s i = Some (SubPrepared p) \<Longrightarrow> journal_submit p (gs_db s) = Inr (v, db)
    \<Longrightarrow> gateway_step gw s (s\<lparr>gs_db := db, gs_inflight := (gs_inflight s)(i \<mapsto> SubJournaled p v)\<rparr>)"
| begin_submit: "gs_inflight s i = Some (SubJournaled p v) \<Longrightarrow> begin_submitting now p (gs_db s) = Inr (order, db)
    \<Longrightarrow> gateway_step gw s (s\<lparr>gs_db := db, gs_inflight := (gs_inflight s)(i \<mapsto> SubSubmitting p v order)\<rparr>)"
| clear: "gs_inflight s i = Some (SubSubmitting p v order) \<Longrightarrow> submit_gate gw e p (gs_db s) = None
    \<Longrightarrow> gateway_step gw s (s\<lparr>gs_inflight := (gs_inflight s)(i \<mapsto> SubCleared p v order (gs_db s))\<rparr>)"
| refuse: "gs_inflight s i = Some (SubSubmitting p v order) \<Longrightarrow> submit_gate gw e p (gs_db s) = Some gate_error
    \<Longrightarrow> gateway_step gw s (s\<lparr>gs_inflight := (gs_inflight s)(i \<mapsto> SubRefused p v order gate_error)\<rparr>)"
| abort: "gs_inflight s i = Some (SubRefused p v order gate_error)
    \<Longrightarrow> abort_submit gw now gate_error p v order response (gs_db s) = (err, db)
    \<Longrightarrow> gateway_step gw s (s\<lparr>gs_db := db, gs_inflight := (gs_inflight s)(i := None)\<rparr>)"
| send: "gs_inflight s i = Some (SubCleared p v order gate_db)
    \<Longrightarrow> gateway_step gw s (s\<lparr>gs_inflight := (gs_inflight s)(i \<mapsto> SubSent p v order),
          gs_calls := gs_calls s @ [SubmitCall p order gate_db]\<rparr>)"
| settle: "gs_inflight s i = Some (SubSent p v order)
    \<Longrightarrow> settle_submit gw now outcome p v order (gs_db s) = (result, db)
    \<Longrightarrow> gateway_step gw s (s\<lparr>gs_db := db, gs_inflight := (gs_inflight s)(i := None)\<rparr>)"
| cancel_check: "gs_inflight s i = None
    \<Longrightarrow> cancel_guards e permitted (cancel_request_post_init r) order (gs_db s) = None
    \<Longrightarrow> gateway_step gw s (s\<lparr>gs_inflight := (gs_inflight s)(i \<mapsto> CanChecked (cancel_request_post_init r) order give_back)\<rparr>)"
| cancel_journal: "gs_inflight s i = Some (CanChecked r order give_back)
    \<Longrightarrow> journal_cancel gw now r order (gs_db s) = Inr (order', db)
    \<Longrightarrow> gateway_step gw s (s\<lparr>gs_db := db,
          gs_inflight := (gs_inflight s)(i \<mapsto> CanJournaled r (eo_status order) order' give_back)\<rparr>)"
| cancel_clear: "gs_inflight s i = Some (CanJournaled r before order give_back) \<Longrightarrow> cancel_gate e r order (gs_db s) = None
    \<Longrightarrow> gateway_step gw s (s\<lparr>gs_inflight := (gs_inflight s)(i \<mapsto> CanCleared r order give_back (gs_db s))\<rparr>)"
| cancel_refuse: "gs_inflight s i = Some (CanJournaled r before order give_back)
    \<Longrightarrow> cancel_gate e r order (gs_db s) = Some gate_error
    \<Longrightarrow> gateway_step gw s (s\<lparr>gs_inflight := (gs_inflight s)(i \<mapsto> CanRefused r before order gate_error)\<rparr>)"
| cancel_abort: "gs_inflight s i = Some (CanRefused r before order gate_error)
    \<Longrightarrow> abort_cancel gw now gate_error r before order response (gs_db s) = (err, db)
    \<Longrightarrow> gateway_step gw s (s\<lparr>gs_db := db, gs_inflight := (gs_inflight s)(i := None)\<rparr>)"
| cancel_send: "gs_inflight s i = Some (CanCleared r order give_back gate_db)
    \<Longrightarrow> gateway_step gw s (s\<lparr>gs_inflight := (gs_inflight s)(i \<mapsto> CanSent r order give_back),
          gs_calls := gs_calls s @ [CancelCall r order gate_db]\<rparr>)"
| cancel_settle: "gs_inflight s i = Some (CanSent r order give_back)
    \<Longrightarrow> settle_cancel gw now give_back outcome r order (gs_db s) = (result, db)
    \<Longrightarrow> gateway_step gw s (s\<lparr>gs_db := db, gs_inflight := (gs_inflight s)(i := None)\<rparr>)"
| stop: "gateway_step gw s (s\<lparr>gs_inflight := (gs_inflight s)(i := None)\<rparr>)"
| others: "db_evolves (gs_db s) db \<Longrightarrow> gateway_step gw s (s\<lparr>gs_db := db\<rparr>)"

definition started :: "gateway_db \<Rightarrow> gateway_state" where
  "started db = \<lparr>gs_db = db, gs_inflight = Map.empty, gs_calls = []\<rparr>"

subsection \<open>The key a phase holds\<close>

fun held_key :: "phase \<Rightarrow> string option" where
  "held_key (SubPrepared p) = None"
| "held_key (SubJournaled p v) = Some (submit_key (submit_id p))"
| "held_key (SubSubmitting p v order) = Some (submit_key (submit_id p))"
| "held_key (SubCleared p v order db) = Some (submit_key (submit_id p))"
| "held_key (SubRefused p v order err) = Some (submit_key (submit_id p))"
| "held_key (SubSent p v order) = Some (submit_key (submit_id p))"
| "held_key (CanChecked r order g) = None"
| "held_key (CanJournaled r before order g) = Some (cancel_key (xr_cancel_command_id r))"
| "held_key (CanCleared r order g db) = Some (cancel_key (xr_cancel_command_id r))"
| "held_key (CanRefused r before order err) = Some (cancel_key (xr_cancel_command_id r))"
| "held_key (CanSent r order g) = Some (cancel_key (xr_cancel_command_id r))"

fun unsent :: "phase \<Rightarrow> bool" where
  "unsent (SubSent p v order) = False"
| "unsent (CanSent r order g) = False"
| "unsent _ = True"

fun call_key :: "broker_call \<Rightarrow> string" where
  "call_key (SubmitCall p order db) = submit_key (submit_id p)"
| "call_key (CancelCall r order db) = cancel_key (xr_cancel_command_id r)"

lemma keys_distinct [simp]: "submit_key a = submit_key b \<longleftrightarrow> a = b" "cancel_key a = cancel_key b \<longleftrightarrow> a = b"
  "submit_key a \<noteq> cancel_key b"
  by (auto simp: submit_key_def cancel_key_def)

lemma stripped_last: "py_strip s = s \<Longrightarrow> s \<noteq> [] \<Longrightarrow> \<not> py_space (last s)"
proof -
  assume strip: "py_strip s = s" and "s \<noteq> []"
  let ?d = "dropWhile py_space (rev (dropWhile py_space s))"
  have d: "s = rev ?d" using strip by (simp add: py_strip_def)
  with \<open>s \<noteq> []\<close> have "?d \<noteq> []" by (metis rev.simps(1))
  then have "\<not> py_space (hd ?d)" by (rule hd_dropWhile)
  moreover have "last s = hd ?d" using d \<open>?d \<noteq> []\<close> by (metis last_rev)
  ultimately show ?thesis by simp
qed

lemma py_strip_prefixed:
  assumes "py_strip s = s" "\<not> py_space (hd p)" "\<not> py_space (last p)" "p \<noteq> []"
  shows "py_strip (p @ s) = p @ s"
proof -
  have front: "dropWhile py_space (p @ s) = p @ s"
    using assms(2,4) by (cases p) auto
  have "\<not> py_space (last (p @ s))"
    using stripped_last [OF assms(1)] assms(3) by (cases "s = []") auto
  then have "dropWhile py_space (rev (p @ s)) = rev (p @ s)"
    using assms(4) by (cases "p @ s" rule: rev_cases) auto
  with front show ?thesis by (simp only: py_strip_def rev_rev_ident)
qed

lemma journal_keys_strip:
  "py_strip c = c \<Longrightarrow> py_strip (submit_key c) = submit_key c" "py_strip c = c \<Longrightarrow> py_strip (cancel_key c) = cancel_key c"
  unfolding submit_key_def cancel_key_def by (rule py_strip_prefixed; simp add: py_space_def)+

lemma command_row_key:
  "new_command gw now key kind en ac ti lease target source = Inr c \<Longrightarrow> ec_idempotency_key c = py_strip key
     \<and> ec_status c = CS_REQUESTED"
  by (auto simp: new_command_def command_post_init_def Let_def split: if_splits sum.splits)

subsection \<open>What a stage does to the journal\<close>

definition live_row :: "gateway_db \<Rightarrow> string \<Rightarrow> bool" where
  "live_row db k \<longleftrightarrow> (\<exists>c. cm_rows (gd_commands db) k = Some c \<and> ec_status c \<noteq> CS_PRE_BROKER_ABORTED)"

definition frame_except :: "string \<Rightarrow> gateway_db \<Rightarrow> gateway_db \<Rightarrow> bool" where
  "frame_except k db db' \<longleftrightarrow> (\<forall>j. j \<noteq> k \<longrightarrow> cm_rows (gd_commands db') j = cm_rows (gd_commands db) j)
     \<and> rows_kept (cm_rows (gd_commands db)) (cm_rows (gd_commands db'))
     \<and> rows_kept (ox_rows (gd_orders db)) (ox_rows (gd_orders db'))"

lemma rows_kept_refl [simp]: "rows_kept m m"
  by (simp add: rows_kept_def)

lemma frame_refl [simp]: "frame_except k db db"
  by (simp add: frame_except_def)

lemma tx_insert_command_iff:
  "tx_insert_command c db = Inr db' \<longleftrightarrow> (\<exists>c' t'. insert_command c (gd_commands db) = Inr (c', t')
     \<and> db' = db\<lparr>gd_commands := t'\<rparr>)"
  by (auto simp: tx_insert_command_def split: sum.splits)

lemma tx_update_command_iff:
  "tx_update_command redact key st response db = Inr db' \<longleftrightarrow>
     (\<exists>c' t'. update_command_response redact key st response None (gd_commands db) = Inr (c', t')
        \<and> db' = db\<lparr>gd_commands := t'\<rparr>)"
  by (auto simp: tx_update_command_def split: sum.splits)

lemma tx_update_order_iff:
  "tx_update_order r db = Inr (r', db') \<longleftrightarrow>
     (\<exists>t'. update_execution_order r (eo_version r) (gd_orders db) = Inr (r', t') \<and> db' = db\<lparr>gd_orders := t'\<rparr>)"
  by (auto simp: tx_update_order_def split: sum.splits)

lemma tx_insert_order_iff:
  "tx_insert_order r db = Inr db' \<longleftrightarrow>
     (\<exists>r' t'. insert_execution_order r (gd_orders db) = Inr (r', t') \<and> db' = db\<lparr>gd_orders := t'\<rparr>)"
  by (auto simp: tx_insert_order_def split: sum.splits)

lemma tx_update_reservation_iff:
  "tx_update_reservation v n db = Inr db' \<longleftrightarrow>
     (\<exists>v' t'. update_reservation v n (gd_reservations db) = Inr (v', t') \<and> db' = db\<lparr>gd_reservations := t'\<rparr>)"
  by (auto simp: tx_update_reservation_def split: sum.splits)

lemmas tx_iffs = tx_insert_command_iff tx_update_command_iff tx_update_order_iff tx_insert_order_iff
  tx_update_reservation_iff

lemma update_order_keeps:
  "update_execution_order r n t = Inr (r', t') \<Longrightarrow> rows_kept (ox_rows t) (ox_rows t')"
  by (auto simp: update_order_Inr_iff rows_kept_def)

lemma insert_order_keeps:
  "insert_execution_order r t = Inr (r', t') \<Longrightarrow> rows_kept (ox_rows t) (ox_rows t')
     \<and> ox_rows t' (eo_client_order_id r) = Some r"
  by (auto simp: insert_order_Inr_iff rows_kept_def)

lemma reserve_capital_frame:
  "reserve_capital p db = Inr (v, db') \<Longrightarrow> gd_commands db' = gd_commands db \<and> gd_orders db' = gd_orders db"
  by (auto simp: reserve_capital_def Let_def split: if_splits sum.splits)

lemma journal_submit_effect:
  assumes "journal_submit p db = Inr (v, db')"
  shows "cm_rows (gd_commands db) (ec_idempotency_key (ps_command p)) = None
    \<and> (\<exists>c. cm_rows (gd_commands db') = (cm_rows (gd_commands db))(ec_idempotency_key (ps_command p) \<mapsto> c)
         \<and> ec_status c = ec_status (ps_command p))
    \<and> rows_kept (ox_rows (gd_orders db)) (ox_rows (gd_orders db'))
    \<and> ox_rows (gd_orders db') (eo_client_order_id (ps_record p)) \<noteq> None"
proof -
  obtain db1 db2 where s: "tx_insert_command (ps_command p) db = Inr db1" "reserve_capital p db1 = Inr (v, db2)"
      "tx_insert_order (ps_record p) db2 = Inr db'"
    using assms by (auto simp: journal_submit_def Let_def guard_simps split: prod.splits)
  with reserve_capital_frame [OF s(2)] insert_order_keeps show ?thesis
    by (fastforce simp: tx_iffs insert_command_Inr_iff)
qed

lemma begin_submitting_effect:
  assumes "begin_submitting now p db = Inr (order, db')"
  shows "gd_commands db' = gd_commands db \<and> rows_kept (ox_rows (gd_orders db)) (ox_rows (gd_orders db'))"
  using assms update_order_keeps
  by (fastforce simp: begin_submitting_def guard_simps tx_iffs)

lemma frame_trans: "frame_except k a b \<Longrightarrow> frame_except k b c \<Longrightarrow> frame_except k a c"
  by (simp add: frame_except_def rows_kept_def)

text \<open>The row of the key stays that of a command which may still reach, or has reached, the broker.\<close>

definition keeps_live :: "string \<Rightarrow> gateway_db \<Rightarrow> gateway_db \<Rightarrow> bool" where
  "keeps_live k db db' \<longleftrightarrow> frame_except k db db' \<and> (live_row db k \<longrightarrow> live_row db' k)"

lemma keeps_live_refl [simp]: "keeps_live k db db"
  by (simp add: keeps_live_def)

lemma keeps_live_trans: "keeps_live k a b \<Longrightarrow> keeps_live k b c \<Longrightarrow> keeps_live k a c"
  using frame_trans by (auto simp: keeps_live_def)

lemma tx_update_order_live: "tx_update_order r db = Inr (r', db') \<Longrightarrow> keeps_live k db db'"
  using update_order_keeps by (fastforce simp: tx_iffs keeps_live_def frame_except_def live_row_def)

lemma tx_update_reservation_live: "tx_update_reservation v n db = Inr db' \<Longrightarrow> keeps_live k db db'"
  by (auto simp: tx_iffs keeps_live_def frame_except_def live_row_def)

lemma tx_update_command_frame: "tx_update_command redact k st response db = Inr db' \<Longrightarrow> frame_except k db db'"
  by (auto simp: tx_iffs update_command_Inr_iff frame_except_def rows_kept_def)

lemma tx_update_command_live:
  "tx_update_command redact k st response db = Inr db' \<Longrightarrow> st \<noteq> CS_PRE_BROKER_ABORTED \<Longrightarrow> keeps_live k db db'"
  by (auto simp: tx_iffs update_command_Inr_iff keeps_live_def frame_except_def live_row_def rows_kept_def)

lemma tx_update_command_status:
  "tx_update_command redact k st response db = Inr db' \<Longrightarrow>
     \<exists>c. cm_rows (gd_commands db') k = Some c \<and> ec_status c = st"
  by (auto simp: tx_iffs update_command_Inr_iff)

lemmas keeps_live_tx = tx_update_order_live tx_update_reservation_live tx_update_command_live

lemma abort_submit_frame:
  assumes "abort_submit gw now g p v order response db = (err, db')"
  shows "frame_except (submit_key (submit_id p)) db db'"
proof (cases "db' = db")
  case False
  let ?k = "submit_key (submit_id p)"
  obtain order1 order2 db1 db2 where s: "tx_update_order order1 db = Inr (order2, db1)"
      "tx_update_command (gw_redact gw) ?k CS_PRE_BROKER_ABORTED response db1 = Inr db2"
      "tx_update_reservation (release_reservation_notional now v) (cr_version v) db2 = Inr db'"
    using assms False
    by (auto simp: abort_submit_def submit_id_def guard_simps split: sum.splits prod.splits)
  have "frame_except ?k db db1" "frame_except ?k db2 db'"
    using tx_update_order_live [OF s(1)] tx_update_reservation_live [OF s(3)] by (auto simp: keeps_live_def)
  with tx_update_command_frame [OF s(2)] show ?thesis by (blast intro: frame_trans)
qed simp

lemma settle_submit_live:
  assumes "settle_submit gw now outcome p v order db = (result, db')"
  shows "keeps_live (submit_key (submit_id p)) db db'"
proof (cases "db' = db")
  case False
  let ?k = "submit_key (submit_id p)"
  obtain order1 order2 db1 db2 st response where s: "tx_update_order order1 db = Inr (order2, db1)"
      "tx_update_command (gw_redact gw) ?k st response db1 = Inr db2" "st \<noteq> CS_PRE_BROKER_ABORTED"
      "db' = db2 \<or> tx_update_reservation (release_reservation_notional now v) (cr_version v) db2 = Inr db'"
  proof (cases outcome)
    case (BrokerAccepted bid response)
    with assms False that show ?thesis
      by (auto simp: settle_submit_def submit_id_def persist_submit_success_def Let_def guard_simps
          split: sum.splits prod.splits)
  next
    case (BrokerRaised ambiguous response)
    with assms False that show ?thesis
      by (cases ambiguous) (auto simp: settle_submit_def submit_id_def persist_submit_failure_def Let_def guard_simps
          split: sum.splits prod.splits)
  qed
  have "keeps_live ?k db db1" "keeps_live ?k db1 db2" "keeps_live ?k db2 db'"
    using keeps_live_tx(1) [OF s(1)] keeps_live_tx(3) [OF s(2,3)] s(4) keeps_live_tx(2) by auto
  then show ?thesis by (blast intro: keeps_live_trans)
qed simp

lemma journal_cancel_effect:
  assumes "journal_cancel gw now r order db = Inr (order', db')" "py_strip (xr_cancel_command_id r) = xr_cancel_command_id r"
  shows "cm_rows (gd_commands db) (cancel_key (xr_cancel_command_id r)) = None
    \<and> (\<exists>c. cm_rows (gd_commands db') = (cm_rows (gd_commands db))(cancel_key (xr_cancel_command_id r) \<mapsto> c)
         \<and> ec_status c = CS_REQUESTED)
    \<and> rows_kept (ox_rows (gd_orders db)) (ox_rows (gd_orders db'))"
proof -
  obtain c order1 db1 where s: "new_command gw now (cancel_key (xr_cancel_command_id r)) CT_CANCEL (eo_environment order)
         (eo_account_no order) (eo_symbol order) (xr_lease r) (eo_broker_order_id order)
         (source_value (xr_source r)) = Inr c" "tx_insert_command c db = Inr db1"
      "tx_update_order order1 db1 = Inr (order', db')"
    using assms(1) by (auto simp: journal_cancel_def guard_simps)
  from command_row_key [OF s(1)] journal_keys_strip(2) [OF assms(2)] s(2,3) update_order_keeps show ?thesis
    by (fastforce simp: tx_iffs insert_command_Inr_iff)
qed

lemma abort_cancel_frame:
  assumes "abort_cancel gw now g r before order response db = (err, db')"
  shows "frame_except (cancel_key (xr_cancel_command_id r)) db db'"
proof (cases "db' = db")
  case False
  let ?k = "cancel_key (xr_cancel_command_id r)"
  obtain order1 order2 db1 where s: "tx_update_order order1 db = Inr (order2, db1)"
      "tx_update_command (gw_redact gw) ?k CS_PRE_BROKER_ABORTED response db1 = Inr db'"
    using assms False by (auto simp: abort_cancel_def guard_simps split: sum.splits prod.splits)
  have "frame_except ?k db db1" using tx_update_order_live [OF s(1)] by (auto simp: keeps_live_def)
  with tx_update_command_frame [OF s(2)] show ?thesis by (blast intro: frame_trans)
qed simp

lemma persist_cancel_success_live:
  assumes "persist_cancel_success gw now give_back response key order db = Inr (order', db')"
  shows "keeps_live key db db'"
proof -
  obtain db1 db2 where s: "tx_update_order order db = Inr (order', db1)"
      "tx_update_command (gw_redact gw) key CS_ACKNOWLEDGED response db1 = Inr db2"
      "db' = db2 \<or> (\<exists>v n. tx_update_reservation v n db2 = Inr db')"
    using assms
    by (auto simp: persist_cancel_success_def guard_simps split: prod.splits if_splits option.splits)
  have "keeps_live key db db1" "keeps_live key db1 db2" "keeps_live key db2 db'"
    using keeps_live_tx(1) [OF s(1)] keeps_live_tx(3) [OF s(2)] s(3) keeps_live_tx(2) by auto
  then show ?thesis by (blast intro: keeps_live_trans)
qed

lemma persist_cancel_failure_live:
  assumes "persist_cancel_failure gw now ambiguous response key order db = Inr db'"
  shows "keeps_live key db db'"
proof -
  obtain order1 order2 db1 where s:
      "tx_update_command (gw_redact gw) key (if ambiguous then CS_AMBIGUOUS else CS_FAILED) response db = Inr db1"
      "tx_update_order order1 db1 = Inr (order2, db')"
    using assms by (auto simp: persist_cancel_failure_def guard_simps split: prod.splits)
  have "keeps_live key db db1" "keeps_live key db1 db'"
    using keeps_live_tx(3) [OF s(1)] keeps_live_tx(1) [OF s(2)] by auto
  then show ?thesis by (blast intro: keeps_live_trans)
qed

lemma settle_cancel_live:
  assumes "settle_cancel gw now give_back outcome r order db = (result, db')"
  shows "keeps_live (cancel_key (xr_cancel_command_id r)) db db'"
  using assms persist_cancel_failure_live persist_cancel_success_live
  by (auto simp: settle_cancel_def Let_def split: cancel_outcome.splits sum.splits if_splits)

end
