(* ===== verification/Gateway_Safety.thy ===== *)
theory Gateway_Safety
  imports Gateway_Steps
begin

text \<open>
  What the guarded gateway promises, over every interleaving of \<open>Gateway_Steps\<close>: a command reaches
  the broker at most once, never without its durable journal and order rows, never past a final
  gate that did not hold, and never after it was retired.
\<close>

subsection \<open>The journal invariant\<close>

definition holders_live :: "gateway_state \<Rightarrow> bool" where
  "holders_live s \<longleftrightarrow> (\<forall>i ph k. gs_inflight s i = Some ph \<and> held_key ph = Some k \<longrightarrow> live_row (gs_db s) k)"

definition holders_unique :: "gateway_state \<Rightarrow> bool" where
  "holders_unique s \<longleftrightarrow> (\<forall>i j ph ph' k. gs_inflight s i = Some ph \<and> gs_inflight s j = Some ph'
     \<and> held_key ph = Some k \<and> held_key ph' = Some k \<longrightarrow> i = j)"

definition unsent_uncalled :: "gateway_state \<Rightarrow> bool" where
  "unsent_uncalled s \<longleftrightarrow> (\<forall>i ph k. gs_inflight s i = Some ph \<and> held_key ph = Some k \<and> unsent ph
     \<longrightarrow> k \<notin> call_key ` set (gs_calls s))"

definition calls_live :: "gateway_state \<Rightarrow> bool" where
  "calls_live s \<longleftrightarrow> (\<forall>c \<in> set (gs_calls s). live_row (gs_db s) (call_key c))"

definition journal_inv :: "gateway_state \<Rightarrow> bool" where
  "journal_inv s \<longleftrightarrow> holders_live s \<and> holders_unique s \<and> unsent_uncalled s \<and> calls_live s
     \<and> distinct (map call_key (gs_calls s))"

lemmas journal_defs = holders_live_def holders_unique_def unsent_uncalled_def calls_live_def

text \<open>Four ways a step can preserve it.\<close>

lemma journal_inv_shrink:
  assumes inv: "journal_inv s" and sub: "gs_inflight s' \<subseteq>\<^sub>m gs_inflight s" and calls: "gs_calls s' = gs_calls s"
    and kept: "\<And>k. live_row (gs_db s) k
      \<Longrightarrow> (\<exists>i ph. gs_inflight s' i = Some ph \<and> held_key ph = Some k) \<or> k \<in> call_key ` set (gs_calls s)
      \<Longrightarrow> live_row (gs_db s') k"
  shows "journal_inv s'"
proof -
  have earlier: "gs_inflight s i = Some ph" if "gs_inflight s' i = Some ph" for i ph
    using that sub by (auto simp: map_le_def dom_def)
  have "holders_live s'"
    unfolding holders_live_def using inv earlier kept by (auto simp: journal_inv_def holders_live_def) blast
  moreover have "holders_unique s'"
    using inv earlier unfolding journal_inv_def holders_unique_def by blast
  moreover have "unsent_uncalled s'"
    using inv earlier calls unfolding journal_inv_def unsent_uncalled_def by metis
  moreover have "calls_live s'"
    using inv kept calls unfolding journal_inv_def calls_live_def by simp
  ultimately show ?thesis using inv calls by (simp add: journal_inv_def)
qed

lemma journal_inv_advance:
  assumes inv: "journal_inv s" and at_i: "gs_inflight s i = Some ph"
    and key: "held_key ph' = held_key ph" "unsent ph"
    and upd: "gs_inflight s' = (gs_inflight s)(i \<mapsto> ph')" and calls: "gs_calls s' = gs_calls s"
    and kept: "\<And>k. live_row (gs_db s) k \<Longrightarrow> live_row (gs_db s') k"
  shows "journal_inv s'"
proof -
  have earlier: "\<exists>ph0. gs_inflight s j = Some ph0 \<and> held_key ph0 = held_key q \<and> (unsent q \<longrightarrow> unsent ph0)"
    if "gs_inflight s' j = Some q" for j q
    using that at_i key by (cases "j = i") (auto simp: upd)
  have "holders_live s'"
    unfolding holders_live_def using inv earlier kept unfolding journal_inv_def holders_live_def by metis
  moreover have "holders_unique s'"
    using inv earlier unfolding journal_inv_def holders_unique_def by metis
  moreover have "unsent_uncalled s'"
    using inv earlier calls unfolding journal_inv_def unsent_uncalled_def by metis
  moreover have "calls_live s'"
    using inv kept calls unfolding journal_inv_def calls_live_def by simp
  ultimately show ?thesis using inv calls by (simp add: journal_inv_def)
qed

lemma journal_inv_acquire:
  assumes inv: "journal_inv s" and free: "\<not> live_row (gs_db s) k" and key: "held_key ph' = Some k"
    and upd: "gs_inflight s' = (gs_inflight s)(i \<mapsto> ph')" and calls: "gs_calls s' = gs_calls s"
    and kept: "\<And>j. live_row (gs_db s) j \<Longrightarrow> live_row (gs_db s') j" "live_row (gs_db s') k"
  shows "journal_inv s'"
proof -
  have unheld: "held_key q \<noteq> Some k" if "gs_inflight s j = Some q" for j q
    using that inv free unfolding journal_inv_def holders_live_def by metis
  have uncalled: "k \<notin> call_key ` set (gs_calls s)"
    using inv free unfolding journal_inv_def calls_live_def by auto
  have "holders_live s'"
    unfolding holders_live_def
  proof (intro allI impI, elim conjE)
    fix j q k'
    assume "gs_inflight s' j = Some q" "held_key q = Some k'"
    then show "live_row (gs_db s') k'"
      using inv kept key upd unfolding journal_inv_def holders_live_def by (cases "j = i") auto
  qed
  moreover have "holders_unique s'"
    unfolding holders_unique_def
  proof (intro allI impI, elim conjE)
    fix j1 j2 q1 q2 k'
    assume q: "gs_inflight s' j1 = Some q1" "gs_inflight s' j2 = Some q2" "held_key q1 = Some k'" "held_key q2 = Some k'"
    show "j1 = j2"
    proof (cases "j1 = i \<or> j2 = i")
      case True
      with q key upd unheld show ?thesis by (metis fun_upd_apply option.inject)
    next
      case False
      with q inv upd show ?thesis unfolding journal_inv_def holders_unique_def by (metis fun_upd_apply)
    qed
  qed
  moreover have "unsent_uncalled s'"
    unfolding unsent_uncalled_def
  proof (intro allI impI, elim conjE)
    fix j q k'
    assume "gs_inflight s' j = Some q" "held_key q = Some k'" "unsent q"
    then show "k' \<notin> call_key ` set (gs_calls s')"
      using inv key upd uncalled calls unfolding journal_inv_def unsent_uncalled_def by (cases "j = i") auto
  qed
  moreover have "calls_live s'"
    using inv kept calls unfolding journal_inv_def calls_live_def by simp
  ultimately show ?thesis using inv calls by (simp add: journal_inv_def)
qed

lemma journal_inv_send:
  assumes inv: "journal_inv s" and at_i: "gs_inflight s i = Some ph" "held_key ph = Some k" "unsent ph"
    and ph': "held_key ph' = Some k" "\<not> unsent ph'"
    and upd: "gs_inflight s' = (gs_inflight s)(i \<mapsto> ph')" and calls: "gs_calls s' = gs_calls s @ [c]" "call_key c = k"
    and db: "gs_db s' = gs_db s"
  shows "journal_inv s'"
proof -
  have fresh: "k \<notin> call_key ` set (gs_calls s)" and row: "live_row (gs_db s) k"
    using inv at_i unfolding journal_inv_def unsent_uncalled_def holders_live_def by metis+
  have other: "held_key q \<noteq> Some k" if "gs_inflight s j = Some q" "j \<noteq> i" for j q
    using that inv at_i unfolding journal_inv_def holders_unique_def by metis
  have "holders_live s'"
    unfolding holders_live_def
  proof (intro allI impI, elim conjE)
    fix j q k'
    assume "gs_inflight s' j = Some q" "held_key q = Some k'"
    then show "live_row (gs_db s') k'"
      using inv ph' row upd db unfolding journal_inv_def holders_live_def by (cases "j = i") auto
  qed
  moreover have "holders_unique s'"
    unfolding holders_unique_def
  proof (intro allI impI, elim conjE)
    fix j1 j2 q1 q2 k'
    assume q: "gs_inflight s' j1 = Some q1" "gs_inflight s' j2 = Some q2" "held_key q1 = Some k'" "held_key q2 = Some k'"
    show "j1 = j2"
    proof (cases "j1 = i \<or> j2 = i")
      case True
      with q ph' upd other show ?thesis by (metis fun_upd_apply option.inject)
    next
      case False
      with q inv upd show ?thesis unfolding journal_inv_def holders_unique_def by (metis fun_upd_apply)
    qed
  qed
  moreover have "unsent_uncalled s'"
    unfolding unsent_uncalled_def
  proof (intro allI impI, elim conjE)
    fix j q k'
    assume q: "gs_inflight s' j = Some q" "held_key q = Some k'" "unsent q"
    then have "j \<noteq> i" using ph' upd by auto
    with q upd have "gs_inflight s j = Some q" by simp
    with q \<open>j \<noteq> i\<close> other calls inv show "k' \<notin> call_key ` set (gs_calls s')"
      unfolding journal_inv_def unsent_uncalled_def by auto
  qed
  moreover have "calls_live s'"
    using inv row calls db unfolding journal_inv_def calls_live_def by auto
  moreover have "distinct (map call_key (gs_calls s'))"
    using inv fresh calls unfolding journal_inv_def by auto
  ultimately show ?thesis by (simp add: journal_inv_def)
qed

subsection \<open>What a phase and a call carry\<close>

definition submit_row :: "gateway_db \<Rightarrow> prepared_submit \<Rightarrow> bool" where
  "submit_row db p \<longleftrightarrow> ox_rows (gd_orders db) (submit_id p) \<noteq> None"

definition submitting_record :: "prepared_submit \<Rightarrow> execution_order \<Rightarrow> bool" where
  "submitting_record p order \<longleftrightarrow> eo_status order = SUBMITTING \<and> eo_client_order_id order = submit_id p"

definition prepared_ok :: "prepared_submit \<Rightarrow> bool" where
  "prepared_ok p \<longleftrightarrow> ec_idempotency_key (ps_command p) = submit_key (submit_id p)
     \<and> ec_status (ps_command p) = CS_REQUESTED \<and> eo_client_order_id (ps_record p) = submit_id p"

fun phase_ok :: "gateway_config \<Rightarrow> gateway_db \<Rightarrow> phase \<Rightarrow> bool" where
  "phase_ok gw db (SubPrepared p) = prepared_ok p"
| "phase_ok gw db (SubJournaled p v) = (prepared_ok p \<and> submit_row db p)"
| "phase_ok gw db (SubSubmitting p v order) = (submit_row db p \<and> submitting_record p order)"
| "phase_ok gw db (SubCleared p v order gate_db) =
     (submit_row db p \<and> submitting_record p order \<and> (\<exists>e. submit_gate gw e p gate_db = None))"
| "phase_ok gw db (CanChecked r order g) = (py_strip (xr_cancel_command_id r) = xr_cancel_command_id r)"
| "phase_ok gw db (CanCleared r order g gate_db) = (\<exists>e. cancel_gate e r order gate_db = None)"
| "phase_ok gw db _ = True"

fun call_ok :: "gateway_config \<Rightarrow> gateway_db \<Rightarrow> broker_call \<Rightarrow> bool" where
  "call_ok gw db (SubmitCall p order gate_db) =
     (submit_row db p \<and> submitting_record p order \<and> (\<exists>e. submit_gate gw e p gate_db = None))"
| "call_ok gw db (CancelCall r order gate_db) = (\<exists>e. cancel_gate e r order gate_db = None)"

definition gateway_inv :: "gateway_config \<Rightarrow> gateway_state \<Rightarrow> bool" where
  "gateway_inv gw s \<longleftrightarrow> journal_inv s
     \<and> (\<forall>i ph. gs_inflight s i = Some ph \<longrightarrow> phase_ok gw (gs_db s) ph)
     \<and> (\<forall>c \<in> set (gs_calls s). call_ok gw (gs_db s) c)"

lemma phase_ok_kept:
  "rows_kept (ox_rows (gd_orders db)) (ox_rows (gd_orders db')) \<Longrightarrow> phase_ok gw db ph \<Longrightarrow> phase_ok gw db' ph"
  by (cases ph) (auto simp: submit_row_def rows_kept_def)

lemma call_ok_kept:
  "rows_kept (ox_rows (gd_orders db)) (ox_rows (gd_orders db')) \<Longrightarrow> call_ok gw db c \<Longrightarrow> call_ok gw db' c"
  by (cases c) (auto simp: submit_row_def rows_kept_def)

lemma prepare_submit_ok:
  assumes "prepare_submit gw e new_id (submit_request_post_init r) db = Inr p"
  shows "prepared_ok p"
proof -
  let ?r = "submit_request_post_init r"
  let ?cid = "sr_client_order_id ?r"
  have strip: "py_strip ?cid = ?cid" by (simp add: submit_request_post_init_def)
  note s = prepare_submit_Inr [OF assms]
  then have "eo_client_order_id (ps_record p) = ?cid"
    using strip new_execution_order_fields by metis
  with s command_row_key journal_keys_strip(1) [OF strip] show ?thesis
    by (metis prepared_ok_def submit_id_def)
qed

lemma begin_submitting_record:
  assumes "begin_submitting now p db = Inr (order, db')" "prepared_ok p"
  shows "submitting_record p order"
proof -
  obtain r where r: "apply_status_transition now SUBMITTING None (ps_record p) = (None, r)"
      "tx_update_order r db = Inr (order, db')"
    using assms(1)
    by (auto simp: begin_submitting_def transition_or_raise_def guard_simps split: option.splits prod.splits)
  have "eo_status r = SUBMITTING" "eo_client_order_id r = eo_client_order_id (ps_record p)"
    using r(1) by (auto simp: transition_defs Let_def split: option.splits prod.splits if_splits)
  with r(2) assms(2) show ?thesis
    by (auto simp: submitting_record_def tx_iffs update_order_Inr_iff prepared_ok_def)
qed

subsection \<open>Every step keeps the invariant\<close>

lemma live_frame: "frame_except k db db' \<Longrightarrow> j \<noteq> k \<Longrightarrow> live_row db j \<Longrightarrow> live_row db' j"
  by (auto simp: frame_except_def live_row_def)

lemma live_keeps: "keeps_live k db db' \<Longrightarrow> live_row db j \<Longrightarrow> live_row db' j"
  by (cases "j = k") (auto simp: keeps_live_def live_frame)

lemma live_evolves: "db_evolves db db' \<Longrightarrow> live_row db j \<Longrightarrow> live_row db' j"
  by (fastforce simp: db_evolves_def commands_evolve_def live_row_def split: option.splits)

lemma frame_orders: "frame_except k db db' \<Longrightarrow> rows_kept (ox_rows (gd_orders db)) (ox_rows (gd_orders db'))"
  by (simp add: frame_except_def)

text \<open>The part of the invariant about phases and calls, for a step that updates one call in flight.\<close>

lemma gateway_inv_update:
  assumes inv: "gateway_inv gw s" and j: "journal_inv s'"
    and kept: "rows_kept (ox_rows (gd_orders (gs_db s))) (ox_rows (gd_orders (gs_db s')))"
    and upd: "gs_inflight s' = (gs_inflight s)(i := q)" and ok: "\<And>ph. q = Some ph \<Longrightarrow> phase_ok gw (gs_db s') ph"
    and calls: "\<And>c. c \<in> set (gs_calls s') \<Longrightarrow> c \<in> set (gs_calls s) \<or> call_ok gw (gs_db s') c"
  shows "gateway_inv gw s'"
proof -
  have "phase_ok gw (gs_db s') ph" if "gs_inflight s' n = Some ph" for n ph
    using that inv ok phase_ok_kept [OF kept] unfolding upd gateway_inv_def by (cases "n = i") auto
  moreover have "call_ok gw (gs_db s') c" if "c \<in> set (gs_calls s')" for c
    using calls [OF that] inv call_ok_kept [OF kept] unfolding gateway_inv_def by blast
  ultimately show ?thesis using j by (simp add: gateway_inv_def)
qed

text \<open>A call leaves; its key may be retired, the others' rows stay as they are.\<close>

lemma gateway_inv_leave:
  assumes inv: "gateway_inv gw s" and at_i: "gs_inflight s i = Some ph" "held_key ph = Some k"
    and frame: "frame_except k (gs_db s) db" and row: "unsent ph \<or> keeps_live k (gs_db s) db"
  shows "gateway_inv gw (s\<lparr>gs_db := db, gs_inflight := (gs_inflight s)(i := None)\<rparr>)"
proof (rule gateway_inv_update [OF inv, where i = i and q = None])
  show "journal_inv (s\<lparr>gs_db := db, gs_inflight := (gs_inflight s)(i := None)\<rparr>)"
  proof (rule journal_inv_shrink [where s = s])
    show "journal_inv s" using inv by (simp add: gateway_inv_def)
    show "gs_inflight (s\<lparr>gs_db := db, gs_inflight := (gs_inflight s)(i := None)\<rparr>) \<subseteq>\<^sub>m gs_inflight s"
      by (auto simp: map_le_def)
    fix j
    assume l: "live_row (gs_db s) j"
      and held: "(\<exists>n q. gs_inflight (s\<lparr>gs_db := db, gs_inflight := (gs_inflight s)(i := None)\<rparr>) n = Some q
          \<and> held_key q = Some j) \<or> j \<in> call_key ` set (gs_calls s)"
    show "live_row (gs_db (s\<lparr>gs_db := db, gs_inflight := (gs_inflight s)(i := None)\<rparr>)) j"
    proof (cases "j = k \<and> unsent ph")
      case True
      with inv at_i have "k \<notin> call_key ` set (gs_calls s)"
        unfolding gateway_inv_def journal_inv_def unsent_uncalled_def by metis
      with held True obtain n q where "gs_inflight s n = Some q" "held_key q = Some k" "n \<noteq> i"
        by (auto split: if_splits)
      with inv at_i show ?thesis unfolding gateway_inv_def journal_inv_def holders_unique_def by metis
    next
      case False
      with row l live_frame [OF frame] live_keeps show ?thesis by (cases "j = k") auto
    qed
  qed simp
qed (use frame_orders [OF frame] in auto)

lemma gateway_inv_advance:
  assumes inv: "gateway_inv gw s" and at_i: "gs_inflight s i = Some ph"
    and key: "held_key ph' = held_key ph" "unsent ph" and ok: "phase_ok gw db ph'"
    and db: "rows_kept (ox_rows (gd_orders (gs_db s))) (ox_rows (gd_orders db))" "gd_commands db = gd_commands (gs_db s)"
  shows "gateway_inv gw (s\<lparr>gs_db := db, gs_inflight := (gs_inflight s)(i \<mapsto> ph')\<rparr>)"
proof (rule gateway_inv_update [OF inv, where i = i and q = "Some ph'"])
  have j: "journal_inv s" using inv by (simp add: gateway_inv_def)
  show "journal_inv (s\<lparr>gs_db := db, gs_inflight := (gs_inflight s)(i \<mapsto> ph')\<rparr>)"
    using db(2) by (intro journal_inv_advance [OF j at_i key]) (simp_all add: live_row_def)
qed (use db ok in auto)

lemma gateway_inv_acquire:
  assumes inv: "gateway_inv gw s" and key: "held_key ph' = Some k" and ok: "phase_ok gw db ph'"
    and free: "cm_rows (gd_commands (gs_db s)) k = None"
    and row: "cm_rows (gd_commands db) = (cm_rows (gd_commands (gs_db s)))(k \<mapsto> c)" "ec_status c \<noteq> CS_PRE_BROKER_ABORTED"
    and kept: "rows_kept (ox_rows (gd_orders (gs_db s))) (ox_rows (gd_orders db))"
  shows "gateway_inv gw (s\<lparr>gs_db := db, gs_inflight := (gs_inflight s)(i \<mapsto> ph')\<rparr>)"
proof (rule gateway_inv_update [OF inv, where i = i and q = "Some ph'"])
  have j: "journal_inv s" using inv by (simp add: gateway_inv_def)
  have f: "\<not> live_row (gs_db s) k" using free by (simp add: live_row_def)
  show "journal_inv (s\<lparr>gs_db := db, gs_inflight := (gs_inflight s)(i \<mapsto> ph')\<rparr>)"
    using row by (intro journal_inv_acquire [OF j f key]) (auto simp: live_row_def)
qed (use kept ok in auto)

lemma gateway_inv_send:
  assumes inv: "gateway_inv gw s" and at_i: "gs_inflight s i = Some ph" "held_key ph = Some k" "unsent ph"
    and ph': "held_key ph' = Some k" "\<not> unsent ph'" "phase_ok gw (gs_db s) ph'"
    and c: "call_key c = k" "call_ok gw (gs_db s) c"
  shows "gateway_inv gw (s\<lparr>gs_inflight := (gs_inflight s)(i \<mapsto> ph'), gs_calls := gs_calls s @ [c]\<rparr>)"
proof (rule gateway_inv_update [OF inv, where i = i and q = "Some ph'"])
  have j: "journal_inv s" using inv by (simp add: gateway_inv_def)
  show "journal_inv (s\<lparr>gs_inflight := (gs_inflight s)(i \<mapsto> ph'), gs_calls := gs_calls s @ [c]\<rparr>)"
    by (rule journal_inv_send [OF j at_i ph'(1,2) _ _ c(1)]) simp_all
qed (use ph' c in auto)

lemma gateway_inv_checked:
  assumes inv: "gateway_inv gw s" and free: "gs_inflight s i = None" and ph: "held_key ph = None" "phase_ok gw (gs_db s) ph"
  shows "gateway_inv gw (s\<lparr>gs_inflight := (gs_inflight s)(i \<mapsto> ph)\<rparr>)"
proof (rule gateway_inv_update [OF inv, where i = i and q = "Some ph"])
  show "journal_inv (s\<lparr>gs_inflight := (gs_inflight s)(i \<mapsto> ph)\<rparr>)"
    using inv ph(1) unfolding gateway_inv_def journal_inv_def journal_defs by simp
qed (use ph in auto)

lemma gateway_inv_others:
  assumes inv: "gateway_inv gw s" and d: "db_evolves (gs_db s) db"
  shows "gateway_inv gw (s\<lparr>gs_db := db\<rparr>)"
proof -
  have kept: "rows_kept (ox_rows (gd_orders (gs_db s))) (ox_rows (gd_orders db))"
    using d by (simp add: db_evolves_def)
  have j: "journal_inv s" using inv by (simp add: gateway_inv_def)
  have "journal_inv (s\<lparr>gs_db := db\<rparr>)"
    by (rule journal_inv_shrink [OF j]) (simp_all add: live_evolves [OF d])
  then show ?thesis
    using inv phase_ok_kept [OF kept] call_ok_kept [OF kept] by (simp add: gateway_inv_def)
qed

lemma gateway_inv_stop:
  assumes inv: "gateway_inv gw s" shows "gateway_inv gw (s\<lparr>gs_inflight := (gs_inflight s)(i := None)\<rparr>)"
proof (rule gateway_inv_update [OF inv, where i = i and q = None])
  have j: "journal_inv s" using inv by (simp add: gateway_inv_def)
  show "journal_inv (s\<lparr>gs_inflight := (gs_inflight s)(i := None)\<rparr>)"
    by (rule journal_inv_shrink [OF j]) (simp_all add: map_le_def)
qed simp_all

lemma gateway_step_inv:
  assumes "gateway_step gw s s'" and inv: "gateway_inv gw s"
  shows "gateway_inv gw s'"
  using assms(1)
proof cases
  case (prepare i e new_id r p)
  have "phase_ok gw (gs_db s) (SubPrepared p)" using prepare_submit_ok [OF prepare(3)] by simp
  then show ?thesis unfolding prepare(1) by (intro gateway_inv_checked [OF inv prepare(2)]) simp_all
next
  case (journal i p v db)
  have "phase_ok gw (gs_db s) (SubPrepared p)" using inv journal(2) unfolding gateway_inv_def by blast
  then have ok: "prepared_ok p" by simp
  obtain c where e: "cm_rows (gd_commands (gs_db s)) (submit_key (submit_id p)) = None"
      "cm_rows (gd_commands db) = (cm_rows (gd_commands (gs_db s)))(submit_key (submit_id p) \<mapsto> c)"
      "ec_status c = CS_REQUESTED" "rows_kept (ox_rows (gd_orders (gs_db s))) (ox_rows (gd_orders db))"
      "submit_row db p"
    using journal_submit_effect [OF journal(3)] ok by (auto simp: prepared_ok_def submit_row_def)
  show ?thesis
    unfolding journal(1)
    by (rule gateway_inv_acquire [OF inv _ _ e(1,2) _ e(4)]) (simp_all add: ok e)
next
  case (begin_submit i p v now order db)
  have "phase_ok gw (gs_db s) (SubJournaled p v)" using inv begin_submit(2) unfolding gateway_inv_def by blast
  then have "prepared_ok p" "submit_row (gs_db s) p" by simp_all
  with begin_submitting_effect [OF begin_submit(3)] begin_submitting_record [OF begin_submit(3)]
  have "phase_ok gw db (SubSubmitting p v order)"
    by (simp add: submit_row_def rows_kept_def)
  with begin_submitting_effect [OF begin_submit(3)] show ?thesis
    unfolding begin_submit(1) by (intro gateway_inv_advance [OF inv begin_submit(2)]) simp_all
next
  case (clear i p v order e)
  have "phase_ok gw (gs_db s) (SubSubmitting p v order)" using inv clear(2) unfolding gateway_inv_def by blast
  with clear(3) have "phase_ok gw (gs_db s) (SubCleared p v order (gs_db s))" by auto
  with gateway_inv_advance [OF inv clear(2), where db = "gs_db s" and ph' = "SubCleared p v order (gs_db s)"]
  show ?thesis unfolding clear(1) by simp
next
  case (refuse i p v order e gate_error)
  with gateway_inv_advance [OF inv refuse(2), where db = "gs_db s" and ph' = "SubRefused p v order gate_error"]
  show ?thesis by simp
next
  case (abort i p v order gate_error now response err db)
  show ?thesis
    unfolding abort(1) by (rule gateway_inv_leave [OF inv abort(2) _ abort_submit_frame [OF abort(3)]]) simp_all
next
  case (send i p v order gate_db)
  have "phase_ok gw (gs_db s) (SubCleared p v order gate_db)" using inv send(2) unfolding gateway_inv_def by blast
  with gateway_inv_send [OF inv send(2), where ph' = "SubSent p v order" and c = "SubmitCall p order gate_db"]
  show ?thesis unfolding send(1) by simp
next
  case (settle i p v order now outcome result db)
  note kept = settle_submit_live [OF settle(3)]
  then have frame: "frame_except (the (held_key (the (gs_inflight s i)))) (gs_db s) db"
    using settle(2) by (simp add: keeps_live_def)
  show ?thesis
    unfolding settle(1) by (rule gateway_inv_leave [OF inv settle(2) _ frame]) (use settle(2) kept in simp_all)
next
  case (cancel_check i e permitted r order give_back)
  show ?thesis
    unfolding cancel_check(1)
    by (rule gateway_inv_checked [OF inv cancel_check(2)]) (simp_all add: cancel_request_post_init_def)
next
  case (cancel_journal i r order give_back now order' db)
  let ?k = "cancel_key (xr_cancel_command_id r)"
  have "phase_ok gw (gs_db s) (CanChecked r order give_back)"
    using inv cancel_journal(2) unfolding gateway_inv_def by blast
  then obtain c where e: "cm_rows (gd_commands (gs_db s)) ?k = None"
      "cm_rows (gd_commands db) = (cm_rows (gd_commands (gs_db s)))(?k \<mapsto> c)"
      "ec_status c = CS_REQUESTED" "rows_kept (ox_rows (gd_orders (gs_db s))) (ox_rows (gd_orders db))"
    using journal_cancel_effect [OF cancel_journal(3)] by auto
  show ?thesis
    unfolding cancel_journal(1)
    by (rule gateway_inv_acquire [OF inv _ _ e(1,2) _ e(4)]) (simp_all add: e)
next
  case (cancel_clear i r before order give_back e)
  from cancel_clear(3) have "phase_ok gw (gs_db s) (CanCleared r order give_back (gs_db s))" by auto
  with gateway_inv_advance [OF inv cancel_clear(2), where db = "gs_db s" and ph' = "CanCleared r order give_back (gs_db s)"]
  show ?thesis unfolding cancel_clear(1) by simp
next
  case (cancel_refuse i r before order give_back e gate_error)
  with gateway_inv_advance [OF inv cancel_refuse(2), where db = "gs_db s" and ph' = "CanRefused r before order gate_error"]
  show ?thesis by simp
next
  case (cancel_abort i r before order gate_error now response err db)
  show ?thesis
    unfolding cancel_abort(1)
    by (rule gateway_inv_leave [OF inv cancel_abort(2) _ abort_cancel_frame [OF cancel_abort(3)]]) simp_all
next
  case (cancel_send i r order give_back gate_db)
  have "phase_ok gw (gs_db s) (CanCleared r order give_back gate_db)"
    using inv cancel_send(2) unfolding gateway_inv_def by blast
  with gateway_inv_send [OF inv cancel_send(2), where ph' = "CanSent r order give_back" and c = "CancelCall r order gate_db"]
  show ?thesis unfolding cancel_send(1) by simp
next
  case (cancel_settle i r order give_back now outcome result db)
  note kept = settle_cancel_live [OF cancel_settle(3)]
  then have frame: "frame_except (the (held_key (the (gs_inflight s i)))) (gs_db s) db"
    using cancel_settle(2) by (simp add: keeps_live_def)
  show ?thesis
    unfolding cancel_settle(1) by (rule gateway_inv_leave [OF inv cancel_settle(2) _ frame]) (use cancel_settle(2) kept in simp_all)
next
  case (stop i)
  with gateway_inv_stop [OF inv] show ?thesis by simp
next
  case (others db)
  with gateway_inv_others [OF inv] show ?thesis by simp
qed

lemma gateway_inv_reachable:
  assumes "(gateway_step gw)\<^sup>*\<^sup>* s s'" "gateway_inv gw s" shows "gateway_inv gw s'"
  using assms by (induction rule: rtranclp_induct) (use gateway_step_inv in blast)+

lemma gateway_inv_started: "gateway_inv gw (started db)"
  by (simp add: gateway_inv_def journal_inv_def journal_defs started_def)

subsection \<open>A key once journaled\<close>

definition spent_key :: "string \<Rightarrow> gateway_state \<Rightarrow> bool" where
  "spent_key k s \<longleftrightarrow> cm_rows (gd_commands (gs_db s)) k \<noteq> None
     \<and> (\<forall>i ph. gs_inflight s i = Some ph \<longrightarrow> held_key ph \<noteq> Some k) \<and> k \<notin> call_key ` set (gs_calls s)"

lemma spent_key_update:
  assumes "spent_key k s" "gs_inflight s' = (gs_inflight s)(i := q)" "\<And>ph. q = Some ph \<Longrightarrow> held_key ph \<noteq> Some k"
    and "rows_kept (cm_rows (gd_commands (gs_db s))) (cm_rows (gd_commands (gs_db s')))"
    and "\<And>c. c \<in> set (gs_calls s') \<Longrightarrow> c \<in> set (gs_calls s) \<or> call_key c \<noteq> k"
  shows "spent_key k s'"
  unfolding spent_key_def
proof (intro conjI allI impI)
  show "cm_rows (gd_commands (gs_db s')) k \<noteq> None"
    using assms(1,4) by (simp add: spent_key_def rows_kept_def)
  show "k \<notin> call_key ` set (gs_calls s')"
    using assms(1,5) by (auto simp: spent_key_def)
  fix j ph
  assume "gs_inflight s' j = Some ph"
  with assms(1,2,3) show "held_key ph \<noteq> Some k" by (cases "j = i") (auto simp: spent_key_def)
qed

lemma spent_key_step:
  assumes step: "gateway_step gw s s'" and inv: "gateway_inv gw s" and spent: "spent_key k s"
  shows "spent_key k s'"
proof -
  have held: "held_key ph \<noteq> Some k" if "gs_inflight s i = Some ph" for i ph
    using spent that by (simp add: spent_key_def)
  have row: "cm_rows (gd_commands (gs_db s)) k \<noteq> None" using spent by (simp add: spent_key_def)
  from step show ?thesis
  proof cases
    case (prepare i e new_id r p)
    then show ?thesis by (intro spent_key_update [OF spent, where i = i]) auto
  next
    case (journal i p v db)
    have "phase_ok gw (gs_db s) (SubPrepared p)" using inv journal(2) unfolding gateway_inv_def by blast
    with journal_submit_effect [OF journal(3)] row journal(1) show ?thesis
      by (intro spent_key_update [OF spent, where i = i]) (auto simp: prepared_ok_def rows_kept_def)
  next
    case (begin_submit i p v now order db)
    with held [OF begin_submit(2)] begin_submitting_effect [OF begin_submit(3)] show ?thesis
      by (intro spent_key_update [OF spent, where i = i]) auto
  next
    case (clear i p v order e)
    with held [OF clear(2)] show ?thesis by (intro spent_key_update [OF spent, where i = i]) auto
  next
    case (refuse i p v order e gate_error)
    with held [OF refuse(2)] show ?thesis by (intro spent_key_update [OF spent, where i = i]) auto
  next
    case (abort i p v order gate_error now response err db)
    with abort_submit_frame [OF abort(3)] show ?thesis
      by (intro spent_key_update [OF spent, where i = i]) (auto simp: frame_except_def)
  next
    case (send i p v order gate_db)
    with held [OF send(2)] show ?thesis by (intro spent_key_update [OF spent, where i = i]) auto
  next
    case (settle i p v order now outcome result db)
    with settle_submit_live [OF settle(3)] show ?thesis
      by (intro spent_key_update [OF spent, where i = i]) (auto simp: keeps_live_def frame_except_def)
  next
    case (cancel_check i e permitted r order give_back)
    then show ?thesis by (intro spent_key_update [OF spent, where i = i]) auto
  next
    case (cancel_journal i r order give_back now order' db)
    have "phase_ok gw (gs_db s) (CanChecked r order give_back)"
      using inv cancel_journal(2) unfolding gateway_inv_def by blast
    with journal_cancel_effect [OF cancel_journal(3)] row cancel_journal(1) show ?thesis
      by (intro spent_key_update [OF spent, where i = i]) (auto simp: rows_kept_def)
  next
    case (cancel_clear i r before order give_back e)
    with held [OF cancel_clear(2)] show ?thesis by (intro spent_key_update [OF spent, where i = i]) auto
  next
    case (cancel_refuse i r before order give_back e gate_error)
    with held [OF cancel_refuse(2)] show ?thesis by (intro spent_key_update [OF spent, where i = i]) auto
  next
    case (cancel_abort i r before order gate_error now response err db)
    with abort_cancel_frame [OF cancel_abort(3)] show ?thesis
      by (intro spent_key_update [OF spent, where i = i]) (auto simp: frame_except_def)
  next
    case (cancel_send i r order give_back gate_db)
    with held [OF cancel_send(2)] show ?thesis by (intro spent_key_update [OF spent, where i = i]) auto
  next
    case (cancel_settle i r order give_back now outcome result db)
    with settle_cancel_live [OF cancel_settle(3)] show ?thesis
      by (intro spent_key_update [OF spent, where i = i]) (auto simp: keeps_live_def frame_except_def)
  next
    case (stop i)
    then show ?thesis by (intro spent_key_update [OF spent, where i = i]) auto
  next
    case (others db)
    have "rows_kept (cm_rows (gd_commands (gs_db s))) (cm_rows (gd_commands db))"
      using others(2) by (fastforce simp: db_evolves_def commands_evolve_def rows_kept_def split: option.splits)
    with others(1) spent show ?thesis by (simp add: spent_key_def rows_kept_def)
  qed
qed

lemma spent_key_steps:
  assumes "(gateway_step gw)\<^sup>*\<^sup>* s s'" "gateway_inv gw s" "spent_key k s"
  shows "spent_key k s'"
  using assms
proof (induction rule: rtranclp_induct)
  case (step y z)
  then show ?case using spent_key_step gateway_inv_reachable by blast
qed

end
