(* ===== verification/Gateway_Runs.thy ===== *)
theory Gateway_Runs
  imports Gateway_Safety
begin

text \<open>
  The handlers as runs of the transition system: a whole call of \<open>do_submit\<close> or \<open>do_cancel\<close>, with
  whatever others commit between its stages, is a sequence of steps, so that what is proved of every
  reachable state holds of the handlers, and of whatever is composed of them.
\<close>

subsection \<open>Steps on explicit states\<close>

definition cfg :: "gateway_db \<Rightarrow> (nat \<rightharpoonup> phase) \<Rightarrow> broker_call list \<Rightarrow> gateway_state" where
  "cfg d f c = \<lparr>gs_db = d, gs_inflight = f, gs_calls = c\<rparr>"

lemma cfg_fields [simp]: "gs_db (cfg d f c) = d" "gs_inflight (cfg d f c) = f" "gs_calls (cfg d f c) = c"
  by (simp_all add: cfg_def)

lemma cfg_update [simp]:
  "(cfg d f c)\<lparr>gs_db := d'\<rparr> = cfg d' f c" "(cfg d f c)\<lparr>gs_inflight := f'\<rparr> = cfg d f' c"
  "(cfg d f c)\<lparr>gs_calls := c'\<rparr> = cfg d f c'"
  by (simp_all add: cfg_def)

lemma cfg_self [simp]: "cfg (gs_db s) (gs_inflight s) (gs_calls s) = s"
  by (simp add: cfg_def)

lemma run_others: "db_evolves d d' \<Longrightarrow> (gateway_step gw)\<^sup>*\<^sup>* (cfg d f c) (cfg d' f c)"
  using gateway_step.others [of "cfg d f c" d' gw] by auto

lemma run_stop: "f i = None \<Longrightarrow> (gateway_step gw)\<^sup>*\<^sup>* (cfg d (f(i \<mapsto> ph)) c) (cfg d f c)"
  using gateway_step.stop [of gw "cfg d (f(i \<mapsto> ph)) c" i] by (auto simp: fun_upd_idem)

lemma run_prepare:
  "f i = None \<Longrightarrow> prepare_submit gw e new_id (submit_request_post_init r) d = Inr p
     \<Longrightarrow> (gateway_step gw)\<^sup>*\<^sup>* (cfg d f c) (cfg d (f(i \<mapsto> SubPrepared p)) c)"
  using gateway_step.prepare [of "cfg d f c" i gw e new_id r p] by auto

lemma run_journal:
  "journal_submit p d = Inr (v, d')
     \<Longrightarrow> (gateway_step gw)\<^sup>*\<^sup>* (cfg d (f(i \<mapsto> SubPrepared p)) c) (cfg d' (f(i \<mapsto> SubJournaled p v)) c)"
  using gateway_step.journal [of "cfg d (f(i \<mapsto> SubPrepared p)) c" i p v d' gw] by auto

lemma run_begin:
  "begin_submitting now p d = Inr (order, d')
     \<Longrightarrow> (gateway_step gw)\<^sup>*\<^sup>* (cfg d (f(i \<mapsto> SubJournaled p v)) c) (cfg d' (f(i \<mapsto> SubSubmitting p v order)) c)"
  using gateway_step.begin_submit [of "cfg d (f(i \<mapsto> SubJournaled p v)) c" i p v now order d' gw] by auto

lemma run_clear:
  "submit_gate gw e p d = None \<Longrightarrow> (gateway_step gw)\<^sup>*\<^sup>* (cfg d (f(i \<mapsto> SubSubmitting p v order)) c)
     (cfg d (f(i \<mapsto> SubCleared p v order d)) c)"
  using gateway_step.clear [of "cfg d (f(i \<mapsto> SubSubmitting p v order)) c" i p v order gw e] by auto

lemma run_refuse:
  "submit_gate gw e p d = Some err \<Longrightarrow> (gateway_step gw)\<^sup>*\<^sup>* (cfg d (f(i \<mapsto> SubSubmitting p v order)) c)
     (cfg d (f(i \<mapsto> SubRefused p v order err)) c)"
  using gateway_step.refuse [of "cfg d (f(i \<mapsto> SubSubmitting p v order)) c" i p v order gw e err] by auto

lemma run_abort:
  "f i = None \<Longrightarrow> abort_submit gw now gate_error p v order response d = (err, d')
     \<Longrightarrow> (gateway_step gw)\<^sup>*\<^sup>* (cfg d (f(i \<mapsto> SubRefused p v order gate_error)) c) (cfg d' f c)"
  using gateway_step.abort [of "cfg d (f(i \<mapsto> SubRefused p v order gate_error)) c" i p v order gate_error gw now response err d']
  by (auto simp: fun_upd_idem)

lemma run_send:
  "(gateway_step gw)\<^sup>*\<^sup>* (cfg d (f(i \<mapsto> SubCleared p v order g)) c)
     (cfg d (f(i \<mapsto> SubSent p v order)) (c @ [SubmitCall p order g]))"
  using gateway_step.send [of "cfg d (f(i \<mapsto> SubCleared p v order g)) c" i p v order g gw] by auto

lemma run_settle:
  "f i = None \<Longrightarrow> settle_submit gw now outcome p v order d = (result, d')
     \<Longrightarrow> (gateway_step gw)\<^sup>*\<^sup>* (cfg d (f(i \<mapsto> SubSent p v order)) c) (cfg d' f c)"
  using gateway_step.settle [of "cfg d (f(i \<mapsto> SubSent p v order)) c" i p v order gw now outcome result d']
  by (auto simp: fun_upd_idem)

lemma run_cancel_check:
  "f i = None \<Longrightarrow> cancel_guards e permitted (cancel_request_post_init r) order d = None
     \<Longrightarrow> (gateway_step gw)\<^sup>*\<^sup>* (cfg d f c) (cfg d (f(i \<mapsto> CanChecked (cancel_request_post_init r) order g)) c)"
  using gateway_step.cancel_check [of "cfg d f c" i e permitted r order gw g] by auto

lemma run_cancel_journal:
  "journal_cancel gw now r order d = Inr (order', d')
     \<Longrightarrow> (gateway_step gw)\<^sup>*\<^sup>* (cfg d (f(i \<mapsto> CanChecked r order g)) c)
       (cfg d' (f(i \<mapsto> CanJournaled r (eo_status order) order' g)) c)"
  using gateway_step.cancel_journal [of "cfg d (f(i \<mapsto> CanChecked r order g)) c" i r order g gw now order' d'] by auto

lemma run_cancel_clear:
  "cancel_gate e r order d = None \<Longrightarrow> (gateway_step gw)\<^sup>*\<^sup>* (cfg d (f(i \<mapsto> CanJournaled r before order g)) c)
     (cfg d (f(i \<mapsto> CanCleared r order g d)) c)"
  using gateway_step.cancel_clear [of "cfg d (f(i \<mapsto> CanJournaled r before order g)) c" i r before order g e gw] by auto

lemma run_cancel_refuse:
  "cancel_gate e r order d = Some err \<Longrightarrow> (gateway_step gw)\<^sup>*\<^sup>* (cfg d (f(i \<mapsto> CanJournaled r before order g)) c)
     (cfg d (f(i \<mapsto> CanRefused r before order err)) c)"
  using gateway_step.cancel_refuse [of "cfg d (f(i \<mapsto> CanJournaled r before order g)) c" i r before order g e err gw]
  by auto

lemma run_cancel_abort:
  "f i = None \<Longrightarrow> abort_cancel gw now gate_error r before order response d = (err, d')
     \<Longrightarrow> (gateway_step gw)\<^sup>*\<^sup>* (cfg d (f(i \<mapsto> CanRefused r before order gate_error)) c) (cfg d' f c)"
  using gateway_step.cancel_abort [of "cfg d (f(i \<mapsto> CanRefused r before order gate_error)) c" i r before order
      gate_error gw now response err d']
  by (auto simp: fun_upd_idem)

lemma run_cancel_send:
  "(gateway_step gw)\<^sup>*\<^sup>* (cfg d (f(i \<mapsto> CanCleared r order g gate_db)) c)
     (cfg d (f(i \<mapsto> CanSent r order g)) (c @ [CancelCall r order gate_db]))"
  using gateway_step.cancel_send [of "cfg d (f(i \<mapsto> CanCleared r order g gate_db)) c" i r order g gate_db gw] by auto

lemma run_cancel_settle:
  "f i = None \<Longrightarrow> settle_cancel gw now g outcome r order d = (result, d')
     \<Longrightarrow> (gateway_step gw)\<^sup>*\<^sup>* (cfg d (f(i \<mapsto> CanSent r order g)) c) (cfg d' f c)"
  using gateway_step.cancel_settle [of "cfg d (f(i \<mapsto> CanSent r order g)) c" i r order g gw now outcome result d']
  by (auto simp: fun_upd_idem)

lemmas run_trans = rtranclp_trans [of "gateway_step gw" for gw]

text \<open>A run that ends on the given database, leaves the calls in flight as they were and adds broker
  calls under the given keys, in this order.\<close>

definition reaches :: "gateway_config \<Rightarrow> gateway_state \<Rightarrow> gateway_db \<Rightarrow> string list \<Rightarrow> gateway_state \<Rightarrow> bool" where
  "reaches gw s db keys s' \<longleftrightarrow> (gateway_step gw)\<^sup>*\<^sup>* s s' \<and> gs_db s' = db \<and> gs_inflight s' = gs_inflight s
     \<and> (\<exists>calls. gs_calls s' = gs_calls s @ calls \<and> map call_key calls = keys)"

lemma reaches_trans:
  "reaches gw s db keys s' \<Longrightarrow> reaches gw s' db' keys' s'' \<Longrightarrow> reaches gw s db' (keys @ keys') s''"
  unfolding reaches_def using run_trans [of gw s s' s''] by fastforce

lemma reaches_refl: "reaches gw s (gs_db s) [] s"
  by (simp add: reaches_def)

lemma reaches_others: "db_evolves (gs_db s) db \<Longrightarrow> reaches gw s db [] (s\<lparr>gs_db := db\<rparr>)"
  unfolding reaches_def using gateway_step.others [of s db gw] by auto

lemma reaches_cfg:
  "(gateway_step gw)\<^sup>*\<^sup>* (cfg (gs_db s) (gs_inflight s) (gs_calls s)) (cfg db (gs_inflight s) (gs_calls s @ calls))
     \<Longrightarrow> reaches gw s db (map call_key calls) (cfg db (gs_inflight s) (gs_calls s @ calls))"
  by (auto simp: reaches_def)

lemma submit_reaches:
  assumes others: "\<And>n d. db_evolves d (other n d)" and free: "gs_inflight s i = None"
    and call: "do_submit gw e clock gate_env end_clock new_id response outcome other (submit_request_post_init r)
      (gs_db s) = (result, db', called)"
  shows "\<exists>s'. reaches gw s db' (if called then [submit_key (sr_client_order_id (submit_request_post_init r))] else []) s'"
proof -
  let ?f = "gs_inflight s" and ?c = "gs_calls s" and ?d = "gs_db s"
  have nocall: ?thesis if "(gateway_step gw)\<^sup>*\<^sup>* (cfg ?d ?f ?c) (cfg db' ?f ?c)" "\<not> called"
    using that reaches_cfg [of gw s db' "[]"] by auto
  note o = run_others [OF others] and stop = run_stop [of ?f, OF free]
  show ?thesis
  proof (cases "prepare_submit gw e new_id (submit_request_post_init r) ?d")
    case (Inl err)
    with call nocall show ?thesis by (auto simp: do_submit_def)
  next
    case (Inr p)
    note prep = Inr
    let ?d1 = "other 1 ?d"
    have r1: "(gateway_step gw)\<^sup>*\<^sup>* (cfg ?d ?f ?c) (cfg ?d1 (?f(i \<mapsto> SubPrepared p)) ?c)"
      by (rule run_trans [OF run_prepare [of ?f, OF free prep] o])
    show ?thesis
    proof (cases "journal_submit p ?d1")
      case (Inl err)
      with call prep nocall run_trans [OF r1 stop] show ?thesis by (auto simp: do_submit_def)
    next
      case (Inr vd)
      then obtain v e1 where j: "journal_submit p ?d1 = Inr (v, e1)" by (cases vd) auto
      let ?d2 = "other 2 e1"
      have r2: "(gateway_step gw)\<^sup>*\<^sup>* (cfg ?d ?f ?c) (cfg ?d2 (?f(i \<mapsto> SubJournaled p v)) ?c)"
        by (rule run_trans [OF run_trans [OF r1 run_journal [OF j]] o])
      show ?thesis
      proof (cases "begin_submitting clock p ?d2")
        case (Inl err)
        with call prep j nocall run_trans [OF r2 stop] show ?thesis by (auto simp: do_submit_def)
      next
        case (Inr od)
        then obtain order e2 where b: "begin_submitting clock p ?d2 = Inr (order, e2)" by (cases od) auto
        let ?d3 = "other 3 e2" and ?d4 = "other 4 (other 3 e2)"
        have r3: "(gateway_step gw)\<^sup>*\<^sup>* (cfg ?d ?f ?c) (cfg ?d3 (?f(i \<mapsto> SubSubmitting p v order)) ?c)"
          by (rule run_trans [OF run_trans [OF r2 run_begin [OF b]] o])
        show ?thesis
        proof (cases "submit_gate gw gate_env p ?d3")
          case (Some gate_error)
          obtain err e3 where a: "abort_submit gw end_clock gate_error p v order response ?d4 = (err, e3)"
            by (meson surj_pair)
          have "(gateway_step gw)\<^sup>*\<^sup>* (cfg ?d ?f ?c) (cfg e3 ?f ?c)"
            by (rule run_trans [OF run_trans [OF run_trans [OF r3 run_refuse [OF Some]] o]
                  run_abort [of ?f, OF free a]])
          with call prep j b Some a nocall show ?thesis by (auto simp: do_submit_def)
        next
          case None
          obtain res e3 where t: "settle_submit gw end_clock outcome p v order ?d4 = (res, e3)"
            by (meson surj_pair)
          have "(gateway_step gw)\<^sup>*\<^sup>* (cfg ?d ?f ?c) (cfg e3 ?f (?c @ [SubmitCall p order ?d3]))"
            by (rule run_trans [OF run_trans [OF run_trans [OF run_trans [OF r3 run_clear [OF None]] run_send] o]
                  run_settle [of ?f, OF free t]])
          moreover have "e3 = db'" "called" using call prep j b None t by (simp_all add: do_submit_def)
          moreover have "submit_id p = sr_client_order_id (submit_request_post_init r)"
            using prepare_submit_Inr [OF prep] by (simp add: submit_id_def)
          ultimately show ?thesis using reaches_cfg [of gw s db' "[SubmitCall p order ?d3]"] by auto
        qed
      qed
    qed
  qed
qed

lemma cancel_reaches:
  assumes others: "\<And>n d. db_evolves d (other n d)" and free: "gs_inflight s i = None"
    and call: "do_cancel gw e clock gate_env end_clock permitted give_back response outcome other
      (cancel_request_post_init r) order (gs_db s) = (result, db', called)"
  shows "\<exists>s'. reaches gw s db'
    (if called then [cancel_key (xr_cancel_command_id (cancel_request_post_init r))] else []) s'"
proof -
  let ?f = "gs_inflight s" and ?c = "gs_calls s" and ?d = "gs_db s" and ?r = "cancel_request_post_init r"
  have nocall: ?thesis if "(gateway_step gw)\<^sup>*\<^sup>* (cfg ?d ?f ?c) (cfg db' ?f ?c)" "\<not> called"
    using that reaches_cfg [of gw s db' "[]"] by auto
  note o = run_others [OF others] and stop = run_stop [of ?f, OF free]
  show ?thesis
  proof (cases "cancel_guards e permitted ?r order ?d")
    case (Some err)
    with call nocall show ?thesis by (auto simp: do_cancel_def)
  next
    case None
    let ?d1 = "other 1 ?d"
    have r1: "(gateway_step gw)\<^sup>*\<^sup>* (cfg ?d ?f ?c) (cfg ?d1 (?f(i \<mapsto> CanChecked ?r order give_back)) ?c)"
      by (rule run_trans [OF run_cancel_check [of ?f, OF free None] o])
    show ?thesis
    proof (cases "journal_cancel gw clock ?r order ?d1")
      case (Inl err)
      with call None nocall run_trans [OF r1 stop] show ?thesis by (auto simp: do_cancel_def)
    next
      case (Inr od)
      then obtain order1 e1 where j: "journal_cancel gw clock ?r order ?d1 = Inr (order1, e1)" by (cases od) auto
      let ?d2 = "other 2 e1" and ?d3 = "other 3 (other 2 e1)"
      have r2: "(gateway_step gw)\<^sup>*\<^sup>* (cfg ?d ?f ?c)
          (cfg ?d2 (?f(i \<mapsto> CanJournaled ?r (eo_status order) order1 give_back)) ?c)"
        by (rule run_trans [OF run_trans [OF r1 run_cancel_journal [OF j]] o])
      show ?thesis
      proof (cases "cancel_gate gate_env ?r order1 ?d2")
        case (Some gate_error)
        obtain err e2 where a: "abort_cancel gw end_clock gate_error ?r (eo_status order) order1 response ?d3 = (err, e2)"
          by (meson surj_pair)
        have "(gateway_step gw)\<^sup>*\<^sup>* (cfg ?d ?f ?c) (cfg e2 ?f ?c)"
          by (rule run_trans [OF run_trans [OF run_trans [OF r2 run_cancel_refuse [OF Some]] o]
                run_cancel_abort [of ?f, OF free a]])
        with call \<open>cancel_guards e permitted ?r order ?d = None\<close> j Some a nocall show ?thesis
          by (auto simp: do_cancel_def)
      next
        case None
        obtain res e2 where t: "settle_cancel gw end_clock give_back outcome ?r order1 ?d3 = (res, e2)"
          by (meson surj_pair)
        have "(gateway_step gw)\<^sup>*\<^sup>* (cfg ?d ?f ?c) (cfg e2 ?f (?c @ [CancelCall ?r order1 ?d2]))"
          by (rule run_trans [OF run_trans [OF run_trans [OF run_trans [OF r2 run_cancel_clear [OF None]]
                run_cancel_send] o] run_cancel_settle [of ?f, OF free t]])
        moreover have "e2 = db'" "called"
          using call \<open>cancel_guards e permitted ?r order ?d = None\<close> j None t by (simp_all add: do_cancel_def)
        ultimately show ?thesis using reaches_cfg [of gw s db' "[CancelCall ?r order1 ?d2]"] by auto
      qed
    qed
  qed
qed

end
