(* ===== verification/Gateway_Claims.thy ===== *)
theory Gateway_Claims
  imports Gateway_Runs
begin

text \<open>
  The properties of the guarded gateway, from the invariants of \<open>Gateway_Safety\<close> and the runs of
  \<open>Gateway_Runs\<close>.
\<close>


subsection \<open>A sample submission\<close>

text \<open>A protective SELL on the device that holds the lease, over empty tables.\<close>

definition sample_gateway_env :: gateway_env where
  "sample_gateway_env =
     \<lparr>ge_now = 5, ge_trading_env_value = None, ge_trading_provider = None, ge_trading_enabled = True,
      ge_live_config = sample_live_config, ge_account_equity = None, ge_buying_power = Fin 0,
      ge_entries_ready = True, ge_budget_available = (\<lambda>_ _ _. True)\<rparr>"

definition sample_gateway_config :: gateway_config where
  "sample_gateway_config = \<lparr>gw_projected_risk_required = True, gw_redact = (\<lambda>_ d. (d, []))\<rparr>"

definition sample_gateway_db :: "string \<Rightarrow> int \<Rightarrow> gateway_db" where
  "sample_gateway_db device epoch =
     \<lparr>gd_commands = empty_commands, gd_orders = empty_orders, gd_externals = \<lparr>xt_ids = [], xt_rows = Map.empty\<rparr>,
      gd_reservations = empty_reservations, gd_owners = \<lparr>ot_ids = [], ot_rows = Map.empty\<rparr>,
      gd_lease = Some (owned_row 2 ''t1'' (sample_role device) epoch epoch), gd_cards = empty_table\<rparr>"

definition sample_submit :: submit_request where
  "sample_submit =
     \<lparr>sr_client_order_id = ''c1'', sr_environment = ''PROD'', sr_account_no = ''1'', sr_symbol = ''AAPL'',
      sr_side = SELL, sr_intent = STOP_LOSS, sr_quantity = 10, sr_limit_price = Fin 50,
      sr_exchange = ''NASD'', sr_execution_policy = ''REGULAR_LIMIT'', sr_attempt_group_id = [],
      sr_attempt_number = 1, sr_attempt_deadline_at = None, sr_lease = Some sample_lease, sr_source = SYSTEM,
      sr_replaces_execution_order_id = [], sr_prepared_capital_reservation_id = [],
      sr_prepared_capital_reservation_version = 0, sr_strategy_instance_id = [], sr_emergency = False,
      sr_pre_trade_risk_decision = None, sr_risk_strategy_id = [], sr_risk_plan_id = []\<rparr>"

lemma sample_submit_normal: "submit_request_post_init sample_submit = sample_submit"
proof -
  have "py_strip ''c1'' = ''c1''" "py_upper ''PROD'' = ''PROD''" "py_upper ''AAPL'' = ''AAPL''" by code_simp+
  then show ?thesis by (simp add: submit_request_post_init_def sample_submit_def)
qed

lemma sample_lease_current: "lease_accepted (Some (owned_row 2 ''t1'' (sample_role ''main'') 1 1)) sample_lease"
  by (simp add: lease_accepted_iff sample_lease_def sample_role_def) (code_simp)

text \<open>What the guards need of a database: no owner assigned, nothing discovered, the lease in place.\<close>

definition quiet_db :: "gateway_db \<Rightarrow> bool" where
  "quiet_db db \<longleftrightarrow> ot_rows (gd_owners db) = Map.empty \<and> xt_ids (gd_externals db) = []
     \<and> (\<forall>r \<in> set (table_orders (gd_orders db)). eo_origin r = APPLICATION)
     \<and> lease_accepted (gd_lease db) sample_lease"

lemma quiet_ownership: "quiet_db db \<Longrightarrow> require_ownership db en ac ti SYSTEM st = None"
  by (simp add: quiet_db_def require_ownership_def get_ownership_def Let_def legacy_default_def)

lemma quiet_lease: "quiet_db db \<Longrightarrow> require_verified_lease db (Some sample_lease) = None"
  by (simp add: quiet_db_def require_verified_lease_def lease_accepted_def)

lemma quiet_fence: "quiet_db db \<Longrightarrow> require_external_fence db en ac ti a = None"
  by (auto simp: quiet_db_def require_external_fence_def require_no_active_unowned_external_order_def
      table_externals_def find_active_unlinked_adopted_order_def Let_def map_filter_def find_None_iff guard_simps)

lemma sample_guards:
  assumes "quiet_db db"
  shows "submit_guards sample_gateway_env sample_submit db = None"
  using quiet_ownership [OF assms] quiet_lease [OF assms]
  by (simp add: submit_guards_def require_trading_def require_trading_enabled_def sample_gateway_env_def
      is_trading_locked_disabled_def sample_submit_def is_new_entry_def require_budget_available_def)

lemma sample_gate:
  assumes "quiet_db db" "ps_request p = sample_submit"
  shows "submit_gate sample_gateway_config sample_gateway_env p db = None"
  using quiet_ownership [OF assms(1)] quiet_lease [OF assms(1)] quiet_fence [OF assms(1)] assms(2)
  by (simp add: submit_gate_def Let_def sample_submit_def entry_risk_approval_def is_new_entry_def
      require_live_entry_allowed_def sample_text_normal sample_live_allowed sample_gateway_env_def)

lemma sample_prepared:
  assumes "quiet_db db"
  obtains p where "prepare_submit sample_gateway_config sample_gateway_env ''r1'' sample_submit db = Inr p"
    "ps_request p = sample_submit" "ps_notional p = Fin 0" "submit_id p = ''c1''"
proof -
  have cmd: "\<exists>c. new_command sample_gateway_config now (submit_key ''c1'') CT_SUBMIT en ac ti l [] src = Inr c"
    for now en ac ti l src
  proof -
    have "py_strip (submit_key ''c1'') \<noteq> []" by code_simp
    then show ?thesis by (simp add: new_command_def command_post_init_def Let_def sample_gateway_config_def)
  qed
  have ord: "\<exists>r. new_execution_order now sample_submit 10 (Fin 50) rid = Inr r" for now rid
  proof -
    have "py_strip ''c1'' \<noteq> []" by code_simp
    then show ?thesis
      by (simp add: new_execution_order_def execution_order_post_init_def Let_def sample_submit_def sample_lease_def
          guard_simps)
  qed
  have price: "submit_limit_price sample_submit = Inr (Fin 50)"
    by (simp add: submit_limit_price_def sample_submit_def RESERVED_MOO_EXECUTION_def)
  have approval: "entry_risk_approval sample_gateway_config now sample_submit n lp = Inr None" for now n lp
    by (simp add: entry_risk_approval_def is_new_entry_def sample_submit_def)
  have fields: "sr_client_order_id sample_submit = ''c1''" "sr_quantity sample_submit = 10"
      "submit_notional sample_submit (Fin 50) = Fin 0"
    by (simp_all add: sample_submit_def submit_notional_def)
  let ?now = "ge_now sample_gateway_env"
  obtain v where v: "submit_reservation ?now ''r1'' sample_submit (Fin 0) (spec_open_risk None) db = Inr v"
    by (simp add: submit_reservation_def sample_submit_def)
  obtain c where c: "new_command sample_gateway_config ?now (submit_key ''c1'') CT_SUBMIT (sr_environment sample_submit)
      (sr_account_no sample_submit) (sr_symbol sample_submit) (sr_lease sample_submit) []
      (source_value (sr_source sample_submit)) = Inr c"
    using cmd by blast
  obtain r where r: "new_execution_order ?now sample_submit 10 (Fin 50) (cr_reservation_id v) = Inr r"
    using ord by blast
  obtain p where p: "prepare_submit sample_gateway_config sample_gateway_env ''r1'' sample_submit db = Inr p"
    by (simp add: prepare_submit_def sample_guards [OF assms] price approval fields v c r Let_def)
  note f = prepare_submit_Inr [OF p]
  have "ps_notional p = Fin 0" using f price fields by auto
  with p f fields that show ?thesis by (simp add: submit_id_def)
qed

lemma new_command_requested:
  "new_command gw now key kind en ac ti lease target source = Inr c \<Longrightarrow> ec_requested_at c = Some now"
  by (auto simp: new_command_def command_post_init_def Let_def split: if_splits sum.splits)

lemma transition_keeps:
  assumes "apply_status_transition now t None r = (None, r')"
  shows "eo_client_order_id r' = eo_client_order_id r \<and> eo_environment r' = eo_environment r
    \<and> eo_account_no r' = eo_account_no r \<and> eo_symbol r' = eo_symbol r \<and> eo_version r' = eo_version r
    \<and> eo_capital_reservation_id r' = eo_capital_reservation_id r \<and> eo_origin r' = eo_origin r"
  using assms by (auto simp: transition_defs split: option.splits prod.splits if_splits)

lemma new_execution_order_wf:
  assumes "new_execution_order now r quantity limit_price rid = Inr order"
  shows "order_wf order \<and> eo_origin order = APPLICATION \<and> eo_version order = 1"
  using assms by (auto simp: new_execution_order_def execution_order_post_init_def Let_def guard_simps order_wf_def)

text \<open>Updating the only row of an order table.\<close>

lemma update_single_order:
  assumes "validate_consistency r = None" "eo_client_order_id r = k" "eo_version r = eo_version cur"
    "eo_environment r = eo_environment cur" "eo_account_no r = eo_account_no cur" "eo_symbol r = eo_symbol cur"
    "eo_client_order_id cur = k"
  shows "update_execution_order r (eo_version r) \<lparr>ox_ids = [k], ox_rows = [k \<mapsto> cur]\<rparr>
    = Inr (r\<lparr>eo_version := eo_version r + 1\<rparr>, \<lparr>ox_ids = [k], ox_rows = [k \<mapsto> r\<lparr>eo_version := eo_version r + 1\<rparr>]\<rparr>)"
  using assms
  by (auto simp: update_order_Inr_iff held_by_other_def table_orders_def map_filter_def)

text \<open>The state in which the sample order is durably \<open>SUBMITTING\<close> and its final gate is next.\<close>

definition sample_submitting_db :: "prepared_submit \<Rightarrow> reservation \<Rightarrow> execution_order \<Rightarrow> gateway_db \<Rightarrow> bool" where
  "sample_submitting_db p v order db \<longleftrightarrow> quiet_db db \<and> ps_request p = sample_submit \<and> submit_id p = ''c1''
     \<and> gd_orders db = \<lparr>ox_ids = [''c1''], ox_rows = [''c1'' \<mapsto> order]\<rparr>
     \<and> eo_client_order_id order = ''c1'' \<and> eo_status order = SUBMITTING \<and> order_wf order
     \<and> (\<exists>c. cm_rows (gd_commands db) (submit_key ''c1'') = Some c \<and> ec_status c = CS_REQUESTED)
     \<and> rt_rows (gd_reservations db) (cr_reservation_id v) = Some v"

lemma sample_reserved:
  "submit_reservation now new_id sample_submit notional risk db = Inr v \<Longrightarrow> cr_requested_notional v = notional"
proof -
  have "sr_prepared_capital_reservation_id sample_submit = []" by (simp add: sample_submit_def)
  moreover assume "submit_reservation now new_id sample_submit notional risk db = Inr v"
  ultimately show ?thesis by (auto simp: submit_reservation_def create_reservation_def reservation_post_init_def)
qed

lemma sample_stages:
  obtains p v order db1 db where
    "prepare_submit sample_gateway_config sample_gateway_env ''r1'' sample_submit (sample_gateway_db ''main'' 1) = Inr p"
    "journal_submit p (sample_gateway_db ''main'' 1) = Inr (v, db1)"
    "begin_submitting 5 p db1 = Inr (order, db)" "sample_submitting_db p v order db"
proof -
  let ?db = "sample_gateway_db ''main'' 1" and ?gw = sample_gateway_config
  have quiet: "quiet_db ?db"
    using sample_lease_current
    by (simp add: quiet_db_def sample_gateway_db_def empty_orders_def table_orders_def map_filter_def)
  obtain p where p: "prepare_submit ?gw sample_gateway_env ''r1'' sample_submit ?db = Inr p"
      "ps_request p = sample_submit" "ps_notional p = Fin 0" "submit_id p = ''c1''"
    by (rule sample_prepared [OF quiet])
  note f = prepare_submit_Inr [OF p(1)]
  have ok: "prepared_ok p"
    using prepare_submit_ok [of ?gw sample_gateway_env "''r1''" sample_submit ?db p] p(1)
    by (simp add: sample_submit_normal)
  let ?v = "ps_reservation p" and ?r = "ps_record p" and ?c = "ps_command p"
  have v: "cr_requested_notional ?v = Fin 0"
    using f p(3) sample_reserved by metis
  have r: "validate_consistency ?r = None" "eo_client_order_id ?r = ''c1''" "eo_status ?r = PREPARED"
      "eo_origin ?r = APPLICATION" "order_wf ?r"
    using f ok p(4) new_execution_order_fields new_execution_order_wf by (metis prepared_ok_def)+
  have c: "ec_requested_at ?c \<noteq> None" "ec_idempotency_key ?c = submit_key ''c1''" "ec_status ?c = CS_REQUESTED"
    using f ok p(4) new_command_requested by (metis option.distinct(1), simp_all add: prepared_ok_def)
  let ?c1 = "?c\<lparr>ec_command_id := Some 1\<rparr>"
  let ?db1 = "?db\<lparr>gd_commands := \<lparr>cm_keys = [submit_key ''c1''], cm_rows = [submit_key ''c1'' \<mapsto> ?c1], cm_next_id = 2\<rparr>,
      gd_orders := \<lparr>ox_ids = [''c1''], ox_rows = [''c1'' \<mapsto> ?r]\<rparr>,
      gd_reservations := \<lparr>rt_ids = [cr_reservation_id ?v], rt_rows = [cr_reservation_id ?v \<mapsto> ?v]\<rparr>\<rparr>"
  have ins: "insert_command ?c empty_commands
      = Inr (?c1, \<lparr>cm_keys = [submit_key ''c1''], cm_rows = [submit_key ''c1'' \<mapsto> ?c1], cm_next_id = 2\<rparr>)"
    using c by (auto simp: insert_command_Inr_iff empty_commands_def)
  have insr: "insert_reservation_if_available ?v bp spec empty_reservations
      = Inr \<lparr>rt_ids = [cr_reservation_id ?v], rt_rows = [cr_reservation_id ?v \<mapsto> ?v]\<rparr>" for bp spec
    using v by (simp add: insert_reservation_if_available_def insert_reservation_def empty_reservations_def)
  have inso: "insert_execution_order ?r empty_orders = Inr (?r, \<lparr>ox_ids = [''c1''], ox_rows = [''c1'' \<mapsto> ?r]\<rparr>)"
    using r by (simp add: insert_order_Inr_iff empty_orders_def held_by_any_def table_orders_def map_filter_def)
  have j: "journal_submit p ?db = Inr (?v, ?db1)"
    using quiet_fence [OF quiet] p(2) ins insr inso
    by (simp add: journal_submit_def Let_def tx_insert_command_def reserve_capital_def tx_insert_order_def
        sample_gateway_db_def sample_submit_def)
  obtain r2 where t: "apply_status_transition 5 SUBMITTING None ?r = (None, r2)" "order_wf r2" "eo_status r2 = SUBMITTING"
    using apply_transition_moves [OF r(5), of SUBMITTING] r(3) by auto
  let ?order = "r2\<lparr>eo_version := eo_version r2 + 1\<rparr>" and ?db2 = "?db1\<lparr>gd_orders := \<lparr>ox_ids = [''c1''],
      ox_rows = [''c1'' \<mapsto> r2\<lparr>eo_version := eo_version r2 + 1\<rparr>]\<rparr>\<rparr>"
  have "update_execution_order r2 (eo_version r2) \<lparr>ox_ids = [''c1''], ox_rows = [''c1'' \<mapsto> ?r]\<rparr>
      = Inr (?order, \<lparr>ox_ids = [''c1''], ox_rows = [''c1'' \<mapsto> ?order]\<rparr>)"
    using transition_keeps [OF t(1)] r(2) t(2) by (intro update_single_order) (auto simp: order_wf_def)
  then have b: "begin_submitting 5 p ?db1 = Inr (?order, ?db2)"
    by (simp add: begin_submitting_def transition_or_raise_def t(1) tx_update_order_def)
  have "eo_origin ?order = APPLICATION" "eo_client_order_id ?order = ''c1''"
    using transition_keeps [OF t(1)] r(2,4) by simp_all
  with quiet p t c have final: "sample_submitting_db p ?v ?order ?db2"
    by (auto simp: sample_submitting_db_def quiet_db_def sample_gateway_db_def table_orders_def map_filter_def
        order_wf_def)
  from p(1) j b final that show ?thesis by blast
qed

lemma sample_submitting:
  obtains p v order db where "sample_submitting_db p v order db"
    "(gateway_step sample_gateway_config)\<^sup>*\<^sup>* (started (sample_gateway_db ''main'' 1))
       (cfg db [0 \<mapsto> SubSubmitting p v order] [])"
proof -
  let ?db = "sample_gateway_db ''main'' 1" and ?gw = sample_gateway_config
  obtain p v order db1 db where s: "prepare_submit ?gw sample_gateway_env ''r1'' sample_submit ?db = Inr p"
      "journal_submit p ?db = Inr (v, db1)" "begin_submitting 5 p db1 = Inr (order, db)"
      "sample_submitting_db p v order db"
    by (rule sample_stages)
  have "(gateway_step ?gw)\<^sup>*\<^sup>* (cfg ?db Map.empty []) (cfg db [0 \<mapsto> SubSubmitting p v order] [])"
    using run_trans [OF run_trans [OF run_prepare [of Map.empty 0 ?gw sample_gateway_env "''r1''" sample_submit ?db p]
        run_journal [OF s(2)]] run_begin [OF s(3)]] s(1)
    by (simp add: sample_submit_normal)
  with s(4) that show ?thesis by (simp add: started_def cfg_def)
qed

lemma sample_sent:
  obtains p v order db where "sample_submitting_db p v order db"
    "(gateway_step sample_gateway_config)\<^sup>*\<^sup>* (started (sample_gateway_db ''main'' 1))
       (cfg db [0 \<mapsto> SubSent p v order] [SubmitCall p order db])"
proof -
  obtain p v order db where s: "sample_submitting_db p v order db"
      "(gateway_step sample_gateway_config)\<^sup>*\<^sup>* (started (sample_gateway_db ''main'' 1))
         (cfg db [0 \<mapsto> SubSubmitting p v order] [])"
    by (rule sample_submitting)
  have "submit_gate sample_gateway_config sample_gateway_env p db = None"
    using s(1) by (intro sample_gate) (simp_all add: sample_submitting_db_def)
  from run_trans [OF run_trans [OF s(2) run_clear [OF this]] run_send] s(1) that show ?thesis by simp
qed


lemma verified_lease_accepted:
  "require_verified_lease db lease = None \<Longrightarrow> \<exists>l. lease = Some l \<and> lease_accepted (gd_lease db) l"
  by (auto simp: require_verified_lease_def lease_accepted_def split: option.splits)

subsection \<open>At most one broker call per journaled command\<close>

text \<open>
  (C3) However submissions, cancellations, crashes and other writers interleave, the gateway
  hands at most one operation per command key to the broker boundary, and every one it handed over
  belongs to a command that is in the journal and is not recorded there as never sent.
\<close>

theorem broker_called_once:
  assumes "(gateway_step gw)\<^sup>*\<^sup>* (started db) s"
  shows "distinct (map call_key (gs_calls s))
    \<and> (\<forall>k \<in> call_key ` set (gs_calls s). \<exists>c. cm_rows (gd_commands (gs_db s)) k = Some c
         \<and> ec_status c \<noteq> CS_PRE_BROKER_ABORTED)"
  using gateway_inv_reachable [OF assms gateway_inv_started]
  by (auto simp: gateway_inv_def journal_inv_def calls_live_def live_row_def)

theorem broker_called_once_witness:
  "\<exists>p v order db. (gateway_step sample_gateway_config)\<^sup>*\<^sup>* (started (sample_gateway_db ''main'' 1))
       (cfg db [0 \<mapsto> SubSent p v order] [SubmitCall p order db])
     \<and> (\<exists>c. cm_rows (gd_commands db) ''SUBMIT:c1'' = Some c \<and> ec_status c \<noteq> CS_PRE_BROKER_ABORTED)"
proof -
  obtain p v order db where s: "sample_submitting_db p v order db"
      "(gateway_step sample_gateway_config)\<^sup>*\<^sup>* (started (sample_gateway_db ''main'' 1))
         (cfg db [0 \<mapsto> SubSent p v order] [SubmitCall p order db])"
    by (rule sample_sent)
  from broker_called_once [OF s(2)] s show ?thesis
    by (fastforce simp: sample_submitting_db_def submit_key_def)
qed



text \<open>
  (C19) A command that the final gate refused is recorded as never sent, and that record stays true:
  from a state in which the journal holds it as \<open>PRE_BROKER_ABORTED\<close>, no run leads to a broker
  call under its key.
\<close>

theorem retired_never_sent:
  assumes "(gateway_step gw)\<^sup>*\<^sup>* (started db) s"
    and "cm_rows (gd_commands (gs_db s)) k = Some c" "ec_status c = CS_PRE_BROKER_ABORTED"
    and "(gateway_step gw)\<^sup>*\<^sup>* s s'"
  shows "k \<notin> call_key ` set (gs_calls s')"
proof -
  have inv: "gateway_inv gw s" by (rule gateway_inv_reachable [OF assms(1) gateway_inv_started])
  have dead: "\<not> live_row (gs_db s) k" using assms(2,3) by (simp add: live_row_def)
  have "spent_key k s"
    using inv dead assms(2)
    by (auto simp: gateway_inv_def journal_inv_def holders_live_def calls_live_def spent_key_def)
  from spent_key_steps [OF assms(4) inv this] show ?thesis by (simp add: spent_key_def)
qed

lemma sample_aborted:
  assumes "sample_submitting_db p v order db"
  shows "\<exists>err db'. abort_submit sample_gateway_config now g p v order response db = (err, db')
    \<and> (\<exists>c. cm_rows (gd_commands db') (submit_key ''c1'') = Some c \<and> ec_status c = CS_PRE_BROKER_ABORTED)"
proof -
  let ?db = "db" and ?t = "\<lparr>ox_ids = [''c1''], ox_rows = [''c1'' \<mapsto> order]\<rparr>"
  have a: "ps_request p = sample_submit" "submit_id p = ''c1''" "gd_orders db = ?t" "eo_client_order_id order = ''c1''"
      "eo_status order = SUBMITTING" "order_wf order" "rt_rows (gd_reservations db) (cr_reservation_id v) = Some v"
    using assms by (auto simp: sample_submitting_db_def)
  obtain c where c: "cm_rows (gd_commands db) (submit_key ''c1'') = Some c" "ec_status c = CS_REQUESTED"
    using assms by (auto simp: sample_submitting_db_def)
  obtain r2 where t: "apply_status_transition now CANCELLED_LOCALLY None order = (None, r2)" "order_wf r2"
    using apply_transition_moves [OF a(6), of CANCELLED_LOCALLY] a(5) by auto
  let ?o = "r2\<lparr>eo_version := eo_version r2 + 1\<rparr>"
  have u: "update_execution_order r2 (eo_version r2) ?t = Inr (?o, \<lparr>ox_ids = [''c1''], ox_rows = [''c1'' \<mapsto> ?o]\<rparr>)"
    using transition_keeps [OF t(1)] a(4) t(2) by (intro update_single_order) (auto simp: order_wf_def)
  have m: "\<exists>c' t'. update_command_response gwr (submit_key ''c1'') CS_PRE_BROKER_ABORTED response None (gd_commands db)
      = Inr (c', t')" for gwr
    using c by (auto simp: update_command_Inr_iff)
  then obtain c' t' where m: "update_command_response (gw_redact sample_gateway_config) (submit_key ''c1'')
      CS_PRE_BROKER_ABORTED response None (gd_commands db) = Inr (c', t')" by blast
  have "cr_reservation_id (release_reservation_notional now v) = cr_reservation_id v"
    by (simp add: release_reservation_notional_def)
  with a(7) obtain v' tr where w: "update_reservation (release_reservation_notional now v) (cr_version v)
      (gd_reservations db) = Inr (v', tr)"
    by (simp add: update_reservation_def)
  have "sr_client_order_id sample_submit = ''c1''" by (simp add: sample_submit_def)
  with a(1,3) t(1) u m w have "abort_submit sample_gateway_config now g p v order response db
      = (SubmissionPreBrokerAborted g, db\<lparr>gd_orders := \<lparr>ox_ids = [''c1''], ox_rows = [''c1'' \<mapsto> ?o]\<rparr>,
           gd_commands := t', gd_reservations := tr\<rparr>)"
    by (simp add: abort_submit_def transition_or_raise_def tx_update_order_def tx_update_command_def
        tx_update_reservation_def)
  moreover have "\<exists>c. cm_rows t' (submit_key ''c1'') = Some c \<and> ec_status c = CS_PRE_BROKER_ABORTED"
    using m by (auto simp: update_command_Inr_iff)
  ultimately show ?thesis by simp
qed

text \<open>The sample order again, with the lease lost before its final gate.\<close>

theorem retired_never_sent_witness:
  "\<exists>s. (gateway_step sample_gateway_config)\<^sup>*\<^sup>* (started (sample_gateway_db ''main'' 1)) s
     \<and> (\<exists>c. cm_rows (gd_commands (gs_db s)) ''SUBMIT:c1'' = Some c \<and> ec_status c = CS_PRE_BROKER_ABORTED)
     \<and> (\<forall>s'. (gateway_step sample_gateway_config)\<^sup>*\<^sup>* s s' \<longrightarrow> ''SUBMIT:c1'' \<notin> call_key ` set (gs_calls s'))"
proof -
  let ?gw = sample_gateway_config
  obtain p v order db where s: "sample_submitting_db p v order db"
      "(gateway_step ?gw)\<^sup>*\<^sup>* (started (sample_gateway_db ''main'' 1)) (cfg db [0 \<mapsto> SubSubmitting p v order] [])"
    by (rule sample_submitting)
  let ?lost = "db\<lparr>gd_lease := None\<rparr>"
  have e: "db_evolves db ?lost"
    by (simp add: db_evolves_def commands_evolve_def split: option.splits)
  have "submit_gate ?gw sample_gateway_env p ?lost \<noteq> None"
  proof
    assume "submit_gate ?gw sample_gateway_env p ?lost = None"
    then have "require_verified_lease ?lost (sr_lease (ps_request p)) = None"
      unfolding submit_gate_def Let_def and_then_None by blast
    from verified_lease_accepted [OF this] show False by (auto simp: lease_accepted_iff)
  qed
  then obtain err where g: "submit_gate ?gw sample_gateway_env p ?lost = Some err" by blast
  obtain err2 db2 c where a: "abort_submit ?gw 6 err p v order [] db = (err2, db2)"
      "cm_rows (gd_commands db2) (submit_key ''c1'') = Some c" "ec_status c = CS_PRE_BROKER_ABORTED"
    using sample_aborted [OF s(1)] by metis
  have restored: "db_evolves ?lost db"
    by (simp add: db_evolves_def commands_evolve_def split: option.splits)
  have free: "Map.empty 0 = None" by simp
  have run: "(gateway_step ?gw)\<^sup>*\<^sup>* (started (sample_gateway_db ''main'' 1)) (cfg db2 Map.empty [])"
    by (rule run_trans [OF run_trans [OF run_trans [OF run_trans [OF s(2) run_others [OF e]] run_refuse [OF g]]
          run_others [OF restored]] run_abort [OF free a(1)]])
  have k: "submit_key ''c1'' = ''SUBMIT:c1''" by (simp add: submit_key_def)
  have row: "cm_rows (gd_commands (gs_db (cfg db2 Map.empty []))) ''SUBMIT:c1'' = Some c" using a(2) k by simp
  from retired_never_sent [OF run row a(3)] run row a(3) show ?thesis by blast
qed

subsection \<open>What the first transaction writes\<close>



end
