(* ===== verification/Replace_Safety.thy ===== *)
theory Replace_Safety
  imports Gateway_Replace Gateway_Claims
begin

text \<open>
  What the replacement guarantees: the new order is submitted only after the broker itself reported
  the old one cancelled, a replayed replacement reaches the broker with neither leg, a refused one
  gives its capital hold back, and a resumed one submits only from a confirmed zero-fill
  cancellation.
\<close>

lemma status_transition_keeps:
  assumes "apply_status_transition now t None r = (None, r')"
  shows "eo_status r' = t \<and> eo_recovery_state r' = eo_recovery_state r \<and> eo_filled_quantity r' = eo_filled_quantity r"
  using assms by (auto simp: transition_defs split: option.splits prod.splits if_splits)

lemma or_raise_keeps:
  assumes "transition_or_raise now t None r = Inr r'"
  shows "eo_status r' = t \<and> eo_recovery_state r' = eo_recovery_state r \<and> eo_filled_quantity r' = eo_filled_quantity r"
  using assms status_transition_keeps by (auto simp: transition_or_raise_def split: prod.splits option.splits)

lemma evidence_fields [simp]:
  "eo_status (with_cancel_evidence s t r) = eo_status r"
  "eo_recovery_state (with_cancel_evidence s t r) = eo_recovery_state r"
  "eo_broker_order_id (with_cancel_evidence s t r) = eo_broker_order_id r"
  "bs_filled_quantity s \<le> eo_filled_quantity (with_cancel_evidence s t r)"
  by (simp_all add: with_cancel_evidence_def Let_def)

lemma recovery_keeps:
  assumes "transition_recovery_state t r = Inr r'"
  shows "eo_status r' = eo_status r \<and> eo_filled_quantity r' = eo_filled_quantity r \<and> eo_recovery_state r' = t
    \<and> eo_broker_order_id r' = eo_broker_order_id r"
  using assms
  by (auto simp: transition_recovery_state_def Let_def guard_simps split: option.splits)

lemma tx_update_keeps:
  assumes "tx_update_order r db = Inr (r', db')"
  shows "eo_status r' = eo_status r \<and> eo_filled_quantity r' = eo_filled_quantity r
    \<and> eo_recovery_state r' = eo_recovery_state r \<and> eo_broker_order_id r' = eo_broker_order_id r"
  using assms by (auto simp: tx_iffs update_order_Inr_iff)

text \<open>An answer that decides is one of the terminal or fill statuses; one that does not leaves status and
  recovery alone.\<close>

lemma authoritative_snapshot:
  assumes "apply_authoritative_cancel_snapshot now s r db = Inr (decided, r', db')"
  shows "if decided then cancel_truth (bs_status s) = Some (eo_status r') \<and> bs_filled_quantity s \<le> eo_filled_quantity r'
    else eo_status r' = eo_status r \<and> eo_recovery_state r' = eo_recovery_state r
      \<and> eo_broker_order_id r' = eo_broker_order_id r"
proof (cases "cancel_truth (bs_status s)")
  case None
  with assms show ?thesis by (simp add: apply_authoritative_cancel_snapshot_def)
next
  case (Some target)
  let ?r1 = "with_cancel_evidence s target r"
  show ?thesis
  proof (cases "target \<noteq> eo_status r \<and> target \<notin> allowed_status_transitions (eo_status r)")
    case True
    with assms Some show ?thesis by (auto simp: apply_authoritative_cancel_snapshot_def Let_def)
  next
    case False
    obtain r2 r3 where s: "(if target \<noteq> eo_status r then transition_or_raise now target None ?r1 else Inr ?r1) = Inr r2"
        "(if eo_recovery_state r2 = DISCOVERING then transition_recovery_state ORS_NONE r2 else Inr r2) = Inr r3"
        "tx_update_order r3 db = Inr (r', db')" "decided"
      using assms Some False
      by (auto simp: apply_authoritative_cancel_snapshot_def Let_def bind_result_Inr_iff)
    have r2: "eo_status r2 = target" "eo_filled_quantity r2 = eo_filled_quantity ?r1"
      using s(1) or_raise_keeps by (auto split: if_splits)
    have r3: "eo_status r3 = target" "eo_filled_quantity r3 = eo_filled_quantity ?r1"
      using s(2) r2 recovery_keeps by (auto split: if_splits)
    with tx_update_keeps [OF s(3)] s(4) Some show ?thesis by simp
  qed
qed

definition told_cancelled :: "broker_snapshot list list \<Rightarrow> string \<Rightarrow> int \<Rightarrow> bool" where
  "told_cancelled answers broker_order_id filled_before \<longleftrightarrow>
     (\<exists>s \<in> set (concat answers). same_broker_order_id (bs_broker_order_id s) broker_order_id
        \<and> bs_status s = OS_CANCELLED \<and> bs_filled_quantity s \<le> filled_before)"

lemma wait_outcome:
  assumes "wait_for_cancel_terminal now answers r db = Inr (r', db')"
  shows "(\<exists>s \<in> set (concat answers). same_broker_order_id (bs_broker_order_id s) (eo_broker_order_id r)
      \<and> cancel_truth (bs_status s) = Some (eo_status r') \<and> bs_filled_quantity s \<le> eo_filled_quantity r')
    \<or> eo_status r' = eo_status r \<and> eo_recovery_state r' = eo_recovery_state r"
  using assms
proof (induction now answers r db rule: wait_for_cancel_terminal.induct)
  case (2 now answer answers r db)
  let ?find = "List.find (\<lambda>s. same_broker_order_id (bs_broker_order_id s) (eo_broker_order_id r)) answer"
  show ?case
  proof (cases ?find)
    case None
    with 2 show ?thesis by auto
  next
    case (Some s)
    then have s: "s \<in> set answer" "same_broker_order_id (bs_broker_order_id s) (eo_broker_order_id r)"
      by (auto simp: find_Some_iff)
    show ?thesis
    proof (cases "apply_authoritative_cancel_snapshot now s r db")
      case (Inl err)
      with 2(3) Some show ?thesis by simp
    next
      case (Inr x)
      then obtain decided r1 db1 where a: "apply_authoritative_cancel_snapshot now s r db = Inr (decided, r1, db1)"
        by (cases x) auto
      note f = authoritative_snapshot [OF a]
      show ?thesis
      proof (cases decided)
        case True
        with 2(3) Some a f s show ?thesis by auto
      next
        case False
        have "wait_for_cancel_terminal now answers r1 db1 = Inr (r', db')" using 2(3) Some a False by simp
        from 2(2) [OF Some a refl refl False this] f False show ?thesis by auto
      qed
    qed
  qed
qed simp

lemma cancel_truth_cancelled: "cancel_truth st = Some CANCELLED \<longleftrightarrow> st = OS_CANCELLED"
  by (cases st) simp_all

lemma confirmed_and_safe:
  assumes confirm: "confirm_cancel now answers cid db = Inr (cancelled, db')"
    and safe: "replacement_refused now filled_before hold revalidation_fails cancelled db'' = None"
  shows "\<not> revalidation_fails \<and> (\<exists>row. get_execution_order (gd_orders db) cid = Some row
    \<and> told_cancelled answers (eo_broker_order_id row) filled_before)"
proof -
  obtain gone where gone: "cancelled = Some gone" "eo_status gone = CANCELLED" "eo_recovery_state gone = ORS_NONE"
      "\<not> filled_before < eo_filled_quantity gone" "\<not> revalidation_fails"
    using safe by (auto simp: replacement_refused_def split: option.splits if_splits)
  obtain row old1 db1 where row: "get_execution_order (gd_orders db) cid = Some row"
      "(if eo_status row = CANCELLED \<and> eo_recovery_state row = ORS_NONE
        then bind_result (transition_recovery_state DISCOVERING row) (\<lambda>r. tx_update_order r db)
        else Inr (row, db)) = Inr (old1, db1)"
      "(if eo_status old1 \<in> {CANCEL_PENDING, CANCELLED} then wait_for_cancel_terminal now answers old1 db1
        else Inr (old1, db1)) = Inr (gone, db')"
    using confirm gone(1) by (auto simp: confirm_cancel_def bind_result_Inr_iff split: option.splits)
  have old1: "eo_status old1 = eo_status row" "eo_broker_order_id old1 = eo_broker_order_id row"
      "\<not> (eo_status old1 = CANCELLED \<and> eo_recovery_state old1 = ORS_NONE)"
    using row(2) recovery_keeps tx_update_keeps by (auto simp: bind_result_Inr_iff split: if_splits)
  with row(3) gone(2,3) have wait: "wait_for_cancel_terminal now answers old1 db1 = Inr (gone, db')"
    by (auto split: if_splits)
  from wait_outcome [OF this] old1 gone obtain s where "s \<in> set (concat answers)"
      "same_broker_order_id (bs_broker_order_id s) (eo_broker_order_id row)" "bs_status s = OS_CANCELLED"
      "bs_filled_quantity s \<le> eo_filled_quantity gone"
    by (auto simp: cancel_truth_cancelled)
  with gone(4,5) row(1) show ?thesis by (force simp: told_cancelled_def)
qed

lemma do_cancel_Inr_called:
  "do_cancel gw e clock ge ec permitted gb resp outcome other r old db = (Inr x, db', called) \<Longrightarrow> called"
  by (auto simp: do_cancel_def split: option.splits sum.splits prod.splits)

text \<open>
  (C7) A replacement submits the new order only after its cancellation was accepted by the
  broker and an inquiry, not the acknowledgement, then reported exactly the old order cancelled with
  no more fills than before the replacement was approved, and only if the second look at the market
  did not object.
\<close>

theorem replacement_after_confirmed_cancel:
  assumes "do_replace gw e now cl cancel_answer answers revalidation_fails sl new_id submit_answer other r old db
      = (result, db', asked, True)"
  shows "asked \<and> \<not> revalidation_fails
    \<and> (\<exists>give_back db1 cancelled db2 row.
         do_cancel gw (le_env cl) (le_clock cl) (le_gate_env cl) (le_end_clock cl) cancellable_for_replace give_back
           (le_response cl) cancel_answer (le_other cl) (cancel_request_post_init (replacement_cancel r)) old db1
           = (Inr cancelled, db2, True)
         \<and> get_execution_order (gd_orders (other 3 db2)) (rr_client_order_id r) = Some row
         \<and> told_cancelled answers (eo_broker_order_id row) (eo_filled_quantity old))"
proof -
  obtain limit_price spec hold db1 cancelled db2 gone db3 where
      s: "replace_checks gw e r old db = Inr (limit_price, spec)"
      "journal_replace gw e r old limit_price spec (other 1 db) = Inr (hold, db1)"
      "do_cancel gw (le_env cl) (le_clock cl) (le_gate_env cl) (le_end_clock cl) cancellable_for_replace (hold = None)
         (le_response cl) cancel_answer (le_other cl) (cancel_request_post_init (replacement_cancel r)) old (other 2 db1)
         = (Inr cancelled, db2, asked)"
      "confirm_cancel now answers (rr_client_order_id r) (other 3 db2) = Inr (gone, db3)"
      "replacement_refused now (eo_filled_quantity old) hold revalidation_fails gone (other 4 db3) = None"
    using assms unfolding do_replace_def Let_def
    by (auto split: sum.splits prod.splits option.splits if_splits)
  note asked = do_cancel_Inr_called [OF s(3)]
  from confirmed_and_safe [OF s(4,5)] obtain row where row: "\<not> revalidation_fails"
      "get_execution_order (gd_orders (other 3 db2)) (rr_client_order_id r) = Some row"
      "told_cancelled answers (eo_broker_order_id row) (eo_filled_quantity old)"
    by blast
  show ?thesis
    by (intro conjI exI) (use asked row s(3) in simp_all)
qed

text \<open>Resuming never cancels, and submits only for an old order that is confirmed cancelled without a
  fill, under a parent command that is still open, when no order of the new identity exists.\<close>

lemma resume_submits_after_zero_fill_cancel:
  assumes "do_resume_replace gw now revalidation_fails sl new_id submit_answer other r old db = (result, db', True)"
  shows "eo_status old = CANCELLED \<and> eo_filled_quantity old = 0 \<and> eo_recovery_state old = ORS_NONE
    \<and> \<not> revalidation_fails \<and> rr_new_quantity r = eo_submitted_quantity old
    \<and> get_execution_order (gd_orders db) (rr_new_client_order_id r) = None
    \<and> (\<exists>parent. get_command (gd_commands db) (replace_key (rr_replace_command_id r)) = Some parent
         \<and> ec_status parent = CS_REQUESTED)
    \<and> (\<exists>v. fetch_reservation (gd_reservations db) (eo_capital_reservation_id old) = Some v \<and> reservation_is_open v)"
proof -
  obtain parent where c: "resume_checks r old db = Inr parent"
    using assms by (auto simp: do_resume_replace_def Let_def split: sum.splits)
  from c have parent: "get_command (gd_commands db) (replace_key (rr_replace_command_id r)) = Some parent"
      "ec_status parent \<in> {CS_REQUESTED, CS_COMPLETED}"
    by (auto simp: resume_checks_def guard_simps split: option.splits if_splits)
  from c have old: "eo_status old = CANCELLED" "eo_filled_quantity old = 0" "eo_recovery_state old = ORS_NONE"
      "rr_new_quantity r = eo_submitted_quantity old"
    by (auto simp: resume_checks_def guard_simps split: if_splits)
  from assms c have "get_execution_order (gd_orders db) (rr_new_client_order_id r) = None" "ec_status parent \<noteq> CS_COMPLETED"
      "\<not> revalidation_fails"
      "\<exists>v. fetch_reservation (gd_reservations db) (eo_capital_reservation_id old) = Some v \<and> reservation_is_open v"
    by (auto simp: do_resume_replace_def Let_def split: option.splits sum.splits if_splits prod.splits)
  with parent old show ?thesis by blast
qed

end
