(* ===== verification/Replace_Runs.thy ===== *)
theory Replace_Runs
  imports Gateway_Replace Gateway_Runs
begin

text \<open>
  The replacement as a run of the gateway's transition system: its own transactions are changes the
  system allows to everybody, its two legs are calls of the system. What is proved of every reachable
  state holds of it, the single broker call per command key first.
\<close>

lemma commands_evolve_refl [simp]: "commands_evolve t t"
  by (auto simp: commands_evolve_def split: option.splits)

lemma rows_kept_trans: "rows_kept a b \<Longrightarrow> rows_kept b c \<Longrightarrow> rows_kept a c"
  by (simp add: rows_kept_def)

lemma commands_evolve_trans:
  assumes "commands_evolve a b" "commands_evolve b c"
  shows "commands_evolve a c"
  unfolding commands_evolve_def
proof
  fix k
  from assms [unfolded commands_evolve_def, rule_format, of k]
  show "case cm_rows a k of None \<Rightarrow> (\<forall>x. cm_rows c k = Some x \<longrightarrow> ec_status x \<noteq> CS_PRE_BROKER_ABORTED)
      | Some x \<Rightarrow> (\<exists>y. cm_rows c k = Some y \<and> (y = x \<or> ec_status y \<noteq> CS_PRE_BROKER_ABORTED))"
    by (cases "cm_rows a k"; cases "cm_rows b k") auto
qed

lemma db_evolves_refl [simp]: "db_evolves db db"
  by (simp add: db_evolves_def)

lemma db_evolves_trans: "db_evolves a b \<Longrightarrow> db_evolves b c \<Longrightarrow> db_evolves a c"
  unfolding db_evolves_def using commands_evolve_trans rows_kept_trans by blast

lemma db_evolves_reservations [simp]: "db_evolves db (db\<lparr>gd_reservations := t\<rparr>)"
  by (simp add: db_evolves_def)

lemma tx_update_order_evolves: "tx_update_order r db = Inr (r', db') \<Longrightarrow> db_evolves db db'"
  using update_order_keeps by (fastforce simp: tx_iffs db_evolves_def)

lemma tx_update_reservation_evolves: "tx_update_reservation v n db = Inr db' \<Longrightarrow> db_evolves db db'"
  by (auto simp: tx_iffs)

lemma tx_insert_command_evolves:
  "tx_insert_command c db = Inr db' \<Longrightarrow> ec_status c \<noteq> CS_PRE_BROKER_ABORTED \<Longrightarrow> db_evolves db db'"
  by (auto simp: tx_iffs insert_command_Inr_iff db_evolves_def commands_evolve_def split: option.splits if_splits)

lemma update_response_evolves:
  "update_command_response redact key st response v (gd_commands db) = Inr (c, t) \<Longrightarrow> st \<noteq> CS_PRE_BROKER_ABORTED
     \<Longrightarrow> db_evolves db (db\<lparr>gd_commands := t\<rparr>)"
  by (auto simp: update_command_Inr_iff db_evolves_def commands_evolve_def split: option.splits if_splits)

subsection \<open>The replacement's own transactions\<close>

lemma journal_replace_evolves:
  assumes "journal_replace gw e r old limit_price spec db = Inr (hold, db')"
  shows "db_evolves db db'"
proof -
  obtain c db1 where c: "new_command gw (ge_now e) (replace_key (rr_replace_command_id r)) CT_REPLACE (eo_environment old)
         (eo_account_no old) (eo_symbol old) (rr_lease r) (eo_broker_order_id old) (source_value (rr_source r)) = Inr c"
      "db_evolves db db1" "tx_insert_command c db1 = Inr db'"
  proof (cases spec)
    case None
    with assms that [of _ db] show ?thesis by (auto simp: journal_replace_def guard_simps)
  next
    case (Some sp)
    with assms that [of _ "db\<lparr>gd_reservations := t\<rparr>" for t] show ?thesis
      by (auto simp: journal_replace_def guard_simps split: prod.splits sum.splits)
  qed
  have "ec_status c \<noteq> CS_PRE_BROKER_ABORTED" using command_row_key [OF c(1)] by simp
  from c(2) tx_insert_command_evolves [OF c(3) this] show ?thesis by (rule db_evolves_trans)
qed

lemma release_hold_evolves: "release_hold now rid db = Inr db' \<Longrightarrow> db_evolves db db'"
  using tx_update_reservation_evolves by (auto simp: release_hold_def split: option.splits if_splits)

lemma release_and_raise_evolves: "release_and_raise now hold err db = (err', db') \<Longrightarrow> db_evolves db db'"
  using release_hold_evolves by (auto simp: release_and_raise_def split: option.splits sum.splits)

lemma restore_hold_evolves: "restore_hold hold err db = (err', db') \<Longrightarrow> db_evolves db db'"
  by (auto simp: restore_hold_def split: option.splits sum.splits)

lemma snapshot_evolves:
  "apply_authoritative_cancel_snapshot now s r db = Inr (decided, r', db') \<Longrightarrow> db_evolves db db'"
  using tx_update_order_evolves
  by (auto simp: apply_authoritative_cancel_snapshot_def Let_def bind_result_Inr_iff
      split: option.splits if_splits)

lemma wait_evolves: "wait_for_cancel_terminal now answers r db = Inr (r', db') \<Longrightarrow> db_evolves db db'"
proof (induction now answers r db rule: wait_for_cancel_terminal.induct)
  case (2 now answer answers r db)
  let ?find = "List.find (\<lambda>s. same_broker_order_id (bs_broker_order_id s) (eo_broker_order_id r)) answer"
  show ?case
  proof (cases ?find)
    case None
    with 2 show ?thesis by simp
  next
    case (Some s)
    show ?thesis
    proof (cases "apply_authoritative_cancel_snapshot now s r db")
      case (Inl err)
      with 2(3) Some show ?thesis by simp
    next
      case (Inr x)
      then obtain decided r1 db1 where a: "apply_authoritative_cancel_snapshot now s r db = Inr (decided, r1, db1)"
        by (cases x) auto
      note e = snapshot_evolves [OF a]
      show ?thesis
      proof (cases decided)
        case True
        with 2(3) Some a e show ?thesis by simp
      next
        case False
        with 2(3) Some a have "wait_for_cancel_terminal now answers r1 db1 = Inr (r', db')" by simp
        from 2(2) [OF Some a refl refl False this] e show ?thesis by (blast intro: db_evolves_trans)
      qed
    qed
  qed
qed simp

lemma confirm_cancel_evolves:
  assumes "confirm_cancel now answers cid db = Inr (cancelled, db')"
  shows "db_evolves db db'"
proof (cases "get_execution_order (gd_orders db) cid")
  case None
  with assms show ?thesis by (simp add: confirm_cancel_def)
next
  case (Some row)
  then obtain old1 db1 old2 where s:
      "(if eo_status row = CANCELLED \<and> eo_recovery_state row = ORS_NONE
        then bind_result (transition_recovery_state DISCOVERING row) (\<lambda>r. tx_update_order r db)
        else Inr (row, db)) = Inr (old1, db1)"
      "(if eo_status old1 \<in> {CANCEL_PENDING, CANCELLED} then wait_for_cancel_terminal now answers old1 db1
        else Inr (old1, db1)) = Inr (old2, db')"
    using assms by (auto simp: confirm_cancel_def bind_result_Inr_iff)
  have "db_evolves db db1" using s(1) tx_update_order_evolves by (auto simp: bind_result_Inr_iff split: if_splits)
  moreover have "db_evolves db1 db'" using s(2) wait_evolves by (auto split: if_splits)
  ultimately show ?thesis by (rule db_evolves_trans)
qed

lemma replacement_refused_evolves:
  "replacement_refused now filled_before hold fails cancelled db = Some (err, db') \<Longrightarrow> db_evolves db db'"
  using release_and_raise_evolves tx_update_reservation_evolves
  by (auto simp: replacement_refused_def split: option.splits if_splits sum.splits prod.splits)

lemma finish_replacement_evolves:
  assumes "finish_replacement gw now key response pv finalize new_id hold (leg, db) = (result, db')"
  shows "db_evolves db db'"
proof (cases leg)
  case (Inl err)
  obtain err' db2 where r: "release_and_raise now hold err db = (err', db2)" by (meson surj_pair)
  with Inl assms release_and_raise_evolves [OF r] show ?thesis
    by (auto simp: finish_replacement_def split: if_splits)
next
  case (Inr order)
  with assms update_response_evolves show ?thesis
    by (fastforce simp: finish_replacement_def split: if_splits sum.splits)
qed

subsection \<open>The composition\<close>

lemma reaches_evolve: "reaches gw s db keys s' \<Longrightarrow> db_evolves db d \<Longrightarrow> reaches gw s d keys (s'\<lparr>gs_db := d\<rparr>)"
  using reaches_trans [of gw s db keys s' d "[]"] reaches_others [of s' d gw] by (simp add: reaches_def)

lemma stripped_front:
  assumes "py_strip s = s"
  shows "dropWhile py_space s = s"
proof (rule ccontr)
  assume "dropWhile py_space s \<noteq> s"
  then have "length (dropWhile py_space s) < length s"
    by (cases s) (auto simp: le_imp_less_Suc length_dropWhile_le split: if_splits)
  moreover have "length (py_strip s) \<le> length (dropWhile py_space s)"
    by (metis length_dropWhile_le length_rev py_strip_def)
  ultimately show False using assms by simp
qed

lemma py_strip_suffixed:
  assumes "py_strip s = s" "\<not> py_space (hd p)" "\<not> py_space (last p)" "p \<noteq> []"
  shows "py_strip (s @ p) = s @ p"
proof -
  have "s \<noteq> [] \<Longrightarrow> \<not> py_space (hd s)"
    using hd_dropWhile [of py_space s] stripped_front [OF assms(1)] by simp
  then have "dropWhile py_space (s @ p) = s @ p"
    using assms(2,4) by (cases s; cases p) auto
  moreover have "dropWhile py_space (rev (s @ p)) = rev (s @ p)"
    using assms(3,4) by (cases p rule: rev_cases) auto
  ultimately show ?thesis by (simp only: py_strip_def rev_rev_ident)
qed

definition cancel_leg_key :: "replace_request \<Rightarrow> string" where
  "cancel_leg_key r = cancel_key (rr_replace_command_id r @ '':CANCEL'')"

lemma leg_keys:
  "xr_cancel_command_id (cancel_request_post_init (replacement_cancel (replace_request_post_init r)))
     = rr_replace_command_id (replace_request_post_init r) @ '':CANCEL''"
  "sr_client_order_id (submit_request_post_init (replacement_submit (replace_request_post_init r) old n lp h v))
     = rr_new_client_order_id (replace_request_post_init r)"
  by (simp_all add: cancel_request_post_init_def replacement_cancel_def replace_request_post_init_def
      submit_request_post_init_def replacement_submit_def py_strip_suffixed py_space_def)


end
