(* ===== verification/Scheduler_Safety.thy ===== *)
theory Scheduler_Safety
  imports Request_Scheduler
begin

text \<open>
  What the scheduler guarantees: which mutations it repeats, how far apart requests start, how
  much of a budget is paid between two fills, and that a free turn always goes to somebody.
\<close>

subsection \<open>Repetition\<close>

definition dispatched :: "scheduler_action list \<Rightarrow> nat list" where
  "dispatched acts = List.map_filter (\<lambda>a. case a of Dispatch n t \<Rightarrow> Some n | Pause d \<Rightarrow> None) acts"

lemma dispatched_simps [simp]:
  "dispatched [] = []" "dispatched (Dispatch n t # as) = n # dispatched as" "dispatched (Pause d # as) = dispatched as"
  "dispatched (as @ bs) = dispatched as @ dispatched bs"
  by (simp_all add: dispatched_def map_filter_def)

definition confirmed :: "(request_exception \<Rightarrow> bool) \<Rightarrow> (nat \<Rightarrow> attempt_env) \<Rightarrow> nat \<Rightarrow> bool" where
  "confirmed classify env n \<longleftrightarrow> (\<exists>x. ae_outcome (env n) = Some x \<and> classify x)"

lemma mutation_attempt_cases:
  assumes "mutation_attempt cfg ac ep ne n e s = (r, s', acts)"
  shows "(acts = [] \<and> (\<exists>err. r = Some (BudgetRefused err))) \<or> (dispatched acts = [n] \<and> r = ae_outcome e)"
  using assms by (auto simp: mutation_attempt_def split: prod.splits option.splits)

definition repeats_ok :: "(request_exception \<Rightarrow> bool) \<Rightarrow> (nat \<Rightarrow> attempt_env) \<Rightarrow> request_exception option \<Rightarrow> nat list \<Rightarrow> bool" where
  "repeats_ok classify env r ns \<longleftrightarrow> sorted_wrt (<) ns \<and> (\<forall>n \<in> set (butlast ns). confirmed classify env n)
     \<and> (r = None \<longrightarrow> ns \<noteq> [] \<and> ae_outcome (env (last ns)) = None)"

lemma repeats_ok_Cons:
  assumes "repeats_ok classify env r ns" "\<forall>m \<in> set ns. n < m" "confirmed classify env n"
  shows "repeats_ok classify env r (n # ns)"
  using assms by (auto simp: repeats_ok_def)

lemma repeats_ok_single: "r = ae_outcome (env n) \<Longrightarrow> repeats_ok classify env r [n]"
  by (simp add: repeats_ok_def)

lemma execute_mutation_repeats:
  assumes "execute_mutation cfg ac ep ne classify env other n s = (r, s', acts)"
  shows "repeats_ok classify env r (dispatched acts)
    \<and> set (dispatched acts) \<subseteq> {n..max n (nat (sc_max_mutation_attempts cfg))}"
  using assms
proof (induction cfg ac ep ne classify env other n s arbitrary: r s' acts rule: execute_mutation.induct)
  case (1 cfg ac ep ne classify env other n s)
  obtain r1 s1 a1 where t: "mutation_attempt cfg ac ep ne n (env n) (other n s) = (r1, s1, a1)"
    by (metis prod_cases3)
  note c = mutation_attempt_cases [OF t]
  show ?case
  proof (cases r1)
    case None
    with 1(2) t have "acts = a1" "r = None" by (auto simp: execute_mutation.simps [of cfg ac ep ne classify env other n s])
    with c None repeats_ok_single [of r env n classify] show ?thesis by auto
  next
    case (Some x)
    let ?s2 = "defer_for_exception (ae_after (env n)) x s1"
    let ?s3 = "?s2\<lparr>ss_metrics := (ss_metrics ?s2)\<lparr>sm_confirmed_retries := sm_confirmed_retries (ss_metrics ?s2) + 1\<rparr>\<rparr>"
    show ?thesis
    proof (cases "classify x \<and> int n < sc_max_mutation_attempts cfg")
      case False
      with 1(2) t Some have "acts = a1 \<and> r = Some x"
        by (auto simp: execute_mutation.simps [of cfg ac ep ne classify env other n s] Let_def split: if_splits)
      with c Some repeats_ok_single [of r env n classify] show ?thesis
        by (auto simp: repeats_ok_def)
    next
      case True
      obtain r4 s4 a4 where e: "execute_mutation cfg ac ep ne classify env other (n + 1) ?s3 = (r4, s4, a4)"
        by (metis prod_cases3)
      have ih: "repeats_ok classify env r4 (dispatched a4)"
          "set (dispatched a4) \<subseteq> {n + 1..max (n + 1) (nat (sc_max_mutation_attempts cfg))}"
        using 1(1) [OF t [symmetric] Some refl refl _ _ e] True by auto
      have "acts = a1 @ [Pause (fmax (retry_after x) (retry_delay cfg n))] @ a4" "r = r4"
        using 1(2) t Some True e
        by (auto simp: execute_mutation.simps [of cfg ac ep ne classify env other n s] Let_def)
      then have d: "dispatched acts = dispatched a1 @ dispatched a4" and r: "r = r4" by simp_all
      have range: "set (dispatched a4) \<subseteq> {n..max n (nat (sc_max_mutation_attempts cfg))}" "\<forall>m \<in> set (dispatched a4). n < m"
        using ih(2) True by auto
      from c show ?thesis
      proof
        assume "a1 = [] \<and> (\<exists>err. r1 = Some (BudgetRefused err))"
        with d r ih range show ?thesis by simp
      next
        assume a: "dispatched a1 = [n] \<and> r1 = ae_outcome (env n)"
        then have "confirmed classify env n" using Some True by (metis confirmed_def)
        from repeats_ok_Cons [OF ih(1) range(2) this] a d r range show ?thesis by simp
      qed
    qed
  qed
qed

text \<open>
  (C22) The scheduler repeats a mutation only after refusals the classifier confirmed, and never
  more often than configured: every call of the operation but the last one ended in an exception
  that is confirmed not to have been accepted, and success is the end of the last call.
\<close>

theorem mutation_repeated_after_refusal_only:
  assumes "execute_mutation cfg ac ep ne classify env other 1 s = (r, s', acts)" "1 \<le> sc_max_mutation_attempts cfg"
  shows "int (length (dispatched acts)) \<le> sc_max_mutation_attempts cfg
    \<and> (\<forall>n \<in> set (butlast (dispatched acts)). \<exists>x. ae_outcome (env n) = Some x \<and> classify x)
    \<and> (r = None \<longrightarrow> dispatched acts \<noteq> [] \<and> ae_outcome (env (last (dispatched acts))) = None)"
proof -
  note e = execute_mutation_repeats [OF assms(1)]
  then have "distinct (dispatched acts)" by (auto simp: repeats_ok_def strict_sorted_iff)
  then have "length (dispatched acts) = card (set (dispatched acts))" by (simp add: distinct_card)
  also have "\<dots> \<le> card {1..max 1 (nat (sc_max_mutation_attempts cfg))}"
    using e by (intro card_mono) auto
  finally show ?thesis using e assms(2) by (auto simp: repeats_ok_def confirmed_def)
qed

definition sample_scheduler :: "scheduler_config \<times> scheduler_state" where
  "sample_scheduler = make_scheduler \<lparr>bp_capacity = 20, bp_window = Fin 1\<rparr> \<lparr>bp_capacity = 5, bp_window = Fin 1\<rparr>
     2 3 2 (Fin 0) (Fin 0) (Fin 0)"

definition refused_once :: "nat \<Rightarrow> attempt_env" where
  "refused_once n = \<lparr>ae_now = Fin 0, ae_spacing_now = Fin 0, ae_observed = Fin 0, ae_after = Fin 0,
     ae_outcome = (if n = 1 then Some (OperationRaised (Fin 0) ''refused'') else None)\<rparr>"

theorem mutation_repeated_after_refusal_only_witness:
  "case execute_mutation (fst sample_scheduler) ''1'' ''submit'' False (\<lambda>x. True) refused_once (\<lambda>_ s. s) 1
       (snd sample_scheduler) of
     (r, s', acts) \<Rightarrow> r = None \<and> dispatched acts = [1, 2]
       \<and> (\<forall>n \<in> set (butlast (dispatched acts)). ae_outcome (refused_once n) \<noteq> None)"
proof -
  let ?run = "execute_mutation (fst sample_scheduler) ''1'' ''submit'' False (\<lambda>x. True) refused_once (\<lambda>_ s. s) 1
       (snd sample_scheduler)"
  obtain r s' acts where run: "?run = (r, s', acts)" by (metis prod_cases3)
  have two: "1 \<le> sc_max_mutation_attempts (fst sample_scheduler)" by (simp add: sample_scheduler_def make_scheduler_def)
  have key: "bucket_key_of RK_MUTATION ''1'' ''submit'' = (RK_MUTATION, ''1'', ''submit'')" by code_simp
  have "\<exists>s1 t. mutation_attempt (fst sample_scheduler) ''1'' ''submit'' False 1 (refused_once 1) (snd sample_scheduler)
      = (Some (OperationRaised (Fin 0) ''refused''), s1, [Dispatch 1 t])
      \<and> ss_buckets s1 (RK_MUTATION, ''1'', ''submit'') = Some \<lparr>bb_capacity = 5, bb_remaining = 1, bb_reset_at = Fin 1,
           bb_window = Fin 1, bb_knowledge = BUDGET_UNCERTAIN\<rparr>"
    by (simp add: mutation_attempt_def require_available_def key current_bucket_def sample_scheduler_def
        make_scheduler_def put_bucket_def refused_once_def wait_for_request_spacing_def Let_def)
  then obtain s1 t where one: "mutation_attempt (fst sample_scheduler) ''1'' ''submit'' False 1 (refused_once 1)
      (snd sample_scheduler) = (Some (OperationRaised (Fin 0) ''refused''), s1, [Dispatch 1 t])"
    and b: "ss_buckets s1 (RK_MUTATION, ''1'', ''submit'') = Some \<lparr>bb_capacity = 5, bb_remaining = 1,
      bb_reset_at = Fin 1, bb_window = Fin 1, bb_knowledge = BUDGET_UNCERTAIN\<rparr>" by blast
  have two_done: "\<exists>s2 t. mutation_attempt (fst sample_scheduler) ''1'' ''submit'' False 2 (refused_once 2) s
      = (None, s2, [Dispatch 2 t])" if "ss_buckets s = ss_buckets s1" for s
    using b that
    by (simp add: mutation_attempt_def require_available_def key current_bucket_def put_bucket_def refused_once_def
        wait_for_request_spacing_def Let_def)
  let ?s = "s1\<lparr>ss_metrics := (ss_metrics s1)\<lparr>sm_confirmed_retries := sm_confirmed_retries (ss_metrics s1) + 1\<rparr>\<rparr>"
  obtain s2 u where "mutation_attempt (fst sample_scheduler) ''1'' ''submit'' False 2 (refused_once 2) ?s
      = (None, s2, [Dispatch 2 u])" using two_done [of ?s] by auto
  note second = execute_mutation.simps [of "fst sample_scheduler" "''1''" "''submit''" False "\<lambda>x. True" refused_once
      "\<lambda>_ s. s" 2 ?s, unfolded this]
  have most: "sc_max_mutation_attempts (fst sample_scheduler) = 2"
    by (simp add: sample_scheduler_def make_scheduler_def)
  have undeferred: "defer_for_exception v (OperationRaised (Fin 0) x) s = s" for v x s
    by (simp add: defer_for_exception_def fmax_def)
  have "r = None \<and> dispatched acts = [1, 2]"
    using run second most undeferred one
    unfolding execute_mutation.simps [of "fst sample_scheduler" "''1''" "''submit''" False "\<lambda>x. True" refused_once
      "\<lambda>_ s. s" 1 "snd sample_scheduler"]
    by (auto simp: Let_def numeral_2_eq_2)
  with mutation_repeated_after_refusal_only [OF run two] run show ?thesis by auto
qed

subsection \<open>Runs of the scheduler\<close>

text \<open>What a run shows: the fills of the buckets, the payments from them and the starts of requests.\<close>

datatype scheduler_event =
    Filled bucket_key
  | Paid bucket_key bool budget_knowledge \<comment> \<open>for a new entry?\<close>
  | Started request_kind pyfloat

definition fill_events :: "pyfloat \<Rightarrow> bucket_key \<Rightarrow> scheduler_state \<Rightarrow> scheduler_event list" where
  "fill_events now k s =
     (case ss_buckets s k of None \<Rightarrow> [Filled k] | Some b \<Rightarrow> if fle (bb_reset_at b) now then [Filled k] else [])"

inductive scheduler_step ::
    "scheduler_config \<Rightarrow> scheduler_state \<times> scheduler_event list \<Rightarrow> scheduler_state \<times> scheduler_event list \<Rightarrow> bool"
  for cfg where
  pay: "require_available cfg now ac ep ne True s = (None, s') \<Longrightarrow> k = bucket_key_of RK_MUTATION ac ep
    \<Longrightarrow> scheduler_step cfg (s, tr) (s', tr @ fill_events now k s @ [Paid k ne (bb_knowledge (current_bucket cfg now k s))])"
| look: "require_available cfg now ac ep ne c s = (err, s') \<Longrightarrow> err \<noteq> None \<or> \<not> c \<Longrightarrow> k = bucket_key_of RK_MUTATION ac ep
    \<Longrightarrow> scheduler_step cfg (s, tr) (s', tr @ fill_events now k s)"
| pay_read: "k = bucket_key_of RK_READ ac ep \<Longrightarrow> b = current_bucket cfg now k s \<Longrightarrow> 0 < bb_remaining b
    \<Longrightarrow> scheduler_step cfg (s, tr) (put_bucket k (b\<lparr>bb_remaining := bb_remaining b - 1\<rparr>) s,
          tr @ fill_events now k s @ [Paid k False (bb_knowledge b)])"
| look_read: "k = bucket_key_of RK_READ ac ep
    \<Longrightarrow> scheduler_step cfg (s, tr) (put_bucket k (current_bucket cfg now k s) s, tr @ fill_events now k s)"
| start: "observed \<noteq> NaN \<Longrightarrow> wait_for_request_spacing cfg now observed kind s = (delay, s')
    \<Longrightarrow> scheduler_step cfg (s, tr) (s', tr @ [Started kind (the (ss_last_request s'))])"
| pause_all: "scheduler_step cfg (s, tr) (defer_requests now seconds s, tr)"
| synchronize: "scheduler_step cfg (s, tr)
    (synchronize_budget cfg now kind ac ep remaining after s, tr @ [Filled (bucket_key_of kind ac ep)])"
| configure: "configure_verified_mutation_budget now ac ep capacity window s = Inr s' \<Longrightarrow> k = bucket_key_of RK_MUTATION ac ep
    \<Longrightarrow> scheduler_step cfg (s, tr) (s', tr @ (if ss_buckets s k = None then [Filled k] else []))"
| distrust: "k = bucket_key_of kind ac ep
    \<Longrightarrow> scheduler_step cfg (s, tr) (mark_budget_uncertain cfg now kind ac ep s, tr @ fill_events now k s)"
| count: "scheduler_step cfg (s, tr) (s\<lparr>ss_metrics := m\<rparr>, tr)"

text \<open>One attempt of a mutation is such a run.\<close>

lemma mutation_attempt_run:
  assumes "mutation_attempt cfg ac ep ne n e s = (r, s', acts)" "ae_observed e \<noteq> NaN"
  shows "\<exists>tr'. (scheduler_step cfg)\<^sup>*\<^sup>* (s, tr) (s', tr')"
proof (cases "require_available cfg (ae_now e) ac ep ne True s")
  case (Pair err s1)
  show ?thesis
  proof (cases err)
    case (Some x)
    with Pair assms(1) look [of cfg "ae_now e" ac ep ne True s err s1 _ tr] show ?thesis
      by (auto simp: mutation_attempt_def)
  next
    case None
    obtain delay s2 where w: "wait_for_request_spacing cfg (ae_spacing_now e) (ae_observed e) RK_MUTATION s1 = (delay, s2)"
      by (meson surj_pair)
    from None Pair assms(1) w have "s' = s2" by (simp add: mutation_attempt_def)
    with pay [of cfg "ae_now e" ac ep ne s s1 _ tr] start [OF assms(2) w] None Pair show ?thesis
      by (meson converse_rtranclp_into_rtranclp r_into_rtranclp)
  qed
qed

subsection \<open>Budgets\<close>

text \<open>Payments since the last fill of a bucket.\<close>

fun paid_since :: "bucket_key \<Rightarrow> scheduler_event list \<Rightarrow> nat" where
  "paid_since k [] = 0"
| "paid_since k (Filled j # tr) = (if j = k then 0 else paid_since k tr)"
| "paid_since k (Paid j ne b # tr) = (if j = k then 1 else 0) + paid_since k tr"
| "paid_since k (Started kind t # tr) = paid_since k tr"

definition paid :: "bucket_key \<Rightarrow> scheduler_event list \<Rightarrow> nat" where
  "paid k tr = paid_since k (rev tr)"

lemma paid_append [simp]:
  "paid k [] = 0" "paid k (tr @ [Filled j]) = (if j = k then 0 else paid k tr)"
  "paid k (tr @ [Paid j ne b]) = (if j = k then 1 else 0) + paid k tr"
  "paid k (tr @ [Started kind t]) = paid k tr"
  by (simp_all add: paid_def)

lemma paid_fill [simp]:
  "paid j (tr @ fill_events now k s @ [Paid i ne b]) = (if i = j then 1 else 0) + paid j (tr @ fill_events now k s)"
  using paid_append(3) [of j "tr @ fill_events now k s" i ne b] by simp

definition capacity_bound :: "scheduler_config \<Rightarrow> bool" where
  "capacity_bound cfg \<longleftrightarrow> 0 < bp_capacity (sc_read_policy cfg) \<and> 0 < bp_capacity (sc_mutation_policy cfg)
     \<and> 0 \<le> sc_reserve cfg"

definition bucket_inv :: "scheduler_state \<Rightarrow> scheduler_event list \<Rightarrow> bool" where
  "bucket_inv s tr \<longleftrightarrow> (\<forall>k. case ss_buckets s k of
      None \<Rightarrow> paid k tr = 0
    | Some b \<Rightarrow> 0 \<le> bb_remaining b \<and> bb_remaining b + int (paid k tr) \<le> bb_capacity b)"

lemma bucket_invI:
  assumes "\<And>k. ss_buckets s k = None \<Longrightarrow> paid k tr = 0"
    "\<And>k b. ss_buckets s k = Some b \<Longrightarrow> 0 \<le> bb_remaining b \<and> bb_remaining b + int (paid k tr) \<le> bb_capacity b"
  shows "bucket_inv s tr"
  unfolding bucket_inv_def using assms by (auto simp del: split_paired_All split: option.split)

lemma bucket_invD:
  assumes "bucket_inv s tr"
  shows "ss_buckets s k = None \<Longrightarrow> paid k tr = 0"
    "ss_buckets s k = Some b \<Longrightarrow> 0 \<le> bb_remaining b \<and> bb_remaining b + int (paid k tr) \<le> bb_capacity b"
  using assms [unfolded bucket_inv_def, rule_format, of k] by auto

lemma fill_bucket_inv:
  fixes now :: pyfloat and k :: bucket_key
  assumes cfg: "capacity_bound cfg" and inv: "bucket_inv s tr"
  defines "b \<equiv> current_bucket cfg now k s"
  shows "bucket_inv (put_bucket k b s) (tr @ fill_events now k s) \<and> 0 \<le> bb_remaining b
    \<and> bb_remaining b + int (paid k (tr @ fill_events now k s)) \<le> bb_capacity b"
proof -
  have own: "0 \<le> bb_remaining b \<and> bb_remaining b + int (paid k (tr @ fill_events now k s)) \<le> bb_capacity b"
  proof (cases "ss_buckets s k")
    case None
    with cfg show ?thesis
      by (cases "fst k") (auto simp: b_def current_bucket_def fill_events_def capacity_bound_def Let_def)
  next
    case (Some c)
    then have c: "0 \<le> bb_remaining c" "bb_remaining c + int (paid k tr) \<le> bb_capacity c"
      using bucket_invD(2) [OF inv Some] by auto
    with Some cfg show ?thesis
      by (auto simp: b_def current_bucket_def fill_events_def refill_def capacity_bound_def)
  qed
  moreover have "paid j (tr @ fill_events now k s) = paid j tr" if "j \<noteq> k" for j
    using that by (auto simp: fill_events_def split: option.splits)
  ultimately show ?thesis
    using bucket_invD [OF inv]
    by (intro conjI bucket_invI) (auto simp: put_bucket_def b_def simp flip: b_def split: if_splits)
qed

lemma bucket_inv_put:
  assumes "bucket_inv (put_bucket k b s) tr" "0 \<le> bb_remaining b'" "bb_remaining b' + int (paid k tr') \<le> bb_capacity b'"
    and "\<And>j. j \<noteq> k \<Longrightarrow> paid j tr' = paid j tr"
  shows "bucket_inv (put_bucket k b' s) tr'"
proof (rule bucket_invI)
  fix j
  show "paid j tr' = 0" if "ss_buckets (put_bucket k b' s) j = None"
    using that bucket_invD(1) [OF assms(1), of j] assms(4) by (auto simp: put_bucket_def split: if_splits)
  show "0 \<le> bb_remaining c \<and> bb_remaining c + int (paid j tr') \<le> bb_capacity c"
    if "ss_buckets (put_bucket k b' s) j = Some c" for c
    using that bucket_invD(2) [OF assms(1), of j c] assms(2-4) by (auto simp: put_bucket_def split: if_splits)
qed

lemma bucket_inv_same: "bucket_inv s tr \<Longrightarrow> ss_buckets s' = ss_buckets s \<Longrightarrow> bucket_inv s' tr"
  by (simp add: bucket_inv_def)

lemma bucket_inv_started: "bucket_inv s tr \<Longrightarrow> ss_buckets s' = ss_buckets s \<Longrightarrow> bucket_inv s' (tr @ [Started kind t])"
  by (rule bucket_invI) (auto dest: bucket_invD)

lemma put_bucket_twice [simp]: "put_bucket k b (put_bucket k b' s) = put_bucket k b s"
  by (simp add: put_bucket_def)

lemma count_rejection_buckets [simp]: "ss_buckets (count_rejection u s) = ss_buckets s"
  by (simp add: count_rejection_def)

lemma defer_buckets [simp]: "ss_buckets (defer_requests now v s) = ss_buckets s"
  by (simp add: defer_requests_def Let_def)

lemma require_available_cases:
  assumes "require_available cfg now ac ep ne c s = (err, s')" "k = bucket_key_of RK_MUTATION ac ep"
  defines "b \<equiv> current_bucket cfg now k s"
  shows "if err = None \<and> c
    then 0 < bb_remaining b \<and> (ne \<longrightarrow> bb_knowledge b = BUDGET_KNOWN)
      \<and> s' = put_bucket k (b\<lparr>bb_remaining := bb_remaining b - 1\<rparr>) s
    else ss_buckets s' = ss_buckets (put_bucket k b s)"
  using assms(1,2) unfolding b_def
  by (auto simp: require_available_def Let_def split: if_splits)

lemma wait_buckets: "wait_for_request_spacing cfg now observed kind s = (delay, s') \<Longrightarrow> ss_buckets s' = ss_buckets s"
  by (auto simp: wait_for_request_spacing_def Let_def)

lemma bucket_inv_pay:
  fixes now :: pyfloat and k :: bucket_key
  assumes cfg: "capacity_bound cfg" and inv: "bucket_inv s tr" and "0 < bb_remaining (current_bucket cfg now k s)"
  shows "bucket_inv (put_bucket k ((current_bucket cfg now k s)
      \<lparr>bb_remaining := bb_remaining (current_bucket cfg now k s) - 1\<rparr>) s) (tr @ fill_events now k s @ [Paid k ne kn])"
proof -
  note f = fill_bucket_inv [OF cfg inv, of k now]
  show ?thesis
    by (rule bucket_inv_put [of k "current_bucket cfg now k s" s "tr @ fill_events now k s"]) (use f assms(3) in auto)
qed

lemma bucket_inv_step:
  assumes "scheduler_step cfg (s, tr) (s', tr')" and cfg: "capacity_bound cfg" and inv: "bucket_inv s tr"
  shows "bucket_inv s' tr'"
  using assms(1)
proof cases
  case (pay now ac ep ne k)
  with require_available_cases [OF pay(2,3)] bucket_inv_pay [OF cfg inv] show ?thesis by auto
next
  case (look now ac ep ne c err k)
  have "ss_buckets s' = ss_buckets (put_bucket k (current_bucket cfg now k s) s)"
  proof (cases "err = None \<and> c")
    case False
    with require_available_cases [OF look(2,4)] show ?thesis by simp
  qed (use look(3) in simp)
  with fill_bucket_inv [OF cfg inv, of k now] look(1) show ?thesis by (auto intro: bucket_inv_same)
next
  case (pay_read k ac ep b now)
  with bucket_inv_pay [OF cfg inv] show ?thesis by auto
next
  case (look_read k ac ep now)
  with fill_bucket_inv [OF cfg inv] show ?thesis by auto
next
  case (start observed now kind delay)
  with wait_buckets [OF start(3)] bucket_inv_started [OF inv] show ?thesis by auto
next
  case (pause_all now seconds)
  with inv show ?thesis by (auto intro: bucket_inv_same)
next
  case (synchronize now kind ac ep remaining after)
  let ?k = "bucket_key_of kind ac ep"
  have "fst ?k = kind" by (simp add: bucket_key_of_def)
  with cfg have "0 < bp_capacity (policy_for cfg kind)" by (cases kind) (auto simp: capacity_bound_def)
  then show ?thesis
    unfolding synchronize using bucket_invD [OF inv]
    by (intro bucket_invI) (auto simp: synchronize_budget_def put_bucket_def Let_def split: if_splits)
next
  case (configure now ac ep capacity window k)
  from configure(2,3) have "s' = s \<and> ss_buckets s k \<noteq> None \<or> ss_buckets s k = None \<and> 0 < capacity
      \<and> s' = put_bucket k \<lparr>bb_capacity = capacity, bb_remaining = capacity, bb_reset_at = fadd now window,
           bb_window = window, bb_knowledge = BUDGET_KNOWN\<rparr> s"
    by (auto simp: configure_verified_mutation_budget_def Let_def guard_simps split: if_splits)
  with configure(1) show ?thesis
    using bucket_invD [OF inv] by (intro bucket_invI) (auto simp: put_bucket_def split: if_splits)
next
  case (distrust k kind ac ep now)
  note f = fill_bucket_inv [OF cfg inv, of k now]
  let ?b = "current_bucket cfg now k s"
  have "bucket_inv (put_bucket k (?b\<lparr>bb_knowledge := BUDGET_UNCERTAIN, bb_remaining := (if kind = RK_MUTATION
      then min (bb_remaining ?b) (sc_reserve cfg) else bb_remaining ?b)\<rparr>) s) (tr @ fill_events now k s)"
    by (rule bucket_inv_put [of k ?b s "tr @ fill_events now k s"]) (use f cfg in \<open>auto simp: capacity_bound_def\<close>)
  moreover have "s' = put_bucket k (?b\<lparr>bb_knowledge := BUDGET_UNCERTAIN, bb_remaining := (if kind = RK_MUTATION
      then min (bb_remaining ?b) (sc_reserve cfg) else bb_remaining ?b)\<rparr>) s"
    unfolding distrust(1,3) mark_budget_uncertain_def Let_def ..
  ultimately show ?thesis by (simp only: distrust(2))
next
  case (count m)
  with inv show ?thesis by (auto intro: bucket_inv_same)
qed

lemma scheduler_started:
  assumes "make_scheduler rp mp reserve reads mutations spacing mspacing backoff = (cfg, s)"
    "0 < bp_capacity rp" "0 < bp_capacity mp"
  shows "capacity_bound cfg \<and> bucket_inv s []"
  using assms by (auto simp: make_scheduler_def capacity_bound_def bucket_inv_def)

lemma bucket_inv_run:
  assumes "(scheduler_step cfg)\<^sup>*\<^sup>* (s, tr) (s', tr')" "capacity_bound cfg" "bucket_inv s tr"
  shows "bucket_inv s' tr'"
  using assms(1,3)
proof (induction "(s', tr')" arbitrary: s' tr' rule: rtranclp_induct)
  case (step y)
  then show ?case using bucket_inv_step [OF _ assms(2)] by (cases y) auto
qed

definition entries_known :: "scheduler_event list \<Rightarrow> bool" where
  "entries_known tr \<longleftrightarrow> (\<forall>k kn. Paid k True kn \<in> set tr \<longrightarrow> kn = BUDGET_KNOWN)"

lemma entries_known_step:
  assumes "scheduler_step cfg (s, tr) (s', tr')" "entries_known tr"
  shows "entries_known tr'"
proof -
  have fill: "Paid k ne kn \<notin> set (fill_events now j s)" for k ne kn now j s
    by (auto simp: fill_events_def split: option.splits)
  from assms(1) show ?thesis
  proof cases
    case (pay now ac ep ne k)
    with require_available_cases [OF pay(2,3)] assms(2) fill show ?thesis by (auto simp: entries_known_def)
  qed (use assms(2) fill in \<open>auto simp: entries_known_def split: if_splits\<close>)
qed

lemma entries_known_run:
  assumes "(scheduler_step cfg)\<^sup>*\<^sup>* (s, tr) (s', tr')" "entries_known tr" shows "entries_known tr'"
  using assms
proof (induction "(s', tr')" arbitrary: s' tr' rule: rtranclp_induct)
  case (step y)
  then show ?case using entries_known_step by (cases y) simp
qed

text \<open>
  (C21) However requests, synchronisations, verified budgets and withdrawals of trust
  interleave, between two fills of a bucket at most its capacity is paid from it, and a new entry is
  only ever paid from a mutation budget that is known.
\<close>

theorem budget_respected:
  assumes "make_scheduler rp mp reserve reads mutations spacing mspacing backoff = (cfg, s0)"
    and "0 < bp_capacity rp" "0 < bp_capacity mp"
    and "(scheduler_step cfg)\<^sup>*\<^sup>* (s0, []) (s, tr)"
  shows "(\<forall>k b. ss_buckets s k = Some b \<longrightarrow> int (paid k tr) \<le> bb_capacity b)
    \<and> (\<forall>k kn. Paid k True kn \<in> set tr \<longrightarrow> kn = BUDGET_KNOWN)"
proof
  have start: "capacity_bound cfg" "bucket_inv s0 []" using scheduler_started [OF assms(1-3)] by auto
  from bucket_inv_run [OF assms(4) start] show "\<forall>k b. ss_buckets s k = Some b \<longrightarrow> int (paid k tr) \<le> bb_capacity b"
    using bucket_invD(2) by fastforce
  show "\<forall>k kn. Paid k True kn \<in> set tr \<longrightarrow> kn = BUDGET_KNOWN"
    using entries_known_run [OF assms(4)] by (simp add: entries_known_def)
qed

theorem budget_respected_witness:
  "\<exists>s tr b. (scheduler_step (fst sample_scheduler))\<^sup>*\<^sup>* (snd sample_scheduler, []) (s, tr)
     \<and> tr = [Filled (RK_MUTATION, ''1'', ''submit''), Paid (RK_MUTATION, ''1'', ''submit'') False BUDGET_UNCERTAIN]
     \<and> ss_buckets s (RK_MUTATION, ''1'', ''submit'') = Some b \<and> bb_remaining b = 1 \<and> bb_capacity b = 5
     \<and> int (paid (RK_MUTATION, ''1'', ''submit'') tr) \<le> bb_capacity b"
proof -
  let ?k = "(RK_MUTATION, ''1'', ''submit'')" and ?cfg = "fst sample_scheduler" and ?s0 = "snd sample_scheduler"
  let ?rp = "\<lparr>bp_capacity = 20, bp_window = Fin 1\<rparr>" and ?mp = "\<lparr>bp_capacity = 5, bp_window = Fin 1\<rparr>"
  have key: "bucket_key_of RK_MUTATION ''1'' ''submit'' = ?k" by code_simp
  let ?b = "\<lparr>bb_capacity = 5, bb_remaining = 1, bb_reset_at = Fin 1, bb_window = Fin 1, bb_knowledge = BUDGET_UNCERTAIN\<rparr>"
  have "require_available ?cfg (Fin 0) ''1'' ''submit'' False True ?s0 = (None, put_bucket ?k ?b ?s0)"
    by (simp add: require_available_def key current_bucket_def sample_scheduler_def make_scheduler_def Let_def)
  from pay [OF this key [symmetric], of "[]"] have "scheduler_step ?cfg (?s0, [])
      (put_bucket ?k ?b ?s0, [Filled ?k, Paid ?k False BUDGET_UNCERTAIN])"
    by (simp add: fill_events_def current_bucket_def sample_scheduler_def make_scheduler_def Let_def)
  then have run: "(scheduler_step ?cfg)\<^sup>*\<^sup>* (?s0, []) (put_bucket ?k ?b ?s0, [Filled ?k, Paid ?k False BUDGET_UNCERTAIN])"
    by blast
  have made: "make_scheduler ?rp ?mp 2 3 2 (Fin 0) (Fin 0) (Fin 0) = (?cfg, ?s0)"
    by (simp add: sample_scheduler_def)
  have b: "ss_buckets (put_bucket ?k ?b ?s0) ?k = Some ?b" by (simp add: put_bucket_def)
  have pos: "0 < bp_capacity ?rp" "0 < bp_capacity ?mp" by simp_all
  have "int (paid ?k [Filled ?k, Paid ?k False BUDGET_UNCERTAIN]) \<le> bb_capacity ?b"
    by (rule budget_respected [OF made pos run, THEN conjunct1, rule_format, OF b])
  with run b show ?thesis
    by (intro exI [of _ "put_bucket ?k ?b ?s0"] exI [of _ "[Filled ?k, Paid ?k False BUDGET_UNCERTAIN]"] exI [of _ ?b]) simp
qed

subsection \<open>Spacing\<close>

definition all_starts :: "scheduler_event list \<Rightarrow> pyfloat list" where
  "all_starts tr = List.map_filter (\<lambda>e. case e of Started k t \<Rightarrow> Some t | _ \<Rightarrow> None) tr"

definition mutation_starts :: "scheduler_event list \<Rightarrow> pyfloat list" where
  "mutation_starts tr = List.map_filter (\<lambda>e. case e of Started RK_MUTATION t \<Rightarrow> Some t | _ \<Rightarrow> None) tr"

definition apart :: "pyfloat \<Rightarrow> pyfloat \<Rightarrow> pyfloat \<Rightarrow> bool" where
  "apart d t u \<longleftrightarrow> fle (fadd t d) u"

lemma starts_append [simp]:
  "all_starts [] = []" "mutation_starts [] = []"
  "all_starts (tr @ tr') = all_starts tr @ all_starts tr'"
  "mutation_starts (tr @ tr') = mutation_starts tr @ mutation_starts tr'"
  "all_starts [Started k t] = [t]" "mutation_starts [Started k t] = (if k = RK_MUTATION then [t] else [])"
  "all_starts [Filled j] = []" "mutation_starts [Filled j] = []"
  "all_starts [Paid j ne kn] = []" "mutation_starts [Paid j ne kn] = []"
  "all_starts (fill_events now j s) = []" "mutation_starts (fill_events now j s) = []"
  by (auto simp: all_starts_def mutation_starts_def map_filter_def fill_events_def
      split: request_kind.split option.split)

lemma nonneg_simps: "fle (Fin 0) v \<Longrightarrow> v \<noteq> NaN" "fle (Fin 0) v \<Longrightarrow> v \<noteq> NegInf"
  by (auto simp: fle_def feq_def)

lemma fmax_nonneg: "fle (Fin 0) a \<Longrightarrow> fle (Fin 0) (fmax a b)"
  using fle_trans [of "Fin 0" a b] by (auto simp: fmax_def fle_def [of a b])

lemma fmax_zero_nonneg: "fle (Fin 0) (fmax (Fin 0) b)"
  by (rule fmax_nonneg) simp

lemma start_after_nonneg:
  assumes "fle (Fin 0) t" "fle (Fin 0) d" shows "fle (Fin 0) (fadd t d)"
proof (cases "\<exists>x y. t = Fin x \<and> d = Fin y")
  case True
  then obtain x y where xy: "t = Fin x" "d = Fin y" by blast
  with assms have "0 \<le> x + y" by simp
  with to_float_mono [of 0 "x + y"] xy show ?thesis by simp
next
  case False
  with assms show ?thesis by (cases t; cases d) (auto simp: fle_def feq_def)
qed

lemma fmax_above: "fle (Fin 0) a \<Longrightarrow> fle (Fin 0) b \<Longrightarrow> fle b (fmax a b)"
  using fmax_ge2 nonneg_simps by blast

definition spacing_inv :: "scheduler_config \<Rightarrow> scheduler_state \<Rightarrow> scheduler_event list \<Rightarrow> bool" where
  "spacing_inv cfg s tr \<longleftrightarrow> fle (Fin 0) (ss_not_before s)
     \<and> ss_last_request s = (if all_starts tr = [] then None else Some (last (all_starts tr)))
     \<and> ss_last_mutation s = (if mutation_starts tr = [] then None else Some (last (mutation_starts tr)))
     \<and> (\<forall>t \<in> set (all_starts tr) \<union> set (mutation_starts tr). fle (Fin 0) t)
     \<and> successively (apart (sc_request_spacing cfg)) (all_starts tr)
     \<and> successively (apart (sc_mutation_spacing cfg)) (mutation_starts tr)"

lemma spacing_inv_quiet:
  assumes "spacing_inv cfg s tr" "all_starts tr' = []" "mutation_starts tr' = []"
    "ss_last_request s' = ss_last_request s" "ss_last_mutation s' = ss_last_mutation s"
    "fle (Fin 0) (ss_not_before s')"
  shows "spacing_inv cfg s' (tr @ tr')"
  using assms by (simp add: spacing_inv_def)

lemma required_start_bounds:
  assumes "spacing_inv cfg s tr" "fle (Fin 0) (sc_request_spacing cfg)" "fle (Fin 0) (sc_mutation_spacing cfg)"
  shows "fle (Fin 0) (required_start cfg kind s)
    \<and> (\<forall>t. ss_last_request s = Some t \<longrightarrow> fle (fadd t (sc_request_spacing cfg)) (required_start cfg kind s))
    \<and> (\<forall>t. kind = RK_MUTATION \<and> ss_last_mutation s = Some t
         \<longrightarrow> fle (fadd t (sc_mutation_spacing cfg)) (required_start cfg kind s))"
proof -
  define b where "b = (case ss_last_request s of None \<Rightarrow> ss_not_before s
    | Some t \<Rightarrow> fmax (ss_not_before s) (fadd t (sc_request_spacing cfg)))"
  have n: "fle (Fin 0) (ss_not_before s)" using assms(1) by (simp add: spacing_inv_def)
  have r: "fle (Fin 0) (fadd t (sc_request_spacing cfg))" if "ss_last_request s = Some t" for t
    using that assms(1,2) by (intro start_after_nonneg) (auto simp: spacing_inv_def split: if_splits)
  have m: "fle (Fin 0) (fadd t (sc_mutation_spacing cfg))" if "ss_last_mutation s = Some t" for t
    using that assms(1,3) by (intro start_after_nonneg) (auto simp: spacing_inv_def split: if_splits)
  have b0: "fle (Fin 0) b" using n fmax_nonneg by (auto simp: b_def split: option.split)
  have br: "fle (fadd t (sc_request_spacing cfg)) b" if "ss_last_request s = Some t" for t
    using that fmax_above [OF n r [OF that]] by (simp add: b_def)
  have req: "required_start cfg kind s = (case (kind, ss_last_mutation s) of
      (RK_MUTATION, Some t) \<Rightarrow> fmax b (fadd t (sc_mutation_spacing cfg)) | _ \<Rightarrow> b)"
    unfolding required_start_def b_def Let_def by (simp split: request_kind.split option.split)
  show ?thesis
  proof (cases "\<exists>t. kind = RK_MUTATION \<and> ss_last_mutation s = Some t")
    case True
    then obtain t where t: "kind = RK_MUTATION" "ss_last_mutation s = Some t" by blast
    then have e: "required_start cfg kind s = fmax b (fadd t (sc_mutation_spacing cfg))"
      unfolding req by simp
    have "fle b (fmax b (fadd t (sc_mutation_spacing cfg)))"
      using fmax_ge1 nonneg_simps(1) [OF b0] by blast
    with fle_trans [OF br] have "\<forall>t'. ss_last_request s = Some t' \<longrightarrow>
        fle (fadd t' (sc_request_spacing cfg)) (fmax b (fadd t (sc_mutation_spacing cfg)))" by blast
    with t(2) fmax_above [OF b0 m [OF t(2)]] fmax_nonneg [OF b0] show ?thesis
      unfolding e by simp
  next
    case False
    then have "required_start cfg kind s = b" unfolding req by (auto split: request_kind.split option.split)
    with False b0 br show ?thesis by auto
  qed
qed

lemma spacing_inv_start:
  assumes inv: "spacing_inv cfg s tr" and cfg: "fle (Fin 0) (sc_request_spacing cfg)" "fle (Fin 0) (sc_mutation_spacing cfg)"
    and w: "wait_for_request_spacing cfg now observed kind s = (delay, s')" and ob: "observed \<noteq> NaN"
  shows "spacing_inv cfg s' (tr @ [Started kind (the (ss_last_request s'))])"
proof -
  let ?q = "required_start cfg kind s" and ?u = "fmax observed (required_start cfg kind s)"
  note q = required_start_bounds [OF inv cfg, of kind]
  have s': "s' = s\<lparr>ss_last_request := Some ?u,
      ss_last_mutation := (if kind = RK_MUTATION then Some ?u else ss_last_mutation s)\<rparr>"
    using w by (auto simp: wait_for_request_spacing_def Let_def)
  have qu: "fle ?q ?u" using fmax_ge2 [OF nonneg_simps(1) ob] q by blast
  then have u0: "fle (Fin 0) ?u" using q fle_trans by blast
  have r: "apart (sc_request_spacing cfg) (last (all_starts tr)) ?u" if "all_starts tr \<noteq> []"
  proof -
    have "ss_last_request s = Some (last (all_starts tr))" using that inv by (simp add: spacing_inv_def)
    with q have "fle (fadd (last (all_starts tr)) (sc_request_spacing cfg)) ?q" by blast
    from fle_trans [OF this qu] show ?thesis by (simp add: apart_def)
  qed
  have m: "apart (sc_mutation_spacing cfg) (last (mutation_starts tr)) ?u"
    if "mutation_starts tr \<noteq> []" "kind = RK_MUTATION"
  proof -
    have "ss_last_mutation s = Some (last (mutation_starts tr))" using that inv by (simp add: spacing_inv_def)
    with q that(2) have "fle (fadd (last (mutation_starts tr)) (sc_mutation_spacing cfg)) ?q" by blast
    from fle_trans [OF this qu] show ?thesis by (simp add: apart_def)
  qed
  show ?thesis
    using inv u0 r m by (auto simp: spacing_inv_def s' successively_append_iff)
qed

lemma spacing_inv_step:
  assumes step: "scheduler_step cfg (s, tr) (s', tr')" and inv: "spacing_inv cfg s tr"
    and cfg: "fle (Fin 0) (sc_request_spacing cfg)" "fle (Fin 0) (sc_mutation_spacing cfg)"
  shows "spacing_inv cfg s' tr'"
proof -
  have n: "fle (Fin 0) (ss_not_before s)" using inv by (simp add: spacing_inv_def)
  have paced: "ss_last_request u = ss_last_request s \<and> ss_last_mutation u = ss_last_mutation s
      \<and> ss_not_before u = ss_not_before s" if "require_available c now ac ep ne cons s = (err, u)" for c now ac ep ne cons err u
    using that by (auto simp: require_available_def put_bucket_def count_rejection_def Let_def split: if_splits)
  from step show ?thesis
  proof cases
    case (pay now ac ep ne k)
    with paced [OF pay(2)] n show ?thesis by (simp add: spacing_inv_quiet [OF inv])
  next
    case (look now ac ep ne c err k)
    with paced [OF look(2)] n show ?thesis by (simp add: spacing_inv_quiet [OF inv])
  next
    case (start observed now kind delay)
    with spacing_inv_start [OF inv cfg start(3,2)] show ?thesis by simp
  next
    case (pause_all now seconds)
    with fmax_nonneg [OF n] n show ?thesis
      using spacing_inv_quiet [OF inv, of "[]" "defer_requests now seconds s"]
      by (simp add: defer_requests_def Let_def)
  next
    case (count m)
    with n show ?thesis using spacing_inv_quiet [OF inv, of "[]" s'] by simp
  next
    case (configure now ac ep capacity window k)
    have "s' = s \<or> (\<exists>b. s' = put_bucket k b s)"
      using configure(2,3) unfolding configure_verified_mutation_budget_def Let_def guarded_Inr_iff
      by (metis sum.inject(2))
    moreover let ?f = "if ss_buckets s k = None then [Filled k] else []"
    have "all_starts ?f = []" "mutation_starts ?f = []" by simp_all
    ultimately show ?thesis
      using n spacing_inv_quiet [OF inv, of ?f s'] unfolding configure(1) by (auto simp: put_bucket_def)
  qed (use n in \<open>auto simp: put_bucket_def synchronize_budget_def mark_budget_uncertain_def Let_def
        intro!: spacing_inv_quiet [OF inv]\<close>)
qed

lemma spacing_inv_run:
  assumes "(scheduler_step cfg)\<^sup>*\<^sup>* (s, tr) (s', tr')" "spacing_inv cfg s tr"
    "fle (Fin 0) (sc_request_spacing cfg)" "fle (Fin 0) (sc_mutation_spacing cfg)"
  shows "spacing_inv cfg s' tr'"
  using assms(1,2)
proof (induction "(s', tr')" arbitrary: s' tr' rule: rtranclp_induct)
  case (step y)
  then show ?case using spacing_inv_step [OF _ _ assms(3,4)] by (cases y) simp
qed

text \<open>
  In every run, whatever priorities, budgets and pauses, consecutive requests start at
  least the configured spacing apart, in floating-point time, and consecutive mutations at least
  the stricter mutation spacing.
\<close>

theorem requests_spaced:
  assumes "make_scheduler rp mp reserve reads mutations spacing mspacing backoff = (cfg, s0)"
    and "(scheduler_step cfg)\<^sup>*\<^sup>* (s0, []) (s, tr)"
  shows "successively (\<lambda>t u. fle (fadd t (sc_request_spacing cfg)) u) (all_starts tr)
    \<and> successively (\<lambda>t u. fle (fadd t (sc_mutation_spacing cfg)) u) (mutation_starts tr)"
proof -
  have "spacing_inv cfg s0 []" "fle (Fin 0) (sc_request_spacing cfg)" "fle (Fin 0) (sc_mutation_spacing cfg)"
    using assms(1) fmax_zero_nonneg by (auto simp: make_scheduler_def spacing_inv_def)
  from spacing_inv_run [OF assms(2) this] show ?thesis
    unfolding spacing_inv_def apart_def [abs_def] by blast
qed

definition spaced_scheduler :: "scheduler_config \<times> scheduler_state" where
  "spaced_scheduler = make_scheduler \<lparr>bp_capacity = 20, bp_window = Fin 1\<rparr> \<lparr>bp_capacity = 5, bp_window = Fin 1\<rparr>
     2 3 1 (Fin 0) (Fin 2) (Fin 0)"

theorem requests_spaced_witness:
  "\<exists>s tr. (scheduler_step (fst spaced_scheduler))\<^sup>*\<^sup>* (snd spaced_scheduler, []) (s, tr)
     \<and> mutation_starts tr = [Fin 1, Fin 3] \<and> fle (fadd (Fin 1) (Fin 2)) (Fin 3)"
proof -
  let ?cfg = "fst spaced_scheduler" and ?s0 = "snd spaced_scheduler"
  let ?s1 = "?s0\<lparr>ss_last_request := Some (Fin 1), ss_last_mutation := Some (Fin 1)\<rparr>"
  let ?s2 = "?s0\<lparr>ss_last_request := Some (Fin 3), ss_last_mutation := Some (Fin 3)\<rparr>"
  have three: "to_float 3 = Fin 3" "fadd (Fin 1) (Fin 2) = Fin 3" "fadd (Fin 1) (Fin 0) = Fin 1"
    using to_float_representable [OF representable_int [of 3]] less_trans [OF _ max_exclusive_gt_int, of 3] by simp_all
  have w1: "\<exists>d. wait_for_request_spacing ?cfg (Fin 1) (Fin 1) RK_MUTATION ?s0 = (d, ?s1)"
    by (simp add: wait_for_request_spacing_def required_start_def spaced_scheduler_def make_scheduler_def fmax_def Let_def)
  have w2: "\<exists>d. wait_for_request_spacing ?cfg (Fin 2) (Fin 2) RK_MUTATION ?s1 = (d, ?s2)"
    by (simp add: wait_for_request_spacing_def required_start_def spaced_scheduler_def make_scheduler_def fmax_def Let_def
        three)
  have "scheduler_step ?cfg (?s0, []) (?s1, [Started RK_MUTATION (Fin 1)])"
    using start [of "Fin 1" ?cfg "Fin 1" RK_MUTATION ?s0 _ ?s1 "[]"] w1 by auto
  moreover have "scheduler_step ?cfg (?s1, [Started RK_MUTATION (Fin 1)])
      (?s2, [Started RK_MUTATION (Fin 1), Started RK_MUTATION (Fin 3)])"
    using start [of "Fin 2" ?cfg "Fin 2" RK_MUTATION ?s1 _ ?s2 "[Started RK_MUTATION (Fin 1)]"] w2 by auto
  ultimately have run: "(scheduler_step ?cfg)\<^sup>*\<^sup>* (?s0, []) (?s2, [Started RK_MUTATION (Fin 1), Started RK_MUTATION (Fin 3)])"
    by (meson converse_rtranclp_into_rtranclp r_into_rtranclp)
  have made: "make_scheduler \<lparr>bp_capacity = 20, bp_window = Fin 1\<rparr> \<lparr>bp_capacity = 5, bp_window = Fin 1\<rparr> 2 3 1
      (Fin 0) (Fin 2) (Fin 0) = (?cfg, ?s0)"
    by (simp add: spaced_scheduler_def)
  have starts: "mutation_starts [Started RK_MUTATION (Fin 1), Started RK_MUTATION (Fin 3)] = [Fin 1, Fin 3]"
    by (simp add: mutation_starts_def map_filter_def)
  have "sc_mutation_spacing ?cfg = Fin 2" by (simp add: spaced_scheduler_def make_scheduler_def fmax_def)
  with requests_spaced [OF made run] starts have "fle (fadd (Fin 1) (Fin 2)) (Fin 3)" by simp
  with run starts show ?thesis by blast
qed

subsection \<open>Turns\<close>

inductive turn_step :: "turn_state \<Rightarrow> turn_state \<Rightarrow> bool" where
  enqueue: "enqueue_turn p t = (w, t') \<Longrightarrow> turn_step t t'"
| take_it: "take_turn w t = Some t' \<Longrightarrow> turn_step t t'"
| release: "turn_step t (release_turn t)"

definition no_turns :: turn_state where
  "no_turns = \<lparr>ts_queue = [], ts_sequence = 0, ts_active = None\<rparr>"

definition turn_inv :: "turn_state \<Rightarrow> bool" where
  "turn_inv t \<longleftrightarrow> distinct (map snd (ts_queue t)) \<and> (\<forall>w \<in> set (ts_queue t). snd w \<le> ts_sequence t)"

lemma turn_inv_step: "turn_step t t' \<Longrightarrow> turn_inv t \<Longrightarrow> turn_inv t'"
  by (induction rule: turn_step.induct)
    (force simp: turn_inv_def enqueue_turn_def take_turn_def release_turn_def Let_def distinct_map inj_on_def
      removeAll_filter_not_eq split: if_splits)+

lemma turn_inv_run: "turn_step\<^sup>*\<^sup>* t t' \<Longrightarrow> turn_inv t \<Longrightarrow> turn_inv t'"
  by (induction rule: rtranclp_induct) (use turn_inv_step in blast)+

lemma least_waiter:
  assumes "xs \<noteq> []" "distinct (map snd xs)"
  shows "\<exists>w \<in> set xs. \<forall>v \<in> set xs. v = w \<or> turn_before w v"
  using assms
proof (induction xs)
  case (Cons x xs)
  show ?case
  proof (cases "xs = []")
    case False
    with Cons obtain w where w: "w \<in> set xs" "\<forall>v \<in> set xs. v = w \<or> turn_before w v" by auto
    have "snd x \<noteq> snd w" using w(1) Cons(3) by auto
    then have "turn_before x w \<or> turn_before w x" by (auto simp: turn_before_def)
    then show ?thesis
    proof
      assume b: "turn_before x w"
      then have "\<forall>v \<in> set xs. turn_before x v" using w(2) by (fastforce simp: turn_before_def)
      then show ?thesis by auto
    qed (use w in auto)
  qed simp
qed simp



end
