(* ===== verification/Gateway_Outcome.thy ===== *)
theory Gateway_Outcome
  imports Gateway_Claims Scheduler_Safety
begin

text \<open>
  What the last transaction of a guarded call leaves behind: order row, command row and reservation,
  for each outcome the caller can see.
\<close>

lemma transition_or_raise_Inr:
  "transition_or_raise now t bid r = Inr r' \<longleftrightarrow> apply_status_transition now t bid r = (None, r')"
  by (auto simp: transition_or_raise_def split: prod.splits option.splits)

lemma applied_transition:
  "apply_status_transition now t bid r = (None, r') \<Longrightarrow> eo_status r' = t \<and> eo_client_order_id r' = eo_client_order_id r"
  by (auto simp: transition_defs mark_broker_identity_exact_def Let_def split: option.splits prod.splits if_splits)

text \<open>The rows a pair of updates leaves.\<close>

definition order_row_is :: "gateway_db \<Rightarrow> string \<Rightarrow> execution_order_status \<Rightarrow> bool" where
  "order_row_is db cid st \<longleftrightarrow> (\<exists>r. ox_rows (gd_orders db) cid = Some r \<and> eo_status r = st)"

definition command_row_is :: "gateway_db \<Rightarrow> string \<Rightarrow> command_status \<Rightarrow> bool" where
  "command_row_is db k st \<longleftrightarrow> (\<exists>c. cm_rows (gd_commands db) k = Some c \<and> ec_status c = st)"

definition reservation_closed :: "gateway_db \<Rightarrow> string \<Rightarrow> bool" where
  "reservation_closed db rid \<longleftrightarrow> (\<exists>v. rt_rows (gd_reservations db) rid = Some v \<and> \<not> reservation_is_open v
     \<and> cr_remaining_reserved_notional v = Fin 0)"

lemma update_order_row:
  "tx_update_order r db = Inr (r', db') \<Longrightarrow> ox_rows (gd_orders db') (eo_client_order_id r) = Some r'
     \<and> eo_status r' = eo_status r \<and> gd_commands db' = gd_commands db \<and> gd_reservations db' = gd_reservations db"
  by (auto simp: tx_iffs update_order_Inr_iff)

lemma update_command_row:
  "tx_update_command redact k st response db = Inr db' \<Longrightarrow> command_row_is db' k st
     \<and> gd_orders db' = gd_orders db \<and> gd_reservations db' = gd_reservations db"
  by (auto simp: tx_iffs update_command_Inr_iff command_row_is_def)

lemma release_row:
  "tx_update_reservation (release_reservation_notional now v) n db = Inr db'
     \<Longrightarrow> reservation_closed db' (cr_reservation_id v)
       \<and> gd_orders db' = gd_orders db \<and> gd_commands db' = gd_commands db"
  by (auto simp: tx_update_reservation_def update_reservation_def written_row_def reservation_closed_def
      release_reservation_notional_def reservation_is_open_def OPEN_RESERVATION_STATUSES_def
      split: sum.splits option.splits if_splits)

text \<open>
  (C8) After the broker call of a submission, the database follows the outcome the caller is
  told, and capital is given back in one case only. An accepted order is \<open>ACKNOWLEDGED\<close> and keeps its
  reservation; an ambiguous one is \<open>UNKNOWN_SUBMISSION_STATE\<close> and keeps it too; a definite rejection
  closes order, command and reservation together; and whenever the transaction itself failed, nothing
  was written, so the order stays \<open>SUBMITTING\<close> with its capital held.
\<close>

theorem capital_follows_outcome:
  "case settle_submit gw now outcome p v order db of (result, db') \<Rightarrow>
     (case result of
        Inr accepted \<Rightarrow> eo_status accepted = ACKNOWLEDGED \<and> gd_reservations db' = gd_reservations db
          \<and> order_row_is db' (eo_client_order_id order) ACKNOWLEDGED
          \<and> command_row_is db' (submit_key (submit_id p)) CS_ACKNOWLEDGED
      | Inl SubmissionAmbiguous \<Rightarrow> gd_reservations db' = gd_reservations db
          \<and> order_row_is db' (eo_client_order_id order) UNKNOWN_SUBMISSION_STATE
          \<and> command_row_is db' (submit_key (submit_id p)) CS_AMBIGUOUS
      | Inl SubmissionRejected \<Rightarrow> reservation_closed db' (cr_reservation_id v)
          \<and> order_row_is db' (eo_client_order_id order) REJECTED
          \<and> command_row_is db' (submit_key (submit_id p)) CS_FAILED
      | Inl err \<Rightarrow> db' = db)"
proof (cases outcome)
  case (BrokerAccepted bid response)
  let ?o = "order\<lparr>eo_remaining_quantity := eo_submitted_quantity order\<rparr>"
  show ?thesis
  proof (cases "transition_or_raise now ACKNOWLEDGED (Some bid) ?o")
    case (Inl err)
    then show ?thesis
      by (auto simp: BrokerAccepted settle_submit_def Let_def transition_or_raise_def
          split: prod.splits option.splits)
  next
    case (Inr order1)
    then have st: "eo_status order1 = ACKNOWLEDGED" "eo_client_order_id order1 = eo_client_order_id order"
      using applied_transition by (fastforce simp: transition_or_raise_Inr)+
    show ?thesis
    proof (cases "persist_submit_success gw response (submit_key (submit_id p)) order1 db")
      case (Inl err)
      with Inr show ?thesis by (simp add: BrokerAccepted settle_submit_def submit_id_def Let_def)
    next
      case (Inr od)
      then obtain order2 db2 where t: "persist_submit_success gw response (submit_key (submit_id p)) order1 db = Inr (order2, db2)"
        by (cases od) auto
      then obtain db1 where u: "tx_update_order order1 db = Inr (order2, db1)"
          "tx_update_command (gw_redact gw) (submit_key (submit_id p)) CS_ACKNOWLEDGED response db1 = Inr db2"
        by (auto simp: persist_submit_success_def guard_simps)
      with update_order_row [OF u(1)] update_command_row [OF u(2)] st t
        \<open>transition_or_raise now ACKNOWLEDGED (Some bid) ?o = Inr order1\<close> show ?thesis
        by (simp add: BrokerAccepted settle_submit_def submit_id_def Let_def order_row_is_def)
    qed
  qed
next
  case (BrokerRaised ambiguous response)
  let ?st = "if ambiguous then UNKNOWN_SUBMISSION_STATE else REJECTED"
  let ?cs = "if ambiguous then CS_AMBIGUOUS else CS_FAILED"
  show ?thesis
  proof (cases "transition_or_raise now ?st None order")
    case (Inl err)
    then show ?thesis
      by (auto simp: BrokerRaised settle_submit_def Let_def transition_or_raise_def
          split: prod.splits option.splits)
  next
    case (Inr order1)
    then have st: "eo_status order1 = ?st" "eo_client_order_id order1 = eo_client_order_id order"
      using applied_transition by (fastforce simp: transition_or_raise_Inr)+
    show ?thesis
    proof (cases "persist_submit_failure gw now ambiguous response (submit_key (submit_id p)) v order1 db")
      case (Inl err)
      with Inr show ?thesis by (simp add: BrokerRaised settle_submit_def submit_id_def Let_def)
    next
      case (Inr db3)
      then obtain order2 db1 db2 where u: "tx_update_order order1 db = Inr (order2, db1)"
          "tx_update_command (gw_redact gw) (submit_key (submit_id p)) ?cs response db1 = Inr db2"
          "if ambiguous then db3 = db2
           else tx_update_reservation (release_reservation_notional now v) (cr_version v) db2 = Inr db3"
        by (auto simp: persist_submit_failure_def guard_simps split: if_splits)
      with update_order_row [OF u(1)] update_command_row [OF u(2)] st Inr release_row
        \<open>transition_or_raise now ?st None order = Inr order1\<close> show ?thesis
        by (cases ambiguous)
          (fastforce simp: BrokerRaised settle_submit_def submit_id_def Let_def order_row_is_def command_row_is_def)+
    qed
  qed
qed

subsection \<open>After a cancellation\<close>

lemma transition_recovery_Inr:
  "transition_recovery_state t r = Inr r' \<longleftrightarrow>
     t \<in> allowed_recovery_transitions (eo_recovery_state r) \<and> r' = r\<lparr>eo_recovery_state := t\<rparr>
     \<and> validate_consistency (r\<lparr>eo_recovery_state := t\<rparr>) = None"
  by (auto simp: transition_recovery_state_def validate_recovery_transition_def Let_def guard_simps)

lemma persist_cancel_failure_rows:
  assumes "persist_cancel_failure gw now ambiguous response key order db = Inr db'"
  shows "command_row_is db' key (if ambiguous then CS_AMBIGUOUS else CS_FAILED)
    \<and> gd_reservations db' = gd_reservations db
    \<and> (\<exists>r. ox_rows (gd_orders db') (eo_client_order_id order) = Some r
         \<and> (if ambiguous then eo_recovery_state r = DISCOVERING else eo_status r = WORKING))"
proof -
  obtain db1 order1 order2 where s:
      "tx_update_command (gw_redact gw) key (if ambiguous then CS_AMBIGUOUS else CS_FAILED) response db = Inr db1"
      "(if ambiguous then transition_recovery_state DISCOVERING order
        else transition_or_raise now WORKING None order) = Inr order1"
      "tx_update_order order1 db1 = Inr (order2, db')"
    using assms by (auto simp: persist_cancel_failure_def guard_simps split: prod.splits)
  have st: "eo_client_order_id order1 = eo_client_order_id order"
      "if ambiguous then eo_recovery_state order1 = DISCOVERING else eo_status order1 = WORKING"
    using s(2) applied_transition
    by (auto simp: transition_recovery_Inr transition_or_raise_Inr split: if_splits)
  have r: "eo_recovery_state order2 = eo_recovery_state order1"
    using s(3) by (auto simp: tx_iffs update_order_Inr_iff)
  from s(1) have "command_row_is db1 key (if ambiguous then CS_AMBIGUOUS else CS_FAILED)" "gd_reservations db1 = gd_reservations db"
    using update_command_row by blast+
  with update_order_row [OF s(3)] st r show ?thesis by (auto simp: command_row_is_def)
qed

lemma persist_cancel_success_rows:
  assumes "persist_cancel_success gw now give_back response key order db = Inr (order', db')"
  shows "command_row_is db' key CS_ACKNOWLEDGED \<and> eo_status order' = eo_status order
    \<and> ox_rows (gd_orders db') (eo_client_order_id order) = Some order'"
proof -
  obtain db1 db2 where s: "tx_update_order order db = Inr (order', db1)"
      "tx_update_command (gw_redact gw) key CS_ACKNOWLEDGED response db1 = Inr db2"
      "db' = db2 \<or> (\<exists>v n. tx_update_reservation v n db2 = Inr db')"
    using assms
    by (auto simp: persist_cancel_success_def guard_simps split: prod.splits if_splits option.splits)
  have "gd_orders db' = gd_orders db2" "gd_commands db' = gd_commands db2"
    using s(3) by (auto simp: tx_iffs)
  with update_order_row [OF s(1)] update_command_row [OF s(2)] show ?thesis
    by (simp add: command_row_is_def)
qed

lemma cancel_answer_identity:
  assumes "apply_cancel_answer now s order = Inr order'"
  shows "eo_client_order_id order' = eo_client_order_id order"
  using assms applied_transition
  by (fastforce simp: apply_cancel_answer_def absorb_snapshot_def Let_def transition_or_raise_Inr
      transition_recovery_Inr split: order_status.splits)

text \<open>
  After the broker call of a cancellation, an answer leaves the order row the caller gets
  and an acknowledged command; an ambiguous exception leaves the command \<open>AMBIGUOUS\<close> and the order in
  recovery \<open>DISCOVERING\<close>; a definite refusal leaves \<open>FAILED\<close> and \<open>WORKING\<close>; neither exception gives
  capital back; and every other error leaves the database as it was.
\<close>

theorem cancel_outcome_persisted:
  "case settle_cancel gw now give_back outcome r order db of (result, db') \<Rightarrow>
     (let key = cancel_key (xr_cancel_command_id r); cid = eo_client_order_id order in
      case result of
        Inr order' \<Rightarrow> command_row_is db' key CS_ACKNOWLEDGED \<and> ox_rows (gd_orders db') cid = Some order'
      | Inl CancellationAmbiguous \<Rightarrow> command_row_is db' key CS_AMBIGUOUS \<and> gd_reservations db' = gd_reservations db
          \<and> (\<exists>row. ox_rows (gd_orders db') cid = Some row \<and> eo_recovery_state row = DISCOVERING)
      | Inl CancellationRejected \<Rightarrow> command_row_is db' key CS_FAILED \<and> gd_reservations db' = gd_reservations db
          \<and> order_row_is db' cid WORKING
      | Inl err \<Rightarrow> db' = db)"
proof (cases outcome)
  case (CancelRaised ambiguous response)
  show ?thesis
  proof (cases "persist_cancel_failure gw now ambiguous response (cancel_key (xr_cancel_command_id r)) order db")
    case (Inl err)
    then show ?thesis by (simp add: CancelRaised settle_cancel_def Let_def)
  next
    case (Inr db2)
    with persist_cancel_failure_rows [OF Inr] show ?thesis
      by (cases ambiguous) (auto simp: CancelRaised settle_cancel_def Let_def order_row_is_def)
  qed
next
  case (CancelAnswered s)
  show ?thesis
  proof (cases "apply_cancel_answer now s order")
    case (Inl err)
    then have "err \<noteq> CancellationAmbiguous \<and> err \<noteq> CancellationRejected"
      by (auto simp: apply_cancel_answer_def Let_def transition_or_raise_def transition_recovery_state_def
          guarded_def split: order_status.splits prod.splits option.splits if_splits)
    with Inl show ?thesis by (simp add: CancelAnswered settle_cancel_def Let_def split: gateway_error.splits)
  next
    case (Inr order1)
    note answer = Inr
    show ?thesis
    proof (cases "persist_cancel_success gw now give_back (bs_raw_response s)
        (cancel_key (xr_cancel_command_id r)) order1 db")
      case (Inl err)
      with answer show ?thesis by (simp add: CancelAnswered settle_cancel_def Let_def)
    next
      case (Inr od)
      then obtain order2 db2 where t: "persist_cancel_success gw now give_back (bs_raw_response s)
          (cancel_key (xr_cancel_command_id r)) order1 db = Inr (order2, db2)" by (cases od) auto
      with persist_cancel_success_rows [OF t] cancel_answer_identity [OF answer] answer show ?thesis
        by (simp add: CancelAnswered settle_cancel_def Let_def)
    qed
  qed
qed

subsection \<open>Two answers the code does not take the way it means to\<close>

definition cancelled_sample :: execution_order where
  "cancelled_sample = sample_order\<lparr>eo_status := CANCEL_PENDING, eo_broker_order_id := ''B1'',
     eo_broker_identity_status := EXACT, eo_filled_quantity := 6, eo_remaining_quantity := 4\<rparr>"

text \<open>
  (C37) A cancellation answered as partially filled rewinds the record to the answer's fills:
  the guard against an older answer, the maximum with what is already recorded, is overwritten, so
  the fills fall below what reconciliation has recorded and the remaining quantity grows.
\<close>

theorem cancel_answer_rewinds_fills:
  assumes "bs_status s = OS_PARTIALLY_FILLED" "apply_cancel_answer now s order = Inr order'"
    and stale: "bs_filled_quantity s < eo_filled_quantity order"
    "eo_filled_quantity order \<le> eo_submitted_quantity order"
  shows "eo_filled_quantity order' = bs_filled_quantity s \<and> eo_filled_quantity order' < eo_filled_quantity order
    \<and> eo_submitted_quantity order - eo_filled_quantity order < eo_remaining_quantity order'"
proof -
  let ?o = "(absorb_snapshot s order)\<lparr>eo_filled_quantity := bs_filled_quantity s,
     eo_remaining_quantity := max 0 (eo_submitted_quantity (absorb_snapshot s order) - bs_filled_quantity s)\<rparr>"
  have "apply_status_transition now PARTIALLY_FILLED None ?o = (None, order')"
    using assms(1,2) by (simp add: apply_cancel_answer_def Let_def transition_or_raise_Inr)
  then have "eo_filled_quantity order' = bs_filled_quantity s"
      "eo_remaining_quantity order' = max 0 (eo_submitted_quantity order - bs_filled_quantity s)"
    by (auto simp: transition_defs absorb_snapshot_def Let_def split: option.splits prod.splits if_splits)
  with stale show ?thesis by simp
qed

definition stale_answer :: broker_snapshot where
  "stale_answer = \<lparr>bs_status = OS_PARTIALLY_FILLED, bs_filled_quantity = 2, bs_remaining_quantity = 8,
     bs_avg_fill_price = Fin 100, bs_broker_order_id = ''B1'', bs_raw_response = []\<rparr>"

theorem cancel_answer_rewinds_fills_witness:
  "\<exists>order'. apply_cancel_answer 9 stale_answer cancelled_sample = Inr order'
     \<and> eo_filled_quantity cancelled_sample = 6 \<and> eo_filled_quantity order' = 2"
proof -
  have f: "bs_filled_quantity stale_answer = 2" "eo_filled_quantity cancelled_sample = 6"
      "eo_submitted_quantity cancelled_sample = 10" "bs_status stale_answer = OS_PARTIALLY_FILLED"
    by (simp_all add: stale_answer_def cancelled_sample_def sample_order_def)
  obtain order' where a: "apply_cancel_answer 9 stale_answer cancelled_sample = Inr order'"
    by (simp add: apply_cancel_answer_def Let_def f transition_or_raise_def)
      (simp add: absorb_snapshot_def cancelled_sample_def order_eval)
  from cancel_answer_rewinds_fills [OF f(4) a] a f show ?thesis by simp
qed


text \<open>Such an order does pass the cancel gate.\<close>

definition sample_cancel :: cancel_request where
  "sample_cancel = \<lparr>xr_client_order_id = ''c1'', xr_cancel_command_id = ''x1'', xr_environment = ''PROD'',
     xr_account_no = ''1'', xr_lease = Some sample_lease, xr_source = SYSTEM, xr_strategy_instance_id = []\<rparr>"


subsection \<open>One call, one request in controlled-live mode\<close>

definition scheduler_view :: "scheduler_config \<Rightarrow> live_scheduler" where
  "scheduler_view sc = \<lparr>ls_min_spacing = Some (sc_mutation_spacing sc),
     ls_max_attempts = Some (sc_max_mutation_attempts sc)\<rparr>"

lemma first_error_append_None: "first_error (xs @ ys) = None \<longleftrightarrow> first_error xs = None \<and> first_error ys = None"
  by (simp add: first_error_append split: option.split)

lemma live_configuration_split:
  assumes "normalized_text environment = ''PROD''" "live_mode c = CONTROLLED_LIVE"
  shows "require_controlled_live_configuration c environment (Some s) = None \<longleftrightarrow>
     require_live_mutation_allowed c environment = None \<and> first_error (scheduler_checks c s) = None"
proof -
  have "live_mode c \<noteq> DISABLED" by (simp add: assms(2) CONTROLLED_LIVE_def DISABLED_def)
  with assms(1) show ?thesis
    unfolding require_live_mutation_allowed_def require_controlled_live_configuration_def first_error_append_None
    by (simp add: first_error_append_None)
qed

text \<open>
  (C30) A scheduler that the controlled-live configuration check accepts for production runs the
  operation of a mutation at most once, whatever the broker answers, and paces mutations no closer
  than configured: together with the one operation per command key, a command reaches the broker at
  most once.
\<close>

theorem controlled_live_never_repeats:
  assumes "require_controlled_live_configuration c environment (Some (scheduler_view sc)) = None"
    and "normalized_text environment = ''PROD''" "live_mode c = CONTROLLED_LIVE"
    and "execute_mutation sc account_no endpoint entry classify env other 1 s = (r, s', acts)"
  shows "length (dispatched acts) \<le> 1 \<and> \<not> flt (sc_mutation_spacing sc) (lc_min_spacing c)"
proof -
  have "first_error (scheduler_checks c (scheduler_view sc)) = None"
    using assms(1) live_configuration_split [OF assms(2,3)] by blast
  then have sc: "sc_max_mutation_attempts sc = 1" "\<not> flt (sc_mutation_spacing sc) (lc_min_spacing c)"
    using assms(3) by (auto simp: scheduler_checks_def scheduler_view_def split: if_splits)
  have e: "sorted_wrt (<) (dispatched acts)" "set (dispatched acts) \<subseteq> {1..max 1 (nat 1)}"
    using execute_mutation_repeats [OF assms(4)] sc(1) by (auto simp: repeats_ok_def)
  then have "length (dispatched acts) = card (set (dispatched acts))"
    by (simp add: distinct_card strict_sorted_iff)
  also have "\<dots> \<le> card {1..max 1 (nat 1)}" using e(2) by (intro card_mono) auto
  finally show ?thesis using sc(2) by simp
qed

definition live_scheduler_sample :: scheduler_config where
  "live_scheduler_sample = (fst sample_scheduler)\<lparr>sc_max_mutation_attempts := 1, sc_mutation_spacing := Fin 1\<rparr>"

theorem controlled_live_never_repeats_witness:
  "\<exists>r s' acts. execute_mutation live_scheduler_sample ''1'' ''submit'' False (\<lambda>x. True) refused_once (\<lambda>_ s. s) 1
      (snd sample_scheduler) = (r, s', acts) \<and> length (dispatched acts) \<le> 1"
proof -
  obtain r s' acts where run: "execute_mutation live_scheduler_sample ''1'' ''submit'' False (\<lambda>x. True) refused_once
      (\<lambda>_ s. s) 1 (snd sample_scheduler) = (r, s', acts)" by (metis prod_cases3)
  have prod: "normalized_text ''PROD'' = ''PROD''" by code_simp
  have "first_error (scheduler_checks sample_live_config (scheduler_view live_scheduler_sample)) = None"
    by (simp add: scheduler_checks_def scheduler_view_def live_scheduler_sample_def sample_live_config_def)
  then have "require_controlled_live_configuration sample_live_config ''PROD'' (Some (scheduler_view live_scheduler_sample)) = None"
    using live_configuration_split [OF prod sample_live_mode] sample_live_allowed by blast
  from controlled_live_never_repeats [OF this prod sample_live_mode run] run show ?thesis by blast
qed

end
