(* ===== verification/Replace_Sample.thy ===== *)
theory Replace_Sample
  imports Replace_Safety Replace_Runs Gateway_Outcome
begin

text \<open>
  One replacement carried through: a working protective SELL is cancelled, the inquiry confirms it,
  and the linked order is submitted. It shows that the hypotheses of the replacement's theorems hold
  together.
\<close>

subsection \<open>Writes that keep a database quiet\<close>

lemma in_table_orders: "r \<in> set (table_orders t) \<longleftrightarrow> (\<exists>k \<in> set (ox_ids t). ox_rows t k = Some r)"
  by (force simp: table_orders_def map_filter_def)

lemma table_orders_upd:
  "set ids \<subseteq> insert k (set (ox_ids t))
     \<Longrightarrow> set (table_orders \<lparr>ox_ids = ids, ox_rows = (ox_rows t)(k \<mapsto> r)\<rparr>) \<subseteq> insert r (set (table_orders t))"
proof
  fix x assume ids: "set ids \<subseteq> insert k (set (ox_ids t))"
    and "x \<in> set (table_orders \<lparr>ox_ids = ids, ox_rows = (ox_rows t)(k \<mapsto> r)\<rparr>)"
  then obtain j where "j \<in> set ids" "((ox_rows t)(k \<mapsto> r)) j = Some x" by (auto simp: in_table_orders)
  with ids show "x \<in> insert r (set (table_orders t))"
    by (cases "j = k") (auto simp: in_table_orders)
qed

lemma quiet_update_order:
  assumes "quiet_db db" "tx_update_order r db = Inr (r', db')" "eo_origin r = APPLICATION"
  shows "quiet_db db'"
proof -
  obtain t' where t: "update_execution_order r (eo_version r) (gd_orders db) = Inr (r', t')" "db' = db\<lparr>gd_orders := t'\<rparr>"
    using assms(2) by (auto simp: tx_iffs)
  then have "t' = \<lparr>ox_ids = ox_ids (gd_orders db), ox_rows = (ox_rows (gd_orders db))(eo_client_order_id r \<mapsto> r')\<rparr>"
      "eo_origin r' = APPLICATION"
    using assms(3) by (auto simp: update_order_Inr_iff)
  with table_orders_upd [of "ox_ids (gd_orders db)" "eo_client_order_id r" "gd_orders db" r'] assms(1) t(2)
  show ?thesis by (auto simp: quiet_db_def)
qed

lemma quiet_insert_order:
  assumes "quiet_db db" "tx_insert_order r db = Inr db'" "eo_origin r = APPLICATION"
  shows "quiet_db db'"
proof -
  obtain r' t' where t: "insert_execution_order r (gd_orders db) = Inr (r', t')" "db' = db\<lparr>gd_orders := t'\<rparr>"
    using assms(2) by (auto simp: tx_iffs)
  then have "t' = \<lparr>ox_ids = ox_ids (gd_orders db) @ [eo_client_order_id r],
      ox_rows = (ox_rows (gd_orders db))(eo_client_order_id r \<mapsto> r)\<rparr>"
    by (auto simp: insert_order_Inr_iff)
  with table_orders_upd [of "ox_ids (gd_orders db) @ [eo_client_order_id r]" "eo_client_order_id r" "gd_orders db" r]
    assms(1,3) t(2)
  show ?thesis by (auto simp: quiet_db_def)
qed

lemma quiet_same [simp]:
  "quiet_db (db\<lparr>gd_commands := c\<rparr>) = quiet_db db" "quiet_db (db\<lparr>gd_reservations := v\<rparr>) = quiet_db db"
  by (simp_all add: quiet_db_def)

text \<open>An order without a broker identity meets no unique constraint but its own key.\<close>

lemma fresh_order_not_held:
  "eo_broker_order_id r = [] \<Longrightarrow> eo_adopted_from_external_order_id r = []
     \<Longrightarrow> \<not> held_by_any identity_key_or_none r t \<and> \<not> held_by_any adoption_source_or_none r t"
  by (simp add: held_by_any_def identity_key_or_none_def adoption_source_or_none_def)

lemma sample_command:
  assumes "py_strip key \<noteq> []"
  obtains c where "new_command sample_gateway_config now key kind en ac ti lease target src = Inr c"
    "ec_requested_at c = Some now" "ec_idempotency_key c = py_strip key" "ec_status c = CS_REQUESTED"
proof -
  obtain c where c: "new_command sample_gateway_config now key kind en ac ti lease target src = Inr c"
    using assms by (auto simp: new_command_def command_post_init_def Let_def sample_gateway_config_def)
  with that new_command_requested [OF c] command_row_key [OF c] show ?thesis by blast
qed

subsection \<open>The order and the request\<close>

definition old_sell :: execution_order where
  "old_sell = sample_order\<lparr>eo_side := SELL, eo_intent := STOP_LOSS, eo_broker_order_id := ''B1'',
     eo_broker_identity_status := EXACT, eo_status := WORKING\<rparr>"

definition sample_replace :: replace_request where
  "sample_replace = \<lparr>rr_client_order_id = ''c1'', rr_replace_command_id = ''x1'', rr_new_client_order_id = ''c2'',
     rr_new_quantity = 10, rr_new_limit_price = Fin 50, rr_environment = ''PROD'', rr_account_no = ''1'',
     rr_lease = Some sample_lease, rr_source = SYSTEM, rr_strategy_instance_id = [],
     rr_pre_trade_risk_decision = None, rr_risk_strategy_id = [], rr_risk_plan_id = []\<rparr>"

definition sample_replace_db :: gateway_db where
  "sample_replace_db = (sample_gateway_db ''main'' 1)
     \<lparr>gd_orders := \<lparr>ox_ids = [''c1''], ox_rows = [''c1'' \<mapsto> old_sell]\<rparr>\<rparr>"

definition sample_leg :: leg_env where
  "sample_leg = \<lparr>le_env = sample_gateway_env, le_clock = 5, le_gate_env = sample_gateway_env, le_end_clock = 6,
     le_response = [], le_other = (\<lambda>_ d. d)\<rparr>"

definition cancel_seen :: broker_snapshot where
  "cancel_seen = \<lparr>bs_status = OS_CANCELLED, bs_filled_quantity = 0, bs_remaining_quantity = 0,
     bs_avg_fill_price = Fin 0, bs_broker_order_id = ''B1'', bs_raw_response = []\<rparr>"

lemma strips: "py_strip ''c1'' = ''c1''" "py_strip ''c2'' = ''c2''" "py_strip ''x1'' = ''x1''"
  "py_strip ''x1:CANCEL'' = ''x1:CANCEL''" "py_upper ''PROD'' = ''PROD''" "py_upper ''AAPL'' = ''AAPL''"
  "py_strip ''REPLACE:x1'' = ''REPLACE:x1''" "py_strip ''CANCEL:x1:CANCEL'' = ''CANCEL:x1:CANCEL''"
  "py_strip ''SUBMIT:c2'' = ''SUBMIT:c2''"
  by code_simp+

lemma sample_replace_normal: "replace_request_post_init sample_replace = sample_replace"
  by (simp add: replace_request_post_init_def sample_replace_def strips)

lemma sample_checks:
  assumes "quiet_db db" "ox_rows (gd_orders db) ''c2'' = None"
  shows "replace_checks sample_gateway_config sample_gateway_env sample_replace old_sell db = Inr (Fin 50, None)"
proof -
  have "cancellable_for_replace old_sell"
    by (simp add: cancellable_for_replace_def old_sell_def sample_order_def)
  moreover have "\<not> is_entry_order old_sell" "eo_environment old_sell = ''PROD''" "eo_account_no old_sell = ''1''"
      "eo_symbol old_sell = ''AAPL''" "eo_execution_policy old_sell \<noteq> RESERVED_MOO_EXECUTION"
    by (simp_all add: is_entry_order_def old_sell_def sample_order_def REGULAR_LIMIT_EXECUTION_def RESERVED_MOO_EXECUTION_def)
  ultimately show ?thesis
    using quiet_ownership [OF assms(1)] quiet_lease [OF assms(1)] assms(2)
    by (simp add: replace_checks_def sample_replace_def replace_limit_price_def replace_entry_spec_def guard_simps
        get_execution_order_def require_budget_available_def sample_gateway_env_def)
qed

lemma journal_sample:
  assumes "quiet_db db" "cm_rows (gd_commands db) ''REPLACE:x1'' = None"
  obtains c where "journal_replace sample_gateway_config sample_gateway_env sample_replace old_sell (Fin 50) None db
      = Inr (None, db\<lparr>gd_commands := (gd_commands db)
          \<lparr>cm_keys := cm_keys (gd_commands db) @ [''REPLACE:x1''],
           cm_rows := (cm_rows (gd_commands db))(''REPLACE:x1'' \<mapsto> c),
           cm_next_id := cm_next_id (gd_commands db) + 1\<rparr>\<rparr>)" "ec_status c = CS_REQUESTED"
proof -
  have k: "replace_key (rr_replace_command_id sample_replace) = ''REPLACE:x1''"
    by (simp add: replace_key_def sample_replace_def)
  have "py_strip ''REPLACE:x1'' \<noteq> []" by (simp add: strips)
  from sample_command [OF this, of "ge_now sample_gateway_env" CT_REPLACE "eo_environment old_sell" "eo_account_no old_sell"
      "eo_symbol old_sell" "rr_lease sample_replace" "eo_broker_order_id old_sell" "source_value (rr_source sample_replace)"]
  obtain c where c: "new_command sample_gateway_config (ge_now sample_gateway_env) ''REPLACE:x1'' CT_REPLACE
        (eo_environment old_sell) (eo_account_no old_sell) (eo_symbol old_sell) (rr_lease sample_replace)
        (eo_broker_order_id old_sell) (source_value (rr_source sample_replace)) = Inr c"
      "ec_requested_at c = Some (ge_now sample_gateway_env)" "ec_idempotency_key c = ''REPLACE:x1''"
      "ec_status c = CS_REQUESTED"
    unfolding strips by blast
  from c assms(2) have "tx_insert_command c db = Inr (db\<lparr>gd_commands := (gd_commands db)
          \<lparr>cm_keys := cm_keys (gd_commands db) @ [''REPLACE:x1''],
           cm_rows := (cm_rows (gd_commands db))(''REPLACE:x1'' \<mapsto> c\<lparr>ec_command_id := Some (cm_next_id (gd_commands db))\<rparr>),
           cm_next_id := cm_next_id (gd_commands db) + 1\<rparr>\<rparr>)"
    by (auto simp: tx_iffs insert_command_Inr_iff)
  with that [of "c\<lparr>ec_command_id := Some (cm_next_id (gd_commands db))\<rparr>"] c k quiet_fence [OF assms(1)]
  show ?thesis by (simp add: journal_replace_def)
qed

subsection \<open>The cancellation leg\<close>

definition old_pending :: execution_order where
  "old_pending = old_sell\<lparr>eo_status := CANCEL_PENDING, eo_version := 2\<rparr>"

definition old_cancelled :: execution_order where
  "old_cancelled = old_sell\<lparr>eo_status := CANCELLED, eo_version := 3\<rparr>"

lemma old_transitions:
  "transition_or_raise 5 CANCEL_PENDING None old_sell = Inr (old_pending\<lparr>eo_version := 1\<rparr>)"
  "apply_cancel_answer 6 cancel_seen old_pending = Inr (old_cancelled\<lparr>eo_version := 2\<rparr>)"
  by (simp_all add: transition_or_raise_def apply_cancel_answer_def absorb_snapshot_def old_sell_def old_pending_def
      old_cancelled_def cancel_seen_def order_eval truthy_def)

definition holds_old :: "execution_order \<Rightarrow> gateway_db \<Rightarrow> bool" where
  "holds_old old db \<longleftrightarrow> quiet_db db \<and> gd_orders db = \<lparr>ox_ids = [''c1''], ox_rows = [''c1'' \<mapsto> old]\<rparr>
     \<and> gd_reservations db = empty_reservations"

lemma holds_old_written:
  assumes "holds_old cur db" "validate_consistency r = None" "eo_client_order_id r = ''c1''" "eo_client_order_id cur = ''c1''"
    "eo_environment r = eo_environment cur" "eo_account_no r = eo_account_no cur" "eo_symbol r = eo_symbol cur"
    "eo_origin r = APPLICATION" "eo_version r = eo_version cur"
  obtains db' where "tx_update_order r db = Inr (r\<lparr>eo_version := eo_version r + 1\<rparr>, db')"
    "holds_old (r\<lparr>eo_version := eo_version r + 1\<rparr>) db'" "gd_commands db' = gd_commands db"
proof -
  let ?old = "r\<lparr>eo_version := eo_version r + 1\<rparr>"
  have u: "tx_update_order r db = Inr (?old, db\<lparr>gd_orders := \<lparr>ox_ids = [''c1''], ox_rows = [''c1'' \<mapsto> ?old]\<rparr>\<rparr>)"
    using assms update_single_order [of r "''c1''" cur] by (simp add: holds_old_def tx_update_order_def)
  from that [OF u] quiet_update_order [OF _ u] assms(1,8) show ?thesis by (auto simp: holds_old_def)
qed

abbreviation leg_cancel :: cancel_request where
  "leg_cancel \<equiv> cancel_request_post_init (replacement_cancel sample_replace)"

lemma leg_cancel_fields: "xr_client_order_id leg_cancel = ''c1''" "xr_cancel_command_id leg_cancel = ''x1:CANCEL''"
  "xr_environment leg_cancel = ''PROD''" "xr_account_no leg_cancel = ''1''" "xr_lease leg_cancel = Some sample_lease"
  "xr_source leg_cancel = SYSTEM" "xr_strategy_instance_id leg_cancel = []"
  "cancel_key ''x1:CANCEL'' = ''CANCEL:x1:CANCEL''"
  by (simp_all add: cancel_request_post_init_def replacement_cancel_def sample_replace_def strips cancel_key_def)

lemma old_sell_fields: "eo_environment old_sell = ''PROD''" "eo_account_no old_sell = ''1''" "eo_symbol old_sell = ''AAPL''"
  "eo_client_order_id old_sell = ''c1''" "eo_version old_sell = 1" "eo_origin old_sell = APPLICATION"
  "cancellable_for_replace old_sell" "eo_capital_reservation_id old_sell = []"
  by (simp_all add: old_sell_def sample_order_def cancellable_for_replace_def)

lemma cancel_leg:
  assumes db: "holds_old old_sell db" and free: "cm_rows (gd_commands db) ''CANCEL:x1:CANCEL'' = None"
  obtains db' where "do_cancel sample_gateway_config sample_gateway_env 5 sample_gateway_env 6 cancellable_for_replace
      True [] (CancelAnswered cancel_seen) (\<lambda>_ d. d) leg_cancel old_sell db = (Inr old_cancelled, db', True)"
    "holds_old old_cancelled db'"
    "\<And>k. k \<noteq> ''CANCEL:x1:CANCEL'' \<Longrightarrow> cm_rows (gd_commands db') k = cm_rows (gd_commands db) k"
proof -
  let ?gw = sample_gateway_config and ?e = sample_gateway_env and ?key = "''CANCEL:x1:CANCEL''"
  have quiet: "quiet_db db" using db by (simp add: holds_old_def)
  have guards: "cancel_guards ?e cancellable_for_replace leg_cancel old_sell db = None"
    using quiet_ownership [OF quiet] quiet_lease [OF quiet]
    by (simp add: cancel_guards_def leg_cancel_fields old_sell_fields require_budget_available_def sample_gateway_env_def)
  have "py_strip ?key \<noteq> []" by (simp add: strips)
  from sample_command [OF this, of 5 CT_CANCEL "''PROD''" "''1''" "''AAPL''" "Some sample_lease"
      "eo_broker_order_id old_sell" "source_value SYSTEM"]
  obtain c where c: "new_command ?gw 5 ?key CT_CANCEL ''PROD'' ''1'' ''AAPL'' (Some sample_lease)
        (eo_broker_order_id old_sell) (source_value SYSTEM) = Inr c"
      "ec_requested_at c = Some 5" "ec_idempotency_key c = ?key" "ec_status c = CS_REQUESTED"
    unfolding strips by blast
  let ?c1 = "c\<lparr>ec_command_id := Some (cm_next_id (gd_commands db))\<rparr>"
  obtain db1 where db1: "tx_insert_command c db = Inr db1" "holds_old old_sell db1"
      "cm_rows (gd_commands db1) = (cm_rows (gd_commands db))(?key \<mapsto> ?c1)"
    using c free db by (simp add: tx_insert_command_def insert_command_def Let_def holds_old_def guard_simps)
  have p: "validate_consistency (old_pending\<lparr>eo_version := 1\<rparr>) = None" "validate_consistency old_cancelled = None"
    by (simp_all add: old_pending_def old_cancelled_def old_sell_def order_eval)
  obtain db2 where db2: "tx_update_order (old_pending\<lparr>eo_version := 1\<rparr>) db1 = Inr (old_pending, db2)"
      "holds_old old_pending db2" "gd_commands db2 = gd_commands db1"
    by (rule holds_old_written [OF db1(2) p(1)])
      (use that in \<open>simp_all add: old_pending_def old_sell_fields\<close>)
  have j: "journal_cancel ?gw 5 leg_cancel old_sell db = Inr (old_pending, db2)"
    using c(1) db1(1) db2(1) quiet_fence [OF quiet] old_transitions(1)
    by (simp add: journal_cancel_def leg_cancel_fields old_sell_fields)
  have quiet2: "quiet_db db2" using db2(2) by (simp add: holds_old_def)
  have of: "eo_environment old_pending = ''PROD''" "eo_account_no old_pending = ''1''" "eo_symbol old_pending = ''AAPL''"
    by (simp_all add: old_pending_def old_sell_fields)
  have gate: "cancel_gate ?e leg_cancel old_pending db2 = None"
    using quiet_ownership [OF quiet2] quiet_lease [OF quiet2] quiet_fence [OF quiet2]
    by (simp add: cancel_gate_def leg_cancel_fields of sample_gateway_env_def sample_live_allowed)
  obtain db3 where db3: "tx_update_order (old_cancelled\<lparr>eo_version := 2\<rparr>) db2 = Inr (old_cancelled, db3)"
      "holds_old old_cancelled db3" "gd_commands db3 = gd_commands db2"
    by (rule holds_old_written [OF db2(2), of "old_cancelled\<lparr>eo_version := 2\<rparr>"])
      (use that p(2) in \<open>simp_all add: old_pending_def old_cancelled_def old_sell_fields\<close>)
  obtain c4 t4 where c4: "update_command_response (gw_redact ?gw) ?key CS_ACKNOWLEDGED (bs_raw_response cancel_seen) None
        (gd_commands db3) = Inr (c4, t4)"
    using c(4) db1(3) db2(3) db3(3) by (auto simp: update_command_Inr_iff)
  let ?db4 = "db3\<lparr>gd_commands := t4\<rparr>"
  have settle: "settle_cancel ?gw 6 True (CancelAnswered cancel_seen) leg_cancel old_pending db2 = (Inr old_cancelled, ?db4)"
    using old_transitions(2) db3(1) c4
    by (simp add: settle_cancel_def Let_def leg_cancel_fields persist_cancel_success_def tx_update_command_def)
      (simp add: old_cancelled_def old_sell_fields)
  have "cm_rows t4 k = cm_rows (gd_commands db) k" if "k \<noteq> ?key" for k
    using c4 db1(3) db2(3) db3(3) that by (auto simp: update_command_Inr_iff)
  moreover have "holds_old old_cancelled ?db4" using db3(2) by (simp add: holds_old_def)
  moreover have "do_cancel ?gw ?e 5 ?e 6 cancellable_for_replace True [] (CancelAnswered cancel_seen) (\<lambda>_ d. d)
      leg_cancel old_sell db = (Inr old_cancelled, ?db4, True)"
    by (simp add: do_cancel_def guards j gate settle)
  ultimately show ?thesis using that by simp
qed

subsection \<open>The inquiry\<close>

definition old_confirmed :: execution_order where
  "old_confirmed = old_cancelled\<lparr>eo_remaining_quantity := 0, eo_version := 5\<rparr>"

lemma confirm_leg:
  assumes db: "holds_old old_cancelled db"
  obtains db' where "confirm_cancel 7 [[], [cancel_seen]] ''c1'' db = Inr (Some old_confirmed, db')"
    "holds_old old_confirmed db'" "gd_commands db' = gd_commands db"
proof -
  let ?d = "old_cancelled\<lparr>eo_recovery_state := DISCOVERING, eo_version := 4\<rparr>"
  have row: "get_execution_order (gd_orders db) ''c1'' = Some old_cancelled" using db by (simp add: holds_old_def get_execution_order_def)
  have v: "validate_consistency (?d\<lparr>eo_version := 3\<rparr>) = None" "validate_consistency (old_confirmed\<lparr>eo_version := 4\<rparr>) = None"
    by (simp_all add: old_confirmed_def old_cancelled_def old_sell_def order_eval)
  have t: "transition_recovery_state DISCOVERING old_cancelled = Inr (?d\<lparr>eo_version := 3\<rparr>)"
    by (simp add: transition_recovery_Inr old_cancelled_def old_sell_def order_eval)
  obtain db1 where db1: "tx_update_order (?d\<lparr>eo_version := 3\<rparr>) db = Inr (?d, db1)" "holds_old ?d db1" "gd_commands db1 = gd_commands db"
    by (rule holds_old_written [OF db v(1)]) (use that in \<open>simp_all add: old_cancelled_def old_sell_fields\<close>)
  obtain db2 where db2: "tx_update_order (old_confirmed\<lparr>eo_version := 4\<rparr>) db1 = Inr (old_confirmed, db2)"
      "holds_old old_confirmed db2" "gd_commands db2 = gd_commands db1"
    by (rule holds_old_written [OF db1(2) v(2)])
      (use that in \<open>simp_all add: old_confirmed_def old_cancelled_def old_sell_fields\<close>)
  have e: "with_cancel_evidence cancel_seen CANCELLED ?d = old_confirmed\<lparr>eo_recovery_state := DISCOVERING, eo_version := 4\<rparr>"
    by (simp add: with_cancel_evidence_def Let_def cancel_seen_def old_confirmed_def old_cancelled_def old_sell_def
        sample_order_def truthy_def)
  have r: "transition_recovery_state ORS_NONE (old_confirmed\<lparr>eo_recovery_state := DISCOVERING, eo_version := 4\<rparr>)
      = Inr (old_confirmed\<lparr>eo_version := 4\<rparr>)"
    by (simp add: transition_recovery_Inr old_confirmed_def old_cancelled_def old_sell_def order_eval)
  have s0: "eo_status old_cancelled = CANCELLED" "eo_recovery_state old_cancelled = ORS_NONE"
    by (simp_all add: old_cancelled_def old_sell_def sample_order_def)
  have st: "bs_status cancel_seen = OS_CANCELLED" "eo_status ?d = CANCELLED"
    by (simp_all add: cancel_seen_def old_cancelled_def)
  have a: "apply_authoritative_cancel_snapshot 7 cancel_seen ?d db1 = Inr (True, old_confirmed, db2)"
    unfolding apply_authoritative_cancel_snapshot_def Let_def st by (simp add: e r db2(1))
  have same: "same_broker_order_id (bs_broker_order_id cancel_seen) (eo_broker_order_id ?d)"
    by (simp add: same_broker_order_id_def cancel_seen_def old_cancelled_def old_sell_def py_strip_B1)
  have w: "wait_for_cancel_terminal 7 [[], [cancel_seen]] ?d db1 = Inr (old_confirmed, db2)"
    using same a by simp
  have "confirm_cancel 7 [[], [cancel_seen]] ''c1'' db = Inr (Some old_confirmed, db2)"
    using row t db1(1) w s0 st(2)
    by (simp add: confirm_cancel_def del: wait_for_cancel_terminal.simps execution_order.update_convs)
  with that db2 db1(3) show ?thesis by simp
qed

subsection \<open>The submission leg\<close>

abbreviation leg_submit :: submit_request where
  "leg_submit \<equiv> submit_request_post_init (replacement_submit sample_replace old_confirmed 10 (Fin 50) [] 0)"

lemma leg_submit_is: "leg_submit = sample_submit
    \<lparr>sr_client_order_id := ''c2'', sr_attempt_number := 2, sr_replaces_execution_order_id := ''c1''\<rparr>"
  by (simp add: submit_request_post_init_def replacement_submit_def sample_replace_def old_confirmed_def
      old_cancelled_def old_sell_def sample_order_def sample_submit_def strips REGULAR_LIMIT_EXECUTION_def)

lemma leg_submit_fields: "sr_client_order_id leg_submit = ''c2''" "sr_quantity leg_submit = 10" "sr_side leg_submit = SELL"
  "sr_intent leg_submit = STOP_LOSS" "sr_source leg_submit = SYSTEM" "sr_lease leg_submit = Some sample_lease"
  "sr_prepared_capital_reservation_id leg_submit = []" "sr_execution_policy leg_submit \<noteq> RESERVED_MOO_EXECUTION"
  "sr_limit_price leg_submit = Fin 50" "sr_environment leg_submit = ''PROD''" "submit_key ''c2'' = ''SUBMIT:c2''"
  unfolding leg_submit_is by (simp_all add: sample_submit_def RESERVED_MOO_EXECUTION_def submit_key_def)

lemma leg_gate:
  assumes "quiet_db db" "ps_request p = leg_submit"
  shows "submit_gate sample_gateway_config sample_gateway_env p db = None"
  using quiet_ownership [OF assms(1)] quiet_lease [OF assms(1)] quiet_fence [OF assms(1)] assms(2)
  by (simp add: submit_gate_def Let_def leg_submit_fields entry_risk_approval_def is_new_entry_def
      require_live_entry_allowed_def sample_text_normal sample_live_allowed sample_gateway_env_def)

lemma leg_prepared:
  assumes "quiet_db db"
  obtains p where "prepare_submit sample_gateway_config sample_gateway_env ''r1'' leg_submit db = Inr p"
    "ps_request p = leg_submit" "ps_notional p = Fin 0" "submit_id p = ''c2''"
proof -
  let ?now = "ge_now sample_gateway_env"
  have guards: "submit_guards sample_gateway_env leg_submit db = None"
    using quiet_ownership [OF assms] quiet_lease [OF assms]
    by (simp add: submit_guards_def require_trading_def require_trading_enabled_def sample_gateway_env_def
        is_trading_locked_disabled_def leg_submit_fields is_new_entry_def require_budget_available_def)
  have price: "submit_limit_price leg_submit = Inr (Fin 50)"
    using leg_submit_fields by (simp add: submit_limit_price_def)
  have approval: "entry_risk_approval sample_gateway_config now leg_submit n lp = Inr None" for now n lp
    by (simp add: entry_risk_approval_def is_new_entry_def leg_submit_fields)
  have notional: "submit_notional leg_submit (Fin 50) = Fin 0" by (simp add: submit_notional_def leg_submit_fields)
  obtain v where v: "submit_reservation ?now ''r1'' leg_submit (Fin 0) (spec_open_risk None) db = Inr v"
    by (simp add: submit_reservation_def leg_submit_fields)
  have "py_strip ''SUBMIT:c2'' \<noteq> []" by (simp add: strips)
  from sample_command [OF this, of ?now CT_SUBMIT "sr_environment leg_submit"
      "sr_account_no leg_submit" "sr_symbol leg_submit" "sr_lease leg_submit" "[]" "source_value (sr_source leg_submit)"]
  obtain c where c: "new_command sample_gateway_config ?now ''SUBMIT:c2'' CT_SUBMIT (sr_environment leg_submit)
      (sr_account_no leg_submit) (sr_symbol leg_submit) (sr_lease leg_submit) []
      (source_value (sr_source leg_submit)) = Inr c" by blast
  have "\<exists>r. new_execution_order ?now leg_submit 10 (Fin 50) (cr_reservation_id v) = Inr r"
    unfolding leg_submit_is
    by (simp add: new_execution_order_def execution_order_post_init_def Let_def sample_submit_def sample_lease_def
        guard_simps strips)
  then obtain r where r: "new_execution_order ?now leg_submit 10 (Fin 50) (cr_reservation_id v) = Inr r" by blast
  obtain p where p: "prepare_submit sample_gateway_config sample_gateway_env ''r1'' leg_submit db = Inr p"
    by (simp add: prepare_submit_def guards price approval leg_submit_fields notional v r Let_def
        c [unfolded leg_submit_fields source_value.simps])
  note f = prepare_submit_Inr [OF p]
  have "ps_notional p = Fin 0" using f price notional by auto
  with p f that show ?thesis by (simp add: submit_id_def leg_submit_fields)
qed

lemma leg_reserved:
  "submit_reservation now new_id leg_submit notional risk db = Inr v \<Longrightarrow> cr_requested_notional v = notional"
  by (auto simp: submit_reservation_def create_reservation_def reservation_post_init_def leg_submit_fields)

lemma new_order_bare:
  "new_execution_order now r quantity limit_price rid = Inr order
     \<Longrightarrow> eo_broker_order_id order = [] \<and> eo_adopted_from_external_order_id order = []"
  by (auto simp: new_execution_order_def execution_order_post_init_def Let_def guard_simps)

lemma submit_leg:
  assumes db: "holds_old old_confirmed db" and free: "cm_rows (gd_commands db) ''SUBMIT:c2'' = None"
  shows "\<exists>result db'. do_submit sample_gateway_config sample_gateway_env 5 sample_gateway_env 6 ''r1'' []
    (BrokerAccepted ''b2'' []) (\<lambda>_ d. d) leg_submit db = (result, db', True)"
proof -
  let ?gw = sample_gateway_config
  have quiet: "quiet_db db" using db by (simp add: holds_old_def)
  obtain p where p: "prepare_submit ?gw sample_gateway_env ''r1'' leg_submit db = Inr p"
      "ps_request p = leg_submit" "ps_notional p = Fin 0" "submit_id p = ''c2''"
    by (rule leg_prepared [OF quiet])
  note f = prepare_submit_Inr [OF p(1)]
  let ?v = "ps_reservation p" and ?r = "ps_record p" and ?c = "ps_command p"
  have o: "new_execution_order (ge_now sample_gateway_env) leg_submit (sr_quantity leg_submit) (ps_limit_price p)
      (cr_reservation_id ?v) = Inr ?r" using f by blast
  have r: "eo_client_order_id ?r = ''c2''" "eo_status ?r = PREPARED" "validate_consistency ?r = None"
      "order_wf ?r" "eo_origin ?r = APPLICATION" "eo_version ?r = 1"
    using new_execution_order_fields [OF o] new_execution_order_wf [OF o] by (simp_all add: leg_submit_fields strips)
  have bare: "eo_broker_order_id ?r = []" "eo_adopted_from_external_order_id ?r = []"
    using new_order_bare [OF o] by simp_all
  have c: "ec_requested_at ?c \<noteq> None" "ec_idempotency_key ?c = ''SUBMIT:c2''"
    using f new_command_requested command_row_key by (fastforce simp: leg_submit_fields strips)+
  obtain db1 where db1: "tx_insert_command ?c db = Inr db1" "holds_old old_confirmed db1"
    using c free db by (auto simp: tx_insert_command_def insert_command_def Let_def holds_old_def guard_simps)
  have v: "cr_requested_notional ?v = Fin 0"
    using f p(3) leg_reserved by metis
  have "insert_reservation_if_available ?v bp spec empty_reservations
      = Inr \<lparr>rt_ids = [cr_reservation_id ?v], rt_rows = [cr_reservation_id ?v \<mapsto> ?v]\<rparr>" for bp spec
    using v by (simp add: insert_reservation_if_available_def insert_reservation_def empty_reservations_def)
  then obtain t where cap: "reserve_capital p db1 = Inr (?v, db1\<lparr>gd_reservations := t\<rparr>)"
    using p(2) db1(2) by (simp add: reserve_capital_def Let_def leg_submit_fields holds_old_def)
  let ?db2 = "db1\<lparr>gd_reservations := t\<rparr>"
  have "ox_rows (gd_orders ?db2) ''c2'' = None" using db1(2) by (simp add: holds_old_def)
  with r bare fresh_order_not_held [OF bare] obtain db3 where db3: "tx_insert_order ?r ?db2 = Inr db3"
      "ox_rows (gd_orders db3) ''c2'' = Some ?r"
    by (auto simp: tx_iffs insert_order_Inr_iff)
  have quiet2: "quiet_db ?db2" using db1(2) by (simp add: holds_old_def)
  have quiet3: "quiet_db db3" by (rule quiet_insert_order [OF quiet2 db3(1) r(5)])
  have j: "journal_submit p db = Inr (?v, db3)"
    using db1(1) cap db3(1) quiet_fence [OF quiet] by (simp add: journal_submit_def Let_def)
  obtain r2 where t: "apply_status_transition 5 SUBMITTING None ?r = (None, r2)" "order_wf r2"
    using apply_transition_moves [OF r(4), of SUBMITTING] r(2) by auto
  have bare2: "eo_broker_order_id r2 = []" "eo_adopted_from_external_order_id r2 = []"
    using t(1) bare by (auto simp: transition_defs split: option.splits prod.splits if_splits)
  note kept = transition_keeps [OF t(1)]
  obtain order db4 where b: "begin_submitting 5 p db3 = Inr (order, db4)"
    using t(2) db3(2) kept r(1,6) fresh_order_not_held [OF bare2] held_other_any
    by (auto simp: begin_submitting_def transition_or_raise_def t(1) tx_update_order_iff update_order_Inr_iff
        order_wf_def)
  have "tx_update_order r2 db3 = Inr (order, db4)"
    using b by (simp add: begin_submitting_def transition_or_raise_def t(1))
  with quiet_update_order [OF quiet3 this] kept r(5) have quiet4: "quiet_db db4" by simp
  from leg_gate [OF quiet4 p(2)] show ?thesis
    by (simp add: do_submit_def p(1) j b split: prod.split)
qed

subsection \<open>The whole replacement\<close>

lemma sample_replaced:
  "\<exists>result db'. do_replace sample_gateway_config sample_gateway_env 7 sample_leg (CancelAnswered cancel_seen)
     [[], [cancel_seen]] False sample_leg ''r1'' (BrokerAccepted ''b2'' []) (\<lambda>_ d. d) sample_replace old_sell
     sample_replace_db = (result, db', True, True)"
proof -
  let ?gw = sample_gateway_config and ?e = sample_gateway_env and ?db = sample_replace_db
  have db: "holds_old old_sell ?db" "cm_rows (gd_commands ?db) = Map.empty"
    using sample_lease_current
    by (simp_all add: holds_old_def sample_replace_db_def sample_gateway_db_def empty_commands_def quiet_db_def
        in_table_orders old_sell_fields)
  have checks: "replace_checks ?gw ?e sample_replace old_sell ?db = Inr (Fin 50, None)"
    using db by (intro sample_checks) (simp_all add: holds_old_def)
  obtain c where j: "journal_replace ?gw ?e sample_replace old_sell (Fin 50) None ?db = Inr (None, ?db\<lparr>gd_commands :=
      (gd_commands ?db)\<lparr>cm_keys := cm_keys (gd_commands ?db) @ [''REPLACE:x1''],
         cm_rows := (cm_rows (gd_commands ?db))(''REPLACE:x1'' \<mapsto> c), cm_next_id := cm_next_id (gd_commands ?db) + 1\<rparr>\<rparr>)"
    using journal_sample [of ?db] db by (auto simp: holds_old_def)
  then obtain db1 where j: "journal_replace ?gw ?e sample_replace old_sell (Fin 50) None ?db = Inr (None, db1)"
      "holds_old old_sell db1" "cm_rows (gd_commands db1) = [''REPLACE:x1'' \<mapsto> c]"
    using db by (simp add: holds_old_def)
  obtain db2 where c: "do_cancel ?gw ?e 5 ?e 6 cancellable_for_replace True [] (CancelAnswered cancel_seen) (\<lambda>_ d. d)
      leg_cancel old_sell db1 = (Inr old_cancelled, db2, True)" "holds_old old_cancelled db2"
      "\<And>k. k \<noteq> ''CANCEL:x1:CANCEL'' \<Longrightarrow> cm_rows (gd_commands db2) k = cm_rows (gd_commands db1) k"
    using cancel_leg [OF j(2)] j(3) by auto
  obtain db3 where w: "confirm_cancel 7 [[], [cancel_seen]] ''c1'' db2 = Inr (Some old_confirmed, db3)"
      "holds_old old_confirmed db3" "gd_commands db3 = gd_commands db2"
    by (rule confirm_leg [OF c(2)])
  have free: "cm_rows (gd_commands db3) ''SUBMIT:c2'' = None" using w(3) c(3) j(3) by simp
  obtain result db4 where s: "do_submit ?gw ?e 5 ?e 6 ''r1'' [] (BrokerAccepted ''b2'' []) (\<lambda>_ d. d) leg_submit db3
      = (result, db4, True)"
    using submit_leg [OF w(2) free] by blast
  have safe: "replacement_refused 7 (eo_filled_quantity old_sell) None False (Some old_confirmed) db3 = None"
    by (simp add: replacement_refused_def old_confirmed_def old_cancelled_def old_sell_def sample_order_def)
  have f: "rr_client_order_id sample_replace = ''c1''" "rr_new_quantity sample_replace = 10"
    by (simp_all add: sample_replace_def)
  show ?thesis
    unfolding do_replace_def checks
    by (simp add: j(1) sample_leg_def c(1) f w(1) safe s Let_def split: prod.split)
qed

theorem replacement_after_confirmed_cancel_witness:
  "\<exists>row :: execution_order. eo_filled_quantity old_sell = 0 \<and> told_cancelled [[], [cancel_seen]] (eo_broker_order_id row) 0"
proof -
  obtain result db' where run: "do_replace sample_gateway_config sample_gateway_env 7 sample_leg (CancelAnswered cancel_seen)
      [[], [cancel_seen]] False sample_leg ''r1'' (BrokerAccepted ''b2'' []) (\<lambda>_ d. d) sample_replace old_sell
      sample_replace_db = (result, db', True, True)"
    using sample_replaced by blast
  have "eo_filled_quantity old_sell = 0" by (simp add: old_sell_def sample_order_def)
  with replacement_after_confirmed_cancel [OF run] show ?thesis by auto
qed


end
