(* ===== verification/Account_Snapshot.thy ===== *)
theory Account_Snapshot
  imports Order_Types Market_Calendar
begin

text \<open>
  \<open>src/core/account_broker_snapshot.py\<close>, the broker's status row of \<open>src/core/order_state.py\<close> and
  \<open>fetch_account_broker_snapshot\<close> of \<open>src/services/account_reconciliation.py\<close>: what one pass knows of
  the account at the broker, with a completeness flag per source. What the broker returns is the
  argument; \<open>None\<close> is a call that raised or returned a wrong shape. The New York date of the
  observation is an argument, as everywhere in this development.
\<close>

subsection \<open>Rows\<close>

record order_snapshot =
  sn_symbol :: string
  sn_broker_order_id :: string
  sn_client_order_id :: string
  sn_side :: order_side
  sn_status :: order_status
  sn_quantity_requested :: int
  sn_filled_quantity :: int
  sn_remaining_quantity :: int
  sn_avg_fill_price :: pyfloat
  sn_limit_price :: pyfloat
  sn_raw_response :: json_dict
  sn_submitted_at :: "timestamp option" \<comment> \<open>\<open>None\<close>: empty, or not an ISO timestamp\<close>
  sn_checked_at :: string

definition order_snapshot_post_init :: "order_snapshot \<Rightarrow> order_snapshot" where
  "order_snapshot_post_init s = s\<lparr>sn_symbol := py_upper (sn_symbol s)\<rparr>"

record order_discovery =
  dc_snapshots :: "order_snapshot list"
  dc_open_orders_complete :: bool
  dc_history_complete :: bool
  dc_reserved_orders_complete :: bool
  dc_errors :: "string list"

definition no_discovery :: order_discovery where
  "no_discovery = \<lparr>dc_snapshots = [], dc_open_orders_complete = False, dc_history_complete = False,
     dc_reserved_orders_complete = False, dc_errors = []\<rparr>"

record account_holding =
  ah_symbol :: string
  ah_quantity :: int
  ah_average_price :: pyfloat
  ah_sellable_quantity :: "int option"

definition account_holding_post_init :: "account_holding \<Rightarrow> account_holding" where
  "account_holding_post_init h =
     h\<lparr>ah_symbol := py_upper (py_strip (ah_symbol h)), ah_quantity := max 0 (ah_quantity h),
       ah_sellable_quantity := map_option (max 0) (ah_sellable_quantity h)\<rparr>"

subsection \<open>Completeness\<close>

datatype reconciliation_action =
    RA_NEW_ENTRY | RA_CANCEL_KNOWN_ORDER | RA_POSITION_QUANTITY_UPDATE | RA_TERMINAL_ORDER_CONCLUSION
  | RA_RESERVED_MOO_RECONCILIATION | RA_EMERGENCY_SELL_ALL

record completeness =
  cp_holdings :: bool
  cp_open_orders :: bool
  cp_history :: bool
  cp_reserved_orders :: bool
  cp_account_balance :: bool

fun action_requirements :: "reconciliation_action \<Rightarrow> (completeness \<Rightarrow> bool) list" where
  "action_requirements RA_NEW_ENTRY = [cp_holdings, cp_open_orders, cp_account_balance]"
| "action_requirements RA_CANCEL_KNOWN_ORDER = [cp_open_orders]"
| "action_requirements RA_POSITION_QUANTITY_UPDATE = [cp_holdings]"
| "action_requirements RA_TERMINAL_ORDER_CONCLUSION = [cp_holdings, cp_open_orders, cp_history]"
| "action_requirements RA_RESERVED_MOO_RECONCILIATION = [cp_reserved_orders]"
| "action_requirements RA_EMERGENCY_SELL_ALL = [cp_holdings]"

definition completeness_allows :: "completeness \<Rightarrow> reconciliation_action \<Rightarrow> bool" where
  "completeness_allows c a \<longleftrightarrow> (\<forall>f \<in> set (action_requirements a). f c)"

subsection \<open>The account\<close>

datatype snapshot_error = HoldingsFailed | OrdersFailed | BalanceFailed | DiscoveryError string

record account_snapshot =
  ab_environment :: string
  ab_account_no :: string
  ab_completeness :: completeness
  ab_holdings :: "account_holding list"
  ab_orders :: "order_snapshot list"
  ab_buying_power :: "pyfloat option"
  ab_equity :: "pyfloat option"
  ab_observed_at :: timestamp
  ab_session_date :: date
  ab_snapshot_id :: string
  ab_errors :: "snapshot_error list"
  ab_notice_ids :: "string set"

definition account_snapshot_post_init :: "account_snapshot \<Rightarrow> account_snapshot" where
  "account_snapshot_post_init s =
     s\<lparr>ab_environment := py_upper (ab_environment s), ab_notice_ids := py_strip ` ab_notice_ids s - {[]}\<rparr>"

definition holding_for :: "account_snapshot \<Rightarrow> string \<Rightarrow> account_holding option" where
  "holding_for s symbol = List.find (\<lambda>h. ah_symbol h = py_upper symbol) (ab_holdings s)"

definition order_for_broker_id :: "account_snapshot \<Rightarrow> string \<Rightarrow> order_snapshot option" where
  "order_for_broker_id s broker_order_id =
     List.find (\<lambda>r. sn_broker_order_id r = py_strip broker_order_id) (ab_orders s)"

lemma allows_simps [simp]:
  "completeness_allows c RA_NEW_ENTRY \<longleftrightarrow> cp_holdings c \<and> cp_open_orders c \<and> cp_account_balance c"
  "completeness_allows c RA_CANCEL_KNOWN_ORDER \<longleftrightarrow> cp_open_orders c"
  "completeness_allows c RA_POSITION_QUANTITY_UPDATE \<longleftrightarrow> cp_holdings c"
  "completeness_allows c RA_TERMINAL_ORDER_CONCLUSION \<longleftrightarrow> cp_holdings c \<and> cp_open_orders c \<and> cp_history c"
  "completeness_allows c RA_RESERVED_MOO_RECONCILIATION \<longleftrightarrow> cp_reserved_orders c"
  "completeness_allows c RA_EMERGENCY_SELL_ALL \<longleftrightarrow> cp_holdings c"
  by (simp_all add: completeness_allows_def)

lemma holding_for_Some: "holding_for s symbol = Some h \<Longrightarrow> h \<in> set (ab_holdings s) \<and> ah_symbol h = py_upper symbol"
  by (auto simp: holding_for_def find_Some_iff)

subsection \<open>Extracting the holdings\<close>

text \<open>A value of the raw payload: null, a number with its text, or a text with what \<open>float\<close> makes of it.\<close>

datatype raw_value = RawNull | RawNumber string pyfloat | RawText string "pyfloat option"

type_synonym raw_row = "(string \<times> raw_value) list"

fun raw_truthy :: "raw_value \<Rightarrow> bool" where
  "raw_truthy RawNull = False"
| "raw_truthy (RawNumber t x) = truthy x"
| "raw_truthy (RawText t x) = (t \<noteq> [])"

fun raw_text :: "raw_value \<Rightarrow> string" where
  "raw_text RawNull = ''None''"
| "raw_text (RawNumber t x) = t"
| "raw_text (RawText t x) = t"

fun raw_float :: "raw_value \<Rightarrow> pyfloat option" where
  "raw_float RawNull = None"
| "raw_float (RawNumber t x) = Some x"
| "raw_float (RawText t x) = x"

definition raw_get :: "raw_row \<Rightarrow> string \<Rightarrow> raw_value \<Rightarrow> raw_value" where
  "raw_get row key otherwise = (case map_of row key of None \<Rightarrow> otherwise | Some v \<Rightarrow> v)"

text \<open>\<open>_parse_int\<close>: \<open>None\<close> when it raises (an infinity), otherwise the optional integer.\<close>

definition parse_int :: "raw_value \<Rightarrow> int option option" where
  "parse_int v =
     (if v = RawNull \<or> (\<exists>x. v = RawText [] x) then Some None
      else case raw_float v of
        None \<Rightarrow> Some None
      | Some x \<Rightarrow> if x = NaN then Some None else map_option (\<lambda>n. Some (max 0 n)) (py_int x))"

definition parse_float :: "raw_value \<Rightarrow> pyfloat" where
  "parse_float v = (if raw_truthy v then or_zero (raw_float v) else Fin 0)"

definition raw_symbol :: "raw_row \<Rightarrow> string" where
  "raw_symbol row =
     (let a = raw_get row ''symbol'' RawNull; b = raw_get row ''ovrs_pdno'' RawNull
      in py_upper (py_strip (if raw_truthy a then raw_text a else if raw_truthy b then raw_text b else [])))"

definition SELLABLE_KEYS :: "string list" where
  "SELLABLE_KEYS = [''sellable_quantity'', ''orderable_quantity'', ''ord_psbl_qty'', ''ovrs_ord_psbl_qty'']"

definition raw_sellable :: "raw_row \<Rightarrow> int option option" where
  "raw_sellable row =
     (case List.find (\<lambda>k. map_of row k \<noteq> None) SELLABLE_KEYS of
        None \<Rightarrow> Some None | Some k \<Rightarrow> parse_int (raw_get row k RawNull))"

text \<open>\<open>None\<close>: the conversion of an infinite quantity raised.\<close>

fun extract_account_holdings :: "raw_row list \<Rightarrow> account_holding list option" where
  "extract_account_holdings [] = Some []"
| "extract_account_holdings (row # rest) =
     (case parse_int (raw_get row ''quantity'' (raw_get row ''ovrs_cblc_qty'' RawNull)) of
        None \<Rightarrow> None
      | Some None \<Rightarrow> extract_account_holdings rest
      | Some (Some quantity) \<Rightarrow>
          if raw_symbol row = [] \<or> quantity \<le> 0 then extract_account_holdings rest
          else (case raw_sellable row of
                  None \<Rightarrow> None
                | Some sellable \<Rightarrow> map_option
                    ((#) (account_holding_post_init
                      \<lparr>ah_symbol = raw_symbol row, ah_quantity = quantity,
                       ah_average_price =
                         parse_float (raw_get row ''average_price'' (raw_get row ''pchs_avg_pric'' (RawNumber ''0.0'' (Fin 0)))),
                       ah_sellable_quantity = sellable\<rparr>))
                    (extract_account_holdings rest)))"

subsection \<open>Fetching\<close>

definition us_market_session_date :: "date \<Rightarrow> date" where
  "us_market_session_date market_day = previous_nyse_trading_day market_day"

text \<open>The balance comes from the position snapshot if an extractor is given and the holdings are
  complete, else from a provider if there is one; the inner \<open>None\<close> is a call that raised.\<close>

definition fetch_account_broker_snapshot ::
    "string \<Rightarrow> string \<Rightarrow> raw_row list option \<Rightarrow> order_discovery option
       \<Rightarrow> (pyfloat \<times> pyfloat) option option \<Rightarrow> pyfloat option option \<Rightarrow> timestamp \<Rightarrow> date \<Rightarrow> string
       \<Rightarrow> account_snapshot" where
  "fetch_account_broker_snapshot environment account_no positions discovered extractor provider observed_at
     market_day new_id =
     (let extracted = Option.bind positions extract_account_holdings;
          holdings_complete = (extracted \<noteq> None);
          discovery = (case discovered of None \<Rightarrow> no_discovery | Some d \<Rightarrow> d);
          asked = (if holdings_complete \<and> extractor \<noteq> None then map_option (map_option (\<lambda>(b, e). (b, Some e))) extractor
            else map_option (map_option (\<lambda>b. (b, None))) provider);
          balance = Option.bind asked id
      in account_snapshot_post_init
           \<lparr>ab_environment = environment, ab_account_no = account_no,
            ab_completeness = \<lparr>cp_holdings = holdings_complete, cp_open_orders = dc_open_orders_complete discovery,
              cp_history = dc_history_complete discovery, cp_reserved_orders = dc_reserved_orders_complete discovery,
              cp_account_balance = (balance \<noteq> None)\<rparr>,
            ab_holdings = (case extracted of None \<Rightarrow> [] | Some hs \<Rightarrow> hs), ab_orders = dc_snapshots discovery,
            ab_buying_power = map_option fst balance, ab_equity = Option.bind balance snd,
            ab_observed_at = observed_at, ab_session_date = us_market_session_date market_day,
            ab_snapshot_id = new_id,
            ab_errors = (if holdings_complete then [] else [HoldingsFailed])
              @ (if discovered = None then [OrdersFailed] else [])
              @ (if asked = Some None then [BalanceFailed] else []) @ map DiscoveryError (dc_errors discovery),
            ab_notice_ids = {}\<rparr>)"

text \<open>Every holding the extraction reports is positive, under an upper-case symbol, with a non-negative
  sellable quantity: what the decisions below rely on.\<close>

definition holding_wf :: "account_holding \<Rightarrow> bool" where
  "holding_wf h \<longleftrightarrow> 0 < ah_quantity h \<and> py_upper (ah_symbol h) = ah_symbol h \<and> ah_symbol h \<noteq> []
     \<and> (\<forall>n. ah_sellable_quantity h = Some n \<longrightarrow> 0 \<le> n)"

lemma extracted_wf: "extract_account_holdings rows = Some hs \<Longrightarrow> \<forall>h \<in> set hs. holding_wf h"
proof (induction rows arbitrary: hs)
  case (Cons row rows)
  then show ?case
    by (auto simp: holding_wf_def account_holding_post_init_def raw_symbol_def Let_def py_strip_upper
        split: option.splits if_splits)
qed simp

lemma fetched_holdings_wf:
  "h \<in> set (ab_holdings (fetch_account_broker_snapshot en ac ps d x p t m i)) \<Longrightarrow> holding_wf h"
  by (cases "Option.bind ps extract_account_holdings")
    (auto simp: fetch_account_broker_snapshot_def Let_def account_snapshot_post_init_def bind_eq_Some_conv extracted_wf)

text \<open>One failing source leaves the flags of the others alone.\<close>

lemma fetch_failures_independent:
  assumes "s = fetch_account_broker_snapshot en ac ps d x p t m i"
  shows "cp_holdings (ab_completeness s) \<longleftrightarrow> Option.bind ps extract_account_holdings \<noteq> None"
    and "cp_open_orders (ab_completeness s) \<longleftrightarrow> (\<exists>r. d = Some r \<and> dc_open_orders_complete r)"
    and "cp_history (ab_completeness s) \<longleftrightarrow> (\<exists>r. d = Some r \<and> dc_history_complete r)"
  unfolding assms
  by (auto simp: fetch_account_broker_snapshot_def Let_def account_snapshot_post_init_def no_discovery_def
      split: option.splits)

end
