(* ===== verification/Reconcile_Order.thy ===== *)
theory Reconcile_Order
  imports Account_Snapshot Gateway_Base
begin

text \<open>
  The order side of \<open>src/services/account_reconciliation.py\<close>: how a local order is classified, what an
  exact answer of the broker does to it, when a repeated absence counts, which broker rows an
  ambiguous submission may explain, and the only safe emergency liquidation.

  The text form of a moment or a date is a parameter (\<open>iso_format\<close>: \<open>isoformat\<close> and
  \<open>fromisoformat\<close>, with UTC where a text names no zone). The code mutates a copy of the record; here a
  function returns it.
\<close>

record iso_format =
  iso_text :: "timestamp \<Rightarrow> string"
  iso_moment :: "string \<Rightarrow> timestamp option"
  iso_day :: "date \<Rightarrow> string"

record reconcile_config =
  rg_iso :: iso_format
  rg_observation_interval :: int \<comment> \<open>\<open>DURABLE_ORDER_OBSERVATION_SECONDS\<close>\<close>
  rg_absence_interval :: int \<comment> \<open>\<open>MIN_ABSENCE_CONFIRMATION_INTERVAL_SECONDS\<close>\<close>
  rg_candidate_window :: int \<comment> \<open>\<open>AMBIGUOUS_SUBMISSION_CANDIDATE_WINDOW_SECONDS\<close>\<close>

definition in_seconds :: "int \<Rightarrow> int" where
  "in_seconds n = n * 1000000"

text \<open>A dictionary from a key to the objects of a list: the position of the last one that has it.\<close>

fun find_last :: "('a \<Rightarrow> bool) \<Rightarrow> 'a list \<Rightarrow> nat option" where
  "find_last P [] = None"
| "find_last P (x # xs) = (case find_last P xs of Some i \<Rightarrow> Some (Suc i) | None \<Rightarrow> if P x then Some 0 else None)"

lemma find_last_Some: "find_last P xs = Some i \<Longrightarrow> i < length xs \<and> P (xs ! i)"
  by (induction xs arbitrary: i) (auto split: option.splits if_splits)

lemma find_last_None: "find_last P xs = None \<longleftrightarrow> (\<forall>x \<in> set xs. \<not> P x)"
  by (induction xs) (auto split: option.splits)

subsection \<open>Classification\<close>

datatype reconciliation_category =
    RC_ENTRY_BUY | RC_ENTRY_COMPLETION_BUY | RC_PARTIAL_SELL | RC_SELL_ALL | RC_STOP_LOSS_SELL
  | RC_RESERVED_MOO_SELL | RC_UNKNOWN_SUBMISSION | RC_TERMINAL_ORDER | RC_MANUAL_BROKER_POSITION
  | RC_DISCOVERED_EXTERNAL_ORDER | RC_ORPHAN_CAPITAL_RESERVATION | RC_LIVE_ORDER_WITHOUT_RESERVATION
  | RC_UNRECOGNIZED

definition OPEN_EXECUTION_STATUSES :: "execution_order_status set" where
  "OPEN_EXECUTION_STATUSES =
     {PREPARED, SUBMITTING, ACKNOWLEDGED, WORKING, PARTIALLY_FILLED, CANCEL_PENDING, UNKNOWN_SUBMISSION_STATE}"

lemma open_or_terminal: "st \<in> OPEN_EXECUTION_STATUSES \<longleftrightarrow> st \<notin> TERMINAL_EXECUTION_ORDER_STATUSES"
  by (cases st) (simp_all add: OPEN_EXECUTION_STATUSES_def TERMINAL_EXECUTION_ORDER_STATUSES_def)

definition classify_execution_order :: "execution_order \<Rightarrow> trade_card option \<Rightarrow> reconciliation_category" where
  "classify_execution_order r found =
     (if eo_status r \<in> {SUBMITTING, UNKNOWN_SUBMISSION_STATE} \<or> eo_broker_identity_status r = AMBIGUOUS
      then RC_UNKNOWN_SUBMISSION
      else if eo_status r \<in> TERMINAL_EXECUTION_ORDER_STATUSES then RC_TERMINAL_ORDER
      else if eo_execution_policy r = RESERVED_MOO_EXECUTION then RC_RESERVED_MOO_SELL
      else if eo_side r = BUY \<and> eo_intent r = ENTRY
      then (case found of
              None \<Rightarrow> RC_ENTRY_BUY
            | Some c \<Rightarrow> if tc_board_status c = BS_OPEN_POSITION \<or> 0 < tc_entry_remaining_target_quantity c
                then RC_ENTRY_COMPLETION_BUY else RC_ENTRY_BUY)
      else if eo_side r = SELL \<and> eo_intent r = STOP_LOSS then RC_STOP_LOSS_SELL
      else if eo_side r = SELL \<and> eo_intent r \<in> {PARTIAL_EXIT, PARTIAL_TAKE_PROFIT} then RC_PARTIAL_SELL
      else if eo_side r = SELL \<and> (\<exists>c. found = Some c \<and> tc_board_status c = BS_SELL_ALL) then RC_SELL_ALL
      else RC_UNRECOGNIZED)"

definition operational_category ::
    "execution_order \<Rightarrow> trade_card option \<Rightarrow> reconciliation_category \<Rightarrow> reconciliation_category" where
  "operational_category r found classified =
     (if classified \<noteq> RC_TERMINAL_ORDER then classified
      else if eo_execution_policy r = RESERVED_MOO_EXECUTION then RC_RESERVED_MOO_SELL
      else if eo_side r = BUY \<and> eo_intent r = ENTRY
      then (if \<exists>c. found = Some c \<and> (0 < tc_broker_quantity c \<or> 0 < tc_entry_remaining_target_quantity c)
            then RC_ENTRY_COMPLETION_BUY else RC_ENTRY_BUY)
      else if eo_side r = SELL
      then (if eo_intent r = STOP_LOSS then RC_STOP_LOSS_SELL
            else if eo_intent r \<in> {PARTIAL_EXIT, PARTIAL_TAKE_PROFIT} then RC_PARTIAL_SELL else RC_SELL_ALL)
      else classified)"

subsection \<open>Emergency liquidation\<close>

definition owned :: "execution_order \<Rightarrow> bool" where
  "owned r \<longleftrightarrow> eo_origin r \<in> {APPLICATION, ORIGIN_USER_ADOPTED}"

definition exactly_known :: "execution_order \<Rightarrow> bool" where
  "exactly_known r \<longleftrightarrow> eo_broker_identity_status r = EXACT \<and> eo_broker_order_id r \<noteq> []"

definition open_sell_of :: "string \<Rightarrow> execution_order \<Rightarrow> bool" where
  "open_sell_of symbol r \<longleftrightarrow> eo_symbol r = py_upper symbol \<and> eo_side r = SELL
     \<and> eo_status r \<in> OPEN_EXECUTION_STATUSES \<and> owned r"

definition known_owned_working_sells :: "execution_order list \<Rightarrow> string \<Rightarrow> execution_order list" where
  "known_owned_working_sells orders symbol = filter (\<lambda>r. open_sell_of symbol r \<and> exactly_known r) orders"

datatype emergency_reason =
    NoReason | HoldingsUnavailable | NoHoldingRemains | UnresolvedOwnedSell | UnownedWorkingOrder
  | OwnedSellMutationUnresolved | CancelExactSell | UsingSellableQuantity | SellExposureUncertain

record emergency_decision =
  ed_quantity :: int
  ed_cancel_client_order_id :: string
  ed_manual_intervention :: bool
  ed_reason :: emergency_reason

definition manual_intervention :: "emergency_reason \<Rightarrow> emergency_decision" where
  "manual_intervention reason =
     \<lparr>ed_quantity = 0, ed_cancel_client_order_id = [], ed_manual_intervention = True, ed_reason = reason\<rparr>"

definition sell_quantity :: "int \<Rightarrow> emergency_reason \<Rightarrow> emergency_decision" where
  "sell_quantity n reason =
     \<lparr>ed_quantity = n, ed_cancel_client_order_id = [], ed_manual_intervention = False, ed_reason = reason\<rparr>"

definition unowned_working_orders :: "account_snapshot \<Rightarrow> string \<Rightarrow> execution_order list \<Rightarrow> order_snapshot list" where
  "unowned_working_orders s symbol orders =
     filter (\<lambda>b. sn_symbol b = py_upper symbol \<and> is_open_status (sn_status b)
       \<and> sn_broker_order_id b \<notin> eo_broker_order_id ` set (filter exactly_known orders)) (ab_orders s)"

definition decide_emergency_sell ::
    "account_snapshot \<Rightarrow> string \<Rightarrow> execution_order list \<Rightarrow> emergency_decision" where
  "decide_emergency_sell s symbol orders =
     (if \<not> completeness_allows (ab_completeness s) RA_EMERGENCY_SELL_ALL then manual_intervention HoldingsUnavailable
      else case holding_for s symbol of
        None \<Rightarrow> sell_quantity 0 NoHoldingRemains
      | Some holding \<Rightarrow>
          if ah_quantity holding \<le> 0 then sell_quantity 0 NoHoldingRemains
          else if list_ex (\<lambda>r. open_sell_of symbol r \<and> \<not> exactly_known r) orders
          then manual_intervention UnresolvedOwnedSell
          else if unowned_working_orders s symbol orders \<noteq> [] then manual_intervention UnownedWorkingOrder
          else (case known_owned_working_sells orders symbol of
                  first # rest \<Rightarrow>
                    if list_ex (\<lambda>r. eo_status r = CANCEL_PENDING \<or> eo_recovery_state r \<noteq> ORS_NONE) (first # rest)
                    then manual_intervention OwnedSellMutationUnresolved
                    else \<lparr>ed_quantity =
                            max 0 (ah_quantity holding - sum_list (map (\<lambda>r. max 0 (eo_remaining_quantity r)) (first # rest))),
                          ed_cancel_client_order_id = eo_client_order_id first,
                          ed_manual_intervention = False, ed_reason = CancelExactSell\<rparr>
                | [] \<Rightarrow>
                    if cp_open_orders (ab_completeness s) then sell_quantity (ah_quantity holding) NoReason
                    else (case ah_sellable_quantity holding of
                            Some n \<Rightarrow> sell_quantity n UsingSellableQuantity
                          | None \<Rightarrow> manual_intervention SellExposureUncertain)))"

subsection \<open>Exact evidence\<close>

definition set_recovery_state :: "order_recovery_state \<Rightarrow> execution_order \<Rightarrow> execution_order" where
  "set_recovery_state target r =
     (if eo_recovery_state r = target then r
      else if target \<in> allowed_recovery_transitions (eo_recovery_state r) then r\<lparr>eo_recovery_state := target\<rparr>
      else if MANUAL_INTERVENTION_REQUIRED \<in> allowed_recovery_transitions (eo_recovery_state r)
      then r\<lparr>eo_recovery_state := MANUAL_INTERVENTION_REQUIRED\<rparr> else r)"

definition clear_absence :: "execution_order \<Rightarrow> execution_order" where
  "clear_absence r =
     r\<lparr>eo_absence_count := 0, eo_last_absence_snapshot_id := [], eo_last_absence_observed_at := None,
       eo_last_absence_session_date := None, eo_last_absence_broker_order_id := [],
       eo_last_absence_holding_quantity := None\<rparr>"

definition audit_fields_removed :: "execution_order \<Rightarrow> execution_order" where
  "audit_fields_removed r = r\<lparr>eo_last_broker_seen_at := None, eo_last_reconciled_at := None, eo_version := 0\<rparr>"

text \<open>The comparison is \<open>!=\<close> field by field, so a NaN always counts as a change.\<close>

definition semantic_change :: "execution_order \<Rightarrow> execution_order \<Rightarrow> bool" where
  "semantic_change r before \<longleftrightarrow> audit_fields_removed r \<noteq> audit_fields_removed before
     \<or> eo_average_fill_price r = NaN \<or> eo_submitted_limit_price r = NaN"

definition observation_due :: "reconcile_config \<Rightarrow> execution_order \<Rightarrow> execution_order \<Rightarrow> string \<Rightarrow> bool" where
  "observation_due g r before checked_at =
     (if semantic_change r before \<or> \<not> some_text (eo_last_reconciled_at r) then True
      else if eo_status r \<in> TERMINAL_EXECUTION_ORDER_STATUSES then False
      else case (iso_moment (rg_iso g) checked_at, iso_moment (rg_iso g) (the (eo_last_reconciled_at r))) of
        (Some observed, Some prior) \<Rightarrow>
          observed - prior < 0 \<or> in_seconds (rg_observation_interval g) \<le> observed - prior
      | _ \<Rightarrow> True)"

definition stamp_if_due ::
    "reconcile_config \<Rightarrow> execution_order \<Rightarrow> string \<Rightarrow> execution_order \<Rightarrow> execution_order" where
  "stamp_if_due g before checked_at r =
     (if observation_due g r before checked_at
      then r\<lparr>eo_last_broker_seen_at := Some checked_at, eo_last_reconciled_at := Some checked_at\<rparr> else r)"

fun broker_to_execution_status :: "order_status \<Rightarrow> execution_order_status option" where
  "broker_to_execution_status OS_ACCEPTED = Some ACKNOWLEDGED"
| "broker_to_execution_status OS_WORKING = Some WORKING"
| "broker_to_execution_status OS_PARTIALLY_FILLED = Some PARTIALLY_FILLED"
| "broker_to_execution_status OS_FILLED = Some FILLED"
| "broker_to_execution_status OS_CANCEL_REQUESTED = Some CANCEL_PENDING"
| "broker_to_execution_status OS_CANCELLED = Some CANCELLED"
| "broker_to_execution_status OS_REJECTED = Some REJECTED"
| "broker_to_execution_status OS_EXPIRED = Some EXPIRED"
| "broker_to_execution_status _ = None"

definition snapshot_status :: "order_snapshot \<Rightarrow> execution_order_status option" where
  "snapshot_status b = broker_to_execution_status (sn_status b)"

definition with_evidence :: "order_snapshot \<Rightarrow> execution_order \<Rightarrow> execution_order" where
  "with_evidence b r =
     (let r0 = clear_absence r; filled = max (eo_filled_quantity r) (sn_filled_quantity b)
      in r0\<lparr>eo_filled_quantity := filled,
            eo_remaining_quantity := (if sn_remaining_quantity b \<noteq> 0 \<or> sn_status b = OS_FILLED
              then max 0 (sn_remaining_quantity b) else max 0 (eo_submitted_quantity r - filled)),
            eo_average_fill_price := (if truthy (sn_avg_fill_price b) then sn_avg_fill_price b
              else eo_average_fill_price r)\<rparr>)"

datatype contradiction = UnrecognizedStatus order_status | ContradictsTransition execution_order_status execution_order_status

definition transition_now :: "timestamp \<Rightarrow> execution_order_status \<Rightarrow> execution_order \<Rightarrow> order_error + execution_order" where
  "transition_now now target r =
     (case apply_status_transition now target None r of (Some e, _) \<Rightarrow> Inl e | (None, r') \<Rightarrow> Inr r')"

definition preserve_ambiguous_cancel :: "execution_order_status \<Rightarrow> execution_order \<Rightarrow> bool" where
  "preserve_ambiguous_cancel target r \<longleftrightarrow> eo_status r = CANCEL_PENDING \<and> eo_recovery_state r = DISCOVERING
     \<and> target \<in> OPEN_EXECUTION_STATUSES"

text \<open>The status the answer stands for: \<open>None\<close> if it contradicts the local one.\<close>

definition follow_status ::
    "timestamp \<Rightarrow> execution_order_status \<Rightarrow> execution_order \<Rightarrow> order_error + execution_order option" where
  "follow_status now target r =
     (if target = eo_status r \<or> preserve_ambiguous_cancel target r then Inr (Some r)
      else if target \<in> allowed_status_transitions (eo_status r)
      then bind_result (transition_now now target r) (\<lambda>r'. Inr (Some r'))
      else if target = CANCELLED \<and> CANCEL_PENDING \<in> allowed_status_transitions (eo_status r)
      then bind_result (transition_now now CANCEL_PENDING r) (\<lambda>r1.
           bind_result (transition_now now CANCELLED r1) (\<lambda>r'. Inr (Some r')))
      else Inr None)"

definition settle_recovery :: "execution_order_status \<Rightarrow> bool \<Rightarrow> execution_order \<Rightarrow> execution_order" where
  "settle_recovery target preserve r =
     (if eo_recovery_state r = DISCOVERING \<and> \<not> preserve then set_recovery_state ORS_NONE r
      else if target \<in> TERMINAL_EXECUTION_ORDER_STATUSES \<and> eo_recovery_state r = AWAITING_CANCEL_CONFIRMATION
      then set_recovery_state TERMINAL_RECONCILED r else r)"

definition apply_exact_order_snapshot ::
    "reconcile_config \<Rightarrow> timestamp \<Rightarrow> order_snapshot \<Rightarrow> execution_order
       \<Rightarrow> order_error + (contradiction option \<times> execution_order)" where
  "apply_exact_order_snapshot g now b r =
     (let r1 = with_evidence b r; stamp = stamp_if_due g r (sn_checked_at b)
      in case snapshot_status b of
           None \<Rightarrow> Inr (Some (UnrecognizedStatus (sn_status b)),
             stamp (set_recovery_state MANUAL_INTERVENTION_REQUIRED r1))
         | Some target \<Rightarrow>
             bind_result (follow_status now target r1) (\<lambda>followed.
               case followed of
                 None \<Rightarrow> Inr (Some (ContradictsTransition target (eo_status r1)),
                   stamp (set_recovery_state MANUAL_INTERVENTION_REQUIRED r1))
               | Some r2 \<Rightarrow> Inr (None, stamp (settle_recovery target (preserve_ambiguous_cancel target r1) r2))))"

subsection \<open>Absence\<close>

definition absence_evidence_complete :: "execution_order \<Rightarrow> account_snapshot \<Rightarrow> bool" where
  "absence_evidence_complete r s =
     (let c = ab_completeness s
      in if eo_execution_policy r = RESERVED_MOO_EXECUTION
         then cp_holdings c \<and> cp_open_orders c \<and> cp_history c \<and> cp_reserved_orders c
         else completeness_allows c RA_TERMINAL_ORDER_CONCLUSION)"

datatype absence_outcome =
    CONTRADICTION_RESET | FIRST_ABSENCE | SAME_GENERATION | IDENTITY_CHANGED_RESET | SESSION_CHANGED_RESET
  | INVALID_FIRST_OBSERVATION_RESET | TOO_SOON | HOLDINGS_NOT_FRESH | ABSENT_TERMINAL_RECONCILED
  | ABSENT_MANUAL_INTERVENTION

text \<open>The text a \<open>str(None)\<close> gives is not a moment.\<close>

definition observed_moment :: "reconcile_config \<Rightarrow> string option \<Rightarrow> timestamp option" where
  "observed_moment g v = (case v of None \<Rightarrow> None | Some t \<Rightarrow> iso_moment (rg_iso g) t)"

definition record_absence ::
    "reconcile_config \<Rightarrow> account_snapshot \<Rightarrow> int \<Rightarrow> execution_order \<Rightarrow> absence_outcome \<times> execution_order" where
  "record_absence g s holding_quantity r =
     (let identity = eo_broker_order_id r; day = iso_day (rg_iso g) (ab_session_date s);
          seen = Some (iso_text (rg_iso g) (ab_observed_at s)) in
      if identity \<in> ab_notice_ids s
         \<or> (eo_last_absence_holding_quantity r \<noteq> None \<and> eo_last_absence_holding_quantity r \<noteq> Some holding_quantity)
      then (CONTRADICTION_RESET, clear_absence r)
      else if eo_absence_count r \<le> 0
      then (FIRST_ABSENCE, r\<lparr>eo_absence_count := 1, eo_last_absence_snapshot_id := ab_snapshot_id s,
             eo_last_absence_observed_at := seen, eo_last_absence_session_date := Some day,
             eo_last_absence_broker_order_id := identity,
             eo_last_absence_holding_quantity := Some holding_quantity\<rparr>)
      else if ab_snapshot_id s = eo_last_absence_snapshot_id r then (SAME_GENERATION, r)
      else if eo_last_absence_broker_order_id r \<noteq> identity then (IDENTITY_CHANGED_RESET, clear_absence r)
      else if eo_last_absence_session_date r \<noteq> Some day then (SESSION_CHANGED_RESET, clear_absence r)
      else case observed_moment g (eo_last_absence_observed_at r) of
             None \<Rightarrow> (INVALID_FIRST_OBSERVATION_RESET, clear_absence r)
           | Some first_at \<Rightarrow>
               if ab_observed_at s - first_at < in_seconds (rg_absence_interval g) then (TOO_SOON, r)
               else if \<not> cp_holdings (ab_completeness s) then (HOLDINGS_NOT_FRESH, r)
               else let r1 = r\<lparr>eo_absence_count := 2, eo_last_absence_snapshot_id := ab_snapshot_id s,
                               eo_last_absence_observed_at := seen\<rparr>
                    in if eo_recovery_state r = AWAITING_CANCEL_CONFIRMATION
                       then (ABSENT_TERMINAL_RECONCILED, set_recovery_state TERMINAL_RECONCILED r1)
                       else (ABSENT_MANUAL_INTERVENTION, set_recovery_state MANUAL_INTERVENTION_REQUIRED r1))"

subsection \<open>Ambiguous submissions\<close>

definition prices_close :: "pyfloat \<Rightarrow> pyfloat \<Rightarrow> bool" where
  "prices_close broker_price local_price \<longleftrightarrow>
     \<not> flt (fmax (to_float (1 / 100)) (fmul local_price (to_float (1 / 1000)))) (fabs (fsub broker_price local_price))"

definition heuristic_candidate :: "reconcile_config \<Rightarrow> order_snapshot \<Rightarrow> execution_order \<Rightarrow> bool" where
  "heuristic_candidate g b r \<longleftrightarrow>
     eo_broker_identity_status r = AMBIGUOUS \<and> sn_symbol b = eo_symbol r \<and> sn_side b = eo_side r
     \<and> (sn_quantity_requested b = 0 \<or> sn_quantity_requested b = eo_submitted_quantity r)
     \<and> (truthy (sn_limit_price b) \<and> truthy (eo_submitted_limit_price r)
          \<longrightarrow> prices_close (sn_limit_price b) (eo_submitted_limit_price r))
     \<and> (case (sn_submitted_at b, eo_submission_started_at r) of
          (Some broker_started, Some local_started) \<Rightarrow>
            \<bar>broker_started - local_started\<bar> \<le> in_seconds (rg_candidate_window g)
        | _ \<Rightarrow> False)"

end
