(* ===== verification/Reconcile_Card.thy ===== *)
theory Reconcile_Card
  imports Reconcile_Order Position
begin

text \<open>
  The card side of \<open>src/services/account_reconciliation.py\<close>: which orders a card tracks, what a
  submission the broker definitely did not accept does to its card, and the projection of an exact
  answer onto the card for each category of order.
\<close>

definition order_card_id :: "execution_order \<Rightarrow> string \<times> string \<times> string" where
  "order_card_id r = (eo_environment r, eo_account_no r, eo_symbol r)"

definition card_tracks_order :: "trade_card option \<Rightarrow> execution_order \<Rightarrow> bool" where
  "card_tracks_order found r =
     (case found of None \<Rightarrow> False
      | Some c \<Rightarrow>
          if eo_side r = BUY
          then tc_entry_client_order_id c = eo_client_order_id r
            \<or> (eo_attempt_group_id r \<noteq> [] \<and> tc_entry_attempt_group_id c = eo_attempt_group_id r)
          else tc_exit_client_order_id c = eo_client_order_id r
            \<or> (eo_attempt_group_id r \<noteq> [] \<and> tc_exit_attempt_group_id c = eo_attempt_group_id r))"

definition clear_entry_card_tracking :: "bool \<Rightarrow> trade_card \<Rightarrow> trade_card" where
  "clear_entry_card_tracking retire_attempt_group c =
     c\<lparr>tc_entry_client_order_id := [], tc_entry_cancel_command_id := [], tc_entry_cancel_in_flight := False,
       tc_entry_cancel_reason := [], tc_entry_pending_attempt_number := 0,
       tc_entry_submission_unresolved := False,
       tc_entry_attempt_group_id := (if retire_attempt_group then [] else tc_entry_attempt_group_id c)\<rparr>"

definition clear_exit_card_tracking :: "bool \<Rightarrow> trade_card \<Rightarrow> trade_card" where
  "clear_exit_card_tracking retire_attempt_group c =
     c\<lparr>tc_exit_client_order_id := [], tc_exit_cancel_command_id := [], tc_exit_cancel_in_flight := False,
       tc_exit_cancel_requested_at := None, tc_exit_pending_attempt_number := 0,
       tc_exit_submission_unresolved := False, tc_reserved_sell_quantity := 0,
       tc_exit_attempt_group_id := (if retire_attempt_group then [] else tc_exit_attempt_group_id c),
       tc_exit_attempt_count := (if retire_attempt_group then 0 else tc_exit_attempt_count c)\<rparr>"

definition apply_definitive_entry_nonacceptance :: "timestamp \<Rightarrow> trade_card \<Rightarrow> trade_card" where
  "apply_definitive_entry_nonacceptance observed_at c0 =
     (let c = (clear_entry_card_tracking True c0)\<lparr>tc_entry_attempt_count := 0, tc_entry_remaining_target_quantity := 0,
            tc_capital_reservation_id := [], tc_entry_runtime_status := None, tc_entry_block_reason := [],
            tc_next_retry_at := None\<rparr>
      in if 0 < tc_broker_quantity c
         then c\<lparr>tc_board_status := BS_OPEN_POSITION,
                tc_position_runtime_status := (if tc_exit_all_required c then tc_position_runtime_status c else PRS_OPEN)\<rparr>
         else (clear_orb_generation_metadata
                (c\<lparr>tc_previous_board_status := Some (tc_board_status c), tc_board_status := BS_BUYLIST,
                   tc_board_status_updated_at := observed_at, tc_session_date := None, tc_buylist_member := True,
                   tc_buy_today_note := ''Entry rejected by broker'', tc_selected_orb_window := None,
                   tc_position_percent := Fin 0, tc_planned_quantity := 0, tc_target_position_quantity := 0,
                   tc_entry_orb_window := None, tc_entry_orb_high := None, tc_entry_orb_low := None,
                   tc_entry_trigger := None\<rparr>))\<lparr>tc_stop_adr := None\<rparr>)"

definition consume_exit_card_attempt :: "execution_order \<Rightarrow> trade_card \<Rightarrow> trade_card" where
  "consume_exit_card_attempt r c =
     c\<lparr>tc_exit_attempt_count :=
         max (tc_exit_attempt_count c) (max (tc_exit_pending_attempt_number c) (eo_attempt_number r)),
       tc_exit_attempt_group_id :=
         (if eo_attempt_group_id r \<noteq> [] then eo_attempt_group_id r else tc_exit_attempt_group_id c)\<rparr>"

subsection \<open>Alerts\<close>

datatype alert_code =
    UNRECOGNIZED_LOCAL_ORDER_COMBINATION | BROKER_STATUS_CONTRADICTION contradiction
  | AMBIGUOUS_SUBMISSION_HEURISTIC_CANDIDATE | AMBIGUOUS_CANDIDATE_COLLISION
  | AMBIGUOUS_SUBMISSION_MANUAL_INTERVENTION | UNRECOGNIZED_BROKER_ORDER_STATUS
  | DISCOVERED_UNOWNED_BROKER_ORDER | ORDER_ABSENCE absence_outcome
  | PARTIAL_EXIT_TERMINAL_WITHOUT_HOLDINGS | LIQUIDATION_TERMINAL_WITHOUT_HOLDINGS
  | CAPITAL_RESERVATION_REPLACEMENT_CHAIN_CONFLICT | ORPHAN_CAPITAL_RESERVATION_REQUIRES_REVIEW bool
  | LIVE_ORDER_WITHOUT_CAPITAL_RESERVATION | EMERGENCY_SELL_QUANTITY_UNCERTAIN emergency_reason

record alert =
  al_code :: alert_code
  al_symbol :: string
  al_client_order_id :: string
  al_broker_order_id :: string

definition order_alert :: "alert_code \<Rightarrow> execution_order \<Rightarrow> alert" where
  "order_alert code r = \<lparr>al_code = code, al_symbol = eo_symbol r, al_client_order_id = eo_client_order_id r,
     al_broker_order_id = eo_broker_order_id r\<rparr>"

datatype reconcile_error =
    RcOrderError order_error | RcPositionError position_error | RcCardError card_error
  | RcExternalError external_error

subsection \<open>The projection of an entry\<close>

definition sellable_or :: "account_holding option \<Rightarrow> int \<Rightarrow> int" where
  "sellable_or held n = (case Option.bind held ah_sellable_quantity of None \<Rightarrow> n | Some q \<Rightarrow> q)"

definition entry_filled ::
    "execution_order \<Rightarrow> order_snapshot \<Rightarrow> account_holding option \<Rightarrow> bool \<Rightarrow> trade_card \<Rightarrow> trade_card" where
  "entry_filled r b held terminal c =
     (let working = is_open_status (sn_status b);
          quantity = (case held of Some h \<Rightarrow> ah_quantity h | None \<Rightarrow> max (tc_broker_quantity c) (sn_filled_quantity b));
          remaining = max 0 (tc_target_position_quantity c - quantity);
          c1 = c\<lparr>tc_board_status := BS_OPEN_POSITION, tc_broker_quantity := quantity,
                 tc_orderable_quantity := sellable_or held quantity,
                 tc_average_entry_price := (case held of
                     Some h \<Rightarrow> if truthy (ah_average_price h) then ah_average_price h else sn_avg_fill_price b
                   | None \<Rightarrow> sn_avg_fill_price b),
                 tc_entry_remaining_target_quantity := remaining,
                 tc_position_runtime_status := (if working \<and> 0 < remaining then PRS_ENTRY_COMPLETING else PRS_OPEN),
                 tc_entry_runtime_status := (if working then Some ERS_ORDER_PENDING else None),
                 tc_entry_client_order_id := (if working then eo_client_order_id r else [])\<rparr>;
          c2 = (if tc_stop_type c1 = None \<and> truthy (or_zero (tc_entry_orb_low c1))
                then apply_first_fill_stop (or_zero (tc_entry_orb_low c1))
                  (if some_text (tc_entry_orb_window c1) then the (tc_entry_orb_window c1)
                   else if some_text (tc_selected_orb_window c1) then the (tc_selected_orb_window c1) else []) c1
                else c1\<lparr>tc_stop_quantity := quantity\<rparr>)
      in if \<not> terminal then c2
         else let retry_remainder = tc_entry_cancel_reason c2 = ''TTL_REPRICE'' \<and> 0 < tc_entry_remaining_target_quantity c2;
                  c3 = (if retry_remainder then c2
                        else c2\<lparr>tc_entry_remaining_target_quantity := 0, tc_position_runtime_status := PRS_OPEN\<rparr>)
              in clear_entry_card_tracking (\<not> retry_remainder) c3)"

definition entry_ended :: "trade_card \<Rightarrow> trade_card" where
  "entry_ended c =
     clear_entry_card_tracking True
       ((if 0 < tc_broker_quantity c
         then c\<lparr>tc_board_status := BS_OPEN_POSITION, tc_position_runtime_status := PRS_OPEN\<rparr>
         else c\<lparr>tc_board_status := BS_BUYLIST\<rparr>)
        \<lparr>tc_entry_runtime_status := None, tc_entry_remaining_target_quantity := 0\<rparr>)"

definition entry_working :: "execution_order \<Rightarrow> trade_card \<Rightarrow> trade_card" where
  "entry_working r c =
     c\<lparr>tc_board_status := BS_ENTRY_PENDING, tc_entry_runtime_status := Some ERS_ORDER_PENDING,
       tc_entry_client_order_id := eo_client_order_id r\<rparr>"

subsection \<open>The projection of an exit\<close>

definition exit_working :: "execution_order \<Rightarrow> order_snapshot \<Rightarrow> trade_card \<Rightarrow> trade_card" where
  "exit_working r b c =
     c\<lparr>tc_reserved_sell_quantity := max 0 (sn_remaining_quantity b),
       tc_exit_client_order_id := eo_client_order_id r,
       tc_exit_pending_attempt_number := max (tc_exit_pending_attempt_number c) (eo_attempt_number r)\<rparr>"

definition flat :: "trade_card \<Rightarrow> reconcile_error + trade_card" where
  "flat c = map_sum RcPositionError id (confirm_flat c)"

definition partial_exit_ended ::
    "order_snapshot \<Rightarrow> account_holding option \<Rightarrow> trade_card \<Rightarrow> reconcile_error + trade_card" where
  "partial_exit_ended b held c0 =
     (let remaining = (case held of None \<Rightarrow> 0 | Some h \<Rightarrow> ah_quantity h);
          c = clear_exit_card_tracking True (c0\<lparr>tc_pending_partial_sell_quantity := 0\<rparr>)
      in if remaining \<le> 0 then flat (c\<lparr>tc_broker_quantity := 0, tc_orderable_quantity := 0\<rparr>)
         else if 0 < sn_filled_quantity b
         then (case on_partial_exit_filled remaining c of
                 None \<Rightarrow> Inl (RcPositionError TickRoundingFailed) | Some c' \<Rightarrow> Inr c')
         else Inr (c\<lparr>tc_broker_quantity := remaining, tc_orderable_quantity := sellable_or held remaining,
                tc_board_status := BS_OPEN_POSITION, tc_position_runtime_status := PRS_OPEN\<rparr>))"

definition liquidation_working ::
    "execution_order \<Rightarrow> order_snapshot \<Rightarrow> bool \<Rightarrow> trade_card \<Rightarrow> trade_card" where
  "liquidation_working r b reserved c =
     exit_working r b (c\<lparr>tc_board_status := BS_SELL_ALL, tc_exit_all_required := True,
       tc_sell_all_at_market_open := reserved,
       tc_position_runtime_status := (if reserved then PRS_QUEUED_FOR_OPEN else PRS_LIQUIDATING)\<rparr>)"

definition liquidation_ended :: "account_holding option \<Rightarrow> trade_card \<Rightarrow> reconcile_error + trade_card" where
  "liquidation_ended held c =
     (let remaining = (case held of None \<Rightarrow> 0 | Some h \<Rightarrow> ah_quantity h);
          c1 = (clear_exit_card_tracking (remaining \<le> 0) c)
                 \<lparr>tc_sell_all_at_market_open := False, tc_broker_quantity := remaining,
                  tc_orderable_quantity := sellable_or held remaining\<rparr>
      in if remaining \<le> 0 then flat c1
         else Inr (c1\<lparr>tc_board_status := BS_SELL_ALL, tc_exit_all_required := True,
                tc_position_runtime_status := PRS_LIQUIDATING\<rparr>))"

subsection \<open>The projection\<close>

text \<open>The order is the one after the exact answer was applied.\<close>

definition project_exact_order_to_card ::
    "execution_order \<Rightarrow> order_snapshot \<Rightarrow> account_snapshot \<Rightarrow> reconciliation_category \<Rightarrow> trade_card
       \<Rightarrow> reconcile_error + (trade_card \<times> alert list)" where
  "project_exact_order_to_card r b s category c0 =
     (let terminal = (case snapshot_status b of None \<Rightarrow> False | Some t \<Rightarrow> t \<in> TERMINAL_EXECUTION_ORDER_STATUSES);
          working = is_open_status (sn_status b);
          fresh = cp_holdings (ab_completeness s);
          held = (if fresh then holding_for s (eo_symbol r) else None);
          operational = operational_category r (Some c0) category;
          c = (if eo_side r = SELL then consume_exit_card_attempt r c0 else c0)
      in if operational \<in> {RC_ENTRY_BUY, RC_ENTRY_COMPLETION_BUY}
         then Inr (if 0 < sn_filled_quantity b then entry_filled r b held terminal c
                   else if terminal then entry_ended c
                   else if working then entry_working r c else c, [])
         else if operational = RC_PARTIAL_SELL
         then (if working
               then Inr (exit_working r b (c\<lparr>tc_board_status := BS_PARTIAL_SELL,
                      tc_position_runtime_status := PRS_PARTIAL_EXIT_PENDING\<rparr>), [])
               else if \<not> terminal then Inr (c, [])
               else if \<not> fresh
               then Inr (c\<lparr>tc_exit_submission_unresolved := True\<rparr>,
                      [order_alert PARTIAL_EXIT_TERMINAL_WITHOUT_HOLDINGS r])
               else bind_result (partial_exit_ended b held c) (\<lambda>c'. Inr (c', [])))
         else if operational \<in> {RC_SELL_ALL, RC_STOP_LOSS_SELL, RC_RESERVED_MOO_SELL}
         then (if working then Inr (liquidation_working r b (operational = RC_RESERVED_MOO_SELL) c, [])
               else if \<not> terminal then Inr (c, [])
               else if \<not> fresh
               then Inr (c\<lparr>tc_exit_submission_unresolved := True\<rparr>,
                      [order_alert LIQUIDATION_TERMINAL_WITHOUT_HOLDINGS r])
               else bind_result (liquidation_ended held c) (\<lambda>c'. Inr (c', [])))
         else Inr (c, []))"

end
