(* ===== verification/Reconcile_Capital.thy ===== *)
theory Reconcile_Capital
  imports Reconcile_Card
begin

text \<open>
  The capital side of \<open>src/services/account_reconciliation.py\<close>: each shared reservation is settled once
  per pass, from the one order that holds it now (a replacement hands the reservation to its
  descendant), and a reservation no order refers to is released only after two complete generations.
\<close>

definition settle_capital_reservation :: "timestamp \<Rightarrow> execution_order \<Rightarrow> reservation \<Rightarrow> reservation" where
  "settle_capital_reservation observed_at r v =
     (if \<not> reservation_is_open v then v
      else
        let fill_price = (if truthy (eo_average_fill_price r) then eo_average_fill_price r else eo_submitted_limit_price r);
            consumed = fmax (Fin 0) (fmul (float_of_int (eo_filled_quantity r)) fill_price)
        in if eo_status r \<in> TERMINAL_EXECUTION_ORDER_STATUSES
           then v\<lparr>cr_remaining_reserved_notional := Fin 0, cr_remaining_projected_open_risk := Fin 0,
                  cr_status := (if fpos (cr_requested_notional v) \<and> fle (cr_requested_notional v) consumed
                    then CONSUMED else RELEASED),
                  cr_released_at := Some observed_at\<rparr>
           else if eo_side r \<noteq> BUY \<or> eo_intent r \<noteq> ENTRY then v
           else
             let remaining = fmax (Fin 0) (fsub (cr_requested_notional v) consumed);
                 risk = (if fpos (cr_requested_notional v)
                   then or_zero (fdiv (fmul (cr_projected_open_risk v) remaining) (cr_requested_notional v)) else Fin 0)
             in if feq remaining (cr_remaining_reserved_notional v) \<and> feq risk (cr_remaining_projected_open_risk v)
                then v
                else v\<lparr>cr_remaining_reserved_notional := remaining, cr_remaining_projected_open_risk := risk,
                       cr_status := (if fle remaining (Fin 0) then CONSUMED else PARTIALLY_CONSUMED)\<rparr>)"

definition RESERVATION_TRANSITION_HOLD_STATUSES :: "execution_order_status set" where
  "RESERVATION_TRANSITION_HOLD_STATUSES = {PREPARED, SUBMITTING, CANCEL_PENDING, UNKNOWN_SUBMISSION_STATE}"

subsection \<open>Replacement chains\<close>

definition linked_orders :: "execution_order list \<Rightarrow> string \<Rightarrow> execution_order list" where
  "linked_orders orders reservation_id = filter (\<lambda>r. py_strip (eo_capital_reservation_id r) = reservation_id) orders"

definition predecessor_ids :: "execution_order list \<Rightarrow> string set" where
  "predecessor_ids linked =
     {eo_replaces_execution_order_id r |r. r \<in> set linked
        \<and> eo_replaces_execution_order_id r \<in> eo_client_order_id ` set linked}"

definition chain_leaves :: "execution_order list \<Rightarrow> execution_order list" where
  "chain_leaves linked = filter (\<lambda>r. eo_client_order_id r \<notin> predecessor_ids linked) linked"

definition live :: "execution_order \<Rightarrow> bool" where
  "live r \<longleftrightarrow> eo_status r \<in> OPEN_EXECUTION_STATUSES"

datatype chain_verdict = ChainHolds | ChainConflict execution_order | SettleFrom execution_order

definition judge_chain :: "execution_order list \<Rightarrow> chain_verdict" where
  "judge_chain linked =
     (let leaves = chain_leaves linked; live_orders = filter live linked; live_leaves = filter live leaves
      in if live_orders \<noteq> []
         then (if length live_orders \<noteq> 1 \<or> length live_leaves \<noteq> 1 then ChainConflict (hd live_orders)
               else if eo_status (hd live_leaves) \<in> RESERVATION_TRANSITION_HOLD_STATUSES then ChainHolds
               else SettleFrom (hd live_leaves))
         else if length leaves \<noteq> 1 then ChainConflict (if leaves \<noteq> [] then hd leaves else hd linked)
         else SettleFrom (hd leaves))"

lemma predecessor_ids_code [code]:
  "predecessor_ids linked =
     set (filter (\<lambda>k. k \<in> eo_client_order_id ` set linked) (map eo_replaces_execution_order_id linked))"
  by (auto simp: predecessor_ids_def)

text \<open>One step per reservation id, in the order of its first mention. The dictionary of reservations
  keeps the last row of an id.\<close>

definition settle_reservation_id ::
    "timestamp \<Rightarrow> execution_order list \<Rightarrow> string \<Rightarrow> reservation list \<times> alert list \<Rightarrow> reservation list \<times> alert list" where
  "settle_reservation_id observed_at orders reservation_id state =
     (case state of (vs, alerts) \<Rightarrow>
       (case find_last (\<lambda>v. cr_reservation_id v = reservation_id) vs of
          None \<Rightarrow> (vs, alerts)
        | Some i \<Rightarrow>
            if \<not> reservation_is_open (vs ! i) then (vs, alerts)
            else (case judge_chain (linked_orders orders reservation_id) of
                    ChainHolds \<Rightarrow> (vs, alerts)
                  | ChainConflict sample \<Rightarrow>
                      (vs, alerts @ [order_alert CAPITAL_RESERVATION_REPLACEMENT_CHAIN_CONFLICT sample])
                  | SettleFrom r \<Rightarrow> (vs[i := settle_capital_reservation observed_at r (vs ! i)], alerts))))"

definition settle_reservations_from_replacement_leaves ::
    "timestamp \<Rightarrow> execution_order list \<Rightarrow> reservation list \<Rightarrow> reservation list \<times> alert list" where
  "settle_reservations_from_replacement_leaves observed_at orders vs =
     fold (settle_reservation_id observed_at orders)
       (dedup (filter (\<lambda>k. k \<noteq> []) (map (\<lambda>r. py_strip (eo_capital_reservation_id r)) orders))) (vs, [])"

subsection \<open>Orphans\<close>

definition clear_reservation_absence :: "reservation \<Rightarrow> reservation" where
  "clear_reservation_absence v =
     v\<lparr>cr_absence_count := 0, cr_last_absence_snapshot_id := [], cr_last_absence_observed_at := None,
       cr_last_absence_session_date := None\<rparr>"

datatype orphan_outcome =
    INCOMPLETE_EVIDENCE | CONTRADICTORY_BROKER_EVIDENCE | ORPHAN_FIRST_ABSENCE | ORPHAN_SAME_GENERATION
  | ORPHAN_SESSION_CHANGED | ORPHAN_INVALID_FIRST | ORPHAN_TOO_SOON | RELEASED_AFTER_TWO_COMPLETE_GENERATIONS

definition all_order_evidence :: "account_snapshot \<Rightarrow> bool" where
  "all_order_evidence s \<longleftrightarrow> (let c = ab_completeness s in
     cp_holdings c \<and> cp_open_orders c \<and> cp_history c \<and> cp_reserved_orders c)"

definition broker_knows :: "account_snapshot \<Rightarrow> string \<Rightarrow> bool" where
  "broker_knows s symbol \<longleftrightarrow> holding_for s symbol \<noteq> None \<or> list_ex (\<lambda>b. sn_symbol b = symbol) (ab_orders s)"

definition record_orphan_reservation_absence ::
    "reconcile_config \<Rightarrow> account_snapshot \<Rightarrow> reservation \<Rightarrow> orphan_outcome \<times> reservation" where
  "record_orphan_reservation_absence g s v =
     (let day = iso_day (rg_iso g) (ab_session_date s); seen = Some (iso_text (rg_iso g) (ab_observed_at s)) in
      if \<not> all_order_evidence s then (INCOMPLETE_EVIDENCE, v)
      else if broker_knows s (cr_symbol v)
      then (CONTRADICTORY_BROKER_EVIDENCE, if cr_absence_count v \<noteq> 0 then clear_reservation_absence v else v)
      else if cr_absence_count v \<le> 0
      then (ORPHAN_FIRST_ABSENCE, v\<lparr>cr_absence_count := 1, cr_last_absence_snapshot_id := ab_snapshot_id s,
             cr_last_absence_observed_at := seen, cr_last_absence_session_date := Some day\<rparr>)
      else if cr_last_absence_snapshot_id v = ab_snapshot_id s then (ORPHAN_SAME_GENERATION, v)
      else if cr_last_absence_session_date v \<noteq> Some day then (ORPHAN_SESSION_CHANGED, clear_reservation_absence v)
      else case observed_moment g (cr_last_absence_observed_at v) of
             None \<Rightarrow> (ORPHAN_INVALID_FIRST, clear_reservation_absence v)
           | Some first_at \<Rightarrow>
               if ab_observed_at s - first_at < in_seconds (rg_absence_interval g) then (ORPHAN_TOO_SOON, v)
               else (RELEASED_AFTER_TWO_COMPLETE_GENERATIONS,
                 v\<lparr>cr_absence_count := 2, cr_last_absence_snapshot_id := ab_snapshot_id s,
                   cr_last_absence_observed_at := seen, cr_remaining_reserved_notional := Fin 0,
                   cr_status := RELEASED, cr_released_at := Some (ab_observed_at s)\<rparr>))"

end
