(* ===== verification/Reconcile.thy ===== *)
theory Reconcile
  imports Reconcile_Capital External_Store "HOL-Library.List_Lexorder" "HOL-Library.Char_ord" "HOL-Library.Product_Lexorder"
begin

text \<open>
  \<open>reduce_account_reconciliation\<close>: from one snapshot of the account and the local rows to the plan of
  changes, as the sequence of the code's phases over one working copy. The loops are folds that stop
  at the first exception. An external order's id (a name-based UUID) and the redaction of its payload
  are parameters.
\<close>

fun fold_result :: "('a \<Rightarrow> 's \<Rightarrow> 'e + 's) \<Rightarrow> 'a list \<Rightarrow> 's \<Rightarrow> 'e + 's" where
  "fold_result f [] s = Inr s"
| "fold_result f (x # xs) s = bind_result (f x s) (fold_result f xs)"

datatype command_kind = CANCEL_KNOWN_ORDER | EMERGENCY_SELL_ALL

record reconciliation_command =
  rm_kind :: command_kind
  rm_environment :: string
  rm_account_no :: string
  rm_symbol :: string
  rm_client_order_id :: string
  rm_quantity :: int
  rm_reason :: emergency_reason

record local_state =
  lo_cards :: "trade_card list"
  lo_orders :: "execution_order list"
  lo_reservations :: "reservation list"
  lo_externals :: "external_order list"

record recon =
  rc_cards :: "trade_card list"
  rc_orders :: "execution_order list"
  rc_reservations :: "reservation list"
  rc_externals :: "external_order list"
  rc_external_at :: "string \<rightharpoonup> nat"
  rc_alerts :: "alert list"
  rc_classes :: "(reconciliation_category \<times> string) list"
  rc_commands :: "reconciliation_command list"
  rc_category :: "string \<rightharpoonup> reconciliation_category"
  rc_consumed :: "string list"
  rc_candidates :: "string list"

record reconcile_ids =
  ri_external_id :: "string \<Rightarrow> string \<Rightarrow> string \<Rightarrow> string"
  ri_redact :: "json_dict \<Rightarrow> json_dict \<times> string"

definition external_positions :: "external_order list \<Rightarrow> string \<rightharpoonup> nat" where
  "external_positions xs bid = find_last (\<lambda>x. xo_broker_order_id x = bid) xs"

definition working_copy :: "local_state \<Rightarrow> recon" where
  "working_copy l =
     \<lparr>rc_cards = lo_cards l, rc_orders = lo_orders l, rc_reservations = lo_reservations l,
      rc_externals = lo_externals l, rc_external_at = external_positions (lo_externals l), rc_alerts = [],
      rc_classes = [], rc_commands = [], rc_category = Map.empty, rc_consumed = [], rc_candidates = []\<rparr>"

definition add_alert :: "alert \<Rightarrow> recon \<Rightarrow> recon" where
  "add_alert a st = st\<lparr>rc_alerts := rc_alerts st @ [a]\<rparr>"

definition add_class :: "reconciliation_category \<Rightarrow> string \<Rightarrow> recon \<Rightarrow> recon" where
  "add_class c k st = st\<lparr>rc_classes := rc_classes st @ [(c, k)]\<rparr>"

definition broker_alert :: "alert_code \<Rightarrow> string \<Rightarrow> string \<Rightarrow> alert" where
  "broker_alert code symbol bid =
     \<lparr>al_code = code, al_symbol = symbol, al_client_order_id = [], al_broker_order_id = bid\<rparr>"

text \<open>The alerts about an unlinked local order carry no broker id.\<close>

definition local_alert :: "alert_code \<Rightarrow> execution_order \<Rightarrow> alert" where
  "local_alert code r = (order_alert code r)\<lparr>al_broker_order_id := []\<rparr>"

definition card_index :: "recon \<Rightarrow> string \<times> string \<times> string \<Rightarrow> nat option" where
  "card_index st k = find_last (\<lambda>c. card_id_of c = k) (rc_cards st)"

definition set_card :: "nat \<Rightarrow> trade_card \<Rightarrow> recon \<Rightarrow> recon" where
  "set_card j c st = st\<lparr>rc_cards := (rc_cards st)[j := c]\<rparr>"

definition set_order :: "nat \<Rightarrow> execution_order \<Rightarrow> recon \<Rightarrow> recon" where
  "set_order i r st = st\<lparr>rc_orders := (rc_orders st)[i := r]\<rparr>"

subsection \<open>Classification of the local orders\<close>

definition entry_rejected :: "execution_order \<Rightarrow> trade_card \<Rightarrow> bool" where
  "entry_rejected r c \<longleftrightarrow> card_tracks_order (Some c) r \<and> eo_side r = BUY \<and> eo_intent r = ENTRY
     \<and> eo_status r \<in> {REJECTED, NOT_ACCEPTED_CONFIRMED}
     \<and> eo_broker_identity_status r = NO_BROKER_ORDER_CONFIRMED
     \<and> tc_board_status c \<in> {BS_BUY_TODAY, BS_ENTRY_PENDING, BS_OPEN_POSITION}"

definition entry_resumed :: "reconciliation_category \<Rightarrow> execution_order \<Rightarrow> trade_card \<Rightarrow> bool" where
  "entry_resumed category r c \<longleftrightarrow> card_tracks_order (Some c) r
     \<and> category \<in> {RC_ENTRY_BUY, RC_ENTRY_COMPLETION_BUY} \<and> live r \<and> tc_board_status c = BS_BUY_TODAY"

definition classified_card ::
    "timestamp \<Rightarrow> reconciliation_category \<Rightarrow> execution_order \<Rightarrow> trade_card \<Rightarrow> trade_card" where
  "classified_card observed_at category r c =
     (let c1 = (if entry_rejected r c then apply_definitive_entry_nonacceptance observed_at c else c)
      in if entry_resumed category r c1
         then c1\<lparr>tc_board_status := BS_ENTRY_PENDING, tc_entry_runtime_status := Some ERS_ORDER_PENDING,
                 tc_entry_attempt_group_id := eo_attempt_group_id r, tc_entry_attempt_count := eo_attempt_number r\<rparr>
         else c1)"

definition classify_order :: "account_snapshot \<Rightarrow> nat \<Rightarrow> recon \<Rightarrow> recon" where
  "classify_order s i st =
     (let r = rc_orders st ! i; found = card_index st (order_card_id r);
          category = classify_execution_order r (map_option ((!) (rc_cards st)) found);
          st1 = (add_class category (eo_client_order_id r) st)
            \<lparr>rc_category := (rc_category st)(eo_client_order_id r \<mapsto> category)\<rparr>;
          st2 = (case found of None \<Rightarrow> st1
            | Some j \<Rightarrow> set_card j (classified_card (ab_observed_at s) category r (rc_cards st ! j)) st1)
      in if category = RC_UNRECOGNIZED
         then add_alert (local_alert UNRECOGNIZED_LOCAL_ORDER_COMBINATION r) st2 else st2)"

definition classify_orders :: "account_snapshot \<Rightarrow> recon \<Rightarrow> recon" where
  "classify_orders s st = fold (classify_order s) [0..<length (rc_orders st)] st"

subsection \<open>Exact identity\<close>

definition exact_position :: "execution_order list \<Rightarrow> string \<Rightarrow> nat option" where
  "exact_position orders bid = find_last (\<lambda>r. exactly_known r \<and> eo_broker_order_id r = bid) orders"

definition match_exact ::
    "reconcile_config \<Rightarrow> timestamp \<Rightarrow> account_snapshot \<Rightarrow> (string \<Rightarrow> nat option) \<Rightarrow> order_snapshot \<Rightarrow> recon
       \<Rightarrow> reconcile_error + recon" where
  "match_exact g now s exact b st =
     (case exact (sn_broker_order_id b) of
        None \<Rightarrow> Inr st
      | Some i \<Rightarrow>
          bind_result (map_sum RcOrderError id (apply_exact_order_snapshot g now b (rc_orders st ! i)))
            (\<lambda>(contradicted, r).
             let st1 = set_order i r (st\<lparr>rc_consumed := sn_broker_order_id b # rc_consumed st\<rparr>);
                 st2 = (case contradicted of None \<Rightarrow> st1
                   | Some why \<Rightarrow> add_alert (order_alert (BROKER_STATUS_CONTRADICTION why) r) st1)
             in case card_index st (order_card_id r) of
                  None \<Rightarrow> Inr st2
                | Some j \<Rightarrow>
                    if \<not> card_tracks_order (Some (rc_cards st ! j)) r then Inr st2
                    else bind_result (project_exact_order_to_card r b s (the (rc_category st (eo_client_order_id r)))
                           (rc_cards st ! j)) (\<lambda>(c, alerts).
                         Inr (set_card j c (st2\<lparr>rc_alerts := rc_alerts st2 @ alerts\<rparr>)))))"

definition match_exact_orders ::
    "reconcile_config \<Rightarrow> timestamp \<Rightarrow> account_snapshot \<Rightarrow> recon \<Rightarrow> reconcile_error + recon" where
  "match_exact_orders g now s st = fold_result (match_exact g now s (exact_position (rc_orders st))) (ab_orders s) st"

subsection \<open>Ambiguous submissions\<close>

definition ambiguous_positions :: "recon \<Rightarrow> nat list" where
  "ambiguous_positions st =
     filter (\<lambda>i. eo_broker_identity_status (rc_orders st ! i) = AMBIGUOUS
       \<and> eo_status (rc_orders st ! i) \<in> {SUBMITTING, UNKNOWN_SUBMISSION_STATE}) [0..<length (rc_orders st)]"

text \<open>The texts of the moments sort like the moments.\<close>

definition submission_moment :: "execution_order \<Rightarrow> timestamp" where
  "submission_moment r =
     (case eo_submission_started_at r of Some t \<Rightarrow> t
      | None \<Rightarrow> (case eo_prepared_at r of Some t \<Rightarrow> t | None \<Rightarrow> 0))"

definition suspected :: "string \<Rightarrow> execution_order \<Rightarrow> execution_order" where
  "suspected bid r =
     (let r1 = (if eo_recovery_state r = ORS_NONE then set_recovery_state DISCOVERING r else r)
      in (set_recovery_state BROKER_IDENTITY_UNCERTAIN r1)
           \<lparr>eo_recovery_candidate_broker_order_ids := dedup (eo_recovery_candidate_broker_order_ids r @ [bid])\<rparr>)"

definition match_heuristic ::
    "reconcile_config \<Rightarrow> nat list \<Rightarrow> order_snapshot \<Rightarrow> recon \<Rightarrow> recon" where
  "match_heuristic g ambiguous b st =
     (let bid = sn_broker_order_id b;
          candidates = filter (\<lambda>i. eo_client_order_id (rc_orders st ! i) \<notin> set (rc_candidates st)
            \<and> heuristic_candidate g b (rc_orders st ! i)) ambiguous;
          ranked = sort_key (\<lambda>i. (submission_moment (rc_orders st ! i), eo_client_order_id (rc_orders st ! i))) candidates
      in if bid \<in> set (rc_consumed st) \<or> candidates = [] then st
         else let i = hd ranked; r = suspected bid (rc_orders st ! i);
                  st1 = add_alert (local_alert AMBIGUOUS_SUBMISSION_HEURISTIC_CANDIDATE r)
                    (set_order i r (st\<lparr>rc_candidates := eo_client_order_id r # rc_candidates st,
                       rc_consumed := bid # rc_consumed st\<rparr>))
              in if 1 < length candidates then add_alert (local_alert AMBIGUOUS_CANDIDATE_COLLISION r) st1 else st1)"

definition needs_intervention :: "execution_order \<Rightarrow> execution_order" where
  "needs_intervention r =
     set_recovery_state MANUAL_INTERVENTION_REQUIRED
       (if eo_recovery_state r = ORS_NONE then set_recovery_state DISCOVERING r else r)"

definition escalate_ambiguous :: "nat \<Rightarrow> recon \<Rightarrow> recon" where
  "escalate_ambiguous i st =
     (let r = rc_orders st ! i
      in if eo_client_order_id r \<in> set (rc_candidates st) then st
         else add_alert (local_alert AMBIGUOUS_SUBMISSION_MANUAL_INTERVENTION r)
                (set_order i (needs_intervention r) st))"

definition match_ambiguous_orders :: "reconcile_config \<Rightarrow> account_snapshot \<Rightarrow> recon \<Rightarrow> recon" where
  "match_ambiguous_orders g s st =
     (let ambiguous = ambiguous_positions st;
          st1 = fold (match_heuristic g ambiguous) (ab_orders s) st
      in if cp_open_orders (ab_completeness s) \<and> cp_history (ab_completeness s)
         then fold escalate_ambiguous ambiguous st1 else st1)"

subsection \<open>External orders\<close>

definition discovered_external ::
    "reconcile_ids \<Rightarrow> account_snapshot \<Rightarrow> order_snapshot \<Rightarrow> execution_order_status
       \<Rightarrow> reconcile_error + external_order" where
  "discovered_external ids s b status =
     map_sum RcExternalError id
       (bind_result (external_order_post_init
          \<lparr>xo_environment = ab_environment s, xo_account_no = ab_account_no s, xo_symbol = sn_symbol b,
           xo_side = sn_side b, xo_broker_order_id = sn_broker_order_id b,
           xo_quantity_requested = sn_quantity_requested b, xo_filled_quantity = sn_filled_quantity b,
           xo_limit_price = sn_limit_price b, xo_broker_status = status,
           xo_external_order_id = ri_external_id ids (ab_environment s) (ab_account_no s) (sn_broker_order_id b),
           xo_discovered_at = ab_observed_at s, xo_disposition = DISCOVERED_UNOWNED, xo_adopted_at = None,
           xo_adopted_by = [], xo_redacted_response = fst (ri_redact ids (sn_raw_response b)),
           xo_response_hash = snd (ri_redact ids (sn_raw_response b)), xo_version = 1\<rparr>)
        (\<lambda>x. Inr (if status \<in> TERMINAL_EXECUTION_ORDER_STATUSES
                  then x\<lparr>xo_disposition := DISMISSED_TERMINAL\<rparr> else x)))"

definition observe_external ::
    "reconcile_ids \<Rightarrow> account_snapshot \<Rightarrow> order_snapshot \<Rightarrow> recon \<Rightarrow> reconcile_error + recon" where
  "observe_external ids s b st =
     (let bid = sn_broker_order_id b in
      if bid = [] \<or> bid \<in> set (rc_consumed st) then Inr st
      else
        let (status, st1) = (case snapshot_status b of Some t \<Rightarrow> (t, st)
              | None \<Rightarrow> (UNKNOWN_SUBMISSION_STATE,
                  add_alert (broker_alert UNRECOGNIZED_BROKER_ORDER_STATUS (sn_symbol b) bid)
                    (add_class RC_UNRECOGNIZED bid st)));
            fenced = broker_alert DISCOVERED_UNOWNED_BROKER_ORDER (sn_symbol b) bid
        in case rc_external_at st bid of
             None \<Rightarrow>
               bind_result (discovered_external ids s b status) (\<lambda>x.
                 let st2 = add_class RC_DISCOVERED_EXTERNAL_ORDER (xo_external_order_id x)
                       (st1\<lparr>rc_externals := rc_externals st1 @ [x],
                            rc_external_at := (rc_external_at st1)(bid \<mapsto> length (rc_externals st1))\<rparr>)
                 in Inr (if status \<in> TERMINAL_EXECUTION_ORDER_STATUSES then st2 else add_alert fenced st2))
           | Some k \<Rightarrow>
               let x = (rc_externals st1 ! k)\<lparr>xo_broker_status := status, xo_filled_quantity := sn_filled_quantity b\<rparr>;
                   unowned = xo_disposition x = DISCOVERED_UNOWNED;
                   x' = (if unowned \<and> status \<in> TERMINAL_EXECUTION_ORDER_STATUSES
                     then x\<lparr>xo_disposition := DISMISSED_TERMINAL\<rparr> else x);
                   st2 = st1\<lparr>rc_externals := (rc_externals st1)[k := x']\<rparr>
               in Inr (if unowned \<and> status \<in> OPEN_EXECUTION_STATUSES then add_alert fenced st2 else st2))"

definition repeat_external_alerts :: "recon \<Rightarrow> recon" where
  "repeat_external_alerts st =
     (let alerted = al_broker_order_id ` set (filter (\<lambda>a. al_code a = DISCOVERED_UNOWNED_BROKER_ORDER) (rc_alerts st))
      in st\<lparr>rc_alerts := rc_alerts st
           @ map (\<lambda>x. broker_alert DISCOVERED_UNOWNED_BROKER_ORDER (xo_symbol x) (xo_broker_order_id x))
               (filter (\<lambda>x. xo_disposition x = DISCOVERED_UNOWNED \<and> xo_broker_status x \<in> OPEN_EXECUTION_STATUSES
                  \<and> xo_broker_order_id x \<notin> alerted) (rc_externals st))\<rparr>)"

definition observe_externals ::
    "reconcile_ids \<Rightarrow> account_snapshot \<Rightarrow> recon \<Rightarrow> reconcile_error + recon" where
  "observe_externals ids s st =
     bind_result (fold_result (observe_external ids s) (ab_orders s) st) (\<lambda>st'. Inr (repeat_external_alerts st'))"

subsection \<open>Holdings\<close>

definition manual_position_card :: "account_snapshot \<Rightarrow> account_holding \<Rightarrow> card_error + trade_card" where
  "manual_position_card s h =
     card_post_init
       ((blank_card (ab_observed_at s) (ab_environment s) (ab_account_no s) (ah_symbol h))
          \<lparr>tc_name := ah_symbol h, tc_board_status := BS_OPEN_POSITION, tc_watchlist_member := True,
           tc_buylist_member := True, tc_return_to_buylist_after_close := True,
           tc_broker_quantity := ah_quantity h, tc_orderable_quantity := sellable_or (Some h) (ah_quantity h),
           tc_average_entry_price := ah_average_price h, tc_position_runtime_status := PRS_OPEN,
           tc_entry_block_reason := ''manual_position_requires_stop'', tc_warnings := [''STOP_REQUIRED''],
           tc_board_status_updated_at := ab_observed_at s, tc_session_date := Some (ab_session_date s),
           tc_created_at := ab_observed_at s, tc_updated_at := ab_observed_at s\<rparr>)"

definition held_card :: "account_holding \<Rightarrow> trade_card \<Rightarrow> trade_card" where
  "held_card h c =
     (let c1 = c\<lparr>tc_broker_quantity := ah_quantity h, tc_orderable_quantity := sellable_or (Some h) (ah_quantity h),
                 tc_average_entry_price := (if truthy (ah_average_price h) then ah_average_price h
                   else tc_average_entry_price c)\<rparr>
      in if tc_board_status c \<in> {BS_WATCHLIST, BS_BUYLIST, BS_BUY_TODAY, BS_ENTRY_PENDING}
         then let c2 = c1\<lparr>tc_board_status := BS_OPEN_POSITION, tc_position_runtime_status := PRS_OPEN,
                          tc_entry_runtime_status := None\<rparr>
              in if tc_stop_type c = None
                 then c2\<lparr>tc_warnings := (if ''STOP_REQUIRED'' \<in> set (tc_warnings c) then tc_warnings c
                           else tc_warnings c @ [''STOP_REQUIRED'']),
                         tc_entry_block_reason := ''broker_position_requires_stop''\<rparr>
                 else c2
         else c1)"

definition reconcile_account_holding ::
    "account_snapshot \<Rightarrow> account_holding \<Rightarrow> recon \<Rightarrow> reconcile_error + recon" where
  "reconcile_account_holding s h st =
     (case card_index st (ab_environment s, ab_account_no s, ah_symbol h) of
        None \<Rightarrow>
          bind_result (map_sum RcCardError id (manual_position_card s h)) (\<lambda>c.
            Inr (add_class RC_MANUAL_BROKER_POSITION
              (ab_environment s @ '':'' @ ab_account_no s @ '':'' @ ah_symbol h)
              (st\<lparr>rc_cards := rc_cards st @ [c]\<rparr>)))
      | Some j \<Rightarrow> Inr (set_card j (held_card h (rc_cards st ! j)) st))"

definition vanished_card :: "account_snapshot \<Rightarrow> trade_card \<Rightarrow> reconcile_error + trade_card" where
  "vanished_card s c =
     (if tc_environment c = ab_environment s \<and> tc_account_no c = ab_account_no s \<and> 0 < tc_broker_quantity c
         \<and> tc_symbol c \<notin> ah_symbol ` set (ab_holdings s)
      then let c1 = c\<lparr>tc_broker_quantity := 0, tc_orderable_quantity := 0\<rparr>
           in if tc_board_status c \<in> {BS_OPEN_POSITION, BS_PARTIAL_SELL, BS_SELL_ALL} then flat c1 else Inr c1
      else Inr c)"

fun map_result :: "('a \<Rightarrow> 'e + 'b) \<Rightarrow> 'a list \<Rightarrow> 'e + 'b list" where
  "map_result f [] = Inr []"
| "map_result f (x # xs) = bind_result (f x) (\<lambda>y. bind_result (map_result f xs) (\<lambda>ys. Inr (y # ys)))"

definition stale_entry_card :: "account_snapshot \<Rightarrow> execution_order list \<Rightarrow> trade_card \<Rightarrow> trade_card" where
  "stale_entry_card s orders c =
     (if tc_board_status c = BS_ENTRY_PENDING \<and> card_id_of c \<notin> order_card_id ` set orders
         \<and> tc_symbol c \<notin> ah_symbol ` set (ab_holdings s) \<and> tc_symbol c \<notin> sn_symbol ` set (ab_orders s)
      then clear_entry_card_tracking True (c\<lparr>tc_board_status := BS_BUYLIST, tc_entry_runtime_status := None\<rparr>)
      else c)"

definition reconcile_holdings :: "account_snapshot \<Rightarrow> recon \<Rightarrow> reconcile_error + recon" where
  "reconcile_holdings s st =
     (if \<not> completeness_allows (ab_completeness s) RA_POSITION_QUANTITY_UPDATE then Inr st
      else bind_result (fold_result (reconcile_account_holding s) (ab_holdings s) st) (\<lambda>st1.
           bind_result (map_result (vanished_card s) (rc_cards st1)) (\<lambda>cards.
             Inr (st1\<lparr>rc_cards :=
               (if completeness_allows (ab_completeness s) RA_TERMINAL_ORDER_CONCLUSION
                then map (stale_entry_card s (rc_orders st1)) cards else cards)\<rparr>))))"

subsection \<open>Absent orders\<close>

definition note_absence :: "reconcile_config \<Rightarrow> account_snapshot \<Rightarrow> nat \<Rightarrow> recon \<Rightarrow> recon" where
  "note_absence g s i st =
     (let r = rc_orders st ! i
      in if eo_broker_order_id r = [] \<or> eo_status r \<in> TERMINAL_EXECUTION_ORDER_STATUSES
            \<or> eo_broker_order_id r \<in> set (rc_consumed st) \<or> \<not> absence_evidence_complete r s then st
         else let (outcome, r') = record_absence g s
                    (case holding_for s (eo_symbol r) of None \<Rightarrow> 0 | Some h \<Rightarrow> ah_quantity h) r;
                  st1 = set_order i r' st
              in if outcome \<in> {ABSENT_MANUAL_INTERVENTION, CONTRADICTION_RESET}
                 then add_alert (order_alert (ORDER_ABSENCE outcome) r') st1 else st1)"

definition note_absences :: "reconcile_config \<Rightarrow> account_snapshot \<Rightarrow> recon \<Rightarrow> recon" where
  "note_absences g s st = fold (note_absence g s) [0..<length (rc_orders st)] st"

subsection \<open>Capital\<close>

definition review_orphan ::
    "reconcile_config \<Rightarrow> account_snapshot \<Rightarrow> string set \<Rightarrow> nat \<Rightarrow> recon \<Rightarrow> recon" where
  "review_orphan g s referenced i st =
     (let v = rc_reservations st ! i
      in if reservation_is_open v \<and> cr_reservation_id v \<notin> referenced
         then let (outcome, v') = record_orphan_reservation_absence g s v
              in add_alert (broker_alert (ORPHAN_CAPITAL_RESERVATION_REQUIRES_REVIEW
                     (outcome = RELEASED_AFTER_TWO_COMPLETE_GENERATIONS)) (cr_symbol v) [])
                   (add_class RC_ORPHAN_CAPITAL_RESERVATION (cr_reservation_id v)
                     (st\<lparr>rc_reservations := (rc_reservations st)[i := v']\<rparr>))
         else st)"

definition check_live_reservation :: "nat \<Rightarrow> recon \<Rightarrow> recon" where
  "check_live_reservation i st =
     (let r = rc_orders st ! i
      in if eo_side r \<noteq> BUY \<or> eo_intent r \<noteq> ENTRY then st
         else if \<exists>j. find_last (\<lambda>v. cr_reservation_id v = eo_capital_reservation_id r) (rc_reservations st) = Some j
           \<and> reservation_is_open (rc_reservations st ! j) then st
         else add_alert (local_alert LIVE_ORDER_WITHOUT_CAPITAL_RESERVATION r)
                (add_class RC_LIVE_ORDER_WITHOUT_RESERVATION (eo_client_order_id r) st))"

definition reconcile_capital :: "reconcile_config \<Rightarrow> account_snapshot \<Rightarrow> recon \<Rightarrow> recon" where
  "reconcile_capital g s st =
     (let orders = rc_orders st;
          referenced = eo_capital_reservation_id ` set (filter (\<lambda>r. eo_capital_reservation_id r \<noteq> []) orders);
          (vs, alerts) = settle_reservations_from_replacement_leaves (ab_observed_at s) orders (rc_reservations st);
          st1 = st\<lparr>rc_reservations := vs, rc_alerts := rc_alerts st @ alerts\<rparr>;
          st2 = fold (review_orphan g s referenced) [0..<length vs] st1
      in fold check_live_reservation (filter (\<lambda>i. live (orders ! i)) [0..<length orders]) st2)"

subsection \<open>Emergency commands\<close>

definition liquidate_card :: "account_snapshot \<Rightarrow> trade_card \<Rightarrow> recon \<Rightarrow> recon" where
  "liquidate_card s c st =
     (if tc_board_status c \<noteq> BS_SELL_ALL \<and> \<not> tc_exit_all_required c then st
      else let d = decide_emergency_sell s (tc_symbol c) (rc_orders st);
               command = (\<lambda>kind cid n. st\<lparr>rc_commands := rc_commands st @
                 [\<lparr>rm_kind = kind, rm_environment = ab_environment s, rm_account_no = ab_account_no s,
                   rm_symbol = tc_symbol c, rm_client_order_id = cid, rm_quantity = n, rm_reason = ed_reason d\<rparr>]\<rparr>)
           in if ed_cancel_client_order_id d \<noteq> [] then command CANCEL_KNOWN_ORDER (ed_cancel_client_order_id d) 0
              else if 0 < ed_quantity d then command EMERGENCY_SELL_ALL [] (ed_quantity d)
              else if ed_manual_intervention d
              then add_alert (broker_alert (EMERGENCY_SELL_QUANTITY_UNCERTAIN (ed_reason d)) (tc_symbol c) []) st
              else st)"

definition liquidate_cards :: "account_snapshot \<Rightarrow> recon \<Rightarrow> recon" where
  "liquidate_cards s st = fold (liquidate_card s) (rc_cards st) st"

subsection \<open>The plan\<close>

record reconciliation_plan =
  pl_snapshot_id :: string
  pl_card_creates :: "trade_card list"
  pl_card_updates :: "trade_card list"
  pl_order_updates :: "execution_order list"
  pl_reservation_updates :: "reservation list"
  pl_external_creates :: "external_order list"
  pl_external_updates :: "external_order list"
  pl_commands :: "reconciliation_command list"
  pl_alerts :: "alert list"
  pl_classes :: "(reconciliation_category \<times> string) list"

text \<open>What a dictionary of the originals says of a row: new, or changed.\<close>

definition is_new :: "('a \<Rightarrow> 'k) \<Rightarrow> 'a list \<Rightarrow> 'a \<Rightarrow> bool" where
  "is_new key originals x \<longleftrightarrow> find_last (\<lambda>y. key y = key x) originals = None"

definition is_changed :: "('a \<Rightarrow> 'k) \<Rightarrow> 'a list \<Rightarrow> 'a \<Rightarrow> bool" where
  "is_changed key originals x \<longleftrightarrow>
     (\<exists>i. find_last (\<lambda>y. key y = key x) originals = Some i \<and> x \<noteq> originals ! i)"

definition plan_of :: "account_snapshot \<Rightarrow> local_state \<Rightarrow> recon \<Rightarrow> reconciliation_plan" where
  "plan_of s l st =
     \<lparr>pl_snapshot_id = ab_snapshot_id s,
      pl_card_creates = filter (is_new card_id_of (lo_cards l)) (rc_cards st),
      pl_card_updates = filter (is_changed card_id_of (lo_cards l)) (rc_cards st),
      pl_order_updates = filter (is_changed eo_client_order_id (lo_orders l)) (rc_orders st),
      pl_reservation_updates = filter (is_changed cr_reservation_id (lo_reservations l)) (rc_reservations st),
      pl_external_creates = filter (is_new xo_external_order_id (lo_externals l)) (rc_externals st),
      pl_external_updates = filter (is_changed xo_external_order_id (lo_externals l)) (rc_externals st),
      pl_commands = rc_commands st, pl_alerts = rc_alerts st, pl_classes = rc_classes st\<rparr>"

text \<open>The phases, in the code's order.\<close>

definition reconcile_orders ::
    "reconcile_config \<Rightarrow> reconcile_ids \<Rightarrow> timestamp \<Rightarrow> account_snapshot \<Rightarrow> recon \<Rightarrow> reconcile_error + recon" where
  "reconcile_orders g ids now s st =
     bind_result (match_exact_orders g now s (classify_orders s st)) (\<lambda>st1.
       observe_externals ids s (match_ambiguous_orders g s st1))"

definition reduce_state ::
    "reconcile_config \<Rightarrow> reconcile_ids \<Rightarrow> timestamp \<Rightarrow> account_snapshot \<Rightarrow> local_state \<Rightarrow> reconcile_error + recon" where
  "reduce_state g ids now s l =
     bind_result (reconcile_orders g ids now s (working_copy l)) (\<lambda>st1.
     bind_result (reconcile_holdings s st1) (\<lambda>st2.
       Inr (liquidate_cards s (reconcile_capital g s (note_absences g s st2)))))"

definition reduce_account_reconciliation ::
    "reconcile_config \<Rightarrow> reconcile_ids \<Rightarrow> timestamp \<Rightarrow> account_snapshot \<Rightarrow> local_state
       \<Rightarrow> reconcile_error + reconciliation_plan" where
  "reduce_account_reconciliation g ids now s l = map_sum id (plan_of s l) (reduce_state g ids now s l)"

end
