(* ===== verification/Reconcile_Apply.thy ===== *)
theory Reconcile_Apply
  imports Reconcile Stop_Change
begin

text \<open>
  \<open>apply_reconciliation_plan\<close>, \<open>load_account_local_state\<close> and \<open>run_account_reconciliation_pass\<close>: a plan
  is written in one transaction, each row under the version it was loaded with, and a pass that lost
  a race against another writer loads again and retries once. The relational cache of the loader and
  the daily summary are not modelled; a failure to refresh the local snapshot is only logged by the
  code, so the refresh is total here. Other writers may act between the load and the transaction of an
  attempt, and between the attempts: what each of them finds is an argument.
\<close>

record pass_store =
  ps_db :: gateway_db
  ps_pending :: stop_coordinator
  ps_snapshot :: "trade_card list"

datatype apply_error =
    ApCard card_store_error | ApOrder order_store_error | ApReservation reservation_store_error
  | ApExternal external_store_error

subsection \<open>One transaction\<close>

text \<open>The rows of one kind, each written by the step; the records as the writes leave them.\<close>

fun write_rows :: "('a \<Rightarrow> 't \<Rightarrow> 'e + ('a \<times> 't)) \<Rightarrow> 'a list \<Rightarrow> 't \<Rightarrow> 'e + ('a list \<times> 't)" where
  "write_rows w [] t = Inr ([], t)"
| "write_rows w (x # xs) t =
     bind_result (w x t) (\<lambda>(x', t1). bind_result (write_rows w xs t1) (\<lambda>(xs', t2). Inr (x' # xs', t2)))"

definition create_external_if_absent ::
    "external_order \<Rightarrow> external_table \<Rightarrow> external_store_error + (external_order \<times> external_table)" where
  "create_external_if_absent x t =
     (case get_discovered_external_order_by_broker_id t (xo_environment x) (xo_account_no x) (xo_broker_order_id x) of
        Some existing \<Rightarrow> Inr (x, t)
      | None \<Rightarrow> insert_discovered_external_order x t)"

definition write_plan ::
    "timestamp \<Rightarrow> timestamp \<Rightarrow> reconciliation_plan \<Rightarrow> gateway_db \<Rightarrow> apply_error + (trade_card list \<times> gateway_db)" where
  "write_plan now server_now p db =
     bind_result (map_sum ApCard id
       (write_rows (insert_trade_card server_now) (pl_card_creates p) (gd_cards db))) (\<lambda>(created, ct1).
     bind_result (map_sum ApCard id
       (write_rows (\<lambda>c. update_trade_card_in_transaction now server_now c (tc_version c)) (pl_card_updates p) ct1))
       (\<lambda>(updated, ct).
     bind_result (map_sum ApOrder id
       (write_rows (\<lambda>r. update_execution_order r (eo_version r)) (pl_order_updates p) (gd_orders db))) (\<lambda>(_, ot).
     bind_result (map_sum ApReservation id
       (write_rows (\<lambda>v. update_reservation v (cr_version v)) (pl_reservation_updates p) (gd_reservations db))) (\<lambda>(_, vt).
     bind_result (map_sum ApExternal id
       (write_rows create_external_if_absent (pl_external_creates p) (gd_externals db))) (\<lambda>(_, xt1).
     bind_result (map_sum ApExternal id
       (write_rows (\<lambda>x. update_discovered_external_order x (xo_version x)) (pl_external_updates p) xt1)) (\<lambda>(_, xt).
       Inr (created @ updated,
         db\<lparr>gd_cards := ct, gd_orders := ot, gd_reservations := vt, gd_externals := xt\<rparr>)))))))"

definition plan_is_empty :: "reconciliation_plan \<Rightarrow> bool" where
  "plan_is_empty p \<longleftrightarrow> pl_card_creates p = [] \<and> pl_card_updates p = [] \<and> pl_order_updates p = []
     \<and> pl_reservation_updates p = [] \<and> pl_external_creates p = [] \<and> pl_external_updates p = []"

definition apply_reconciliation_plan ::
    "timestamp \<Rightarrow> timestamp \<Rightarrow> reconciliation_plan \<Rightarrow> pass_store \<Rightarrow> apply_error + pass_store" where
  "apply_reconciliation_plan now server_now p st =
     (if plan_is_empty p then Inr st
      else bind_result (write_plan now server_now p (ps_db st)) (\<lambda>(cards, db).
        Inr \<lparr>ps_db = db,
             ps_pending = fold (\<lambda>c pending. snd (reconcile_durable c pending)) cards (ps_pending st),
             ps_snapshot = fold upsert_local_snapshot_card cards (ps_snapshot st)\<rparr>))"

subsection \<open>One pass\<close>

definition load_account_local_state :: "gateway_db \<Rightarrow> string \<Rightarrow> string \<Rightarrow> trade_card list \<Rightarrow> local_state" where
  "load_account_local_state db environment account_no cards =
     \<lparr>lo_cards = filter (\<lambda>c. tc_environment c = py_upper environment \<and> tc_account_no c = account_no) cards,
      lo_orders = list_execution_orders_for_account (gd_orders db) (py_upper environment) account_no,
      lo_reservations = list_active_reservations (gd_reservations db) (py_upper environment) account_no,
      lo_externals = list_discovered_external_orders_for_account (gd_externals db) (py_upper environment) account_no\<rparr>"

fun is_version_conflict :: "apply_error \<Rightarrow> bool" where
  "is_version_conflict (ApCard e) = (e = TradeCardVersionConflict)"
| "is_version_conflict (ApOrder e) = (e = ExecutionOrderVersionConflict)"
| "is_version_conflict (ApReservation e) = (e = ReservationVersionConflict)"
| "is_version_conflict (ApExternal e) = (e = ExternalOrderVersionConflict)"

datatype pass_error = PlanFailed reconcile_error | WriteFailed apply_error

text \<open>One attempt: \<open>loaded\<close> is the database it reads, \<open>st\<close> what its transaction finds.\<close>

definition reconcile_attempt ::
    "reconcile_config \<Rightarrow> reconcile_ids \<Rightarrow> timestamp \<Rightarrow> timestamp \<Rightarrow> bool \<Rightarrow> account_snapshot \<Rightarrow> string \<Rightarrow> string
       \<Rightarrow> trade_card list \<Rightarrow> gateway_db \<Rightarrow> pass_store \<Rightarrow> pass_error + (reconciliation_plan \<times> pass_store)" where
  "reconcile_attempt g ids now server_now persist s environment account_no cards loaded st =
     bind_result (map_sum PlanFailed id
       (reduce_account_reconciliation g ids now s (load_account_local_state loaded environment account_no cards)))
       (\<lambda>p. if persist
            then map_sum WriteFailed (Pair p) (apply_reconciliation_plan now server_now p st)
            else Inr (p, st))"

text \<open>A refused attempt leaves the store it found; \<open>loaded2\<close> and \<open>st2\<close> are what the second one meets.\<close>

definition run_account_reconciliation_pass ::
    "reconcile_config \<Rightarrow> reconcile_ids \<Rightarrow> timestamp \<Rightarrow> timestamp \<Rightarrow> bool \<Rightarrow> account_snapshot \<Rightarrow> string \<Rightarrow> string
       \<Rightarrow> trade_card list \<Rightarrow> gateway_db \<times> pass_store \<Rightarrow> gateway_db \<times> pass_store
       \<Rightarrow> pass_error + (reconciliation_plan \<times> pass_store)" where
  "run_account_reconciliation_pass g ids now server_now persist s environment account_no cards first second =
     (case reconcile_attempt g ids now server_now persist s environment account_no cards (fst first) (snd first) of
        Inl (WriteFailed e) \<Rightarrow>
          if is_version_conflict e
          then reconcile_attempt g ids now server_now persist s environment account_no
                 (list_trade_cards (gd_cards (fst second)) (Some environment) (Some account_no)) (fst second) (snd second)
          else Inl (WriteFailed e)
      | result \<Rightarrow> result)"

subsection \<open>What a written plan says of the tables\<close>

lemma map_sum_Inr_iff [guard_simps]: "map_sum f h r = Inr y \<longleftrightarrow> (\<exists>x. r = Inr x \<and> y = h x)"
  by (cases r) auto

lemma map_sum_Inl_iff [guard_simps]: "map_sum f h r = Inl y \<longleftrightarrow> (\<exists>x. r = Inl x \<and> y = f x)"
  by (cases r) auto

text \<open>A step that only ever touches the row of its record, and needs the row as it is: writing a list
  of records changes only their rows, and every one of them met the step's guard in the table the
  writing started from, if no earlier record had its key.\<close>

locale row_writer =
  fixes step :: "'a \<Rightarrow> 't \<Rightarrow> 'e + ('a \<times> 't)"
    and key :: "'a \<Rightarrow> 'k"
    and row :: "'t \<Rightarrow> 'k \<rightharpoonup> 'r"
    and accepts :: "'a \<Rightarrow> 'r option \<Rightarrow> bool"
  assumes step_guard: "step x t = Inr (x', t') \<Longrightarrow> accepts x (row t (key x))"
    and step_other: "step x t = Inr (x', t') \<Longrightarrow> k \<noteq> key x \<Longrightarrow> row t' k = row t k"
begin

lemma write_rows_other:
  "write_rows step xs t = Inr (xs', t') \<Longrightarrow> k \<notin> key ` set xs \<Longrightarrow> row t' k = row t k"
proof (induction xs arbitrary: t xs')
  case (Cons x xs)
  from Cons.prems(1) obtain x1 t1 ys where s: "step x t = Inr (x1, t1)" "write_rows step xs t1 = Inr (ys, t')"
    by (auto simp: bind_result_Inr_iff)
  have "row t' k = row t1 k" using Cons.IH [OF s(2)] Cons.prems(2) by simp
  with step_other [OF s(1)] Cons.prems(2) show ?case by simp
qed simp

lemma write_rows_guard:
  assumes "write_rows step xs t = Inr (xs', t')" "x \<in> set xs" "distinct (map key xs)"
  shows "accepts x (row t (key x))"
  using assms
proof (induction xs arbitrary: t xs')
  case (Cons y ys)
  from Cons.prems(1) obtain y1 t1 zs where s: "step y t = Inr (y1, t1)" "write_rows step ys t1 = Inr (zs, t')"
    by (auto simp: bind_result_Inr_iff)
  show ?case
  proof (cases "x = y")
    case True
    with step_guard [OF s(1)] show ?thesis by simp
  next
    case False
    with Cons.prems(2,3) have "x \<in> set ys" "key x \<noteq> key y" by (auto simp: image_iff)
    with Cons.IH [OF s(2)] Cons.prems(3) step_other [OF s(1)] show ?thesis by simp
  qed
qed simp

end

text \<open>A step that also fixes what the row then holds.\<close>

locale row_rewriter = row_writer +
  fixes content :: "'a \<Rightarrow> 'r"
  assumes step_row: "step x t = Inr (x', t') \<Longrightarrow> row t' (key x) = Some (content x)"
begin

lemma write_rows_row:
  assumes "write_rows step xs t = Inr (xs', t')" "x \<in> set xs" "distinct (map key xs)"
  shows "row t' (key x) = Some (content x)"
  using assms
proof (induction xs arbitrary: t xs')
  case (Cons y ys)
  from Cons.prems(1) obtain y1 t1 zs where s: "step y t = Inr (y1, t1)" "write_rows step ys t1 = Inr (zs, t')"
    by (auto simp: bind_result_Inr_iff)
  show ?case
  proof (cases "x = y")
    case True
    with write_rows_other [OF s(2), of "key x"] step_row [OF s(1)] Cons.prems(3) show ?thesis by auto
  next
    case False
    with Cons.IH [OF s(2)] Cons.prems(2,3) show ?thesis by simp
  qed
qed simp

end

interpretation card_creates: row_rewriter "insert_trade_card now" card_id_of ct_rows "\<lambda>c r. r = None"
    "\<lambda>c. c\<lparr>tc_version := 1\<rparr>"
  by standard (auto simp: insert_Inr_iff)

interpretation card_updates: row_rewriter "\<lambda>c. update_trade_card_in_transaction now server_now c (tc_version c)"
    card_id_of ct_rows "\<lambda>c r. map_option tc_version r = Some (tc_version c)"
    "\<lambda>c. c\<lparr>tc_updated_at := now, tc_version := tc_version c + 1\<rparr>"
  by standard (auto simp: update_Inr_iff)

interpretation order_updates: row_rewriter "\<lambda>r. update_execution_order r (eo_version r)" eo_client_order_id ox_rows
    "\<lambda>r row. validate_consistency r = None \<and> map_option eo_version row = Some (eo_version r)"
    "\<lambda>r. r\<lparr>eo_version := eo_version r + 1\<rparr>"
  by standard (auto simp: update_order_Inr_iff)

interpretation reservation_updates: row_writer "\<lambda>v. update_reservation v (cr_version v)" cr_reservation_id rt_rows
    "\<lambda>v r. map_option cr_version r = Some (cr_version v)"
  by standard (auto simp: update_reservation_Inr_iff)

lemma create_external_Inr:
  "create_external_if_absent x t = Inr (x', t') \<Longrightarrow> k \<noteq> xo_external_order_id x \<Longrightarrow> xt_rows t' k = xt_rows t k"
  by (auto simp: create_external_if_absent_def insert_discovered_external_order_def Let_def
      split: option.splits if_splits)

interpretation external_creates: row_writer create_external_if_absent xo_external_order_id xt_rows "\<lambda>x r. True"
  by standard (auto dest: create_external_Inr)

interpretation external_updates: row_rewriter "\<lambda>x. update_discovered_external_order x (xo_version x)"
    xo_external_order_id xt_rows "\<lambda>x r. map_option xo_version r = Some (xo_version x)"
    "\<lambda>x. x\<lparr>xo_version := xo_version x + 1\<rparr>"
  by standard (auto simp: update_external_Inr_iff)

end
