(* ===== verification/Reconcile_Progress.thy ===== *)
theory Reconcile_Progress
  imports Reconcile_Apply
begin

text \<open>
  What one pass may do to an order record: the identity of the order, what was submitted and its
  version stay, fills only grow, and the status only moves along the table of allowed transitions.
  The relation is shown for each update of the pass and carried through its phases.
\<close>

definition status_moves :: "(execution_order_status \<times> execution_order_status) set" where
  "status_moves = {(a, b). b \<in> allowed_status_transitions a}"

definition order_progress :: "execution_order \<Rightarrow> execution_order \<Rightarrow> bool" where
  "order_progress r r' \<longleftrightarrow>
     eo_client_order_id r' = eo_client_order_id r \<and> eo_environment r' = eo_environment r
     \<and> eo_account_no r' = eo_account_no r \<and> eo_symbol r' = eo_symbol r \<and> eo_side r' = eo_side r
     \<and> eo_intent r' = eo_intent r \<and> eo_submitted_quantity r' = eo_submitted_quantity r
     \<and> eo_broker_order_id r' = eo_broker_order_id r
     \<and> eo_broker_identity_status r' = eo_broker_identity_status r
     \<and> eo_capital_reservation_id r' = eo_capital_reservation_id r \<and> eo_origin r' = eo_origin r
     \<and> eo_execution_policy r' = eo_execution_policy r \<and> eo_version r' = eo_version r
     \<and> eo_filled_quantity r \<le> eo_filled_quantity r' \<and> (eo_status r, eo_status r') \<in> status_moves\<^sup>*"

lemma order_progress_refl [simp]: "order_progress r r"
  by (simp add: order_progress_def)

lemma order_progress_trans: "order_progress a b \<Longrightarrow> order_progress b c \<Longrightarrow> order_progress a c"
  by (auto simp: order_progress_def intro: rtrancl_trans)

lemma order_progress_known: "order_progress a b \<Longrightarrow> exactly_known b = exactly_known a"
  by (simp add: order_progress_def exactly_known_def)

subsection \<open>The updates\<close>

lemma order_updates_same [simp]:
  "order_progress a (set_recovery_state t r) = order_progress a r"
  "order_progress a (clear_absence r) = order_progress a r"
  "order_progress a (stamp_if_due g before at' r) = order_progress a r"
  "order_progress a (settle_recovery target p r) = order_progress a r"
  "order_progress a (suspected bid r) = order_progress a r"
  "order_progress a (needs_intervention r) = order_progress a r"
  by (auto simp: order_progress_def set_recovery_state_def clear_absence_def stamp_if_due_def
      settle_recovery_def suspected_def needs_intervention_def Let_def)

lemma progress_with_evidence: "order_progress r (with_evidence b r)"
  by (simp add: with_evidence_def Let_def order_progress_def clear_absence_def)

lemma progress_transition:
  assumes "transition_now now target r = Inr r'" "eo_broker_identity_status r = EXACT" "target \<noteq> CANCELLED_LOCALLY"
  shows "order_progress r r'"
proof -
  have a: "apply_status_transition now target None r = (None, r')"
    using assms(1) by (auto simp: transition_now_def split: prod.splits option.splits)
  then have "eo_status r' = target" "target \<in> allowed_status_transitions (eo_status r)"
    using apply_transition_status by blast+
  then have m: "(eo_status r, eo_status r') \<in> status_moves\<^sup>*" by (auto simp: status_moves_def)
  have "r' = (stamp_transition now target r)\<lparr>eo_status := target\<rparr>"
    using a assms(2,3) by (auto simp: apply_status_transition_def settle_identity_def retire_unsent_def
        validate_status_transition_def Let_def split: if_splits)
  then show ?thesis using m by (simp add: order_progress_def stamp_transition_def)
qed

lemma snapshot_status_not_local: "snapshot_status b = Some target \<Longrightarrow> target \<noteq> CANCELLED_LOCALLY"
  by (cases "sn_status b") (auto simp: snapshot_status_def)

lemma progress_follow:
  assumes "follow_status now target r = Inr (Some r')" "eo_broker_identity_status r = EXACT" "target \<noteq> CANCELLED_LOCALLY"
  shows "order_progress r r'"
proof -
  consider "r' = r" | "transition_now now target r = Inr r'"
    | r1 where "transition_now now CANCEL_PENDING r = Inr r1" "transition_now now CANCELLED r1 = Inr r'"
    using assms(1) by (auto simp: follow_status_def bind_result_Inr_iff split: if_splits)
  then show ?thesis
  proof cases
    case (3 r1)
    have "order_progress r r1" using progress_transition [OF 3(1) assms(2)] by simp
    moreover have "eo_broker_identity_status r1 = EXACT" using calculation assms(2) by (simp add: order_progress_def)
    ultimately show ?thesis using progress_transition [OF 3(2)] order_progress_trans by blast
  qed (use assms(2,3) progress_transition in auto)
qed

lemma progress_exact:
  assumes "apply_exact_order_snapshot g now b r = Inr (why, r')" "exactly_known r"
  shows "order_progress r r'"
proof (cases "snapshot_status b")
  case None
  then show ?thesis using assms progress_with_evidence
    by (auto simp: apply_exact_order_snapshot_def Let_def)
next
  case (Some target)
  then obtain followed where f: "follow_status now target (with_evidence b r) = Inr followed"
    using assms(1) by (auto simp: apply_exact_order_snapshot_def Let_def bind_result_Inr_iff)
  have e: "eo_broker_identity_status (with_evidence b r) = EXACT"
    using assms(2) by (simp add: with_evidence_def Let_def exactly_known_def clear_absence_def)
  show ?thesis
  proof (cases followed)
    case None
    with f Some assms(1) show ?thesis using progress_with_evidence
      by (auto simp: apply_exact_order_snapshot_def Let_def)
  next
    case (Some r2)
    have "order_progress (with_evidence b r) r2"
      using progress_follow [OF f [unfolded Some] e] snapshot_status_not_local \<open>snapshot_status b = Some target\<close> by blast
    with progress_with_evidence have "order_progress r r2" using order_progress_trans by blast
    with f Some \<open>snapshot_status b = Some target\<close> assms(1) show ?thesis
      by (auto simp: apply_exact_order_snapshot_def Let_def)
  qed
qed

lemma progress_absence: "order_progress a r \<Longrightarrow> order_progress a (snd (record_absence g s n r))"
  by (auto simp: record_absence_def Let_def order_progress_def set_recovery_state_def clear_absence_def
      split: option.split)

subsection \<open>The phases\<close>

text \<open>What a phase leaves alone.\<close>

lemma recon_updates [simp]:
  "rc_orders (add_alert a st) = rc_orders st" "rc_consumed (add_alert a st) = rc_consumed st"
  "rc_orders (add_class c k st) = rc_orders st" "rc_consumed (add_class c k st) = rc_consumed st"
  "rc_orders (set_card j c' st) = rc_orders st" "rc_consumed (set_card j c' st) = rc_consumed st"
  "rc_orders (set_order i r st) = (rc_orders st)[i := r]" "rc_consumed (set_order i r st) = rc_consumed st"
  "rc_externals (add_alert a st) = rc_externals st" "rc_externals (add_class c k st) = rc_externals st"
  "rc_externals (set_card j c' st) = rc_externals st" "rc_externals (set_order i r st) = rc_externals st"
  "rc_external_at (add_alert a st) = rc_external_at st" "rc_external_at (add_class c k st) = rc_external_at st"
  "rc_external_at (set_card j c' st) = rc_external_at st" "rc_external_at (set_order i r st) = rc_external_at st"
  "rc_reservations (add_alert a st) = rc_reservations st" "rc_reservations (add_class c k st) = rc_reservations st"
  "rc_reservations (set_card j c' st) = rc_reservations st" "rc_reservations (set_order i r st) = rc_reservations st"
  "rc_commands (add_alert a st) = rc_commands st" "rc_commands (add_class c k st) = rc_commands st"
  "rc_commands (set_card j c' st) = rc_commands st" "rc_commands (set_order i r st) = rc_commands st"
  by (simp_all add: add_alert_def add_class_def set_card_def set_order_def)

text \<open>A loop that may stop at an exception keeps what each of its steps keeps.\<close>

lemma fold_result_invariant:
  assumes "fold_result f xs s = Inr s'" "P s"
    "\<And>x s s'. x \<in> set xs \<Longrightarrow> P s \<Longrightarrow> f x s = Inr s' \<Longrightarrow> P s'"
  shows "P s'"
  using assms
proof (induction xs arbitrary: s)
  case (Cons x xs)
  from Cons.prems(1) obtain s1 where "f x s = Inr s1" "fold_result f xs s1 = Inr s'"
    by (auto simp: bind_result_Inr_iff)
  with Cons.IH [of s1] Cons.prems(2,3) show ?case by (meson list.set_intros)
qed simp

definition absence_of :: "execution_order \<Rightarrow> int \<times> string \<times> string option \<times> string option \<times> string \<times> int option" where
  "absence_of r = (eo_absence_count r, eo_last_absence_snapshot_id r, eo_last_absence_observed_at r,
     eo_last_absence_session_date r, eo_last_absence_broker_order_id r, eo_last_absence_holding_quantity r)"

text \<open>The orders of the working copy against those loaded: each has only progressed, and its absence
  evidence is the loaded one unless an exact answer cleared it, which consumed its broker id.\<close>

definition orders_tracked :: "execution_order list \<Rightarrow> recon \<Rightarrow> bool" where
  "orders_tracked os st \<longleftrightarrow> length (rc_orders st) = length os
     \<and> (\<forall>i < length os. order_progress (os ! i) (rc_orders st ! i)
          \<and> (absence_of (rc_orders st ! i) = absence_of (os ! i)
             \<or> eo_absence_count (rc_orders st ! i) = 0 \<and> eo_broker_order_id (os ! i) \<in> set (rc_consumed st)))"

lemma tracked_same:
  assumes "orders_tracked os st" "rc_orders st' = rc_orders st" "set (rc_consumed st) \<subseteq> set (rc_consumed st')"
  shows "orders_tracked os st'"
  using assms by (auto simp: orders_tracked_def)

lemma tracked_update:
  assumes t: "orders_tracked os st" and r: "order_progress (rc_orders st ! i) r"
    "absence_of r = absence_of (rc_orders st ! i) \<or> eo_absence_count r = 0 \<and> eo_broker_order_id (os ! i) \<in> set (rc_consumed st')"
    and st': "rc_orders st' = (rc_orders st)[i := r]" "set (rc_consumed st) \<subseteq> set (rc_consumed st')"
  shows "orders_tracked os st'"
  unfolding orders_tracked_def
proof (intro conjI allI impI)
  show "length (rc_orders st') = length os" using t st' by (simp add: orders_tracked_def)
  fix j assume j: "j < length os"
  have jl: "j < length (rc_orders st)" using t j by (simp add: orders_tracked_def)
  have old: "order_progress (os ! j) (rc_orders st ! j)"
    "absence_of (rc_orders st ! j) = absence_of (os ! j)
      \<or> eo_absence_count (rc_orders st ! j) = 0 \<and> eo_broker_order_id (os ! j) \<in> set (rc_consumed st)"
    using t j by (auto simp: orders_tracked_def)
  show "order_progress (os ! j) (rc_orders st' ! j)"
    using old(1) r(1) jl st'(1) order_progress_trans by (cases "j = i") auto
  show "absence_of (rc_orders st' ! j) = absence_of (os ! j)
      \<or> eo_absence_count (rc_orders st' ! j) = 0 \<and> eo_broker_order_id (os ! j) \<in> set (rc_consumed st')"
  proof (cases "j = i")
    case False
    with old(2) st' show ?thesis by auto
  next
    case True
    then have "rc_orders st' ! j = r" using st'(1) jl by simp
    with r(2) old(2) True st'(2) show ?thesis by (auto simp: absence_of_def)
  qed
qed

lemma absence_updates [simp]:
  "absence_of (set_recovery_state t r) = absence_of r" "absence_of (suspected bid r) = absence_of r"
  "absence_of (needs_intervention r) = absence_of r" "absence_of (stamp_if_due g b4 w r) = absence_of r"
  "absence_of (settle_recovery target p r) = absence_of r"
  by (auto simp: absence_of_def set_recovery_state_def suspected_def needs_intervention_def stamp_if_due_def
      settle_recovery_def Let_def)

lemma transition_absence: "transition_now now target r = Inr r' \<Longrightarrow> absence_of r' = absence_of r"
  by (auto simp: transition_now_def apply_status_transition_def absence_of_def stamp_transition_def
      retire_unsent_def settle_identity_def Let_def split: option.splits if_splits)

lemma follow_absence: "follow_status now target r = Inr (Some r') \<Longrightarrow> absence_of r' = absence_of r"
  by (auto simp: follow_status_def bind_result_Inr_iff transition_absence split: if_splits)

lemma exact_clears_absence:
  "apply_exact_order_snapshot g now b r = Inr (why, r') \<Longrightarrow> eo_absence_count r' = 0"
proof -
  assume a: "apply_exact_order_snapshot g now b r = Inr (why, r')"
  have "absence_of r' = absence_of (with_evidence b r)"
    using a follow_absence by (auto simp: apply_exact_order_snapshot_def Let_def bind_result_Inr_iff
        split: option.splits)
  then show ?thesis by (simp add: absence_of_def with_evidence_def Let_def clear_absence_def)
qed

lemma classify_keeps: "rc_orders (classify_orders s st) = rc_orders st \<and> rc_consumed (classify_orders s st) = rc_consumed st"
  unfolding classify_orders_def
  by (rule fold_invariant [where Q = "\<lambda>_. True" and P = "\<lambda>st'. rc_orders st' = rc_orders st \<and> rc_consumed st' = rc_consumed st"])
    (auto simp: classify_order_def Let_def split: option.split)

text \<open>One row of the broker: it moves the order it names, and consumes its id.\<close>

lemma match_exact_Inr:
  assumes "match_exact g now s exact b st = Inr st'"
  obtains "exact (sn_broker_order_id b) = None" "st' = st"
  | i why r where "exact (sn_broker_order_id b) = Some i"
      "apply_exact_order_snapshot g now b (rc_orders st ! i) = Inr (why, r)"
      "rc_orders st' = (rc_orders st)[i := r]" "rc_consumed st' = sn_broker_order_id b # rc_consumed st"
proof (cases "exact (sn_broker_order_id b)")
  case None
  with assms that(1) show ?thesis by (simp add: match_exact_def)
next
  case (Some i)
  with assms obtain why r where a: "apply_exact_order_snapshot g now b (rc_orders st ! i) = Inr (why, r)"
    by (auto simp: match_exact_def bind_result_Inr_iff map_sum_Inr_iff)
  have "rc_orders st' = (rc_orders st)[i := r] \<and> rc_consumed st' = sn_broker_order_id b # rc_consumed st"
    using assms Some a
    by (auto simp: match_exact_def Let_def bind_result_Inr_iff split: option.splits if_splits)
  with Some a that(2) show ?thesis by blast
qed

lemma tracked_match_exact:
  assumes t: "orders_tracked os st" and m: "match_exact g now s (exact_position os) b st = Inr st'"
  shows "orders_tracked os st'"
  using m
proof (cases rule: match_exact_Inr)
  case (2 i why r)
  from find_last_Some [OF 2(1) [unfolded exact_position_def]]
  have i: "i < length os" "exactly_known (os ! i)" "eo_broker_order_id (os ! i) = sn_broker_order_id b" by auto
  then have "exactly_known (rc_orders st ! i)"
    using t order_progress_known by (auto simp: orders_tracked_def)
  from tracked_update [OF t progress_exact [OF 2(2) this] _ 2(3)] exact_clears_absence [OF 2(2)] i(3) 2(4)
  show ?thesis by auto
qed (use t in simp)

lemma tracked_match_heuristic:
  assumes t: "orders_tracked os st"
  shows "orders_tracked os (match_heuristic g ambiguous b st)"
proof -
  define candidates where "candidates = filter (\<lambda>i. eo_client_order_id (rc_orders st ! i) \<notin> set (rc_candidates st)
    \<and> heuristic_candidate g b (rc_orders st ! i)) ambiguous"
  define i where
    "i = hd (sort_key (\<lambda>i. (submission_moment (rc_orders st ! i), eo_client_order_id (rc_orders st ! i))) candidates)"
  show ?thesis
  proof (cases "sn_broker_order_id b \<in> set (rc_consumed st) \<or> candidates = []")
    case True
    with t show ?thesis by (simp add: match_heuristic_def Let_def candidates_def)
  next
    case False
    then have "rc_orders (match_heuristic g ambiguous b st)
        = (rc_orders st)[i := suspected (sn_broker_order_id b) (rc_orders st ! i)]"
      "set (rc_consumed st) \<subseteq> set (rc_consumed (match_heuristic g ambiguous b st))"
      by (auto simp: match_heuristic_def Let_def candidates_def i_def)
    from tracked_update [OF t _ _ this] show ?thesis by simp
  qed
qed

lemma tracked_escalate:
  assumes "orders_tracked os st" shows "orders_tracked os (escalate_ambiguous i st)"
proof (cases "eo_client_order_id (rc_orders st ! i) \<in> set (rc_candidates st)")
  case False
  with tracked_update [OF assms, of i "needs_intervention (rc_orders st ! i)" "escalate_ambiguous i st"]
  show ?thesis by (simp add: escalate_ambiguous_def Let_def)
qed (use assms in \<open>simp add: escalate_ambiguous_def\<close>)

lemma tracked_ambiguous:
  assumes "orders_tracked os st" shows "orders_tracked os (match_ambiguous_orders g s st)"
proof -
  let ?st1 = "fold (match_heuristic g (ambiguous_positions st)) (ab_orders s) st"
  have 1: "orders_tracked os ?st1"
    by (rule fold_invariant [where Q = "\<lambda>_. True"]) (use assms tracked_match_heuristic in auto)
  have "orders_tracked os (fold escalate_ambiguous (ambiguous_positions st) ?st1)"
    by (rule fold_invariant [where Q = "\<lambda>_. True"]) (use 1 tracked_escalate in auto)
  with 1 show ?thesis by (simp add: match_ambiguous_orders_def Let_def)
qed

lemma observe_external_keeps:
  "observe_external ids s b st = Inr st' \<Longrightarrow> rc_orders st' = rc_orders st \<and> rc_consumed st' = rc_consumed st
     \<and> rc_reservations st' = rc_reservations st \<and> rc_commands st' = rc_commands st"
  by (auto simp: observe_external_def Let_def bind_result_Inr_iff split: option.splits if_splits prod.splits)

lemma observe_externals_keeps:
  assumes "observe_externals ids s st = Inr st'"
  shows "rc_orders st' = rc_orders st \<and> rc_consumed st' = rc_consumed st
     \<and> rc_reservations st' = rc_reservations st \<and> rc_commands st' = rc_commands st"
proof -
  obtain st1 where f: "fold_result (observe_external ids s) (ab_orders s) st = Inr st1"
    and r: "st' = repeat_external_alerts st1"
    using assms by (auto simp: observe_externals_def bind_result_Inr_iff)
  have "rc_orders st1 = rc_orders st \<and> rc_consumed st1 = rc_consumed st
     \<and> rc_reservations st1 = rc_reservations st \<and> rc_commands st1 = rc_commands st"
    using fold_result_invariant [OF f, of "\<lambda>x. rc_orders x = rc_orders st \<and> rc_consumed x = rc_consumed st
     \<and> rc_reservations x = rc_reservations st \<and> rc_commands x = rc_commands st"] observe_external_keeps by fastforce
  with r show ?thesis by (simp add: repeat_external_alerts_def Let_def)
qed

lemma holding_keeps:
  "reconcile_account_holding s h st = Inr st' \<Longrightarrow> rc_orders st' = rc_orders st \<and> rc_consumed st' = rc_consumed st
     \<and> rc_externals st' = rc_externals st \<and> rc_reservations st' = rc_reservations st \<and> rc_commands st' = rc_commands st"
  by (auto simp: reconcile_account_holding_def bind_result_Inr_iff split: option.splits)

lemma holdings_keep:
  assumes "reconcile_holdings s st = Inr st'"
  shows "rc_orders st' = rc_orders st \<and> rc_consumed st' = rc_consumed st
     \<and> rc_externals st' = rc_externals st \<and> rc_reservations st' = rc_reservations st \<and> rc_commands st' = rc_commands st"
proof (cases "completeness_allows (ab_completeness s) RA_POSITION_QUANTITY_UPDATE")
  case True
  with assms obtain st1 cards where f: "fold_result (reconcile_account_holding s) (ab_holdings s) st = Inr st1"
    and r: "st' = st1\<lparr>rc_cards := cards\<rparr>"
    by (auto simp: reconcile_holdings_def bind_result_Inr_iff)
  have "rc_orders st1 = rc_orders st \<and> rc_consumed st1 = rc_consumed st \<and> rc_externals st1 = rc_externals st
     \<and> rc_reservations st1 = rc_reservations st \<and> rc_commands st1 = rc_commands st"
    using fold_result_invariant [OF f, of "\<lambda>x. rc_orders x = rc_orders st \<and> rc_consumed x = rc_consumed st
     \<and> rc_externals x = rc_externals st \<and> rc_reservations x = rc_reservations st \<and> rc_commands x = rc_commands st"]
      holding_keeps by fastforce
  with r show ?thesis by simp
next
  case False
  then have "reconcile_holdings s st = Inr st" unfolding reconcile_holdings_def by (rule if_P)
  with assms show ?thesis by simp
qed

lemma capital_keeps:
  "rc_orders (reconcile_capital g s st) = rc_orders st \<and> rc_externals (reconcile_capital g s st) = rc_externals st
     \<and> rc_commands (reconcile_capital g s st) = rc_commands st"
proof -
  have r: "rc_orders (fold (review_orphan g s refs) is x) = rc_orders x
      \<and> rc_externals (fold (review_orphan g s refs) is x) = rc_externals x
      \<and> rc_commands (fold (review_orphan g s refs) is x) = rc_commands x" for refs "is" x
    by (rule fold_invariant [where Q = "\<lambda>_. True" and P = "\<lambda>y. rc_orders y = rc_orders x
      \<and> rc_externals y = rc_externals x \<and> rc_commands y = rc_commands x"])
      (auto simp: review_orphan_def Let_def split: prod.split)
  have c: "rc_orders (fold check_live_reservation is x) = rc_orders x
      \<and> rc_externals (fold check_live_reservation is x) = rc_externals x
      \<and> rc_commands (fold check_live_reservation is x) = rc_commands x" for "is" x
    by (rule fold_invariant [where Q = "\<lambda>_. True" and P = "\<lambda>y. rc_orders y = rc_orders x
      \<and> rc_externals y = rc_externals x \<and> rc_commands y = rc_commands x"])
      (auto simp: check_live_reservation_def Let_def)
  show ?thesis unfolding reconcile_capital_def Let_def by (simp add: r c split: prod.split)
qed

lemma liquidate_keeps:
  "rc_orders (liquidate_cards s st) = rc_orders st \<and> rc_externals (liquidate_cards s st) = rc_externals st
     \<and> rc_reservations (liquidate_cards s st) = rc_reservations st"
  unfolding liquidate_cards_def
  by (rule fold_invariant [where Q = "\<lambda>_. True" and P = "\<lambda>y. rc_orders y = rc_orders st
      \<and> rc_externals y = rc_externals st \<and> rc_reservations y = rc_reservations st"])
    (auto simp: liquidate_card_def Let_def)

subsection \<open>The reducer\<close>

text \<open>The run of the reducer, cut at the states its phases leave.\<close>

lemma reduce_state_phases:
  assumes "reduce_state g ids now s l = Inr st"
  obtains st1 st2 st3 where
    "fold_result (match_exact g now s (exact_position (lo_orders l))) (ab_orders s)
       (classify_orders s (working_copy l)) = Inr st1"
    "observe_externals ids s (match_ambiguous_orders g s st1) = Inr st2"
    "reconcile_holdings s st2 = Inr st3"
    "st = liquidate_cards s (reconcile_capital g s (note_absences g s st3))"
proof -
  have o: "rc_orders (classify_orders s (working_copy l)) = lo_orders l"
    using classify_keeps by (simp add: working_copy_def)
  from assms show ?thesis using that
    by (auto simp: reduce_state_def reconcile_orders_def match_exact_orders_def bind_result_Inr_iff o)
qed

lemma tracked_start: "orders_tracked (lo_orders l) (classify_orders s (working_copy l))"
  using classify_keeps [of s "working_copy l"] by (simp add: orders_tracked_def working_copy_def)

lemma tracked_before_absences:
  assumes "fold_result (match_exact g now s (exact_position (lo_orders l))) (ab_orders s)
       (classify_orders s (working_copy l)) = Inr st1"
    "observe_externals ids s (match_ambiguous_orders g s st1) = Inr st2" "reconcile_holdings s st2 = Inr st3"
  shows "orders_tracked (lo_orders l) st3"
proof -
  have "orders_tracked (lo_orders l) st1"
    using fold_result_invariant [where P = "orders_tracked (lo_orders l)", OF assms(1) tracked_start]
      tracked_match_exact by blast
  then have "orders_tracked (lo_orders l) (match_ambiguous_orders g s st1)" by (rule tracked_ambiguous)
  with observe_externals_keeps [OF assms(2)] holdings_keep [OF assms(3)] show ?thesis
    by (auto intro: tracked_same)
qed

text \<open>The absence phase handles each order once.\<close>

lemma note_absence_keeps:
  "rc_consumed (note_absence g s i st) = rc_consumed st" "length (rc_orders (note_absence g s i st)) = length (rc_orders st)"
  "j \<noteq> i \<Longrightarrow> rc_orders (note_absence g s i st) ! j = rc_orders st ! j"
  "rc_externals (note_absence g s i st) = rc_externals st" "rc_reservations (note_absence g s i st) = rc_reservations st"
  "rc_commands (note_absence g s i st) = rc_commands st"
  by (auto simp: note_absence_def Let_def split: prod.split)

definition absence_subject :: "account_snapshot \<Rightarrow> string list \<Rightarrow> execution_order \<Rightarrow> bool" where
  "absence_subject s consumed r \<longleftrightarrow> eo_broker_order_id r \<noteq> [] \<and> eo_status r \<notin> TERMINAL_EXECUTION_ORDER_STATUSES
     \<and> eo_broker_order_id r \<notin> set consumed \<and> absence_evidence_complete r s"

definition held_quantity :: "account_snapshot \<Rightarrow> string \<Rightarrow> int" where
  "held_quantity s symbol = (case holding_for s symbol of None \<Rightarrow> 0 | Some h \<Rightarrow> ah_quantity h)"

lemma note_absence_at:
  "i < length (rc_orders st) \<Longrightarrow> rc_orders (note_absence g s i st) ! i =
     (let r = rc_orders st ! i in if absence_subject s (rc_consumed st) r
        then snd (record_absence g s (held_quantity s (eo_symbol r)) r) else r)"
  by (auto simp: note_absence_def Let_def absence_subject_def held_quantity_def split: prod.split)

lemma note_absences_prefix:
  "n \<le> length (rc_orders st) \<Longrightarrow>
     let st' = fold (note_absence g s) [0..<n] st
     in rc_consumed st' = rc_consumed st \<and> length (rc_orders st') = length (rc_orders st)
        \<and> rc_externals st' = rc_externals st \<and> rc_reservations st' = rc_reservations st \<and> rc_commands st' = rc_commands st
        \<and> (\<forall>i < length (rc_orders st). rc_orders st' ! i =
             (let r = rc_orders st ! i in if i < n \<and> absence_subject s (rc_consumed st) r
                then snd (record_absence g s (held_quantity s (eo_symbol r)) r) else r))"
proof (induction n)
  case (Suc n)
  let ?st = "fold (note_absence g s) [0..<n] st"
  have ih: "rc_consumed ?st = rc_consumed st" "length (rc_orders ?st) = length (rc_orders st)"
    "rc_externals ?st = rc_externals st" "rc_reservations ?st = rc_reservations st" "rc_commands ?st = rc_commands st"
    "\<And>i. i < length (rc_orders st) \<Longrightarrow> rc_orders ?st ! i =
             (let r = rc_orders st ! i in if i < n \<and> absence_subject s (rc_consumed st) r
                then snd (record_absence g s (held_quantity s (eo_symbol r)) r) else r)"
    using Suc by (auto simp: Let_def)
  have f: "fold (note_absence g s) [0..<Suc n] st = note_absence g s n ?st" by simp
  have n: "n < length (rc_orders ?st)" using Suc.prems ih(2) by simp
  have "rc_orders (note_absence g s n ?st) ! i =
      (let r = rc_orders st ! i in if i < Suc n \<and> absence_subject s (rc_consumed st) r
         then snd (record_absence g s (held_quantity s (eo_symbol r)) r) else r)" if "i < length (rc_orders st)" for i
  proof (cases "i = n")
    case True
    with note_absence_at [OF n] ih(1) ih(6) [OF that] show ?thesis by (simp add: Let_def)
  next
    case False
    with note_absence_keeps(3) ih(6) [OF that] show ?thesis by (simp add: Let_def)
  qed
  with ih(1-5) show ?case unfolding f by (simp add: note_absence_keeps Let_def)
qed simp

lemma note_absences_result:
  assumes "st' = note_absences g s st"
  shows "rc_consumed st' = rc_consumed st" "length (rc_orders st') = length (rc_orders st)"
    "rc_externals st' = rc_externals st" "rc_reservations st' = rc_reservations st" "rc_commands st' = rc_commands st"
    "i < length (rc_orders st) \<Longrightarrow> rc_orders st' ! i =
       (let r = rc_orders st ! i in if absence_subject s (rc_consumed st) r
          then snd (record_absence g s (held_quantity s (eo_symbol r)) r) else r)"
  using note_absences_prefix [of "length (rc_orders st)" st g s] assms
  by (auto simp: note_absences_def Let_def)

text \<open>Every order of the reduced state is a loaded one that has progressed.\<close>

lemma reduced_orders_progress:
  assumes "reduce_state g ids now s l = Inr st"
  shows "list_all2 order_progress (lo_orders l) (rc_orders st)"
  using assms
proof (rule reduce_state_phases)
  fix st1 st2 st3
  assume p: "fold_result (match_exact g now s (exact_position (lo_orders l))) (ab_orders s)
       (classify_orders s (working_copy l)) = Inr st1"
    "observe_externals ids s (match_ambiguous_orders g s st1) = Inr st2" "reconcile_holdings s st2 = Inr st3"
    and st: "st = liquidate_cards s (reconcile_capital g s (note_absences g s st3))"
  have t: "orders_tracked (lo_orders l) st3" using tracked_before_absences [OF p] .
  have r: "rc_orders st = rc_orders (note_absences g s st3)" using st liquidate_keeps capital_keeps by simp
  note n = note_absences_result [OF refl, where g = g and s = s and st = st3]
  show ?thesis unfolding list_all2_conv_all_nth r n(2)
  proof (intro conjI allI impI)
    show "length (lo_orders l) = length (rc_orders st3)" using t by (simp add: orders_tracked_def)
    fix i assume i: "i < length (lo_orders l)"
    have "order_progress (lo_orders l ! i) (rc_orders st3 ! i)" "i < length (rc_orders st3)"
      using t i by (auto simp: orders_tracked_def)
    then show "order_progress (lo_orders l ! i) (rc_orders (note_absences g s st3) ! i)"
      using n(6) progress_absence by (simp add: Let_def)
  qed
qed

text \<open>Until the last phase there is no command, and until the capital phase no reservation changes.\<close>

lemma classify_starts: "rc_commands (classify_orders s st) = rc_commands st \<and> rc_reservations (classify_orders s st) = rc_reservations st
    \<and> rc_externals (classify_orders s st) = rc_externals st \<and> rc_external_at (classify_orders s st) = rc_external_at st"
  unfolding classify_orders_def
  by (rule fold_invariant [where Q = "\<lambda>_. True" and P = "\<lambda>st'. rc_commands st' = rc_commands st
      \<and> rc_reservations st' = rc_reservations st \<and> rc_externals st' = rc_externals st
      \<and> rc_external_at st' = rc_external_at st"])
    (auto simp: classify_order_def Let_def split: option.split)

lemma match_exact_starts:
  "match_exact g now s exact b st = Inr st' \<Longrightarrow> rc_commands st' = rc_commands st
     \<and> rc_reservations st' = rc_reservations st \<and> rc_externals st' = rc_externals st
     \<and> rc_external_at st' = rc_external_at st"
  by (auto simp: match_exact_def Let_def bind_result_Inr_iff split: option.splits if_splits)

lemma ambiguous_starts:
  "rc_commands (match_ambiguous_orders g s st) = rc_commands st
     \<and> rc_reservations (match_ambiguous_orders g s st) = rc_reservations st
     \<and> rc_externals (match_ambiguous_orders g s st) = rc_externals st
     \<and> rc_external_at (match_ambiguous_orders g s st) = rc_external_at st"
proof -
  define keeps where "keeps x y \<longleftrightarrow> rc_commands x = rc_commands y \<and> rc_reservations x = rc_reservations y
     \<and> rc_externals x = rc_externals y \<and> rc_external_at x = rc_external_at y" for x y :: recon
  have "keeps (match_heuristic g amb b x) x" "keeps (escalate_ambiguous i x) x" for amb b i x
    by (simp_all add: keeps_def match_heuristic_def escalate_ambiguous_def Let_def)
  note step = this
  have h: "keeps (fold (match_heuristic g amb) bs x) x" for amb bs x
    by (rule fold_invariant [where Q = "\<lambda>_. True" and P = "\<lambda>y. keeps y x"])
      (use step in \<open>auto simp: keeps_def\<close>)
  have e: "keeps (fold escalate_ambiguous is x) x" for "is" x
    by (rule fold_invariant [where Q = "\<lambda>_. True" and P = "\<lambda>y. keeps y x"])
      (use step in \<open>auto simp: keeps_def\<close>)
  have "keeps (match_ambiguous_orders g s st) st"
    using h [of "ambiguous_positions st" "ab_orders s" st]
      e [of "ambiguous_positions st" "fold (match_heuristic g (ambiguous_positions st)) (ab_orders s) st"]
    by (simp add: match_ambiguous_orders_def Let_def keeps_def)
  then show ?thesis by (simp add: keeps_def)
qed

lemma exact_phase_starts:
  assumes "fold_result (match_exact g now s exact) bs (classify_orders s (working_copy l)) = Inr st1"
  shows "rc_commands st1 = [] \<and> rc_reservations st1 = lo_reservations l \<and> rc_externals st1 = lo_externals l
     \<and> rc_external_at st1 = external_positions (lo_externals l)"
proof -
  let ?P = "\<lambda>x. rc_commands x = [] \<and> rc_reservations x = lo_reservations l \<and> rc_externals x = lo_externals l
     \<and> rc_external_at x = external_positions (lo_externals l)"
  have "?P (classify_orders s (working_copy l))" using classify_starts by (simp add: working_copy_def)
  from fold_result_invariant [where P = ?P, OF assms this] match_exact_starts show ?thesis by metis
qed

lemma commands_start:
  assumes "fold_result (match_exact g now s exact) bs (classify_orders s (working_copy l)) = Inr st1"
    "observe_externals ids s (match_ambiguous_orders g s st1) = Inr st2" "reconcile_holdings s st2 = Inr st3"
  shows "rc_commands st3 = []" and "rc_reservations st3 = lo_reservations l"
  using exact_phase_starts [OF assms(1)] ambiguous_starts observe_externals_keeps [OF assms(2)]
    holdings_keep [OF assms(3)] by simp_all

end
