(* ===== verification/Reconcile_Safety.thy ===== *)
theory Reconcile_Safety
  imports Reconcile_Progress
begin

text \<open>
  What one account pass guarantees: what it may write to the order table, when it liquidates, which
  capital it leaves alone.
\<close>

subsection \<open>Orders\<close>

lemma loaded_orders:
  assumes "orders_wf (gd_orders loaded)"
  shows "r \<in> set (lo_orders (load_account_local_state loaded environment account_no cards)) \<Longrightarrow>
      ox_rows (gd_orders loaded) (eo_client_order_id r) = Some r"
    and "distinct (map eo_client_order_id (lo_orders (load_account_local_state loaded environment account_no cards)))"
proof -
  show "r \<in> set (lo_orders (load_account_local_state loaded environment account_no cards)) \<Longrightarrow>
      ox_rows (gd_orders loaded) (eo_client_order_id r) = Some r"
    using table_orders_mem [OF assms] by (simp add: load_account_local_state_def list_execution_orders_for_account_def)
  have "table_orders (gd_orders loaded) = map (the \<circ> ox_rows (gd_orders loaded)) (ox_ids (gd_orders loaded))"
  proof -
    have "filter (\<lambda>k. \<exists>r. ox_rows (gd_orders loaded) k = Some r) (ox_ids (gd_orders loaded)) = ox_ids (gd_orders loaded)"
      using assms by (auto simp: orders_wf_def intro!: filter_True)
    then show ?thesis by (simp add: table_orders_def map_filter_def comp_def)
  qed
  moreover have "map eo_client_order_id (map (the \<circ> ox_rows (gd_orders loaded)) (ox_ids (gd_orders loaded)))
      = ox_ids (gd_orders loaded)"
    using assms by (auto simp: orders_wf_def intro!: map_idI)
  ultimately have "distinct (map eo_client_order_id (table_orders (gd_orders loaded)))"
    using assms by (simp add: orders_wf_def)
  then show "distinct (map eo_client_order_id (lo_orders (load_account_local_state loaded environment account_no cards)))"
    by (simp add: load_account_local_state_def list_execution_orders_for_account_def distinct_map_filter)
qed

lemma write_plan_orders:
  assumes "write_plan now snow p db = Inr (cards, db')"
  obtains ys where "write_rows (\<lambda>r. update_execution_order r (eo_version r)) (pl_order_updates p) (gd_orders db)
    = Inr (ys, gd_orders db')"
  using assms that by (auto simp: write_plan_def bind_result_Inr_iff map_sum_Inr_iff)

lemma attempt_Inr:
  assumes "reconcile_attempt g ids now snow persist s environment account_no cards loaded st = Inr (p, st')"
  obtains x where "reduce_state g ids now s (load_account_local_state loaded environment account_no cards) = Inr x"
    "p = plan_of s (load_account_local_state loaded environment account_no cards) x"
    "st' = st \<or> (\<exists>written. write_plan now snow p (ps_db st) = Inr (written, ps_db st'))"
proof -
  from assms obtain x where x: "reduce_state g ids now s (load_account_local_state loaded environment account_no cards) = Inr x"
    "p = plan_of s (load_account_local_state loaded environment account_no cards) x"
    by (auto simp: reconcile_attempt_def reduce_account_reconciliation_def bind_result_Inr_iff map_sum_Inr_iff
        split: if_splits)
  have "st' = st \<or> (\<exists>written. write_plan now snow p (ps_db st) = Inr (written, ps_db st'))"
    using assms x by (auto simp: reconcile_attempt_def reduce_account_reconciliation_def bind_result_Inr_iff
        map_sum_Inr_iff apply_reconciliation_plan_def split: if_splits)
  with x that show ?thesis by blast
qed

lemma progress_ids: "list_all2 order_progress xs ys \<Longrightarrow> map eo_client_order_id ys = map eo_client_order_id xs"
  by (induction rule: list_all2_induct) (auto simp: order_progress_def)

text \<open>(C10) A pass only moves orders forward, and only rows nobody else has changed. Whatever other writers
  do to the order table between the load and the transaction of an attempt: a row the attempt changed
  is still at the version that was loaded, it keeps its identity (client and broker ids, account,
  symbol, side, quantity, reservation), its fills do not shrink, and its status follows the table of
  transitions, so a closed order stays closed. A guess about an ambiguous submission never becomes an
  identity.\<close>

theorem pass_moves_orders_forward:
  assumes "orders_wf (gd_orders loaded)"
    "reconcile_attempt g ids now snow persist s environment account_no cards loaded st = Inr (p, st')"
  shows "ox_rows (gd_orders (ps_db st')) k = ox_rows (gd_orders (ps_db st)) k
    \<or> (\<exists>r0 r1. ox_rows (gd_orders loaded) k = Some r0 \<and> order_progress r0 r1
         \<and> map_option eo_version (ox_rows (gd_orders (ps_db st)) k) = Some (eo_version r0)
         \<and> ox_rows (gd_orders (ps_db st')) k = Some (r1\<lparr>eo_version := eo_version r0 + 1\<rparr>))"
proof -
  let ?l = "load_account_local_state loaded environment account_no cards"
  obtain x where x: "reduce_state g ids now s ?l = Inr x" "p = plan_of s ?l x"
    and w: "st' = st \<or> (\<exists>written. write_plan now snow p (ps_db st) = Inr (written, ps_db st'))"
    using attempt_Inr [OF assms(2)] .
  note prog = reduced_orders_progress [OF x(1)]
  have u: "pl_order_updates p = filter (is_changed eo_client_order_id (lo_orders ?l)) (rc_orders x)"
    by (simp add: x(2) plan_of_def)
  have d: "distinct (map eo_client_order_id (pl_order_updates p))"
    unfolding u using loaded_orders(2) [OF assms(1)] progress_ids [OF prog] by (simp add: distinct_map_filter)
  show ?thesis
  proof (cases "st' = st \<or> k \<notin> eo_client_order_id ` set (pl_order_updates p)")
    case True
    with w show ?thesis using order_updates.write_rows_other write_plan_orders by metis
  next
    case False
    with w obtain written where "write_plan now snow p (ps_db st) = Inr (written, ps_db st')" by blast
    then obtain ys where wr: "write_rows (\<lambda>r. update_execution_order r (eo_version r)) (pl_order_updates p)
        (gd_orders (ps_db st)) = Inr (ys, gd_orders (ps_db st'))" by (rule write_plan_orders)
    obtain r1 where r1: "r1 \<in> set (pl_order_updates p)" "k = eo_client_order_id r1" using False by blast
    then have "r1 \<in> set (rc_orders x)" unfolding u by simp
    then obtain i where i: "i < length (rc_orders x)" "r1 = rc_orders x ! i" by (metis in_set_conv_nth)
    then obtain r0 where r0: "r0 \<in> set (lo_orders ?l)" "order_progress r0 r1"
      using list_all2_nthD2 [OF prog i(1)] list_all2_lengthD [OF prog] nth_mem by metis
    then have e: "eo_client_order_id r0 = k" "eo_version r1 = eo_version r0" using r1 by (auto simp: order_progress_def)
    have "ox_rows (gd_orders loaded) k = Some r0" using loaded_orders(1) [OF assms(1) r0(1)] e by simp
    moreover have "map_option eo_version (ox_rows (gd_orders (ps_db st)) k) = Some (eo_version r0)"
      using order_updates.write_rows_guard [OF wr r1(1) d] r1(2) e by simp
    moreover have "ox_rows (gd_orders (ps_db st')) k = Some (r1\<lparr>eo_version := eo_version r0 + 1\<rparr>)"
      using order_updates.write_rows_row [OF wr r1(1) d] r1(2) e by simp
    ultimately show ?thesis using r0(2) by blast
  qed
qed

subsection \<open>Liquidation\<close>

definition command_justified :: "account_snapshot \<Rightarrow> execution_order list \<Rightarrow> reconciliation_command \<Rightarrow> bool" where
  "command_justified s orders m \<longleftrightarrow>
     (case rm_kind m of
        EMERGENCY_SELL_ALL \<Rightarrow>
          cp_holdings (ab_completeness s) \<and> 0 < rm_quantity m
          \<and> (\<exists>h. holding_for s (rm_symbol m) = Some h
               \<and> rm_quantity m = (if cp_open_orders (ab_completeness s) then ah_quantity h
                   else the (ah_sellable_quantity h)))
          \<and> (\<forall>r \<in> set orders. \<not> open_sell_of (rm_symbol m) r)
          \<and> (\<forall>b \<in> set (ab_orders s). sn_symbol b = py_upper (rm_symbol m) \<and> is_open_status (sn_status b)
               \<longrightarrow> (\<exists>r \<in> set orders. exactly_known r \<and> eo_broker_order_id r = sn_broker_order_id b))
      | CANCEL_KNOWN_ORDER \<Rightarrow>
          cp_holdings (ab_completeness s) \<and> (\<exists>h. holding_for s (rm_symbol m) = Some h)
          \<and> (\<exists>r \<in> set orders. eo_client_order_id r = rm_client_order_id m \<and> open_sell_of (rm_symbol m) r
               \<and> exactly_known r \<and> eo_recovery_state r = ORS_NONE \<and> eo_status r \<noteq> CANCEL_PENDING))"

lemma no_known_sells: "known_owned_working_sells orders symbol = [] \<Longrightarrow>
    \<not> list_ex (\<lambda>r. open_sell_of symbol r \<and> \<not> exactly_known r) orders \<Longrightarrow> r \<in> set orders \<Longrightarrow> \<not> open_sell_of symbol r"
  by (auto simp: known_owned_working_sells_def filter_empty_conv list_ex_iff)

lemma unowned_none: "unowned_working_orders s symbol orders = [] \<Longrightarrow> b \<in> set (ab_orders s) \<Longrightarrow>
    sn_symbol b = py_upper symbol \<Longrightarrow> is_open_status (sn_status b) \<Longrightarrow>
    \<exists>r \<in> set orders. exactly_known r \<and> eo_broker_order_id r = sn_broker_order_id b"
  by (fastforce simp: unowned_working_orders_def filter_empty_conv)

text \<open>The decision, by what it asks for.\<close>

lemma decide_sell:
  assumes "d = decide_emergency_sell s symbol orders" "ed_cancel_client_order_id d = []" "0 < ed_quantity d"
    "\<forall>r \<in> set orders. eo_client_order_id r \<noteq> []"
  obtains h where "cp_holdings (ab_completeness s)" "holding_for s symbol = Some h"
    "ed_quantity d = (if cp_open_orders (ab_completeness s) then ah_quantity h else the (ah_sellable_quantity h))"
    "known_owned_working_sells orders symbol = []"
    "\<not> list_ex (\<lambda>r. open_sell_of symbol r \<and> \<not> exactly_known r) orders" "unowned_working_orders s symbol orders = []"
proof -
  have k: "r \<in> set orders" if "known_owned_working_sells orders symbol = r # rs" for r rs
    using that by (auto simp: known_owned_working_sells_def filter_eq_Cons_iff)
  from assms show ?thesis
    by (auto simp: decide_emergency_sell_def manual_intervention_def sell_quantity_def intro: that dest: k
        split: option.splits if_splits list.splits)
qed

lemma decide_cancel:
  assumes "d = decide_emergency_sell s symbol orders" "ed_cancel_client_order_id d \<noteq> []"
  obtains h r where "cp_holdings (ab_completeness s)" "holding_for s symbol = Some h" "r \<in> set orders"
    "eo_client_order_id r = ed_cancel_client_order_id d" "open_sell_of symbol r" "exactly_known r"
    "eo_recovery_state r = ORS_NONE" "eo_status r \<noteq> CANCEL_PENDING"
proof -
  have k: "r \<in> set orders \<and> open_sell_of symbol r \<and> exactly_known r"
    if "known_owned_working_sells orders symbol = r # rs" for r rs
    using that by (auto simp: known_owned_working_sells_def filter_eq_Cons_iff)
  from assms show ?thesis
    by (auto simp: decide_emergency_sell_def manual_intervention_def sell_quantity_def intro: that dest: k
        split: option.splits if_splits list.splits)
qed

lemma liquidate_justified:
  assumes "m \<in> set (rc_commands (liquidate_card s c st))" "m \<notin> set (rc_commands st)"
    "\<forall>r \<in> set (rc_orders st). eo_client_order_id r \<noteq> []"
  shows "command_justified s (rc_orders st) m"
proof -
  let ?d = "decide_emergency_sell s (tc_symbol c) (rc_orders st)"
  consider "m = \<lparr>rm_kind = CANCEL_KNOWN_ORDER, rm_environment = ab_environment s, rm_account_no = ab_account_no s,
        rm_symbol = tc_symbol c, rm_client_order_id = ed_cancel_client_order_id ?d, rm_quantity = 0, rm_reason = ed_reason ?d\<rparr>"
      "ed_cancel_client_order_id ?d \<noteq> []"
    | "m = \<lparr>rm_kind = EMERGENCY_SELL_ALL, rm_environment = ab_environment s, rm_account_no = ab_account_no s,
        rm_symbol = tc_symbol c, rm_client_order_id = [], rm_quantity = ed_quantity ?d, rm_reason = ed_reason ?d\<rparr>"
      "ed_cancel_client_order_id ?d = []" "0 < ed_quantity ?d"
    using assms(1,2) by (auto simp: liquidate_card_def Let_def split: if_splits)
  then show ?thesis
  proof cases
    case 1
    from decide_cancel [OF refl 1(2)] obtain h r where "cp_holdings (ab_completeness s)"
      "holding_for s (tc_symbol c) = Some h" "r \<in> set (rc_orders st)"
      "eo_client_order_id r = ed_cancel_client_order_id ?d" "open_sell_of (tc_symbol c) r" "exactly_known r"
      "eo_recovery_state r = ORS_NONE" "eo_status r \<noteq> CANCEL_PENDING" .
    then show ?thesis unfolding command_justified_def 1(1) by auto
  next
    case 2
    from decide_sell [OF refl 2(2,3) assms(3)] obtain h where h: "cp_holdings (ab_completeness s)"
      "holding_for s (tc_symbol c) = Some h"
      "ed_quantity ?d = (if cp_open_orders (ab_completeness s) then ah_quantity h else the (ah_sellable_quantity h))"
      "known_owned_working_sells (rc_orders st) (tc_symbol c) = []"
      "\<not> list_ex (\<lambda>r. open_sell_of (tc_symbol c) r \<and> \<not> exactly_known r) (rc_orders st)"
      "unowned_working_orders s (tc_symbol c) (rc_orders st) = []" .
    show ?thesis unfolding command_justified_def 2(1)
      using h(1-3) 2(3) no_known_sells [OF h(4,5)] unowned_none [OF h(6)] by simp
  qed
qed

text \<open>(C9) An emergency liquidation never competes with another order. Every command the pass derives is
  justified by the snapshot and the reduced orders. It asks for a liquidation only from fresh holdings,
  for exactly the held quantity (the broker's own sellable quantity while the open orders are not fully
  known), when no application-owned sell of the symbol is open and no working order of the symbol at
  the broker is unaccounted for; it asks to cancel only a sell it owns exactly and whose recovery is
  not pending. (A stored order has a non-blank client id: its constructor refuses another.)\<close>

theorem emergency_sell_never_competes:
  assumes "reduce_state g ids now s l = Inr st" "\<forall>r \<in> set (lo_orders l). eo_client_order_id r \<noteq> []"
    "m \<in> set (rc_commands st)"
  shows "command_justified s (rc_orders st) m"
  using assms(1)
proof (rule reduce_state_phases)
  fix st1 st2 st3
  assume p: "fold_result (match_exact g now s (exact_position (lo_orders l))) (ab_orders s)
       (classify_orders s (working_copy l)) = Inr st1"
    "observe_externals ids s (match_ambiguous_orders g s st1) = Inr st2" "reconcile_holdings s st2 = Inr st3"
    and st: "st = liquidate_cards s (reconcile_capital g s (note_absences g s st3))"
  let ?st4 = "reconcile_capital g s (note_absences g s st3)"
  have o: "rc_orders ?st4 = rc_orders st" using st liquidate_keeps by simp
  have ids: "\<forall>r \<in> set (rc_orders st). eo_client_order_id r \<noteq> []"
  proof -
    have "eo_client_order_id ` set (rc_orders st) = eo_client_order_id ` set (lo_orders l)"
      using progress_ids [OF reduced_orders_progress [OF assms(1)]] by (metis list.set_map)
    with assms(2) show ?thesis by (metis imageE imageI)
  qed
  have "rc_commands st3 = []" using commands_start(1) [OF p] .
  then have c: "rc_commands ?st4 = []"
    using capital_keeps note_absences_result(5) [OF refl] by simp
  have "rc_orders st = rc_orders ?st4 \<and> (\<forall>m \<in> set (rc_commands st). command_justified s (rc_orders ?st4) m)"
    unfolding st liquidate_cards_def
  proof (rule fold_invariant [where Q = "\<lambda>_. True" and P = "\<lambda>y. rc_orders y = rc_orders ?st4
      \<and> (\<forall>m \<in> set (rc_commands y). command_justified s (rc_orders ?st4) m)"])
    fix x and st :: recon assume a: "rc_orders st = rc_orders ?st4 \<and> (\<forall>m \<in> set (rc_commands st). command_justified s (rc_orders ?st4) m)"
    have "rc_orders (liquidate_card s x st) = rc_orders st" by (simp add: liquidate_card_def Let_def)
    with a ids o liquidate_justified [of _ s x st] show "rc_orders (liquidate_card s x st) = rc_orders ?st4
        \<and> (\<forall>m \<in> set (rc_commands (liquidate_card s x st)). command_justified s (rc_orders ?st4) m)" by metis
  qed (use c in simp_all)
  with assms(3) o show ?thesis by simp
qed

subsection \<open>Capital\<close>

definition settles :: "chain_verdict \<Rightarrow> bool" where
  "settles v \<longleftrightarrow> (\<exists>r. v = SettleFrom r)"

lemma chain_undecided:
  assumes "r \<in> set linked" "live r"
    "eo_status r \<in> RESERVATION_TRANSITION_HOLD_STATUSES \<or> (\<exists>r' \<in> set linked. live r' \<and> r' \<noteq> r)"
  shows "\<not> settles (judge_chain linked)"
proof -
  let ?live = "filter live linked"
  have r: "r \<in> set ?live" using assms(1,2) by simp
  then have ne: "?live \<noteq> []" by (metis list.set(1) empty_iff)
  show ?thesis
  proof (cases "length ?live = 1 \<and> length (filter live (chain_leaves linked)) = 1")
    case False
    with ne show ?thesis by (simp add: judge_chain_def Let_def settles_def)
  next
    case True
    then obtain a where a: "?live = [a]" by (metis One_nat_def length_0_conv length_Suc_conv)
    with r have "a = r" by simp
    with a have only: "r' = r" if "r' \<in> set linked" "live r'" for r'
    proof -
      from that have "r' \<in> set ?live" by simp
      with a \<open>a = r\<close> show ?thesis by simp
    qed
    obtain b where b: "filter live (chain_leaves linked) = [b]"
      using True by (metis One_nat_def length_0_conv length_Suc_conv)
    then have "b \<in> set (filter live (chain_leaves linked))" by simp
    then have "b = r" using only by (simp add: chain_leaves_def)
    with b ne True assms(3) only show ?thesis by (auto simp: judge_chain_def Let_def settles_def)
  qed
qed

lemma settle_keeps_id [simp]: "cr_reservation_id (settle_capital_reservation t r v) = cr_reservation_id v"
  by (simp add: settle_capital_reservation_def Let_def)

lemma settle_id_keeps:
  assumes "distinct (map cr_reservation_id vs)" "i < length vs"
    "\<not> settles (judge_chain (linked_orders orders (cr_reservation_id (vs ! i))))"
    "settle_reservation_id t orders rid (vs, alerts) = (vs', alerts')"
  shows "vs' ! i = vs ! i \<and> map cr_reservation_id vs' = map cr_reservation_id vs"
proof (cases "find_last (\<lambda>v. cr_reservation_id v = rid) vs")
  case (Some j)
  note j = find_last_Some [OF Some]
  show ?thesis
  proof (cases "\<exists>r. judge_chain (linked_orders orders rid) = SettleFrom r \<and> reservation_is_open (vs ! j)")
    case True
    then have "j \<noteq> i" using assms(3) j by (auto simp: settles_def)
    with True assms(4) Some j show ?thesis by (auto simp: settle_reservation_id_def map_update list_update_same_conv)
  next
    case False
    with assms(4) Some show ?thesis by (auto simp: settle_reservation_id_def split: if_splits chain_verdict.splits)
  qed
qed (use assms(4) in \<open>simp add: settle_reservation_id_def\<close>)

lemma settle_leaves_keep:
  assumes "distinct (map cr_reservation_id vs)" "i < length vs"
    "\<not> settles (judge_chain (linked_orders orders (cr_reservation_id (vs ! i))))"
    "settle_reservations_from_replacement_leaves t orders vs = (vs', alerts)"
  shows "vs' ! i = vs ! i \<and> length vs' = length vs"
proof -
  define keeps where "keeps st \<longleftrightarrow> fst st ! i = vs ! i \<and> map cr_reservation_id (fst st) = map cr_reservation_id vs"
    for st :: "reservation list \<times> alert list"
  have "keeps (settle_reservation_id t orders rid st)" if "keeps st" for rid st
  proof (cases st)
    case (Pair ws as)
    have w: "map cr_reservation_id ws = map cr_reservation_id vs" "ws ! i = vs ! i"
      using that Pair by (simp_all add: keeps_def)
    then have l: "length ws = length vs" using map_eq_imp_length_eq by blast
    obtain ws' as' where s: "settle_reservation_id t orders rid (ws, as) = (ws', as')" by (meson surj_pair)
    from settle_id_keeps [OF _ _ _ s, of i] w l assms(1-3) show ?thesis by (simp add: keeps_def Pair s)
  qed
  then have "keeps (fold (settle_reservation_id t orders) ks (vs, []))" for ks
    by (intro fold_invariant [where Q = "\<lambda>_. True" and P = keeps]) (auto simp: keeps_def)
  then have "keeps (vs', alerts)"
    using assms(4) by (metis settle_reservations_from_replacement_leaves_def)
  then show ?thesis using map_eq_imp_length_eq by (auto simp: keeps_def)
qed

lemma review_keeps:
  assumes "cr_reservation_id (rc_reservations st ! i) \<in> refs"
  shows "rc_reservations (fold (review_orphan g s refs) is st) ! i = rc_reservations st ! i"
proof (rule fold_invariant [where Q = "\<lambda>_. True" and P = "\<lambda>y. rc_reservations y ! i = rc_reservations st ! i"])
  fix j and y :: recon assume y: "rc_reservations y ! i = rc_reservations st ! i"
  show "rc_reservations (review_orphan g s refs j y) ! i = rc_reservations st ! i"
  proof (cases "j = i")
    case True
    with y assms show ?thesis by (simp add: review_orphan_def Let_def)
  next
    case False
    with y show ?thesis by (auto simp: review_orphan_def Let_def split: prod.split)
  qed
qed simp_all

lemma live_check_keeps: "rc_reservations (fold check_live_reservation is st) = rc_reservations st"
  by (rule fold_invariant [where Q = "\<lambda>_. True" and P = "\<lambda>y. rc_reservations y = rc_reservations st"])
    (auto simp: check_live_reservation_def Let_def)

lemma capital_keeps_reservation:
  assumes "distinct (map cr_reservation_id (rc_reservations st))" "i < length (rc_reservations st)"
    "\<not> settles (judge_chain (linked_orders (rc_orders st) (cr_reservation_id (rc_reservations st ! i))))"
    "cr_reservation_id (rc_reservations st ! i)
       \<in> eo_capital_reservation_id ` set (filter (\<lambda>r. eo_capital_reservation_id r \<noteq> []) (rc_orders st))"
  shows "rc_reservations (reconcile_capital g s st) ! i = rc_reservations st ! i"
proof -
  obtain vs alerts where v: "settle_reservations_from_replacement_leaves (ab_observed_at s) (rc_orders st)
      (rc_reservations st) = (vs, alerts)" by (meson surj_pair)
  note k = settle_leaves_keep [OF assms(1-3) v]
  show ?thesis unfolding reconcile_capital_def Let_def v
    using k assms(4) review_keeps [of "st\<lparr>rc_reservations := vs, rc_alerts := rc_alerts st @ alerts\<rparr>" i]
    by (simp add: live_check_keeps)
qed

text \<open>(C13) Capital behind an order in an unsettled mutation is not touched. If, after the exact answers of a
  pass are applied, some order that names a reservation is live and is still being submitted, prepared
  or cancelled, or is not the only live order that names it, the pass leaves the reservation exactly as
  it was loaded: it neither releases it, nor reduces it, nor takes it for an orphan.\<close>

theorem capital_held_while_unsettled:
  assumes "reduce_state g ids now s l = Inr st" "distinct (map cr_reservation_id (lo_reservations l))"
    "i < length (lo_reservations l)" "r \<in> set (rc_orders st)" "live r"
    "eo_capital_reservation_id r = cr_reservation_id (lo_reservations l ! i)"
    "py_strip (eo_capital_reservation_id r) = eo_capital_reservation_id r" "eo_capital_reservation_id r \<noteq> []"
    "eo_status r \<in> RESERVATION_TRANSITION_HOLD_STATUSES
     \<or> (\<exists>r' \<in> set (rc_orders st). live r' \<and> r' \<noteq> r \<and> eo_capital_reservation_id r' = eo_capital_reservation_id r)"
  shows "rc_reservations st ! i = lo_reservations l ! i"
  using assms(1)
proof (rule reduce_state_phases)
  fix st1 st2 st3
  assume p: "fold_result (match_exact g now s (exact_position (lo_orders l))) (ab_orders s)
       (classify_orders s (working_copy l)) = Inr st1"
    "observe_externals ids s (match_ambiguous_orders g s st1) = Inr st2" "reconcile_holdings s st2 = Inr st3"
    and st: "st = liquidate_cards s (reconcile_capital g s (note_absences g s st3))"
  let ?st4 = "note_absences g s st3"
  have v: "rc_reservations ?st4 = lo_reservations l"
    using commands_start(2) [OF p] note_absences_result(4) [OF refl] by simp
  have o: "rc_orders ?st4 = rc_orders st" using st liquidate_keeps capital_keeps by simp
  have "\<not> settles (judge_chain (linked_orders (rc_orders st) (cr_reservation_id (lo_reservations l ! i))))"
  proof (rule chain_undecided [of r])
    show "r \<in> set (linked_orders (rc_orders st) (cr_reservation_id (lo_reservations l ! i)))"
      using assms(4,6,7) by (simp add: linked_orders_def)
    show "eo_status r \<in> RESERVATION_TRANSITION_HOLD_STATUSES
        \<or> (\<exists>r' \<in> set (linked_orders (rc_orders st) (cr_reservation_id (lo_reservations l ! i))). live r' \<and> r' \<noteq> r)"
      using assms(9)
    proof
      assume "\<exists>r' \<in> set (rc_orders st). live r' \<and> r' \<noteq> r \<and> eo_capital_reservation_id r' = eo_capital_reservation_id r"
      then obtain r' where r': "r' \<in> set (rc_orders st)" "live r'" "r' \<noteq> r"
        "eo_capital_reservation_id r' = eo_capital_reservation_id r" by blast
      then have "r' \<in> set (linked_orders (rc_orders st) (cr_reservation_id (lo_reservations l ! i)))"
        using assms(6,7) by (simp add: linked_orders_def)
      with r'(2,3) show ?thesis by blast
    qed simp
  qed (rule assms(5))
  moreover have "cr_reservation_id (lo_reservations l ! i)
      \<in> eo_capital_reservation_id ` set (filter (\<lambda>r. eo_capital_reservation_id r \<noteq> []) (rc_orders st))"
    by (rule image_eqI [where x = r]) (use assms(4,6,8) in simp_all)
  ultimately have "rc_reservations (reconcile_capital g s ?st4) ! i = lo_reservations l ! i"
    using capital_keeps_reservation [of ?st4 i g s] assms(2,3) by (simp add: v o)
  then show ?thesis using st liquidate_keeps by simp
qed

end
