(* ===== verification/Reconcile_Evidence.thy ===== *)
theory Reconcile_Evidence
  imports Reconcile_Safety
begin

text \<open>
  What a pass concludes from what the broker did not say, and from what nobody can explain: an order
  is given up as absent only after two complete generations of observations, and a broker order no
  local order accounts for is recorded as an external one.
\<close>

subsection \<open>Consumed broker rows\<close>

lemma fold_result_reaches:
  assumes "fold_result f xs s = Inr s'" "x \<in> set xs"
    "\<And>s s'. f x s = Inr s' \<Longrightarrow> P s'" "\<And>y s s'. y \<in> set xs \<Longrightarrow> P s \<Longrightarrow> f y s = Inr s' \<Longrightarrow> P s'"
  shows "P s'"
  using assms
proof (induction xs arbitrary: s)
  case (Cons y ys)
  from Cons.prems(1) obtain s1 where s1: "f y s = Inr s1" "fold_result f ys s1 = Inr s'"
    by (auto simp: bind_result_Inr_iff)
  show ?case
  proof (cases "x \<in> set ys")
    case True
    with Cons.IH [OF s1(2)] Cons.prems(3,4) show ?thesis by (meson list.set_intros)
  next
    case False
    with Cons.prems(2) have "y = x" by simp
    then have "P s1" using s1(1) Cons.prems(3) by blast
    from fold_result_invariant [where P = P, OF s1(2) this] Cons.prems(4) show ?thesis
      by (meson list.set_intros)
  qed
qed simp

lemma exact_position_known:
  "r \<in> set os \<Longrightarrow> exactly_known r \<Longrightarrow> eo_broker_order_id r = bid \<Longrightarrow> exact_position os bid \<noteq> None"
  unfolding exact_position_def find_last_None by blast

lemma exact_rows_consumed:
  assumes "fold_result (match_exact g now s exact) bs st = Inr st'" "b \<in> set bs" "exact (sn_broker_order_id b) \<noteq> None"
  shows "sn_broker_order_id b \<in> set (rc_consumed st')"
  using assms(1,2)
proof (rule fold_result_reaches)
  fix t t' assume "match_exact g now s exact b t = Inr t'"
  then show "sn_broker_order_id b \<in> set (rc_consumed t')" using assms(3)
    by (cases rule: match_exact_Inr) auto
next
  fix y t t' assume "sn_broker_order_id b \<in> set (rc_consumed t)" "match_exact g now s exact y t = Inr t'"
  from this(2,1) show "sn_broker_order_id b \<in> set (rc_consumed t')" by (cases rule: match_exact_Inr) auto
qed

lemma heuristic_consumes: "set (rc_consumed st) \<subseteq> set (rc_consumed (match_heuristic g ambiguous b st))"
  by (auto simp: match_heuristic_def Let_def)

lemma ambiguous_consumes: "set (rc_consumed st) \<subseteq> set (rc_consumed (match_ambiguous_orders g s st))"
proof -
  have h: "set (rc_consumed st) \<subseteq> set (rc_consumed (fold (match_heuristic g amb) bs st))" for amb bs
    by (rule fold_invariant [where Q = "\<lambda>_. True"]) (use heuristic_consumes in blast)+
  have e: "rc_consumed (fold escalate_ambiguous is x) = rc_consumed x" for "is" x
    by (rule fold_invariant [where Q = "\<lambda>_. True" and P = "\<lambda>y. rc_consumed y = rc_consumed x"])
      (auto simp: escalate_ambiguous_def Let_def)
  show ?thesis using h by (simp add: match_ambiguous_orders_def Let_def e)
qed

subsection \<open>Absence\<close>

text \<open>What one observation may do to the absence evidence of an order.\<close>

definition first_absence :: "reconcile_config \<Rightarrow> account_snapshot \<Rightarrow> execution_order \<Rightarrow> execution_order \<Rightarrow> bool" where
  "first_absence g s r r' \<longleftrightarrow> eo_absence_count r \<le> 0 \<and> eo_absence_count r' = 1
     \<and> eo_last_absence_snapshot_id r' = ab_snapshot_id s
     \<and> eo_last_absence_observed_at r' = Some (iso_text (rg_iso g) (ab_observed_at s))
     \<and> eo_last_absence_session_date r' = Some (iso_day (rg_iso g) (ab_session_date s))
     \<and> eo_last_absence_broker_order_id r' = eo_broker_order_id r"

definition second_absence :: "reconcile_config \<Rightarrow> account_snapshot \<Rightarrow> execution_order \<Rightarrow> execution_order \<Rightarrow> bool" where
  "second_absence g s r r' \<longleftrightarrow> 0 < eo_absence_count r \<and> eo_absence_count r' = 2
     \<and> eo_last_absence_snapshot_id r \<noteq> ab_snapshot_id s
     \<and> eo_last_absence_session_date r = Some (iso_day (rg_iso g) (ab_session_date s))
     \<and> eo_last_absence_broker_order_id r = eo_broker_order_id r
     \<and> (\<exists>t. observed_moment g (eo_last_absence_observed_at r) = Some t
          \<and> in_seconds (rg_absence_interval g) \<le> ab_observed_at s - t)"

lemma record_absence_cases:
  fixes r :: execution_order
  assumes "r' = snd (record_absence g s n r)"
  shows "absence_of r' = absence_of r \<or> eo_absence_count r' = 0 \<or> first_absence g s r r' \<or> second_absence g s r r'"
proof -
  have m: "eo_absence_count (set_recovery_state t x) = eo_absence_count x" for t x
    using absence_updates(1) [of t x] by (simp add: absence_of_def)
  show ?thesis
  proof (cases "observed_moment g (eo_last_absence_observed_at r)")
    case None
    then show ?thesis unfolding assms
      by (simp add: record_absence_def Let_def first_absence_def clear_absence_def)
  next
    case (Some t)
    then show ?thesis unfolding assms
      by (simp add: record_absence_def Let_def first_absence_def second_absence_def clear_absence_def m)
  qed
qed

text \<open>The broker did not report the order, in answers complete enough to mean something.\<close>

definition reported_absent :: "account_snapshot \<Rightarrow> execution_order \<Rightarrow> bool" where
  "reported_absent s r \<longleftrightarrow> eo_broker_order_id r \<noteq> [] \<and> absence_evidence_complete r s
     \<and> (exactly_known r \<longrightarrow> eo_broker_order_id r \<notin> sn_broker_order_id ` set (ab_orders s))"

lemma absence_step:
  assumes "reduce_state g ids now s l = Inr st" "i < length (lo_orders l)"
  shows "absence_of (rc_orders st ! i) = absence_of (lo_orders l ! i) \<or> eo_absence_count (rc_orders st ! i) = 0
    \<or> reported_absent s (lo_orders l ! i)
      \<and> (first_absence g s (lo_orders l ! i) (rc_orders st ! i) \<or> second_absence g s (lo_orders l ! i) (rc_orders st ! i))"
  using assms(1)
proof (rule reduce_state_phases)
  fix st1 st2 st3
  assume p: "fold_result (match_exact g now s (exact_position (lo_orders l))) (ab_orders s)
       (classify_orders s (working_copy l)) = Inr st1"
    "observe_externals ids s (match_ambiguous_orders g s st1) = Inr st2" "reconcile_holdings s st2 = Inr st3"
    and st: "st = liquidate_cards s (reconcile_capital g s (note_absences g s st3))"
  let ?old = "lo_orders l ! i" and ?r = "rc_orders st3 ! i"
  have t: "order_progress ?old ?r" "length (rc_orders st3) = length (lo_orders l)"
    "absence_of ?r = absence_of ?old \<or> eo_absence_count ?r = 0 \<and> eo_broker_order_id ?old \<in> set (rc_consumed st3)"
    using tracked_before_absences [OF p] assms(2) by (auto simp: orders_tracked_def)
  have "rc_orders st = rc_orders (note_absences g s st3)" using st liquidate_keeps capital_keeps by simp
  then have r': "rc_orders st ! i = (if absence_subject s (rc_consumed st3) ?r
      then snd (record_absence g s (held_quantity s (eo_symbol ?r)) ?r) else ?r)"
    using note_absences_result(6) [OF refl, of i st3 g s] assms(2) t(2) by (simp add: Let_def)
  have same: "eo_broker_order_id ?r = eo_broker_order_id ?old" "exactly_known ?r = exactly_known ?old"
    "eo_execution_policy ?r = eo_execution_policy ?old"
    using t(1) order_progress_known by (auto simp: order_progress_def)
  show ?thesis
  proof (cases "absence_subject s (rc_consumed st3) ?r")
    case False
    with r' t(3) show ?thesis by auto
  next
    case True
    then have nc: "eo_broker_order_id ?old \<notin> set (rc_consumed st3)" using same by (simp add: absence_subject_def)
    with t(3) have a: "absence_of ?r = absence_of ?old" by blast
    have "eo_broker_order_id ?old \<notin> sn_broker_order_id ` set (ab_orders s)" if k: "exactly_known ?old"
    proof
      assume "eo_broker_order_id ?old \<in> sn_broker_order_id ` set (ab_orders s)"
      then obtain b where b: "b \<in> set (ab_orders s)" "sn_broker_order_id b = eo_broker_order_id ?old" by auto
      have "exact_position (lo_orders l) (sn_broker_order_id b) \<noteq> None"
        by (rule exact_position_known [of ?old]) (use k b(2) assms(2) in simp_all)
      from exact_rows_consumed [OF p(1) b(1) this] have "sn_broker_order_id b \<in> set (rc_consumed st1)" .
      then have "sn_broker_order_id b \<in> set (rc_consumed (match_ambiguous_orders g s st1))"
        using ambiguous_consumes by blast
      moreover have "rc_consumed st3 = rc_consumed (match_ambiguous_orders g s st1)"
        using observe_externals_keeps [OF p(2)] holdings_keep [OF p(3)] by simp
      ultimately show False using nc b(2) by simp
    qed
    moreover have "absence_evidence_complete ?old s" "eo_broker_order_id ?old \<noteq> []"
      using True same by (auto simp: absence_subject_def absence_evidence_complete_def Let_def)
    ultimately have ra: "reported_absent s ?old" by (simp add: reported_absent_def)
    from record_absence_cases [OF refl, of g s "held_quantity s (eo_symbol ?r)" ?r] True r'
    have "absence_of (rc_orders st ! i) = absence_of ?r \<or> eo_absence_count (rc_orders st ! i) = 0
        \<or> first_absence g s ?r (rc_orders st ! i) \<or> second_absence g s ?r (rc_orders st ! i)" by simp
    with a ra same(1) show ?thesis
      by (auto simp: first_absence_def second_absence_def absence_of_def)
  qed
qed

text \<open>(C11) An order is given up as absent only after two complete generations. If the first of two passes
  starts without absence evidence for an order, and the second, which loaded the evidence the first
  left, ends with the count at two, then neither snapshot reported the order, both were complete
  enough to conclude from, they are different snapshots of the same trading session, and the second
  was taken at least the configured interval after the first. (The text form of a moment reads back.)\<close>

theorem absence_needs_two_generations:
  assumes "reduce_state g ids now1 s1 l1 = Inr st1" "i < length (lo_orders l1)"
    "eo_absence_count (lo_orders l1 ! i) \<le> 0"
    "reduce_state g ids now2 s2 l2 = Inr st2" "j < length (lo_orders l2)"
    "absence_of (lo_orders l2 ! j) = absence_of (rc_orders st1 ! i)" "eo_absence_count (rc_orders st2 ! j) = 2"
    "\<forall>t. iso_moment (rg_iso g) (iso_text (rg_iso g) t) = Some t"
  shows "reported_absent s1 (lo_orders l1 ! i) \<and> reported_absent s2 (lo_orders l2 ! j)
    \<and> eo_broker_order_id (lo_orders l2 ! j) = eo_broker_order_id (lo_orders l1 ! i)
    \<and> ab_snapshot_id s2 \<noteq> ab_snapshot_id s1
    \<and> iso_day (rg_iso g) (ab_session_date s2) = iso_day (rg_iso g) (ab_session_date s1)
    \<and> in_seconds (rg_absence_interval g) \<le> ab_observed_at s2 - ab_observed_at s1"
proof -
  let ?qold = "lo_orders l2 ! j" and ?q = "rc_orders st2 ! j" and ?old = "lo_orders l1 ! i" and ?r = "rc_orders st1 ! i"
  have two: "reported_absent s2 ?qold \<and> second_absence g s2 ?qold ?q"
    if "eo_absence_count ?qold \<noteq> 2"
    using absence_step [OF assms(4,5)] assms(7) that by (auto simp: absence_of_def first_absence_def)
  have c: "eo_absence_count ?qold = eo_absence_count ?r" using assms(6) by (simp add: absence_of_def)
  consider "eo_absence_count ?r \<le> 0" | "reported_absent s1 ?old" "first_absence g s1 ?old ?r"
    using absence_step [OF assms(1,2)] assms(3) by (auto simp: absence_of_def second_absence_def)
  then show ?thesis
  proof cases
    case 1
    with two c show ?thesis by (auto simp: second_absence_def)
  next
    case 2
    then have one: "eo_absence_count ?r = 1" by (simp add: first_absence_def)
    with two c have q: "reported_absent s2 ?qold" "second_absence g s2 ?qold ?q" by auto
    have e: "eo_last_absence_snapshot_id ?qold = ab_snapshot_id s1"
      "eo_last_absence_observed_at ?qold = Some (iso_text (rg_iso g) (ab_observed_at s1))"
      "eo_last_absence_session_date ?qold = Some (iso_day (rg_iso g) (ab_session_date s1))"
      "eo_last_absence_broker_order_id ?qold = eo_broker_order_id ?old"
      using 2(2) assms(6) by (auto simp: first_absence_def absence_of_def)
    with q assms(8) 2(1) show ?thesis by (auto simp: second_absence_def observed_moment_def)
  qed
qed

subsection \<open>Unexplained broker orders\<close>

definition external_status :: "order_snapshot \<Rightarrow> execution_order_status" where
  "external_status b = (case snapshot_status b of Some t \<Rightarrow> t | None \<Rightarrow> UNKNOWN_SUBMISSION_STATE)"

text \<open>The index of the external orders points into the list, and no two ids share a row.\<close>

definition externals_indexed :: "recon \<Rightarrow> bool" where
  "externals_indexed st \<longleftrightarrow> (\<forall>k i. rc_external_at st k = Some i \<longrightarrow> i < length (rc_externals st))
     \<and> inj_on (rc_external_at st) (dom (rc_external_at st))"

text \<open>How an unexplained row ends up, given the row of its id before the pass, if any.\<close>

definition recorded :: "order_snapshot \<Rightarrow> external_order option \<Rightarrow> external_order \<Rightarrow> bool" where
  "recorded b prior x \<longleftrightarrow> xo_broker_status x = external_status b
     \<and> (case prior of
          None \<Rightarrow> xo_broker_order_id x = py_strip (sn_broker_order_id b)
            \<and> (external_status b \<notin> TERMINAL_EXECUTION_ORDER_STATUSES \<longrightarrow> xo_disposition x = DISCOVERED_UNOWNED)
        | Some y \<Rightarrow> xo_broker_order_id x = xo_broker_order_id y
            \<and> (external_status b \<notin> TERMINAL_EXECUTION_ORDER_STATUSES \<longrightarrow> xo_disposition x = xo_disposition y))"

definition external_of :: "recon \<Rightarrow> string \<Rightarrow> external_order option" where
  "external_of st k = map_option ((!) (rc_externals st)) (rc_external_at st k)"

lemma observe_unknown_simps [simp]:
  "rc_externals (case snapshot_status b of Some t \<Rightarrow> st | None \<Rightarrow> add_alert a (add_class c k st)) = rc_externals st"
  "rc_external_at (case snapshot_status b of Some t \<Rightarrow> st | None \<Rightarrow> add_alert a (add_class c k st)) = rc_external_at st"
  by (simp_all split: option.split)

lemma observe_skips:
  "sn_broker_order_id b = [] \<or> sn_broker_order_id b \<in> set (rc_consumed st) \<Longrightarrow> observe_external ids s b st = Inr st"
  by (simp add: observe_external_def)

lemma observe_new:
  assumes "observe_external ids s b st = Inr st'" "sn_broker_order_id b \<noteq> []"
    "sn_broker_order_id b \<notin> set (rc_consumed st)" "rc_external_at st (sn_broker_order_id b) = None"
  shows "\<exists>x. recorded b None x \<and> rc_externals st' = rc_externals st @ [x]
    \<and> rc_external_at st' = (rc_external_at st)(sn_broker_order_id b \<mapsto> length (rc_externals st))"
proof -
  obtain x where x: "discovered_external ids s b (external_status b) = Inr x"
    and st': "rc_externals st' = rc_externals st @ [x]"
      "rc_external_at st' = (rc_external_at st)(sn_broker_order_id b \<mapsto> length (rc_externals st))"
    using assms by (auto simp: observe_external_def external_status_def Let_def bind_result_Inr_iff
        split: option.splits if_splits)
  have "recorded b None x"
    using x by (auto simp: discovered_external_def external_order_post_init_def recorded_def Let_def
        guard_simps map_sum_Inr_iff split: if_splits)
  with st' show ?thesis by blast
qed

lemma observe_seen:
  assumes "observe_external ids s b st = Inr st'" "sn_broker_order_id b \<noteq> []"
    "sn_broker_order_id b \<notin> set (rc_consumed st)" "rc_external_at st (sn_broker_order_id b) = Some k"
  shows "\<exists>x. recorded b (Some (rc_externals st ! k)) x \<and> rc_externals st' = (rc_externals st)[k := x]
    \<and> rc_external_at st' = rc_external_at st"
proof -
  define y where "y = (rc_externals st ! k)\<lparr>xo_broker_status := external_status b, xo_filled_quantity := sn_filled_quantity b\<rparr>"
  define x where "x = (if xo_disposition y = DISCOVERED_UNOWNED \<and> external_status b \<in> TERMINAL_EXECUTION_ORDER_STATUSES
     then y\<lparr>xo_disposition := DISMISSED_TERMINAL\<rparr> else y)"
  have "rc_externals st' = (rc_externals st)[k := x] \<and> rc_external_at st' = rc_external_at st"
    using assms unfolding x_def y_def
    by (cases "snapshot_status b") (auto simp: observe_external_def external_status_def Let_def)
  moreover have "recorded b (Some (rc_externals st ! k)) x" by (auto simp: recorded_def x_def y_def)
  ultimately show ?thesis by blast
qed

text \<open>One row: it settles its own id and no other.\<close>

lemma observe_step:
  assumes "observe_external ids s b st = Inr st'" "externals_indexed st"
  shows "externals_indexed st'"
    and "k \<noteq> sn_broker_order_id b \<Longrightarrow> external_of st' k = external_of st k"
    and "sn_broker_order_id b \<noteq> [] \<Longrightarrow> sn_broker_order_id b \<notin> set (rc_consumed st) \<Longrightarrow>
      \<exists>x. external_of st' (sn_broker_order_id b) = Some x \<and> recorded b (external_of st (sn_broker_order_id b)) x"
proof -
  let ?k = "sn_broker_order_id b"
  consider "?k = [] \<or> ?k \<in> set (rc_consumed st)" | "?k \<noteq> []" "?k \<notin> set (rc_consumed st)" "rc_external_at st ?k = None"
    | i where "?k \<noteq> []" "?k \<notin> set (rc_consumed st)" "rc_external_at st ?k = Some i" by blast
  then have "externals_indexed st' \<and> (k \<noteq> ?k \<longrightarrow> external_of st' k = external_of st k)
    \<and> (?k \<noteq> [] \<longrightarrow> ?k \<notin> set (rc_consumed st) \<longrightarrow>
        (\<exists>x. external_of st' ?k = Some x \<and> recorded b (external_of st ?k) x))"
  proof cases
    case 1
    with assms show ?thesis by (auto simp: observe_skips)
  next
    case 2
    from observe_new [OF assms(1) 2] obtain x where x: "recorded b None x"
      "rc_externals st' = rc_externals st @ [x]"
      "rc_external_at st' = (rc_external_at st)(?k \<mapsto> length (rc_externals st))" by blast
    have b: "\<And>j i. rc_external_at st j = Some i \<Longrightarrow> i < length (rc_externals st)"
      and inj: "inj_on (rc_external_at st) (dom (rc_external_at st))"
      using assms(2) by (auto simp: externals_indexed_def)
    have "inj_on (rc_external_at st') (dom (rc_external_at st'))"
      unfolding x(3)
    proof (rule inj_onI)
      fix u v assume uv: "u \<in> dom ((rc_external_at st)(?k \<mapsto> length (rc_externals st)))"
        "v \<in> dom ((rc_external_at st)(?k \<mapsto> length (rc_externals st)))"
        "((rc_external_at st)(?k \<mapsto> length (rc_externals st))) u = ((rc_external_at st)(?k \<mapsto> length (rc_externals st))) v"
      have nb: "rc_external_at st w \<noteq> Some (length (rc_externals st))" for w using b [of w] by force
      show "u = v"
      proof (cases "u = ?k \<or> v = ?k")
        case True
        with uv(3) nb show ?thesis by (metis fun_upd_apply)
      next
        case False
        with uv inj show ?thesis by (simp add: inj_on_def)
      qed
    qed
    moreover have "i < length (rc_externals st')" if "rc_external_at st' j = Some i" for i j
      using that b [of j i] by (auto simp: x(2,3) split: if_splits)
    moreover have "external_of st' k = external_of st k" if "k \<noteq> ?k"
      using that b [of k] by (cases "rc_external_at st k") (auto simp: external_of_def x(2,3) nth_append)
    ultimately show ?thesis using x(1) 2(3) by (simp add: externals_indexed_def external_of_def x(2,3))
  next
    case (3 i)
    from observe_seen [OF assms(1) 3] obtain x where x: "recorded b (Some (rc_externals st ! i)) x"
      "rc_externals st' = (rc_externals st)[i := x]" "rc_external_at st' = rc_external_at st" by blast
    have i: "i < length (rc_externals st)" using assms(2) 3(3) by (auto simp: externals_indexed_def)
    have other: "external_of st' k = external_of st k" if n: "k \<noteq> ?k"
    proof (cases "rc_external_at st k")
      case (Some j)
      with n 3(3) assms(2) have "j \<noteq> i" unfolding externals_indexed_def inj_on_def by (metis domI)
      with Some show ?thesis by (simp add: external_of_def x(2,3))
    qed (simp add: external_of_def x(3))
    have "externals_indexed st'" using assms(2) by (simp add: externals_indexed_def x(2,3))
    with other x(1) 3(3) i show ?thesis by (simp add: external_of_def x(2,3))
  qed
  then show "externals_indexed st'" "k \<noteq> ?k \<Longrightarrow> external_of st' k = external_of st k"
    "?k \<noteq> [] \<Longrightarrow> ?k \<notin> set (rc_consumed st) \<Longrightarrow>
      \<exists>x. external_of st' ?k = Some x \<and> recorded b (external_of st ?k) x" by blast+
qed

lemma observe_rows:
  assumes "fold_result (observe_external ids s) bs st = Inr st'" "externals_indexed st"
    "distinct (map sn_broker_order_id bs)"
  shows "externals_indexed st' \<and> (\<forall>k. k \<notin> sn_broker_order_id ` set bs \<longrightarrow> external_of st' k = external_of st k)
    \<and> (\<forall>b \<in> set bs. sn_broker_order_id b \<noteq> [] \<longrightarrow> sn_broker_order_id b \<notin> set (rc_consumed st) \<longrightarrow>
        (\<exists>x. external_of st' (sn_broker_order_id b) = Some x \<and> recorded b (external_of st (sn_broker_order_id b)) x))"
  using assms
proof (induction bs arbitrary: st)
  case (Cons b bs)
  from Cons.prems(1) obtain st1 where s1: "observe_external ids s b st = Inr st1"
    "fold_result (observe_external ids s) bs st1 = Inr st'" by (auto simp: bind_result_Inr_iff)
  note o = observe_step [OF s1(1) Cons.prems(2)]
  have c: "rc_consumed st1 = rc_consumed st" using observe_external_keeps [OF s1(1)] by blast
  from Cons.prems(3) have d: "distinct (map sn_broker_order_id bs)"
    "sn_broker_order_id b \<notin> sn_broker_order_id ` set bs" by auto
  from Cons.IH [OF s1(2) o(1) d(1)] have ih: "externals_indexed st'"
    "\<And>k. k \<notin> sn_broker_order_id ` set bs \<Longrightarrow> external_of st' k = external_of st1 k"
    "\<And>y. y \<in> set bs \<Longrightarrow> sn_broker_order_id y \<noteq> [] \<Longrightarrow> sn_broker_order_id y \<notin> set (rc_consumed st1) \<Longrightarrow>
        \<exists>x. external_of st' (sn_broker_order_id y) = Some x \<and> recorded y (external_of st1 (sn_broker_order_id y)) x"
    by blast+
  have "\<exists>x. external_of st' (sn_broker_order_id y) = Some x \<and> recorded y (external_of st (sn_broker_order_id y)) x"
    if y: "y \<in> set (b # bs)" "sn_broker_order_id y \<noteq> []" "sn_broker_order_id y \<notin> set (rc_consumed st)" for y
  proof (cases "y \<in> set bs")
    case True
    with d(2) have "sn_broker_order_id y \<noteq> sn_broker_order_id b" by (metis image_eqI)
    with ih(3) [OF True y(2)] y(3) c o(2) show ?thesis by simp
  next
    case False
    with y(1) have "y = b" by simp
    with ih(2) [OF d(2)] o(3) y(2,3) show ?thesis by simp
  qed
  with ih(1,2) o(2) show ?case by simp
qed simp

text \<open>What a consumed id means: an exact local order, or a suspicion noted on one.\<close>

definition accounted :: "execution_order list \<Rightarrow> recon \<Rightarrow> bool" where
  "accounted os st \<longleftrightarrow> (\<forall>k \<in> set (rc_consumed st).
     (\<exists>r \<in> set os. exactly_known r \<and> eo_broker_order_id r = k)
     \<or> (\<exists>r \<in> set (rc_orders st). k \<in> set (eo_recovery_candidate_broker_order_ids r)))"

lemma suspicion_updates [simp]:
  "eo_recovery_candidate_broker_order_ids (set_recovery_state t r) = eo_recovery_candidate_broker_order_ids r"
  "eo_recovery_candidate_broker_order_ids (clear_absence r) = eo_recovery_candidate_broker_order_ids r"
  "eo_recovery_candidate_broker_order_ids (needs_intervention r) = eo_recovery_candidate_broker_order_ids r"
  by (simp_all add: set_recovery_state_def clear_absence_def needs_intervention_def Let_def)

lemma set_dedup: "set (dedup xs) = set xs"
  by (induction xs rule: dedup.induct) auto

lemma suspicion_kept:
  "set (eo_recovery_candidate_broker_order_ids r) \<subseteq> set (eo_recovery_candidate_broker_order_ids (suspected bid r))"
  "bid \<in> set (eo_recovery_candidate_broker_order_ids (suspected bid r))"
  by (simp_all add: suspected_def Let_def set_dedup subset_iff)

lemma accounted_update:
  assumes "accounted os st" "rc_orders st' = (rc_orders st)[i := r]"
    "set (eo_recovery_candidate_broker_order_ids (rc_orders st ! i)) \<subseteq> set (eo_recovery_candidate_broker_order_ids r)"
    "\<And>k. k \<in> set (rc_consumed st') \<Longrightarrow> k \<in> set (rc_consumed st)
       \<or> i < length (rc_orders st) \<and> k \<in> set (eo_recovery_candidate_broker_order_ids r)"
  shows "accounted os st'"
  unfolding accounted_def
proof
  fix k assume k: "k \<in> set (rc_consumed st')"
  show "(\<exists>r \<in> set os. exactly_known r \<and> eo_broker_order_id r = k)
     \<or> (\<exists>r \<in> set (rc_orders st'). k \<in> set (eo_recovery_candidate_broker_order_ids r))"
  proof (cases "k \<in> set (rc_consumed st)")
    case True
    with assms(1) consider "\<exists>r \<in> set os. exactly_known r \<and> eo_broker_order_id r = k"
      | j where "j < length (rc_orders st)" "k \<in> set (eo_recovery_candidate_broker_order_ids (rc_orders st ! j))"
      unfolding accounted_def by (metis in_set_conv_nth)
    then show ?thesis
    proof cases
      case (2 j)
      have "k \<in> set (eo_recovery_candidate_broker_order_ids (rc_orders st' ! j))"
        using 2 assms(3) by (cases "j = i") (auto simp: assms(2))
      moreover have "rc_orders st' ! j \<in> set (rc_orders st')" using 2(1) assms(2) by simp
      ultimately show ?thesis by blast
    qed simp
  next
    case False
    with assms(4) [OF k] have "i < length (rc_orders st)" "k \<in> set (eo_recovery_candidate_broker_order_ids r)" by auto
    moreover from this(1) have "r \<in> set (rc_orders st')" by (simp add: assms(2) set_update_memI)
    ultimately show ?thesis by blast
  qed
qed

lemma exact_accounted:
  assumes "fold_result (match_exact g now s (exact_position (lo_orders l))) bs (classify_orders s (working_copy l)) = Inr st1"
  shows "\<forall>k \<in> set (rc_consumed st1). \<exists>r \<in> set (lo_orders l). exactly_known r \<and> eo_broker_order_id r = k"
proof (rule fold_result_invariant [OF assms])
  show "\<forall>k \<in> set (rc_consumed (classify_orders s (working_copy l))).
      \<exists>r \<in> set (lo_orders l). exactly_known r \<and> eo_broker_order_id r = k"
    using classify_keeps [of s "working_copy l"] by (simp add: working_copy_def)
next
  fix b st st' assume i: "\<forall>k \<in> set (rc_consumed st). \<exists>r \<in> set (lo_orders l). exactly_known r \<and> eo_broker_order_id r = k"
    and m: "match_exact g now s (exact_position (lo_orders l)) b st = Inr st'"
  from m show "\<forall>k \<in> set (rc_consumed st'). \<exists>r \<in> set (lo_orders l). exactly_known r \<and> eo_broker_order_id r = k"
  proof (cases rule: match_exact_Inr)
    case (2 j why r)
    from find_last_Some [OF 2(1) [unfolded exact_position_def]] nth_mem
    have "\<exists>r \<in> set (lo_orders l). exactly_known r \<and> eo_broker_order_id r = sn_broker_order_id b" by blast
    with i 2(4) show ?thesis by simp
  qed (use i in simp)
qed

lemma heuristic_accounted:
  assumes a: "accounted os st" and n: "\<forall>i \<in> set ambiguous. i < length (rc_orders st)"
  shows "accounted os (match_heuristic g ambiguous b st)"
proof -
  define candidates where "candidates = filter (\<lambda>i. eo_client_order_id (rc_orders st ! i) \<notin> set (rc_candidates st)
    \<and> heuristic_candidate g b (rc_orders st ! i)) ambiguous"
  define ranked where
    "ranked = sort_key (\<lambda>i. (submission_moment (rc_orders st ! i), eo_client_order_id (rc_orders st ! i))) candidates"
  let ?k = "sn_broker_order_id b"
  show ?thesis
  proof (cases "?k \<in> set (rc_consumed st) \<or> candidates = []")
    case True
    with a show ?thesis by (simp add: match_heuristic_def Let_def candidates_def)
  next
    case False
    then have r: "rc_orders (match_heuristic g ambiguous b st) = (rc_orders st)[hd ranked := suspected ?k (rc_orders st ! hd ranked)]"
      "rc_consumed (match_heuristic g ambiguous b st) = ?k # rc_consumed st"
      by (auto simp: match_heuristic_def Let_def candidates_def ranked_def)
    have s: "set ranked = set candidates" by (simp add: ranked_def)
    then have "ranked \<noteq> []" using False by (metis set_empty)
    then have "hd ranked \<in> set candidates" using s hd_in_set by blast
    then have "hd ranked < length (rc_orders st)" using n by (simp add: candidates_def)
    with r suspicion_kept show ?thesis by (intro accounted_update [OF a r(1)]) auto
  qed
qed

lemma ambiguous_accounted:
  assumes "accounted os st"
  shows "accounted os (match_ambiguous_orders g s st)"
proof -
  let ?inv = "\<lambda>y. accounted os y \<and> length (rc_orders y) = length (rc_orders st)"
  have n: "\<forall>i \<in> set (ambiguous_positions st). i < length (rc_orders st)" by (simp add: ambiguous_positions_def)
  have h: "?inv (fold (match_heuristic g (ambiguous_positions st)) (ab_orders s) st)"
  proof (rule fold_invariant [where Q = "\<lambda>_. True" and P = ?inv])
    fix b and y :: recon assume "?inv y"
    with heuristic_accounted [of os y "ambiguous_positions st" g b] n
    show "?inv (match_heuristic g (ambiguous_positions st) b y)"
      by (auto simp: match_heuristic_def Let_def)
  qed (use assms in auto)
  have e: "accounted os (fold escalate_ambiguous is y)" if "accounted os y" for "is" y
  proof (rule fold_invariant [where Q = "\<lambda>_. True" and P = "accounted os"])
    fix i and z :: recon assume z: "accounted os z"
    show "accounted os (escalate_ambiguous i z)"
    proof (cases "eo_client_order_id (rc_orders z ! i) \<in> set (rc_candidates z)")
      case False
      then show ?thesis
        by (intro accounted_update [OF z, of _ i "needs_intervention (rc_orders z ! i)"])
          (simp_all add: escalate_ambiguous_def Let_def)
    qed (use z in \<open>simp add: escalate_ambiguous_def\<close>)
  qed (use that in auto)
  show ?thesis using h e by (simp add: match_ambiguous_orders_def Let_def)
qed

lemma absence_keeps_suspicion:
  "eo_recovery_candidate_broker_order_ids (snd (record_absence g s n r)) = eo_recovery_candidate_broker_order_ids r"
  by (simp add: record_absence_def Let_def split: option.split)


end
