(* ===== verification/Reconcile_Sample.thy ===== *)
theory Reconcile_Sample
  imports Reconcile_Evidence
begin

text \<open>
  One small account at which the theorems about a pass are applied, and two cases in which the pass
  does not do what it is for.
\<close>

subsection \<open>A sample account\<close>

text \<open>A text form of moments that reads back.\<close>

definition sample_iso :: iso_format where
  "sample_iso =
     \<lparr>iso_text = (\<lambda>t. if t < 0 then CHR ''-'' # replicate (nat (- t)) CHR ''1'' else replicate (nat t) CHR ''1''),
      iso_moment = (\<lambda>s. case s of [] \<Rightarrow> Some 0
        | c # cs \<Rightarrow> Some (if c = CHR ''-'' then - int (length cs) else int (length s))),
      iso_day = (\<lambda>d. [])\<rparr>"

lemma sample_iso_reads_back: "iso_moment sample_iso (iso_text sample_iso t) = Some t"
proof (cases "0 < t")
  case True
  then obtain n where n: "t = int (Suc n)" using zero_less_imp_eq_int gr0_conv_Suc by (metis of_nat_0_less_iff)
  have "nat (1 + int n) = Suc n" by simp
  then show ?thesis by (simp add: sample_iso_def n)
qed (auto simp: sample_iso_def)

definition sample_rg :: reconcile_config where
  "sample_rg = \<lparr>rg_iso = sample_iso, rg_observation_interval = 3600, rg_absence_interval = 60, rg_candidate_window = 60\<rparr>"

definition sample_ids :: reconcile_ids where
  "sample_ids = \<lparr>ri_external_id = (\<lambda>e a k. e @ a @ k), ri_redact = (\<lambda>j. (j, []))\<rparr>"

definition sample_account :: "order_snapshot list \<Rightarrow> account_holding list \<Rightarrow> bool \<Rightarrow> timestamp \<Rightarrow> string \<Rightarrow> account_snapshot" where
  "sample_account rows held known t i =
     \<lparr>ab_environment = ''PROD'', ab_account_no = ''1'',
      ab_completeness = \<lparr>cp_holdings = known, cp_open_orders = known, cp_history = known, cp_reserved_orders = known,
        cp_account_balance = known\<rparr>,
      ab_holdings = held, ab_orders = rows, ab_buying_power = None, ab_equity = None, ab_observed_at = t,
      ab_session_date = 0, ab_snapshot_id = i, ab_errors = [], ab_notice_ids = {}\<rparr>"

definition sample_row :: "string \<Rightarrow> order_status \<Rightarrow> int \<Rightarrow> int \<Rightarrow> order_snapshot" where
  "sample_row k st filled remaining =
     \<lparr>sn_symbol = ''AAPL'', sn_broker_order_id = k, sn_client_order_id = [], sn_side = BUY, sn_status = st,
      sn_quantity_requested = 10, sn_filled_quantity = filled, sn_remaining_quantity = remaining,
      sn_avg_fill_price = Fin 0, sn_limit_price = Fin 100, sn_raw_response = [], sn_submitted_at = None,
      sn_checked_at = []\<rparr>"

definition sample_local :: "trade_card list \<Rightarrow> execution_order list \<Rightarrow> reservation list \<Rightarrow> local_state" where
  "sample_local cards orders vs = \<lparr>lo_cards = cards, lo_orders = orders, lo_reservations = vs, lo_externals = []\<rparr>"

lemmas sample_account_defs = sample_account_def sample_row_def sample_local_def

lemma up_AAPL: "py_upper ''AAPL'' = ''AAPL''"
  by code_simp

text \<open>A card that must be liquidated, with ten shares and nothing in the way.\<close>

definition doomed_card :: trade_card where
  "doomed_card = sample_card\<lparr>tc_board_status := BS_SELL_ALL, tc_broker_quantity := 10\<rparr>"

definition ten_shares :: account_holding where
  "ten_shares = \<lparr>ah_symbol = ''AAPL'', ah_quantity = 10, ah_average_price = Fin 100, ah_sellable_quantity = None\<rparr>"

lemmas reducer_defs = reduce_state_def reconcile_orders_def working_copy_def classify_orders_def match_exact_orders_def
  match_ambiguous_orders_def ambiguous_positions_def observe_externals_def repeat_external_alerts_def
  reconcile_holdings_def note_absences_def reconcile_capital_def settle_reservations_from_replacement_leaves_def

theorem emergency_sell_never_competes_witness:
  "\<exists>st m. reduce_state sample_rg sample_ids 0 (sample_account [] [ten_shares] True 0 ''S'')
        (sample_local [doomed_card] [] []) = Inr st
     \<and> m \<in> set (rc_commands st) \<and> rm_kind m = EMERGENCY_SELL_ALL \<and> rm_quantity m = 10
     \<and> command_justified (sample_account [] [ten_shares] True 0 ''S'') (rc_orders st) m"
proof -
  let ?s = "sample_account [] [ten_shares] True 0 ''S''"
  let ?l = "sample_local [doomed_card] [] []"
  let ?m = "\<lparr>rm_kind = EMERGENCY_SELL_ALL, rm_environment = ''PROD'', rm_account_no = ''1'', rm_symbol = ''AAPL'',
    rm_client_order_id = [], rm_quantity = 10, rm_reason = NoReason\<rparr>"
  have "\<exists>st. reduce_state sample_rg sample_ids 0 ?s ?l = Inr st \<and> rc_commands st = [?m]"
    by (simp add: reducer_defs sample_account_defs doomed_card_def ten_shares_def sample_card_def blank_card_def
        liquidate_cards_def liquidate_card_def
        reconcile_account_holding_def card_index_def card_id_of_def set_card_def held_card_def vanished_card_def
        sellable_or_def stale_entry_card_def decide_emergency_sell_def holding_for_def up_AAPL
        unowned_working_orders_def known_owned_working_sells_def sell_quantity_def Let_def)
  then obtain st where st: "reduce_state sample_rg sample_ids 0 ?s ?l = Inr st" "rc_commands st = [?m]" by blast
  have "command_justified ?s (rc_orders st) ?m"
    by (rule emergency_sell_never_competes [OF st(1)]) (simp_all add: st(2) sample_local_def)
  with st show ?thesis by fastforce
qed

text \<open>The broker reports the acknowledged order as working; the pass writes that.\<close>

definition sample_pass_db :: "execution_order list \<Rightarrow> gateway_db" where
  "sample_pass_db orders =
     \<lparr>gd_commands = empty_commands, gd_orders = \<lparr>ox_ids = map eo_client_order_id orders,
        ox_rows = map_of (map (\<lambda>r. (eo_client_order_id r, r)) orders)\<rparr>,
      gd_externals = \<lparr>xt_ids = [], xt_rows = Map.empty\<rparr>, gd_reservations = empty_reservations,
      gd_owners = \<lparr>ot_ids = [], ot_rows = Map.empty\<rparr>, gd_lease = None, gd_cards = empty_table\<rparr>"

definition working_order :: execution_order where
  "working_order = exact_order\<lparr>eo_status := WORKING, eo_last_broker_seen_at := Some [], eo_last_reconciled_at := Some []\<rparr>"

lemma sample_working:
  "apply_exact_order_snapshot sample_rg 0 (sample_row ''B1'' OS_WORKING 0 10) exact_order = Inr (None, working_order)"
  by (simp add: apply_exact_order_snapshot_def snapshot_status_def follow_status_def transition_now_def order_eval
      with_evidence_def clear_absence_def settle_recovery_def stamp_if_due_def observation_due_def semantic_change_def
      audit_fields_removed_def preserve_ambiguous_cancel_def sample_row_def exact_order_def working_order_def Let_def)

lemmas sample_order_facts = exact_order_def working_order_def sample_order_def exactly_known_def order_card_id_def

lemma sample_reduced:
  "\<exists>st. reduce_state sample_rg sample_ids 0 (sample_account [sample_row ''B1'' OS_WORKING 0 10] [] False 0 ''S'')
      (sample_local [] [exact_order] []) = Inr st
    \<and> rc_cards st = [] \<and> rc_orders st = [working_order] \<and> rc_reservations st = [] \<and> rc_externals st = []"
proof -
  let ?s = "sample_account [sample_row ''B1'' OS_WORKING 0 10] [] False 0 ''S''"
  have k: "exact_position [exact_order] ''B1'' = Some 0" by (simp add: exact_position_def sample_order_facts)
  have c: "classify_execution_order exact_order None = RC_ENTRY_BUY"
    by (simp add: classify_execution_order_def exact_order_def sample_order_def TERMINAL_EXECUTION_ORDER_STATUSES_def
        RESERVED_MOO_EXECUTION_def REGULAR_LIMIT_EXECUTION_def)
  have o: "eo_client_order_id exact_order = ''c1''" "eo_broker_identity_status working_order = EXACT"
    "eo_capital_reservation_id working_order = []" "live working_order" "eo_side working_order = BUY"
    "eo_intent working_order = ENTRY"
    by (simp_all add: sample_order_facts live_def open_or_terminal TERMINAL_EXECUTION_ORDER_STATUSES_def)
  have b: "sn_broker_order_id (sample_row ''B1'' OS_WORKING 0 10) = ''B1''" by (simp add: sample_row_def)
  have st1: "\<exists>st1. match_exact_orders sample_rg 0 ?s (classify_orders ?s (working_copy (sample_local [] [exact_order] [])))
      = Inr st1 \<and> rc_cards st1 = [] \<and> rc_orders st1 = [working_order] \<and> rc_reservations st1 = []
        \<and> rc_externals st1 = [] \<and> rc_consumed st1 = [''B1'']"
    by (simp add: match_exact_orders_def classify_orders_def classify_order_def working_copy_def sample_local_def
        sample_account_def match_exact_def k c b sample_working card_index_def add_class_def set_order_def Let_def)
  then obtain st1 where 1: "match_exact_orders sample_rg 0 ?s (classify_orders ?s (working_copy (sample_local [] [exact_order] [])))
      = Inr st1" "rc_cards st1 = []" "rc_orders st1 = [working_order]" "rc_reservations st1 = []"
      "rc_externals st1 = []" "rc_consumed st1 = [''B1'']" by blast
  have "\<exists>st2. observe_externals sample_ids ?s (match_ambiguous_orders sample_rg ?s st1) = Inr st2
      \<and> rc_cards st2 = [] \<and> rc_orders st2 = [working_order] \<and> rc_reservations st2 = [] \<and> rc_externals st2 = []"
    using 1 o by (simp add: match_ambiguous_orders_def ambiguous_positions_def match_heuristic_def observe_externals_def
        observe_external_def repeat_external_alerts_def sample_account_def b Let_def)
  then obtain st2 where 2: "observe_externals sample_ids ?s (match_ambiguous_orders sample_rg ?s st1) = Inr st2"
    "rc_cards st2 = []" "rc_orders st2 = [working_order]" "rc_reservations st2 = []" "rc_externals st2 = []" by blast
  have n: "note_absence sample_rg ?s 0 st2 = st2"
    using 2(3) by (simp add: note_absence_def Let_def absence_evidence_complete_def sample_account_def)
  have "\<exists>st. liquidate_cards ?s (reconcile_capital sample_rg ?s st2) = st
      \<and> rc_cards st = [] \<and> rc_orders st = [working_order] \<and> rc_reservations st = [] \<and> rc_externals st = []"
    using 2 o by (simp add: liquidate_cards_def reconcile_capital_def settle_reservations_from_replacement_leaves_def
        check_live_reservation_def add_alert_def add_class_def Let_def)
  moreover have "reconcile_holdings ?s st2 = Inr st2"
    by (simp add: reconcile_holdings_def sample_account_def)
  ultimately show ?thesis using 1(1) 2(1,3) n
    by (simp add: reduce_state_def reconcile_orders_def note_absences_def)
qed

theorem pass_moves_orders_forward_witness:
  "\<exists>p st'. reconcile_attempt sample_rg sample_ids 0 0 True
        (sample_account [sample_row ''B1'' OS_WORKING 0 10] [] False 0 ''S'') ''PROD'' ''1'' [] (sample_pass_db [exact_order])
        \<lparr>ps_db = sample_pass_db [exact_order], ps_pending = Map.empty, ps_snapshot = []\<rparr> = Inr (p, st')
     \<and> map_option eo_status (ox_rows (gd_orders (ps_db st')) ''c1'') = Some WORKING
     \<and> (\<exists>r0 r1. ox_rows (gd_orders (sample_pass_db [exact_order])) ''c1'' = Some r0 \<and> order_progress r0 r1
          \<and> ox_rows (gd_orders (ps_db st')) ''c1'' = Some (r1\<lparr>eo_version := eo_version r0 + 1\<rparr>))"
proof -
  let ?s = "sample_account [sample_row ''B1'' OS_WORKING 0 10] [] False 0 ''S''"
  let ?db = "sample_pass_db [exact_order]"
  let ?st = "\<lparr>ps_db = ?db, ps_pending = Map.empty, ps_snapshot = []\<rparr>"
  have o: "eo_client_order_id exact_order = ''c1''" "eo_environment exact_order = ''PROD''" "eo_account_no exact_order = ''1''"
    "eo_client_order_id working_order = ''c1''" "eo_version working_order = 1" "eo_version exact_order = 1"
    "eo_status working_order = WORKING" "working_order \<noteq> exact_order"
    by (simp_all add: sample_order_facts)
  have up: "py_upper ''PROD'' = ''PROD''" by code_simp
  have l: "load_account_local_state ?db ''PROD'' ''1'' [] = sample_local [] [exact_order] []"
    by (simp add: load_account_local_state_def sample_local_def sample_pass_db_def list_execution_orders_for_account_def
        table_orders_def map_filter_def list_active_reservations_def active_rows_def table_reservations_def
        empty_reservations_def list_discovered_external_orders_for_account_def table_externals_def o up)
  obtain x where x: "reduce_state sample_rg sample_ids 0 ?s (sample_local [] [exact_order] []) = Inr x"
    "rc_cards x = []" "rc_orders x = [working_order]" "rc_reservations x = []" "rc_externals x = []"
    using sample_reduced by blast
  let ?p = "plan_of ?s (sample_local [] [exact_order] []) x"
  have p: "pl_card_creates ?p = []" "pl_card_updates ?p = []" "pl_order_updates ?p = [working_order]"
    "pl_reservation_updates ?p = []" "pl_external_creates ?p = []" "pl_external_updates ?p = []"
    using o by (simp_all add: plan_of_def x sample_local_def is_changed_def)
  have rows: "gd_orders ?db = \<lparr>ox_ids = [''c1''], ox_rows = [''c1'' \<mapsto> exact_order]\<rparr>"
    by (simp add: sample_pass_db_def o)
  have v: "validate_consistency working_order = None" "eo_environment working_order = ''PROD''"
    "eo_account_no working_order = ''1''" "eo_symbol working_order = eo_symbol exact_order"
    "adoption_source_or_none working_order = None"
    by (simp_all add: working_order_def exact_order_def order_eval adoption_source_or_none_def)
  have u: "update_execution_order working_order 1 (gd_orders ?db) = Inr (working_order\<lparr>eo_version := 2\<rparr>,
      \<lparr>ox_ids = [''c1''], ox_rows = [''c1'' \<mapsto> working_order\<lparr>eo_version := 2\<rparr>]\<rparr>)"
    unfolding update_order_Inr_iff rows using o v
    by (simp add: held_by_other_def table_orders_def map_filter_def)
  have "\<exists>st'. apply_reconciliation_plan 0 0 ?p ?st = Inr st'
      \<and> ox_rows (gd_orders (ps_db st')) = [''c1'' \<mapsto> working_order\<lparr>eo_version := 2\<rparr>]"
    using u o by (simp add: apply_reconciliation_plan_def plan_is_empty_def write_plan_def p bind_result_def)
  then obtain st' where st': "apply_reconciliation_plan 0 0 ?p ?st = Inr st'"
    "ox_rows (gd_orders (ps_db st')) = [''c1'' \<mapsto> working_order\<lparr>eo_version := 2\<rparr>]" by blast
  have a: "reconcile_attempt sample_rg sample_ids 0 0 True ?s ''PROD'' ''1'' [] ?db ?st = Inr (?p, st')"
    by (simp add: reconcile_attempt_def reduce_account_reconciliation_def l x(1) st'(1))
  have c: "validate_consistency exact_order = None" "adoption_source_or_none exact_order = None"
    by (simp_all add: exact_order_def order_eval adoption_source_or_none_def)
  have "orders_wf (gd_orders ?db)"
    unfolding rows using o c by (simp add: orders_wf_def keys_unique_def)
  moreover have "working_order\<lparr>eo_version := 2\<rparr> \<noteq> exact_order" by (simp add: sample_order_facts)
  ultimately show ?thesis using pass_moves_orders_forward [OF _ a, of "''c1''"] a st'(2) o(7) rows
    by (auto simp: o)
qed

subsection \<open>Two silent snapshots\<close>

text \<open>The run on one acknowledged order the broker does not mention.\<close>

lemma sample_absence:
  assumes r: "eo_status r = ACKNOWLEDGED" "eo_broker_identity_status r = EXACT" "eo_broker_order_id r \<noteq> []"
    "eo_execution_policy r = REGULAR_LIMIT_EXECUTION" "eo_capital_reservation_id r = []"
  shows "\<exists>st. reduce_state sample_rg sample_ids 0 (sample_account [] [] True t i) (sample_local [] [r] []) = Inr st
    \<and> rc_orders st = [snd (record_absence sample_rg (sample_account [] [] True t i) 0 r)]"
proof -
  let ?s = "sample_account [] [] True t i"
  have a: "absence_subject ?s [] r"
    using r by (simp add: absence_subject_def TERMINAL_EXECUTION_ORDER_STATUSES_def absence_evidence_complete_def
        sample_account_def REGULAR_LIMIT_EXECUTION_def RESERVED_MOO_EXECUTION_def)
  have "\<exists>st1. match_exact_orders sample_rg 0 ?s (classify_orders ?s (working_copy (sample_local [] [r] []))) = Inr st1
      \<and> rc_cards st1 = [] \<and> rc_orders st1 = [r] \<and> rc_externals st1 = [] \<and> rc_consumed st1 = []"
    by (simp add: match_exact_orders_def classify_orders_def classify_order_def working_copy_def sample_local_def
        sample_account_def card_index_def add_class_def add_alert_def Let_def)
  then obtain st1 where 1: "match_exact_orders sample_rg 0 ?s (classify_orders ?s (working_copy (sample_local [] [r] []))) = Inr st1"
    "rc_cards st1 = []" "rc_orders st1 = [r]" "rc_externals st1 = []" "rc_consumed st1 = []" by blast
  have "\<exists>st2. observe_externals sample_ids ?s (match_ambiguous_orders sample_rg ?s st1) = Inr st2
      \<and> rc_cards st2 = [] \<and> rc_orders st2 = [r] \<and> rc_consumed st2 = []"
    using 1 r by (simp add: match_ambiguous_orders_def ambiguous_positions_def observe_externals_def
        repeat_external_alerts_def sample_account_def Let_def)
  then obtain st2 where 2: "observe_externals sample_ids ?s (match_ambiguous_orders sample_rg ?s st1) = Inr st2"
    "rc_cards st2 = []" "rc_orders st2 = [r]" "rc_consumed st2 = []" by blast
  have h: "reconcile_holdings ?s st2 = Inr (st2\<lparr>rc_cards := []\<rparr>)"
    using 2 by (simp add: reconcile_holdings_def sample_account_def)
  have held: "held_quantity ?s k = 0" for k by (simp add: held_quantity_def holding_for_def sample_account_def)
  let ?st3 = "st2\<lparr>rc_cards := []\<rparr>"
  note n = note_absences_result [OF refl, where g = sample_rg and s = ?s and st = ?st3]
  have "rc_orders (note_absences sample_rg ?s ?st3) = [snd (record_absence sample_rg ?s 0 r)]"
    using n(2) n(6) [of 0] 2 a held by (intro nth_equalityI) (simp_all add: Let_def)
  moreover have "reduce_state sample_rg sample_ids 0 ?s (sample_local [] [r] [])
      = Inr (liquidate_cards ?s (reconcile_capital sample_rg ?s (note_absences sample_rg ?s ?st3)))"
    using 1(1) 2(1) h by (simp add: reduce_state_def reconcile_orders_def)
  ultimately show ?thesis using liquidate_keeps capital_keeps by simp
qed

definition absent_once :: execution_order where
  "absent_once = snd (record_absence sample_rg (sample_account [] [] True 0 ''S'') 0 exact_order)"

theorem absence_needs_two_generations_witness:
  "\<exists>st1 st2. reduce_state sample_rg sample_ids 0 (sample_account [] [] True 0 ''S'') (sample_local [] [exact_order] []) = Inr st1
     \<and> reduce_state sample_rg sample_ids 0 (sample_account [] [] True 60000000 ''T'') (sample_local [] [absent_once] []) = Inr st2
     \<and> rc_orders st1 = [absent_once] \<and> eo_absence_count (rc_orders st2 ! 0) = 2
     \<and> eo_recovery_state (rc_orders st2 ! 0) = MANUAL_INTERVENTION_REQUIRED
     \<and> reported_absent (sample_account [] [] True 0 ''S'') exact_order
     \<and> in_seconds (rg_absence_interval sample_rg) \<le> 60000000"
proof -
  let ?s1 = "sample_account [] [] True 0 ''S''" and ?s2 = "sample_account [] [] True 60000000 ''T''"
  have iso: "\<forall>t. iso_moment (rg_iso sample_rg) (iso_text (rg_iso sample_rg) t) = Some t"
    by (simp add: sample_rg_def sample_iso_reads_back)
  have f: "eo_status exact_order = ACKNOWLEDGED" "eo_broker_identity_status exact_order = EXACT"
    "eo_broker_order_id exact_order = ''B1''" "eo_execution_policy exact_order = REGULAR_LIMIT_EXECUTION"
    "eo_capital_reservation_id exact_order = []" "eo_absence_count exact_order = 0"
    "eo_last_absence_holding_quantity exact_order = None" "eo_recovery_state exact_order = ORS_NONE"
    by (simp_all add: sample_order_facts)
  have once: "absent_once = exact_order\<lparr>eo_absence_count := 1, eo_last_absence_snapshot_id := ''S'',
      eo_last_absence_observed_at := Some (iso_text (rg_iso sample_rg) 0),
      eo_last_absence_session_date := Some (iso_day (rg_iso sample_rg) 0),
      eo_last_absence_broker_order_id := ''B1'', eo_last_absence_holding_quantity := Some 0\<rparr>"
    by (simp add: absent_once_def record_absence_def f sample_account_def Let_def)
  have twice: "eo_absence_count (snd (record_absence sample_rg ?s2 0 absent_once)) = 2
      \<and> eo_recovery_state (snd (record_absence sample_rg ?s2 0 absent_once)) = MANUAL_INTERVENTION_REQUIRED"
    by (simp add: once record_absence_def f sample_account_def Let_def observed_moment_def iso in_seconds_def
        set_recovery_state_def) (simp add: sample_rg_def)
  obtain st1 where 1: "reduce_state sample_rg sample_ids 0 ?s1 (sample_local [] [exact_order] []) = Inr st1"
    "rc_orders st1 = [absent_once]"
    using sample_absence [of exact_order 0 "''S''"] f by (auto simp: absent_once_def)
  obtain st2 where 2: "reduce_state sample_rg sample_ids 0 ?s2 (sample_local [] [absent_once] []) = Inr st2"
    "rc_orders st2 = [snd (record_absence sample_rg ?s2 0 absent_once)]"
    using sample_absence [of absent_once 60000000 "''T''"] f by (auto simp: once)
  have "reported_absent ?s1 exact_order \<and> in_seconds (rg_absence_interval sample_rg) \<le> 60000000"
    using absence_needs_two_generations [OF 1(1) _ _ 2(1) _ _ _ iso, of 0 0] 1(2) 2(2) twice f
    by (simp add: sample_local_def sample_account_def)
  with 1 2 twice show ?thesis by auto
qed

subsection \<open>An order nobody knows\<close>

lemma py_strip_B7: "py_strip ''B7'' = ''B7''"
  by (simp add: py_strip_def py_space_def)


subsection \<open>Capital behind a cancellation\<close>

definition cancelling_order :: execution_order where
  "cancelling_order = exact_order\<lparr>eo_status := CANCEL_PENDING, eo_capital_reservation_id := ''r1''\<rparr>"

definition open_reservation :: reservation where
  "open_reservation = create_reservation ''r1'' 0 ''PROD'' ''1'' ''AAPL'' ''g'' (Fin 2000) (Fin 50)"

theorem capital_held_while_unsettled_witness:
  "\<exists>st. reduce_state sample_rg sample_ids 0 (sample_account [] [] False 0 ''S'')
        (sample_local [] [cancelling_order] [open_reservation]) = Inr st
     \<and> rc_reservations st ! 0 = open_reservation"
proof -
  let ?s = "sample_account [] [] False 0 ''S''" and ?l = "sample_local [] [cancelling_order] [open_reservation]"
  have f: "eo_status cancelling_order = CANCEL_PENDING" "eo_capital_reservation_id cancelling_order = ''r1''"
    "eo_broker_identity_status cancelling_order = EXACT" "live cancelling_order"
    by (simp_all add: cancelling_order_def sample_order_facts live_def open_or_terminal TERMINAL_EXECUTION_ORDER_STATUSES_def)
  have v: "cr_reservation_id open_reservation = ''r1''"
    by (simp add: open_reservation_def create_reservation_def reservation_post_init_def Let_def)
  have "\<exists>st. reduce_state sample_rg sample_ids 0 ?s ?l = Inr st"
    using f by (simp add: reduce_state_def reconcile_orders_def observe_externals_def match_exact_orders_def
        reconcile_holdings_def sample_account_def)
  then obtain st where st: "reduce_state sample_rg sample_ids 0 ?s ?l = Inr st" by blast
  have c: "rc_orders (classify_orders ?s (working_copy ?l)) = [cancelling_order]"
    using classify_keeps [of ?s "working_copy ?l"] by (simp add: working_copy_def sample_local_def)
  have o: "rc_orders st = [cancelling_order]"
    using st
  proof (rule reduce_state_phases)
    fix st1 st2 st3
    assume q: "fold_result (match_exact sample_rg 0 ?s (exact_position (lo_orders ?l))) (ab_orders ?s)
        (classify_orders ?s (working_copy ?l)) = Inr st1"
      "observe_externals sample_ids ?s (match_ambiguous_orders sample_rg ?s st1) = Inr st2"
      "reconcile_holdings ?s st2 = Inr st3"
      and e: "st = liquidate_cards ?s (reconcile_capital sample_rg ?s (note_absences sample_rg ?s st3))"
    have "st1 = classify_orders ?s (working_copy ?l)" using q(1) by (simp add: sample_account_def)
    then have "rc_orders (match_ambiguous_orders sample_rg ?s st1) = [cancelling_order]"
      using c f by (simp add: match_ambiguous_orders_def ambiguous_positions_def sample_account_def Let_def)
    then have s3: "rc_orders st3 = [cancelling_order]"
      using observe_externals_keeps [OF q(2)] holdings_keep [OF q(3)] by simp
    have "\<not> absence_subject ?s cs cancelling_order" for cs
      by (simp add: absence_subject_def absence_evidence_complete_def sample_account_def Let_def)
    then have "rc_orders (note_absences sample_rg ?s st3) = [cancelling_order]"
      using s3 by (simp add: note_absences_def note_absence_def absence_subject_def Let_def)
    then show ?thesis using e liquidate_keeps capital_keeps by simp
  qed
  have "py_strip ''r1'' = ''r1''" by (simp add: py_strip_def py_space_def)
  then have "rc_reservations st ! 0 = lo_reservations ?l ! 0"
    by (intro capital_held_while_unsettled [OF st, of 0 cancelling_order])
      (simp_all add: o f v sample_local_def RESERVATION_TRANSITION_HOLD_STATUSES_def)
  with st show ?thesis by (simp add: sample_local_def)
qed

subsection \<open>A stale answer\<close>

lemma write_rows_each: "write_rows w xs t = Inr (ys, t') \<Longrightarrow> x \<in> set xs \<Longrightarrow> \<exists>t1 x' t2. w x t1 = Inr (x', t2)"
proof (induction xs arbitrary: t ys)
  case (Cons z zs)
  from Cons.prems(1) obtain z1 t1 us where "w z t = Inr (z1, t1)" "write_rows w zs t1 = Inr (us, t')"
    by (auto simp: bind_result_Inr_iff)
  with Cons.IH Cons.prems(2) show ?case by (metis set_ConsD)
qed simp


definition half_filled :: execution_order where
  "half_filled = exact_order\<lparr>eo_status := PARTIALLY_FILLED, eo_filled_quantity := 6, eo_remaining_quantity := 4\<rparr>"


subsection \<open>An earlier attempt\<close>

text \<open>(C40) The answer about a closed earlier attempt erases the tracking of the live one. A card tracks an
  order by its client id or by the attempt group. When a later attempt of the same group is live and
  the history still reports the earlier one as closed without a fill, projecting that row puts the card
  back on the buy list and clears its tracking, and the card no longer tracks the live order: the row
  of the live order projects onto nothing from then on.\<close>

theorem earlier_attempt_untracks_live_one:
  assumes "eo_side r = BUY" "eo_intent r = ENTRY" "eo_execution_policy r \<noteq> RESERVED_MOO_EXECUTION"
    "eo_attempt_group_id r = tc_entry_attempt_group_id c" "tc_entry_attempt_group_id c \<noteq> []"
    "snapshot_status b = Some t" "t \<in> TERMINAL_EXECUTION_ORDER_STATUSES" "sn_filled_quantity b \<le> 0"
    "eo_side n = BUY" "eo_client_order_id n \<noteq> []" "eo_client_order_id n \<noteq> eo_client_order_id r"
    "tc_entry_client_order_id c = eo_client_order_id n" "eo_attempt_group_id n = tc_entry_attempt_group_id c"
    "tc_broker_quantity c \<le> 0"
  shows "card_tracks_order (Some c) n \<and> card_tracks_order (Some c) r
    \<and> (\<exists>c'. project_exact_order_to_card r b s RC_TERMINAL_ORDER c = Inr (c', [])
         \<and> tc_board_status c' = BS_BUYLIST \<and> \<not> card_tracks_order (Some c') n)"
proof -
  have "project_exact_order_to_card r b s RC_TERMINAL_ORDER c = Inr (entry_ended c, [])"
    using assms(1-3,6-8) by (simp add: project_exact_order_to_card_def operational_category_def Let_def)
  then show ?thesis using assms
    by (simp add: card_tracks_order_def entry_ended_def clear_entry_card_tracking_def)
qed

definition attempt_order :: "string \<Rightarrow> string \<Rightarrow> execution_order_status \<Rightarrow> execution_order" where
  "attempt_order cid bid st = exact_order\<lparr>eo_client_order_id := cid, eo_broker_order_id := bid,
     eo_attempt_group_id := ''g'', eo_status := st\<rparr>"

definition waiting_entry :: trade_card where
  "waiting_entry = sample_card\<lparr>tc_board_status := BS_ENTRY_PENDING, tc_entry_client_order_id := ''c2'',
     tc_entry_attempt_group_id := ''g''\<rparr>"

theorem earlier_attempt_untracks_live_one_witness:
  "card_tracks_order (Some waiting_entry) (attempt_order ''c2'' ''B2'' WORKING)
   \<and> (\<exists>c'. project_exact_order_to_card (attempt_order ''c1'' ''B1'' CANCELLED) (sample_row ''B1'' OS_CANCELLED 0 0)
          (sample_account [] [] False 0 ''S'') RC_TERMINAL_ORDER waiting_entry = Inr (c', [])
        \<and> tc_board_status c' = BS_BUYLIST \<and> \<not> card_tracks_order (Some c') (attempt_order ''c2'' ''B2'' WORKING))"
  using earlier_attempt_untracks_live_one [of "attempt_order ''c1'' ''B1'' CANCELLED" waiting_entry
      "sample_row ''B1'' OS_CANCELLED 0 0" CANCELLED "attempt_order ''c2'' ''B2'' WORKING"
      "sample_account [] [] False 0 ''S''"]
  by (simp add: attempt_order_def waiting_entry_def sample_card_def blank_card_def sample_order_facts sample_row_def
      snapshot_status_def TERMINAL_EXECUTION_ORDER_STATUSES_def REGULAR_LIMIT_EXECUTION_def RESERVED_MOO_EXECUTION_def)

end
