(* ===== verification/Spec2Isabelle.thy ===== *)
theory Spec2Isabelle
  imports Market_Calendar Card_Migration Board_Action Stop_Change Symbol_Keys Entry_Safety Replace_Sample Reconcile_Sample
begin

text \<open>
  A trading application for US equities: a Kanban board of trade cards (one per environment,
  account and symbol) drives a runtime that submits orders to the KIS broker. This library models
  the part of it that decides: which card may move where, which order exists at the broker, who
  owns a symbol, what a board gesture may change and what protects a position. All file names
  below are relative to \<open>src/\<close> of the repository.

  \<^bold>\<open>Foundations.\<close> \<open>Prelude\<close> fixes how Python is represented:
  exceptions are \<open>error + 'a\<close>, a guard is an optional exception, strings are
  character lists, dictionaries with an order are association lists, others maps.
  \<open>Py_Float\<close> is IEEE binary64 with every rounding, including NaN, infinities and
  \<open>round\<close>. \<open>Transition_Graph\<close> is the interface of a status machine,
  \<open>Versioned_Store\<close> the interface of a table with optimistic concurrency
  (\<open>fenced_store\<close>, and \<open>versioned_store\<close>, which promises that a write
  depends on the version only). Each is a locale interpreted on every machine and table of the
  program.

  \<^bold>\<open>Status machines and records.\<close> \<open>Order_Types\<close>
  (\<open>core/order_state.py\<close>), \<open>Order_Recovery\<close>
  (\<open>core/order_recovery_state.py\<close>), \<open>Execution_Order\<close>
  (\<open>core/execution_order_record.py\<close>: the durable identity of an order),
  \<open>External_Order\<close> (\<open>core/discovered_external_order.py\<close>: broker orders
  without a local record and their adoption), \<open>Trade_Card\<close>
  (\<open>core/trade_card_state.py\<close>), \<open>Kanban\<close>
  (\<open>core/kanban_transitions.py\<close>), \<open>Market_Calendar\<close>
  (\<open>utils/market_calendar.py\<close>).

  \<^bold>\<open>Tables.\<close> \<open>Card_Store\<close> and \<open>Card_Migration\<close>
  (\<open>services/trade_card_repository.py\<close>), \<open>Ownership\<close>
  (\<open>core/execution_ownership.py\<close>,
  \<open>services/execution_ownership_repository.py\<close>), \<open>Order_Store\<close>
  (\<open>services/execution_order_repository.py\<close>), \<open>External_Store\<close>
  (\<open>services/discovered_external_order_repository.py\<close>). A table is the list of its
  keys in insertion order and a map from keys to rows; an SQL transaction is a function that
  returns the new table or an error and no table; a unique constraint is a guard of the write. The
  states a table can reach are an inductive step relation.

  \<^bold>\<open>Positions.\<close> \<open>Position\<close>
  (\<open>services/position_manager.py\<close>): stop arithmetic, stop changes, exits, price ticks
  and the reconciliation with the holdings the broker reports. \<open>Stop_Change\<close>
  (\<open>services/stop_change_coordinator.py\<close>): how the runtime sees a committed stop
  request. \<open>Symbol_Keys\<close> (\<open>services/kis_ws_symbol_keys.py\<close>): the key map
  of the market-data feed.

  \<^bold>\<open>The board.\<close> \<open>Board_Command\<close>
  (\<open>core/board_workflow.py\<close> and the policies and fences of
  \<open>services/execution_workflow_service.py\<close>), \<open>Board_Conflict\<close> (what
  forbids a request given the orders of the symbol), \<open>Board_Mutation\<close> (what a request
  changes on its card), \<open>Board_Safety\<close> (what those changes guarantee) and
  \<open>Board_Action\<close> (the whole request: first checks, ownership claim, transaction over
  the tables, publication).

  \<^bold>\<open>Capital.\<close> \<open>Float_Sum\<close> is Python's \<open>sum\<close> on
  doubles with its rounding error, \<open>Portfolio_Risk\<close>
  (\<open>risk/portfolio.py\<close>) the decision whether an entry fits the limits of the account,
  \<open>Reservation\<close> (\<open>core/capital_reservation.py\<close>) the capital set aside
  for one order, \<open>Reservation_Store\<close>
  (\<open>services/capital_reservation_repository.py\<close>) the table the devices share,
  \<open>Reservation_Safety\<close> what it guarantees, and \<open>Capital\<close>
  (\<open>services/capital_allocator.py\<close>) the ledger each device mirrors it in.

  \<^bold>\<open>Entries.\<close> \<open>Execution_Result\<close>
  (\<open>core/execution_result.py\<close>) is the common shape of a submission's result,
  \<open>Entry_Attempt\<close> (\<open>services/entry_attempt_manager.py\<close>) the attempts to
  enter a symbol and the resolution of their orders, \<open>Entry_Safety\<close> what they
  guarantee.

  \<^bold>\<open>Devices.\<close> \<open>Device_State\<close>
  (\<open>core/runtime_readiness.py\<close>,
  \<open>services/runtime_device_state_repository.py\<close>) is the readiness each device
  publishes, \<open>Device_Lease\<close> (\<open>services/state_sync.py\<close>,
  \<open>services/execution_authority.py\<close>,
  \<open>services/execution_lease_protocol.py\<close>) the one row that says which device may
  execute, and how a cached lease is checked against it.

  \<^bold>\<open>Before an order leaves.\<close> \<open>Live_Policy\<close>
  (\<open>services/trading_state.py\<close>, \<open>services/controlled_live_policy.py\<close>) is
  the kill switch and the live envelope, \<open>Position_Sizing\<close>
  (\<open>risk/orb_position.py\<close>, \<open>risk/position_sizer.py\<close>) how many shares a
  plan buys, \<open>Pre_Trade\<close> (\<open>risk/pre_trade.py\<close>) the approval an entry
  carries.

  \<^bold>\<open>The gateway.\<close> \<open>Command_Store\<close>
  (\<open>services/execution_command_repository.py\<close>) is the journal of commands.
  \<open>Gateway_Base\<close>, \<open>Gateway_Submit\<close> and \<open>Gateway_Cancel\<close>
  (\<open>services/execution_command_gateway.py\<close>) are the guarded submission and
  cancellation in the stages between which other devices run: checks, the transaction that
  journals command, reservation and order, the status before the call, the final gate, the
  broker's answer as an outcome, and the transaction that records it. \<open>Gateway_Steps\<close>
  makes them a transition system over one database with any number of calls in flight, crashes
  between stages and other writers, \<open>Gateway_Safety\<close> is its invariant,
  \<open>Gateway_Runs\<close> connects the handlers with it, \<open>Gateway_Claims\<close> and
  \<open>Gateway_Outcome\<close> are what follows. \<open>Gateway_Replace\<close> is the
  replacement of a working order composed of the two (checks, capital hold, cancellation, inquiry,
  second check, submission, and its resumption after a restart), \<open>Replace_Safety\<close> and
  \<open>Replace_Runs\<close> its guarantees, \<open>Replace_Sample\<close> one replacement
  carried through. \<open>Request_Scheduler\<close>
  (\<open>services/kis_request_scheduler.py\<close>) is the scheduler behind every broker request,
  \<open>Scheduler_Safety\<close> its runs.

  \<^bold>\<open>Account reconciliation.\<close> \<open>Account_Snapshot\<close>
  (\<open>core/account_broker_snapshot.py\<close> and the fetching part of
  \<open>services/account_reconciliation.py\<close>) is what one pass knows of the account at the
  broker, with a completeness flag per source. \<open>Reconcile_Order\<close> is what an answer,
  an absence or a suspicion does to an order and the only safe liquidation,
  \<open>Reconcile_Card\<close> the projection onto the card, \<open>Reconcile_Capital\<close> the
  settlement of shared reservations, \<open>Reconcile\<close> the reducer as the sequence of its
  phases, \<open>Reconcile_Apply\<close> the transaction of a plan and the pass with its one
  retry. \<open>Reconcile_Progress\<close>, \<open>Reconcile_Safety\<close> and
  \<open>Reconcile_Evidence\<close> carry invariants through the phases,
  \<open>Reconcile_Sample\<close> one account and the two cases in which a pass fails.

  \<^bold>\<open>What the theorems show.\<close> Safety across components: activation is exclusive
  per symbol also under races between the first checks and the transaction (C1), a stop request
  only tightens (C4), a gesture never changes broker facts (C14), a refused request has no effect
  (C17), the effect of an accepted one is confined (C18), adoption keeps the fence closed (C27),
  ownership moves only by explicit fenced claims (\<open>Board_Action\<close>), a committed stop
  request reaches the runtime (\<open>Stop_Change\<close>). The board refines its transition graph
  (C34). Capital is never promised twice (C2) and stays reserved exactly while an order may exist
  (C5); an approved entry is within the limits of the account (C16) and the transaction repeats
  the decision (C32); a symbol does not reach the broker more often than configured (C15).
  Invariants of the tables hold in all reachable states (C35). A journaled command reaches the
  broker boundary at most once (C3), never after it was retired (C19), and only through the final
  gate (C6); what the database says afterwards follows the broker's answer (C8), and the handlers
  are runs of the transition system (C24, C25). A replacement submits the new order only after an
  inquiry confirmed the old one cancelled without new fills (C7). Behind the boundary only
  confirmed refusals are repeated (C22), in controlled-live mode none (C30), within budgets (C21),
  without stalling (C31). A lease or readiness generation once superseded is never accepted again
  (C20). An account pass liquidates only when nothing competes (C9), moves order rows only forward
  and only at the version it loaded (C10), gives an order up only after two complete generations
  (C11), leaves no broker order unexplained (C12) and no capital behind an unsettled order freed
  (C13). The theorems of kind error state how the code fails; those listed as findings are defects
  the model shows.

  \<^bold>\<open>Bounds.\<close> Quantities and versions are Python's unbounded integers, prices
  and amounts IEEE doubles with every rounding. The breakeven stop is bounded between five cents
  and 100 million (\<open>Position\<close>), the sums of the capital table for at most a thousand
  rows and a thousand million dollars. \<open>sum\<close> is CPython 3.11's left fold (the locked
  interpreter; later ones compensate the error), rows are summed in insertion order. The search
  for the next market open has the code's own bound of days, proved to suffice; the other loops
  are structural recursions over lists.

  \<^bold>\<open>Parameters.\<close> The clock, the database's clock, generated ids, the
  environment variable with the strategy name, the resolved symbol key of the feed, the content of
  files, the redaction of broker payloads, the text form of moments and dates, the name-based id
  of an external order, the hash of a plan, the execution configuration, and the scheduler's
  answer to the gateway's budget question are arguments. Times are New York wall-clock moments:
  the time-zone database is outside the repository. Symbols and accounts are ASCII when they are
  upper-cased or stripped.

  \<^bold>\<open>Not modelled.\<close> Network clients (\<open>api/\<close>), the user interfaces
  (\<open>ui/\<close>, \<open>web/\<close>), analytics over data frames
  (\<open>core/scoring.py\<close> and the market modules), schema and file synchronisation, and
  the evidence gates are I/O or presentation. The trading engine, the device-handoff inventory and
  the legacy execution queue carry logic and are not modelled; where they submit an order for an
  entry attempt the submission is a parameter. Of the gateway, the local emergency journal used
  while the database is unavailable, and the read passthroughs are left out. A stage of the
  gateway that reads several rows sees one state of the database. Of the account pass, the
  in-process cache of the loader, the texts of the alerts and the daily summary are left out. Of
  the modelled files, dictionary serialisation (\<open>to_dict\<close>/\<open>from_dict\<close>),
  board projections and the order facade of the workflow service are left out. Threads appear as
  sequences of steps: each lock or transaction is one step.
\<close>

end
